(* ===== verification/Prelude.thy ===== *)
theory Prelude
  imports Main "HOL-Library.Word"
begin

text \<open>
  Shared vocabulary of the development: the machine integer types, the outcome monad that models
  C++ code which mutates an object and may throw, wrap-around subtraction on \<open>size_t\<close>, overwriting
  a slice of a byte sequence, and lemmas on memory that is cut into equally long chunks.
\<close>

unbundle bit_operations_syntax

named_theorems outcome_simps \<open>unfolding rules of the outcome monad\<close>
named_theorems slice_simps \<open>lemmas on overwriting a slice of a list\<close>

type_synonym u8 = "8 word"
type_synonym u16 = "16 word"
type_synonym u32 = "32 word"
type_synonym u64 = "64 word"

subsection \<open>State with exceptions\<close>

text \<open>
  A member function that reads and writes its object and may throw is a function from the object to
  an outcome (\<open>Inl\<close> an error, \<open>Inr\<close> the returned value) and the object afterwards. The object
  survives a throw, as it does in C++: what was already written stays written.
\<close>

type_synonym ('s, 'e, 'a) outcome = "'s \<Rightarrow> ('e + 'a) \<times> 's"

definition ret :: "'a \<Rightarrow> ('s, 'e, 'a) outcome" where
  "ret a = (\<lambda>s. (Inr a, s))"

definition throw :: "'e \<Rightarrow> ('s, 'e, 'a) outcome" where
  "throw e = (\<lambda>s. (Inl e, s))"

definition andThen :: "('s, 'e, 'a) outcome \<Rightarrow> ('a \<Rightarrow> ('s, 'e, 'b) outcome) \<Rightarrow> ('s, 'e, 'b) outcome" where
  "andThen m f = (\<lambda>s. case m s of (Inl e, s') \<Rightarrow> (Inl e, s') | (Inr a, s') \<Rightarrow> f a s')"

lemma ret_apply [outcome_simps]: "ret a s = (Inr a, s)"
  by (simp add: ret_def)

lemma throw_apply [outcome_simps]: "throw e s = (Inl e, s)"
  by (simp add: throw_def)

lemma andThen_Inr [outcome_simps]: "m s = (Inr a, s') \<Longrightarrow> andThen m f s = f a s'"
  by (simp add: andThen_def)

lemma andThen_Inl [outcome_simps]: "m s = (Inl e, s') \<Longrightarrow> andThen m f s = (Inl e, s')"
  by (simp add: andThen_def)

lemma andThen_ret: "andThen (ret a) f = f a"
  by (simp add: andThen_def ret_def fun_eq_iff)

lemma andThen_assoc: "andThen (andThen m f) g = andThen m (\<lambda>a. andThen (f a) g)"
  by (auto simp: andThen_def fun_eq_iff split: prod.splits sum.splits)

lemma andThen_eq_InrE:
  assumes "andThen m f s = (Inr b, s'')"
  obtains a s' where "m s = (Inr a, s')" and "f a s' = (Inr b, s'')"
  using assms by (auto simp: andThen_def split: prod.splits sum.splits)

subsection \<open>Unsigned 64-bit subtraction\<close>

text \<open>\<open>a - b\<close> on \<open>size_t\<close>: sizes are natural numbers below \<open>2 ^ 64\<close>, the difference wraps.\<close>

definition sub64 :: "nat \<Rightarrow> nat \<Rightarrow> nat" where
  "sub64 a b = (if b \<le> a then a - b else 2 ^ 64 + a - b)"

lemma sub64_le [simp]: "b \<le> a \<Longrightarrow> sub64 a b = a - b"
  by (simp add: sub64_def)

subsection \<open>Characters\<close>

text \<open>\<open>tolower\<close> of the C library in the C locale, as a code.\<close>

definition tolower :: "char \<Rightarrow> nat" where
  "tolower c = (let n = of_char c :: nat in if 65 \<le> n \<and> n \<le> 90 then n + 32 else n)"

subsection \<open>Overwriting a slice\<close>

definition put_at :: "nat \<Rightarrow> 'a list \<Rightarrow> 'a list \<Rightarrow> 'a list" where
  "put_at p bs xs = take p xs @ bs @ drop (p + length bs) xs"

lemma length_put_at [slice_simps]:
  "p + length bs \<le> length xs \<Longrightarrow> length (put_at p bs xs) = length xs"
  by (simp add: put_at_def)

lemma put_at_Nil [slice_simps]: "put_at p [] xs = xs"
  by (simp add: put_at_def)

lemma take_put_at [slice_simps]: "q \<le> p \<Longrightarrow> p \<le> length xs \<Longrightarrow> take q (put_at p bs xs) = take q xs"
  by (simp add: put_at_def min_def)

lemma drop_put_at [slice_simps]:
  "p \<le> length xs \<Longrightarrow> p + length bs \<le> q \<Longrightarrow> drop q (put_at p bs xs) = drop q xs"
  by (simp add: put_at_def)

lemma slice_put_at [slice_simps]:
  "p \<le> length xs \<Longrightarrow> take (length bs) (drop p (put_at p bs xs)) = bs"
  by (simp add: put_at_def)

lemma put_at_append:
  assumes "p + length as + length bs \<le> length xs"
  shows "put_at (p + length as) bs (put_at p as xs) = put_at p (as @ bs) xs"
proof -
  have "take (p + length as) (put_at p as xs) = take p xs @ as"
    using assms by (simp add: put_at_def min_absorb2)
  moreover have "drop (p + length as + length bs) (put_at p as xs) = drop (p + length as + length bs) xs"
    using assms by (simp add: slice_simps)
  ultimately show ?thesis by (simp add: put_at_def add.assoc)
qed

lemma put_at_append_end:
  "p \<le> length xs \<Longrightarrow> put_at (p + length as) bs (put_at p as xs) = put_at p (as @ bs) xs"
  by (simp add: put_at_def ac_simps)

lemma put_at_grow:
  "p + length bs \<le> length xs \<Longrightarrow> put_at p bs (xs @ ys) = put_at p bs xs @ ys"
  by (simp add: put_at_def)

lemma take_put_at_grow:
  assumes "p \<le> s" and "s \<le> length xs"
  shows "take (max s (p + length bs)) (put_at p bs (xs @ ys)) = put_at p bs (take s xs)"
proof -
  define pre where "pre = take p xs @ bs"
  let ?rest = "drop (p + length bs) (xs @ ys)"
  have pre: "put_at p bs (xs @ ys) = pre @ ?rest" "length pre = p + length bs"
    using assms by (simp_all add: put_at_def pre_def)
  have "put_at p bs (take s xs) = pre @ take (s - (p + length bs)) ?rest"
    using assms by (simp add: put_at_def pre_def min_absorb2 drop_take)
  moreover have "take (max s (p + length bs)) (pre @ ?rest) = pre @ take (s - (p + length bs)) ?rest"
    using pre(2) by (auto simp: max_def)
  ultimately show ?thesis using pre(1) by simp
qed

lemma map_nth_upt: "a + k \<le> length xs \<Longrightarrow> map (nth xs) [a ..< a + k] = take k (drop a xs)"
  by (rule nth_equalityI) auto

subsection \<open>Memory in equal chunks\<close>

lemma length_concat_chunks:
  "(\<forall>c \<in> set cs. length c = n) \<Longrightarrow> length (concat cs) = length cs * n"
  by (induction cs) auto

lemma drop_concat_chunks:
  "(\<forall>c \<in> set cs. length c = n) \<Longrightarrow> i \<le> length cs \<Longrightarrow> drop (i * n) (concat cs) = concat (drop i cs)"
proof (induction cs arbitrary: i)
  case Nil
  then show ?case by simp
next
  case (Cons c cs)
  show ?case
  proof (cases i)
    case 0
    then show ?thesis by simp
  next
    case (Suc j)
    with Cons.prems have "drop (j * n) (concat cs) = concat (drop j cs)"
      by (intro Cons.IH) auto
    with Suc Cons.prems show ?thesis by simp
  qed
qed

lemma concat_take_chunks:
  "(\<forall>c \<in> set cs. length c = n) \<Longrightarrow> i \<le> length cs \<Longrightarrow> take (i * n) (concat cs) = concat (take i cs)"
proof (induction cs arbitrary: i)
  case Nil
  then show ?case by simp
next
  case (Cons c cs)
  show ?case
  proof (cases i)
    case 0
    then show ?thesis by simp
  next
    case (Suc j)
    with Cons.prems have "take (j * n) (concat cs) = concat (take j cs)"
      by (intro Cons.IH) auto
    with Suc Cons.prems show ?thesis by simp
  qed
qed

text \<open>Reading inside one chunk, and writing inside one chunk, seen in the flat memory.\<close>

lemma slice_in_chunk:
  assumes "\<forall>c \<in> set cs. length c = n" and "i < length cs" and "q + k \<le> n"
  shows "take k (drop (i * n + q) (concat cs)) = take k (drop q (cs ! i))"
proof -
  have "drop (i * n) (concat cs) = cs ! i @ concat (drop (Suc i) cs)"
    using assms by (simp add: drop_concat_chunks Cons_nth_drop_Suc [symmetric])
  then have "drop (i * n + q) (concat cs) = drop q (cs ! i @ concat (drop (Suc i) cs))"
    by (metis add.commute drop_drop)
  then show ?thesis using assms by simp
qed

lemma put_at_in_chunk:
  assumes "\<forall>c \<in> set cs. length c = n" and "i < length cs" and "q + length bs \<le> n"
  shows "concat (cs[i := put_at q bs (cs ! i)]) = put_at (i * n + q) bs (concat cs)"
proof -
  let ?pre = "concat (take i cs)" and ?post = "concat (drop (Suc i) cs)" and ?c = "cs ! i"
  have "length ?pre = length (take i cs) * n"
    using assms(1) by (intro length_concat_chunks) (auto dest: in_set_takeD)
  then have len: "length ?pre = i * n" "length ?c = n"
    using assms by auto
  have "concat cs = ?pre @ ?c @ ?post"
    using assms(2) by (metis concat.simps(2) concat_append id_take_nth_drop)
  then have "put_at (i * n + q) bs (concat cs) = ?pre @ put_at q bs ?c @ ?post"
    using len assms(3) by (simp add: put_at_def add.assoc)
  then show ?thesis using assms(2) by (simp add: upd_conv_take_nth_drop)
qed

subsection \<open>Sums over a list with one element replaced\<close>

lemma sum_list_replace:
  fixes g :: "'a \<Rightarrow> 'b::comm_monoid_add"
  shows "i < length xs \<Longrightarrow> (\<Sum>x\<leftarrow>xs[i := y]. g x) + g (xs ! i) = (\<Sum>x\<leftarrow>xs. g x) + g y"
proof (induction xs arbitrary: i)
  case (Cons a xs)
  then show ?case by (cases i) (simp_all add: ac_simps)
qed simp

subsection \<open>Numbers as text\<close>

text \<open>What \<open>operator<<\<close> writes for an unsigned number, in decimal and in hexadecimal mode.\<close>

fun dec_of_nat :: "nat \<Rightarrow> string" where
  "dec_of_nat n = (if n < 10 then [char_of (48 + n)] else dec_of_nat (n div 10) @ [char_of (48 + n mod 10)])"

declare dec_of_nat.simps [simp del]

definition dec_of_int :: "int \<Rightarrow> string" where
  "dec_of_int i = (if i < 0 then CHR ''-'' # dec_of_nat (nat (- i)) else dec_of_nat (nat i))"

fun hex_of_nat :: "nat \<Rightarrow> string" where
  "hex_of_nat n = (if n < 16 then [''0123456789abcdef'' ! n] else hex_of_nat (n div 16) @ [''0123456789abcdef'' ! (n mod 16)])"

declare hex_of_nat.simps [simp del]

end
