(* ===== verification/Endian.thy ===== *)
theory Endian
  imports Prelude
begin

text \<open>
  Byte order (\<open>sylar/endian.h\<close>). \<open>mem_bytes\<close> is the object representation of an unsigned or
  two's complement integer on the little-endian hosts the library is built for, that is, what
  \<open>memcpy\<close> from the address of the integer sees; \<open>of_mem\<close> reads an object back.
\<close>

datatype endian = SYLAR_LITTLE_ENDIAN | SYLAR_BIG_ENDIAN

text \<open>\<open>BYTE_ORDER\<close> of the host: the branch of \<open>endian.h\<close> that defines \<open>byteswapOnLittleEndian\<close>.\<close>

definition SYLAR_BYTE_ORDER :: endian where
  "SYLAR_BYTE_ORDER = SYLAR_LITTLE_ENDIAN"

primrec mem_bytes :: "nat \<Rightarrow> 'a::len word \<Rightarrow> u8 list" where
  "mem_bytes 0 w = []"
| "mem_bytes (Suc n) w = ucast w # mem_bytes n (drop_bit 8 w)"

primrec of_mem :: "u8 list \<Rightarrow> 'a::len word" where
  "of_mem [] = 0"
| "of_mem (b # bs) = ucast b OR push_bit 8 (of_mem bs)"

text \<open>\<open>byteswap\<close>: the overload is chosen by \<open>sizeof(T)\<close>, \<open>bswap_16/32/64\<close> reverse the bytes.\<close>

definition byteswap :: "'a::len word \<Rightarrow> 'a word" where
  "byteswap w = of_mem (rev (mem_bytes (LENGTH('a) div 8) w))"

definition byteswapOnLittleEndian :: "'a::len word \<Rightarrow> 'a word" where
  "byteswapOnLittleEndian t = byteswap t"

definition byteswapOnBigEndian :: "'a::len word \<Rightarrow> 'a word" where
  "byteswapOnBigEndian t = t"

lemma length_mem_bytes [simp]: "length (mem_bytes n w) = n"
  by (induction n arbitrary: w) auto

lemma of_mem_mem_bytes: "of_mem (mem_bytes n w) = take_bit (8 * n) w"
proof (induction n arbitrary: w)
  case 0
  then show ?case by simp
next
  case (Suc n)
  show ?case
    by (rule bit_word_eqI) (auto simp: Suc bit_simps)
qed

lemma of_mem_mem_bytes_full:
  fixes w :: "'a::len word"
  shows "8 * n = LENGTH('a) \<Longrightarrow> of_mem (mem_bytes n w) = w"
  by (simp add: of_mem_mem_bytes)

lemma bit_of_mem_less: "bit (of_mem bs :: 'a::len word) n \<Longrightarrow> n < 8 * length bs"
proof (induction bs arbitrary: n)
  case Nil
  then show ?case by simp
next
  case (Cons b bs)
  from Cons.prems have "bit b n \<or> 8 \<le> n \<and> bit (of_mem bs :: 'a word) (n - 8)"
    by (auto simp: bit_simps)
  then show ?case
    using Cons.IH [of "n - 8"] by (auto dest: bit_imp_le_length)
qed

lemma mem_bytes_of_mem:
  "8 * length bs \<le> LENGTH('a::len) \<Longrightarrow> mem_bytes (length bs) (of_mem bs :: 'a word) = bs"
proof (induction bs)
  case Nil
  then show ?case by simp
next
  case (Cons b bs)
  have "ucast (of_mem (b # bs) :: 'a word) = b"
    by (rule bit_word_eqI) (use Cons.prems in \<open>auto simp: bit_simps\<close>)
  moreover have "drop_bit 8 (of_mem (b # bs) :: 'a word) = of_mem bs"
    by (rule bit_word_eqI)
      (use Cons.prems in \<open>auto simp: bit_simps dest: bit_imp_le_length bit_of_mem_less\<close>)
  ultimately show ?case using Cons by simp
qed

lemma mem_bytes_byteswap:
  fixes w :: "'a::len word"
  assumes "8 * n = LENGTH('a)"
  shows "mem_bytes n (byteswap w) = rev (mem_bytes n w)"
proof -
  have "LENGTH('a) div 8 = n" using assms by simp
  then show ?thesis
    using assms mem_bytes_of_mem [of "rev (mem_bytes n w)", where 'a = 'a]
    by (simp add: byteswap_def)
qed

lemma byteswap_byteswap:
  fixes w :: "'a::len word"
  assumes "8 * n = LENGTH('a)"
  shows "byteswap (byteswap w) = w"
proof -
  have n: "LENGTH('a) div 8 = n" using assms by simp
  have "byteswap (byteswap w) = of_mem (rev (mem_bytes n (byteswap w)))"
    by (simp add: byteswap_def [of "byteswap w"] n)
  also have "\<dots> = w"
    using assms by (simp add: mem_bytes_byteswap of_mem_mem_bytes_full)
  finally show ?thesis .
qed

text \<open>Where the bits go.\<close>

lemma bit_mem_bytes: "i < n \<Longrightarrow> bit (mem_bytes n w ! i) j \<longleftrightarrow> j < 8 \<and> bit w (8 * i + j)"
proof (induction n arbitrary: w i)
  case (Suc n)
  then show ?case by (cases i) (auto simp: bit_simps ac_simps)
qed simp

lemma bit_of_mem:
  "bit (of_mem bs :: 'a::len word) n \<longleftrightarrow> n < LENGTH('a) \<and> n div 8 < length bs \<and> bit (bs ! (n div 8)) (n mod 8)"
proof (induction bs arbitrary: n)
  case (Cons b bs)
  show ?case
  proof (cases "n < 8")
    case True
    then show ?thesis by (auto simp: bit_simps)
  next
    case False
    then have n: "n div 8 = Suc ((n - 8) div 8)" "(n - 8) mod 8 = n mod 8" by (simp_all add: le_div_geq le_mod_geq)
    have "\<not> bit b n" using False bit_imp_le_length [of b n] by auto
    then show ?thesis using False Cons.IH [of "n - 8"] by (auto simp: bit_simps n)
  qed
qed simp

lemma bit_byteswap:
  fixes w :: "'a::len word"
  assumes "8 * m = LENGTH('a)"
  shows "bit (byteswap w) n \<longleftrightarrow> n < LENGTH('a) \<and> bit w (8 * (m - 1 - n div 8) + n mod 8)"
proof -
  have m: "LENGTH('a) div 8 = m" using assms by simp
  have "n < LENGTH('a) \<Longrightarrow> n div 8 < m" using assms by (simp add: less_mult_imp_div_less mult.commute)
  then show ?thesis
    by (auto simp: byteswap_def m bit_of_mem rev_nth bit_mem_bytes)
qed

end
