(* ===== verification/ByteArray.thy ===== *)
theory ByteArray
  imports Endian
begin

text \<open>
  The growable buffer of \<open>sylar/bytearray.h\<close> and \<open>sylar/bytearray.cpp\<close>: a chain of blocks of
  \<open>m_baseSize\<close> bytes with a read/write position. The chain is owned by one object and only ever
  grows at its end (or is cut after its root), so it is modelled as the list of its nodes: a
  \<open>Node*\<close> is the index of the node, \<open>nullptr\<close> is \<open>None\<close>, \<open>m_root\<close> is index 0 and \<open>next\<close> is the
  following index. Faults of the source (a null \<open>m_cur\<close> followed, \<open>%\<close> by a zero block size, a
  \<open>memcpy\<close> past the end of a block) are outcomes of the model, next to the exceptions it throws.
\<close>

record node =
  nd_ptr :: "u8 list"
  nd_size :: nat

record bytearray =
  m_baseSize :: nat
  m_position :: nat
  m_capacity :: nat
  m_size :: nat
  m_endian :: endian
  m_nodes :: "node list"
  m_cur :: "nat option"
  m_fresh :: "nat \<Rightarrow> u8"

text \<open>
  \<open>m_fresh\<close> stands for the indeterminate contents of \<open>new char[s]\<close>: the byte that a fresh block
  holds at a given offset of the whole chain. Every theorem holds for every \<open>m_fresh\<close>.
\<close>

datatype ba_error =
    Out_of_range string
  | Null_deref
  | Div_by_zero
  | Buffer_overflow
  | Bad_stream
  | Endless_loop

definition new_node :: "(nat \<Rightarrow> u8) \<Rightarrow> nat \<Rightarrow> nat \<Rightarrow> node" where
  "new_node fresh off s = \<lparr>nd_ptr = map fresh [off ..< off + s], nd_size = s\<rparr>"

definition new_bytearray :: "(nat \<Rightarrow> u8) \<Rightarrow> nat \<Rightarrow> bytearray" where
  "new_bytearray fresh base_size =
     \<lparr>m_baseSize = base_size, m_position = 0, m_capacity = base_size, m_size = 0,
      m_endian = SYLAR_BIG_ENDIAN, m_nodes = [new_node fresh 0 base_size], m_cur = Some 0,
      m_fresh = fresh\<rparr>"

definition isLittleEndian :: "bytearray \<Rightarrow> bool" where
  "isLittleEndian ba \<longleftrightarrow> m_endian ba = SYLAR_LITTLE_ENDIAN"

definition setIsLittleEndian :: "bool \<Rightarrow> bytearray \<Rightarrow> bytearray" where
  "setIsLittleEndian val ba =
     (if val then ba\<lparr>m_endian := SYLAR_LITTLE_ENDIAN\<rparr> else ba\<lparr>m_endian := SYLAR_BIG_ENDIAN\<rparr>)"

definition getPosition :: "bytearray \<Rightarrow> nat" where
  "getPosition ba = m_position ba"

definition getBaseSize :: "bytearray \<Rightarrow> nat" where
  "getBaseSize ba = m_baseSize ba"

definition getReadSize :: "bytearray \<Rightarrow> nat" where
  "getReadSize ba = sub64 (m_size ba) (m_position ba)"

definition getSize :: "bytearray \<Rightarrow> nat" where
  "getSize ba = m_size ba"

definition getCapacity :: "bytearray \<Rightarrow> nat" where
  "getCapacity ba = sub64 (m_capacity ba) (m_position ba)"

subsection \<open>The chain of nodes\<close>

definition node_at :: "bytearray \<Rightarrow> nat option \<Rightarrow> node option" where
  "node_at ba p = (case p of None \<Rightarrow> None | Some i \<Rightarrow> if i < length (m_nodes ba) then Some (m_nodes ba ! i) else None)"

definition next_node :: "bytearray \<Rightarrow> nat \<Rightarrow> nat option" where
  "next_node ba i = (if Suc i < length (m_nodes ba) then Some (Suc i) else None)"

text \<open>\<open>memcpy\<close> into and out of one block, with the bound of the block made explicit.\<close>

definition memcpy_in :: "bytearray \<Rightarrow> nat \<Rightarrow> nat \<Rightarrow> u8 list \<Rightarrow> bytearray option" where
  "memcpy_in ba i npos bs =
     (let nd = m_nodes ba ! i in
      if npos + length bs \<le> length (nd_ptr nd)
      then Some (ba\<lparr>m_nodes := (m_nodes ba)[i := nd\<lparr>nd_ptr := put_at npos bs (nd_ptr nd)\<rparr>]\<rparr>)
      else None)"

definition memcpy_out :: "node \<Rightarrow> nat \<Rightarrow> nat \<Rightarrow> u8 list option" where
  "memcpy_out nd npos n =
     (if npos + n \<le> length (nd_ptr nd) then Some (take n (drop npos (nd_ptr nd))) else None)"

text \<open>
  \<open>addCapacity\<close>. The block count \<open>ceil(1.0 * size / m_baseSize)\<close> is a double computation; the
  integer quotient rounded up is its value for every request below \<open>2 ^ 53\<close> bytes, where \<open>size\<close> is
  exact and the rounded quotient cannot fall onto the integer below.
\<close>

definition block_count :: "nat \<Rightarrow> nat \<Rightarrow> nat" where
  "block_count sz base = (sz + base - 1) div base"

definition addCapacity :: "nat \<Rightarrow> (bytearray, ba_error, unit) outcome" where
  "addCapacity sz ba =
     (if sz = 0 then (Inr (), ba)
      else let old_cap = getCapacity ba in
      if sz \<le> old_cap then (Inr (), ba)
      else if m_baseSize ba = 0 then (Inl Div_by_zero, ba)
      else let count = block_count (sz - old_cap) (m_baseSize ba);
               first = length (m_nodes ba);
               fresh_nodes = map (\<lambda>k. new_node (m_fresh ba) (m_capacity ba + k * m_baseSize ba) (m_baseSize ba)) [0 ..< count];
               ba1 = ba\<lparr>m_nodes := m_nodes ba @ fresh_nodes,
                        m_capacity := m_capacity ba + count * m_baseSize ba\<rparr>
           in (Inr (), if old_cap = 0 then ba1\<lparr>m_cur := (if count = 0 then None else Some first)\<rparr> else ba1))"

subsection \<open>Writing and reading\<close>

function write_loop :: "nat \<Rightarrow> nat \<Rightarrow> u8 list \<Rightarrow> (bytearray, ba_error, unit) outcome" where
  "write_loop npos ncap buf ba =
     (if buf = [] then (Inr (), ba)
      else case node_at ba (m_cur ba) of
        None \<Rightarrow> (Inl Null_deref, ba)
      | Some nd \<Rightarrow>
         (let i = the (m_cur ba) in
          if length buf \<le> ncap then
            (case memcpy_in ba i npos buf of
               None \<Rightarrow> (Inl Buffer_overflow, ba)
             | Some ba1 \<Rightarrow>
                 (Inr (), ba1\<lparr>m_cur := (if nd_size nd = npos + length buf then next_node ba1 i else Some i),
                              m_position := m_position ba + length buf\<rparr>))
          else
            (case memcpy_in ba i npos (take ncap buf) of
               None \<Rightarrow> (Inl Buffer_overflow, ba)
             | Some ba1 \<Rightarrow>
                 (let ba2 = ba1\<lparr>m_cur := next_node ba1 i, m_position := m_position ba + ncap\<rparr> in
                  case next_node ba1 i of
                    None \<Rightarrow> (Inl Null_deref, ba2)
                  | Some j \<Rightarrow> write_loop 0 (nd_size (m_nodes ba2 ! j)) (drop ncap buf) ba2))))"
  by pat_completeness auto
termination
  by (relation "measure (\<lambda>(npos, ncap, buf, ba). length (m_nodes ba) - the (m_cur ba))")
    (auto simp: memcpy_in_def next_node_def node_at_def Let_def split: if_splits option.splits)

declare write_loop.simps [simp del]

definition ba_write :: "u8 list \<Rightarrow> (bytearray, ba_error, unit) outcome" where
  "ba_write buf =
     (if buf = [] then ret ()
      else andThen (addCapacity (length buf)) (\<lambda>_ ba.
        if m_baseSize ba = 0 then (Inl Div_by_zero, ba)
        else let npos = m_position ba mod m_baseSize ba in
          case node_at ba (m_cur ba) of
            None \<Rightarrow> (Inl Null_deref, ba)
          | Some nd \<Rightarrow>
              andThen (write_loop npos (sub64 (nd_size nd) npos) buf) (\<lambda>_ ba'.
                (Inr (), if m_position ba' > m_size ba' then ba'\<lparr>m_size := m_position ba'\<rparr> else ba')) ba))"

function read_loop :: "nat \<Rightarrow> nat \<Rightarrow> nat \<Rightarrow> (bytearray, ba_error, u8 list) outcome" where
  "read_loop npos ncap sz ba =
     (if sz = 0 then (Inr [], ba)
      else case node_at ba (m_cur ba) of
        None \<Rightarrow> (Inl Null_deref, ba)
      | Some nd \<Rightarrow>
         (let i = the (m_cur ba) in
          if sz \<le> ncap then
            (case memcpy_out nd npos sz of
               None \<Rightarrow> (Inl Buffer_overflow, ba)
             | Some bs \<Rightarrow>
                 (Inr bs, ba\<lparr>m_cur := (if nd_size nd = npos + sz then next_node ba i else Some i),
                             m_position := m_position ba + sz\<rparr>))
          else
            (case memcpy_out nd npos ncap of
               None \<Rightarrow> (Inl Buffer_overflow, ba)
             | Some bs \<Rightarrow>
                 (let ba2 = ba\<lparr>m_cur := next_node ba i, m_position := m_position ba + ncap\<rparr> in
                  case next_node ba i of
                    None \<Rightarrow> (Inl Null_deref, ba2)
                  | Some j \<Rightarrow>
                     (case read_loop 0 (nd_size (m_nodes ba2 ! j)) (sz - ncap) ba2 of
                        (Inl e, ba3) \<Rightarrow> (Inl e, ba3)
                      | (Inr rest, ba3) \<Rightarrow> (Inr (bs @ rest), ba3))))))"
  by pat_completeness auto
termination
  by (relation "measure (\<lambda>(npos, ncap, sz, ba). length (m_nodes ba) - the (m_cur ba))")
    (auto simp: next_node_def node_at_def split: if_splits option.splits)

declare read_loop.simps [simp del]

definition ba_read :: "nat \<Rightarrow> (bytearray, ba_error, u8 list) outcome" where
  "ba_read sz ba =
     (if sz > getReadSize ba then (Inl (Out_of_range ''not enough len''), ba)
      else if m_baseSize ba = 0 then (Inl Div_by_zero, ba)
      else let npos = m_position ba mod m_baseSize ba in
        case node_at ba (m_cur ba) of
          None \<Rightarrow> (Inl Null_deref, ba)
        | Some nd \<Rightarrow> read_loop npos (sub64 (nd_size nd) npos) sz ba)"

text \<open>
  The \<open>const\<close> overload \<open>read(buf, size, position)\<close>: it starts at \<open>m_cur\<close>, whatever \<open>position\<close>
  is, and takes only the offset in the block from \<open>position\<close>.
\<close>

function read_at_loop :: "bytearray \<Rightarrow> nat option \<Rightarrow> nat \<Rightarrow> nat \<Rightarrow> nat \<Rightarrow> ba_error + u8 list" where
  "read_at_loop ba cur npos ncap sz =
     (if sz = 0 then Inr []
      else case node_at ba cur of
        None \<Rightarrow> Inl Null_deref
      | Some nd \<Rightarrow>
          if sz \<le> ncap then
            (case memcpy_out nd npos sz of None \<Rightarrow> Inl Buffer_overflow | Some bs \<Rightarrow> Inr bs)
          else
            (case memcpy_out nd npos ncap of
               None \<Rightarrow> Inl Buffer_overflow
             | Some bs \<Rightarrow>
                 (case next_node ba (the cur) of
                    None \<Rightarrow> Inl Null_deref
                  | Some j \<Rightarrow>
                     (case read_at_loop ba (Some j) 0 (nd_size (m_nodes ba ! j)) (sz - ncap) of
                        Inl e \<Rightarrow> Inl e
                      | Inr rest \<Rightarrow> Inr (bs @ rest)))))"
  by pat_completeness auto
termination
  by (relation "measure (\<lambda>(ba, cur, npos, ncap, sz). length (m_nodes ba) - the cur)")
    (auto simp: next_node_def node_at_def split: if_splits option.splits)

declare read_at_loop.simps [simp del]

definition ba_read_at :: "bytearray \<Rightarrow> nat \<Rightarrow> nat \<Rightarrow> ba_error + u8 list" where
  "ba_read_at ba sz position =
     (if sz > sub64 (m_size ba) position then Inl (Out_of_range ''not enough len'')
      else if m_baseSize ba = 0 then Inl Div_by_zero
      else let npos = position mod m_baseSize ba in
        case node_at ba (m_cur ba) of
          None \<Rightarrow> Inl Null_deref
        | Some nd \<Rightarrow> read_at_loop ba (m_cur ba) npos (sub64 (nd_size nd) npos) sz)"

subsection \<open>Position, clearing\<close>

function seek_loop :: "bytearray \<Rightarrow> nat option \<Rightarrow> nat \<Rightarrow> ba_error + (nat option)" where
  "seek_loop ba cur v =
     (case node_at ba cur of
        None \<Rightarrow> Inl Null_deref
      | Some nd \<Rightarrow>
          if v > nd_size nd then seek_loop ba (next_node ba (the cur)) (v - nd_size nd)
          else if v = nd_size nd then Inr (next_node ba (the cur))
          else Inr cur)"
  by pat_completeness auto
termination
  by (relation "measure (\<lambda>(ba, cur, v). case cur of None \<Rightarrow> 0 | Some i \<Rightarrow> Suc (length (m_nodes ba)) - i)")
    (auto simp: next_node_def node_at_def split: if_splits option.splits)

declare seek_loop.simps [simp del]

definition setPosition :: "nat \<Rightarrow> (bytearray, ba_error, unit) outcome" where
  "setPosition v ba =
     (if v > m_capacity ba then (Inl (Out_of_range ''set_position out of range''), ba)
      else let ba1 = ba\<lparr>m_position := v\<rparr>;
               ba2 = (if m_position ba1 > m_size ba1 then ba1\<lparr>m_size := m_position ba1\<rparr> else ba1)
           in case seek_loop ba2 (Some 0) v of
                Inl e \<Rightarrow> (Inl e, ba2)
              | Inr cur \<Rightarrow> (Inr (), ba2\<lparr>m_cur := cur\<rparr>))"

definition ba_clear :: "bytearray \<Rightarrow> bytearray" where
  "ba_clear ba = ba\<lparr>m_position := 0, m_size := 0, m_capacity := m_baseSize ba,
                 m_nodes := take 1 (m_nodes ba), m_cur := Some 0\<rparr>"

definition ba_toString :: "bytearray \<Rightarrow> ba_error + u8 list" where
  "ba_toString ba = (if getReadSize ba = 0 then Inr [] else ba_read_at ba (getReadSize ba) (m_position ba))"

subsection \<open>Invariant and abstraction\<close>

text \<open>
  \<open>flat\<close> is the memory of the chain as one sequence of bytes. \<open>ba_chain\<close> says that all blocks have
  the base size, that the capacity counts them and that \<open>m_cur\<close> is the block of the position
  (\<open>nullptr\<close> exactly when the position is the capacity); \<open>ba_inv\<close> adds that the position lies in
  the data and the data in the capacity.
\<close>

definition flat :: "bytearray \<Rightarrow> u8 list" where
  "flat ba = concat (map nd_ptr (m_nodes ba))"

definition cur_at :: "bytearray \<Rightarrow> nat \<Rightarrow> nat option" where
  "cur_at ba p = (if p < length (m_nodes ba) * m_baseSize ba then Some (p div m_baseSize ba) else None)"

definition ba_sized :: "bytearray \<Rightarrow> bool" where
  "ba_sized ba \<longleftrightarrow> 0 < m_baseSize ba \<and> m_nodes ba \<noteq> []
     \<and> (\<forall>nd \<in> set (m_nodes ba). nd_size nd = m_baseSize ba \<and> length (nd_ptr nd) = m_baseSize ba)
     \<and> m_capacity ba = length (m_nodes ba) * m_baseSize ba"

definition ba_chain :: "bytearray \<Rightarrow> bool" where
  "ba_chain ba \<longleftrightarrow> ba_sized ba \<and> m_position ba \<le> m_capacity ba \<and> m_cur ba = cur_at ba (m_position ba)"

definition ba_inv :: "bytearray \<Rightarrow> bool" where
  "ba_inv ba \<longleftrightarrow> ba_chain ba \<and> m_position ba \<le> m_size ba \<and> m_size ba \<le> m_capacity ba"

text \<open>The abstract buffer: the data bytes and the position in them.\<close>

definition ba_data :: "bytearray \<Rightarrow> u8 list" where
  "ba_data ba = take (m_size ba) (flat ba)"

definition same_shape :: "bytearray \<Rightarrow> bytearray \<Rightarrow> bool" where
  "same_shape ba ba' \<longleftrightarrow> m_baseSize ba' = m_baseSize ba \<and> m_capacity ba' = m_capacity ba
     \<and> m_size ba' = m_size ba \<and> m_endian ba' = m_endian ba \<and> m_fresh ba' = m_fresh ba
     \<and> length (m_nodes ba') = length (m_nodes ba)"

lemma frame_simps [simp]:
  "flat (ba\<lparr>m_cur := c\<rparr>) = flat ba" "flat (ba\<lparr>m_position := p\<rparr>) = flat ba" "flat (ba\<lparr>m_size := n\<rparr>) = flat ba"
  "cur_at (ba\<lparr>m_cur := c\<rparr>) = cur_at ba" "cur_at (ba\<lparr>m_position := p\<rparr>) = cur_at ba"
  "cur_at (ba\<lparr>m_size := n\<rparr>) = cur_at ba" "ba_sized (ba\<lparr>m_cur := c\<rparr>) = ba_sized ba"
  "ba_sized (ba\<lparr>m_position := p\<rparr>) = ba_sized ba" "ba_sized (ba\<lparr>m_size := n\<rparr>) = ba_sized ba"
  "ba_chain (ba\<lparr>m_size := n\<rparr>) = ba_chain ba"
  by (simp_all add: flat_def cur_at_def ba_sized_def ba_chain_def fun_eq_iff)

lemma ba_sizedD:
  assumes "ba_sized ba"
  shows "0 < m_baseSize ba" and "m_nodes ba \<noteq> []"
    and "\<And>i. i < length (m_nodes ba) \<Longrightarrow> nd_size (m_nodes ba ! i) = m_baseSize ba"
    and "\<And>i. i < length (m_nodes ba) \<Longrightarrow> length (nd_ptr (m_nodes ba ! i)) = m_baseSize ba"
    and "m_capacity ba = length (m_nodes ba) * m_baseSize ba"
    and "\<forall>c \<in> set (map nd_ptr (m_nodes ba)). length c = m_baseSize ba"
  using assms by (auto simp: ba_sized_def)

lemma length_flat: "ba_sized ba \<Longrightarrow> length (flat ba) = m_capacity ba"
  using length_concat_chunks [OF ba_sizedD(6)] by (simp add: flat_def ba_sizedD(5))

lemma length_ba_data: "ba_inv ba \<Longrightarrow> length (ba_data ba) = m_size ba"
  by (simp add: ba_data_def ba_inv_def ba_chain_def length_flat)

lemma same_shape_refl [simp]: "same_shape ba ba"
  by (simp add: same_shape_def)

lemma same_shape_trans: "same_shape a b \<Longrightarrow> same_shape b c \<Longrightarrow> same_shape a c"
  by (simp add: same_shape_def)

lemma memcpy_in_flat:
  assumes "ba_sized ba" and "i < length (m_nodes ba)" and "q + length bs \<le> m_baseSize ba"
  obtains ba1 where "memcpy_in ba i q bs = Some ba1" and "ba_sized ba1" and "same_shape ba ba1"
    and "m_cur ba1 = m_cur ba" and "m_position ba1 = m_position ba"
    and "flat ba1 = put_at (i * m_baseSize ba + q) bs (flat ba)"
proof
  let ?nd = "m_nodes ba ! i"
  let ?ba1 = "ba\<lparr>m_nodes := (m_nodes ba)[i := ?nd\<lparr>nd_ptr := put_at q bs (nd_ptr ?nd)\<rparr>]\<rparr>"
  note sz = ba_sizedD [OF assms(1)]
  show "memcpy_in ba i q bs = Some ?ba1"
    using assms sz(4) by (simp add: memcpy_in_def Let_def)
  show "ba_sized ?ba1"
    using assms sz(3,4) by (auto simp: ba_sized_def slice_simps dest!: subsetD [OF set_update_subset_insert])
  have "map nd_ptr (m_nodes ?ba1) = (map nd_ptr (m_nodes ba))[i := put_at q bs (map nd_ptr (m_nodes ba) ! i)]"
    using assms(2) by (simp add: map_update)
  then show "flat ?ba1 = put_at (i * m_baseSize ba + q) bs (flat ba)"
    unfolding flat_def using put_at_in_chunk [OF sz(6)] assms by simp
qed (simp_all add: same_shape_def)

lemma memcpy_out_flat:
  assumes "ba_sized ba" and "i < length (m_nodes ba)" and "q + k \<le> m_baseSize ba"
  shows "memcpy_out (m_nodes ba ! i) q k = Some (take k (drop (i * m_baseSize ba + q) (flat ba)))"
  using slice_in_chunk [OF ba_sizedD(6) [OF assms(1)], of i q k] assms ba_sizedD(4) [OF assms(1)]
  by (simp add: memcpy_out_def flat_def)

text \<open>Where the position is, in blocks and offset.\<close>

lemma chain_position:
  assumes "ba_chain ba" and "m_position ba < m_capacity ba"
  obtains i q where "m_position ba = i * m_baseSize ba + q" and "q < m_baseSize ba"
    and "i < length (m_nodes ba)" and "m_cur ba = Some i" and "m_position ba mod m_baseSize ba = q"
    and "node_at ba (m_cur ba) = Some (m_nodes ba ! i)"
proof
  let ?i = "m_position ba div m_baseSize ba" and ?q = "m_position ba mod m_baseSize ba"
  have s: "ba_sized ba" using assms by (simp add: ba_chain_def)
  show "m_position ba = ?i * m_baseSize ba + ?q" by simp
  show "?q < m_baseSize ba" using ba_sizedD(1) [OF s] by simp
  show i: "?i < length (m_nodes ba)"
    using assms(2) ba_sizedD(5) [OF s] by (simp add: less_mult_imp_div_less)
  show "m_cur ba = Some ?i"
    using assms ba_sizedD(5) [OF s] by (simp add: ba_chain_def cur_at_def)
  with i show "node_at ba (m_cur ba) = Some (m_nodes ba ! ?i)"
    by (simp add: node_at_def)
qed simp

lemma next_node_cur_at: "ba_sized ba \<Longrightarrow> next_node ba i = cur_at ba (Suc i * m_baseSize ba)"
  using ba_sizedD(1) [of ba]
  by (auto simp: next_node_def cur_at_def simp del: mult_Suc)

lemma cur_at_same_shape: "same_shape ba ba' \<Longrightarrow> cur_at ba' p = cur_at ba p"
  by (simp add: same_shape_def cur_at_def)

lemma next_node_same_shape: "same_shape ba ba' \<Longrightarrow> next_node ba' i = next_node ba i"
  by (simp add: same_shape_def next_node_def)

lemma cur_at_inside:
  assumes "ba_sized ba" and "i < length (m_nodes ba)" and "q < m_baseSize ba"
  shows "cur_at ba (i * m_baseSize ba + q) = Some i"
proof -
  have "i * m_baseSize ba + q < Suc i * m_baseSize ba" using assms(3) by simp
  also have "\<dots> \<le> length (m_nodes ba) * m_baseSize ba" using assms(2) by (intro mult_le_mono) auto
  finally show ?thesis using assms by (simp add: cur_at_def)
qed

text \<open>The cursor after a transfer of \<open>k\<close> bytes inside block \<open>i\<close>, as both loops compute it.\<close>

lemma cur_after:
  assumes "ba_sized ba" and "i < length (m_nodes ba)" and "q + k \<le> m_baseSize ba"
  shows "(if m_baseSize ba = q + k then next_node ba i else Some i) = cur_at ba (i * m_baseSize ba + q + k)"
proof (cases "m_baseSize ba = q + k")
  case True
  have "Suc i * m_baseSize ba = i * m_baseSize ba + q + k" using True by simp
  then show ?thesis using True next_node_cur_at [OF assms(1), of i] by metis
next
  case False
  then show ?thesis using cur_at_inside [OF assms(1,2), of "q + k"] assms(3) by (simp add: add.assoc)
qed

lemma last_block:
  assumes "ba_sized ba" and "i < length (m_nodes ba)" and "q < m_baseSize ba"
    and "i * m_baseSize ba + q + k \<le> m_capacity ba" and "m_baseSize ba - q < k"
  shows "Suc i < length (m_nodes ba)"
proof -
  have "Suc i * m_baseSize ba < length (m_nodes ba) * m_baseSize ba"
    using assms ba_sizedD(5) [OF assms(1)] by simp
  then show ?thesis by (simp only: mult_less_cancel2)
qed

text \<open>One \<open>memcpy\<close> of a transfer, with the cursor moved behind it, keeps the chain.\<close>

lemma chain_move:
  assumes "ba_sized ba" and "p \<le> m_capacity ba" and "cur = cur_at ba p"
  shows "ba_chain (ba\<lparr>m_cur := cur, m_position := p\<rparr>)"
  using assms by (simp add: ba_chain_def ba_sized_def cur_at_def)

lemma write_block:
  assumes "ba_chain ba" and "i < length (m_nodes ba)" and "q + length bs \<le> m_baseSize ba"
    and "m_position ba = i * m_baseSize ba + q" and "m_position ba + length bs \<le> m_capacity ba"
  obtains ba1 where "memcpy_in ba i q bs = Some ba1" and "same_shape ba ba1"
    and "ba_chain (ba1\<lparr>m_cur := cur_at ba (m_position ba + length bs), m_position := m_position ba + length bs\<rparr>)"
    and "flat ba1 = put_at (m_position ba) bs (flat ba)"
proof -
  have "ba_sized ba" using assms(1) by (simp add: ba_chain_def)
  then obtain ba1 where b: "memcpy_in ba i q bs = Some ba1" "ba_sized ba1" "same_shape ba ba1"
      "flat ba1 = put_at (m_position ba) bs (flat ba)"
    using memcpy_in_flat assms(2,3,4) by metis
  have "m_capacity ba1 = m_capacity ba" using b(3) by (simp add: same_shape_def)
  then have "ba_chain (ba1\<lparr>m_cur := cur_at ba (m_position ba + length bs), m_position := m_position ba + length bs\<rparr>)"
    using b(2) assms(5) cur_at_same_shape [OF b(3)] by (intro chain_move) simp_all
  then show thesis using that b by blast
qed

lemma flat_move [simp]: "flat (ba\<lparr>m_cur := c, m_position := p\<rparr>) = flat ba"
  by (simp add: flat_def)

lemma same_shape_move [simp]: "same_shape ba (ba1\<lparr>m_cur := c, m_position := p\<rparr>) = same_shape ba ba1"
  by (simp add: same_shape_def)

text \<open>The two branches of the write loop: the rest fits the block, or the block is filled.\<close>

lemma write_loop_fits:
  assumes "ba_chain ba" and "i < length (m_nodes ba)" and "m_cur ba = Some i" and "q < m_baseSize ba"
    and pos: "m_position ba = i * m_baseSize ba + q" and "buf \<noteq> []" and "q + length buf \<le> m_baseSize ba"
    and "m_position ba + length buf \<le> m_capacity ba"
  shows "\<exists>ba'. write_loop q (m_baseSize ba - q) buf ba = (Inr (), ba') \<and> ba_chain ba' \<and> same_shape ba ba'
    \<and> m_position ba' = m_position ba + length buf \<and> flat ba' = put_at (m_position ba) buf (flat ba)"
proof -
  have s: "ba_sized ba" using assms(1) by (simp add: ba_chain_def)
  obtain ba1 where b: "memcpy_in ba i q buf = Some ba1" "same_shape ba ba1"
      "ba_chain (ba1\<lparr>m_cur := cur_at ba (m_position ba + length buf), m_position := m_position ba + length buf\<rparr>)"
      "flat ba1 = put_at (m_position ba) buf (flat ba)"
    using write_block [OF assms(1,2,7) pos assms(8)] by blast
  have c: "(if m_baseSize ba = q + length buf then next_node ba1 i else Some i) = cur_at ba (m_position ba + length buf)"
    unfolding next_node_same_shape [OF b(2)] pos by (rule cur_after [OF s assms(2,7)])
  have "length buf \<le> m_baseSize ba - q" using assms(4,7) by simp
  then have "write_loop q (m_baseSize ba - q) buf ba = (Inr (), ba1\<lparr>m_cur := cur_at ba (m_position ba + length buf),
      m_position := m_position ba + length buf\<rparr>)"
    using assms b(1) ba_sizedD(3) [OF s assms(2)] c
    by (simp add: write_loop.simps node_at_def Let_def split del: if_split)
  with b show ?thesis by simp
qed

lemma write_loop_fills:
  assumes "ba_chain ba" and "i < length (m_nodes ba)" and "m_cur ba = Some i" and "q < m_baseSize ba"
    and pos: "m_position ba = i * m_baseSize ba + q" and "m_baseSize ba - q < length buf"
    and "m_position ba + length buf \<le> m_capacity ba"
  shows "\<exists>ba2. write_loop q (m_baseSize ba - q) buf ba = write_loop 0 (m_baseSize ba) (drop (m_baseSize ba - q) buf) ba2
    \<and> ba_chain ba2 \<and> same_shape ba ba2 \<and> m_position ba2 = Suc i * m_baseSize ba
    \<and> flat ba2 = put_at (m_position ba) (take (m_baseSize ba - q) buf) (flat ba)"
proof -
  let ?B = "m_baseSize ba" and ?bs = "take (m_baseSize ba - q) buf"
  have s: "ba_sized ba" using assms(1) by (simp add: ba_chain_def)
  have len: "length ?bs = ?B - q" using assms(6) by simp
  have fit: "q + length ?bs \<le> ?B" "m_position ba + length ?bs \<le> m_capacity ba"
    using len assms(4,6,7) by simp_all
  obtain ba1 where b: "memcpy_in ba i q ?bs = Some ba1" "same_shape ba ba1"
      "ba_chain (ba1\<lparr>m_cur := cur_at ba (m_position ba + length ?bs), m_position := m_position ba + length ?bs\<rparr>)"
      "flat ba1 = put_at (m_position ba) ?bs (flat ba)"
    using write_block [OF assms(1,2) fit(1) pos fit(2)] by blast
  have p2: "m_position ba + (?B - q) = Suc i * ?B" using pos assms(4) by simp
  have si: "Suc i < length (m_nodes ba)"
    using last_block [OF s assms(2,4), of "length buf"] assms(6,7) pos by simp
  have nx: "next_node ba1 i = cur_at ba (m_position ba + (?B - q))"
    using next_node_cur_at [OF s, of i] next_node_same_shape [OF b(2)] p2 by simp
  have nd: "next_node ba1 i = Some (Suc i)" "nd_size (m_nodes ba1 ! Suc i) = ?B"
    using si b(2,3) by (auto simp: same_shape_def next_node_def ba_chain_def ba_sized_def)
  let ?ba2 = "ba1\<lparr>m_cur := next_node ba1 i, m_position := m_position ba + (?B - q)\<rparr>"
  have "write_loop q (?B - q) buf ba = write_loop 0 ?B (drop (?B - q) buf) ?ba2"
    using assms(2,3,6) b(1) nd
    by (cases "buf = []") (simp_all add: write_loop.simps [of q "?B - q" buf ba] node_at_def Let_def)
  then show ?thesis using b nx len p2 by (intro exI [of _ ?ba2]) simp
qed

lemma write_loop_correct:
  assumes "ba_chain ba" and "m_position ba + length buf \<le> m_capacity ba"
  shows "\<exists>ba'. write_loop (m_position ba mod m_baseSize ba) (m_baseSize ba - m_position ba mod m_baseSize ba) buf ba = (Inr (), ba')
    \<and> ba_chain ba' \<and> same_shape ba ba' \<and> m_position ba' = m_position ba + length buf
    \<and> flat ba' = put_at (m_position ba) buf (flat ba)"
  using assms
proof (induction "length buf" arbitrary: buf ba rule: less_induct)
  case less
  show ?case
  proof (cases "buf = []")
    case True
    with less.prems show ?thesis by (simp add: write_loop.simps slice_simps)
  next
    case False
    then have "m_position ba < m_capacity ba" using less.prems(2) by (cases buf) auto
    with less.prems(1) obtain i q where pos: "m_position ba = i * m_baseSize ba + q" "q < m_baseSize ba"
      and i: "i < length (m_nodes ba)" "m_cur ba = Some i" "m_position ba mod m_baseSize ba = q"
      by (rule chain_position)
    show ?thesis
    proof (cases "q + length buf \<le> m_baseSize ba")
      case True
      then show ?thesis
        unfolding i(3) using write_loop_fits [OF less.prems(1) i(1,2) pos(2,1) False _ less.prems(2)] by blast
    next
      case fills: False
      then have "m_baseSize ba - q < length buf" using pos(2) by simp
      with write_loop_fills [OF less.prems(1) i(1,2) pos(2,1) _ less.prems(2)] obtain ba2 where
        run: "write_loop q (m_baseSize ba - q) buf ba = write_loop 0 (m_baseSize ba) (drop (m_baseSize ba - q) buf) ba2"
        and c2: "ba_chain ba2" "same_shape ba ba2" "m_position ba2 = Suc i * m_baseSize ba"
        and f2: "flat ba2 = put_at (m_position ba) (take (m_baseSize ba - q) buf) (flat ba)"
        by blast
      let ?rest = "drop (m_baseSize ba - q) buf"
      have sh: "m_baseSize ba2 = m_baseSize ba" "m_capacity ba2 = m_capacity ba"
        using c2(2) by (simp_all add: same_shape_def)
      have rest: "length ?rest < length buf" "m_position ba2 + length ?rest = m_position ba + length buf"
        using pos fills c2(3) by simp_all
      obtain ba' where r: "write_loop 0 (m_baseSize ba) ?rest ba2 = (Inr (), ba')" "ba_chain ba'" "same_shape ba2 ba'"
          "m_position ba' = m_position ba2 + length ?rest" "flat ba' = put_at (m_position ba2) ?rest (flat ba2)"
        using less.hyps [OF rest(1) c2(1)] rest(2) less.prems(2) sh c2(3) by auto
      have "flat ba' = put_at (m_position ba) buf (flat ba)"
        using put_at_append [of "m_position ba" "take (m_baseSize ba - q) buf" ?rest "flat ba"]
          length_flat [of ba] less.prems r(5) f2 c2(3) pos fills by (simp add: ba_chain_def ac_simps)
      then show ?thesis
        unfolding i(3) using run r rest(2) same_shape_trans [OF c2(2) r(3)] by simp
    qed
  qed
qed

text \<open>Reading walks the chain in the same way; the bytes are those of \<open>flat\<close>.\<close>

lemma read_loop_fits:
  assumes "ba_chain ba" and "i < length (m_nodes ba)" and "m_cur ba = Some i" and "q < m_baseSize ba"
    and pos: "m_position ba = i * m_baseSize ba + q" and "k \<noteq> 0" and "q + k \<le> m_baseSize ba"
  shows "read_loop q (m_baseSize ba - q) k ba =
    (Inr (take k (drop (m_position ba) (flat ba))),
     ba\<lparr>m_cur := cur_at ba (m_position ba + k), m_position := m_position ba + k\<rparr>)"
proof -
  have s: "ba_sized ba" using assms(1) by (simp add: ba_chain_def)
  have c: "(if m_baseSize ba = q + k then next_node ba i else Some i) = cur_at ba (m_position ba + k)"
    unfolding pos by (rule cur_after [OF s assms(2,7)])
  have "k \<le> m_baseSize ba - q" using assms(4,7) by simp
  then show ?thesis
    using assms memcpy_out_flat [OF s assms(2,7)] ba_sizedD(3) [OF s assms(2)] c
    by (simp add: read_loop.simps node_at_def Let_def split del: if_split)
qed

lemma read_loop_drains:
  assumes "ba_chain ba" and "i < length (m_nodes ba)" and "m_cur ba = Some i" and "q < m_baseSize ba"
    and pos: "m_position ba = i * m_baseSize ba + q" and "m_baseSize ba - q < k"
    and "m_position ba + k \<le> m_capacity ba"
    and ba2: "ba2 = ba\<lparr>m_cur := Some (Suc i), m_position := Suc i * m_baseSize ba\<rparr>"
  shows "ba_chain ba2"
    and "read_loop 0 (m_baseSize ba) (k - (m_baseSize ba - q)) ba2 = (Inr bs, ba3) \<Longrightarrow>
      read_loop q (m_baseSize ba - q) k ba =
        (Inr (take (m_baseSize ba - q) (drop (m_position ba) (flat ba)) @ bs), ba3)"
proof -
  let ?B = "m_baseSize ba"
  have s: "ba_sized ba" using assms(1) by (simp add: ba_chain_def)
  have si: "Suc i < length (m_nodes ba)"
    using last_block [OF s assms(2,4), of k] assms(6,7) pos by simp
  have nx: "next_node ba i = Some (Suc i)" using si by (simp add: next_node_def)
  have p2: "m_position ba + (?B - q) = Suc i * ?B" using pos assms(4) by simp
  show "ba_chain ba2"
    unfolding ba2 using s nx next_node_cur_at [OF s, of i] p2 assms(6,7)
    by (intro chain_move) (simp_all del: mult_Suc)
  assume "read_loop 0 ?B (k - (?B - q)) ba2 = (Inr bs, ba3)"
  moreover have "memcpy_out (m_nodes ba ! i) q (?B - q) = Some (take (?B - q) (drop (m_position ba) (flat ba)))"
    unfolding pos using assms(4) by (intro memcpy_out_flat [OF s assms(2)]) simp
  ultimately show "read_loop q (?B - q) k ba = (Inr (take (?B - q) (drop (m_position ba) (flat ba)) @ bs), ba3)"
    using assms(2,3,6) nx ba_sizedD(3) [OF s si] p2 ba2
    by (simp add: read_loop.simps [of q "?B - q" k ba] node_at_def Let_def del: mult_Suc)
qed

lemma read_loop_correct:
  assumes "ba_chain ba" and "m_position ba + k \<le> m_capacity ba"
  shows "read_loop (m_position ba mod m_baseSize ba) (m_baseSize ba - m_position ba mod m_baseSize ba) k ba =
    (Inr (take k (drop (m_position ba) (flat ba))),
     ba\<lparr>m_cur := cur_at ba (m_position ba + k), m_position := m_position ba + k\<rparr>)"
  using assms
proof (induction k arbitrary: ba rule: less_induct)
  case (less k)
  show ?case
  proof (cases "k = 0")
    case True
    with less.prems(1) show ?thesis by (simp add: read_loop.simps ba_chain_def)
  next
    case False
    then have "m_position ba < m_capacity ba" using less.prems(2) by simp
    with less.prems(1) obtain i q where pos: "m_position ba = i * m_baseSize ba + q" "q < m_baseSize ba"
      and i: "i < length (m_nodes ba)" "m_cur ba = Some i" "m_position ba mod m_baseSize ba = q"
      by (rule chain_position)
    show ?thesis
    proof (cases "q + k \<le> m_baseSize ba")
      case True
      then show ?thesis
        unfolding i(3) by (rule read_loop_fits [OF less.prems(1) i(1,2) pos(2,1) False])
    next
      case drains: False
      let ?B = "m_baseSize ba"
      let ?ba2 = "ba\<lparr>m_cur := Some (Suc i), m_position := Suc i * ?B\<rparr>" and ?k = "k - (?B - q)"
      have k: "?B - q < k" "?k < k" using drains pos(2) by simp_all
      note dr = read_loop_drains [OF less.prems(1) i(1,2) pos(2,1) k(1) less.prems(2) refl]
      have e: "Suc i * ?B + ?k = m_position ba + k" using pos k by simp
      have "read_loop 0 ?B ?k ?ba2 = (Inr (take ?k (drop (Suc i * ?B) (flat ba))),
          ba\<lparr>m_cur := cur_at ba (m_position ba + k), m_position := m_position ba + k\<rparr>)"
        using less.IH [OF k(2) dr(1)] e less.prems(2) by (simp add: cur_at_def flat_def del: mult_Suc)
      from dr(2) [OF this] show ?thesis
        using e take_add [of "?B - q" ?k "drop (m_position ba) (flat ba)"] pos k i(3)
        by (simp add: drop_drop add.commute)
    qed
  qed
qed

lemma block_count_enough: "0 < b \<Longrightarrow> n \<le> block_count n b * b"
proof -
  assume "0 < b"
  have "n + b - 1 = block_count n b * b + (n + b - 1) mod b"
    by (simp add: block_count_def)
  moreover have "(n + b - 1) mod b \<le> b - 1"
    using \<open>0 < b\<close> by (metis Suc_pred' less_Suc_eq_le mod_less_divisor)
  ultimately show ?thesis using \<open>0 < b\<close> by linarith
qed

text \<open>What \<open>addCapacity\<close> keeps: everything but the end of the chain.\<close>

definition extends :: "bytearray \<Rightarrow> bytearray \<Rightarrow> bool" where
  "extends ba ba' \<longleftrightarrow> m_baseSize ba' = m_baseSize ba \<and> m_position ba' = m_position ba
     \<and> m_size ba' = m_size ba \<and> m_endian ba' = m_endian ba \<and> m_fresh ba' = m_fresh ba
     \<and> m_capacity ba \<le> m_capacity ba' \<and> (\<exists>ys. flat ba' = flat ba @ ys)"

lemma extends_refl [simp]: "extends ba ba"
  by (simp add: extends_def)

lemma addCapacity_grows:
  assumes "ba_chain ba" and "m_capacity ba < m_position ba + n"
  obtains ba' where "addCapacity n ba = (Inr (), ba')" and "ba_chain ba'" and "extends ba ba'"
    and "m_position ba + n \<le> m_capacity ba'"
proof -
  let ?B = "m_baseSize ba" and ?L = "length (m_nodes ba)"
  have s: "ba_sized ba" and le: "m_position ba \<le> m_capacity ba" and cur: "m_cur ba = cur_at ba (m_position ba)"
    using assms(1) by (simp_all add: ba_chain_def)
  note sz = ba_sizedD [OF s]
  define old where "old = m_capacity ba - m_position ba"
  define c where "c = block_count (n - old) ?B"
  let ?ns = "map (\<lambda>k. new_node (m_fresh ba) (m_capacity ba + k * ?B) ?B) [0 ..< c]"
  let ?ba1 = "ba\<lparr>m_nodes := m_nodes ba @ ?ns, m_capacity := m_capacity ba + c * ?B\<rparr>"
  let ?ba' = "if old = 0 then ?ba1\<lparr>m_cur := Some ?L\<rparr> else ?ba1"
  have enough: "n - old \<le> c * ?B" unfolding c_def using sz(1) by (rule block_count_enough)
  then have c: "0 < c" using assms(2) le by (cases c) (auto simp: old_def)
  have run: "addCapacity n ba = (Inr (), ?ba')"
    using assms(2) le sz(1) c by (auto simp: addCapacity_def getCapacity_def Let_def old_def c_def)
  have new: "ba_sized ?ba1"
    using s c by (auto simp: ba_sized_def new_node_def distrib_right)
  have "cur_at ?ba1 (m_position ba) = (if old = 0 then Some ?L else m_cur ba)"
  proof (cases "old = 0")
    case True
    then have p: "m_position ba = ?L * ?B" using le sz(5) by (simp add: old_def)
    then have "m_position ba < (?L + c) * ?B" using c sz(1) by (simp add: distrib_right)
    with p True sz(1) show ?thesis by (simp add: cur_at_def)
  next
    case False
    then have "m_position ba < ?L * ?B" using sz(5) by (simp add: old_def)
    then show ?thesis using False cur by (simp add: cur_at_def distrib_right)
  qed
  then have "ba_chain ?ba'"
    using new le by (simp add: ba_chain_def)
  moreover have "extends ba ?ba'" by (simp add: extends_def flat_def)
  moreover have "m_position ba + n \<le> m_capacity ?ba'" using enough le by (auto simp: old_def)
  ultimately show thesis using run that by blast
qed

lemma addCapacity_correct:
  assumes "ba_chain ba"
  obtains ba' where "addCapacity n ba = (Inr (), ba')" and "ba_chain ba'" and "extends ba ba'"
    and "m_position ba + n \<le> m_capacity ba'"
proof (cases "m_position ba + n \<le> m_capacity ba")
  case True
  then have "addCapacity n ba = (Inr (), ba)"
    using assms by (auto simp: addCapacity_def getCapacity_def ba_chain_def Let_def)
  then show thesis using that assms True by simp
next
  case False
  then show thesis using addCapacity_grows [OF assms] that by (metis not_le)
qed

lemma sub_offset: "ba_chain ba \<Longrightarrow> sub64 (m_baseSize ba) (m_position ba mod m_baseSize ba)
    = m_baseSize ba - m_position ba mod m_baseSize ba"
  using ba_sizedD(1) [of ba] by (simp add: ba_chain_def less_imp_le)

lemma chain_node:
  assumes "ba_chain ba" and "m_position ba < m_capacity ba"
  obtains nd where "node_at ba (m_cur ba) = Some nd" and "nd_size nd = m_baseSize ba"
  using chain_position [OF assms] ba_sizedD(3) [of ba] assms(1) by (metis ba_chain_def)

text \<open>
  Writing: it never faults, it overwrites the data at the position and appends what goes past the
  end, and the position moves behind what was written.
\<close>

lemma ba_write_correct:
  assumes "ba_inv ba"
  obtains ba' where "ba_write buf ba = (Inr (), ba')" and "ba_inv ba'"
    and "ba_data ba' = put_at (m_position ba) buf (ba_data ba)"
    and "m_position ba' = m_position ba + length buf" and "m_endian ba' = m_endian ba"
    and "m_baseSize ba' = m_baseSize ba"
proof (cases "buf = []")
  case True
  then show thesis
    using assms by (intro that [of ba]) (simp_all add: ba_write_def ret_def slice_simps)
next
  case False
  have ch: "ba_chain ba" and ps: "m_position ba \<le> m_size ba" "m_size ba \<le> m_capacity ba"
    using assms by (simp_all add: ba_inv_def)
  obtain ba1 where b1: "addCapacity (length buf) ba = (Inr (), ba1)" "ba_chain ba1" "extends ba ba1"
      "m_position ba + length buf \<le> m_capacity ba1"
    using addCapacity_correct [OF ch] by blast
  have x: "m_position ba1 = m_position ba" "m_size ba1 = m_size ba" "m_endian ba1 = m_endian ba"
      "m_baseSize ba1 = m_baseSize ba" "m_capacity ba \<le> m_capacity ba1"
    using b1(3) by (simp_all add: extends_def)
  have "m_position ba1 < m_capacity ba1" using b1(4) x(1) False by (cases buf) auto
  then obtain nd where nd: "node_at ba1 (m_cur ba1) = Some nd" "nd_size nd = m_baseSize ba1"
    using chain_node [OF b1(2)] by blast
  obtain ba2 where b2: "write_loop (m_position ba1 mod m_baseSize ba1) (m_baseSize ba1 - m_position ba1 mod m_baseSize ba1) buf ba1 = (Inr (), ba2)"
      "ba_chain ba2" "same_shape ba1 ba2" "m_position ba2 = m_position ba1 + length buf"
      "flat ba2 = put_at (m_position ba1) buf (flat ba1)"
    using write_loop_correct [OF b1(2)] b1(4) x(1) by metis
  let ?ba' = "if m_position ba2 > m_size ba2 then ba2\<lparr>m_size := m_position ba2\<rparr> else ba2"
  have run: "ba_write buf ba = (Inr (), ?ba')"
    using False b1(1,2) nd b2(1) sub_offset [OF b1(2)] ba_sizedD(1) [of ba1]
    by (simp add: ba_write_def outcome_simps Let_def ba_chain_def)
  have sz2: "m_size ba2 = m_size ba" "m_capacity ba2 = m_capacity ba1"
    using b2(3) x(2) by (simp_all add: same_shape_def)
  have inv: "ba_inv ?ba'"
    using b2(2,4) sz2 x ps by (auto simp: ba_inv_def ba_chain_def ba_sized_def cur_at_def)
  have "ba_data ?ba' = take (max (m_size ba) (m_position ba + length buf)) (flat ba2)"
    using b2(4) x(1) sz2 by (auto simp: ba_data_def flat_def max_def)
  also have "\<dots> = put_at (m_position ba) buf (ba_data ba)"
  proof -
    obtain ys where "flat ba1 = flat ba @ ys" using b1(3) by (auto simp: extends_def)
    then show ?thesis
      using b2(5) x(1) ps length_flat [of ba] ch take_put_at_grow [of "m_position ba" "m_size ba" "flat ba" buf ys]
      by (simp add: ba_data_def ba_chain_def)
  qed
  finally have data: "ba_data ?ba' = put_at (m_position ba) buf (ba_data ba)" .
  show thesis
    by (rule that [OF run inv data]) (use b2(3,4) x in \<open>simp_all add: same_shape_def\<close>)
qed

text \<open>Reading: the three outcomes of \<open>read(buf, size)\<close>.\<close>

lemma ba_read_correct:
  assumes "ba_inv ba" and "n \<le> m_size ba - m_position ba" and "m_position ba < m_capacity ba"
  shows "ba_read n ba = (Inr (take n (drop (m_position ba) (ba_data ba))),
      ba\<lparr>m_cur := cur_at ba (m_position ba + n), m_position := m_position ba + n\<rparr>)" (is ?run)
    and "ba_inv (ba\<lparr>m_cur := cur_at ba (m_position ba + n), m_position := m_position ba + n\<rparr>)" (is ?inv)
proof -
  have ch: "ba_chain ba" and ps: "m_position ba \<le> m_size ba" "m_size ba \<le> m_capacity ba"
    using assms(1) by (simp_all add: ba_inv_def)
  obtain nd where nd: "node_at ba (m_cur ba) = Some nd" "nd_size nd = m_baseSize ba"
    using chain_node [OF ch assms(3)] by blast
  have "read_loop (m_position ba mod m_baseSize ba) (m_baseSize ba - m_position ba mod m_baseSize ba) n ba =
      (Inr (take n (drop (m_position ba) (flat ba))),
       ba\<lparr>m_cur := cur_at ba (m_position ba + n), m_position := m_position ba + n\<rparr>)"
    using ps assms(2) by (intro read_loop_correct [OF ch]) simp
  moreover have "take n (drop (m_position ba) (flat ba)) = take n (drop (m_position ba) (ba_data ba))"
    using assms(2) by (simp add: ba_data_def drop_take min_absorb1)
  ultimately show ?run
    using nd sub_offset [OF ch] ps assms(2) ba_sizedD(1) [of ba] ch
    by (simp add: ba_read_def getReadSize_def Let_def ba_chain_def)
  have "m_position ba + n \<le> m_size ba" using ps assms(2) by simp
  then show ?inv using ps ch by (simp add: ba_inv_def ba_chain_def)
qed

lemma ba_read_short:
  "ba_inv ba \<Longrightarrow> m_size ba - m_position ba < n \<Longrightarrow> ba_read n ba = (Inl (Out_of_range ''not enough len''), ba)"
  by (simp add: ba_read_def getReadSize_def ba_inv_def)

lemma ba_read_at_end:
  assumes "ba_inv ba" and "m_position ba = m_capacity ba"
  shows "ba_read 0 ba = (Inl Null_deref, ba)"
  using assms ba_sizedD(1,5) [of ba]
  by (simp add: ba_read_def ba_inv_def ba_chain_def cur_at_def node_at_def)

text \<open>Moving the position.\<close>

lemma seek_loop_correct:
  assumes "ba_sized ba" and "i < length (m_nodes ba)" and "i * m_baseSize ba + v \<le> m_capacity ba"
  shows "seek_loop ba (Some i) v = Inr (cur_at ba (i * m_baseSize ba + v))"
  using assms(2,3)
proof (induction v arbitrary: i rule: less_induct)
  case (less v)
  let ?B = "m_baseSize ba"
  note sz = ba_sizedD [OF assms(1)]
  have nd: "node_at ba (Some i) = Some (m_nodes ba ! i)" "nd_size (m_nodes ba ! i) = ?B"
    using less.prems(1) sz(3) by (simp_all add: node_at_def)
  show ?case
  proof (cases "v > ?B")
    case True
    have si: "Suc i < length (m_nodes ba)"
      using last_block [OF assms(1) less.prems(1) sz(1), of v] True less.prems(2) by simp
    have "seek_loop ba (Some (Suc i)) (v - ?B) = Inr (cur_at ba (Suc i * ?B + (v - ?B)))"
      using True less.prems(2) sz(1) si by (intro less.IH) simp_all
    moreover have "Suc i * ?B + (v - ?B) = i * ?B + v" using True by simp
    ultimately show ?thesis
      using True nd si by (simp add: seek_loop.simps [of ba "Some i"] next_node_def del: mult_Suc)
  next
    case False
    then show ?thesis
      using nd cur_after [OF assms(1) less.prems(1), of 0 v]
      by (auto simp: seek_loop.simps [of ba "Some i"] split: if_splits)
  qed
qed

lemma setPosition_correct:
  assumes "ba_inv ba" and "v \<le> m_capacity ba"
  obtains ba' where "setPosition v ba = (Inr (), ba')" and "ba_inv ba'" and "m_position ba' = v"
    and "m_size ba' = max (m_size ba) v" and "flat ba' = flat ba" and "m_endian ba' = m_endian ba"
    and "m_baseSize ba' = m_baseSize ba" and "m_capacity ba' = m_capacity ba"
proof -
  have s: "ba_sized ba" "m_size ba \<le> m_capacity ba" using assms(1) by (simp_all add: ba_inv_def ba_chain_def)
  define ba2 where "ba2 = (if v > m_size ba then ba\<lparr>m_position := v, m_size := v\<rparr> else ba\<lparr>m_position := v\<rparr>)"
  have s2: "ba_sized ba2" "m_capacity ba2 = m_capacity ba" "m_nodes ba2 = m_nodes ba"
      "m_size ba2 = max (m_size ba) v" "m_position ba2 = v" "flat ba2 = flat ba"
      "m_endian ba2 = m_endian ba" "m_baseSize ba2 = m_baseSize ba"
    using s by (simp_all add: max_def ba2_def)
  have "seek_loop ba2 (Some 0) v = Inr (cur_at ba2 v)"
    using seek_loop_correct [OF s2(1), of 0 v] s2(2,3) ba_sizedD(2) [OF s(1)] assms(2) by simp
  then have run: "setPosition v ba = (Inr (), ba2\<lparr>m_cur := cur_at ba2 v\<rparr>)"
    using assms(2) by (auto simp: setPosition_def ba2_def)
  have inv: "ba_inv (ba2\<lparr>m_cur := cur_at ba2 v\<rparr>)"
    using s2 s(2) assms(2) by (simp add: ba_inv_def ba_chain_def)
  show thesis
    by (rule that [OF run inv]) (use s2 in simp_all)
qed

lemma setPosition_out_of_range:
  "m_capacity ba < v \<Longrightarrow> setPosition v ba = (Inl (Out_of_range ''set_position out of range''), ba)"
  by (simp add: setPosition_def)

lemma ba_inv_new: "0 < b \<Longrightarrow> ba_inv (new_bytearray fresh b)"
  by (simp add: ba_inv_def ba_chain_def ba_sized_def new_bytearray_def new_node_def cur_at_def)

lemma ba_data_new: "ba_data (new_bytearray fresh b) = []"
  by (simp add: ba_data_def new_bytearray_def)

lemma new_bytearray_simps [simp]:
  "m_position (new_bytearray fresh b) = 0" "m_size (new_bytearray fresh b) = 0"
  "m_capacity (new_bytearray fresh b) = b" "m_baseSize (new_bytearray fresh b) = b"
  "m_endian (new_bytearray fresh b) = SYLAR_BIG_ENDIAN"
  by (simp_all add: new_bytearray_def)

lemma ba_clear_correct:
  assumes "ba_inv ba"
  shows "ba_inv (ba_clear ba)" and "ba_data (ba_clear ba) = []"
proof -
  have s: "ba_sized ba" using assms by (simp add: ba_inv_def ba_chain_def)
  then have "ba_sized (ba_clear ba)" "cur_at (ba_clear ba) 0 = Some 0"
    by (auto simp: ba_clear_def ba_sized_def cur_at_def Suc_le_eq dest: in_set_takeD)
  then show "ba_inv (ba_clear ba)" by (simp add: ba_inv_def ba_chain_def ba_clear_def)
  show "ba_data (ba_clear ba) = []" by (simp add: ba_data_def ba_clear_def)
qed

subsection \<open>Properties\<close>

text \<open>
  C2. \<open>write\<close> refines overwriting a slice of one flat byte sequence: from every state that satisfies
  the invariant it succeeds, whatever the block size and the length, re-establishes the invariant, and
  the data is the old data with the bytes put in at the position and extended where they reach past its end.
\<close>

theorem write_refines_put_at:
  assumes "ba_inv ba"
  shows "\<exists>ba'. ba_write buf ba = (Inr (), ba') \<and> ba_inv ba'
    \<and> ba_data ba' = put_at (m_position ba) buf (ba_data ba) \<and> getPosition ba' = getPosition ba + length buf
    \<and> getSize ba' = max (getSize ba) (getPosition ba + length buf) \<and> m_endian ba' = m_endian ba \<and> getBaseSize ba' = getBaseSize ba"
proof -
  obtain ba' where b: "ba_write buf ba = (Inr (), ba')" "ba_inv ba'" "ba_data ba' = put_at (m_position ba) buf (ba_data ba)"
      "m_position ba' = m_position ba + length buf" "m_endian ba' = m_endian ba" "m_baseSize ba' = m_baseSize ba"
    using ba_write_correct [OF assms] by blast
  have "m_size ba' = max (m_size ba) (m_position ba + length buf)"
    using assms length_ba_data [OF b(2)] length_ba_data [OF assms] by (auto simp: b(3) put_at_def max_def ba_inv_def)
  with b show ?thesis by (simp add: getPosition_def getSize_def getBaseSize_def)
qed

theorem write_refines_put_at_witness:
  "\<exists>ba'. ba_write [1, 2, 3, 4, 5] (new_bytearray (\<lambda>_. 0) 2) = (Inr (), ba') \<and> ba_data ba' = [1, 2, 3, 4, 5] \<and> getSize ba' = 5"
  using write_refines_put_at [OF ba_inv_new [of 2 "\<lambda>_. 0"], of "[1, 2, 3, 4, 5]"]
  by (auto simp: ba_data_new put_at_def getPosition_def getSize_def)



text \<open>
  \<open>setPosition\<close>: up to the capacity it moves the position (following the chain to the right
  block), extends the size when the position lies behind it, keeps the memory and the invariant; past
  the capacity it throws and changes nothing.
\<close>

lemma setPosition_moves:
  assumes "ba_inv ba"
  shows "if v \<le> m_capacity ba
    then \<exists>ba'. setPosition v ba = (Inr (), ba') \<and> ba_inv ba' \<and> m_position ba' = v
      \<and> m_size ba' = max (m_size ba) v \<and> flat ba' = flat ba \<and> m_capacity ba' = m_capacity ba
    else setPosition v ba = (Inl (Out_of_range ''set_position out of range''), ba)"
proof (cases "v \<le> m_capacity ba")
  case True
  from setPosition_correct [OF assms this] show ?thesis using True by (simp, metis)
qed (simp add: setPosition_out_of_range)

end
