(* ===== verification/CText.thy ===== *)
theory CText
  imports Prelude
begin

text \<open>
  Text as C code sees it: the value of a \<open>char\<close>, the conversion functions of the C library, positions in a buffer, and the decimal numbers that
  \<open>operator<<\<close> writes.
\<close>

subsection \<open>Characters and numbers\<close>

text \<open>The conversion of a number to \<open>int\<close>.\<close>

definition int32_of :: "int \<Rightarrow> int" where
  "int32_of x = (x + 2 ^ 31) mod 2 ^ 32 - 2 ^ 31"

lemma int32_of_small: "0 \<le> x \<Longrightarrow> x < 2 ^ 31 \<Longrightarrow> int32_of x = x"
  by (simp add: int32_of_def)

text \<open>A \<open>char\<close> is signed.\<close>

definition char_code :: "char \<Rightarrow> int" where
  "char_code c = sint (of_char c :: u8)"

lemma unat_of_char: "unat (of_char c :: u8) = (of_char c :: nat)"
proof -
  have "unat (of_nat (of_char c) :: u8) = (of_char c :: nat)" by (simp add: unat_of_nat)
  then show ?thesis by (simp add: of_nat_of_char)
qed

lemma char_code_inj: "char_code c = char_code d \<longleftrightarrow> c = d"
  by (metis char_code_def of_char_eq_iff signed_word_eqI unat_of_char)

text \<open>\<open>strtol\<close> of the C library on the text up to the terminating zero: spaces, a sign, for base 16 an optional prefix, then digits; the result saturates.\<close>

definition digit_value :: "char \<Rightarrow> nat" where
  "digit_value c = (let n = of_char c :: nat in if 48 \<le> n \<and> n \<le> 57 then n - 48 else if 65 \<le> n \<and> n \<le> 90 then n - 55 else if 97 \<le> n \<and> n \<le> 122 then n - 87 else 36)"

definition digits_value :: "nat \<Rightarrow> string \<Rightarrow> nat" where
  "digits_value base s = fold (\<lambda>c n. base * n + digit_value c) (takeWhile (\<lambda>c. digit_value c < base) s) 0"

definition strtol :: "nat \<Rightarrow> string \<Rightarrow> int" where
  "strtol base s =
     (let s1 = dropWhile (\<lambda>c. (of_char c :: nat) \<in> {9, 10, 11, 12, 13, 32}) s;
          neg = (s1 \<noteq> [] \<and> hd s1 = CHR ''-'');
          s2 = (if s1 \<noteq> [] \<and> hd s1 \<in> {CHR ''-'', CHR ''+''} then tl s1 else s1);
          s3 = (if base = 16 \<and> 2 < length s2 \<and> hd s2 = CHR ''0'' \<and> s2 ! 1 \<in> {CHR ''x'', CHR ''X''} \<and> digit_value (s2 ! 2) < 16 then drop 2 s2 else s2);
          v = int (digits_value base s3)
      in if neg then max (- (2 ^ 63)) (- v) else min (2 ^ 63 - 1) v)"

text \<open>\<open>atoi\<close> is \<open>strtol\<close>, converted to \<open>int\<close>.\<close>

definition c_atoi :: "string \<Rightarrow> int" where
  "c_atoi s = int32_of (strtol 10 s)"

subsection \<open>Positions\<close>

text \<open>The text \<open>s\<close> is in the buffer at position \<open>p\<close>.\<close>

definition has_at :: "string \<Rightarrow> nat \<Rightarrow> string \<Rightarrow> bool" where
  "has_at buffer p s \<longleftrightarrow> p + length s \<le> length buffer \<and> take (length s) (drop p buffer) = s"

lemma has_at_Cons: "has_at buffer p (c # s) \<longleftrightarrow> p < length buffer \<and> buffer ! p = c \<and> has_at buffer (p + 1) s"
  by (auto simp: has_at_def Cons_nth_drop_Suc [symmetric])

lemma has_at_append: "has_at buffer p (s @ t) \<longleftrightarrow> has_at buffer p s \<and> has_at buffer (p + length s) t"
proof (induction s arbitrary: p)
  case (Cons c s)
  then show ?case by (simp add: has_at_Cons)
qed (auto simp: has_at_def)

lemma has_at_Nil: "has_at buffer p [] \<longleftrightarrow> p \<le> length buffer"
  by (simp add: has_at_def)

lemma has_at_char: "has_at buffer p [c] \<longleftrightarrow> p < length buffer \<and> buffer ! p = c"
  by (auto simp: has_at_Cons has_at_Nil)

lemma has_at_whole: "has_at (s @ rest) 0 s"
  by (simp add: has_at_def)

subsection \<open>Decimal numbers\<close>

definition digit_char :: "char \<Rightarrow> bool" where
  "digit_char c \<longleftrightarrow> 48 \<le> char_code c \<and> char_code c \<le> 57"

lemma digit_chars:
  fixes d :: nat
  assumes "d < 10"
  shows "digit_char (char_of (48 + d))" and "of_char (char_of (48 + d) :: char) = 48 + d"
proof -
  have "list_all (\<lambda>d. digit_char (char_of (48 + d))) [0 ..< 10]" by code_simp
  then show "digit_char (char_of (48 + d))" using assms by (auto simp: list_all_iff)
  show "of_char (char_of (48 + d) :: char) = 48 + d" using assms by simp
qed

lemma dec_of_nat_digits: "dec_of_nat n \<noteq> [] \<and> list_all digit_char (dec_of_nat n)"
proof (induction n rule: dec_of_nat.induct)
  case (1 n)
  then show ?case using digit_chars(1) [of n] digit_chars(1) [of "n mod 10"] by (subst (1 2) dec_of_nat.simps) simp
qed

lemma dec_of_nat_value:
  "list_all (\<lambda>c. 48 \<le> (of_char c :: nat) \<and> (of_char c :: nat) \<le> 57) (dec_of_nat n) \<and> fold (\<lambda>c n. 10 * n + (of_char c - 48)) (dec_of_nat n) (0 :: nat) = n"
proof (induction n rule: dec_of_nat.induct)
  case (1 n)
  have "n = 10 * (n div 10) + n mod 10" by simp
  then show ?case using 1 digit_chars(2) [of n] digit_chars(2) [of "n mod 10"] by (subst (1 2) dec_of_nat.simps) auto
qed

text \<open>\<open>atoi\<close> reads a decimal number up to the next character that is no digit.\<close>

lemma c_atoi_dec:
  assumes "n < 2 ^ 31" and "10 \<le> digit_value c"
  shows "c_atoi (dec_of_nat n @ c # s) = int n"
proof -
  let ?digits = "dec_of_nat n"
  have range: "48 \<le> (of_char x :: nat) \<and> (of_char x :: nat) \<le> 57" if "x \<in> set ?digits" for x using dec_of_nat_value [of n] that by (simp add: list_all_iff)
  then have val: "digit_value x = of_char x - 48" if "x \<in> set ?digits" for x using that by (simp add: digit_value_def Let_def)
  obtain d ds where ds: "?digits = d # ds" using dec_of_nat_digits [of n] by (cases ?digits) auto
  have "d \<noteq> CHR ''-''" "d \<noteq> CHR ''+''" "(of_char d :: nat) \<notin> {9, 10, 11, 12, 13, 32}" using range [of d] by (auto simp: ds)
  then have shape: "strtol 10 (?digits @ c # s) = min (2 ^ 63 - 1) (int (digits_value 10 (?digits @ c # s)))" by (simp add: strtol_def ds)
  have "takeWhile (\<lambda>x. digit_value x < 10) (?digits @ c # s) = ?digits" using assms(2) val range by (subst takeWhile_append2) fastforce+
  moreover have "fold (\<lambda>c n. 10 * n + digit_value c) ?digits 0 = fold (\<lambda>c n. 10 * n + (of_char c - 48)) ?digits (0 :: nat)"
    by (rule fold_cong) (simp_all add: val fun_eq_iff)
  ultimately have "digits_value 10 (?digits @ c # s) = n" using dec_of_nat_value [of n] by (simp add: digits_value_def)
  then show ?thesis using assms(1) by (simp add: c_atoi_def shape int32_of_small)
qed

end
