(* ===== verification/ByteArrayBuffers.thy ===== *)
theory ByteArrayBuffers
  imports ByteArray CText
begin

text \<open>
  The operations of \<open>ByteArray\<close> that look at the chain without moving the position: the positioned
  \<open>read\<close>, \<open>toString\<close> and \<open>toHexString\<close>, the scatter/gather buffers handed to \<open>readv\<close> and \<open>writev\<close>
  (\<open>getReadBuffers\<close>, \<open>getWriteBuffers\<close>), and the file transfer \<open>writeToFile\<close> / \<open>readFromFile\<close>.
\<close>

text \<open>An \<open>iovec\<close> points into a block: \<open>iov_base\<close> is the block and the offset in it.\<close>

record iovec =
  iov_node :: nat
  iov_off :: nat
  iov_len :: nat

function iov_loop :: "bytearray \<Rightarrow> nat option \<Rightarrow> nat \<Rightarrow> nat \<Rightarrow> nat \<Rightarrow> ba_error + iovec list" where
  "iov_loop ba cur npos ncap len =
     (if len = 0 then Inr []
      else case node_at ba cur of
        None \<Rightarrow> Inl Null_deref
      | Some nd \<Rightarrow>
          if len \<le> ncap then Inr [\<lparr>iov_node = the cur, iov_off = npos, iov_len = len\<rparr>]
          else (case next_node ba (the cur) of
                  None \<Rightarrow> Inl Null_deref
                | Some j \<Rightarrow>
                   (case iov_loop ba (Some j) 0 (nd_size (m_nodes ba ! j)) (len - ncap) of
                      Inl e \<Rightarrow> Inl e
                    | Inr iovs \<Rightarrow> Inr (\<lparr>iov_node = the cur, iov_off = npos, iov_len = ncap\<rparr> # iovs))))"
  by pat_completeness auto
termination
  by (relation "measure (\<lambda>(ba, cur, npos, ncap, len). length (m_nodes ba) - the cur)")
    (auto simp: next_node_def node_at_def split: if_splits option.splits)

declare iov_loop.simps [simp del]

definition getReadBuffers :: "bytearray \<Rightarrow> iovec list \<Rightarrow> nat \<Rightarrow> ba_error + (nat \<times> iovec list)" where
  "getReadBuffers ba buffers len0 =
     (let len = (if len0 > getReadSize ba then getReadSize ba else len0) in
      if len = 0 then Inr (0, buffers)
      else if m_baseSize ba = 0 then Inl Div_by_zero
      else let npos = m_position ba mod m_baseSize ba in
        case node_at ba (m_cur ba) of
          None \<Rightarrow> Inl Null_deref
        | Some nd \<Rightarrow>
            (case iov_loop ba (m_cur ba) npos (sub64 (nd_size nd) npos) len of
               Inl e \<Rightarrow> Inl e
             | Inr iovs \<Rightarrow> Inr (len, buffers @ iovs)))"

text \<open>
  The overload with a \<open>position\<close>: the argument is never used; the block is found again by walking
  \<open>m_position / m_baseSize\<close> nodes from the root.
\<close>

definition getReadBuffers_at :: "bytearray \<Rightarrow> iovec list \<Rightarrow> nat \<Rightarrow> nat \<Rightarrow> ba_error + (nat \<times> iovec list)" where
  "getReadBuffers_at ba buffers len0 position =
     (let len = (if len0 > getReadSize ba then getReadSize ba else len0) in
      if len = 0 then Inr (0, buffers)
      else if m_baseSize ba = 0 then Inl Div_by_zero
      else let npos = m_position ba mod m_baseSize ba;
               cur = Some (m_position ba div m_baseSize ba) in
        case node_at ba cur of
          None \<Rightarrow> Inl Null_deref
        | Some nd \<Rightarrow>
            (case iov_loop ba cur npos (sub64 (nd_size nd) npos) len of
               Inl e \<Rightarrow> Inl e
             | Inr iovs \<Rightarrow> Inr (len, buffers @ iovs)))"

definition getWriteBuffers :: "iovec list \<Rightarrow> nat \<Rightarrow> (bytearray, ba_error, nat \<times> iovec list) outcome" where
  "getWriteBuffers buffers len =
     (if len = 0 then ret (0, buffers)
      else andThen (addCapacity len) (\<lambda>_ ba.
        if m_baseSize ba = 0 then (Inl Div_by_zero, ba)
        else let npos = m_position ba mod m_baseSize ba in
          case node_at ba (m_cur ba) of
            None \<Rightarrow> (Inl Null_deref, ba)
          | Some nd \<Rightarrow>
              (case iov_loop ba (m_cur ba) npos (sub64 (nd_size nd) npos) len of
                 Inl e \<Rightarrow> (Inl e, ba)
               | Inr iovs \<Rightarrow> (Inr (len, buffers @ iovs), ba))))"

definition iov_bytes :: "bytearray \<Rightarrow> iovec \<Rightarrow> u8 list" where
  "iov_bytes ba v = take (iov_len v) (drop (iov_off v) (nd_ptr (m_nodes ba ! iov_node v)))"

text \<open>Printing.\<close>

definition hex_digit :: "nat \<Rightarrow> char" where
  "hex_digit n = (if n < 10 then char_of (48 + n) else char_of (87 + n))"

definition hex_byte :: "u8 \<Rightarrow> string" where
  "hex_byte b = [hex_digit (unat b div 16), hex_digit (unat b mod 16)]"

definition hex_cell :: "u8 list \<Rightarrow> nat \<Rightarrow> string" where
  "hex_cell str i = (if i > 0 \<and> i mod 32 = 0 then [char_of (10 :: nat)] else []) @ hex_byte (str ! i) @ '' ''"

definition toHexString :: "bytearray \<Rightarrow> ba_error + string" where
  "toHexString ba =
     (case ba_toString ba of
        Inl e \<Rightarrow> Inl e
      | Inr str \<Rightarrow> Inr (concat (map (hex_cell str) [0 ..< length str])))"

text \<open>
  File transfer. The file system is a parameter: whether the file can be opened, and what it holds.
  \<open>writeToFile\<close> computes on \<open>int64_t\<close> and truncates the block offset to \<open>int\<close>.
\<close>

function write_file_loop :: "bytearray \<Rightarrow> nat option \<Rightarrow> int \<Rightarrow> int \<Rightarrow> ba_error + u8 list" where
  "write_file_loop ba cur pos read_size =
     (if read_size \<le> 0 then Inr []
      else let diff = int32_of (pos mod int (m_baseSize ba));
               len = (if read_size > int (m_baseSize ba) then int (m_baseSize ba) else read_size) - diff in
        case node_at ba cur of
          None \<Rightarrow> Inl Null_deref
        | Some nd \<Rightarrow>
            if len < 0 then Inl Bad_stream
            else (case memcpy_out nd (nat diff) (nat len) of
                    None \<Rightarrow> Inl Buffer_overflow
                  | Some bs \<Rightarrow>
                     (case write_file_loop ba (next_node ba (the cur)) (pos + len) (read_size - len) of
                        Inl e \<Rightarrow> Inl e
                      | Inr rest \<Rightarrow> Inr (bs @ rest))))"
  by pat_completeness auto
termination
  by (relation "measure (\<lambda>(ba, cur, pos, r). case cur of None \<Rightarrow> 0 | Some i \<Rightarrow> Suc (length (m_nodes ba)) - i)")
    (auto simp: next_node_def node_at_def split: if_splits option.splits)

declare write_file_loop.simps [simp del]

definition writeToFile :: "bool \<Rightarrow> bytearray \<Rightarrow> ba_error + (bool \<times> u8 list)" where
  "writeToFile opened ba =
     (if \<not> opened then Inr (False, [])
      else case write_file_loop ba (m_cur ba) (int (m_position ba)) (int (getReadSize ba)) of
             Inl e \<Rightarrow> Inl e
           | Inr bs \<Rightarrow> Inr (True, bs))"

function read_file_loop :: "u8 list \<Rightarrow> (bytearray, ba_error, bool) outcome" where
  "read_file_loop content ba =
     (if m_baseSize ba = 0 then (Inl Endless_loop, ba)
      else case ba_write (take (m_baseSize ba) content) ba of
             (Inl e, ba') \<Rightarrow> (Inl e, ba')
           | (Inr _, ba') \<Rightarrow>
               if length content < m_baseSize ba then (Inr True, ba')
               else read_file_loop (drop (m_baseSize ba) content) ba')"
  by pat_completeness auto
termination
  by (relation "measure (\<lambda>(content, ba). length content)") auto

declare read_file_loop.simps [simp del]

definition readFromFile :: "u8 list option \<Rightarrow> (bytearray, ba_error, bool) outcome" where
  "readFromFile file = (case file of None \<Rightarrow> ret False | Some content \<Rightarrow> read_file_loop content)"

subsection \<open>The positioned read\<close>

text \<open>All loops below start in some block \<open>i\<close> at offset \<open>q\<close>; \<open>sized_step\<close> is their common step.\<close>

lemma sized_step:
  assumes "ba_sized ba" and "i < length (m_nodes ba)" and "q < m_baseSize ba"
    and "i * m_baseSize ba + q + k \<le> m_capacity ba" and "\<not> q + k \<le> m_baseSize ba"
  shows "next_node ba i = Some (Suc i)" and "Suc i < length (m_nodes ba)" and "nd_size (m_nodes ba ! Suc i) = m_baseSize ba"
    and "k - (m_baseSize ba - q) < k" and "m_baseSize ba - q < k"
    and "Suc i * m_baseSize ba + (k - (m_baseSize ba - q)) = i * m_baseSize ba + q + k"
proof -
  show si: "Suc i < length (m_nodes ba)"
    using last_block [OF assms(1-3), of k] assms(3-5) by simp
  show "next_node ba i = Some (Suc i)" using si by (simp add: next_node_def)
  show "nd_size (m_nodes ba ! Suc i) = m_baseSize ba" using ba_sizedD(3) [OF assms(1) si] .
  show "k - (m_baseSize ba - q) < k" "m_baseSize ba - q < k" using assms(3,5) by simp_all
  show "Suc i * m_baseSize ba + (k - (m_baseSize ba - q)) = i * m_baseSize ba + q + k"
    using assms(3,5) by simp
qed

lemma read_at_loop_correct:
  assumes "ba_sized ba" and "i < length (m_nodes ba)" and "q < m_baseSize ba"
    and "i * m_baseSize ba + q + k \<le> m_capacity ba"
  shows "read_at_loop ba (Some i) q (m_baseSize ba - q) k = Inr (take k (drop (i * m_baseSize ba + q) (flat ba)))"
  using assms(2-4)
proof (induction k arbitrary: i q rule: less_induct)
  case (less k)
  let ?B = "m_baseSize ba" and ?k = "k - (m_baseSize ba - q)"
  show ?case
  proof (cases "q + k \<le> ?B")
    case True
    then have "k \<le> ?B - q" by simp
    then show ?thesis
      using less.prems(1) memcpy_out_flat [OF assms(1) less.prems(1) True]
      by (simp add: read_at_loop.simps node_at_def)
  next
    case False
    note st = sized_step [OF assms(1) less.prems False]
    have "read_at_loop ba (Some (Suc i)) 0 (?B - 0) ?k = Inr (take ?k (drop (Suc i * ?B + 0) (flat ba)))"
      using less.prems st ba_sizedD(1) [OF assms(1)] by (intro less.IH) simp_all
    moreover have "memcpy_out (m_nodes ba ! i) q (?B - q) = Some (take (?B - q) (drop (i * ?B + q) (flat ba)))"
      using less.prems(2) by (intro memcpy_out_flat [OF assms(1) less.prems(1)]) simp
    moreover have "take k (drop (i * ?B + q) (flat ba))
        = take (?B - q) (drop (i * ?B + q) (flat ba)) @ take ?k (drop (Suc i * ?B) (flat ba))"
      using take_add [of "?B - q" ?k "drop (i * ?B + q) (flat ba)"] st(5) less.prems(2)
      by (simp add: drop_drop add.commute)
    ultimately show ?thesis
      using less.prems(1) st(1,3,5) by (simp add: read_at_loop.simps [of ba "Some i"] node_at_def del: mult_Suc)
  qed
qed

text \<open>
  The positioned read starts at the block of the current position and takes only the offset from
  its argument.
\<close>

lemma ba_read_at_correct:
  assumes "ba_inv ba" and "m_position ba < m_capacity ba" and "p \<le> m_size ba" and "n \<le> m_size ba - p"
    and "(m_position ba div m_baseSize ba) * m_baseSize ba + p mod m_baseSize ba + n \<le> m_capacity ba"
  shows "ba_read_at ba n p =
    Inr (take n (drop ((m_position ba div m_baseSize ba) * m_baseSize ba + p mod m_baseSize ba) (flat ba)))"
proof -
  let ?B = "m_baseSize ba"
  have ch: "ba_chain ba" and s: "ba_sized ba" using assms(1) by (simp_all add: ba_inv_def ba_chain_def)
  obtain i q where pos: "m_position ba = i * ?B + q" "q < ?B" "i < length (m_nodes ba)" "m_cur ba = Some i"
      "node_at ba (m_cur ba) = Some (m_nodes ba ! i)"
    using chain_position [OF ch assms(2)] by metis
  have i: "m_position ba div ?B = i" using pos(1,2) by simp
  have q: "p mod ?B < ?B" using pos(2) by (intro mod_less_divisor) simp
  have "read_at_loop ba (Some i) (p mod ?B) (?B - p mod ?B) n = Inr (take n (drop (i * ?B + p mod ?B) (flat ba)))"
    using assms(5) i by (intro read_at_loop_correct [OF s pos(3) q]) simp
  then show ?thesis
    using assms(3,4) pos(2,4,5) ba_sizedD(3) [OF s pos(3)] q i
    by (simp add: ba_read_at_def Let_def)
qed

lemma ba_toString_correct:
  assumes "ba_inv ba"
  shows "ba_toString ba = Inr (drop (m_position ba) (ba_data ba))"
proof (cases "m_position ba = m_size ba")
  case True
  then show ?thesis using assms length_ba_data [OF assms] by (simp add: ba_toString_def getReadSize_def)
next
  case False
  have ps: "m_position ba \<le> m_size ba" "m_size ba \<le> m_capacity ba" using assms by (simp_all add: ba_inv_def)
  let ?n = "m_size ba - m_position ba"
  have "ba_read_at ba ?n (m_position ba) = Inr (take ?n (drop (m_position ba) (flat ba)))"
    using ba_read_at_correct [OF assms, of "m_position ba" ?n] ps False by simp
  then show ?thesis
    using ps False by (simp add: ba_toString_def getReadSize_def ba_data_def drop_take)
qed

lemma length_hex_cells:
  "length (concat (map (hex_cell str) [0 ..< n])) = 3 * n + (n - 1) div 32"
proof (induction n)
  case 0
  then show ?case by simp
next
  case (Suc n)
  have "n div 32 = (n - 1) div 32 + (if n > 0 \<and> n mod 32 = 0 then 1 else 0)"
    by (cases n) (auto simp: div_Suc mod_Suc)
  then show ?case using Suc by (simp add: hex_cell_def hex_byte_def)
qed

subsection \<open>Scatter/gather buffers\<close>

text \<open>The addresses an \<open>iovec\<close> covers, as offsets of the flat memory.\<close>

definition iov_addrs :: "bytearray \<Rightarrow> iovec \<Rightarrow> nat list" where
  "iov_addrs ba v = (let a = iov_node v * m_baseSize ba + iov_off v in [a ..< a + iov_len v])"

definition iov_ok :: "bytearray \<Rightarrow> iovec \<Rightarrow> bool" where
  "iov_ok ba v \<longleftrightarrow> iov_node v < length (m_nodes ba) \<and> iov_off v + iov_len v \<le> m_baseSize ba"

lemma iov_loop_correct:
  assumes "ba_sized ba" and "i < length (m_nodes ba)" and "q < m_baseSize ba"
    and "i * m_baseSize ba + q + k \<le> m_capacity ba"
  shows "\<exists>iovs. iov_loop ba (Some i) q (m_baseSize ba - q) k = Inr iovs \<and> (\<forall>v \<in> set iovs. iov_ok ba v)
    \<and> concat (map (iov_addrs ba) iovs) = [i * m_baseSize ba + q ..< i * m_baseSize ba + q + k]"
  using assms(2-4)
proof (induction k arbitrary: i q rule: less_induct)
  case (less k)
  let ?B = "m_baseSize ba" and ?k = "k - (m_baseSize ba - q)"
  show ?case
  proof (cases "q + k \<le> ?B")
    case True
    then have "k \<le> ?B - q" by simp
    then show ?thesis
      using less.prems(1) True by (simp add: iov_loop.simps node_at_def iov_ok_def iov_addrs_def Let_def)
  next
    case False
    note st = sized_step [OF assms(1) less.prems False]
    have "\<exists>iovs. iov_loop ba (Some (Suc i)) 0 (?B - 0) ?k = Inr iovs \<and> (\<forall>v \<in> set iovs. iov_ok ba v)
        \<and> concat (map (iov_addrs ba) iovs) = [Suc i * ?B + 0 ..< Suc i * ?B + 0 + ?k]"
      using less.prems st ba_sizedD(1) [OF assms(1)] by (intro less.IH) simp_all
    then obtain iovs where r: "iov_loop ba (Some (Suc i)) 0 ?B ?k = Inr iovs" "\<forall>v \<in> set iovs. iov_ok ba v"
        "concat (map (iov_addrs ba) iovs) = [Suc i * ?B ..< i * ?B + q + k]"
      using st(6) by (auto simp del: mult_Suc)
    let ?v = "\<lparr>iov_node = i, iov_off = q, iov_len = ?B - q\<rparr>"
    have "iov_loop ba (Some i) q (?B - q) k = Inr (?v # iovs)"
      using less.prems(1) st(1,3,5) r(1) by (simp add: iov_loop.simps [of ba "Some i"] node_at_def)
    moreover have "iov_addrs ba ?v @ [Suc i * ?B ..< i * ?B + q + k] = [i * ?B + q ..< i * ?B + q + k]"
      using upt_add_eq_append [of "i * ?B + q" "Suc i * ?B" ?k] less.prems(2) st(6)
      by (simp add: iov_addrs_def add.commute)
    moreover have "iov_ok ba ?v" using less.prems by (simp add: iov_ok_def)
    ultimately show ?thesis using r by (intro exI [of _ "?v # iovs"]) auto
  qed
qed

lemma iov_bytes_addrs:
  assumes "ba_sized ba" and "iov_ok ba v"
  shows "iov_bytes ba v = map (nth (flat ba)) (iov_addrs ba v)"
proof -
  have ok: "iov_node v < length (m_nodes ba)" "iov_off v + iov_len v \<le> m_baseSize ba"
    using assms(2) by (simp_all add: iov_ok_def)
  let ?a = "iov_node v * m_baseSize ba + iov_off v"
  have "Suc (iov_node v) * m_baseSize ba \<le> length (m_nodes ba) * m_baseSize ba"
    using ok(1) by (intro mult_le_mono) auto
  then have "?a + iov_len v \<le> length (flat ba)"
    using ok(2) length_flat [OF assms(1)] ba_sizedD(5) [OF assms(1)] by simp
  moreover have "iov_bytes ba v = take (iov_len v) (drop ?a (flat ba))"
    using slice_in_chunk [OF ba_sizedD(6) [OF assms(1)], of "iov_node v"] ok
    by (simp add: iov_bytes_def flat_def)
  ultimately show ?thesis
    by (simp add: iov_addrs_def Let_def map_nth_upt)
qed

lemma iovs_bytes_addrs:
  assumes "ba_sized ba" and "\<forall>v \<in> set iovs. iov_ok ba v"
  shows "concat (map (iov_bytes ba) iovs) = map (nth (flat ba)) (concat (map (iov_addrs ba) iovs))"
  using assms(2) by (induction iovs) (simp_all add: iov_bytes_addrs [OF assms(1)])

lemma getReadBuffers_correct:
  assumes "ba_inv ba"
  shows "\<exists>iovs. getReadBuffers ba bufs len = Inr (min len (m_size ba - m_position ba), bufs @ iovs)
    \<and> (\<forall>v \<in> set iovs. iov_ok ba v)
    \<and> concat (map (iov_bytes ba) iovs) = take len (drop (m_position ba) (ba_data ba))"
proof -
  have ch: "ba_chain ba" and s: "ba_sized ba" and ps: "m_position ba \<le> m_size ba" "m_size ba \<le> m_capacity ba"
    using assms by (simp_all add: ba_inv_def ba_chain_def)
  define n where "n = min len (m_size ba - m_position ba)"
  have n: "(if len > getReadSize ba then getReadSize ba else len) = n" using ps by (auto simp: n_def getReadSize_def)
  show ?thesis
  proof (cases "n = 0")
    case True
    then show ?thesis
      using n length_ba_data [OF assms] by (auto simp: getReadBuffers_def n_def min_def split: if_splits)
  next
    case False
    then have "m_position ba < m_capacity ba" using ps by (simp add: n_def)
    with ch obtain i q where pos: "m_position ba = i * m_baseSize ba + q" "q < m_baseSize ba" "i < length (m_nodes ba)"
        "m_cur ba = Some i" "m_position ba mod m_baseSize ba = q" "node_at ba (m_cur ba) = Some (m_nodes ba ! i)"
      by (rule chain_position)
    have le: "i * m_baseSize ba + q + n \<le> m_capacity ba" using pos(1) ps by (simp add: n_def)
    obtain iovs where r: "iov_loop ba (Some i) q (m_baseSize ba - q) n = Inr iovs" "\<forall>v \<in> set iovs. iov_ok ba v"
        "concat (map (iov_addrs ba) iovs) = [m_position ba ..< m_position ba + n]"
      using iov_loop_correct [OF s pos(3,2) le] pos(1) by auto
    have "getReadBuffers ba bufs len = Inr (n, bufs @ iovs)"
      unfolding getReadBuffers_def n Let_def
      using False pos r(1) ba_sizedD(1) [OF s] ba_sizedD(3) [OF s pos(3)] by simp
    moreover have "concat (map (iov_bytes ba) iovs) = take len (drop (m_position ba) (ba_data ba))"
    proof -
      have "m_position ba + n \<le> length (flat ba)" using ps length_flat [OF s] by (simp add: n_def)
      then have "concat (map (iov_bytes ba) iovs) = take n (drop (m_position ba) (flat ba))"
        unfolding iovs_bytes_addrs [OF s r(2)] r(3) by (rule map_nth_upt)
      then show ?thesis by (simp add: n_def ba_data_def drop_take)
    qed
    ultimately show ?thesis using r(2) by (auto simp: n_def)
  qed
qed

lemma getReadBuffers_at_eq:
  assumes "ba_inv ba"
  shows "getReadBuffers_at ba bufs len position = getReadBuffers ba bufs len"
proof (cases "m_position ba = m_capacity ba")
  case True
  then show ?thesis
    using assms by (simp add: getReadBuffers_at_def getReadBuffers_def getReadSize_def ba_inv_def Let_def)
next
  case False
  then have cur: "m_cur ba = Some (m_position ba div m_baseSize ba)"
    using assms ba_sizedD(5) [of ba] by (auto simp: ba_inv_def ba_chain_def cur_at_def)
  show ?thesis unfolding getReadBuffers_at_def getReadBuffers_def Let_def cur by (rule refl)
qed

lemma getWriteBuffers_correct:
  assumes "ba_inv ba"
  shows "\<exists>iovs ba'. getWriteBuffers bufs len ba = (Inr (len, bufs @ iovs), ba') \<and> ba_inv ba'
    \<and> ba_data ba' = ba_data ba \<and> m_position ba' = m_position ba \<and> m_endian ba' = m_endian ba
    \<and> (\<forall>v \<in> set iovs. iov_ok ba' v) \<and> m_position ba + len \<le> m_capacity ba'
    \<and> concat (map (iov_addrs ba') iovs) = [m_position ba ..< m_position ba + len]"
proof (cases "len = 0")
  case True
  then show ?thesis
    using assms by (intro exI [of _ "[]"] exI [of _ ba]) (simp add: getWriteBuffers_def ret_def ba_inv_def)
next
  case False
  have ch: "ba_chain ba" and ps: "m_position ba \<le> m_size ba" "m_size ba \<le> m_capacity ba" and s0: "ba_sized ba"
    using assms by (simp_all add: ba_inv_def ba_chain_def)
  obtain ba1 where b1: "addCapacity len ba = (Inr (), ba1)" "ba_chain ba1" "extends ba ba1"
      "m_position ba + len \<le> m_capacity ba1"
    using addCapacity_correct [OF ch] by blast
  have x: "m_position ba1 = m_position ba" "m_size ba1 = m_size ba" "m_endian ba1 = m_endian ba"
      "m_capacity ba \<le> m_capacity ba1" and s: "ba_sized ba1"
    using b1(2,3) by (simp_all add: extends_def ba_chain_def)
  have "m_position ba1 < m_capacity ba1" using False b1(4) x(1) by simp
  with b1(2) obtain i q where pos: "m_position ba1 = i * m_baseSize ba1 + q" "q < m_baseSize ba1" "i < length (m_nodes ba1)"
      "m_cur ba1 = Some i" "m_position ba1 mod m_baseSize ba1 = q" "node_at ba1 (m_cur ba1) = Some (m_nodes ba1 ! i)"
    by (rule chain_position)
  have le: "i * m_baseSize ba1 + q + len \<le> m_capacity ba1" using pos(1) b1(4) x(1) by simp
  obtain iovs where r: "iov_loop ba1 (Some i) q (m_baseSize ba1 - q) len = Inr iovs" "\<forall>v \<in> set iovs. iov_ok ba1 v"
      "concat (map (iov_addrs ba1) iovs) = [m_position ba1 ..< m_position ba1 + len]"
    using iov_loop_correct [OF s pos(3,2) le] pos(1) by auto
  have "getWriteBuffers bufs len ba = (Inr (len, bufs @ iovs), ba1)"
    using False b1(1) pos r(1) ba_sizedD(1) [OF s] ba_sizedD(3) [OF s pos(3)]
    by (simp add: getWriteBuffers_def outcome_simps Let_def)
  moreover have "ba_inv ba1" using b1(2) x ps by (simp add: ba_inv_def)
  moreover have "ba_data ba1 = ba_data ba"
    using b1(3) ps length_flat [OF s0] by (auto simp: ba_data_def extends_def)
  ultimately show ?thesis using r x b1(4) by (intro exI [of _ iovs] exI [of _ ba1]) simp
qed

subsection \<open>Files\<close>

text \<open>One step of the loop in the middle of a block.\<close>

lemma write_file_step:
  assumes "ba_sized ba" and "m_baseSize ba \<le> 2 ^ 31" and "i < length (m_nodes ba)" and "q < m_baseSize ba"
    and "q \<le> min k (m_baseSize ba)" and "0 < k"
    and "write_file_loop ba (next_node ba i) (int (i * m_baseSize ba + min k (m_baseSize ba))) (int (k + q - min k (m_baseSize ba))) = res"
  shows "write_file_loop ba (Some i) (int (i * m_baseSize ba + q)) (int k) =
    map_sum id (\<lambda>rest. take (min k (m_baseSize ba) - q) (drop (i * m_baseSize ba + q) (flat ba)) @ rest) res"
proof -
  let ?B = "m_baseSize ba" and ?n = "min k (m_baseSize ba)"
  have "int (i * ?B + q) mod int ?B = int q" using assms(4) by simp
  then have d: "int32_of (int (i * ?B + q) mod int ?B) = int q"
    using assms(2,4) by (simp add: int32_of_small)
  have l: "(if int k > int ?B then int ?B else int k) - int q = int (?n - q)" using assms(5) by (simp add: min_def)
  have out: "memcpy_out (m_nodes ba ! i) q (?n - q) = Some (take (?n - q) (drop (i * ?B + q) (flat ba)))"
    using assms(4,5) by (intro memcpy_out_flat [OF assms(1,3)]) simp
  have e: "int (i * ?B + q) + int (?n - q) = int (i * ?B + ?n)" "int k - int (?n - q) = int (k + q - ?n)"
    using assms(5) by simp_all
  show ?thesis
    using assms(3,6,7) out unfolding write_file_loop.simps [of ba "Some i"] Let_def d l e
    by (cases res) (auto simp: node_at_def)
qed

lemma write_file_aligned:
  assumes "ba_sized ba" and "m_baseSize ba \<le> 2 ^ 31" and "i * m_baseSize ba + k \<le> m_capacity ba"
  shows "write_file_loop ba (cur_at ba (i * m_baseSize ba)) (int (i * m_baseSize ba)) (int k)
    = Inr (take k (drop (i * m_baseSize ba) (flat ba)))"
  using assms(3)
proof (induction k arbitrary: i rule: less_induct)
  case (less k)
  let ?B = "m_baseSize ba" and ?n = "min k (m_baseSize ba)"
  note sz = ba_sizedD [OF assms(1)]
  show ?case
  proof (cases "k = 0")
    case True
    then show ?thesis by (simp add: write_file_loop.simps)
  next
    case False
    then have "i * ?B < length (m_nodes ba) * ?B" using less.prems unfolding sz(5) by linarith
    then have i: "i < length (m_nodes ba)" by simp
    have cur: "cur_at ba (i * ?B) = Some i" using cur_at_inside [OF assms(1) i, of 0] sz(1) by simp
    have "write_file_loop ba (next_node ba i) (int (i * ?B + ?n)) (int (k + 0 - ?n))
        = Inr (take (k - ?n) (drop (i * ?B + ?n) (flat ba)))"
    proof (cases "k \<le> ?B")
      case True
      then show ?thesis by (simp add: write_file_loop.simps)
    next
      case gt: False
      then have e: "i * ?B + ?n = Suc i * ?B" "k + 0 - ?n = k - ?B" by (simp_all add: min_def)
      show ?thesis
        unfolding e next_node_cur_at [OF assms(1)] using gt less.prems sz(1) e
        by (subst less.IH) (simp_all add: min_def)
    qed
    from write_file_step [OF assms(1,2) i sz(1) _ _ this] False cur show ?thesis
      using take_add [of ?n "k - ?n" "drop (i * ?B) (flat ba)"] by (simp add: drop_drop add.commute)
  qed
qed

lemma write_file_stuck:
  "0 < r \<Longrightarrow> r < int (m_baseSize ba) \<Longrightarrow> m_baseSize ba \<le> 2 ^ 31 \<Longrightarrow> r \<le> pos mod int (m_baseSize ba) \<Longrightarrow>
    \<exists>e. write_file_loop ba cur pos r = Inl e"
proof (induction ba cur pos r rule: write_file_loop.induct)
  case (1 ba cur pos r)
  have b: "0 \<le> pos mod int (m_baseSize ba)" "pos mod int (m_baseSize ba) < int (m_baseSize ba)"
    using "1.prems"(1,2) by simp_all
  have "int (m_baseSize ba) \<le> 2 ^ 31" using "1.prems"(3) by (metis of_nat_le_iff of_nat_numeral of_nat_power)
  then have d: "int32_of (pos mod int (m_baseSize ba)) = pos mod int (m_baseSize ba)"
    using b by (intro int32_of_small) linarith+
  show ?case
  proof (cases "r = pos mod int (m_baseSize ba)")
    case True
    have "\<exists>e. write_file_loop ba (next_node ba (the cur)) pos r = Inl e" if "node_at ba cur = Some nd" "memcpy_out nd (nat r) 0 = Some bs" for nd bs
      using "1.IH" [OF _ refl refl that(1), of bs] that "1.prems" True d by simp
    then show ?thesis
      using "1.prems" d True unfolding write_file_loop.simps [of ba cur] Let_def
      by (fastforce split: option.splits sum.splits)
  next
    case False
    then show ?thesis
      using "1.prems" d unfolding write_file_loop.simps [of ba cur] Let_def
      by (auto split: option.splits)
  qed
qed

lemma writeToFile_unread:
  assumes "ba_inv ba" and "m_baseSize ba \<le> 2 ^ 31"
    and "m_position ba mod m_baseSize ba = 0 \<or> m_baseSize ba \<le> m_size ba - m_position ba \<or> m_position ba = m_size ba"
  shows "writeToFile True ba = Inr (True, drop (m_position ba) (ba_data ba))"
proof -
  let ?B = "m_baseSize ba" and ?k = "m_size ba - m_position ba"
  have ch: "ba_chain ba" and s: "ba_sized ba" and ps: "m_position ba \<le> m_size ba" "m_size ba \<le> m_capacity ba"
    and cur: "m_cur ba = cur_at ba (m_position ba)"
    using assms(1) by (simp_all add: ba_inv_def ba_chain_def)
  have "write_file_loop ba (m_cur ba) (int (m_position ba)) (int ?k) = Inr (take ?k (drop (m_position ba) (flat ba)))"
  proof (cases "m_position ba mod ?B = 0")
    case True
    then obtain i where i: "m_position ba = i * ?B" by (metis dvd_div_mult_self mod_0_imp_dvd)
    show ?thesis
      unfolding cur i using ps i by (intro write_file_aligned [OF s assms(2)]) simp
  next
    case False
    show ?thesis
    proof (cases "?k = 0")
      case True
      then show ?thesis by (simp add: write_file_loop.simps)
    next
      case k: False
      then have le: "?B \<le> ?k" using assms(3) False ps by auto
      have "m_position ba < m_capacity ba" using k ps by linarith
      with ch obtain i q where pos: "m_position ba = i * ?B + q" "q < ?B" "i < length (m_nodes ba)" "m_cur ba = Some i"
        by (rule chain_position)
      have "write_file_loop ba (next_node ba i) (int (i * ?B + min ?k ?B)) (int (?k + q - min ?k ?B))
          = Inr (take (?k + q - ?B) (drop (Suc i * ?B) (flat ba)))"
        unfolding next_node_cur_at [OF s] using write_file_aligned [OF s assms(2), of "Suc i" "?k + q - ?B"] le pos ps
        by (simp add: min_def add.commute)
      from write_file_step [OF s assms(2) pos(3,2) _ _ this] show ?thesis
        using take_add [of "?B - q" "?k + q - ?B" "drop (m_position ba) (flat ba)"] le k pos
        by (simp add: min_def add.commute)
    qed
  qed
  then show ?thesis
    using ps by (simp add: writeToFile_def getReadSize_def ba_data_def drop_take)
qed

lemma writeToFile_misaligned:
  assumes "ba_inv ba" and "m_baseSize ba \<le> 2 ^ 31" and "m_position ba mod m_baseSize ba \<noteq> 0"
    and "m_position ba < m_size ba" and "m_size ba - m_position ba < m_baseSize ba"
  shows "\<exists>e. writeToFile True ba = Inl e"
proof -
  let ?B = "m_baseSize ba" and ?k = "m_size ba - m_position ba"
  have ch: "ba_chain ba" and s: "ba_sized ba" and ps: "m_size ba \<le> m_capacity ba"
    using assms(1) by (simp_all add: ba_inv_def ba_chain_def)
  have "m_position ba < m_capacity ba" using assms(4) ps by simp
  with ch obtain i q where pos: "m_position ba = i * ?B + q" "q < ?B" "i < length (m_nodes ba)" "m_cur ba = Some i"
      "m_position ba mod ?B = q"
    by (rule chain_position)
  have "\<exists>e. write_file_loop ba (m_cur ba) (int (m_position ba)) (int ?k) = Inl e"
  proof (cases "?k \<le> q")
    case True
    have "int (m_position ba) mod int ?B = int q" using pos(5) by (simp flip: of_nat_mod)
    then show ?thesis
      using True assms(2,4,5) by (intro write_file_stuck) simp_all
  next
    case False
    have "int (i * ?B + ?k) mod int ?B = int ?k" using assms(5) by simp
    then have "\<exists>e. write_file_loop ba (next_node ba i) (int (i * ?B + ?k)) (int q) = Inl e"
      using False assms(2,3) pos(2,5) by (intro write_file_stuck) simp_all
    then obtain e where "write_file_loop ba (next_node ba i) (int (i * ?B + min ?k ?B)) (int (?k + q - min ?k ?B)) = Inl e"
      using assms(5) by (auto simp: min_def)
    from write_file_step [OF s assms(2) pos(3,2) _ _ this] show ?thesis
      unfolding pos(4) pos(1) [symmetric] using False assms(5) by (simp add: min_def)
  qed
  then show ?thesis using assms(4) by (auto simp: writeToFile_def getReadSize_def)
qed

lemma read_file_loop_correct:
  assumes "ba_inv ba"
  shows "\<exists>ba'. read_file_loop content ba = (Inr True, ba') \<and> ba_inv ba' \<and> m_endian ba' = m_endian ba
    \<and> ba_data ba' = put_at (m_position ba) content (ba_data ba) \<and> m_position ba' = m_position ba + length content"
  using assms
proof (induction "length content" arbitrary: content ba rule: less_induct)
  case less
  let ?B = "m_baseSize ba"
  have B: "0 < ?B" and le: "m_position ba \<le> length (ba_data ba)"
    using less.prems length_ba_data [OF less.prems] by (simp_all add: ba_inv_def ba_chain_def ba_sized_def)
  obtain ba1 where b: "ba_write (take ?B content) ba = (Inr (), ba1)" "ba_inv ba1"
      "ba_data ba1 = put_at (m_position ba) (take ?B content) (ba_data ba)"
      "m_position ba1 = m_position ba + length (take ?B content)" "m_endian ba1 = m_endian ba"
    using ba_write_correct [OF less.prems] by blast
  show ?case
  proof (cases "length content < ?B")
    case True
    then have "read_file_loop content ba = (Inr True, ba1)" using B b(1) by (simp add: read_file_loop.simps)
    then show ?thesis using True b by simp
  next
    case False
    have run: "read_file_loop content ba = read_file_loop (drop ?B content) ba1"
      using B False b(1) by (subst read_file_loop.simps) simp
    have "length (drop ?B content) < length content" using False B by simp
    from less.hyps [OF this b(2)]
    obtain ba' where r: "read_file_loop (drop ?B content) ba1 = (Inr True, ba')" "ba_inv ba'" "m_endian ba' = m_endian ba1"
        "ba_data ba' = put_at (m_position ba1) (drop ?B content) (ba_data ba1)"
        "m_position ba' = m_position ba1 + length (drop ?B content)"
      by blast
    have "ba_data ba' = put_at (m_position ba) content (ba_data ba)"
      using put_at_append_end [of "m_position ba" "ba_data ba" "take ?B content" "drop ?B content"] r(4) b(3,4) le by simp
    then show ?thesis using run r b False by simp
  qed
qed

subsection \<open>Properties\<close>

text \<open>
  \<open>getReadBuffers\<close> appends, for \<open>min(len, unread)\<close> bytes, a scatter list whose entries stay inside
  their blocks and whose concatenated contents are the bytes that follow the position.
\<close>

lemma getReadBuffers_describe_unread:
  assumes "ba_inv ba"
  shows "\<exists>iovs. getReadBuffers ba bufs len = Inr (min len (m_size ba - m_position ba), bufs @ iovs)
    \<and> (\<forall>v \<in> set iovs. iov_ok ba v) \<and> concat (map (iov_bytes ba) iovs) = take len (drop (m_position ba) (ba_data ba))"
  using assms by (rule getReadBuffers_correct)

text \<open>
  \<open>getWriteBuffers\<close> reserves room for \<open>len\<close> bytes and appends a scatter list of exactly the
  addresses from the position on, in order and inside their blocks, without changing data or position.
\<close>

lemma getWriteBuffers_reserve:
  assumes "ba_inv ba"
  shows "\<exists>iovs ba'. getWriteBuffers bufs len ba = (Inr (len, bufs @ iovs), ba') \<and> ba_inv ba'
    \<and> ba_data ba' = ba_data ba \<and> m_position ba' = m_position ba \<and> (\<forall>v \<in> set iovs. iov_ok ba' v)
    \<and> concat (map (iov_addrs ba') iovs) = [m_position ba ..< m_position ba + len]"
  using getWriteBuffers_correct [OF assms] by blast

text \<open>
  \<open>writeToFile\<close> writes exactly the unread bytes when the position is at a block border, when at
  least one block of data is unread, or when nothing is; in the remaining case (a position inside a
  block with less than a block unread) the lengths it computes go wrong and the call faults.
\<close>

lemma writeToFile_characterised:
  assumes "ba_inv ba" and "m_baseSize ba \<le> 2 ^ 31"
  shows "if m_position ba mod m_baseSize ba = 0 \<or> m_baseSize ba \<le> m_size ba - m_position ba \<or> m_position ba = m_size ba
    then writeToFile True ba = Inr (True, drop (m_position ba) (ba_data ba))
    else \<exists>e. writeToFile True ba = Inl e"
proof -
  have "m_position ba \<le> m_size ba" using assms(1) by (simp add: ba_inv_def)
  then show ?thesis
    using writeToFile_unread [OF assms] writeToFile_misaligned [OF assms] by (auto simp: not_le)
qed

text \<open>
  \<open>readFromFile\<close> reads the whole file block by block into the buffer, for every block size and
  file length, and terminates: the data has the contents of the file at the old position.
\<close>

lemma readFromFile_loads:
  assumes "ba_inv ba"
  shows "\<exists>ba'. readFromFile (Some content) ba = (Inr True, ba') \<and> ba_inv ba'
    \<and> ba_data ba' = put_at (m_position ba) content (ba_data ba) \<and> m_position ba' = m_position ba + length content"
  using read_file_loop_correct [OF assms] by (auto simp: readFromFile_def)

text \<open>
  \<open>toString\<close> returns the unread bytes, and \<open>toHexString\<close> prints them as two digits and a blank
  per byte with a line break after every 32: it has \<open>3 n + (n - 1) / 32\<close> characters.
\<close>

lemma toString_unread:
  assumes "ba_inv ba"
  shows "ba_toString ba = Inr (drop (m_position ba) (ba_data ba))
    \<and> (\<exists>s. toHexString ba = Inr s \<and> length s = 3 * getReadSize ba + (getReadSize ba - 1) div 32)"
  using assms length_ba_data [OF assms]
  by (simp add: ba_toString_correct toHexString_def length_hex_cells getReadSize_def ba_inv_def)

end
