(* ===== verification/ByteArrayCodec.thy ===== *)
theory ByteArrayCodec
  imports ByteArrayBuffers Endian
begin

text \<open>
  The typed writers and readers of \<open>ByteArray\<close> (\<open>sylar/bytearray.cpp\<close>): fixed-width integers in
  either byte order, base-128 varints, zigzag integers, floating point bit patterns and
  length-prefixed strings. Signed and unsigned members share the word type of their width; the sign
  is read with \<^const>\<open>sint\<close>. The codecs only use \<open>write\<close>, \<open>read\<close> and \<open>setPosition\<close>; the locale
  \<open>byte_stream\<close> states what they rely on and carries the round-trip argument.
\<close>

subsection \<open>Fixed width\<close>

definition host_order :: "endian \<Rightarrow> 'a::len word \<Rightarrow> 'a word" where
  "host_order e v = (if e \<noteq> SYLAR_BYTE_ORDER then byteswap v else v)"

definition writeFint8 :: "8 word \<Rightarrow> (bytearray, ba_error, unit) outcome" where
  "writeFint8 v = ba_write (mem_bytes 1 v)"

definition writeFuint8 :: "u8 \<Rightarrow> (bytearray, ba_error, unit) outcome" where
  "writeFuint8 v = ba_write (mem_bytes 1 v)"

definition writeFint16 :: "16 word \<Rightarrow> (bytearray, ba_error, unit) outcome" where
  "writeFint16 v = (\<lambda>ba. ba_write (mem_bytes 2 (host_order (m_endian ba) v)) ba)"

definition writeFuint16 :: "u16 \<Rightarrow> (bytearray, ba_error, unit) outcome" where
  "writeFuint16 v = (\<lambda>ba. ba_write (mem_bytes 2 (host_order (m_endian ba) v)) ba)"

definition writeFint32 :: "32 word \<Rightarrow> (bytearray, ba_error, unit) outcome" where
  "writeFint32 v = (\<lambda>ba. ba_write (mem_bytes 4 (host_order (m_endian ba) v)) ba)"

definition writeFuint32 :: "u32 \<Rightarrow> (bytearray, ba_error, unit) outcome" where
  "writeFuint32 v = (\<lambda>ba. ba_write (mem_bytes 4 (host_order (m_endian ba) v)) ba)"

definition writeFint64 :: "64 word \<Rightarrow> (bytearray, ba_error, unit) outcome" where
  "writeFint64 v = (\<lambda>ba. ba_write (mem_bytes 8 (host_order (m_endian ba) v)) ba)"

definition writeFuint64 :: "u64 \<Rightarrow> (bytearray, ba_error, unit) outcome" where
  "writeFuint64 v = (\<lambda>ba. ba_write (mem_bytes 8 (host_order (m_endian ba) v)) ba)"

definition readFint8 :: "(bytearray, ba_error, 8 word) outcome" where
  "readFint8 = andThen (ba_read 1) (\<lambda>bs. ret (of_mem bs))"

definition readFuint8 :: "(bytearray, ba_error, u8) outcome" where
  "readFuint8 = andThen (ba_read 1) (\<lambda>bs. ret (of_mem bs))"

text \<open>The macro \<open>XX\<close> of the multi-byte readers.\<close>

definition read_XX :: "nat \<Rightarrow> (bytearray, ba_error, 'a::len word) outcome" where
  "read_XX sz = andThen (ba_read sz) (\<lambda>bs ba.
     if m_endian ba = SYLAR_BYTE_ORDER then ret (of_mem bs) ba else ret (byteswap (of_mem bs)) ba)"

definition readFint16 :: "(bytearray, ba_error, 16 word) outcome" where
  "readFint16 = read_XX 2"

definition readFuint16 :: "(bytearray, ba_error, u16) outcome" where
  "readFuint16 = read_XX 2"

definition readFint32 :: "(bytearray, ba_error, 32 word) outcome" where
  "readFint32 = read_XX 4"

definition readFuint32 :: "(bytearray, ba_error, u32) outcome" where
  "readFuint32 = read_XX 4"

definition readFint64 :: "(bytearray, ba_error, 64 word) outcome" where
  "readFint64 = read_XX 8"

definition readFuint64 :: "(bytearray, ba_error, u64) outcome" where
  "readFuint64 = read_XX 8"

text \<open>\<open>float\<close> and \<open>double\<close> are their bit patterns: the code only copies the representation.\<close>

definition writeFloat :: "u32 \<Rightarrow> (bytearray, ba_error, unit) outcome" where
  "writeFloat bits = writeFuint32 bits"

definition writeDouble :: "u64 \<Rightarrow> (bytearray, ba_error, unit) outcome" where
  "writeDouble bits = writeFuint64 bits"

definition readFloat :: "(bytearray, ba_error, u32) outcome" where
  "readFloat = readFuint32"

definition readDouble :: "(bytearray, ba_error, u64) outcome" where
  "readDouble = readFuint64"

subsection \<open>Zigzag and varint\<close>

definition EncodeZigzag32 :: "32 word \<Rightarrow> u32" where
  "EncodeZigzag32 v = (if sint v < 0 then (- v) * 2 - 1 else v * 2)"

text \<open>Computed in 64 bits, returned as \<open>uint32_t\<close>.\<close>

definition EncodeZigzag64 :: "64 word \<Rightarrow> u32" where
  "EncodeZigzag64 v = ucast (if sint v < 0 then (- v) * 2 - 1 else v * 2)"

definition DecodeZigzag32 :: "u32 \<Rightarrow> 32 word" where
  "DecodeZigzag32 v = (drop_bit 1 v) XOR (- (v AND 1))"

text \<open>Computed in 64 bits, returned as \<open>int32_t\<close>.\<close>

definition DecodeZigzag64 :: "u64 \<Rightarrow> 32 word" where
  "DecodeZigzag64 v = ucast ((drop_bit 1 v) XOR (- (v AND 1)))"

text \<open>
  The loop that fills \<open>tmp\<close>; \<open>room\<close> is the number of bytes of \<open>tmp\<close> not yet used, so that storing
  past the end of \<open>tmp\<close> is the error \<^const>\<open>Buffer_overflow\<close>.
\<close>

primrec varint_loop :: "nat \<Rightarrow> 'a::len word \<Rightarrow> ba_error + u8 list" where
  "varint_loop 0 v = Inl Buffer_overflow"
| "varint_loop (Suc room) v =
     (if 0x80 \<le> v then
        (case varint_loop room (drop_bit 7 v) of
           Inl e \<Rightarrow> Inl e
         | Inr tmp \<Rightarrow> Inr (ucast ((v AND 0x7F) OR 0x80) # tmp))
      else Inr [ucast v])"

definition writeUint32 :: "u32 \<Rightarrow> (bytearray, ba_error, unit) outcome" where
  "writeUint32 v = (case varint_loop 5 v of Inl e \<Rightarrow> throw e | Inr tmp \<Rightarrow> ba_write tmp)"

definition writeUint64 :: "u64 \<Rightarrow> (bytearray, ba_error, unit) outcome" where
  "writeUint64 v = (case varint_loop 10 v of Inl e \<Rightarrow> throw e | Inr tmp \<Rightarrow> ba_write tmp)"

definition writeInt32 :: "32 word \<Rightarrow> (bytearray, ba_error, unit) outcome" where
  "writeInt32 v = writeUint32 (EncodeZigzag32 v)"

definition writeInt64 :: "64 word \<Rightarrow> (bytearray, ba_error, unit) outcome" where
  "writeInt64 v = writeUint64 (ucast (EncodeZigzag64 v))"

text \<open>\<open>for (int i = 0; i < width; i += 7)\<close>, with \<open>result\<close> as accumulator.\<close>

function varint_read :: "nat \<Rightarrow> 'a::len word \<Rightarrow> (bytearray, ba_error, 'a word) outcome" where
  "varint_read i result =
     (if i < LENGTH('a) then
        andThen readFuint8 (\<lambda>b.
          if b < 0x80 then ret (result OR push_bit i (ucast b))
          else varint_read (i + 7) (result OR push_bit i (ucast (b AND 0x7F))))
      else ret result)"
  by pat_completeness auto
termination
  by (relation "measure (\<lambda>(i, result :: 'a word). LENGTH('a) - i)") auto

declare varint_read.simps [simp del]

definition readUint32 :: "(bytearray, ba_error, u32) outcome" where
  "readUint32 = varint_read 0 0"

definition readUint64 :: "(bytearray, ba_error, u64) outcome" where
  "readUint64 = varint_read 0 0"

definition readInt32 :: "(bytearray, ba_error, 32 word) outcome" where
  "readInt32 = andThen readUint32 (\<lambda>v. ret (DecodeZigzag32 v))"

definition readInt64 :: "(bytearray, ba_error, 64 word) outcome" where
  "readInt64 = andThen readUint64 (\<lambda>v. ret (scast (DecodeZigzag64 v)))"

subsection \<open>Strings\<close>

definition writeStringF16 :: "u8 list \<Rightarrow> (bytearray, ba_error, unit) outcome" where
  "writeStringF16 str = andThen (writeFuint16 (of_nat (length str))) (\<lambda>_. ba_write str)"

definition writeStringF32 :: "u8 list \<Rightarrow> (bytearray, ba_error, unit) outcome" where
  "writeStringF32 str = andThen (writeFuint32 (of_nat (length str))) (\<lambda>_. ba_write str)"

definition writeStringF64 :: "u8 list \<Rightarrow> (bytearray, ba_error, unit) outcome" where
  "writeStringF64 str = andThen (writeFuint64 (of_nat (length str))) (\<lambda>_. ba_write str)"

definition writeStringVint :: "u8 list \<Rightarrow> (bytearray, ba_error, unit) outcome" where
  "writeStringVint str = andThen (writeUint64 (of_nat (length str))) (\<lambda>_. ba_write str)"

definition writeStringWithoutLength :: "u8 list \<Rightarrow> (bytearray, ba_error, unit) outcome" where
  "writeStringWithoutLength str = ba_write str"

definition readStringF16 :: "(bytearray, ba_error, u8 list) outcome" where
  "readStringF16 = andThen readFuint16 (\<lambda>len. ba_read (unat len))"

definition readStringF32 :: "(bytearray, ba_error, u8 list) outcome" where
  "readStringF32 = andThen readFuint32 (\<lambda>len. ba_read (unat len))"

definition readStringF64 :: "(bytearray, ba_error, u8 list) outcome" where
  "readStringF64 = andThen readFuint64 (\<lambda>len. ba_read (unat len))"

definition readStringVint :: "(bytearray, ba_error, u8 list) outcome" where
  "readStringVint = andThen readUint64 (\<lambda>len. ba_read (unat len))"

subsection \<open>The stream interface of the codecs\<close>

text \<open>
  A positioned byte stream: \<open>wr\<close> overwrites from the position and extends the data, \<open>rd\<close> returns
  a non-empty slice, \<open>seek\<close> moves inside the data; none of them changes the configuration.
\<close>

locale byte_stream =
  fixes inv :: "'s \<Rightarrow> bool" and data :: "'s \<Rightarrow> u8 list" and pos :: "'s \<Rightarrow> nat" and conf :: "'s \<Rightarrow> 'c"
    and wr :: "u8 list \<Rightarrow> ('s, 'e, unit) outcome" and rd :: "nat \<Rightarrow> ('s, 'e, u8 list) outcome"
    and seek :: "nat \<Rightarrow> ('s, 'e, unit) outcome"
  assumes pos_le: "inv s \<Longrightarrow> pos s \<le> length (data s)"
    and wr_ok: "inv s \<Longrightarrow> \<exists>s'. wr bs s = (Inr (), s') \<and> inv s' \<and> data s' = put_at (pos s) bs (data s)
      \<and> pos s' = pos s + length bs \<and> conf s' = conf s"
    and rd_ok: "inv s \<Longrightarrow> 0 < n \<Longrightarrow> pos s + n \<le> length (data s) \<Longrightarrow>
      \<exists>s'. rd n s = (Inr (take n (drop (pos s) (data s))), s') \<and> inv s' \<and> data s' = data s
      \<and> pos s' = pos s + n \<and> conf s' = conf s"
    and seek_ok: "inv s \<Longrightarrow> p \<le> length (data s) \<Longrightarrow>
      \<exists>s'. seek p s = (Inr (), s') \<and> inv s' \<and> data s' = data s \<and> pos s' = p \<and> conf s' = conf s"
begin

definition writes :: "'c \<Rightarrow> ('s, 'e, unit) outcome \<Rightarrow> u8 list \<Rightarrow> bool" where
  "writes c op bs \<longleftrightarrow> (\<forall>s. inv s \<longrightarrow> conf s = c \<longrightarrow>
     (\<exists>s'. op s = (Inr (), s') \<and> inv s' \<and> data s' = put_at (pos s) bs (data s)
       \<and> pos s' = pos s + length bs \<and> conf s' = c))"

definition ahead :: "u8 list \<Rightarrow> 's \<Rightarrow> bool" where
  "ahead bs s \<longleftrightarrow> (\<exists>rest. drop (pos s) (data s) = bs @ rest)"

definition parses :: "'c \<Rightarrow> ('s, 'e, 'v) outcome \<Rightarrow> u8 list \<Rightarrow> 'v \<Rightarrow> bool" where
  "parses c op bs v \<longleftrightarrow> (\<forall>s. inv s \<longrightarrow> conf s = c \<longrightarrow> ahead bs s \<longrightarrow>
     (\<exists>s'. op s = (Inr v, s') \<and> inv s' \<and> data s' = data s \<and> pos s' = pos s + length bs \<and> conf s' = c))"

lemma writes_wr: "writes c (wr bs) bs"
  using wr_ok by (auto simp: writes_def)

lemma writes_ret: "writes c (ret ()) []"
  by (simp add: writes_def ret_def slice_simps)

lemma writes_conf: "(\<And>s. conf s = c \<Longrightarrow> op s = op' s) \<Longrightarrow> writes c op' bs \<Longrightarrow> writes c op bs"
  by (simp add: writes_def)

lemma writes_andThen:
  assumes "writes c op as" and "writes c op' bs"
  shows "writes c (andThen op (\<lambda>_. op')) (as @ bs)"
  unfolding writes_def
proof (intro allI impI)
  fix s assume s: "inv s" "conf s = c"
  obtain s1 where 1: "op s = (Inr (), s1)" "inv s1" "data s1 = put_at (pos s) as (data s)"
      "pos s1 = pos s + length as" "conf s1 = c"
    using assms(1) s by (auto simp: writes_def)
  obtain s2 where 2: "op' s1 = (Inr (), s2)" "inv s2" "data s2 = put_at (pos s1) bs (data s1)"
      "pos s2 = pos s1 + length bs" "conf s2 = c"
    using assms(2) 1(2,5) by (auto simp: writes_def)
  show "\<exists>s'. andThen op (\<lambda>_. op') s = (Inr (), s') \<and> inv s' \<and> data s' = put_at (pos s) (as @ bs) (data s)
      \<and> pos s' = pos s + length (as @ bs) \<and> conf s' = c"
    using 1 2 put_at_append_end [OF pos_le [OF s(1)]] by (simp add: outcome_simps)
qed

lemma parses_rd: "bs \<noteq> [] \<Longrightarrow> parses c (rd (length bs)) bs bs"
  unfolding parses_def
proof (intro allI impI)
  fix s assume bs: "bs \<noteq> []" and s: "inv s" "conf s = c" "ahead bs s"
  obtain rest where r: "drop (pos s) (data s) = bs @ rest" using s(3) by (auto simp: ahead_def)
  then have "length (data s) - pos s = length bs + length rest" by (metis length_append length_drop)
  then have "pos s + length bs \<le> length (data s)" using pos_le [OF s(1)] by linarith
  from rd_ok [OF s(1) _ this] bs r s(2)
  show "\<exists>s'. rd (length bs) s = (Inr bs, s') \<and> inv s' \<and> data s' = data s
      \<and> pos s' = pos s + length bs \<and> conf s' = c" by simp
qed

lemma parses_ret: "parses c (ret v) [] v"
  by (simp add: parses_def ret_def)

lemma parses_andThen:
  assumes "parses c op as v" and "parses c (f v) bs w"
  shows "parses c (andThen op f) (as @ bs) w"
  unfolding parses_def
proof (intro allI impI)
  fix s assume s: "inv s" "conf s = c" "ahead (as @ bs) s"
  obtain rest where r: "drop (pos s) (data s) = as @ bs @ rest" using s(3) by (auto simp: ahead_def)
  then have "ahead as s" by (auto simp: ahead_def)
  then obtain s1 where 1: "op s = (Inr v, s1)" "inv s1" "data s1 = data s" "pos s1 = pos s + length as" "conf s1 = c"
    using assms(1) s by (auto simp: parses_def)
  have "drop (pos s1) (data s1) = drop (length as) (drop (pos s) (data s))"
    using 1 by (simp add: add.commute)
  then have "ahead bs s1" using r by (simp add: ahead_def)
  then obtain s2 where "f v s1 = (Inr w, s2)" "inv s2" "data s2 = data s1" "pos s2 = pos s1 + length bs" "conf s2 = c"
    using assms(2) 1 by (auto simp: parses_def)
  then show "\<exists>s'. andThen op f s = (Inr w, s') \<and> inv s' \<and> data s' = data s
      \<and> pos s' = pos s + length (as @ bs) \<and> conf s' = c"
    using 1 by (simp add: outcome_simps)
qed

lemma parses_andThen_ret: "parses c op bs v \<Longrightarrow> parses c (andThen op (\<lambda>x. ret (g x))) bs (g v)"
  using parses_andThen [where f = "\<lambda>x. ret (g x)" and v = v and w = "g v" and bs = "[]", OF _ parses_ret, of c op bs] by simp

text \<open>Write, seek back to where the writer started, read: the value comes back.\<close>

lemma roundtrip:
  assumes "writes (conf s) op bs" and "parses (conf s) op' bs v" and "inv s"
  shows "\<exists>s'. andThen op (\<lambda>_. andThen (seek (pos s)) (\<lambda>_. op')) s = (Inr v, s') \<and> inv s'
    \<and> data s' = put_at (pos s) bs (data s) \<and> pos s' = pos s + length bs \<and> conf s' = conf s"
proof -
  obtain s1 where 1: "op s = (Inr (), s1)" "inv s1" "data s1 = put_at (pos s) bs (data s)" "conf s1 = conf s"
    using assms(1,3) by (auto simp: writes_def)
  have p: "pos s \<le> length (data s)" using pos_le assms(3) by simp
  then have "pos s \<le> length (data s1)" by (simp add: 1(3) put_at_def)
  from seek_ok [OF 1(2) this] obtain s2 where 2: "seek (pos s) s1 = (Inr (), s2)" "inv s2" "data s2 = data s1"
      "pos s2 = pos s" "conf s2 = conf s" using 1 by auto
  have "ahead bs s2" using 2 1(3) p by (simp add: ahead_def put_at_def)
  then obtain s3 where "op' s2 = (Inr v, s3)" "inv s3" "data s3 = data s2" "pos s3 = pos s2 + length bs" "conf s3 = conf s"
    using assms(2) 2 by (auto simp: parses_def)
  then show ?thesis using 1 2 by (simp add: outcome_simps)
qed

end

lemma ba_seek_inside:
  assumes "ba_inv ba" and "p \<le> length (ba_data ba)"
  shows "\<exists>ba'. setPosition p ba = (Inr (), ba') \<and> ba_inv ba' \<and> ba_data ba' = ba_data ba
    \<and> m_position ba' = p \<and> m_endian ba' = m_endian ba"
proof -
  have "p \<le> m_size ba" "p \<le> m_capacity ba"
    using assms length_ba_data [OF assms(1)] by (auto simp: ba_inv_def)
  with setPosition_correct [OF assms(1) this(2)] show ?thesis
    by (metis ba_data_def max.absorb1)
qed

lemma ba_read_inside:
  assumes "ba_inv ba" and "0 < n" and "m_position ba + n \<le> length (ba_data ba)"
  shows "\<exists>ba'. ba_read n ba = (Inr (take n (drop (m_position ba) (ba_data ba))), ba') \<and> ba_inv ba'
    \<and> ba_data ba' = ba_data ba \<and> m_position ba' = m_position ba + n \<and> m_endian ba' = m_endian ba"
proof -
  have "n \<le> m_size ba - m_position ba" "m_position ba < m_capacity ba"
    using assms length_ba_data [OF assms(1)] by (auto simp: ba_inv_def)
  from ba_read_correct [OF assms(1) this] show ?thesis
    by (simp add: ba_data_def)
qed

interpretation bs: byte_stream ba_inv ba_data m_position m_endian ba_write ba_read setPosition
proof unfold_locales
  show "m_position ba \<le> length (ba_data ba)" if "ba_inv ba" for ba
    using that length_ba_data [OF that] by (simp add: ba_inv_def)
  show "\<exists>s'. ba_write buf s = (Inr (), s') \<and> ba_inv s' \<and> ba_data s' = put_at (m_position s) buf (ba_data s)
      \<and> m_position s' = m_position s + length buf \<and> m_endian s' = m_endian s" if "ba_inv s" for s buf
    using ba_write_correct [OF that, of buf] by blast
qed (use ba_seek_inside ba_read_inside in auto)


subsection \<open>Correctness of the codecs\<close>

text \<open>The bytes of a fixed-width value on the wire.\<close>

definition wire :: "endian \<Rightarrow> nat \<Rightarrow> 'a::len word \<Rightarrow> u8 list" where
  "wire e n v = (case e of SYLAR_LITTLE_ENDIAN \<Rightarrow> mem_bytes n v | SYLAR_BIG_ENDIAN \<Rightarrow> rev (mem_bytes n v))"

lemma length_wire [simp]: "length (wire e n v) = n"
  by (simp add: wire_def split: endian.splits)

lemma mem_bytes_host_order:
  fixes v :: "'a::len word"
  shows "8 * n = LENGTH('a) \<Longrightarrow> mem_bytes n (host_order e v) = wire e n v"
  by (cases e) (simp_all add: host_order_def wire_def SYLAR_BYTE_ORDER_def mem_bytes_byteswap)

lemma of_mem_wire:
  fixes v :: "'a::len word"
  assumes "8 * n = LENGTH('a)"
  shows "(if e = SYLAR_BYTE_ORDER then of_mem (wire e n v) else byteswap (of_mem (wire e n v))) = v"
proof -
  have "of_mem (wire e n v) = host_order e v"
    using assms by (simp add: of_mem_mem_bytes_full flip: mem_bytes_host_order)
  then show ?thesis using assms by (auto simp: host_order_def byteswap_byteswap)
qed

lemma writes_fixed:
  fixes v :: "'a::len word"
  assumes "8 * n = LENGTH('a)"
  shows "bs.writes e (\<lambda>ba. ba_write (mem_bytes n (host_order (m_endian ba) v)) ba) (wire e n v)"
  by (rule bs.writes_conf [OF _ bs.writes_wr]) (simp add: assms mem_bytes_host_order)

lemma parses_fixed:
  fixes v :: "'a::len word"
  assumes "8 * n = LENGTH('a)"
  shows "bs.parses e (read_XX n) (wire e n v) v"
proof -
  have "0 < n" using assms by (cases n) auto
  then have "wire e n v \<noteq> []" by (metis length_wire length_greater_0_conv)
  from bs.parses_rd [OF this, of e] have "bs.parses e (ba_read n) (wire e n v) (wire e n v)" by simp
  moreover have "bs.parses e (\<lambda>ba. if m_endian ba = SYLAR_BYTE_ORDER then ret (of_mem (wire e n v)) ba
      else ret (byteswap (of_mem (wire e n v))) ba) [] v"
    using of_mem_wire [OF assms, of e v] by (auto simp: bs.parses_def ret_def)
  ultimately show ?thesis
    unfolding read_XX_def using bs.parses_andThen [where bs = "[]"] by fastforce
qed

lemma parses_byte: "bs.parses e readFuint8 [b] b"
proof -
  have "bs.parses e (ba_read 1) [b] [b]" using bs.parses_rd [of "[b]" e] by simp
  from bs.parses_andThen_ret [OF this, of "of_mem :: u8 list \<Rightarrow> u8"] show ?thesis
    by (simp add: readFuint8_def)
qed

lemma writes_varint:
  "varint_loop room v = Inr tmp \<Longrightarrow> bs.writes e (case varint_loop room v of Inl e \<Rightarrow> throw e | Inr tmp \<Rightarrow> ba_write tmp) tmp"
  by (simp add: bs.writes_wr)

lemma less_0x80_unat:
  fixes v :: "'a::len word"
  assumes "7 < LENGTH('a)"
  shows "v < 0x80 \<longleftrightarrow> unat v < 128"
proof -
  have "(2 :: nat) ^ 7 < 2 ^ LENGTH('a)" using assms by (intro power_strict_increasing) simp_all
  then have "unat (of_nat 128 :: 'a word) = 128" by (simp add: unsigned_of_nat take_bit_nat_eq_self del: of_nat_numeral)
  then show ?thesis by (simp add: word_less_nat_alt)
qed

lemma less_0x80_iff:
  fixes v :: "'a::len word"
  assumes "7 < LENGTH('a)"
  shows "v < 0x80 \<longleftrightarrow> take_bit 7 v = v"
proof -
  have "v < 0x80 \<longleftrightarrow> unat v < 128" by (rule less_0x80_unat [OF assms])
  also have "\<dots> \<longleftrightarrow> take_bit 7 (unat v) = unat v" by (simp add: take_bit_nat_eq_self_iff)
  also have "\<dots> \<longleftrightarrow> take_bit 7 v = v"
    using assms by (simp add: word_eq_iff_unsigned [where 'a = nat] unsigned_take_bit_eq)
  finally show ?thesis .
qed

lemma bit_0x80 [bit_simps]: "bit (0x80 :: 'a::len word) n \<longleftrightarrow> n = 7 \<and> 7 < LENGTH('a)"
  using bit_exp_iff [of 7 n, where 'a = "'a word"] by (auto simp: possible_bit_def)

lemma bit_numeral_0x80: "bit (0x80 :: int) n \<Longrightarrow> n = 7"
  using bit_exp_iff [of 7 n, where 'a = int] by simp

lemma and_0x7F: "(v :: 'a::len word) AND 0x7F = take_bit 7 v"
  by (simp add: take_bit_eq_mask mask_eq_exp_minus_1)

text \<open>What one continuation byte and the last byte of a varint carry.\<close>

lemma varint_byte:
  fixes v :: "'a::len word"
  assumes "7 < LENGTH('a)"
  shows "\<not> (ucast ((v AND 0x7F) OR 0x80) :: u8) < 0x80"
    and "ucast ((ucast ((v AND 0x7F) OR 0x80) :: u8) AND 0x7F) = take_bit 7 v"
    and "v < 0x80 \<Longrightarrow> (ucast v :: u8) < 0x80"
    and "v < 0x80 \<Longrightarrow> ucast (ucast v :: u8) = v"
proof -
  let ?b = "ucast ((v AND 0x7F) OR 0x80) :: u8"
  have "bit ?b 7" "\<not> bit (take_bit 7 ?b) 7" using assms by (simp_all add: bit_simps)
  then have "take_bit 7 ?b \<noteq> ?b" by metis
  then show "\<not> ?b < 0x80" using less_0x80_iff [of ?b] by simp
  show "ucast (?b AND 0x7F) = take_bit 7 v"
    by (rule bit_word_eqI) (use assms in \<open>auto simp: and_0x7F bit_simps dest: bit_numeral_0x80\<close>)
next
  assume "v < 0x80"
  then have small: "take_bit 7 v = v" using less_0x80_iff [OF assms] by simp
  have "take_bit 7 (ucast v :: u8) = ucast (take_bit 7 v)"
    by (rule bit_word_eqI) (auto simp: bit_simps)
  then show "(ucast v :: u8) < 0x80" using small less_0x80_iff [of "ucast v :: u8"] by simp
  have "ucast (ucast (take_bit 7 v) :: u8) = take_bit 7 v"
    by (rule bit_word_eqI) (use assms in \<open>auto simp: bit_simps\<close>)
  then show "ucast (ucast v :: u8) = v" using small by simp
qed

lemma varint_loop_total:
  fixes v :: "'a::len word"
  assumes "7 < LENGTH('a)" and "take_bit (7 * Suc k) v = v"
  shows "\<exists>tmp. varint_loop (Suc k) v = Inr tmp \<and> length tmp \<le> Suc k"
  using assms(2)
proof (induction k arbitrary: v)
  case 0
  then show ?case using less_0x80_iff [OF assms(1), of v] by simp
next
  case (Suc k)
  have "take_bit (7 * Suc k) (drop_bit 7 v) = drop_bit 7 (take_bit (7 * Suc (Suc k)) v)"
    by (simp add: take_bit_drop_bit add.commute)
  then have "take_bit (7 * Suc k) (drop_bit 7 v) = drop_bit 7 v" using Suc.prems by simp
  from Suc.IH [OF this] show ?case by auto
qed

lemma parses_varint:
  fixes v acc :: "'a::len word"
  assumes "7 < LENGTH('a)"
  shows "varint_loop room v = Inr tmp \<Longrightarrow> i < LENGTH('a) \<Longrightarrow> take_bit (LENGTH('a) - i) v = v \<Longrightarrow>
    bs.parses e (varint_read i acc) tmp (acc OR push_bit i v)"
proof (induction room arbitrary: v tmp i acc)
  case 0
  then show ?case by simp
next
  case (Suc room)
  let ?f = "\<lambda>b. if b < 0x80 then ret (acc OR push_bit i (ucast b))
    else varint_read (i + 7) (acc OR push_bit i (ucast (b AND 0x7F :: u8)))"
  have step: "bs.parses e (varint_read i acc) (b # bs) w" if "bs.parses e (?f b) bs w" for b bs w
    using bs.parses_andThen [of e readFuint8 "[b]" b ?f bs w] parses_byte that Suc.prems(2)
    by (simp add: varint_read.simps [of i acc])
  show ?case
  proof (cases "v < 0x80")
    case True
    then have "\<not> 0x80 \<le> v" by (simp add: not_le)
    then have "tmp = [ucast v]" using Suc.prems(1) by simp
    then show ?thesis
      using True varint_byte(3,4) [OF assms True] bs.parses_ret by (auto intro!: step)
  next
    case False
    then obtain rest where r: "varint_loop room (drop_bit 7 v) = Inr rest" "tmp = ucast ((v AND 0x7F) OR 0x80) # rest"
      using Suc.prems(1) by (auto simp: not_le split: sum.splits if_splits)
    have lt: "i + 7 < LENGTH('a)"
    proof (rule ccontr)
      assume "\<not> i + 7 < LENGTH('a)"
      then have "take_bit 7 v = v" using Suc.prems(3) by (metis take_bit_tightened le_diff_conv add.commute not_le min.absorb2 take_bit_take_bit)
      then show False using False less_0x80_iff [OF assms] by simp
    qed
    have "take_bit (LENGTH('a) - (i + 7)) (drop_bit 7 v) = drop_bit 7 (take_bit (LENGTH('a) - i) v)"
      using lt by (simp add: take_bit_drop_bit)
    then have fits: "take_bit (LENGTH('a) - (i + 7)) (drop_bit 7 v) = drop_bit 7 v" using Suc.prems(3) by simp
    have "take_bit 7 v OR push_bit 7 (drop_bit 7 v) = v"
    proof (rule bit_word_eqI)
      show "bit (take_bit 7 v OR push_bit 7 (drop_bit 7 v)) n = bit v n" if "n < LENGTH('a)" for n
        using that by (cases "n < 7") (auto simp: bit_simps)
    qed
    then have "(acc OR push_bit i (take_bit 7 v)) OR push_bit (i + 7) (drop_bit 7 v) = acc OR push_bit i v"
      by (metis or.assoc push_bit_or push_bit_push_bit)
    with Suc.IH [OF r(1) lt fits, of "acc OR push_bit i (take_bit 7 v)"] show ?thesis
      using varint_byte(1,2) [OF assms, of v] r(2) by (auto intro!: step)
  qed
qed

text \<open>The base-128 encoding as a function on numbers: what the loop of \<open>writeUint32/64\<close> produces.\<close>

fun base128 :: "nat \<Rightarrow> u8 list" where
  "base128 n = (if n < 128 then [of_nat n] else of_nat (n mod 128 + 128) # base128 (n div 128))"

declare base128.simps [simp del]

lemma base128_step:
  "n < 128 \<Longrightarrow> base128 n = [of_nat n]"
  "128 \<le> n \<Longrightarrow> base128 n = of_nat (n mod 128 + 128) # base128 (n div 128)"
  by (simp_all add: base128.simps)

lemma varint_head:
  fixes v :: "'a::len word"
  assumes "7 < LENGTH('a)"
  shows "(ucast ((v AND 0x7F) OR 0x80) :: u8) = of_nat (unat v mod 128 + 128)"
proof -
  have "(ucast ((v AND 0x7F) OR 0x80) :: u8) = take_bit 7 (ucast v) OR 0x80"
    by (rule bit_word_eqI) (use assms in \<open>auto simp: and_0x7F bit_simps dest: bit_numeral_0x80\<close>)
  also have "\<dots> = take_bit 7 (ucast v) + 0x80"
    by (rule disjunctive_add [symmetric]) (auto simp: bit_simps dest: bit_numeral_0x80)
  also have "take_bit 7 (ucast v) = (of_nat (take_bit 7 (unat v)) :: u8)"
    by (rule bit_word_eqI) (auto simp: bit_simps dest: bit_imp_le_length)
  finally show ?thesis by (simp add: take_bit_eq_mod [where 'a = nat])
qed

lemma base128_small:
  fixes v :: "'a::len word"
  assumes "7 < LENGTH('a)"
  shows "v < 0x80 \<Longrightarrow> base128 (unat v) = [ucast v]"
  using less_0x80_unat [OF assms, of v] by (simp add: base128.simps)

lemma varint_loop_base128:
  fixes v :: "'a::len word"
  assumes "7 < LENGTH('a)" and "take_bit (7 * Suc k) v = v"
  shows "varint_loop (Suc k) v = Inr (base128 (unat v))"
  using assms(2)
proof (induction k arbitrary: v)
  case 0
  then have "v < 0x80" using less_0x80_iff [OF assms(1), of v] by simp
  then show ?case by (simp add: not_le [symmetric] base128_small [OF assms(1)])
next
  case (Suc k)
  have "take_bit (7 * Suc k) (drop_bit 7 v) = drop_bit 7 (take_bit (7 * Suc (Suc k)) v)"
    by (simp add: take_bit_drop_bit add.commute)
  then have IH: "varint_loop (Suc k) (drop_bit 7 v) = Inr (base128 (unat (drop_bit 7 v)))"
    using Suc.IH [of "drop_bit 7 v"] Suc.prems by simp
  show ?case
  proof (cases "v < 0x80")
    case True
    then show ?thesis by (simp add: not_le [symmetric] base128_small [OF assms(1)])
  next
    case False
    then have "varint_loop (Suc (Suc k)) v = Inr (ucast ((v AND 0x7F) OR 0x80) # base128 (unat v div 128))"
      using IH by (simp add: not_le [symmetric] unat_drop_bit_eq drop_bit_eq_div [where 'a = nat])
    then show ?thesis
      using False less_0x80_unat [OF assms(1), of v] varint_head [OF assms(1), of v] by (simp add: base128.simps [of "unat v"])
  qed
qed

subsection \<open>Zigzag\<close>

lemma zigzag_eq:
  fixes v :: "'a::len word"
  shows "(if sint v < 0 then (- v) * 2 - 1 else v * 2) = (if bit v (LENGTH('a) - 1) then NOT (push_bit 1 v) else push_bit 1 v)"
  by (simp add: push_bit_eq_mult not_eq_complement bit_last_iff)

lemma zigzag_inverse:
  fixes v :: "'a::len word"
  assumes "1 < LENGTH('a)"
  defines "z \<equiv> (if bit v (LENGTH('a) - 1) then NOT (push_bit 1 v) else push_bit 1 v)"
  shows "drop_bit 1 z XOR (- (z AND 1)) = v"
proof (cases "bit v (LENGTH('a) - 1)")
  case True
  then have z: "z = NOT (push_bit 1 v)" by (simp add: z_def)
  have "z AND 1 = 1" by (rule bit_word_eqI) (use assms(1) in \<open>auto simp: z bit_simps bit_0\<close>)
  then have "drop_bit 1 z XOR (- (z AND 1)) = NOT (drop_bit 1 z)" by simp
  also have "\<dots> = v"
  proof (rule bit_word_eqI)
    show "bit (NOT (drop_bit 1 z)) n = bit v n" if "n < LENGTH('a)" for n
      using that True by (cases "n = LENGTH('a) - 1") (auto simp: z bit_simps simp del: push_bit_Suc)
  qed
  finally show ?thesis .
next
  case False
  then have z: "z = push_bit 1 v" by (simp add: z_def)
  have "z AND 1 = 0" by (rule bit_word_eqI) (auto simp: z bit_simps simp del: push_bit_Suc)
  moreover have "drop_bit 1 z = v"
  proof (rule bit_word_eqI)
    show "bit (drop_bit 1 z) n = bit v n" if "n < LENGTH('a)" for n
      using that False by (cases "n = LENGTH('a) - 1") (auto simp: z bit_simps simp del: push_bit_Suc)
  qed
  ultimately show ?thesis by simp
qed

lemma zigzag32: "DecodeZigzag32 (EncodeZigzag32 v) = v"
  unfolding DecodeZigzag32_def EncodeZigzag32_def zigzag_eq by (rule zigzag_inverse) simp

lemma small_bits:
  fixes v :: "64 word"
  assumes "- (2 ^ 31) \<le> sint v" and "sint v < 2 ^ 31" and "31 \<le> n" and "n < 64"
  shows "bit v n \<longleftrightarrow> bit v 63"
proof -
  have s: "signed_take_bit 31 (sint v) = sint v" using assms(1,2) by (simp add: signed_take_bit_int_eq_self)
  have "bit v m = bit (sint v) 31" if "31 \<le> m" "m < 64" for m
    using that arg_cong [OF s, of "\<lambda>x. bit x m"] by (cases "m = 63") (auto simp: bit_simps min_def)
  then show ?thesis using assms by simp
qed

lemma zigzag64_small:
  assumes "- (2 ^ 31) \<le> sint v" and "sint v < 2 ^ 31"
  shows "scast (DecodeZigzag64 (ucast (EncodeZigzag64 v))) = v"
proof -
  let ?z = "if bit v (LENGTH(64) - 1) then NOT (push_bit 1 v) else push_bit 1 v"
  have "(ucast (ucast ?z :: u32) :: u64) = ?z"
  proof (rule bit_word_eqI)
    show "bit (ucast (ucast ?z :: u32) :: u64) n = bit ?z n" if "n < LENGTH(64)" for n
      using that small_bits [OF assms, of "n - 1"] by (cases "n < 32") (auto simp: bit_simps simp del: push_bit_Suc)
  qed
  then have "DecodeZigzag64 (ucast (EncodeZigzag64 v)) = ucast v"
    using zigzag_inverse [of v] by (simp add: DecodeZigzag64_def EncodeZigzag64_def zigzag_eq)
  moreover have "scast (ucast v :: 32 word) = v"
  proof (rule bit_word_eqI)
    show "bit (scast (ucast v :: 32 word) :: u64) n = bit v n" if "n < LENGTH(64)" for n
      using that small_bits [OF assms, of n] small_bits [OF assms, of 31]
      by (cases "n < 31") (auto simp: bit_simps min_def)
  qed
  ultimately show ?thesis by simp
qed

lemma zigzag64_iff:
  "scast (DecodeZigzag64 (ucast (EncodeZigzag64 v))) = v \<longleftrightarrow> - (2 ^ 31) \<le> sint v \<and> sint v < 2 ^ 31"
proof -
  have "- (2 ^ 31) \<le> sint (scast w :: 64 word) \<and> sint (scast w :: 64 word) < 2 ^ 31" for w :: "32 word"
    using sint_greater_eq [of w] sint_less [of w] by (simp add: sint_up_scast is_up)
  then show ?thesis using zigzag64_small by metis
qed

subsection \<open>Messages\<close>

text \<open>
  A message is a sequence of typed fields, written one after the other and read back with the
  matching readers in the same order.
\<close>

datatype field =
    Fuint8 u8 | Fuint16 u16 | Fuint32 u32 | Fuint64 u64 | Float u32 | Double u64
  | Uint32 u32 | Uint64 u64 | Int32 "32 word"
  | StringF16 "u8 list" | StringF32 "u8 list" | StringF64 "u8 list" | StringVint "u8 list"

fun write_field :: "field \<Rightarrow> (bytearray, ba_error, unit) outcome" where
  "write_field (Fuint8 v) = writeFuint8 v"
| "write_field (Fuint16 v) = writeFuint16 v"
| "write_field (Fuint32 v) = writeFuint32 v"
| "write_field (Fuint64 v) = writeFuint64 v"
| "write_field (Float v) = writeFloat v"
| "write_field (Double v) = writeDouble v"
| "write_field (Uint32 v) = writeUint32 v"
| "write_field (Uint64 v) = writeUint64 v"
| "write_field (Int32 v) = writeInt32 v"
| "write_field (StringF16 v) = writeStringF16 v"
| "write_field (StringF32 v) = writeStringF32 v"
| "write_field (StringF64 v) = writeStringF64 v"
| "write_field (StringVint v) = writeStringVint v"

text \<open>The argument only selects the reader.\<close>

fun read_field :: "field \<Rightarrow> (bytearray, ba_error, field) outcome" where
  "read_field (Fuint8 _) = andThen readFuint8 (\<lambda>v. ret (Fuint8 v))"
| "read_field (Fuint16 _) = andThen readFuint16 (\<lambda>v. ret (Fuint16 v))"
| "read_field (Fuint32 _) = andThen readFuint32 (\<lambda>v. ret (Fuint32 v))"
| "read_field (Fuint64 _) = andThen readFuint64 (\<lambda>v. ret (Fuint64 v))"
| "read_field (Float _) = andThen readFloat (\<lambda>v. ret (Float v))"
| "read_field (Double _) = andThen readDouble (\<lambda>v. ret (Double v))"
| "read_field (Uint32 _) = andThen readUint32 (\<lambda>v. ret (Uint32 v))"
| "read_field (Uint64 _) = andThen readUint64 (\<lambda>v. ret (Uint64 v))"
| "read_field (Int32 _) = andThen readInt32 (\<lambda>v. ret (Int32 v))"
| "read_field (StringF16 _) = andThen readStringF16 (\<lambda>v. ret (StringF16 v))"
| "read_field (StringF32 _) = andThen readStringF32 (\<lambda>v. ret (StringF32 v))"
| "read_field (StringF64 _) = andThen readStringF64 (\<lambda>v. ret (StringF64 v))"
| "read_field (StringVint _) = andThen readStringVint (\<lambda>v. ret (StringVint v))"

primrec write_fields :: "field list \<Rightarrow> (bytearray, ba_error, unit) outcome" where
  "write_fields [] = ret ()"
| "write_fields (f # fs) = andThen (write_field f) (\<lambda>_. write_fields fs)"

primrec read_fields :: "field list \<Rightarrow> (bytearray, ba_error, field list) outcome" where
  "read_fields [] = ret []"
| "read_fields (f # fs) = andThen (read_field f) (\<lambda>v. andThen (read_fields fs) (\<lambda>vs. ret (v # vs)))"

fun field_wire :: "endian \<Rightarrow> field \<Rightarrow> u8 list" where
  "field_wire e (Fuint8 v) = [v]"
| "field_wire e (Fuint16 v) = wire e 2 v"
| "field_wire e (Fuint32 v) = wire e 4 v"
| "field_wire e (Fuint64 v) = wire e 8 v"
| "field_wire e (Float v) = wire e 4 v"
| "field_wire e (Double v) = wire e 8 v"
| "field_wire e (Uint32 v) = base128 (unat v)"
| "field_wire e (Uint64 v) = base128 (unat v)"
| "field_wire e (Int32 v) = base128 (unat (EncodeZigzag32 v))"
| "field_wire e (StringF16 v) = wire e 2 (of_nat (length v) :: u16) @ v"
| "field_wire e (StringF32 v) = wire e 4 (of_nat (length v) :: u32) @ v"
| "field_wire e (StringF64 v) = wire e 8 (of_nat (length v) :: u64) @ v"
| "field_wire e (StringVint v) = base128 (unat (of_nat (length v) :: u64)) @ v"

text \<open>The strings a reader can return: not empty, and as long as the length prefix can say.\<close>

fun field_ok :: "field \<Rightarrow> bool" where
  "field_ok (StringF16 v) = (v \<noteq> [] \<and> length v < 2 ^ 16)"
| "field_ok (StringF32 v) = (v \<noteq> [] \<and> length v < 2 ^ 32)"
| "field_ok (StringF64 v) = (v \<noteq> [] \<and> length v < 2 ^ 64)"
| "field_ok (StringVint v) = (v \<noteq> [] \<and> length v < 2 ^ 64)"
| "field_ok _ = True"

lemma varint_loop_32: "varint_loop 5 (v :: u32) = Inr (base128 (unat v))"
  using varint_loop_base128 [OF _ take_bit_word_eq_self [of "7 * Suc 4" v]] by (simp del: varint_loop.simps)

lemma varint_loop_64: "varint_loop 10 (v :: u64) = Inr (base128 (unat v))"
  using varint_loop_base128 [OF _ take_bit_word_eq_self [of "7 * Suc 9" v]] by (simp del: varint_loop.simps)

lemma writes_writeUint32: "bs.writes e (writeUint32 v) (base128 (unat v))"
  by (simp add: writeUint32_def varint_loop_32 bs.writes_wr del: varint_loop.simps)

lemma writes_writeUint64: "bs.writes e (writeUint64 v) (base128 (unat v))"
  by (simp add: writeUint64_def varint_loop_64 bs.writes_wr del: varint_loop.simps)

lemma parses_readUint32: "bs.parses e readUint32 (base128 (unat v)) v"
  using parses_varint [OF _ varint_loop_32, of 0 v e 0] by (simp add: readUint32_def take_bit_word_eq_self)

lemma parses_readUint64: "bs.parses e readUint64 (base128 (unat v)) v"
  using parses_varint [OF _ varint_loop_64, of 0 v e 0] by (simp add: readUint64_def take_bit_word_eq_self)

lemmas fixed_writers = writeFint16_def writeFuint16_def writeFint32_def writeFuint32_def writeFint64_def
  writeFuint64_def writeFloat_def writeDouble_def

lemmas fixed_readers = readFint16_def readFuint16_def readFint32_def readFuint32_def readFint64_def
  readFuint64_def readFloat_def readDouble_def

lemma writes_field: "bs.writes e (write_field f) (field_wire e f)"
proof (cases f)
  case (Fuint8 v)
  have "mem_bytes 1 v = [v]" by simp
  then show ?thesis using Fuint8 bs.writes_wr [of e "[v]"] by (simp add: writeFuint8_def)
qed (auto simp: fixed_writers writeInt32_def writeStringF16_def writeStringF32_def writeStringF64_def writeStringVint_def
    intro!: writes_fixed writes_writeUint32 writes_writeUint64 bs.writes_andThen bs.writes_wr)

lemma parses_string:
  assumes "bs.parses e rdlen hdr len" and "unat len = length str" and "str \<noteq> []"
  shows "bs.parses e (andThen rdlen (\<lambda>len. ba_read (unat len))) (hdr @ str) str"
  using bs.parses_andThen [OF assms(1), of "\<lambda>len. ba_read (unat len)" str str] bs.parses_rd [OF assms(3), of e] assms(2)
  by simp

lemma unat_length: "n < 2 ^ LENGTH('a::len) \<Longrightarrow> unat (of_nat n :: 'a word) = n"
  by (simp add: unsigned_of_nat take_bit_nat_eq_self)

lemma parses_field:
  assumes "field_ok f"
  shows "bs.parses e (read_field f) (field_wire e f) f"
proof -
  have "bs.parses e readInt32 (base128 (unat (EncodeZigzag32 v))) v" for v
    using bs.parses_andThen_ret [OF parses_readUint32 [of e "EncodeZigzag32 v"], of DecodeZigzag32]
    by (simp add: readInt32_def zigzag32)
  then show ?thesis
    using assms
    by (cases f) (auto simp: fixed_readers readStringF16_def readStringF32_def readStringF64_def readStringVint_def
        intro!: bs.parses_andThen_ret parses_byte parses_fixed parses_readUint32 parses_readUint64 parses_string unat_length)
qed

lemma writes_fields: "bs.writes e (write_fields fs) (concat (map (field_wire e) fs))"
  by (induction fs) (auto intro: bs.writes_ret bs.writes_andThen writes_field)

lemma parses_fields: "\<forall>f \<in> set fs. field_ok f \<Longrightarrow> bs.parses e (read_fields fs) (concat (map (field_wire e) fs)) fs"
  by (induction fs) (auto intro!: bs.parses_ret bs.parses_andThen [OF parses_field] bs.parses_andThen_ret)

subsection \<open>Properties\<close>



text \<open>
  C4. The varint writers stay inside their stack buffers: every \<open>uint32_t\<close> takes at most the 5 bytes
  and every \<open>uint64_t\<close> at most the 10 bytes of \<open>tmp\<close>, and the bytes are the base-128 digits of the value.
\<close>

theorem varint_fits_tmp:
  "\<exists>tmp tmp'. varint_loop 5 (v :: u32) = Inr tmp \<and> length tmp \<le> 5 \<and> tmp = base128 (unat v)
    \<and> varint_loop 10 (w :: u64) = Inr tmp' \<and> length tmp' \<le> 10 \<and> tmp' = base128 (unat w)"
proof -
  obtain a where "varint_loop (Suc 4) v = Inr a" "length a \<le> Suc 4"
    using varint_loop_total [of 4 v] by (auto simp: take_bit_word_eq_self)
  moreover obtain b where "varint_loop (Suc 9) w = Inr b" "length b \<le> Suc 9"
    using varint_loop_total [of 9 w] by (auto simp: take_bit_word_eq_self)
  ultimately show ?thesis using varint_loop_32 [of v] varint_loop_64 [of w] by (simp del: varint_loop.simps)
qed

text \<open>
  C5. \<open>writeInt64\<close> followed by \<open>readInt64\<close> gives the value back exactly for the values of 32 bits:
  both zigzag helpers return a 32-bit type, so a larger \<open>int64_t\<close> is silently changed.
\<close>

theorem int64_roundtrip_iff:
  assumes "ba_inv ba"
  shows "(\<exists>ba'. andThen (writeInt64 v) (\<lambda>_. andThen (setPosition (m_position ba)) (\<lambda>_. readInt64)) ba = (Inr v, ba'))
    \<longleftrightarrow> - (2 ^ 31) \<le> sint v \<and> sint v < 2 ^ 31"
proof -
  let ?z = "ucast (EncodeZigzag64 v) :: u64"
  have "bs.parses (m_endian ba) readInt64 (base128 (unat ?z)) (scast (DecodeZigzag64 ?z))"
    unfolding readInt64_def by (intro bs.parses_andThen_ret parses_readUint64)
  from bs.roundtrip [OF writes_writeUint64 this assms] show ?thesis
    unfolding writeInt64_def zigzag64_iff [symmetric] by auto
qed

theorem int64_roundtrip_iff_witness:
  "\<not> (\<exists>ba'. andThen (writeInt64 4294967296) (\<lambda>_. andThen (setPosition 0) (\<lambda>_. readInt64)) (new_bytearray (\<lambda>_. 0) 16)
     = (Inr 4294967296, ba'))"
  using int64_roundtrip_iff [OF ba_inv_new [of 16 "\<lambda>_. 0"], of 4294967296] by simp

text \<open>
  Reading an empty string whose length prefix ends at the capacity follows the null \<open>m_cur\<close>:
  \<open>read\<close> looks at \<open>m_cur->size\<close> before it looks at the number of bytes.
\<close>

lemma empty_string_at_capacity:
  assumes "ba_inv ba" and "drop (m_position ba) (ba_data ba) = [0, 0]" and "m_size ba = m_capacity ba"
  shows "fst (readStringF16 ba) = Inl Null_deref"
proof -
  have p: "m_position ba + 2 = m_size ba"
    using arg_cong [OF assms(2), of length] length_ba_data [OF assms(1)] by simp
  let ?ba = "ba\<lparr>m_cur := cur_at ba (m_position ba + 2), m_position := m_position ba + 2\<rparr>"
  have "ba_read 2 ba = (Inr [0, 0], ?ba)" and inv: "ba_inv ?ba"
    using ba_read_correct [OF assms(1), of 2] p assms(2,3) by simp_all
  then have "readFuint16 ba = (Inr 0, ?ba)"
    by (simp add: readFuint16_def read_XX_def outcome_simps byteswap_def numeral_2_eq_2)
  moreover have "ba_read 0 ?ba = (Inl Null_deref, ?ba)"
    using ba_read_at_end [OF inv] p assms(3) by simp
  ultimately show ?thesis by (simp add: readStringF16_def outcome_simps)
qed

end
