(* ===== verification/Fiber.thy ===== *)
theory Fiber
  imports Prelude "HOL-Library.Multiset"
begin

text \<open>
  Fibers (\<open>sylar/fiber.h\<close>, \<open>sylar/fiber.cpp\<close>). A fiber object lives at an address; what its callback
  does is a \<open>script\<close>: it may act (an observable \<open>Emit\<close>, or handing a function to the scheduler), yield
  ready or on hold, return, or throw. The machine context of a fiber is where it continues: at its entry
  function, at the rest of a script, or nowhere any more, because the entry function has returned control
  for the last time (\<open>uc_link\<close> is null, so resuming it would end the thread). \<open>swapIn\<close> runs the fiber up to
  its next switch, which is how the scheduler sees it.
\<close>

text \<open>\<open>TERM_S\<close> is \<open>TERM\<close>, which is a keyword here.\<close>

datatype State = INIT | HOLD | EXEC | TERM_S | READY | EXCEPT

datatype script =
    Return
  | Throw
  | Yield_Ready script
  | Yield_Hold script
  | Emit nat script
  | Spawn script int script

datatype entry = MainFunc | CallerMainFunc

datatype ucontext = At_entry | Saved script | Returned

record fiber =
  f_state :: State
  f_id :: u64
  f_stacksize :: u32
  f_stack :: bool
  f_entry :: entry
  f_cb :: "script option"
  f_ctx :: ucontext

text \<open>State shared by all threads, and the thread-local variables of one thread.\<close>

record shared =
  s_fiber_id :: u64
  s_fiber_count :: u64
  fheap :: "nat \<Rightarrow> fiber"
  fnext :: nat

record tls =
  t_fiber :: "nat option"
  t_threadFiber :: "nat option"
  t_scheduler_fiber :: "nat option"

datatype fiber_error = Assert_failed | No_main_fiber | Thread_exits | Wrong_context

type_synonym 'a fiber_op = "(shared \<times> tls, fiber_error, 'a) outcome"

definition set_fiber :: "nat \<Rightarrow> fiber \<Rightarrow> shared \<Rightarrow> shared" where
  "set_fiber p f sh = sh\<lparr>fheap := (fheap sh)(p := f)\<rparr>"

definition alloc_fiber :: "fiber \<Rightarrow> shared \<Rightarrow> nat \<times> shared" where
  "alloc_fiber f sh = (fnext sh, (set_fiber (fnext sh) f sh)\<lparr>fnext := fnext sh + 1\<rparr>)"

definition SetThis :: "nat option \<Rightarrow> tls \<Rightarrow> tls" where
  "SetThis f loc = loc\<lparr>t_fiber := f\<rparr>"

text \<open>The private constructor: the fiber that stands for the thread itself.\<close>

definition new_thread_fiber :: "shared \<Rightarrow> tls \<Rightarrow> nat \<times> shared \<times> tls" where
  "new_thread_fiber sh loc =
     (let (p, sh1) = alloc_fiber \<lparr>f_state = EXEC, f_id = 0, f_stacksize = 0, f_stack = False, f_entry = MainFunc,
                                  f_cb = None, f_ctx = At_entry\<rparr> sh
      in (p, sh1\<lparr>s_fiber_count := s_fiber_count sh1 + 1\<rparr>, SetThis (Some p) loc))"

definition new_Fiber :: "script option \<Rightarrow> u32 \<Rightarrow> bool \<Rightarrow> shared \<Rightarrow> nat \<times> shared" where
  "new_Fiber cb stacksize use_caller sh =
     (let sh1 = sh\<lparr>s_fiber_id := s_fiber_id sh + 1, s_fiber_count := s_fiber_count sh + 1\<rparr>
      in alloc_fiber \<lparr>f_state = INIT, f_id = s_fiber_id sh1, f_stacksize = (if stacksize \<noteq> 0 then stacksize else 128 * 1024),
                      f_stack = True, f_entry = (if use_caller then CallerMainFunc else MainFunc), f_cb = cb, f_ctx = At_entry\<rparr> sh1)"

definition delete_Fiber :: "nat \<Rightarrow> unit fiber_op" where
  "delete_Fiber p = (\<lambda>(sh, loc).
     let f = fheap sh p; sh1 = sh\<lparr>s_fiber_count := s_fiber_count sh - 1\<rparr> in
     if f_stack f then
       (if f_state f = TERM_S \<or> f_state f = INIT \<or> f_state f = EXCEPT then (Inr (), (sh1, loc)) else (Inl Assert_failed, (sh1, loc)))
     else if f_cb f \<noteq> None then (Inl Assert_failed, (sh1, loc))
     else if f_state f \<noteq> EXEC then (Inl Assert_failed, (sh1, loc))
     else (Inr (), (sh1, if t_fiber loc = Some p then SetThis None loc else loc)))"

definition fiber_reset :: "nat \<Rightarrow> script option \<Rightarrow> shared \<Rightarrow> (fiber_error + unit) \<times> shared" where
  "fiber_reset p cb sh =
     (let f = fheap sh p in
      if \<not> f_stack f then (Inl Assert_failed, sh)
      else if \<not> (f_state f = TERM_S \<or> f_state f = INIT \<or> f_state f = EXCEPT) then (Inl Assert_failed, sh)
      else (Inr (), set_fiber p (f\<lparr>f_cb := cb, f_entry := MainFunc, f_ctx := At_entry, f_state := INIT\<rparr>) sh))"

definition GetThis :: "nat fiber_op" where
  "GetThis = (\<lambda>(sh, loc).
     case t_fiber loc of
       Some p \<Rightarrow> (Inr p, (sh, loc))
     | None \<Rightarrow> let (p, sh1, loc1) = new_thread_fiber sh loc in (Inr p, (sh1, loc1\<lparr>t_threadFiber := Some p\<rparr>)))"

definition GetFiberId :: "shared \<Rightarrow> tls \<Rightarrow> u64" where
  "GetFiberId sh loc = (case t_fiber loc of Some p \<Rightarrow> f_id (fheap sh p) | None \<Rightarrow> 0)"

subsection \<open>Running a fiber up to its next switch\<close>

text \<open>What a callback does on the way, and how it stops.\<close>

datatype event = Emitted nat | Scheduled script int

datatype stop = Returns | Throws | Yields_ready script | Yields_hold script

primrec run_script :: "script \<Rightarrow> event list \<times> stop" where
  "run_script Return = ([], Returns)"
| "run_script Throw = ([], Throws)"
| "run_script (Yield_Ready s) = ([], Yields_ready s)"
| "run_script (Yield_Hold s) = ([], Yields_hold s)"
| "run_script (Emit n s) = (let (es, y) = run_script s in (Emitted n # es, y))"
| "run_script (Spawn b thr s) = (let (es, y) = run_script s in (Scheduled b thr # es, y))"

text \<open>
  The state changes of \<open>YieldToReady\<close>, \<open>YieldToHold\<close> and of the end of \<open>MainFunc\<close>/\<open>CallerMainFunc\<close>,
  each followed by a switch that saves the context.
\<close>

definition YieldToReady :: "script \<Rightarrow> fiber \<Rightarrow> fiber" where
  "YieldToReady rest cur = cur\<lparr>f_state := READY, f_ctx := Saved rest\<rparr>"

definition YieldToHold :: "script \<Rightarrow> fiber \<Rightarrow> fiber" where
  "YieldToHold rest cur = cur\<lparr>f_state := HOLD, f_ctx := Saved rest\<rparr>"

definition finish_MainFunc :: "bool \<Rightarrow> fiber \<Rightarrow> fiber" where
  "finish_MainFunc threw cur =
     (if threw then cur\<lparr>f_state := EXCEPT, f_ctx := Returned\<rparr>
      else cur\<lparr>f_cb := None, f_state := TERM_S, f_ctx := Returned\<rparr>)"

definition apply_stop :: "stop \<Rightarrow> fiber \<Rightarrow> fiber" where
  "apply_stop y f =
     (case y of
        Returns \<Rightarrow> finish_MainFunc False f
      | Throws \<Rightarrow> finish_MainFunc True f
      | Yields_ready rest \<Rightarrow> YieldToReady rest f
      | Yields_hold rest \<Rightarrow> YieldToHold rest f)"

text \<open>Calling an empty \<open>std::function\<close> throws \<open>bad_function_call\<close>, which the entry function catches.\<close>

definition resume :: "fiber \<Rightarrow> (event list \<times> fiber) option" where
  "resume f =
     (case f_ctx f of
        Returned \<Rightarrow> None
      | At_entry \<Rightarrow>
          (case f_cb f of
             None \<Rightarrow> Some ([], finish_MainFunc True f)
           | Some s \<Rightarrow> (case run_script s of (es, y) \<Rightarrow> Some (es, apply_stop y f)))
      | Saved s \<Rightarrow> (case run_script s of (es, y) \<Rightarrow> Some (es, apply_stop y f)))"

definition swapIn :: "nat \<Rightarrow> event list fiber_op" where
  "swapIn p = (\<lambda>(sh, loc).
     let loc1 = SetThis (Some p) loc; f = fheap sh p in
     if f_state f = EXEC then (Inl Assert_failed, (sh, loc1))
     else let f1 = f\<lparr>f_state := EXEC\<rparr>; sh1 = set_fiber p f1 sh in
     case t_scheduler_fiber loc1 of
       None \<Rightarrow> (Inl No_main_fiber, (sh1, loc1))
     | Some m \<Rightarrow>
         (case resume f1 of
            None \<Rightarrow> (Inl Thread_exits, (sh1, loc1))
          | Some (es, f2) \<Rightarrow>
              (if f_entry f2 = CallerMainFunc \<and> f_ctx f2 = Returned then (Inl Wrong_context, (set_fiber p f2 sh1, loc1))
               else (Inr es, (set_fiber p f2 sh1, SetThis (Some m) loc1)))))"

text \<open>\<open>call\<close> enters from the thread's own fiber; only the end of \<open>CallerMainFunc\<close> (\<open>back\<close>) returns there.\<close>

definition fiber_call :: "nat \<Rightarrow> event list fiber_op" where
  "fiber_call p = (\<lambda>(sh, loc).
     let loc1 = SetThis (Some p) loc; f1 = (fheap sh p)\<lparr>f_state := EXEC\<rparr>; sh1 = set_fiber p f1 sh in
     case t_threadFiber loc1 of
       None \<Rightarrow> (Inl No_main_fiber, (sh1, loc1))
     | Some m \<Rightarrow>
         (case resume f1 of
            None \<Rightarrow> (Inl Thread_exits, (sh1, loc1))
          | Some (es, f2) \<Rightarrow>
              (if f_entry f2 = CallerMainFunc \<and> f_ctx f2 = Returned
               then (Inr es, (set_fiber p f2 sh1, SetThis (Some m) loc1))
               else (Inl Wrong_context, (set_fiber p f2 sh1, loc1)))))"

subsection \<open>Lemmas\<close>

text \<open>A fiber that the scheduler may switch to.\<close>

definition runnable :: "fiber \<Rightarrow> bool" where
  "runnable f \<longleftrightarrow> (f_state f = INIT \<or> f_state f = HOLD \<or> f_state f = READY) \<and> f_ctx f \<noteq> Returned \<and> f_entry f = MainFunc \<and> f_stack f"

lemma resume_total: "f_ctx f \<noteq> Returned \<Longrightarrow> \<exists>es f'. resume f = Some (es, f')"
  by (auto simp: resume_def split: ucontext.splits option.splits prod.splits)

lemma apply_stop_simps:
  "f_entry (apply_stop y f) = f_entry f" "f_stack (apply_stop y f) = f_stack f" "f_id (apply_stop y f) = f_id f"
  "f_state (apply_stop y f) \<in> {READY, HOLD, TERM_S, EXCEPT}"
  "f_ctx (apply_stop y f) = Returned \<longleftrightarrow> f_state (apply_stop y f) = TERM_S \<or> f_state (apply_stop y f) = EXCEPT"
  by (auto simp: apply_stop_def finish_MainFunc_def YieldToReady_def YieldToHold_def split: stop.splits)

lemma resume_stop:
  assumes "resume f = Some (es, f')"
  obtains y where "f' = apply_stop y f"
proof -
  have "apply_stop Throws f = finish_MainFunc True f" by (simp add: apply_stop_def)
  then have "\<exists>y. f' = apply_stop y f"
    using assms by (auto simp: resume_def split: ucontext.splits option.splits prod.splits)
  then show thesis using that by blast
qed

lemma resume_result:
  assumes "resume f = Some (es, f')"
  shows "f_entry f' = f_entry f" "f_stack f' = f_stack f" "f_state f' \<in> {READY, HOLD, TERM_S, EXCEPT}"
    "f_ctx f' = Returned \<longleftrightarrow> f_state f' = TERM_S \<or> f_state f' = EXCEPT"
proof -
  from assms obtain y where "f' = apply_stop y f" by (rule resume_stop)
  then show "f_entry f' = f_entry f" "f_stack f' = f_stack f" "f_state f' \<in> {READY, HOLD, TERM_S, EXCEPT}"
    "f_ctx f' = Returned \<longleftrightarrow> f_state f' = TERM_S \<or> f_state f' = EXCEPT"
    using apply_stop_simps by blast+
qed

text \<open>\<open>swapIn\<close> of a runnable fiber in a thread that has a scheduling fiber always comes back.\<close>

lemma swapIn_runnable:
  assumes "runnable (fheap sh p)" and "t_scheduler_fiber loc = Some m"
  shows "\<exists>es f. resume ((fheap sh p)\<lparr>f_state := EXEC\<rparr>) = Some (es, f)
    \<and> swapIn p (sh, loc) = (Inr es, (set_fiber p f sh, loc\<lparr>t_fiber := Some m\<rparr>))
    \<and> f_state f \<in> {READY, HOLD, TERM_S, EXCEPT} \<and> f_entry f = MainFunc \<and> f_stack f
    \<and> (f_ctx f = Returned \<longleftrightarrow> f_state f = TERM_S \<or> f_state f = EXCEPT)"
proof -
  let ?f = "(fheap sh p)\<lparr>f_state := EXEC\<rparr>"
  obtain es f where r: "resume ?f = Some (es, f)"
    using resume_total [of ?f] assms(1) by (auto simp: runnable_def)
  note r' = resume_result [OF r]
  have "f_state (fheap sh p) \<noteq> EXEC" "f_entry f = MainFunc" "f_stack f" using assms(1) r' by (auto simp: runnable_def)
  then show ?thesis
    using r r' assms(2) by (auto simp: swapIn_def SetThis_def set_fiber_def Let_def)
qed

end
