(* ===== verification/Scheduler.thy ===== *)
theory Scheduler
  imports Fiber
begin

text \<open>
  The scheduler (\<open>sylar/scheduler.h\<close>, \<open>sylar/scheduler.cpp\<close>). The task list, the counters and the flags are
  shared; each worker thread runs \<open>run\<close>. One iteration of its loop is two steps, as in the code: choosing a
  task under the lock (\<open>run_pick\<close>) and everything after it (\<open>run_body\<close>), which switches to a fiber and comes
  back. Between the two steps other workers take theirs. The base class' \<open>idle\<close> is modelled; the counters
  \<open>std::atomic<size_t>\<close> are natural numbers (decrements of 0 are ruled out by an invariant).
\<close>

record FiberAndThread =
  ft_fiber :: "nat option"
  ft_cb :: "script option"
  ft_thread :: int

definition FiberAndThread_fiber :: "nat option \<Rightarrow> int \<Rightarrow> FiberAndThread" where
  "FiberAndThread_fiber f thr = \<lparr>ft_fiber = f, ft_cb = None, ft_thread = thr\<rparr>"

definition FiberAndThread_cb :: "script option \<Rightarrow> int \<Rightarrow> FiberAndThread" where
  "FiberAndThread_cb f thr = \<lparr>ft_fiber = None, ft_cb = f, ft_thread = thr\<rparr>"

definition FiberAndThread_reset :: FiberAndThread where
  "FiberAndThread_reset = \<lparr>ft_fiber = None, ft_cb = None, ft_thread = - 1\<rparr>"

record scheduler =
  sh :: shared
  m_fibers :: "FiberAndThread list"
  m_activeThreadCount :: nat
  m_idleThreadCount :: nat
  m_stopping :: bool
  m_autoStop :: bool
  m_rootThread :: int
  m_threadCount :: nat
  m_threads :: nat
  m_threadIds :: "int list"
  m_rootFiber :: "nat option"
  emitted :: "nat list"

text \<open>
  \<open>m_threads\<close> is the number of pool threads that exist; \<open>emitted\<close> records the observable actions of the callbacks.
\<close>

datatype pc = At_pick | At_body FiberAndThread bool | Exited

record worker =
  w_id :: int
  w_loc :: tls
  w_idle :: nat
  w_cb :: "nat option"
  w_pc :: pc

definition scheduleNoLock :: "FiberAndThread \<Rightarrow> scheduler \<Rightarrow> bool \<times> scheduler" where
  "scheduleNoLock ft s =
     (let need_tickle = (m_fibers s = []) in
      if ft_fiber ft \<noteq> None \<or> ft_cb ft \<noteq> None then (need_tickle, s\<lparr>m_fibers := m_fibers s @ [ft]\<rparr>)
      else (need_tickle, s))"

definition schedule :: "FiberAndThread \<Rightarrow> scheduler \<Rightarrow> scheduler" where
  "schedule ft s = snd (scheduleNoLock ft s)"

text \<open>The range overload takes each element by pointer and pins none of them.\<close>

primrec schedule_range :: "FiberAndThread list \<Rightarrow> scheduler \<Rightarrow> scheduler" where
  "schedule_range [] s = s"
| "schedule_range (ft # fts) s = schedule_range fts (snd (scheduleNoLock (ft\<lparr>ft_thread := - 1\<rparr>) s))"

definition stopping :: "scheduler \<Rightarrow> bool" where
  "stopping s \<longleftrightarrow> m_autoStop s \<and> m_stopping s \<and> m_fibers s = [] \<and> m_activeThreadCount s = 0"

text \<open>The search through the task list: \<open>Inr None\<close> when nothing is eligible for this thread.\<close>

primrec find_task :: "int \<Rightarrow> (nat \<Rightarrow> fiber) \<Rightarrow> FiberAndThread list \<Rightarrow> fiber_error + (FiberAndThread \<times> FiberAndThread list) option" where
  "find_task tid h [] = Inr None"
| "find_task tid h (it # its) =
     (if ft_thread it \<noteq> - 1 \<and> ft_thread it \<noteq> tid then
        (case find_task tid h its of Inr (Some (ft, rest)) \<Rightarrow> Inr (Some (ft, it # rest)) | r \<Rightarrow> r)
      else if ft_fiber it = None \<and> ft_cb it = None then Inl Assert_failed
      else if (case ft_fiber it of Some p \<Rightarrow> f_state (h p) = EXEC | None \<Rightarrow> False) then
        (case find_task tid h its of Inr (Some (ft, rest)) \<Rightarrow> Inr (Some (ft, it # rest)) | r \<Rightarrow> r)
      else Inr (Some (it, its)))"

definition run_pick :: "worker \<Rightarrow> scheduler \<Rightarrow> fiber_error + (worker \<times> scheduler)" where
  "run_pick w s =
     (case find_task (w_id w) (fheap (sh s)) (m_fibers s) of
        Inl e \<Rightarrow> Inl e
      | Inr None \<Rightarrow> Inr (w\<lparr>w_pc := At_body FiberAndThread_reset False\<rparr>, s)
      | Inr (Some (ft, rest)) \<Rightarrow>
          Inr (w\<lparr>w_pc := At_body ft True\<rparr>, s\<lparr>m_fibers := rest, m_activeThreadCount := m_activeThreadCount s + 1\<rparr>))"

text \<open>What a running callback does to the scheduler on its way.\<close>

primrec do_event :: "event \<Rightarrow> scheduler \<Rightarrow> scheduler" where
  "do_event (Emitted n) s = s\<lparr>emitted := emitted s @ [n]\<rparr>"
| "do_event (Scheduled b thr) s = schedule (FiberAndThread_cb (Some b) thr) s"

text \<open>\<open>swapIn\<close> from a worker: the shared and thread-local parts are put together and taken apart again.\<close>

definition worker_swapIn :: "nat \<Rightarrow> worker \<Rightarrow> scheduler \<Rightarrow> fiber_error + (worker \<times> scheduler)" where
  "worker_swapIn p w s =
     (case swapIn p (sh s, w_loc w) of
        (Inl e, _) \<Rightarrow> Inl e
      | (Inr es, (sh', loc')) \<Rightarrow> Inr (w\<lparr>w_loc := loc'\<rparr>, fold do_event es (s\<lparr>sh := sh'\<rparr>)))"

definition set_state :: "nat \<Rightarrow> State \<Rightarrow> scheduler \<Rightarrow> scheduler" where
  "set_state p st s = s\<lparr>sh := set_fiber p ((fheap (sh s) p)\<lparr>f_state := st\<rparr>) (sh s)\<rparr>"

definition fiber_state :: "scheduler \<Rightarrow> nat \<Rightarrow> State" where
  "fiber_state s p = f_state (fheap (sh s) p)"

definition dec_active :: "scheduler \<Rightarrow> scheduler" where
  "dec_active s = s\<lparr>m_activeThreadCount := m_activeThreadCount s - 1\<rparr>"

text \<open>The branch for a task that is a fiber.\<close>

definition run_fiber :: "nat \<Rightarrow> worker \<Rightarrow> scheduler \<Rightarrow> fiber_error + (worker \<times> scheduler)" where
  "run_fiber p w s =
     (case worker_swapIn p w s of
        Inl e \<Rightarrow> Inl e
      | Inr (w1, s1) \<Rightarrow>
          let s2 = dec_active s1;
              s3 = (if fiber_state s2 p = READY then schedule (FiberAndThread_fiber (Some p) (- 1)) s2
                    else if fiber_state s2 p \<noteq> TERM_S \<and> fiber_state s2 p \<noteq> EXCEPT then set_state p HOLD s2
                    else s2)
          in Inr (w1\<lparr>w_pc := At_pick\<rparr>, s3))"

text \<open>The branch for a task that is a function: bind it to the worker's \<open>cb_fiber\<close>, or to a new one.\<close>

definition bind_cb :: "script \<Rightarrow> worker \<Rightarrow> scheduler \<Rightarrow> fiber_error + (nat \<times> scheduler)" where
  "bind_cb f w s =
     (case w_cb w of
        Some c \<Rightarrow> (case fiber_reset c (Some f) (sh s) of (Inl e, _) \<Rightarrow> Inl e | (Inr _, sh') \<Rightarrow> Inr (c, s\<lparr>sh := sh'\<rparr>))
      | None \<Rightarrow> (case new_Fiber (Some f) 0 False (sh s) of (c, sh') \<Rightarrow> Inr (c, s\<lparr>sh := sh'\<rparr>)))"

definition run_cb :: "script \<Rightarrow> worker \<Rightarrow> scheduler \<Rightarrow> fiber_error + (worker \<times> scheduler)" where
  "run_cb f w s =
     (case bind_cb f w s of
        Inl e \<Rightarrow> Inl e
      | Inr (c, s0) \<Rightarrow>
          (case worker_swapIn c (w\<lparr>w_cb := Some c\<rparr>) s0 of
             Inl e \<Rightarrow> Inl e
           | Inr (w1, s1) \<Rightarrow>
               let s2 = dec_active s1 in
               if fiber_state s2 c = READY then
                 Inr (w1\<lparr>w_cb := None, w_pc := At_pick\<rparr>, schedule (FiberAndThread_fiber (Some c) (- 1)) s2)
               else if fiber_state s2 c = EXCEPT \<or> fiber_state s2 c = TERM_S then
                 (case fiber_reset c None (sh s2) of
                    (Inl e, _) \<Rightarrow> Inl e
                  | (Inr _, sh') \<Rightarrow> Inr (w1\<lparr>w_pc := At_pick\<rparr>, s2\<lparr>sh := sh'\<rparr>))
               else Inr (w1\<lparr>w_cb := None, w_pc := At_pick\<rparr>, set_state c HOLD s2)))"

text \<open>
  The idle branch. \<open>Scheduler::idle\<close> yields on hold until \<open>stopping()\<close>, then its fiber ends; one \<open>swapIn\<close> of
  the idle fiber is one test.
\<close>

definition idle :: "nat \<Rightarrow> scheduler \<Rightarrow> fiber_error + scheduler" where
  "idle p s =
     (if fiber_state s p = EXEC then Inl Assert_failed
      else if stopping s then Inr (set_state p TERM_S s) else Inr (set_state p HOLD s))"

definition run_idle :: "bool \<Rightarrow> worker \<Rightarrow> scheduler \<Rightarrow> fiber_error + (worker \<times> scheduler)" where
  "run_idle is_active w s =
     (if is_active then Inr (w\<lparr>w_pc := At_pick\<rparr>, dec_active s)
      else if fiber_state s (w_idle w) = TERM_S then Inr (w\<lparr>w_pc := Exited\<rparr>, s)
      else case idle (w_idle w) (s\<lparr>m_idleThreadCount := m_idleThreadCount s + 1\<rparr>) of
        Inl e \<Rightarrow> Inl e
      | Inr s1 \<Rightarrow>
          let s2 = s1\<lparr>m_idleThreadCount := m_idleThreadCount s1 - 1\<rparr>;
              s3 = (if fiber_state s2 (w_idle w) \<noteq> TERM_S \<and> fiber_state s2 (w_idle w) \<noteq> EXCEPT
                    then set_state (w_idle w) HOLD s2 else s2)
          in Inr (w\<lparr>w_pc := At_pick\<rparr>, s3))"

text \<open>
  The loop body after the search. The first test of the source, \<open>state != TERM || state != EXCEPT\<close>, is true for
  every fiber.
\<close>

definition run_body :: "FiberAndThread \<Rightarrow> bool \<Rightarrow> worker \<Rightarrow> scheduler \<Rightarrow> fiber_error + (worker \<times> scheduler)" where
  "run_body ft is_active w s =
     (case ft_fiber ft of
        Some p \<Rightarrow>
          if fiber_state s p \<noteq> TERM_S \<or> fiber_state s p \<noteq> EXCEPT then run_fiber p w s
          else (case ft_cb ft of Some f \<Rightarrow> run_cb f w s | None \<Rightarrow> run_idle is_active w s)
      | None \<Rightarrow> (case ft_cb ft of Some f \<Rightarrow> run_cb f w s | None \<Rightarrow> run_idle is_active w s))"

text \<open>One step of a worker.\<close>

definition run_step :: "worker \<Rightarrow> scheduler \<Rightarrow> fiber_error + (worker \<times> scheduler)" where
  "run_step w s =
     (case w_pc w of
        At_pick \<Rightarrow> run_pick w s
      | At_body ft is_active \<Rightarrow> run_body ft is_active w s
      | Exited \<Rightarrow> Inr (w, s))"

text \<open>The part of \<open>run\<close> before the loop, on a thread that is not the root thread or is.\<close>

definition run_enter :: "int \<Rightarrow> tls \<Rightarrow> scheduler \<Rightarrow> worker \<times> scheduler" where
  "run_enter tid loc s =
     (let (sh1, loc1) =
            (if tid \<noteq> m_rootThread s then
               (case GetThis (sh s, loc) of
                  (Inr p, (sh', loc')) \<Rightarrow> (sh', loc'\<lparr>t_scheduler_fiber := Some p\<rparr>)
                | (Inl _, st) \<Rightarrow> st)
             else (sh s, loc));
          (i, sh2) = new_Fiber None 0 False sh1
      in (\<lparr>w_id = tid, w_loc = loc1, w_idle = i, w_cb = None, w_pc = At_pick\<rparr>, s\<lparr>sh := sh2\<rparr>))"

subsection \<open>Construction, start and stop\<close>

text \<open>
  The constructor. \<open>busy_thread\<close> says that the thread already has a scheduler (\<open>t_schedular\<close>). The callback of
  the root fiber is \<open>run\<close> itself, which is the worker of the root thread and not a script, so the fiber object
  carries none.
\<close>

definition new_Scheduler :: "nat \<Rightarrow> bool \<Rightarrow> int \<Rightarrow> bool \<Rightarrow> shared \<Rightarrow> tls \<Rightarrow> fiber_error + (scheduler \<times> tls)" where
  "new_Scheduler threads use_caller tid busy_thread h loc =
     (let s0 = \<lparr>sh = h, m_fibers = [], m_activeThreadCount = 0, m_idleThreadCount = 0, m_stopping = True, m_autoStop = False,
                m_rootThread = - 1, m_threadCount = threads, m_threads = 0, m_threadIds = [], m_rootFiber = None, emitted = []\<rparr> in
      if threads = 0 then Inl Assert_failed
      else if use_caller then
        (case GetThis (h, loc) of
           (Inl e, _) \<Rightarrow> Inl e
         | (Inr _, (h1, loc1)) \<Rightarrow>
             if busy_thread then Inl Assert_failed
             else (case new_Fiber None 0 True h1 of
                     (r, h2) \<Rightarrow> Inr (s0\<lparr>sh := h2, m_rootFiber := Some r, m_rootThread := tid, m_threadIds := [tid], m_threadCount := threads - 1\<rparr>,
                                     loc1\<lparr>t_scheduler_fiber := Some r\<rparr>)))
      else Inr (s0, loc))"

text \<open>\<open>start\<close>: \<open>ids\<close> are the ids the system gives to the new threads, each of which enters \<open>run\<close>.\<close>

definition start :: "int list \<Rightarrow> scheduler \<Rightarrow> fiber_error + scheduler" where
  "start ids s =
     (if \<not> m_stopping s then Inr s
      else if m_threads s \<noteq> 0 then Inl Assert_failed
      else Inr (s\<lparr>m_stopping := False, m_threads := m_threadCount s, m_threadIds := m_threadIds s @ take (m_threadCount s) ids\<rparr>))"

text \<open>
  \<open>stop\<close> up to the point where it enters the root fiber or waits for the threads: \<open>is_this\<close> is
  \<open>GetThis() == this\<close> on the calling thread.
\<close>

datatype stop_action = Return_now | Call_root_then_join | Join

definition stop :: "bool \<Rightarrow> scheduler \<Rightarrow> fiber_error + (stop_action \<times> scheduler)" where
  "stop is_this s =
     (let s1 = s\<lparr>m_autoStop := True\<rparr>;
          single = (case m_rootFiber s1 of
                      Some r \<Rightarrow> m_threadCount s1 = 0 \<and> (fiber_state s1 r = TERM_S \<or> fiber_state s1 r = INIT)
                    | None \<Rightarrow> False);
          s2 = (if single then s1\<lparr>m_stopping := True\<rparr> else s1)
      in if single \<and> stopping s2 then Inr (Return_now, s2)
         else if m_rootThread s2 \<noteq> - 1 \<and> \<not> is_this then Inl Assert_failed
         else if m_rootThread s2 = - 1 \<and> is_this then Inl Assert_failed
         else let s3 = s2\<lparr>m_stopping := True\<rparr> in
              if m_rootFiber s3 \<noteq> None \<and> \<not> stopping s3 then Inr (Call_root_then_join, s3\<lparr>m_threads := 0\<rparr>)
              else Inr (Join, s3\<lparr>m_threads := 0\<rparr>))"

subsection \<open>One step, in closed form\<close>

primrec spawned :: "event list \<Rightarrow> FiberAndThread list" where
  "spawned [] = []"
| "spawned (e # es) = (case e of Emitted n \<Rightarrow> [] | Scheduled b thr \<Rightarrow> [FiberAndThread_cb (Some b) thr]) @ spawned es"

primrec emits :: "event list \<Rightarrow> nat list" where
  "emits [] = []"
| "emits (e # es) = (case e of Emitted n \<Rightarrow> [n] | Scheduled b thr \<Rightarrow> []) @ emits es"

lemma FiberAndThread_simps [simp]:
  "ft_fiber (FiberAndThread_cb f thr) = None" "ft_cb (FiberAndThread_cb f thr) = f"
  "ft_fiber (FiberAndThread_fiber r thr) = r" "ft_cb (FiberAndThread_fiber r thr) = None"
  by (simp_all add: FiberAndThread_cb_def FiberAndThread_fiber_def)

lemma schedule_cb [simp]: "schedule (FiberAndThread_cb (Some b) thr) s = s\<lparr>m_fibers := m_fibers s @ [FiberAndThread_cb (Some b) thr]\<rparr>"
  by (simp add: schedule_def scheduleNoLock_def FiberAndThread_cb_def)

lemma schedule_fiber [simp]:
  "schedule (FiberAndThread_fiber (Some p) thr) s = s\<lparr>m_fibers := m_fibers s @ [FiberAndThread_fiber (Some p) thr]\<rparr>"
  by (simp add: schedule_def scheduleNoLock_def FiberAndThread_fiber_def)

lemma fold_do_event:
  "fold do_event es s = s\<lparr>m_fibers := m_fibers s @ spawned es, emitted := emitted s @ emits es\<rparr>"
  by (induction es arbitrary: s) (auto split: event.splits)

text \<open>The search takes the first task that this thread may run and whose fiber is not executing.\<close>

definition eligible :: "int \<Rightarrow> (nat \<Rightarrow> fiber) \<Rightarrow> FiberAndThread \<Rightarrow> bool" where
  "eligible tid h ft \<longleftrightarrow> (ft_thread ft = - 1 \<or> ft_thread ft = tid)
     \<and> (case ft_fiber ft of Some p \<Rightarrow> f_state (h p) \<noteq> EXEC | None \<Rightarrow> True)"

lemma find_task_Cons:
  "ft_fiber it \<noteq> None \<or> ft_cb it \<noteq> None \<Longrightarrow> find_task tid h (it # its) =
    (if eligible tid h it then Inr (Some (it, its))
     else case find_task tid h its of Inr (Some (ft, rest)) \<Rightarrow> Inr (Some (ft, it # rest)) | r \<Rightarrow> r)"
  by (cases "ft_fiber it") (auto simp: eligible_def)

lemma find_task_eq:
  assumes "\<forall>ft \<in> set ts. ft_fiber ft \<noteq> None \<or> ft_cb ft \<noteq> None"
  shows "find_task tid h ts =
    Inr (case dropWhile (\<lambda>ft. \<not> eligible tid h ft) ts of [] \<Rightarrow> None
         | ft # post \<Rightarrow> Some (ft, takeWhile (\<lambda>ft. \<not> eligible tid h ft) ts @ post))"
  using assms
proof (induction ts)
  case (Cons it its)
  then show ?case
    by (cases "eligible tid h it") (auto simp: find_task_Cons simp del: find_task.simps(2) dropWhile_eq_Nil_conv split: list.splits)
qed simp

lemma find_task_Some:
  assumes "\<forall>ft \<in> set ts. ft_fiber ft \<noteq> None \<or> ft_cb ft \<noteq> None" and "find_task tid h ts = Inr (Some (ft, rest))"
  shows "eligible tid h ft" and "mset ts = add_mset ft (mset rest)"
proof -
  let ?P = "\<lambda>ft. \<not> eligible tid h ft"
  from assms(2) find_task_eq [OF assms(1), of tid h] obtain post where
    post: "dropWhile ?P ts = ft # post" "rest = takeWhile ?P ts @ post" by (auto split: list.splits)
  show "eligible tid h ft" using post(1) by (simp add: dropWhile_eq_Cons_conv)
  have "mset ts = mset (takeWhile ?P ts) + mset (dropWhile ?P ts)" by (metis mset_append takeWhile_dropWhile_id)
  then show "mset ts = add_mset ft (mset rest)" using post by simp
qed

text \<open>The state of the scheduler after a fiber ran: \<open>f\<close> is the fiber object, \<open>q\<close> the tasks it leaves.\<close>

definition after_run :: "nat \<Rightarrow> fiber \<Rightarrow> event list \<Rightarrow> FiberAndThread list \<Rightarrow> scheduler \<Rightarrow> scheduler" where
  "after_run p f es q s =
     s\<lparr>sh := set_fiber p f (sh s), m_fibers := m_fibers s @ spawned es @ q,
       m_activeThreadCount := m_activeThreadCount s - 1, emitted := emitted s @ emits es\<rparr>"

lemma worker_swapIn_runnable:
  assumes "runnable (fheap (sh s) p)" and "t_scheduler_fiber (w_loc w) = Some m"
  obtains es f where "resume ((fheap (sh s) p)\<lparr>f_state := EXEC\<rparr>) = Some (es, f)"
    and "worker_swapIn p w s = Inr (w\<lparr>w_loc := (w_loc w)\<lparr>t_fiber := Some m\<rparr>\<rparr>,
      s\<lparr>sh := set_fiber p f (sh s), m_fibers := m_fibers s @ spawned es, emitted := emitted s @ emits es\<rparr>)"
    and "f_state f \<in> {READY, HOLD, TERM_S, EXCEPT}" and "f_entry f = MainFunc" and "f_stack f"
    and "f_ctx f = Returned \<longleftrightarrow> f_state f = TERM_S \<or> f_state f = EXCEPT"
proof -
  obtain es f where *: "resume ((fheap (sh s) p)\<lparr>f_state := EXEC\<rparr>) = Some (es, f)"
      "swapIn p (sh s, w_loc w) = (Inr es, (set_fiber p f (sh s), (w_loc w)\<lparr>t_fiber := Some m\<rparr>))"
      "f_state f \<in> {READY, HOLD, TERM_S, EXCEPT}" "f_entry f = MainFunc" "f_stack f"
      "f_ctx f = Returned \<longleftrightarrow> f_state f = TERM_S \<or> f_state f = EXCEPT"
    using swapIn_runnable [OF assms] by blast
  then show thesis by (intro that [of es f]) (auto simp: worker_swapIn_def fold_do_event)
qed

lemma set_fiber_same: "f_state f = st \<Longrightarrow> f\<lparr>f_state := st\<rparr> = f"
  by (cases f) simp

lemma set_fiber_lookup [simp]: "fheap (set_fiber p f h) = (fheap h)(p := f)" "fnext (set_fiber p f h) = fnext h"
  by (simp_all add: set_fiber_def)

lemma set_fiber_twice [simp]: "set_fiber p f (set_fiber p g h) = set_fiber p f h"
  by (simp add: set_fiber_def)

lemma run_fiber_eq:
  assumes "runnable (fheap (sh s) p)" and "t_scheduler_fiber (w_loc w) = Some m"
  obtains es f where "resume ((fheap (sh s) p)\<lparr>f_state := EXEC\<rparr>) = Some (es, f)"
    and "run_fiber p w s = Inr (w\<lparr>w_loc := (w_loc w)\<lparr>t_fiber := Some m\<rparr>, w_pc := At_pick\<rparr>,
      after_run p f es (if f_state f = READY then [FiberAndThread_fiber (Some p) (- 1)] else []) s)"
    and "f_state f \<in> {READY, HOLD, TERM_S, EXCEPT}" and "f_entry f = MainFunc" and "f_stack f"
    and "f_ctx f = Returned \<longleftrightarrow> f_state f = TERM_S \<or> f_state f = EXCEPT"
proof -
  from worker_swapIn_runnable [OF assms] obtain es f where *: "resume ((fheap (sh s) p)\<lparr>f_state := EXEC\<rparr>) = Some (es, f)"
    "worker_swapIn p w s = Inr (w\<lparr>w_loc := (w_loc w)\<lparr>t_fiber := Some m\<rparr>\<rparr>,
      s\<lparr>sh := set_fiber p f (sh s), m_fibers := m_fibers s @ spawned es, emitted := emitted s @ emits es\<rparr>)"
    "f_state f \<in> {READY, HOLD, TERM_S, EXCEPT}" "f_entry f = MainFunc" "f_stack f"
    "f_ctx f = Returned \<longleftrightarrow> f_state f = TERM_S \<or> f_state f = EXCEPT" by blast
  then show thesis
    by (intro that [of es f])
      (auto simp: run_fiber_def dec_active_def fiber_state_def set_state_def after_run_def Let_def set_fiber_same)
qed

lemma run_cb_eq:
  assumes "t_scheduler_fiber (w_loc w) = Some m"
    and "\<And>c. w_cb w = Some c \<Longrightarrow> f_state (fheap (sh s) c) = INIT \<and> f_stack (fheap (sh s) c)"
  obtains c f0 sh0 es f where "bind_cb g w s = Inr (c, s\<lparr>sh := set_fiber c f0 sh0\<rparr>)"
    and "f_ctx f0 = At_entry" and "f_cb f0 = Some g" and "w_cb w = Some c \<and> sh0 = sh s \<or> w_cb w = None \<and> c = fnext (sh s) \<and> fheap sh0 = fheap (sh s) \<and> fnext sh0 = fnext (sh s) + 1"
    and "resume (f0\<lparr>f_state := EXEC\<rparr>) = Some (es, f)"
    and "run_cb g w s = Inr (w\<lparr>w_loc := (w_loc w)\<lparr>t_fiber := Some m\<rparr>, w_pc := At_pick,
        w_cb := if f_ctx f = Returned then Some c else None\<rparr>,
      after_run c (if f_ctx f = Returned then f\<lparr>f_cb := None, f_entry := MainFunc, f_ctx := At_entry, f_state := INIT\<rparr> else f) es
        (if f_state f = READY then [FiberAndThread_fiber (Some c) (- 1)] else []) (s\<lparr>sh := sh0\<rparr>))"
    and "f_state f \<in> {READY, HOLD, TERM_S, EXCEPT}" and "f_entry f = MainFunc" and "f_stack f"
    and "f_ctx f = Returned \<longleftrightarrow> f_state f = TERM_S \<or> f_state f = EXCEPT"
proof -
  obtain c f0 sh0 where b: "bind_cb g w s = Inr (c, s\<lparr>sh := set_fiber c f0 sh0\<rparr>)" "f_ctx f0 = At_entry" "f_cb f0 = Some g"
      "w_cb w = Some c \<and> sh0 = sh s \<or> w_cb w = None \<and> c = fnext (sh s) \<and> fheap sh0 = fheap (sh s) \<and> fnext sh0 = fnext (sh s) + 1"
      "f_state f0 = INIT" "f_entry f0 = MainFunc" "f_stack f0"
  proof (cases "w_cb w")
    case None
    let ?sh = "(sh s)\<lparr>s_fiber_id := s_fiber_id (sh s) + 1, s_fiber_count := s_fiber_count (sh s) + 1, fnext := fnext (sh s) + 1\<rparr>"
    let ?f = "\<lparr>f_state = INIT, f_id = s_fiber_id (sh s) + 1, f_stacksize = 128 * 1024, f_stack = True, f_entry = MainFunc,
        f_cb = Some g, f_ctx = At_entry\<rparr>"
    show thesis
      by (rule that [of "fnext (sh s)" ?f ?sh])
        (use None in \<open>simp_all add: bind_cb_def new_Fiber_def alloc_fiber_def set_fiber_def Let_def\<close>)
  next
    case (Some c)
    let ?f = "(fheap (sh s) c)\<lparr>f_cb := Some g, f_entry := MainFunc, f_ctx := At_entry, f_state := INIT\<rparr>"
    show thesis
      by (rule that [of c ?f "sh s"]) (use Some assms(2) [OF Some] in \<open>simp_all add: bind_cb_def fiber_reset_def Let_def\<close>)
  qed
  let ?s = "s\<lparr>sh := set_fiber c f0 sh0\<rparr>" and ?w = "w\<lparr>w_cb := Some c\<rparr>"
  have "runnable (fheap (sh ?s) c)" "t_scheduler_fiber (w_loc ?w) = Some m" using b assms(1) by (simp_all add: runnable_def)
  from worker_swapIn_runnable [OF this] obtain es f where r: "resume ((fheap (sh ?s) c)\<lparr>f_state := EXEC\<rparr>) = Some (es, f)"
      "worker_swapIn c ?w ?s = Inr (?w\<lparr>w_loc := (w_loc ?w)\<lparr>t_fiber := Some m\<rparr>\<rparr>,
        ?s\<lparr>sh := set_fiber c f (sh ?s), m_fibers := m_fibers ?s @ spawned es, emitted := emitted ?s @ emits es\<rparr>)"
      and f: "f_state f \<in> {READY, HOLD, TERM_S, EXCEPT}" "f_entry f = MainFunc" "f_stack f"
      "f_ctx f = Returned \<longleftrightarrow> f_state f = TERM_S \<or> f_state f = EXCEPT" by blast
  have run: "run_cb g w s = Inr (w\<lparr>w_loc := (w_loc w)\<lparr>t_fiber := Some m\<rparr>, w_pc := At_pick,
        w_cb := if f_ctx f = Returned then Some c else None\<rparr>,
      after_run c (if f_ctx f = Returned then f\<lparr>f_cb := None, f_entry := MainFunc, f_ctx := At_entry, f_state := INIT\<rparr> else f) es
        (if f_state f = READY then [FiberAndThread_fiber (Some c) (- 1)] else []) (s\<lparr>sh := sh0\<rparr>))"
    using b(1) r f by (auto simp: run_cb_def dec_active_def fiber_state_def set_state_def after_run_def fiber_reset_def Let_def set_fiber_same)
  have "resume (f0\<lparr>f_state := EXEC\<rparr>) = Some (es, f)" using r(1) by simp
  then show thesis using that [OF b(1-4) _ run f] by blast
qed

end
