(* ===== verification/SchedulerSystem.thy ===== *)
theory SchedulerSystem
  imports Scheduler
begin

text \<open>
  The scheduler with any number of worker threads: the step relation that interleaves their steps with
  scheduling from outside, waking of fibers on hold, new workers and the stop request; the invariant that
  every step keeps; and the conservation law for the work that callbacks do. The workers are a multiset, since
  only their number and states matter.
\<close>

definition opt_refs :: "nat option \<Rightarrow> nat multiset" where
  "opt_refs r = (case r of None \<Rightarrow> {#} | Some p \<Rightarrow> {#p#})"

definition w_refs :: "worker \<Rightarrow> nat multiset" where
  "w_refs w = {#w_idle w#} + opt_refs (w_cb w) + (case w_pc w of At_body ft a \<Rightarrow> opt_refs (ft_fiber ft) | _ \<Rightarrow> {#})"

definition q_refs :: "FiberAndThread list \<Rightarrow> nat multiset" where
  "q_refs q = (\<Sum>ft\<leftarrow>q. opt_refs (ft_fiber ft))"

definition all_refs :: "worker multiset \<Rightarrow> scheduler \<Rightarrow> nat multiset" where
  "all_refs ws s = (\<Sum>w\<in>#ws. w_refs w) + q_refs (m_fibers s)"

definition task_ok :: "(nat \<Rightarrow> fiber) \<Rightarrow> FiberAndThread \<Rightarrow> bool" where
  "task_ok h ft \<longleftrightarrow> (case ft_fiber ft of Some p \<Rightarrow> ft_cb ft = None \<and> runnable (h p) | None \<Rightarrow> ft_cb ft \<noteq> None)"

definition worker_ok :: "(nat \<Rightarrow> fiber) \<Rightarrow> worker \<Rightarrow> bool" where
  "worker_ok h w \<longleftrightarrow> t_scheduler_fiber (w_loc w) \<noteq> None \<and> f_state (h (w_idle w)) \<in> {INIT, HOLD, TERM_S}
     \<and> (\<forall>c. w_cb w = Some c \<longrightarrow> f_state (h c) = INIT \<and> f_stack (h c) \<and> f_cb (h c) = None \<and> f_ctx (h c) = At_entry)
     \<and> (\<forall>ft a. w_pc w = At_body ft a \<longrightarrow> (if a then task_ok h ft else ft = FiberAndThread_reset))"

definition busy :: "worker \<Rightarrow> bool" where
  "busy w \<longleftrightarrow> (\<exists>ft. w_pc w = At_body ft True)"

definition sys_ok :: "worker multiset \<Rightarrow> scheduler \<Rightarrow> bool" where
  "sys_ok ws s \<longleftrightarrow> (\<forall>ft \<in> set (m_fibers s). task_ok (fheap (sh s)) ft) \<and> (\<forall>w \<in># ws. worker_ok (fheap (sh s)) w)
     \<and> (\<forall>p. count (all_refs ws s) p \<le> 1) \<and> (\<forall>p \<in># all_refs ws s. p < fnext (sh s))
     \<and> m_activeThreadCount s = size (filter_mset busy ws)"

lemma q_refs_simps [simp]: "q_refs [] = {#}" "q_refs (ft # q) = opt_refs (ft_fiber ft) + q_refs q" "q_refs (q @ q') = q_refs q + q_refs q'"
  by (simp_all add: q_refs_def)

lemma opt_refs_simps [simp]: "opt_refs None = {#}" "opt_refs (Some p) = {#p#}"
  by (simp_all add: opt_refs_def)

lemma q_refs_mset: "mset q = mset q' \<Longrightarrow> q_refs q = q_refs q'"
  unfolding q_refs_def by (metis mset_map sum_mset_sum_list)

lemma q_refs_member: "ft \<in> set q \<Longrightarrow> ft_fiber ft = Some p \<Longrightarrow> p \<in># q_refs q"
  by (induction q) auto

lemma worker_refs_member: "w \<in># ws \<Longrightarrow> p \<in># w_refs w \<Longrightarrow> p \<in># (\<Sum>w\<in>#ws. w_refs w)"
  by (induction ws) auto

lemma q_refs_spawned [simp]: "q_refs (spawned es) = {#}"
  by (induction es) (auto simp: FiberAndThread_cb_def split: event.splits)

lemma task_ok_spawned: "ft \<in> set (spawned es) \<Longrightarrow> task_ok h ft"
  by (induction es) (auto simp: FiberAndThread_cb_def task_ok_def split: event.splits)

lemma task_ok_cong: "(\<And>p. ft_fiber ft = Some p \<Longrightarrow> h' p = h p) \<Longrightarrow> task_ok h ft \<Longrightarrow> task_ok h' ft"
  by (auto simp: task_ok_def split: option.splits)

lemma worker_ok_cong:
  assumes eq: "\<And>p. p \<in># w_refs w \<Longrightarrow> h' p = h p" and ok: "worker_ok h w"
  shows "worker_ok h' w"
proof -
  have "h' (w_idle w) = h (w_idle w)" "\<And>c. w_cb w = Some c \<Longrightarrow> h' c = h c" using eq by (simp_all add: w_refs_def)
  moreover have "task_ok h' ft" if "w_pc w = At_body ft a" "task_ok h ft" for ft a
    using that(2) by (rule task_ok_cong [rotated]) (use that(1) eq in \<open>simp add: w_refs_def\<close>)
  ultimately show ?thesis using ok by (simp add: worker_ok_def)
qed

text \<open>
  The frame argument: a step of one worker only touches objects it refers to, or new ones, so the invariant
  needs to be checked for that worker and the tasks it adds.
\<close>

lemma sys_ok_frame:
  assumes ok: "sys_ok (add_mset w ws) s"
    and h: "\<And>p. p \<notin># w_refs w \<Longrightarrow> p < fnext (sh s) \<Longrightarrow> fheap (sh s') p = fheap (sh s) p"
    and n: "fnext (sh s) \<le> fnext (sh s')" and w': "worker_ok (fheap (sh s')) w'"
    and q: "\<And>ft. ft \<in> set (m_fibers s') \<Longrightarrow> ft \<in> set (m_fibers s) \<or> task_ok (fheap (sh s')) ft"
    and r: "all_refs (add_mset w' ws) s' \<subseteq># all_refs (add_mset w ws) s + F"
    and F: "F = {#} \<or> F = {#fnext (sh s)#} \<and> fnext (sh s) < fnext (sh s')"
    and a: "m_activeThreadCount s' + (if busy w then 1 else 0) = m_activeThreadCount s + (if busy w' then 1 else 0)"
  shows "sys_ok (add_mset w' ws) s'"
proof -
  let ?R = "all_refs (add_mset w ws) s"
  have c: "count ?R p \<le> 1" and lt: "p \<in># ?R \<Longrightarrow> p < fnext (sh s)" for p using ok by (auto simp: sys_ok_def)
  have other: "p \<notin># w_refs w" if "p \<in># (\<Sum>w\<in>#ws. w_refs w) + q_refs (m_fibers s)" for p
  proof
    assume "p \<in># w_refs w"
    then have "0 < count (w_refs w) p" "0 < count ((\<Sum>w\<in>#ws. w_refs w) + q_refs (m_fibers s)) p"
      using that by (simp_all only: count_greater_zero_iff)
    moreover have "count (w_refs w) p + count ((\<Sum>w\<in>#ws. w_refs w) + q_refs (m_fibers s)) p \<le> 1"
      using c [of p] by (simp add: all_refs_def)
    ultimately show False by linarith
  qed
  have same: "fheap (sh s') p = fheap (sh s) p" if "p \<in># (\<Sum>w\<in>#ws. w_refs w) + q_refs (m_fibers s)" for p
    using h [OF other [OF that]] lt [of p] that by (auto simp: all_refs_def)
  have "task_ok (fheap (sh s')) ft" if "ft \<in> set (m_fibers s')" for ft
  proof (cases "ft \<in> set (m_fibers s)")
    case True
    then have "task_ok (fheap (sh s)) ft" using ok by (simp add: sys_ok_def)
    then show ?thesis by (rule task_ok_cong [rotated]) (use True same q_refs_member in auto)
  qed (use q that in blast)
  moreover have "worker_ok (fheap (sh s')) v" if "v \<in># ws" for v
  proof -
    have "worker_ok (fheap (sh s)) v" using ok that by (simp add: sys_ok_def)
    then show ?thesis by (rule worker_ok_cong [rotated]) (use that same worker_refs_member in auto)
  qed
  moreover have "count (all_refs (add_mset w' ws) s') p \<le> 1" for p
  proof -
    have "count (all_refs (add_mset w' ws) s') p \<le> count ?R p + count F p" using r by (metis count_union mset_subset_eq_count)
    moreover have "count ?R (fnext (sh s)) = 0" using lt [of "fnext (sh s)"] count_inI less_irrefl by metis
    ultimately show ?thesis using c [of p] F by (cases "p = fnext (sh s)") auto
  qed
  moreover have "p < fnext (sh s')" if "p \<in># all_refs (add_mset w' ws) s'" for p
    using mset_subset_eqD [OF r that] lt [of p] F n by auto
  moreover have "m_activeThreadCount s' = size (filter_mset busy (add_mset w' ws))"
    using a ok by (auto simp: sys_ok_def split: if_splits)
  ultimately show ?thesis using w' by (auto simp: sys_ok_def)
qed

subsection \<open>Every step of a worker succeeds and keeps the invariant\<close>

lemma all_refs_add: "all_refs (add_mset w ws) s = w_refs w + all_refs ws s"
  by (simp add: all_refs_def)

lemma worker_refs_once:
  assumes "sys_ok (add_mset w ws) s"
  shows "count (w_refs w) p \<le> 1"
proof -
  have "count (w_refs w) p + count (all_refs ws s) p \<le> 1" using assms by (simp add: sys_ok_def all_refs_add)
  then show ?thesis by linarith
qed

lemma pick_step:
  assumes ok: "sys_ok (add_mset w ws) s" and pc: "w_pc w = At_pick"
  shows "\<exists>w' s'. run_pick w s = Inr (w', s') \<and> sys_ok (add_mset w' ws) s'"
proof -
  have tasks: "\<forall>ft \<in> set (m_fibers s). task_ok (fheap (sh s)) ft" and w: "worker_ok (fheap (sh s)) w" using ok by (simp_all add: sys_ok_def)
  have ne: "\<forall>ft \<in> set (m_fibers s). ft_fiber ft \<noteq> None \<or> ft_cb ft \<noteq> None"
    using tasks by (auto simp: task_ok_def split: option.splits)
  obtain r where r: "find_task (w_id w) (fheap (sh s)) (m_fibers s) = Inr r" using find_task_eq [OF ne] by blast
  show ?thesis
  proof (cases r)
    case None
    let ?w = "w\<lparr>w_pc := At_body FiberAndThread_reset False\<rparr>"
    have "sys_ok (add_mset ?w ws) s"
      by (rule sys_ok_frame [OF ok, where F = "{#}"])
        (use pc w in \<open>auto simp: worker_ok_def all_refs_add w_refs_def FiberAndThread_reset_def busy_def\<close>)
    then show ?thesis using r None by (simp add: run_pick_def)
  next
    case (Some x)
    obtain ft rest where x: "x = (ft, rest)" by (cases x)
    have m: "mset (m_fibers s) = mset (ft # rest)" using find_task_Some(2) [OF ne] r Some x by simp
    then have in_q: "set (m_fibers s) = insert ft (set rest)" by (metis list.simps(15) set_mset_mset)
    let ?w = "w\<lparr>w_pc := At_body ft True\<rparr>" and ?s = "s\<lparr>m_fibers := rest, m_activeThreadCount := m_activeThreadCount s + 1\<rparr>"
    have "sys_ok (add_mset ?w ws) ?s"
      by (rule sys_ok_frame [OF ok, where F = "{#}"])
        (use pc w tasks in_q q_refs_mset [OF m] in \<open>auto simp: worker_ok_def all_refs_def w_refs_def busy_def\<close>)
    then show ?thesis using r Some x by (simp add: run_pick_def)
  qed
qed

lemma fiber_step:
  assumes ok: "sys_ok (add_mset w ws) s" and pc: "w_pc w = At_body ft True" and p: "ft_fiber ft = Some p"
  shows "\<exists>w' s'. run_fiber p w s = Inr (w', s') \<and> sys_ok (add_mset w' ws) s'"
proof -
  have w: "worker_ok (fheap (sh s)) w" using ok by (simp add: sys_ok_def)
  then obtain m where m: "t_scheduler_fiber (w_loc w) = Some m" and run: "runnable (fheap (sh s) p)"
    using pc p by (auto simp: worker_ok_def task_ok_def)
  from run_fiber_eq [OF run m] obtain es f where f: "run_fiber p w s = Inr (w\<lparr>w_loc := (w_loc w)\<lparr>t_fiber := Some m\<rparr>, w_pc := At_pick\<rparr>,
      after_run p f es (if f_state f = READY then [FiberAndThread_fiber (Some p) (- 1)] else []) s)"
    "f_state f \<in> {READY, HOLD, TERM_S, EXCEPT}" "f_entry f = MainFunc" "f_stack f"
    "f_ctx f = Returned \<longleftrightarrow> f_state f = TERM_S \<or> f_state f = EXCEPT" by blast
  let ?w = "w\<lparr>w_loc := (w_loc w)\<lparr>t_fiber := Some m\<rparr>, w_pc := At_pick\<rparr>"
  let ?s = "after_run p f es (if f_state f = READY then [FiberAndThread_fiber (Some p) (- 1)] else []) s"
  have refs: "w_refs w = {#w_idle w#} + opt_refs (w_cb w) + {#p#}" using pc p by (simp add: w_refs_def)
  have "count (w_refs w) p \<le> 1" by (rule worker_refs_once [OF ok])
  then have "count ({#w_idle w#} + opt_refs (w_cb w)) p = 0" unfolding refs by simp
  then have "p \<notin># {#w_idle w#} + opt_refs (w_cb w)" by (simp only: count_eq_zero_iff not_False_eq_True)
  then have ne: "p \<noteq> w_idle w" "w_cb w \<noteq> Some p" by auto
  have "worker_ok (fheap (sh ?s)) ?w"
    using w ne m by (auto simp: worker_ok_def after_run_def)
  moreover have "ft \<in> set (m_fibers s) \<or> task_ok (fheap (sh ?s)) ft" if "ft \<in> set (m_fibers ?s)" for ft
    using that f task_ok_spawned by (auto simp: after_run_def task_ok_def FiberAndThread_fiber_def runnable_def split: if_splits)
  moreover have "all_refs (add_mset ?w ws) ?s \<subseteq># all_refs (add_mset w ws) s + {#}"
    using refs by (simp add: all_refs_def w_refs_def after_run_def FiberAndThread_fiber_def)
  moreover have "0 < m_activeThreadCount s" using ok pc by (auto simp: sys_ok_def busy_def)
  ultimately have "sys_ok (add_mset ?w ws) ?s"
    by (intro sys_ok_frame [OF ok, where F = "{#}"]) (use pc refs in \<open>auto simp: after_run_def busy_def\<close>)
  then show ?thesis using f(1) by blast
qed

lemma cb_step:
  assumes ok: "sys_ok (add_mset w ws) s" and pc: "w_pc w = At_body ft True" and cb: "ft_fiber ft = None" "ft_cb ft = Some g"
  shows "\<exists>w' s'. run_cb g w s = Inr (w', s') \<and> sys_ok (add_mset w' ws) s'"
proof -
  have w: "worker_ok (fheap (sh s)) w" using ok by (simp add: sys_ok_def)
  then obtain m where m: "t_scheduler_fiber (w_loc w) = Some m" by (auto simp: worker_ok_def)
  have "f_state (fheap (sh s) c) = INIT \<and> f_stack (fheap (sh s) c)" if "w_cb w = Some c" for c
    using w that by (simp add: worker_ok_def)
  from m this obtain c f0 sh0 es f where "bind_cb g w s = Inr (c, s\<lparr>sh := set_fiber c f0 sh0\<rparr>)" "f_ctx f0 = At_entry" "f_cb f0 = Some g"
    and c: "w_cb w = Some c \<and> sh0 = sh s \<or> w_cb w = None \<and> c = fnext (sh s) \<and> fheap sh0 = fheap (sh s) \<and> fnext sh0 = fnext (sh s) + 1"
    and "resume (f0\<lparr>f_state := EXEC\<rparr>) = Some (es, f)"
    and run: "run_cb g w s = Inr (w\<lparr>w_loc := (w_loc w)\<lparr>t_fiber := Some m\<rparr>, w_pc := At_pick, w_cb := if f_ctx f = Returned then Some c else None\<rparr>,
      after_run c (if f_ctx f = Returned then f\<lparr>f_cb := None, f_entry := MainFunc, f_ctx := At_entry, f_state := INIT\<rparr> else f) es
        (if f_state f = READY then [FiberAndThread_fiber (Some c) (- 1)] else []) (s\<lparr>sh := sh0\<rparr>))" (is "_ = Inr (?w, ?s)")
    and f: "f_state f \<in> {READY, HOLD, TERM_S, EXCEPT}" "f_entry f = MainFunc" "f_stack f"
      "f_ctx f = Returned \<longleftrightarrow> f_state f = TERM_S \<or> f_state f = EXCEPT" by (rule run_cb_eq)
  have refs: "w_refs w = {#w_idle w#} + opt_refs (w_cb w)" using pc cb by (simp add: w_refs_def)
  have "w_idle w \<in># all_refs (add_mset w ws) s" by (simp add: all_refs_add refs)
  then have i: "w_idle w < fnext (sh s)" using ok by (simp add: sys_ok_def)
  have "count (w_refs w) (w_idle w) \<le> 1" by (rule worker_refs_once [OF ok])
  then have "count (opt_refs (w_cb w)) (w_idle w) = 0" unfolding refs by simp
  then have "w_idle w \<notin># opt_refs (w_cb w)" by (simp only: count_eq_zero_iff not_False_eq_True)
  then have ne: "c \<noteq> w_idle w" using c i by auto
  have h: "fheap (sh ?s) = (fheap (sh s))(c := if f_ctx f = Returned then f\<lparr>f_cb := None, f_entry := MainFunc, f_ctx := At_entry, f_state := INIT\<rparr> else f)"
    using c by (auto simp: after_run_def)
  have "worker_ok (fheap (sh ?s)) ?w"
    unfolding h using w ne m f by (auto simp: worker_ok_def)
  moreover have "ft \<in> set (m_fibers s) \<or> task_ok (fheap (sh ?s)) ft" if "ft \<in> set (m_fibers ?s)" for ft
    unfolding h using that f task_ok_spawned
    by (auto simp: after_run_def task_ok_def FiberAndThread_fiber_def runnable_def split: if_splits)
  moreover have "all_refs (add_mset ?w ws) ?s \<subseteq># all_refs (add_mset w ws) s + (if w_cb w = None then {#fnext (sh s)#} else {#})"
    using c refs f by (auto simp: all_refs_def w_refs_def after_run_def FiberAndThread_fiber_def)
  moreover have "0 < m_activeThreadCount s" using ok pc by (auto simp: sys_ok_def busy_def)
  ultimately have "sys_ok (add_mset ?w ws) ?s"
    by (intro sys_ok_frame [OF ok, where F = "if w_cb w = None then {#fnext (sh s)#} else {#}"])
      (use pc refs c in \<open>auto simp: h, auto simp: after_run_def busy_def\<close>)
  then show ?thesis using run by blast
qed

lemma run_idle_eq:
  assumes "fiber_state s (w_idle w) \<in> {INIT, HOLD, TERM_S}"
  shows "run_idle False w s =
    (if fiber_state s (w_idle w) = TERM_S then Inr (w\<lparr>w_pc := Exited\<rparr>, s)
     else Inr (w\<lparr>w_pc := At_pick\<rparr>, set_state (w_idle w) (if stopping s then TERM_S else HOLD) s))"
  using assms by (cases s) (auto simp: run_idle_def idle_def stopping_def set_state_def fiber_state_def Let_def)

lemma idle_step:
  assumes ok: "sys_ok (add_mset w ws) s" and pc: "w_pc w = At_body FiberAndThread_reset False"
  shows "\<exists>w' s'. run_idle False w s = Inr (w', s') \<and> sys_ok (add_mset w' ws) s'"
proof -
  have w: "worker_ok (fheap (sh s)) w" using ok by (simp add: sys_ok_def)
  then have st: "fiber_state s (w_idle w) \<in> {INIT, HOLD, TERM_S}" by (simp add: worker_ok_def fiber_state_def)
  have refs: "w_refs w = {#w_idle w#} + opt_refs (w_cb w)" using pc by (simp add: w_refs_def FiberAndThread_reset_def)
  have "sys_ok (add_mset (w\<lparr>w_pc := Exited\<rparr>) ws) s"
    by (rule sys_ok_frame [OF ok, where F = "{#}"])
      (use w pc refs in \<open>auto simp: worker_ok_def busy_def all_refs_add w_refs_def\<close>)
  moreover have "sys_ok (add_mset (w\<lparr>w_pc := At_pick\<rparr>) ws) (set_state (w_idle w) x s)" if "x = TERM_S \<or> x = HOLD" for x
  proof (rule sys_ok_frame [OF ok, where F = "{#}"])
    have "count (w_refs w) (w_idle w) \<le> 1" by (rule worker_refs_once [OF ok])
    then have "count (opt_refs (w_cb w)) (w_idle w) = 0" unfolding refs by simp
    then have "w_idle w \<notin># opt_refs (w_cb w)" by (simp only: count_eq_zero_iff not_False_eq_True)
    then show "worker_ok (fheap (sh (set_state (w_idle w) x s))) (w\<lparr>w_pc := At_pick\<rparr>)"
      using w that by (auto simp: worker_ok_def set_state_def)
  qed (use pc refs in \<open>auto simp: set_state_def busy_def all_refs_def w_refs_def\<close>)
  ultimately show ?thesis unfolding run_idle_eq [OF st] by simp
qed

theorem worker_step_ok:
  assumes ok: "sys_ok (add_mset w ws) s"
  shows "\<exists>w' s'. run_step w s = Inr (w', s') \<and> sys_ok (add_mset w' ws) s'"
proof (cases "w_pc w")
  case At_pick
  then show ?thesis using pick_step [OF ok] by (simp add: run_step_def)
next
  case (At_body ft a)
  have w: "worker_ok (fheap (sh s)) w" using ok by (simp add: sys_ok_def)
  show ?thesis
  proof (cases a)
    case False
    then have "ft = FiberAndThread_reset" using w At_body by (auto simp: worker_ok_def)
    then show ?thesis using idle_step [OF ok] At_body False by (simp add: run_step_def run_body_def FiberAndThread_reset_def)
  next
    case True
    then have "task_ok (fheap (sh s)) ft" using w At_body by (auto simp: worker_ok_def)
    then show ?thesis
      using fiber_step [OF ok, of ft] cb_step [OF ok, of ft] At_body True
      by (cases "ft_fiber ft") (auto simp: run_step_def run_body_def task_ok_def)
  qed
next
  case Exited
  then show ?thesis using ok by (simp add: run_step_def)
qed

subsection \<open>The whole system\<close>

text \<open>
  \<open>outside\<close> collects what happens besides the workers: functions and new fibers are scheduled, a fiber on hold
  that nobody refers to is scheduled again (an event or a timer fired), a thread enters \<open>run\<close>, and \<open>stop\<close> is requested.
\<close>

primrec script_emits :: "script \<Rightarrow> nat multiset" where
  "script_emits Return = {#}"
| "script_emits Throw = {#}"
| "script_emits (Yield_Ready s) = script_emits s"
| "script_emits (Yield_Hold s) = script_emits s"
| "script_emits (Emit n s) = add_mset n (script_emits s)"
| "script_emits (Spawn b thr s) = script_emits b + script_emits s"

text \<open>The step is labelled with the work it brings in from outside.\<close>

inductive sys_step :: "worker multiset \<times> scheduler \<Rightarrow> nat multiset \<Rightarrow> worker multiset \<times> scheduler \<Rightarrow> bool" where
  worker: "run_step w s = Inr (w', s') \<Longrightarrow> sys_step (add_mset w ws, s) {#} (add_mset w' ws, s')"
| schedule_cb: "sys_step (ws, s) (script_emits g) (ws, schedule (FiberAndThread_cb (Some g) thr) s)"
| schedule_fiber: "new_Fiber (Some g) sz False (sh s) = (p, sh') \<Longrightarrow>
    sys_step (ws, s) (script_emits g) (ws, schedule (FiberAndThread_fiber (Some p) thr) (s\<lparr>sh := sh'\<rparr>))"
| wake: "runnable (fheap (sh s) p) \<Longrightarrow> f_state (fheap (sh s) p) = HOLD \<Longrightarrow> p < fnext (sh s) \<Longrightarrow> p \<notin># all_refs ws s \<Longrightarrow>
    sys_step (ws, s) {#} (ws, schedule (FiberAndThread_fiber (Some p) thr) s)"
| enter: "run_enter tid loc s = (w, s') \<Longrightarrow> tid = m_rootThread s \<longrightarrow> t_scheduler_fiber loc \<noteq> None \<Longrightarrow>
    sys_step (ws, s) {#} (add_mset w ws, s')"
| stop: "sys_step (ws, s) {#} (ws, s\<lparr>m_autoStop := True, m_stopping := True\<rparr>)"

definition fresh_heap :: "scheduler \<Rightarrow> bool" where
  "fresh_heap s \<longleftrightarrow> (\<forall>p < fnext (sh s). f_cb (fheap (sh s) p) = None \<and> f_ctx (fheap (sh s) p) = At_entry)"

inductive sys_reachable :: "nat multiset \<Rightarrow> worker multiset \<times> scheduler \<Rightarrow> bool" where
  init: "m_fibers s = [] \<Longrightarrow> m_activeThreadCount s = 0 \<Longrightarrow> emitted s = [] \<Longrightarrow> fresh_heap s \<Longrightarrow> sys_reachable {#} ({#}, s)"
| step: "sys_reachable sub c \<Longrightarrow> sys_step c new c' \<Longrightarrow> sys_reachable (sub + new) c'"

lemma sys_ok_extend:
  assumes ok: "sys_ok ws s" and h: "\<And>p. p < fnext (sh s) \<Longrightarrow> fheap (sh s') p = fheap (sh s) p" and n: "fnext (sh s) \<le> fnext (sh s')"
    and q: "m_fibers s' = m_fibers s @ q" "\<And>ft. ft \<in> set q \<Longrightarrow> task_ok (fheap (sh s')) ft"
    and r: "\<And>p. p \<in># q_refs q \<Longrightarrow> p \<notin># all_refs ws s \<and> p < fnext (sh s') \<and> count (q_refs q) p = 1"
    and a: "m_activeThreadCount s' = m_activeThreadCount s"
  shows "sys_ok ws s'"
proof -
  have lt: "p < fnext (sh s)" if "p \<in># all_refs ws s" for p using ok that by (simp add: sys_ok_def)
  have "task_ok (fheap (sh s')) ft" if "ft \<in> set (m_fibers s)" for ft
  proof -
    have "task_ok (fheap (sh s)) ft" using ok that by (simp add: sys_ok_def)
    then show ?thesis by (rule task_ok_cong [rotated]) (use that h lt q_refs_member in \<open>auto simp: all_refs_def\<close>)
  qed
  moreover have "worker_ok (fheap (sh s')) v" if "v \<in># ws" for v
  proof -
    have "worker_ok (fheap (sh s)) v" using ok that by (simp add: sys_ok_def)
    then show ?thesis by (rule worker_ok_cong [rotated]) (use that h lt worker_refs_member in \<open>auto simp: all_refs_def\<close>)
  qed
  moreover have refs: "all_refs ws s' = all_refs ws s + q_refs q" using q(1) by (simp add: all_refs_def)
  moreover have "count (all_refs ws s + q_refs q) p \<le> 1" for p
    using ok r [of p] by (cases "p \<in># q_refs q") (auto simp: sys_ok_def not_in_iff)
  ultimately show ?thesis using ok a q n r lt by (fastforce simp: sys_ok_def)
qed

lemma new_Fiber_eq:
  assumes "new_Fiber cb sz uc h = (p, h')"
  shows "p = fnext h" "fnext h' = fnext h + 1" "\<And>q. q \<noteq> p \<Longrightarrow> fheap h' q = fheap h q"
    "f_state (fheap h' p) = INIT" "f_stack (fheap h' p)" "f_cb (fheap h' p) = cb" "f_ctx (fheap h' p) = At_entry"
    "f_entry (fheap h' p) = (if uc then CallerMainFunc else MainFunc)"
  using assms by (auto simp: new_Fiber_def alloc_fiber_def Let_def)

lemma run_enter_eq:
  assumes "run_enter tid loc s = (w, s')" and "tid = m_rootThread s \<longrightarrow> t_scheduler_fiber loc \<noteq> None"
  shows "w_idle w < fnext (sh s')" "fnext (sh s) \<le> w_idle w" "w_cb w = None" "w_pc w = At_pick" "t_scheduler_fiber (w_loc w) \<noteq> None"
    "f_state (fheap (sh s') (w_idle w)) = INIT" "\<And>p. p < fnext (sh s) \<Longrightarrow> fheap (sh s') p = fheap (sh s) p"
    "\<And>p. fnext (sh s) \<le> p \<Longrightarrow> p < fnext (sh s') \<Longrightarrow> f_cb (fheap (sh s') p) = None \<and> f_ctx (fheap (sh s') p) = At_entry"
    "m_fibers s' = m_fibers s" "m_activeThreadCount s' = m_activeThreadCount s" "emitted s' = emitted s"
  using assms
  by (auto simp: run_enter_def GetThis_def new_thread_fiber_def new_Fiber_def alloc_fiber_def SetThis_def Let_def
      split: if_splits option.splits prod.splits)

lemma sys_step_ok: "sys_step c new c' \<Longrightarrow> sys_ok (fst c) (snd c) \<Longrightarrow> sys_ok (fst c') (snd c')"
proof (induction rule: sys_step.induct)
  case (worker w s w' s' ws)
  then show ?case using worker_step_ok [of w ws s] by auto
next
  case (schedule_cb ws s g thr)
  then have ok: "sys_ok ws s" by simp
  show ?case unfolding fst_conv snd_conv
    by (rule sys_ok_extend [OF ok, where q = "[FiberAndThread_cb (Some g) thr]"]) (simp_all add: task_ok_def)
next
  case (schedule_fiber g sz s p sh' ws thr)
  note n = new_Fiber_eq [OF schedule_fiber(1)]
  have ok: "sys_ok ws s" using schedule_fiber(2) by simp
  then have "p \<notin># all_refs ws s" using n(1) by (auto simp: sys_ok_def)
  then show ?case unfolding fst_conv snd_conv
    by (intro sys_ok_extend [OF ok, where q = "[FiberAndThread_fiber (Some p) thr]"])
      (use n in \<open>simp_all add: task_ok_def runnable_def\<close>)
next
  case (wake s p ws thr)
  then have ok: "sys_ok ws s" by simp
  show ?case unfolding fst_conv snd_conv
    by (rule sys_ok_extend [OF ok, where q = "[FiberAndThread_fiber (Some p) thr]"])
      (use wake in \<open>simp_all add: task_ok_def\<close>)
next
  case (enter tid loc s w s' ws)
  note e = run_enter_eq [OF enter(1,2)]
  have ok0: "sys_ok ws s" using enter(3) by simp
  have ok: "sys_ok ws s'"
    by (rule sys_ok_extend [OF ok0, where q = "[]"]) (use e in simp_all)
  have "all_refs ws s' = all_refs ws s" using e by (simp add: all_refs_def)
  then have "w_idle w \<notin># all_refs ws s'" using ok0 e(2) by (auto simp: sys_ok_def)
  then show ?case
    using ok e by (auto simp: sys_ok_def worker_ok_def all_refs_add w_refs_def busy_def not_in_iff)
next
  case (stop ws s)
  then have ok: "sys_ok ws s" by simp
  show ?case unfolding fst_conv snd_conv by (rule sys_ok_extend [OF ok, where q = "[]"]) simp_all
qed

lemma sys_reachable_ok: "sys_reachable sub c \<Longrightarrow> sys_ok (fst c) (snd c)"
proof (induction rule: sys_reachable.induct)
  case (init s)
  then show ?case by (simp add: sys_ok_def all_refs_def)
next
  case (step sub c new c')
  then show ?case by (simp add: sys_step_ok)
qed

subsection \<open>No work is lost or done twice\<close>

text \<open>
  The actions that are still to come: in the rest of every fiber, in the functions of the task list, and in
  the tasks that workers have taken.
\<close>

definition task_pending :: "FiberAndThread \<Rightarrow> nat multiset" where
  "task_pending ft = (case ft_cb ft of None \<Rightarrow> {#} | Some s \<Rightarrow> script_emits s)"

definition fiber_pending :: "fiber \<Rightarrow> nat multiset" where
  "fiber_pending f =
     (case f_ctx f of
        Returned \<Rightarrow> {#}
      | At_entry \<Rightarrow> (case f_cb f of None \<Rightarrow> {#} | Some s \<Rightarrow> script_emits s)
      | Saved s \<Rightarrow> script_emits s)"

definition heap_pending :: "shared \<Rightarrow> nat multiset" where
  "heap_pending h = (\<Sum>p<fnext h. fiber_pending (fheap h p))"

definition queue_pending :: "FiberAndThread list \<Rightarrow> nat multiset" where
  "queue_pending q = (\<Sum>ft\<leftarrow>q. task_pending ft)"

definition worker_pending :: "worker \<Rightarrow> nat multiset" where
  "worker_pending w = (case w_pc w of At_body ft a \<Rightarrow> task_pending ft | _ \<Rightarrow> {#})"

definition work :: "worker multiset \<Rightarrow> scheduler \<Rightarrow> nat multiset" where
  "work ws s = mset (emitted s) + heap_pending (sh s) + queue_pending (m_fibers s) + (\<Sum>w\<in>#ws. worker_pending w)"

lemma queue_pending_simps [simp]:
  "queue_pending [] = {#}" "queue_pending (ft # q) = task_pending ft + queue_pending q"
  "queue_pending (q @ q') = queue_pending q + queue_pending q'"
  by (simp_all add: queue_pending_def)

lemma queue_pending_mset: "mset q = mset q' \<Longrightarrow> queue_pending q = queue_pending q'"
  unfolding queue_pending_def by (metis mset_map sum_mset_sum_list)

lemma task_pending_simps [simp]:
  "task_pending (FiberAndThread_cb (Some g) thr) = script_emits g" "task_pending (FiberAndThread_fiber r thr) = {#}"
  "task_pending FiberAndThread_reset = {#}"
  by (simp_all add: task_pending_def FiberAndThread_reset_def)

lemma heap_pending_set:
  "p < fnext h \<Longrightarrow> heap_pending (set_fiber p f h) + fiber_pending (fheap h p) = heap_pending h + fiber_pending f"
  by (simp add: heap_pending_def sum.remove [of "{..<fnext h}" p])

lemma heap_pending_grow:
  assumes "fnext h \<le> fnext h'" and "\<And>p. p < fnext h \<Longrightarrow> fheap h' p = fheap h p"
  shows "heap_pending h' = heap_pending h + (\<Sum>p\<in>{fnext h..<fnext h'}. fiber_pending (fheap h' p))"
proof -
  have D: "{..<fnext h'} = {..<fnext h} \<union> {fnext h..<fnext h'}" using assms(1) by auto
  have "heap_pending h' = (\<Sum>p<fnext h. fiber_pending (fheap h' p)) + (\<Sum>p\<in>{fnext h..<fnext h'}. fiber_pending (fheap h' p))"
    unfolding heap_pending_def D by (rule sum.union_disjoint) auto
  then show ?thesis using assms(2) by (simp add: heap_pending_def)
qed

lemma run_script_pending:
  "run_script s = (es, y) \<Longrightarrow> script_emits s = mset (emits es) + queue_pending (spawned es) + fiber_pending (apply_stop y f)"
  by (induction s arbitrary: es)
    (auto simp: apply_stop_def finish_MainFunc_def YieldToReady_def YieldToHold_def fiber_pending_def split: prod.splits)

lemma resume_pending:
  "resume f = Some (es, f') \<Longrightarrow> fiber_pending f = mset (emits es) + queue_pending (spawned es) + fiber_pending f'"
  by (auto simp: resume_def fiber_pending_def [of f] split: ucontext.splits option.splits prod.splits
      intro: run_script_pending) (simp add: fiber_pending_def finish_MainFunc_def)

lemma fiber_pending_state [simp]: "fiber_pending (f\<lparr>f_state := st\<rparr>) = fiber_pending f"
  by (simp add: fiber_pending_def split: ucontext.splits)

lemma work_after_run:
  assumes "p < fnext (sh s)" and "fiber_pending (fheap (sh s) p) = mset (emits es) + queue_pending (spawned es) + fiber_pending f"
    and "queue_pending q = {#}"
  shows "work ws (after_run p f es q s) = work ws s"
proof -
  have "heap_pending (set_fiber p f (sh s)) + (mset (emits es) + queue_pending (spawned es)) = heap_pending (sh s)"
    using heap_pending_set [OF assms(1), of f] assms(2) by (simp add: ac_simps)
  then show ?thesis using assms(3) by (simp add: work_def after_run_def ac_simps)
qed

lemma worker_pending_add: "work (add_mset w ws) s = worker_pending w + work ws s"
  by (simp add: work_def ac_simps)

lemma work_pick:
  assumes ok: "sys_ok (add_mset w ws) s" and pc: "w_pc w = At_pick" and run: "run_pick w s = Inr (w', s')"
  shows "work (add_mset w' ws) s' = work (add_mset w ws) s"
proof -
  have ne: "\<forall>ft \<in> set (m_fibers s). ft_fiber ft \<noteq> None \<or> ft_cb ft \<noteq> None"
    using ok by (auto simp: sys_ok_def task_ok_def split: option.splits)
  obtain r where r: "find_task (w_id w) (fheap (sh s)) (m_fibers s) = Inr r" using find_task_eq [OF ne] by blast
  show ?thesis
  proof (cases r)
    case None
    then show ?thesis using run r pc by (auto simp: run_pick_def worker_pending_add worker_pending_def)
  next
    case (Some x)
    obtain ft rest where x: "x = (ft, rest)" by (cases x)
    have "mset (m_fibers s) = mset (ft # rest)" using find_task_Some(2) [OF ne] r Some x by simp
    from queue_pending_mset [OF this] show ?thesis
      using run r Some x pc by (auto simp: run_pick_def worker_pending_add worker_pending_def work_def ac_simps)
  qed
qed

lemma work_fiber:
  assumes ok: "sys_ok (add_mset w ws) s" and pc: "w_pc w = At_body ft True" and p: "ft_fiber ft = Some p" and run: "run_fiber p w s = Inr (w', s')"
  shows "work (add_mset w' ws) s' = work (add_mset w ws) s"
proof -
  have w: "worker_ok (fheap (sh s)) w" using ok by (simp add: sys_ok_def)
  then obtain m where m: "t_scheduler_fiber (w_loc w) = Some m" and rn: "runnable (fheap (sh s) p)" and cb: "ft_cb ft = None"
    using pc p by (auto simp: worker_ok_def task_ok_def)
  have "p \<in># all_refs (add_mset w ws) s" using pc p by (simp add: all_refs_add w_refs_def)
  then have lt: "p < fnext (sh s)" using ok by (simp add: sys_ok_def)
  from rn m obtain es f where f: "resume ((fheap (sh s) p)\<lparr>f_state := EXEC\<rparr>) = Some (es, f)"
    "run_fiber p w s = Inr (w\<lparr>w_loc := (w_loc w)\<lparr>t_fiber := Some m\<rparr>, w_pc := At_pick\<rparr>,
      after_run p f es (if f_state f = READY then [FiberAndThread_fiber (Some p) (- 1)] else []) s)"
    "f_state f \<in> {READY, HOLD, TERM_S, EXCEPT}" "f_entry f = MainFunc" "f_stack f"
    "f_ctx f = Returned \<longleftrightarrow> f_state f = TERM_S \<or> f_state f = EXCEPT" by (rule run_fiber_eq)
  have "work ws s' = work ws s"
    using f(2) run resume_pending [OF f(1)] lt by (auto intro!: work_after_run)
  then show ?thesis using f(2) run pc cb by (auto simp: worker_pending_add worker_pending_def task_pending_def)
qed

lemma work_cb:
  assumes ok: "sys_ok (add_mset w ws) s" and pc: "w_pc w = At_body ft True" and cb: "ft_fiber ft = None" "ft_cb ft = Some g"
    and run: "run_cb g w s = Inr (w', s')"
  shows "work (add_mset w' ws) s' = work (add_mset w ws) s"
proof -
  have w: "worker_ok (fheap (sh s)) w" using ok by (simp add: sys_ok_def)
  then obtain m where m: "t_scheduler_fiber (w_loc w) = Some m" by (auto simp: worker_ok_def)
  have own: "f_state (fheap (sh s) c) = INIT \<and> f_stack (fheap (sh s) c)" if "w_cb w = Some c" for c
    using w that by (simp add: worker_ok_def)
  from m own obtain c f0 sh0 es f where "bind_cb g w s = Inr (c, s\<lparr>sh := set_fiber c f0 sh0\<rparr>)" and f0: "f_ctx f0 = At_entry" "f_cb f0 = Some g"
    and c: "w_cb w = Some c \<and> sh0 = sh s \<or> w_cb w = None \<and> c = fnext (sh s) \<and> fheap sh0 = fheap (sh s) \<and> fnext sh0 = fnext (sh s) + 1"
    and r: "resume (f0\<lparr>f_state := EXEC\<rparr>) = Some (es, f)"
    and eq: "run_cb g w s = Inr (w\<lparr>w_loc := (w_loc w)\<lparr>t_fiber := Some m\<rparr>, w_pc := At_pick, w_cb := if f_ctx f = Returned then Some c else None\<rparr>,
      after_run c (if f_ctx f = Returned then f\<lparr>f_cb := None, f_entry := MainFunc, f_ctx := At_entry, f_state := INIT\<rparr> else f) es
        (if f_state f = READY then [FiberAndThread_fiber (Some c) (- 1)] else []) (s\<lparr>sh := sh0\<rparr>))"
    and "f_state f \<in> {READY, HOLD, TERM_S, EXCEPT}" "f_entry f = MainFunc" "f_stack f"
      "f_ctx f = Returned \<longleftrightarrow> f_state f = TERM_S \<or> f_state f = EXCEPT" by (rule run_cb_eq)
  let ?f = "if f_ctx f = Returned then f\<lparr>f_cb := None, f_entry := MainFunc, f_ctx := At_entry, f_state := INIT\<rparr> else f"
  let ?q = "if f_state f = READY then [FiberAndThread_fiber (Some c) (- 1)] else []"
  let ?s0 = "s\<lparr>sh := set_fiber c f0 sh0\<rparr>"
  have "w_cb w = Some c \<Longrightarrow> c \<in># all_refs (add_mset w ws) s" by (simp add: all_refs_add w_refs_def)
  then have lt: "c < fnext (sh ?s0)" using ok c by (auto simp: sys_ok_def)
  have pf: "fiber_pending f0 = script_emits g" using f0 by (simp add: fiber_pending_def)
  have same: "after_run c ?f es ?q (s\<lparr>sh := sh0\<rparr>) = after_run c ?f es ?q ?s0" by (simp add: after_run_def)
  have "fiber_pending ?f = fiber_pending f" by (simp add: fiber_pending_def)
  then have "fiber_pending (fheap (sh ?s0) c) = mset (emits es) + queue_pending (spawned es) + fiber_pending ?f"
    using resume_pending [OF r] by simp
  from work_after_run [OF lt this, of ?q ws] have 1: "work ws s' = work ws ?s0"
    using eq run same by auto
  have "heap_pending (set_fiber c f0 sh0) = heap_pending (sh s) + script_emits g"
  proof (cases "w_cb w")
    case None
    then have g: "c = fnext (sh s)" "fheap sh0 = fheap (sh s)" "fnext sh0 = fnext (sh s) + 1" using c by auto
    then have "heap_pending (set_fiber c f0 sh0) = heap_pending (sh s) + (\<Sum>p\<in>{fnext (sh s)..<fnext (set_fiber c f0 sh0)}. fiber_pending (fheap (set_fiber c f0 sh0) p))"
      by (intro heap_pending_grow) simp_all
    then show ?thesis using g pf by simp
  next
    case (Some d)
    then have "sh0 = sh s" "fiber_pending (fheap (sh s) c) = {#}" using c w by (auto simp: worker_ok_def fiber_pending_def)
    then show ?thesis using heap_pending_set [of c "sh s" f0] lt pf by simp
  qed
  then have 2: "work ws ?s0 = work ws s + script_emits g" by (simp add: work_def ac_simps)
  show ?thesis
    using 1 2 eq run pc cb by (auto simp: worker_pending_add worker_pending_def task_pending_def)
qed

lemma heap_pending_set_state: "p < fnext (sh s) \<Longrightarrow> heap_pending (sh (set_state p st s)) = heap_pending (sh s)"
  using heap_pending_set [of p "sh s" "(fheap (sh s) p)\<lparr>f_state := st\<rparr>"] by (simp add: set_state_def)

lemma work_idle:
  assumes ok: "sys_ok (add_mset w ws) s" and pc: "w_pc w = At_body FiberAndThread_reset False" and run: "run_idle False w s = Inr (w', s')"
  shows "work (add_mset w' ws) s' = work (add_mset w ws) s"
proof -
  have st: "fiber_state s (w_idle w) \<in> {INIT, HOLD, TERM_S}" using ok by (simp add: sys_ok_def worker_ok_def fiber_state_def)
  have "w_idle w \<in># all_refs (add_mset w ws) s" by (simp add: all_refs_add w_refs_def)
  then have "w_idle w < fnext (sh s)" using ok by (simp add: sys_ok_def)
  then have "work ws (set_state (w_idle w) x s) = work ws s" for x
    using heap_pending_set_state [of "w_idle w" s x] by (simp add: work_def) (simp add: set_state_def)
  then show ?thesis
    using run pc unfolding run_idle_eq [OF st] by (auto simp: worker_pending_add worker_pending_def split: if_splits)
qed

lemma worker_step_work:
  assumes ok: "sys_ok (add_mset w ws) s" and run: "run_step w s = Inr (w', s')"
  shows "work (add_mset w' ws) s' = work (add_mset w ws) s"
proof (cases "w_pc w")
  case At_pick
  then show ?thesis using work_pick [OF ok] run by (simp add: run_step_def)
next
  case (At_body ft a)
  have w: "worker_ok (fheap (sh s)) w" using ok by (simp add: sys_ok_def)
  show ?thesis
  proof (cases a)
    case False
    then have "ft = FiberAndThread_reset" using w At_body by (auto simp: worker_ok_def)
    then show ?thesis using work_idle [OF ok] run At_body False by (simp add: run_step_def run_body_def FiberAndThread_reset_def)
  next
    case True
    then have "task_ok (fheap (sh s)) ft" using w At_body by (auto simp: worker_ok_def)
    then show ?thesis
      using work_fiber [OF ok, of ft] work_cb [OF ok, of ft] run At_body True
      by (cases "ft_fiber ft") (auto simp: run_step_def run_body_def task_ok_def)
  qed
next
  case Exited
  then show ?thesis using run by (simp add: run_step_def)
qed

lemma sys_step_work: "sys_step c new c' \<Longrightarrow> sys_ok (fst c) (snd c) \<Longrightarrow> work (fst c') (snd c') = work (fst c) (snd c) + new"
proof (induction rule: sys_step.induct)
  case (worker w s w' s' ws)
  then show ?case using worker_step_work by simp
next
  case (schedule_fiber g sz s p sh' ws thr)
  note n = new_Fiber_eq [OF schedule_fiber(1)]
  have "heap_pending sh' = heap_pending (sh s) + (\<Sum>q\<in>{fnext (sh s)..<fnext sh'}. fiber_pending (fheap sh' q))"
    by (rule heap_pending_grow) (use n in simp_all)
  also have "\<dots> = heap_pending (sh s) + script_emits g" using n by (simp add: fiber_pending_def)
  finally show ?case by (simp add: work_def ac_simps)
next
  case (enter tid loc s w s' ws)
  note e = run_enter_eq [OF enter(1,2)]
  have "heap_pending (sh s') = heap_pending (sh s) + (\<Sum>q\<in>{fnext (sh s)..<fnext (sh s')}. fiber_pending (fheap (sh s') q))"
    by (rule heap_pending_grow) (use e in simp_all)
  then have "heap_pending (sh s') = heap_pending (sh s)" using e(8) by (simp add: fiber_pending_def)
  then show ?case using e by (simp add: work_def worker_pending_def)
qed (simp_all add: work_def ac_simps)

lemma sys_reachable_work: "sys_reachable sub c \<Longrightarrow> work (fst c) (snd c) = sub"
proof (induction rule: sys_reachable.induct)
  case (init s)
  then show ?case by (simp add: work_def heap_pending_def fresh_heap_def fiber_pending_def)
next
  case (step sub c new c')
  then show ?case using sys_step_work [OF step(2) sys_reachable_ok [OF step(1)]] by simp
qed

end
