(* ===== verification/SchedulerLiveness.thy ===== *)
theory SchedulerLiveness
  imports SchedulerSystem
begin

text \<open>
  Termination of \<open>Scheduler::run\<close>: after a stop request, a worker that is alone finishes every task that it
  may run and leaves its loop. The measure is the total length of the scripts in the task list.
\<close>

primrec script_size :: "script \<Rightarrow> nat" where
  "script_size Return = 1"
| "script_size Throw = 1"
| "script_size (Yield_Ready s) = 1 + script_size s"
| "script_size (Yield_Hold s) = 1 + script_size s"
| "script_size (Emit n s) = 1 + script_size s"
| "script_size (Spawn b thr s) = 1 + script_size b + script_size s"

text \<open>Scripts that pin nothing to a thread.\<close>

primrec unpinned :: "script \<Rightarrow> bool" where
  "unpinned Return = True"
| "unpinned Throw = True"
| "unpinned (Yield_Ready s) = unpinned s"
| "unpinned (Yield_Hold s) = unpinned s"
| "unpinned (Emit n s) = unpinned s"
| "unpinned (Spawn b thr s) = (thr = - 1 \<and> unpinned b \<and> unpinned s)"

definition rest_script :: "fiber \<Rightarrow> script option" where
  "rest_script f = (case f_ctx f of At_entry \<Rightarrow> f_cb f | Saved s \<Rightarrow> Some s | Returned \<Rightarrow> None)"

definition task_script :: "(nat \<Rightarrow> fiber) \<Rightarrow> FiberAndThread \<Rightarrow> script option" where
  "task_script h ft = (case ft_fiber ft of Some p \<Rightarrow> rest_script (h p) | None \<Rightarrow> ft_cb ft)"

definition opt_size :: "script option \<Rightarrow> nat" where
  "opt_size r = (case r of None \<Rightarrow> 1 | Some s \<Rightarrow> script_size s)"

definition opt_unpinned :: "script option \<Rightarrow> bool" where
  "opt_unpinned r = (case r of None \<Rightarrow> True | Some s \<Rightarrow> unpinned s)"

definition todo :: "(nat \<Rightarrow> fiber) \<Rightarrow> FiberAndThread list \<Rightarrow> nat" where
  "todo h q = (\<Sum>ft\<leftarrow>q. opt_size (task_script h ft))"

definition task_free :: "(nat \<Rightarrow> fiber) \<Rightarrow> FiberAndThread \<Rightarrow> bool" where
  "task_free h ft \<longleftrightarrow> ft_thread ft = - 1 \<and> opt_unpinned (task_script h ft)"

lemma todo_simps [simp]: "todo h [] = 0" "todo h (ft # q) = opt_size (task_script h ft) + todo h q" "todo h (q @ q') = todo h q + todo h q'"
  by (simp_all add: todo_def)

lemma script_size_pos: "0 < script_size s"
  by (cases s) auto

lemma opt_size_pos: "0 < opt_size r"
  by (auto simp: opt_size_def script_size_pos split: option.splits)

lemma run_script_size:
  "run_script s = (es, y) \<Longrightarrow> todo h (spawned es) +
     (if f_ctx (apply_stop y f) = Returned then 0 else opt_size (rest_script (apply_stop y f))) < script_size s"
  by (induction s arbitrary: es)
    (auto simp: apply_stop_def finish_MainFunc_def YieldToReady_def YieldToHold_def rest_script_def opt_size_def task_script_def split: prod.splits)

lemma run_script_unpinned:
  "run_script s = (es, y) \<Longrightarrow> unpinned s \<Longrightarrow> (\<forall>ft \<in> set (spawned es). task_free h ft) \<and> opt_unpinned (rest_script (apply_stop y f))"
  by (induction s arbitrary: es)
    (auto simp: apply_stop_def finish_MainFunc_def YieldToReady_def YieldToHold_def rest_script_def opt_unpinned_def task_script_def
      task_free_def FiberAndThread_cb_def split: prod.splits)

lemma resume_cases:
  assumes "resume f = Some (es, f')"
  obtains "rest_script f = None" and "es = []" and "f' = finish_MainFunc True f"
  | sc y where "rest_script f = Some sc" and "run_script sc = (es, y)" and "f' = apply_stop y f"
  using assms by (auto simp: resume_def rest_script_def split: ucontext.splits option.splits prod.splits)

lemma resume_size:
  assumes "resume f = Some (es, f')"
  shows "todo h (spawned es) + (if f_ctx f' = Returned then 0 else opt_size (rest_script f')) < opt_size (rest_script f)"
  using assms
proof (cases rule: resume_cases)
  case 1
  then show ?thesis by (simp add: opt_size_def finish_MainFunc_def)
next
  case (2 sc y)
  then show ?thesis using run_script_size [OF 2(2), of h f] by (simp add: opt_size_def [of "Some sc"] split: if_splits)
qed

lemma resume_unpinned:
  assumes "resume f = Some (es, f')" and "opt_unpinned (rest_script f)"
  shows "(\<forall>ft \<in> set (spawned es). task_free h ft) \<and> opt_unpinned (rest_script f')"
  using assms(1)
proof (cases rule: resume_cases)
  case 1
  then show ?thesis by (simp add: opt_unpinned_def finish_MainFunc_def rest_script_def)
next
  case (2 sc y)
  then show ?thesis using run_script_unpinned [OF 2(2), of h f] assms(2) by (simp add: opt_unpinned_def [of "Some sc"])
qed

lemma rest_script_state [simp]: "rest_script (f\<lparr>f_state := st\<rparr>) = rest_script f"
  by (simp add: rest_script_def split: ucontext.splits)

subsection \<open>One task at a time\<close>

lemma task_script_cong: "(\<And>p. ft_fiber ft = Some p \<Longrightarrow> h' p = h p) \<Longrightarrow> task_script h' ft = task_script h ft"
  by (auto simp: task_script_def split: option.splits)

lemma todo_cong: "(\<And>p. p \<in># q_refs q \<Longrightarrow> h' p = h p) \<Longrightarrow> todo h' q = todo h q"
  by (induction q) (auto intro!: arg_cong [where f = opt_size] task_script_cong)

lemma task_free_cong:
  "(\<And>p. p \<in># q_refs q \<Longrightarrow> h' p = h p) \<Longrightarrow> \<forall>ft \<in> set q. task_free h ft \<Longrightarrow> \<forall>ft \<in> set q. task_free h' ft"
  using task_script_cong q_refs_member by (metis task_free_def)

text \<open>Progress: less than \<open>n\<close> left to do, nothing pinned, flags unchanged.\<close>

definition progress :: "nat \<Rightarrow> scheduler \<Rightarrow> scheduler \<Rightarrow> bool" where
  "progress n s s' \<longleftrightarrow> todo (fheap (sh s')) (m_fibers s') < n \<and> (\<forall>ft \<in> set (m_fibers s'). task_free (fheap (sh s')) ft)
     \<and> m_autoStop s' = m_autoStop s \<and> m_stopping s' = m_stopping s"

lemma after_run_progress:
  assumes r: "resume f0 = Some (es, f)" and p: "p \<notin># q_refs (m_fibers s)" and free: "\<forall>ft \<in> set (m_fibers s). task_free (fheap (sh s)) ft"
    and u: "opt_unpinned (rest_script f0)" and ready: "f_state f = READY \<longrightarrow> f_ctx f \<noteq> Returned \<and> f1 = f"
  shows "progress (opt_size (rest_script f0) + todo (fheap (sh s)) (m_fibers s)) s
    (after_run p f1 es (if f_state f = READY then [FiberAndThread_fiber (Some p) (- 1)] else []) s)" (is "progress _ _ (after_run p f1 es ?q s)")
proof -
  let ?h = "(fheap (sh s))(p := f1)"
  have e: "fheap (sh (after_run p f1 es ?q s)) = ?h" "m_fibers (after_run p f1 es ?q s) = m_fibers s @ spawned es @ ?q"
    "m_autoStop (after_run p f1 es ?q s) = m_autoStop s" "m_stopping (after_run p f1 es ?q s) = m_stopping s"
    by (simp_all add: after_run_def)
  have same: "todo ?h (m_fibers s) = todo (fheap (sh s)) (m_fibers s)" using p by (intro todo_cong) auto
  have "todo ?h ?q \<le> (if f_ctx f = Returned then 0 else opt_size (rest_script f))"
    using ready by (auto simp: task_script_def)
  then have "todo ?h (m_fibers s @ spawned es @ ?q) < opt_size (rest_script f0) + todo (fheap (sh s)) (m_fibers s)"
    using resume_size [OF r, of ?h] same by simp
  moreover have "\<forall>ft \<in> set (m_fibers s). task_free ?h ft" using p free by (intro task_free_cong [of _ ?h "fheap (sh s)"]) auto
  moreover have "\<forall>ft \<in> set (spawned es). task_free ?h ft" using resume_unpinned [OF r u] by simp
  moreover have "\<forall>ft \<in> set ?q. task_free ?h ft"
    using resume_unpinned [OF r u] ready by (auto simp: task_free_def task_script_def FiberAndThread_fiber_def)
  ultimately show ?thesis unfolding progress_def e by auto
qed

lemma step_ok: "sys_ok {#w#} s \<Longrightarrow> run_step w s = Inr (w', s') \<Longrightarrow> sys_ok {#w'#} s'"
  using worker_step_ok [of w "{#}" s] by auto

lemma own_refs_apart:
  assumes "sys_ok {#w#} s" and "p \<in># w_refs w"
  shows "p \<notin># q_refs (m_fibers s)"
proof
  assume "p \<in># q_refs (m_fibers s)"
  then have "0 < count (w_refs w) p" "0 < count (q_refs (m_fibers s)) p" using assms(2) by (simp_all only: count_greater_zero_iff)
  moreover have "count (w_refs w) p + count (q_refs (m_fibers s)) p \<le> 1" using assms(1) by (simp add: sys_ok_def all_refs_def)
  ultimately show False by linarith
qed

text \<open>What one body does to the task list of a lone worker.\<close>

lemma fiber_progress:
  assumes ok: "sys_ok {#w#} s" and pc: "w_pc w = At_body ft True" and p: "ft_fiber ft = Some p"
    and free: "\<forall>ft \<in> set (m_fibers s). task_free (fheap (sh s)) ft" and u: "opt_unpinned (task_script (fheap (sh s)) ft)"
  shows "\<exists>w' s'. run_step w s = Inr (w', s') \<and> w_pc w' = At_pick
    \<and> progress (opt_size (task_script (fheap (sh s)) ft) + todo (fheap (sh s)) (m_fibers s)) s s'"
proof -
  obtain m where m: "t_scheduler_fiber (w_loc w) = Some m" and rn: "runnable (fheap (sh s) p)"
    using ok pc p by (auto simp: sys_ok_def worker_ok_def task_ok_def)
  from rn m obtain es f where f: "resume ((fheap (sh s) p)\<lparr>f_state := EXEC\<rparr>) = Some (es, f)"
    and run: "run_fiber p w s = Inr (w\<lparr>w_loc := (w_loc w)\<lparr>t_fiber := Some m\<rparr>, w_pc := At_pick\<rparr>,
      after_run p f es (if f_state f = READY then [FiberAndThread_fiber (Some p) (- 1)] else []) s)"
    and st: "f_state f \<in> {READY, HOLD, TERM_S, EXCEPT}" "f_entry f = MainFunc" "f_stack f"
    "f_ctx f = Returned \<longleftrightarrow> f_state f = TERM_S \<or> f_state f = EXCEPT" by (rule run_fiber_eq)
  have "p \<notin># q_refs (m_fibers s)" by (rule own_refs_apart [OF ok]) (use pc p in \<open>simp add: w_refs_def\<close>)
  then have "progress (opt_size (rest_script ((fheap (sh s) p)\<lparr>f_state := EXEC\<rparr>)) + todo (fheap (sh s)) (m_fibers s)) s
      (after_run p f es (if f_state f = READY then [FiberAndThread_fiber (Some p) (- 1)] else []) s)"
    by (rule after_run_progress [OF f _ free]) (use u p st in \<open>auto simp: task_script_def\<close>)
  then show ?thesis using run pc p by (simp add: run_step_def run_body_def task_script_def)
qed

lemma cb_progress:
  assumes ok: "sys_ok {#w#} s" and pc: "w_pc w = At_body ft True" and cb: "ft_fiber ft = None" "ft_cb ft = Some g"
    and free: "\<forall>ft \<in> set (m_fibers s). task_free (fheap (sh s)) ft" and u: "opt_unpinned (task_script (fheap (sh s)) ft)"
  shows "\<exists>w' s'. run_step w s = Inr (w', s') \<and> w_pc w' = At_pick
    \<and> progress (opt_size (task_script (fheap (sh s)) ft) + todo (fheap (sh s)) (m_fibers s)) s s'"
proof -
  obtain m where m: "t_scheduler_fiber (w_loc w) = Some m" using ok by (auto simp: sys_ok_def worker_ok_def)
  have own: "f_state (fheap (sh s) c) = INIT \<and> f_stack (fheap (sh s) c)" if "w_cb w = Some c" for c
    using ok that by (simp add: sys_ok_def worker_ok_def)
  from m own obtain c f0 sh0 es f where "bind_cb g w s = Inr (c, s\<lparr>sh := set_fiber c f0 sh0\<rparr>)" and f0: "f_ctx f0 = At_entry" "f_cb f0 = Some g"
    and c: "w_cb w = Some c \<and> sh0 = sh s \<or> w_cb w = None \<and> c = fnext (sh s) \<and> fheap sh0 = fheap (sh s) \<and> fnext sh0 = fnext (sh s) + 1"
    and r: "resume (f0\<lparr>f_state := EXEC\<rparr>) = Some (es, f)"
    and eq: "run_cb g w s = Inr (w\<lparr>w_loc := (w_loc w)\<lparr>t_fiber := Some m\<rparr>, w_pc := At_pick, w_cb := if f_ctx f = Returned then Some c else None\<rparr>,
      after_run c (if f_ctx f = Returned then f\<lparr>f_cb := None, f_entry := MainFunc, f_ctx := At_entry, f_state := INIT\<rparr> else f) es
        (if f_state f = READY then [FiberAndThread_fiber (Some c) (- 1)] else []) (s\<lparr>sh := sh0\<rparr>))"
    and st: "f_state f \<in> {READY, HOLD, TERM_S, EXCEPT}" "f_entry f = MainFunc" "f_stack f"
      "f_ctx f = Returned \<longleftrightarrow> f_state f = TERM_S \<or> f_state f = EXCEPT" by (rule run_cb_eq)
  have rs: "rest_script (f0\<lparr>f_state := EXEC\<rparr>) = task_script (fheap (sh s)) ft" using f0 cb by (simp add: rest_script_def task_script_def)
  have "c \<notin># q_refs (m_fibers s)"
  proof (cases "w_cb w")
    case None
    then show ?thesis using c ok by (auto simp: sys_ok_def all_refs_def)
  next
    case (Some d)
    then show ?thesis using c by (intro own_refs_apart [OF ok]) (auto simp: w_refs_def)
  qed
  then have "progress (opt_size (rest_script (f0\<lparr>f_state := EXEC\<rparr>)) + todo (fheap (sh (s\<lparr>sh := sh0\<rparr>))) (m_fibers (s\<lparr>sh := sh0\<rparr>))) (s\<lparr>sh := sh0\<rparr>)
      (after_run c (if f_ctx f = Returned then f\<lparr>f_cb := None, f_entry := MainFunc, f_ctx := At_entry, f_state := INIT\<rparr> else f) es
        (if f_state f = READY then [FiberAndThread_fiber (Some c) (- 1)] else []) (s\<lparr>sh := sh0\<rparr>))"
    by (intro after_run_progress [OF r]) (use u c free st rs in auto)
  moreover have "fheap sh0 = fheap (sh s)" using c by auto
  ultimately show ?thesis using eq pc cb rs by (simp add: run_step_def run_body_def progress_def)
qed

lemma one_task:
  assumes ok: "sys_ok {#w#} s" and pc: "w_pc w = At_pick" and q: "m_fibers s = ft # rest"
    and free: "\<forall>ft \<in> set (m_fibers s). task_free (fheap (sh s)) ft"
  shows "\<exists>w1 s1 w2 s2. run_step w s = Inr (w1, s1) \<and> run_step w1 s1 = Inr (w2, s2) \<and> sys_ok {#w1#} s1 \<and> sys_ok {#w2#} s2
    \<and> w_pc w2 = At_pick \<and> progress (todo (fheap (sh s)) (m_fibers s)) s s2"
proof -
  have t: "task_ok (fheap (sh s)) ft" using ok q by (simp add: sys_ok_def)
  then have "ft_fiber ft \<noteq> None \<or> ft_cb ft \<noteq> None" "eligible (w_id w) (fheap (sh s)) ft"
    using free q by (auto simp: task_ok_def eligible_def task_free_def runnable_def split: option.splits)
  then have "find_task (w_id w) (fheap (sh s)) (m_fibers s) = Inr (Some (ft, rest))"
    unfolding q by (simp add: find_task_Cons del: find_task.simps)
  then have run1: "run_step w s = Inr (w\<lparr>w_pc := At_body ft True\<rparr>, s\<lparr>m_fibers := rest, m_activeThreadCount := m_activeThreadCount s + 1\<rparr>)"
    (is "_ = Inr (?w, ?s)") using pc by (simp add: run_step_def run_pick_def)
  have ok1: "sys_ok {#?w#} ?s" by (rule step_ok [OF ok run1])
  have pc1: "w_pc ?w = At_body ft True" and free1: "\<forall>ft \<in> set (m_fibers ?s). task_free (fheap (sh ?s)) ft"
    and u: "opt_unpinned (task_script (fheap (sh ?s)) ft)" using free q by (simp_all add: task_free_def)
  have "\<exists>w2 s2. run_step ?w ?s = Inr (w2, s2) \<and> w_pc w2 = At_pick
      \<and> progress (opt_size (task_script (fheap (sh ?s)) ft) + todo (fheap (sh ?s)) (m_fibers ?s)) ?s s2"
  proof (cases "ft_fiber ft")
    case None
    then obtain g where g: "ft_cb ft = Some g" using t by (auto simp: task_ok_def)
    show ?thesis by (rule cb_progress [OF ok1 pc1 None g free1 u])
  next
    case (Some p)
    show ?thesis by (rule fiber_progress [OF ok1 pc1 Some free1 u])
  qed
  then obtain w2 s2 where 2: "run_step ?w ?s = Inr (w2, s2)" "w_pc w2 = At_pick"
      "progress (opt_size (task_script (fheap (sh ?s)) ft) + todo (fheap (sh ?s)) (m_fibers ?s)) ?s s2" by blast
  have "progress (todo (fheap (sh s)) (m_fibers s)) s s2" using 2(3) q by (simp add: progress_def)
  then show ?thesis using run1 2 ok1 step_ok [OF ok1 2(1)] by blast
qed

subsection \<open>The loop ends\<close>

primrec run_steps :: "nat \<Rightarrow> worker \<Rightarrow> scheduler \<Rightarrow> fiber_error + (worker \<times> scheduler)" where
  "run_steps 0 w s = Inr (w, s)"
| "run_steps (Suc n) w s = (case run_step w s of Inl e \<Rightarrow> Inl e | Inr (w', s') \<Rightarrow> run_steps n w' s')"

lemma idle_round:
  assumes ok: "sys_ok {#w#} s" and pc: "w_pc w = At_pick" and q: "m_fibers s = []" and fl: "m_autoStop s" "m_stopping s"
  shows "\<exists>n w' s'. run_steps n w s = Inr (w', s') \<and> w_pc w' = Exited \<and> m_fibers s' = [] \<and> m_activeThreadCount s' = 0"
proof -
  have a: "m_activeThreadCount s = 0" using ok pc by (simp add: sys_ok_def busy_def)
  have st: "fiber_state s (w_idle w) \<in> {INIT, HOLD, TERM_S}" using ok by (simp add: sys_ok_def worker_ok_def fiber_state_def)
  have stop: "stopping s" using a q fl by (simp add: stopping_def)
  have two: "run_steps (Suc (Suc n)) v t = (case run_idle False (v\<lparr>w_pc := At_body FiberAndThread_reset False\<rparr>) t of Inl e \<Rightarrow> Inl e | Inr (w', s') \<Rightarrow> run_steps n w' s')"
    if "w_pc v = At_pick" "m_fibers t = []" for n v t
    using that by (simp add: run_step_def run_pick_def run_body_def FiberAndThread_reset_def)
  let ?r = "w\<lparr>w_pc := At_body FiberAndThread_reset False\<rparr>"
  show ?thesis
  proof (cases "fiber_state s (w_idle w) = TERM_S")
    case True
    then have "run_steps 2 w s = Inr (?r\<lparr>w_pc := Exited\<rparr>, s)"
      using two [OF pc q, of 0] run_idle_eq [of s ?r] st by (simp add: numeral_2_eq_2)
    then show ?thesis using q a by (intro exI [of _ 2] exI [of _ "?r\<lparr>w_pc := Exited\<rparr>"] exI [of _ s]) simp
  next
    case False
    let ?s = "set_state (w_idle w) TERM_S s" and ?w = "?r\<lparr>w_pc := At_pick\<rparr>"
    have "run_idle False ?r s = Inr (?w, ?s)" using run_idle_eq [of s ?r] st stop False by simp
    moreover have "m_fibers ?s = []" "m_activeThreadCount ?s = 0" using q a by (simp_all add: set_state_def)
    moreover have "run_idle False (?w\<lparr>w_pc := At_body FiberAndThread_reset False\<rparr>) ?s =
        Inr (?w\<lparr>w_pc := Exited\<rparr>, ?s)"
      by (subst run_idle_eq) (simp_all add: fiber_state_def set_state_def)
    ultimately have "run_steps 4 w s = Inr (?w\<lparr>w_pc := Exited\<rparr>, ?s)"
      using two [OF pc q, of 2] two [of ?w ?s 0] by (simp add: numeral_eq_Suc)
    then show ?thesis using \<open>m_fibers ?s = []\<close> \<open>m_activeThreadCount ?s = 0\<close> 
      by (intro exI [of _ 4] exI [of _ "?w\<lparr>w_pc := Exited\<rparr>"] exI [of _ ?s]) simp
  qed
qed

lemma run_ends:
  assumes "sys_ok {#w#} s" and "w_pc w = At_pick" and "m_autoStop s" and "m_stopping s" and "\<forall>ft \<in> set (m_fibers s). task_free (fheap (sh s)) ft"
  shows "\<exists>n w' s'. run_steps n w s = Inr (w', s') \<and> w_pc w' = Exited \<and> m_fibers s' = [] \<and> m_activeThreadCount s' = 0"
  using assms
proof (induction "todo (fheap (sh s)) (m_fibers s)" arbitrary: w s rule: less_induct)
  case less
  show ?case
  proof (cases "m_fibers s")
    case Nil
    show ?thesis by (rule idle_round [OF less.prems(1,2) Nil less.prems(3,4)])
  next
    case (Cons ft rest)
    from one_task [OF less.prems(1,2) Cons less.prems(5)] obtain w1 s1 w2 s2 where
      r: "run_step w s = Inr (w1, s1)" "run_step w1 s1 = Inr (w2, s2)" "sys_ok {#w2#} s2" "w_pc w2 = At_pick"
      and p: "progress (todo (fheap (sh s)) (m_fibers s)) s s2" by blast
    from p have "\<exists>n w' s'. run_steps n w2 s2 = Inr (w', s') \<and> w_pc w' = Exited \<and> m_fibers s' = [] \<and> m_activeThreadCount s' = 0"
      using less.hyps [of s2 w2] r less.prems by (simp add: progress_def)
    then obtain n w' s' where n: "run_steps n w2 s2 = Inr (w', s')" "w_pc w' = Exited" "m_fibers s' = []" "m_activeThreadCount s' = 0" by blast
    have "run_steps (Suc (Suc n)) w s = Inr (w', s')" using r n(1) by simp
    then show ?thesis using n by blast
  qed
qed

lemma run_steps_ok:
  "run_steps n w s = Inr (w', s') \<Longrightarrow> sys_ok {#w#} s \<Longrightarrow> sys_ok {#w'#} s' \<and> work {#w'#} s' = work {#w#} s"
proof (induction n arbitrary: w s)
  case (Suc n)
  then obtain w1 s1 where r: "run_step w s = Inr (w1, s1)" "run_steps n w1 s1 = Inr (w', s')" by (auto split: sum.splits prod.splits)
  have "sys_ok {#w1#} s1" by (rule step_ok [OF Suc.prems(2) r(1)])
  moreover have "work {#w1#} s1 = work {#w#} s" using worker_step_work [of w "{#}" s w1 s1] Suc.prems(2) r(1) by simp
  ultimately show ?case using Suc.IH [OF r(2)] by simp
qed simp

subsection \<open>Properties\<close>


definition empty_scheduler :: scheduler where
  "empty_scheduler = \<lparr>sh = \<lparr>s_fiber_id = 0, s_fiber_count = 0, fheap = (\<lambda>_. undefined), fnext = 0\<rparr>, m_fibers = [],
     m_activeThreadCount = 0, m_idleThreadCount = 0, m_stopping = False, m_autoStop = False, m_rootThread = - 1,
     m_threadCount = 1, m_threads = 0, m_threadIds = [], m_rootFiber = None, emitted = []\<rparr>"

definition no_tls :: tls where
  "no_tls = \<lparr>t_fiber = None, t_threadFiber = None, t_scheduler_fiber = None\<rparr>"

lemma reach_empty: "sys_reachable {#} ({#}, empty_scheduler)"
  by (rule sys_reachable.init) (simp_all add: empty_scheduler_def fresh_heap_def)

lemma reach_one_worker:
  "sys_reachable {#} ({#fst (run_enter 7 no_tls empty_scheduler)#}, snd (run_enter 7 no_tls empty_scheduler))"
  using sys_reachable.step [OF reach_empty sys_step.enter [of 7 no_tls empty_scheduler "fst (run_enter 7 no_tls empty_scheduler)"]]
  by (simp add: empty_scheduler_def)






text \<open>
  The search under the lock takes the first task of the list that is not pinned to another thread and whose
  fiber is not executing, and leaves the order of the others as it was; when there is none it takes nothing.
\<close>

lemma find_task_first_eligible:
  assumes "\<forall>ft \<in> set ts. ft_fiber ft \<noteq> None \<or> ft_cb ft \<noteq> None"
  shows "find_task tid h ts =
    Inr (case dropWhile (\<lambda>ft. \<not> eligible tid h ft) ts of [] \<Rightarrow> None
         | ft # post \<Rightarrow> Some (ft, takeWhile (\<lambda>ft. \<not> eligible tid h ft) ts @ post))"
  using assms by (rule find_task_eq)

text \<open>
  C11. \<open>run\<close> terminates after a stop request: a worker that is alone with tasks that are pinned to no thread
  runs all of them, leaves an empty task list and exits its loop after finitely many steps, and every action
  it found was done or is left in a fiber on hold.
\<close>

theorem run_terminates:
  assumes "sys_ok {#w#} s" and "w_pc w = At_pick" and "m_autoStop s" and "m_stopping s" and "\<forall>ft \<in> set (m_fibers s). task_free (fheap (sh s)) ft"
  shows "\<exists>n w' s'. run_steps n w s = Inr (w', s') \<and> w_pc w' = Exited \<and> m_fibers s' = [] \<and> m_activeThreadCount s' = 0
    \<and> mset (emitted s') + heap_pending (sh s') = mset (emitted s) + heap_pending (sh s) + queue_pending (m_fibers s)"
proof -
  obtain n w' s' where n: "run_steps n w s = Inr (w', s')" "w_pc w' = Exited" "m_fibers s' = []" "m_activeThreadCount s' = 0"
    using run_ends [OF assms] by blast
  have "work {#w'#} s' = work {#w#} s" using run_steps_ok [OF n(1) assms(1)] by simp
  then have "mset (emitted s') + heap_pending (sh s') = mset (emitted s) + heap_pending (sh s) + queue_pending (m_fibers s)"
    using n(2,3) assms(2) by (simp add: work_def worker_pending_def)
  then show ?thesis using n by blast
qed

theorem run_terminates_witness:
  "\<exists>n w' s'. run_steps n (fst (run_enter 7 no_tls empty_scheduler))
      ((schedule (FiberAndThread_cb (Some (Emit 5 Return)) (- 1)) (snd (run_enter 7 no_tls empty_scheduler)))\<lparr>m_autoStop := True, m_stopping := True\<rparr>)
    = Inr (w', s') \<and> w_pc w' = Exited \<and> mset (emitted s') + heap_pending (sh s') = {#5#}"
proof -
  let ?w = "fst (run_enter 7 no_tls empty_scheduler)"
  let ?s1 = "schedule (FiberAndThread_cb (Some (Emit 5 Return)) (- 1)) (snd (run_enter 7 no_tls empty_scheduler))"
  let ?s = "?s1\<lparr>m_autoStop := True, m_stopping := True\<rparr>"
  have "sys_reachable ({#} + script_emits (Emit 5 Return)) ({#?w#}, ?s1)"
    by (rule sys_reachable.step [OF reach_one_worker sys_step.schedule_cb])
  from sys_reachable.step [OF this sys_step.stop] have r: "sys_reachable {#5#} ({#?w#}, ?s)" by simp
  have e: "w_pc ?w = At_pick" "m_fibers (snd (run_enter 7 no_tls empty_scheduler)) = []"
    using run_enter_eq(4,9) [of 7 no_tls empty_scheduler ?w "snd (run_enter 7 no_tls empty_scheduler)"] by (simp_all add: empty_scheduler_def)
  have free: "\<forall>ft \<in> set (m_fibers ?s). task_free (fheap (sh ?s)) ft"
    using e(2) by (simp add: task_free_def task_script_def opt_unpinned_def) (simp add: FiberAndThread_cb_def)
  have "work {#?w#} ?s = {#5#}" using sys_reachable_work [OF r] by simp
  then have "mset (emitted ?s) + heap_pending (sh ?s) + queue_pending (m_fibers ?s) = {#5#}"
    using e(1) by (simp add: work_def worker_pending_def)
  with run_terminates [of ?w ?s, OF _ e(1) _ _ free] sys_reachable_ok [OF r] show ?thesis by fastforce
qed

text \<open>
  The guard of the fiber branch, \<open>state != TERM || state != EXCEPT\<close>, holds for every fiber: scheduling a
  fiber that has finished makes the worker resume a context that has returned, and its thread ends.
\<close>

lemma finished_fiber_ends_thread:
  assumes "f_ctx (fheap (sh s) p) = Returned" and "f_state (fheap (sh s) p) = TERM_S \<or> f_state (fheap (sh s) p) = EXCEPT"
    and "t_scheduler_fiber (w_loc w) = Some m" and "ft_fiber ft = Some p"
  shows "run_body ft True w s = Inl Thread_exits"
proof -
  have "swapIn p (sh s, w_loc w) = (Inl Thread_exits, (set_fiber p ((fheap (sh s) p)\<lparr>f_state := EXEC\<rparr>) (sh s), SetThis (Some p) (w_loc w)))"
    using assms by (auto simp: swapIn_def resume_def SetThis_def Let_def)
  then show ?thesis using assms(4) by (simp add: run_body_def run_fiber_def worker_swapIn_def)
qed

end
