(* ===== verification/Mutex.thy ===== *)
theory Mutex
  imports Prelude
begin

text \<open>
  Locks (\<open>sylar/mutex.h\<close>, \<open>sylar/mutex.cpp\<close>): the classes \<open>Mutex\<close>, \<open>Spinlock\<close>, \<open>CASLock\<close>, \<open>RWMutex\<close> and \<open>NullMutex\<close>, the three guard templates, and the semaphore.
  The POSIX objects are modelled by who holds them. An operation gets the calling thread; the result \<open>None\<close> says that the call does not return in this state
  (the thread waits), an error \<open>Inl\<close> that the behaviour of the call is undefined. A system of threads, each with at most one guard of a lock at a time, interleaves
  calls of the guards; what a lock promises is a locale, interpreted for four of the classes.
\<close>

datatype lock_error = Undefined_unlock | Sem_init_error | Sem_post_error

section \<open>The objects of the system\<close>

type_synonym pthread_mutex = "nat option"

definition pthread_mutex_lock :: "nat \<Rightarrow> pthread_mutex \<Rightarrow> pthread_mutex option" where
  "pthread_mutex_lock t m = (if m = None then Some (Some t) else None)"

definition pthread_mutex_unlock :: "nat \<Rightarrow> pthread_mutex \<Rightarrow> lock_error + pthread_mutex" where
  "pthread_mutex_unlock t m = (if m = Some t then Inr None else Inl Undefined_unlock)"

record pthread_rwlock =
  rw_readers :: "nat list"
  rw_writer :: "nat option"

definition pthread_rwlock_rdlock :: "nat \<Rightarrow> pthread_rwlock \<Rightarrow> pthread_rwlock option" where
  "pthread_rwlock_rdlock t s = (if rw_writer s = None then Some (s\<lparr>rw_readers := t # rw_readers s\<rparr>) else None)"

definition pthread_rwlock_wrlock :: "nat \<Rightarrow> pthread_rwlock \<Rightarrow> pthread_rwlock option" where
  "pthread_rwlock_wrlock t s = (if rw_writer s = None \<and> rw_readers s = [] then Some (s\<lparr>rw_writer := Some t\<rparr>) else None)"

definition pthread_rwlock_unlock :: "nat \<Rightarrow> pthread_rwlock \<Rightarrow> lock_error + pthread_rwlock" where
  "pthread_rwlock_unlock t s =
     (if rw_writer s = Some t then Inr (s\<lparr>rw_writer := None\<rparr>)
      else if t \<in> set (rw_readers s) then Inr (s\<lparr>rw_readers := remove1 t (rw_readers s)\<rparr>)
      else Inl Undefined_unlock)"

text \<open>\<open>std::atomic_flag\<close>: the old value and the flag afterwards.\<close>

definition test_and_set :: "bool \<Rightarrow> bool \<times> bool" where
  "test_and_set flag = (flag, True)"

section \<open>The lock classes\<close>

record 's mutex_class =
  mt_new :: 's
  mt_lock :: "nat \<Rightarrow> 's \<Rightarrow> 's option"
  mt_unlock :: "nat \<Rightarrow> 's \<Rightarrow> lock_error + 's"

record 's rwmutex_class =
  rt_new :: 's
  rt_rdlock :: "nat \<Rightarrow> 's \<Rightarrow> 's option"
  rt_wrlock :: "nat \<Rightarrow> 's \<Rightarrow> 's option"
  rt_unlock :: "nat \<Rightarrow> 's \<Rightarrow> lock_error + 's"

definition Mutex :: "pthread_mutex mutex_class" where
  "Mutex = \<lparr>mt_new = None, mt_lock = pthread_mutex_lock, mt_unlock = pthread_mutex_unlock\<rparr>"

definition NullMutex :: "unit mutex_class" where
  "NullMutex = \<lparr>mt_new = (), mt_lock = (\<lambda>t s. Some s), mt_unlock = (\<lambda>t s. Inr s)\<rparr>"

definition NullRWMutex :: "unit mutex_class" where
  "NullRWMutex = \<lparr>mt_new = (), mt_lock = (\<lambda>t s. Some s), mt_unlock = (\<lambda>t s. Inr s)\<rparr>"

definition RWMutex :: "pthread_rwlock rwmutex_class" where
  "RWMutex = \<lparr>rt_new = \<lparr>rw_readers = [], rw_writer = None\<rparr>, rt_rdlock = pthread_rwlock_rdlock, rt_wrlock = pthread_rwlock_wrlock,
     rt_unlock = pthread_rwlock_unlock\<rparr>"

text \<open>A spin lock has the holder of a mutex; its calls spin instead of sleeping.\<close>

definition Spinlock :: "pthread_mutex mutex_class" where
  "Spinlock = \<lparr>mt_new = None, mt_lock = pthread_mutex_lock, mt_unlock = pthread_mutex_unlock\<rparr>"

text \<open>
  The loop of \<open>CASLock::lock\<close>, with the values that other threads leave in the flag between two rounds; it returns in the first round that finds the flag
  clear. The class lists the call that is a single round: a round that finds the flag set changes nothing.
\<close>

fun CASLock_lock :: "bool list \<Rightarrow> bool option" where
  "CASLock_lock [] = None"
| "CASLock_lock (flag # later) = (case test_and_set flag of (old, flag') \<Rightarrow> if old then CASLock_lock later else Some flag')"

definition CASLock_unlock :: "bool \<Rightarrow> bool" where
  "CASLock_unlock flag = False"

definition CASLock :: "bool mutex_class" where
  "CASLock = \<lparr>mt_new = False, mt_lock = (\<lambda>t flag. CASLock_lock [flag]), mt_unlock = (\<lambda>t flag. Inr (CASLock_unlock flag))\<rparr>"

lemma CASLock_lock_iff: "CASLock_lock flags = Some f \<longleftrightarrow> f \<and> False \<in> set flags"
  by (induction flags) (auto simp: test_and_set_def)

section \<open>The guards\<close>

record scoped_lock =
  m_locked :: bool

record 's guard_class =
  gc_ctor :: "nat \<Rightarrow> 's \<Rightarrow> (scoped_lock \<times> 's) option"
  gc_lock :: "nat \<Rightarrow> scoped_lock \<Rightarrow> 's \<Rightarrow> (scoped_lock \<times> 's) option"
  gc_unlock :: "nat \<Rightarrow> scoped_lock \<Rightarrow> 's \<Rightarrow> lock_error + scoped_lock \<times> 's"

text \<open>The three templates differ in the member of the lock that they call. The destructor is \<open>unlock\<close>.\<close>

definition scoped_impl :: "(nat \<Rightarrow> 's \<Rightarrow> 's option) \<Rightarrow> (nat \<Rightarrow> 's \<Rightarrow> lock_error + 's) \<Rightarrow> 's guard_class" where
  "scoped_impl acquire release =
     \<lparr>gc_ctor = (\<lambda>t s. case acquire t s of None \<Rightarrow> None | Some s' \<Rightarrow> Some (\<lparr>m_locked = True\<rparr>, s')),
      gc_lock = (\<lambda>t g s. if \<not> m_locked g then (case acquire t s of None \<Rightarrow> None | Some s' \<Rightarrow> Some (g\<lparr>m_locked := True\<rparr>, s')) else Some (g, s)),
      gc_unlock = (\<lambda>t g s. if m_locked g then (case release t s of Inl e \<Rightarrow> Inl e | Inr s' \<Rightarrow> Inr (g\<lparr>m_locked := False\<rparr>, s')) else Inr (g, s))\<rparr>"

definition ScopedLockImpl :: "'s mutex_class \<Rightarrow> 's guard_class" where
  "ScopedLockImpl T = scoped_impl (mt_lock T) (mt_unlock T)"

definition ReadScopedLockImpl :: "'s rwmutex_class \<Rightarrow> 's guard_class" where
  "ReadScopedLockImpl T = scoped_impl (rt_rdlock T) (rt_unlock T)"

definition WriteScopedLockImpl :: "'s rwmutex_class \<Rightarrow> 's guard_class" where
  "WriteScopedLockImpl T = scoped_impl (rt_wrlock T) (rt_unlock T)"

text \<open>The guard types that a lock class names: \<open>Lock\<close>, or \<open>ReadLock\<close> and \<open>WriteLock\<close>.\<close>

datatype lock_kind = Scoped | Read | Write

definition locks_of :: "'s mutex_class \<Rightarrow> lock_kind \<Rightarrow> 's guard_class option" where
  "locks_of T k = (case k of Scoped \<Rightarrow> Some (ScopedLockImpl T) | _ \<Rightarrow> None)"

definition rwlocks_of :: "'s rwmutex_class \<Rightarrow> lock_kind \<Rightarrow> 's guard_class option" where
  "rwlocks_of T k = (case k of Scoped \<Rightarrow> None | Read \<Rightarrow> Some (ReadScopedLockImpl T) | Write \<Rightarrow> Some (WriteScopedLockImpl T))"

section \<open>Threads with guards\<close>

record 's locked_system =
  ls_mutex :: 's
  ls_guards :: "nat \<Rightarrow> (lock_kind \<times> scoped_lock) option"

definition new_system :: "'s \<Rightarrow> 's locked_system" where
  "new_system s = \<lparr>ls_mutex = s, ls_guards = (\<lambda>_. None)\<rparr>"

datatype guard_call = Construct lock_kind | Lock | Unlock | Destroy

definition put_guard :: "nat \<Rightarrow> (lock_kind \<times> scoped_lock) option \<Rightarrow> 's \<Rightarrow> 's locked_system \<Rightarrow> 's locked_system" where
  "put_guard t g s st = st\<lparr>ls_mutex := s, ls_guards := (ls_guards st)(t := g)\<rparr>"

text \<open>A call of a thread: \<open>None\<close> if it waits, or has no guard to call; a result otherwise.\<close>

definition guard_do :: "(lock_kind \<Rightarrow> 's guard_class option) \<Rightarrow> nat \<Rightarrow> guard_call \<Rightarrow> 's locked_system \<Rightarrow> (lock_error + 's locked_system) option" where
  "guard_do cls t c st =
     (case ls_guards st t of
        None \<Rightarrow> (case c of
            Construct k \<Rightarrow> (case cls k of None \<Rightarrow> None
              | Some C \<Rightarrow> (case gc_ctor C t (ls_mutex st) of None \<Rightarrow> None | Some (g, s) \<Rightarrow> Some (Inr (put_guard t (Some (k, g)) s st))))
          | _ \<Rightarrow> None)
      | Some (k, g) \<Rightarrow> (case cls k of None \<Rightarrow> None
          | Some C \<Rightarrow> (case c of
              Construct _ \<Rightarrow> None
            | Lock \<Rightarrow> (case gc_lock C t g (ls_mutex st) of None \<Rightarrow> None | Some (g', s) \<Rightarrow> Some (Inr (put_guard t (Some (k, g')) s st)))
            | Unlock \<Rightarrow> (case gc_unlock C t g (ls_mutex st) of Inl e \<Rightarrow> Some (Inl e) | Inr (g', s) \<Rightarrow> Some (Inr (put_guard t (Some (k, g')) s st)))
            | Destroy \<Rightarrow> (case gc_unlock C t g (ls_mutex st) of Inl e \<Rightarrow> Some (Inl e) | Inr (g', s) \<Rightarrow> Some (Inr (put_guard t None s st))))))"

inductive guard_reachable :: "(lock_kind \<Rightarrow> 's guard_class option) \<Rightarrow> 's \<Rightarrow> 's locked_system \<Rightarrow> bool" for cls s0 where
  init: "guard_reachable cls s0 (new_system s0)"
| step: "guard_reachable cls s0 st \<Longrightarrow> guard_do cls t c st = Some (Inr st') \<Longrightarrow> guard_reachable cls s0 st'"

text \<open>Who is inside, and how; readers may be inside together.\<close>

definition holders :: "'s locked_system \<Rightarrow> nat \<Rightarrow> lock_kind option" where
  "holders st t = (case ls_guards st t of None \<Rightarrow> None | Some (k, g) \<Rightarrow> if m_locked g then Some k else None)"

definition exclusive :: "(nat \<Rightarrow> lock_kind option) \<Rightarrow> bool" where
  "exclusive H \<longleftrightarrow> (\<forall>t u. t \<noteq> u \<longrightarrow> H t = None \<or> H u = None \<or> (H t = Some Read \<and> H u = Some Read))"

definition compatible :: "lock_kind \<Rightarrow> (nat \<Rightarrow> lock_kind option) \<Rightarrow> bool" where
  "compatible k H \<longleftrightarrow> (\<forall>u. H u = None \<or> (k = Read \<and> H u = Some Read))"

text \<open>
  The promise of the guards: mutual exclusion; no call has undefined behaviour; \<open>unlock\<close> and the destructor never wait; a guard is constructed at once when nobody is inside.
\<close>

definition guards_safe :: "(lock_kind \<Rightarrow> 's guard_class option) \<Rightarrow> 's locked_system \<Rightarrow> bool" where
  "guards_safe cls st \<longleftrightarrow> exclusive (holders st) \<and> (\<forall>t c e. guard_do cls t c st \<noteq> Some (Inl e))
    \<and> (\<forall>t. ls_guards st t \<noteq> None \<longrightarrow> (\<exists>st1 st2. guard_do cls t Unlock st = Some (Inr st1) \<and> holders st1 = (holders st)(t := None)
         \<and> guard_do cls t Destroy st = Some (Inr st2) \<and> holders st2 = (holders st)(t := None) \<and> ls_guards st2 t = None))
    \<and> (\<forall>t k. ls_guards st t = None \<and> cls k \<noteq> None \<and> holders st = Map.empty \<longrightarrow>
         (\<exists>st'. guard_do cls t (Construct k) st = Some (Inr st') \<and> holders st' = [t \<mapsto> k]))"

lemma holders_put: "holders (put_guard t g s st) = (holders st)(t := (case g of None \<Rightarrow> None | Some (k, l) \<Rightarrow> if m_locked l then Some k else None))"
  by (auto simp: holders_def put_guard_def fun_eq_iff)

lemma put_guard_sel [simp]: "ls_mutex (put_guard t g s st) = s" "ls_guards (put_guard t g s st) = (ls_guards st)(t := g)"
  by (simp_all add: put_guard_def)

lemma exclusive_del: "exclusive H \<Longrightarrow> exclusive (H(t := None))"
  by (simp add: exclusive_def)

lemma exclusive_add:
  assumes "exclusive H" and "compatible k H"
  shows "exclusive (H(t \<mapsto> k))"
  unfolding exclusive_def
proof (intro allI impI)
  fix u v :: nat assume "u \<noteq> v"
  moreover have "H u = None \<or> k = Read \<and> H u = Some Read" "H v = None \<or> k = Read \<and> H v = Some Read"
    using assms(2) by (simp_all add: compatible_def)
  ultimately show "(H(t \<mapsto> k)) u = None \<or> (H(t \<mapsto> k)) v = None \<or> (H(t \<mapsto> k)) u = Some Read \<and> (H(t \<mapsto> k)) v = Some Read"
    by (cases "u = t"; cases "v = t") auto
qed

section \<open>What a lock promises\<close>

locale scoped_mutex =
  fixes acquire :: "lock_kind \<Rightarrow> (nat \<Rightarrow> 's \<Rightarrow> 's option) option" and release :: "nat \<Rightarrow> 's \<Rightarrow> lock_error + 's"
    and holds :: "'s \<Rightarrow> (nat \<Rightarrow> lock_kind option) \<Rightarrow> bool" and fresh :: 's
  assumes fresh: "holds fresh Map.empty"
    and acquires: "acquire k = Some a \<Longrightarrow> holds s H \<Longrightarrow> H t = None \<Longrightarrow> a t s = Some s' \<Longrightarrow> compatible k H \<and> holds s' (H(t \<mapsto> k))"
    and available: "acquire k = Some a \<Longrightarrow> holds s Map.empty \<Longrightarrow> \<exists>s'. a t s = Some s'"
    and releases: "holds s H \<Longrightarrow> H t \<noteq> None \<Longrightarrow> \<exists>s'. release t s = Inr s' \<and> holds s' (H(t := None))"
begin

definition classes :: "lock_kind \<Rightarrow> 's guard_class option" where
  "classes k = map_option (\<lambda>a. scoped_impl a release) (acquire k)"

definition inv :: "'s locked_system \<Rightarrow> bool" where
  "inv st \<longleftrightarrow> holds (ls_mutex st) (holders st) \<and> exclusive (holders st) \<and> (\<forall>t k g. ls_guards st t = Some (k, g) \<longrightarrow> acquire k \<noteq> None)"

lemma release_step:
  assumes "inv st" and "ls_guards st t = Some (k, g)"
  obtains C g' s where "classes k = Some C" and "gc_unlock C t g (ls_mutex st) = Inr (g', s)" and "\<not> m_locked g'" and "holds s ((holders st)(t := None))"
proof -
  obtain a where a: "acquire k = Some a" using assms by (auto simp: inv_def)
  show ?thesis
  proof (cases "m_locked g")
    case True
    then have "holders st t \<noteq> None" using assms(2) by (simp add: holders_def)
    then obtain s' where "release t (ls_mutex st) = Inr s'" "holds s' ((holders st)(t := None))" using releases [of "ls_mutex st" "holders st" t] assms(1) by (auto simp: inv_def)
    then show ?thesis using that [of "scoped_impl a release" "g\<lparr>m_locked := False\<rparr>" s'] a True by (simp add: classes_def scoped_impl_def)
  next
    case False
    then have "(holders st)(t := None) = holders st" using assms(2) by (auto simp: holders_def fun_eq_iff)
    then show ?thesis using that [of "scoped_impl a release" g "ls_mutex st"] a False assms(1) by (simp add: classes_def scoped_impl_def inv_def)
  qed
qed

lemma inv_new: "inv (new_system fresh)"
proof -
  have "holders (new_system fresh) = Map.empty" by (simp add: holders_def new_system_def fun_eq_iff)
  then show ?thesis using fresh by (simp add: inv_def exclusive_def new_system_def)
qed

lemma inv_acquire:
  assumes "inv st" and "acquire k = Some a" and "holders st t = None" and "a t (ls_mutex st) = Some s" and "m_locked g"
  shows "inv (put_guard t (Some (k, g)) s st)"
  using assms acquires [of k a "ls_mutex st" "holders st" t s] by (auto simp: inv_def holders_put exclusive_add exclusive_del)

lemma inv_step:
  assumes "inv st" and "guard_do classes t c st = Some (Inr st')"
  shows "inv st'"
proof (cases "ls_guards st t")
  case None
  then have "holders st t = None" by (simp add: holders_def)
  with None assms show ?thesis
    by (auto simp: guard_do_def classes_def scoped_impl_def split: guard_call.splits option.splits intro: inv_acquire)
next
  case (Some kg)
  obtain k g where kg: "ls_guards st t = Some (k, g)" using Some by (cases kg) auto
  obtain C g' s where C: "classes k = Some C" and u: "gc_unlock C t g (ls_mutex st) = Inr (g', s)" "\<not> m_locked g'" "holds s ((holders st)(t := None))"
    using release_step [OF assms(1) kg] .
  obtain a where a: "acquire k = Some a" using C by (auto simp: classes_def)
  have released: "inv (put_guard t None s st)" "inv (put_guard t (Some (k, g')) s st)"
    using assms(1) u a by (auto simp: inv_def holders_put exclusive_add exclusive_del)
  show ?thesis
  proof (cases "c = Lock")
    case False
    then show ?thesis using assms(2) kg C u(1) released by (auto simp: guard_do_def split: guard_call.splits)
  next
    case True
    show ?thesis
    proof (cases "m_locked g")
      case l: True
      have "put_guard t (Some (k, g)) (ls_mutex st) st = st" using kg by (simp add: put_guard_def fun_upd_idem)
      then show ?thesis using assms kg True l a by (auto simp: guard_do_def classes_def scoped_impl_def)
    next
      case l: False
      then have "holders st t = None" using kg by (simp add: holders_def)
      then show ?thesis using assms kg True l a by (auto simp: guard_do_def classes_def scoped_impl_def split: option.splits intro: inv_acquire)
    qed
  qed
qed

lemma reachable_inv: "guard_reachable classes fresh st \<Longrightarrow> inv st"
  by (induction rule: guard_reachable.induct) (auto intro: inv_new inv_step)

lemma no_undefined:
  assumes "inv st"
  shows "guard_do classes t c st \<noteq> Some (Inl e)"
proof (cases "ls_guards st t")
  case None
  then show ?thesis by (simp add: guard_do_def split: guard_call.splits option.splits)
next
  case (Some kg)
  obtain k g where kg: "ls_guards st t = Some (k, g)" using Some by (cases kg) auto
  show ?thesis by (rule release_step [OF assms kg]) (auto simp: guard_do_def kg split: guard_call.splits option.splits)
qed

lemma release_enabled:
  assumes "inv st" and "ls_guards st t \<noteq> None"
  shows "\<exists>st1 st2. guard_do classes t Unlock st = Some (Inr st1) \<and> holders st1 = (holders st)(t := None)
         \<and> guard_do classes t Destroy st = Some (Inr st2) \<and> holders st2 = (holders st)(t := None) \<and> ls_guards st2 t = None"
proof -
  obtain k g where kg: "ls_guards st t = Some (k, g)" using assms(2) by auto
  show ?thesis by (rule release_step [OF assms(1) kg]) (simp add: guard_do_def kg holders_put)
qed

lemma construct_enabled:
  assumes "inv st" and "ls_guards st t = None" and "classes k \<noteq> None" and free: "holders st = Map.empty"
  shows "\<exists>st'. guard_do classes t (Construct k) st = Some (Inr st') \<and> holders st' = [t \<mapsto> k]"
proof -
  obtain a where a: "acquire k = Some a" using assms(3) by (auto simp: classes_def)
  obtain s where "a t (ls_mutex st) = Some s" using available [OF a, of "ls_mutex st" t] assms(1) free by (auto simp: inv_def)
  then show ?thesis using a assms(2) free by (simp add: guard_do_def classes_def scoped_impl_def holders_put)
qed

lemma reachable_safe:
  assumes "guard_reachable classes fresh st"
  shows "guards_safe classes st"
  unfolding guards_safe_def
  using reachable_inv [OF assms] no_undefined release_enabled construct_enabled by (auto simp: inv_def)

end

section \<open>The lock classes keep the promise\<close>

text \<open>A mutex knows its holder, a flag only that there is one, a reader-writer lock all.\<close>

definition mutex_holds :: "pthread_mutex \<Rightarrow> (nat \<Rightarrow> lock_kind option) \<Rightarrow> bool" where
  "mutex_holds m H = (case m of None \<Rightarrow> H = Map.empty | Some t \<Rightarrow> (\<exists>k. H = [t \<mapsto> k]))"

definition flag_holds :: "bool \<Rightarrow> (nat \<Rightarrow> lock_kind option) \<Rightarrow> bool" where
  "flag_holds flag H = (if flag then \<exists>t k. H = [t \<mapsto> k] else H = Map.empty)"

definition rw_holds :: "pthread_rwlock \<Rightarrow> (nat \<Rightarrow> lock_kind option) \<Rightarrow> bool" where
  "rw_holds s H \<longleftrightarrow> distinct (rw_readers s) \<and> (rw_writer s \<noteq> None \<longrightarrow> rw_readers s = [])
    \<and> (\<forall>t. H t = (if rw_writer s = Some t then Some Write else if t \<in> set (rw_readers s) then Some Read else None))"

definition only_scoped :: "(nat \<Rightarrow> 's \<Rightarrow> 's option) \<Rightarrow> lock_kind \<Rightarrow> (nat \<Rightarrow> 's \<Rightarrow> 's option) option" where
  "only_scoped a k = (case k of Scoped \<Rightarrow> Some a | _ \<Rightarrow> None)"

definition read_write :: "(nat \<Rightarrow> 's \<Rightarrow> 's option) \<Rightarrow> (nat \<Rightarrow> 's \<Rightarrow> 's option) \<Rightarrow> lock_kind \<Rightarrow> (nat \<Rightarrow> 's \<Rightarrow> 's option) option" where
  "read_write r w k = (case k of Scoped \<Rightarrow> None | Read \<Rightarrow> Some r | Write \<Rightarrow> Some w)"

lemma empty_neq_single [simp]: "(\<lambda>x. None) \<noteq> [t \<mapsto> k]" "[t \<mapsto> k] \<noteq> (\<lambda>x. None)"
  by (auto simp: fun_eq_iff)

interpretation mx: scoped_mutex "only_scoped (mt_lock Mutex)" "mt_unlock Mutex" mutex_holds "mt_new Mutex"
  by unfold_locales
    (auto simp: only_scoped_def Mutex_def mutex_holds_def pthread_mutex_lock_def pthread_mutex_unlock_def compatible_def split: lock_kind.splits option.splits if_splits)

interpretation sp: scoped_mutex "only_scoped (mt_lock Spinlock)" "mt_unlock Spinlock" mutex_holds "mt_new Spinlock"
  by unfold_locales
    (auto simp: only_scoped_def Spinlock_def mutex_holds_def pthread_mutex_lock_def pthread_mutex_unlock_def compatible_def split: lock_kind.splits option.splits if_splits)

interpretation cs: scoped_mutex "only_scoped (mt_lock CASLock)" "mt_unlock CASLock" flag_holds "mt_new CASLock"
proof unfold_locales
  show "flag_holds (mt_new CASLock) Map.empty" by (simp add: flag_holds_def CASLock_def)
next
  fix k a s H t s'
  assume "only_scoped (mt_lock CASLock) k = Some a" "flag_holds s H" "H t = None" "a t s = Some s'"
  then have "\<not> s" "s'" "H = Map.empty" by (auto simp: only_scoped_def CASLock_def CASLock_lock_iff flag_holds_def simp del: CASLock_lock.simps split: lock_kind.splits)
  then show "compatible k H \<and> flag_holds s' (H(t \<mapsto> k))" unfolding flag_holds_def compatible_def by simp blast
next
  fix k a s and t :: nat
  assume "only_scoped (mt_lock CASLock) k = Some a" "flag_holds s Map.empty"
  then show "\<exists>s'. a t s = Some s'" by (auto simp: only_scoped_def CASLock_def test_and_set_def flag_holds_def split: lock_kind.splits if_splits)
next
  fix s H and t :: nat
  assume h: "flag_holds s H" "H t \<noteq> None"
  then obtain u k where "H = [u \<mapsto> k]" unfolding flag_holds_def by (cases s) auto
  then have "H(t := None) = Map.empty" using h(2) by (auto split: if_splits)
  then show "\<exists>s'. mt_unlock CASLock t s = Inr s' \<and> flag_holds s' (H(t := None))"
    by (intro exI [of _ False]) (simp add: CASLock_def CASLock_unlock_def flag_holds_def)
qed

interpretation rw: scoped_mutex "read_write (rt_rdlock RWMutex) (rt_wrlock RWMutex)" "rt_unlock RWMutex" rw_holds "rt_new RWMutex"
proof unfold_locales
  show "rw_holds (rt_new RWMutex) Map.empty" by (simp add: rw_holds_def RWMutex_def)
next
  fix k a s H t s'
  assume "read_write (rt_rdlock RWMutex) (rt_wrlock RWMutex) k = Some a" "rw_holds s H" "H t = None" "a t s = Some s'"
  then show "compatible k H \<and> rw_holds s' (H(t \<mapsto> k))"
    by (cases k) (auto simp: read_write_def RWMutex_def pthread_rwlock_rdlock_def pthread_rwlock_wrlock_def rw_holds_def compatible_def split: if_splits)
next
  fix k a s and t :: nat
  assume k: "read_write (rt_rdlock RWMutex) (rt_wrlock RWMutex) k = Some a" and h: "rw_holds s Map.empty"
  have "rw_writer s = None" "rw_readers s = []"
  proof -
    have n: "rw_writer s \<noteq> Some t \<and> t \<notin> set (rw_readers s)" for t using h by (auto simp: rw_holds_def dest: spec [of _ t] split: if_splits)
    show "rw_writer s = None" using n by (cases "rw_writer s") auto
    show "rw_readers s = []" using n by (cases "rw_readers s") auto
  qed
  then show "\<exists>s'. a t s = Some s'" using k
    by (cases k) (auto simp: read_write_def RWMutex_def pthread_rwlock_rdlock_def pthread_rwlock_wrlock_def)
next
  fix s H and t :: nat
  assume "rw_holds s H" "H t \<noteq> None"
  then show "\<exists>s'. rt_unlock RWMutex t s = Inr s' \<and> rw_holds s' (H(t := None))"
    by (auto simp: RWMutex_def pthread_rwlock_unlock_def rw_holds_def split: if_splits)
qed

lemma locks_of_classes:
  "locks_of Mutex = mx.classes" "locks_of Spinlock = sp.classes" "locks_of CASLock = cs.classes" "rwlocks_of RWMutex = rw.classes"
  by (auto simp: fun_eq_iff locks_of_def rwlocks_of_def only_scoped_def read_write_def ScopedLockImpl_def ReadScopedLockImpl_def WriteScopedLockImpl_def
    mx.classes_def sp.classes_def cs.classes_def rw.classes_def split: lock_kind.splits)

text \<open>
  C20. The locks of the framework. Whatever threads do with their guards (construct, lock, unlock, destroy, in any order and interleaving), for \<open>Mutex\<close>, \<open>Spinlock\<close> and
  \<open>CASLock\<close> at most one thread is inside, for \<open>RWMutex\<close> one writer or only readers; no unlock has undefined behaviour, unlocking never waits, the
  destructor leaves the lock however the guard was used, and a free lock is taken at once.
\<close>

theorem scoped_locks_safe:
  "(\<forall>st. guard_reachable (locks_of Mutex) (mt_new Mutex) st \<longrightarrow> guards_safe (locks_of Mutex) st)
    \<and> (\<forall>st. guard_reachable (locks_of Spinlock) (mt_new Spinlock) st \<longrightarrow> guards_safe (locks_of Spinlock) st)
    \<and> (\<forall>st. guard_reachable (locks_of CASLock) (mt_new CASLock) st \<longrightarrow> guards_safe (locks_of CASLock) st)
    \<and> (\<forall>st. guard_reachable (rwlocks_of RWMutex) (rt_new RWMutex) st \<longrightarrow> guards_safe (rwlocks_of RWMutex) st)"
  unfolding locks_of_classes using mx.reachable_safe sp.reachable_safe cs.reachable_safe rw.reachable_safe by blast

text \<open>Two readers are inside, and a writer waits.\<close>

definition two_readers :: "pthread_rwlock locked_system" where
  "two_readers = (let r = Some (Read, \<lparr>m_locked = True\<rparr>) in
     put_guard 2 r \<lparr>rw_readers = [2, 1], rw_writer = None\<rparr> (put_guard 1 r \<lparr>rw_readers = [1], rw_writer = None\<rparr> (new_system (rt_new RWMutex))))"

theorem scoped_locks_safe_witness:
  "guards_safe (rwlocks_of RWMutex) two_readers \<and> holders two_readers 1 = Some Read \<and> holders two_readers 2 = Some Read
    \<and> guard_do (rwlocks_of RWMutex) 3 (Construct Write) two_readers = None"
proof -
  let ?r = "Some (Read, \<lparr>m_locked = True\<rparr>)" let ?st0 = "new_system (rt_new RWMutex)"
  let ?st1 = "put_guard 1 ?r \<lparr>rw_readers = [1], rw_writer = None\<rparr> ?st0"
  note defs = guard_do_def rwlocks_of_def ReadScopedLockImpl_def WriteScopedLockImpl_def scoped_impl_def RWMutex_def new_system_def pthread_rwlock_rdlock_def
    pthread_rwlock_wrlock_def two_readers_def Let_def
  have d: "guard_do (rwlocks_of RWMutex) 1 (Construct Read) ?st0 = Some (Inr ?st1)"
      "guard_do (rwlocks_of RWMutex) 2 (Construct Read) ?st1 = Some (Inr two_readers)"
    by (simp_all add: defs)
  have "guard_reachable (rwlocks_of RWMutex) (rt_new RWMutex) two_readers"
    by (rule guard_reachable.step [OF guard_reachable.step [OF guard_reachable.init d(1)] d(2)])
  then have "guards_safe (rwlocks_of RWMutex) two_readers" using scoped_locks_safe by blast
  then show ?thesis by (simp add: holders_put two_readers_def Let_def) (simp add: defs)
qed

text \<open>The null lock excludes nobody.\<close>

lemma null_mutex_admits_all: "\<exists>st. guard_reachable (locks_of NullMutex) (mt_new NullMutex) st \<and> holders st 1 = Some Scoped \<and> holders st 2 = Some Scoped"
proof -
  let ?g = "Some (Scoped, \<lparr>m_locked = True\<rparr>)"
  let ?st1 = "put_guard 1 ?g () (new_system ())" let ?st2 = "put_guard 2 ?g () ?st1"
  have d: "guard_do (locks_of NullMutex) 1 (Construct Scoped) (new_system ()) = Some (Inr ?st1)" "guard_do (locks_of NullMutex) 2 (Construct Scoped) ?st1 = Some (Inr ?st2)"
    by (simp_all add: guard_do_def locks_of_def ScopedLockImpl_def scoped_impl_def NullMutex_def new_system_def)
  have "guard_reachable (locks_of NullMutex) () ?st2" by (rule guard_reachable.step [OF guard_reachable.step [OF guard_reachable.init d(1)] d(2)])
  then show ?thesis by (intro exI [of _ ?st2]) (simp add: holders_put NullMutex_def)
qed

section \<open>The semaphore\<close>

text \<open>
  The value of the semaphore, at most \<open>SEM_VALUE_MAX\<close>. \<open>sem_wait\<close> does not return at zero, unless a signal interrupts it; \<open>wait\<close> ignores its result, and
  so returns without having taken anything then.
\<close>

definition SEM_VALUE_MAX :: nat where "SEM_VALUE_MAX = 2 ^ 31 - 1"

definition Semaphore :: "u32 \<Rightarrow> lock_error + nat" where
  "Semaphore count = (if SEM_VALUE_MAX < unat count then Inl Sem_init_error else Inr (unat count))"

definition Semaphore_wait :: "bool \<Rightarrow> nat \<Rightarrow> nat option" where
  "Semaphore_wait interrupted v = (if interrupted then Some v else if v = 0 then None else Some (v - 1))"

definition Semaphore_notify :: "nat \<Rightarrow> lock_error + nat" where
  "Semaphore_notify v = (if v = SEM_VALUE_MAX then Inl Sem_post_error else Inr (v + 1))"

lemma notify_then_wait: "v < SEM_VALUE_MAX \<Longrightarrow> (case Semaphore_notify v of Inl e \<Rightarrow> None | Inr w \<Rightarrow> Semaphore_wait False w) = Some v"
  by (simp add: Semaphore_notify_def Semaphore_wait_def)

end
