(* ===== verification/Thread.thy ===== *)
theory Thread
  imports Mutex
begin

text \<open>
  Threads (\<open>sylar/thread.h\<close>, \<open>sylar/thread.cpp\<close>). The constructor starts the thread and waits on a semaphore until \<open>run\<close> has prepared the object. The steps of the
  creating thread (constructor, \<open>join\<close>, destructor) and of \<open>run\<close> in the new thread are interleaved. Whether \<open>pthread_create\<close> succeeds, and whether a signal
  interrupts the wait, are labels of the steps. Thread names of the operating system have at most 15 characters.
\<close>

record 'cb Thread =
  m_id :: int
  m_thread :: nat
  m_cb :: "'cb option"
  m_name :: string
  m_semaphore :: nat

record thread_locals =
  t_thread :: "nat option"
  t_thread_name :: string

section \<open>The names\<close>

definition new_locals :: thread_locals where
  "new_locals = \<lparr>t_thread = None, t_thread_name = ''SomeDay''\<rparr>"

definition Thread_GetThis :: "thread_locals \<Rightarrow> nat option" where
  "Thread_GetThis l = t_thread l"

definition Thread_GetName :: "thread_locals \<Rightarrow> string" where
  "Thread_GetName l = t_thread_name l"

definition Thread_SetName :: "string \<Rightarrow> (nat \<Rightarrow> 'cb Thread) \<times> thread_locals \<Rightarrow> (nat \<Rightarrow> 'cb Thread) \<times> thread_locals" where
  "Thread_SetName name = (\<lambda>(h, l).
     (case t_thread l of Some p \<Rightarrow> h(p := (h p)\<lparr>m_name := name\<rparr>) | None \<Rightarrow> h, l\<lparr>t_thread_name := name\<rparr>))"

definition Thread_getId :: "'cb Thread \<Rightarrow> int" where
  "Thread_getId th = m_id th"

section \<open>Creation\<close>

datatype thread_error = Notify_threw lock_error | Bad_function_call | Use_after_delete

datatype run_pc = Run_this | Run_name | Run_id | Run_setname | Run_swap | Run_notify | Run_call | Run_done

datatype ctor_pc = At_create | At_wait | Constructed | Deleted

record 'cb thread_system =
  th_heap :: "nat \<Rightarrow> 'cb Thread"
  th_ctor :: ctor_pc
  th_run :: "run_pc option"
  th_locals :: thread_locals
  th_os_name :: string
  th_cb :: "'cb option"
  th_calls :: "'cb list"

text \<open>The members before \<open>pthread_create\<close>.\<close>

definition Thread_init :: "'cb option \<Rightarrow> string \<Rightarrow> 'cb Thread" where
  "Thread_init cb name = \<lparr>m_id = - 1, m_thread = 0, m_cb = cb, m_name = (if name = [] then ''SomeDay'' else name), m_semaphore = 0\<rparr>"

definition start_system :: "(nat \<Rightarrow> 'cb Thread) \<Rightarrow> nat \<Rightarrow> 'cb option \<Rightarrow> string \<Rightarrow> 'cb thread_system" where
  "start_system h this cb name = \<lparr>th_heap = h(this := Thread_init cb name), th_ctor = At_create, th_run = None, th_locals = new_locals, th_os_name = [],
     th_cb = None, th_calls = []\<rparr>"

definition put_thread :: "nat \<Rightarrow> 'cb Thread \<Rightarrow> 'cb thread_system \<Rightarrow> 'cb thread_system" where
  "put_thread this th st = st\<lparr>th_heap := (th_heap st)(this := th)\<rparr>"

text \<open>\<open>run\<close>, a statement at a time; the statements before the call read or write the object.\<close>

definition run_stmt :: "nat \<Rightarrow> int \<Rightarrow> run_pc \<Rightarrow> 'cb thread_system \<Rightarrow> thread_error + 'cb thread_system" where
  "run_stmt this tid pc st =
     (let th = th_heap st this in
      if th_ctor st = Deleted \<and> pc \<noteq> Run_this \<and> pc \<noteq> Run_call then Inl Use_after_delete
      else case pc of
        Run_this \<Rightarrow> Inr (st\<lparr>th_locals := (th_locals st)\<lparr>t_thread := Some this\<rparr>, th_run := Some Run_name\<rparr>)
      | Run_name \<Rightarrow> Inr (st\<lparr>th_locals := (th_locals st)\<lparr>t_thread_name := m_name th\<rparr>, th_run := Some Run_id\<rparr>)
      | Run_id \<Rightarrow> Inr ((put_thread this (th\<lparr>m_id := tid\<rparr>) st)\<lparr>th_run := Some Run_setname\<rparr>)
      | Run_setname \<Rightarrow> Inr (st\<lparr>th_os_name := take 15 (m_name th), th_run := Some Run_swap\<rparr>)
      | Run_swap \<Rightarrow> Inr ((put_thread this (th\<lparr>m_cb := None\<rparr>) st)\<lparr>th_cb := m_cb th, th_run := Some Run_notify\<rparr>)
      | Run_notify \<Rightarrow>
          (case Semaphore_notify (m_semaphore th) of
             Inl e \<Rightarrow> Inl (Notify_threw e)
           | Inr v \<Rightarrow> Inr ((put_thread this (th\<lparr>m_semaphore := v\<rparr>) st)\<lparr>th_run := Some Run_call\<rparr>))
      | Run_call \<Rightarrow>
          (case th_cb st of
             None \<Rightarrow> Inl Bad_function_call
           | Some cb \<Rightarrow> Inr (st\<lparr>th_calls := th_calls st @ [cb], th_run := Some Run_done\<rparr>))
      | Run_done \<Rightarrow> Inr st)"

definition Thread_run :: "nat \<Rightarrow> int \<Rightarrow> 'cb thread_system \<Rightarrow> (thread_error + 'cb thread_system) option" where
  "Thread_run this tid st = (case th_run st of None \<Rightarrow> None | Some pc \<Rightarrow> if pc = Run_done then None else Some (run_stmt this tid pc st))"

text \<open>The creating thread. A failed \<open>pthread_create\<close> is only printed.\<close>

definition Thread_create :: "nat \<Rightarrow> nat option \<Rightarrow> 'cb thread_system \<Rightarrow> 'cb thread_system option" where
  "Thread_create this created st =
     (if th_ctor st = At_create then
        Some (case created of
            Some h \<Rightarrow> (put_thread this ((th_heap st this)\<lparr>m_thread := h\<rparr>) st)\<lparr>th_run := Some Run_this, th_ctor := At_wait\<rparr>
          | None \<Rightarrow> st\<lparr>th_ctor := At_wait\<rparr>)
      else None)"

definition Thread_wait :: "nat \<Rightarrow> bool \<Rightarrow> 'cb thread_system \<Rightarrow> 'cb thread_system option" where
  "Thread_wait this interrupted st =
     (if th_ctor st = At_wait then
        (case Semaphore_wait interrupted (m_semaphore (th_heap st this)) of
           None \<Rightarrow> None
         | Some v \<Rightarrow> Some ((put_thread this ((th_heap st this)\<lparr>m_semaphore := v\<rparr>) st)\<lparr>th_ctor := Constructed\<rparr>))
      else None)"

text \<open>\<open>join\<close>, by another thread than the one it waits for; \<open>pthread_join\<close> returns when \<open>run\<close> has ended.\<close>

definition Thread_join :: "nat \<Rightarrow> 'cb thread_system \<Rightarrow> 'cb thread_system option" where
  "Thread_join this st =
     (if th_ctor st = Constructed then
        (if m_thread (th_heap st this) \<noteq> 0 then
           (if th_run st = Some Run_done then Some (put_thread this ((th_heap st this)\<lparr>m_thread := 0\<rparr>) st) else None)
         else Some st)
      else None)"

text \<open>The destructor detaches a thread that was not joined, which goes on.\<close>

definition del_Thread :: "'cb thread_system \<Rightarrow> 'cb thread_system option" where
  "del_Thread st = (if th_ctor st = Constructed then Some (st\<lparr>th_ctor := Deleted\<rparr>) else None)"

datatype thread_label = Create "nat option" | Wait bool | Run | Join | Delete

definition thread_do :: "nat \<Rightarrow> int \<Rightarrow> thread_label \<Rightarrow> 'cb thread_system \<Rightarrow> (thread_error + 'cb thread_system) option" where
  "thread_do this tid l st =
     (case l of
        Create created \<Rightarrow> map_option Inr (Thread_create this created st)
      | Wait interrupted \<Rightarrow> map_option Inr (Thread_wait this interrupted st)
      | Run \<Rightarrow> Thread_run this tid st
      | Join \<Rightarrow> map_option Inr (Thread_join this st)
      | Delete \<Rightarrow> map_option Inr (del_Thread st))"

inductive thread_reachable :: "bool \<Rightarrow> (nat \<Rightarrow> 'cb Thread) \<Rightarrow> nat \<Rightarrow> int \<Rightarrow> 'cb option \<Rightarrow> string \<Rightarrow> 'cb thread_system \<Rightarrow> bool"
  for signals h this tid cb name where
  init: "thread_reachable signals h this tid cb name (start_system h this cb name)"
| step: "thread_reachable signals h this tid cb name st \<Longrightarrow> thread_do this tid l st = Some (Inr st') \<Longrightarrow> signals \<or> l \<noteq> Wait True
    \<Longrightarrow> thread_reachable signals h this tid cb name st'"

section \<open>The hand-over\<close>

definition stage :: "run_pc option \<Rightarrow> nat" where
  "stage r = (case r of None \<Rightarrow> 0 | Some pc \<Rightarrow>
     (case pc of Run_this \<Rightarrow> 0 | Run_name \<Rightarrow> 1 | Run_id \<Rightarrow> 2 | Run_setname \<Rightarrow> 3 | Run_swap \<Rightarrow> 4 | Run_notify \<Rightarrow> 5 | Run_call \<Rightarrow> 6 | Run_done \<Rightarrow> 7))"

definition given_name :: "string \<Rightarrow> string" where
  "given_name name = (if name = [] then ''SomeDay'' else name)"

definition th_inv :: "nat \<Rightarrow> int \<Rightarrow> 'cb option \<Rightarrow> string \<Rightarrow> 'cb thread_system \<Rightarrow> bool" where
  "th_inv this tid cb name st \<longleftrightarrow>
     (let th = th_heap st this; n = stage (th_run st) in
        (th_ctor st = At_create \<longrightarrow> th_run st = None) \<and> (th_ctor st = Constructed \<or> th_ctor st = Deleted \<longrightarrow> 6 \<le> n)
      \<and> m_name th = given_name name \<and> m_cb th = (if 5 \<le> n then None else cb) \<and> m_semaphore th = (if 6 \<le> n \<and> th_ctor st = At_wait then 1 else 0)
      \<and> (1 \<le> n \<longrightarrow> t_thread (th_locals st) = Some this) \<and> (2 \<le> n \<longrightarrow> t_thread_name (th_locals st) = given_name name) \<and> (3 \<le> n \<longrightarrow> m_id th = tid)
      \<and> (4 \<le> n \<longrightarrow> th_os_name st = take 15 (given_name name)) \<and> (5 \<le> n \<longrightarrow> th_cb st = cb)
      \<and> th_calls st = (if n = 7 then [the cb] else []) \<and> (n = 7 \<longrightarrow> cb \<noteq> None))"

lemma th_inv_start: "th_inv this tid cb name (start_system h this cb name)"
  by (simp add: th_inv_def start_system_def Thread_init_def given_name_def stage_def Let_def)

lemma th_inv_run:
  assumes "th_inv this tid cb name st" and "Thread_run this tid st = Some (Inr st')"
  shows "th_inv this tid cb name st'"
proof -
  obtain pc where pc: "th_run st = Some pc" "pc \<noteq> Run_done" "run_stmt this tid pc st = Inr st'"
    using assms(2) by (auto simp: Thread_run_def split: option.splits if_splits)
  then show ?thesis using assms(1)
    by (cases pc; cases "th_ctor st"; clarsimp simp: th_inv_def run_stmt_def Let_def stage_def put_thread_def Semaphore_notify_def SEM_VALUE_MAX_def split: option.splits)
qed

lemma th_inv_step:
  assumes inv: "th_inv this tid cb name st" and step: "thread_do this tid l st = Some (Inr st')" and "l \<noteq> Wait True"
  shows "th_inv this tid cb name st'"
proof (cases l)
  case (Create created)
  then show ?thesis using inv step
    by (auto simp: thread_do_def Thread_create_def th_inv_def Let_def put_thread_def stage_def split: if_splits option.splits)
next
  case (Wait i)
  then show ?thesis using inv step assms(3)
    by (auto simp: thread_do_def Thread_wait_def Semaphore_wait_def th_inv_def Let_def put_thread_def split: if_splits option.splits)
next
  case Run
  then show ?thesis using inv step th_inv_run by (auto simp: thread_do_def)
next
  case Join
  then show ?thesis using inv step
    by (auto simp: thread_do_def Thread_join_def th_inv_def Let_def put_thread_def split: if_splits)
next
  case Delete
  then show ?thesis using inv step by (auto simp: thread_do_def del_Thread_def th_inv_def Let_def split: if_splits)
qed

lemma reachable_th_inv:
  assumes "thread_reachable False h this tid cb name st"
  shows "th_inv this tid cb name st"
  using assms by (induction rule: thread_reachable.induct) (auto intro: th_inv_start th_inv_step)

text \<open>Enabled steps of \<open>run\<close>, and of a wait.\<close>

lemma run_enabled:
  assumes "th_inv this tid cb name st" and "th_run st = Some pc" and "pc \<noteq> Run_done"
  shows "\<exists>r. Thread_run this tid st = Some r \<and> (case r of Inl e \<Rightarrow> e = Bad_function_call \<and> pc = Run_call \<and> cb = None | Inr st' \<Rightarrow> stage (th_run st') = stage (th_run st) + 1)"
  using assms
  by (cases pc; cases "th_ctor st"; clarsimp simp: Thread_run_def th_inv_def run_stmt_def Let_def stage_def put_thread_def Semaphore_notify_def SEM_VALUE_MAX_def
    split: option.splits)

lemma run_keeps_object:
  assumes "th_inv this tid cb name st" and "th_ctor st = Constructed \<or> th_ctor st = Deleted" and "Thread_run this tid st = Some (Inr st')"
  shows "th_heap st' = th_heap st"
  using assms by (cases "th_run st") (auto simp: Thread_run_def run_stmt_def th_inv_def stage_def Let_def split: run_pc.splits option.splits if_splits)

lemma wait_enabled:
  assumes "th_inv this tid cb name st" and "th_ctor st = At_wait"
  shows "Thread_wait this False st \<noteq> None \<longleftrightarrow> 6 \<le> stage (th_run st)"
  using assms by (auto simp: Thread_wait_def Semaphore_wait_def th_inv_def Let_def)

text \<open>
  C21. The constructor of a thread, without signals. When it has returned, the new thread has set its identifier and its name, the function is
  out of the object and is called exactly once, and \<open>run\<close> does not use the object again, so that it may be destroyed. The constructor returns exactly when \<open>run\<close> has
  notified; no step fails unless the function is empty; and the steps of \<open>run\<close> never wait. If \<open>pthread_create\<close> failed, the constructor waits for ever.
\<close>

theorem constructor_hands_over:
  assumes "thread_reachable False h this tid cb name st"
  shows "(th_ctor st = Constructed \<or> th_ctor st = Deleted \<longrightarrow>
       Thread_getId (th_heap st this) = tid \<and> m_name (th_heap st this) = given_name name \<and> m_cb (th_heap st this) = None
       \<and> Thread_GetThis (th_locals st) = Some this \<and> Thread_GetName (th_locals st) = given_name name \<and> th_os_name st = take 15 (given_name name)
       \<and> (th_run st = Some Run_call \<and> th_calls st = [] \<or> th_run st = Some Run_done \<and> cb = Some (hd (th_calls st)) \<and> length (th_calls st) = 1)
       \<and> (\<forall>st'. Thread_run this tid st = Some (Inr st') \<longrightarrow> th_heap st' = th_heap st))
    \<and> (th_ctor st = At_wait \<longrightarrow> (Thread_wait this False st \<noteq> None \<longleftrightarrow> th_run st = Some Run_call \<or> th_run st = Some Run_done))
    \<and> (th_run st \<noteq> None \<and> th_run st \<noteq> Some Run_done \<longrightarrow> (\<exists>st'. Thread_run this tid st = Some (Inr st') \<and> stage (th_run st') = stage (th_run st) + 1)
         \<or> cb = None \<and> Thread_run this tid st = Some (Inl Bad_function_call))
    \<and> (\<forall>l e. thread_do this tid l st = Some (Inl e) \<longrightarrow> e = Bad_function_call \<and> cb = None)
    \<and> (th_ctor st = At_wait \<and> th_run st = None \<longrightarrow> (\<forall>l. l \<noteq> Wait True \<longrightarrow> thread_do this tid l st = None))"
    (is "?returned \<and> ?wait \<and> ?run \<and> ?errors \<and> ?failed")
proof (intro conjI)
  note inv = reachable_th_inv [OF assms]
  have late: "6 \<le> stage r \<longleftrightarrow> r = Some Run_call \<or> r = Some Run_done" for r by (auto simp: stage_def split: option.splits run_pc.splits)
  show ?wait using wait_enabled [OF inv] late by blast
  show run: ?run using run_enabled [OF inv] by (fastforce split: sum.splits)
  show ?errors
  proof (intro allI impI)
    fix l e assume e: "thread_do this tid l st = Some (Inl e)"
    then have "Thread_run this tid st = Some (Inl e)" by (auto simp: thread_do_def split: thread_label.splits)
    moreover from this have "th_run st \<noteq> None \<and> th_run st \<noteq> Some Run_done" by (auto simp: Thread_run_def split: option.splits)
    ultimately show "e = Bad_function_call \<and> cb = None" using run by auto
  qed
  show ?failed
    using wait_enabled [OF inv] by (auto simp: thread_do_def Thread_create_def Thread_run_def Thread_join_def del_Thread_def stage_def split: thread_label.splits)
  show ?returned
  proof
    assume returned: "th_ctor st = Constructed \<or> th_ctor st = Deleted"
    then have n: "6 \<le> stage (th_run st)" using inv by (simp add: th_inv_def Let_def)
    then have "Thread_getId (th_heap st this) = tid \<and> m_name (th_heap st this) = given_name name \<and> m_cb (th_heap st this) = None
       \<and> Thread_GetThis (th_locals st) = Some this \<and> Thread_GetName (th_locals st) = given_name name \<and> th_os_name st = take 15 (given_name name)"
      using inv by (simp add: th_inv_def Let_def Thread_getId_def Thread_GetThis_def Thread_GetName_def)
    moreover have "th_run st = Some Run_call \<and> th_calls st = [] \<or> th_run st = Some Run_done \<and> cb = Some (hd (th_calls st)) \<and> length (th_calls st) = 1"
      using inv n late [of "th_run st"] by (auto simp: th_inv_def Let_def stage_def)
    moreover note run_keeps_object [OF inv returned]
    ultimately show "Thread_getId (th_heap st this) = tid \<and> m_name (th_heap st this) = given_name name \<and> m_cb (th_heap st this) = None
       \<and> Thread_GetThis (th_locals st) = Some this \<and> Thread_GetName (th_locals st) = given_name name \<and> th_os_name st = take 15 (given_name name)
       \<and> (th_run st = Some Run_call \<and> th_calls st = [] \<or> th_run st = Some Run_done \<and> cb = Some (hd (th_calls st)) \<and> length (th_calls st) = 1)
       \<and> (\<forall>st'. Thread_run this tid st = Some (Inr st') \<longrightarrow> th_heap st' = th_heap st)"
      by blast
  qed
qed

text \<open>A run: the thread starts, prepares the object and notifies; the constructor returns; the function is called.\<close>

fun thread_runs :: "nat \<Rightarrow> int \<Rightarrow> thread_label list \<Rightarrow> 'cb thread_system \<Rightarrow> (thread_error + 'cb thread_system) option" where
  "thread_runs this tid [] st = Some (Inr st)"
| "thread_runs this tid (l # ls) st = (case thread_do this tid l st of Some (Inr st') \<Rightarrow> thread_runs this tid ls st' | r \<Rightarrow> r)"

lemma thread_runs_reachable:
  "thread_reachable signals h this tid cb name st \<Longrightarrow> thread_runs this tid ls st = Some (Inr st') \<Longrightarrow> signals \<or> Wait True \<notin> set ls
    \<Longrightarrow> thread_reachable signals h this tid cb name st'"
  by (induction ls arbitrary: st) (auto split: option.splits sum.splits intro: thread_reachable.step)

lemmas thread_run_simps = thread_do_def Thread_create_def Thread_wait_def Thread_run_def run_stmt_def Thread_join_def del_Thread_def put_thread_def Semaphore_notify_def
  Semaphore_wait_def SEM_VALUE_MAX_def start_system_def Thread_init_def new_locals_def Let_def

theorem constructor_hands_over_witness:
  "\<exists>st. thread_runs 5 77 [Create (Some 9), Run, Run, Run, Run, Run, Run, Wait False, Run] (start_system (\<lambda>_. Thread_init None []) 5 (Some ''work'') ''worker'') = Some (Inr st)
    \<and> Thread_getId (th_heap st 5) = 77 \<and> Thread_GetName (th_locals st) = ''worker'' \<and> th_calls st = [''work'']"
proof -
  let ?s0 = "start_system (\<lambda>_. Thread_init None []) 5 (Some ''work'') ''worker''" let ?ls = "[Create (Some 9), Run, Run, Run, Run, Run, Run, Wait False, Run]"
  have "\<exists>st. thread_runs 5 77 ?ls ?s0 = Some (Inr st) \<and> th_ctor st = Constructed \<and> th_calls st = [''work'']"
    by (simp add: thread_run_simps)
  then obtain st where st: "thread_runs 5 77 ?ls ?s0 = Some (Inr st)" "th_ctor st = Constructed" "th_calls st = [''work'']" by blast
  have "thread_reachable False (\<lambda>_. Thread_init None []) 5 77 (Some ''work'') ''worker'' st"
    using thread_runs_reachable [OF thread_reachable.init st(1)] by simp
  from constructor_hands_over [OF this] show ?thesis using st by (auto simp: given_name_def)
qed

text \<open>
  With a signal the constructor may return at once: the identifier is still -1, and if the object is destroyed the new thread uses it all the same.
\<close>

lemma interrupted_constructor:
  "\<exists>st. thread_reachable True h this tid cb name st \<and> th_ctor st = Constructed \<and> Thread_getId (th_heap st this) = - 1
    \<and> thread_runs this tid [Delete, Run, Run] st = Some (Inl Use_after_delete)"
proof -
  have "\<exists>st. thread_runs this tid [Create (Some 1), Wait True] (start_system h this cb name) = Some (Inr st) \<and> th_ctor st = Constructed
      \<and> Thread_getId (th_heap st this) = - 1 \<and> thread_runs this tid [Delete, Run, Run] st = Some (Inl Use_after_delete)"
    by (simp add: thread_run_simps Thread_getId_def)
  then show ?thesis using thread_runs_reachable [OF thread_reachable.init] by blast
qed

text \<open>A name that a running thread sets is its name for both readers.\<close>

lemma SetName_GetName:
  assumes "Thread_SetName name (h, l) = (h', l')"
  shows "Thread_GetName l' = name \<and> Thread_GetThis l' = Thread_GetThis l \<and> (\<forall>p. Thread_GetThis l = Some p \<longrightarrow> m_name (h' p) = name)
    \<and> (\<forall>p. Thread_GetThis l \<noteq> Some p \<longrightarrow> h' p = h p)"
  using assms by (auto simp: Thread_SetName_def Thread_GetName_def Thread_GetThis_def split: option.splits)

end
