(* ===== verification/IOManager.thy ===== *)
theory IOManager
  imports Prelude "HOL-Library.Multiset"
begin

text \<open>
  The event part of \<open>IOManager\<close> (\<open>sylar/iomanager.h\<close>, \<open>sylar/iomanager.cpp\<close>): the table of descriptor
  contexts, registration, removal and cancellation of events, and the treatment of what \<open>epoll_wait\<close> reports.
  The kernel is a parameter: \<open>ctl\<close> stands for \<open>epoll_ctl\<close> on a kernel state of any type and returns 0 for
  success. Callbacks and fibers are identified by numbers; \<open>scheduled\<close> is what was handed to the scheduler, in order.
\<close>

type_synonym Event = u32

abbreviation NONE :: Event where "NONE \<equiv> 0x0"
abbreviation READ :: Event where "READ \<equiv> 0x1"
abbreviation WRITE :: Event where "WRITE \<equiv> 0x4"

text \<open>The flags of \<open><sys/epoll.h>\<close> that the code uses.\<close>

abbreviation EPOLLIN :: u32 where "EPOLLIN \<equiv> 0x1"
abbreviation EPOLLOUT :: u32 where "EPOLLOUT \<equiv> 0x4"
abbreviation EPOLLERR :: u32 where "EPOLLERR \<equiv> 0x8"
abbreviation EPOLLHUP :: u32 where "EPOLLHUP \<equiv> 0x10"
abbreviation EPOLLET :: u32 where "EPOLLET \<equiv> 0x80000000"

datatype ctl_op = EPOLL_CTL_ADD | EPOLL_CTL_DEL | EPOLL_CTL_MOD

datatype task = Run_cb nat | Run_fiber nat

datatype io_error = Io_assert string | Bad_index | Null_scheduler

record EventContext =
  ec_scheduler :: bool
  ec_fiber :: "nat option"
  ec_cb :: "nat option"

record FdContext =
  fc_fd :: nat
  fc_read :: EventContext
  fc_write :: EventContext
  fc_events :: Event

record 'k iomanager =
  kernel :: 'k
  m_pendingEventCount :: u64
  m_fdContexts :: "FdContext list"
  scheduled :: "task list"

type_synonym 'k epoll_ctl = "'k \<Rightarrow> ctl_op \<Rightarrow> nat \<Rightarrow> u32 \<Rightarrow> int \<times> 'k"

definition empty_ctx :: EventContext where
  "empty_ctx = \<lparr>ec_scheduler = False, ec_fiber = None, ec_cb = None\<rparr>"

definition new_FdContext :: "nat \<Rightarrow> FdContext" where
  "new_FdContext i = \<lparr>fc_fd = i, fc_read = empty_ctx, fc_write = empty_ctx, fc_events = NONE\<rparr>"

definition getContext :: "Event \<Rightarrow> FdContext \<Rightarrow> io_error + EventContext" where
  "getContext event fc =
     (if event = READ then Inr (fc_read fc) else if event = WRITE then Inr (fc_write fc) else Inl (Io_assert ''getcontext''))"

definition putContext :: "Event \<Rightarrow> EventContext \<Rightarrow> FdContext \<Rightarrow> FdContext" where
  "putContext event ec fc = (if event = READ then fc\<lparr>fc_read := ec\<rparr> else if event = WRITE then fc\<lparr>fc_write := ec\<rparr> else fc)"

definition resetContext :: "EventContext \<Rightarrow> EventContext" where
  "resetContext ctx = ctx\<lparr>ec_cb := None, ec_fiber := None, ec_scheduler := False\<rparr>"

text \<open>
  \<open>triggerEvent\<close>: \<open>schedule(&ctx.cb)\<close> and \<open>schedule(&ctx.fiber)\<close> swap the callback or fiber out of the
  context; a null one is not put into the task list.
\<close>

definition triggerEvent :: "Event \<Rightarrow> FdContext \<Rightarrow> io_error + (task list \<times> FdContext)" where
  "triggerEvent event fc =
     (if fc_events fc AND event = 0 then Inl (Io_assert ''events & event'')
      else let fc1 = fc\<lparr>fc_events := fc_events fc AND NOT event\<rparr> in
      case getContext event fc1 of
        Inl e \<Rightarrow> Inl e
      | Inr ctx \<Rightarrow>
          if \<not> ec_scheduler ctx then Inl Null_scheduler
          else (case ec_cb ctx of
                  Some c \<Rightarrow> Inr ([Run_cb c], putContext event (ctx\<lparr>ec_cb := None, ec_scheduler := False\<rparr>) fc1)
                | None \<Rightarrow> Inr (case ec_fiber ctx of Some f \<Rightarrow> [Run_fiber f] | None \<Rightarrow> [],
                                putContext event (ctx\<lparr>ec_fiber := None, ec_scheduler := False\<rparr>) fc1)))"

definition contextResize :: "nat \<Rightarrow> FdContext list \<Rightarrow> FdContext list" where
  "contextResize n ctxs = take n ctxs @ map new_FdContext [length ctxs ..< n]"

text \<open>The new number of contexts, \<open>fd * 1.5\<close> truncated.\<close>

definition grown_size :: "nat \<Rightarrow> nat" where
  "grown_size fd = fd * 3 div 2"

definition put_fd :: "nat \<Rightarrow> FdContext \<Rightarrow> 'k iomanager \<Rightarrow> 'k iomanager" where
  "put_fd fd fc io = io\<lparr>m_fdContexts := (m_fdContexts io)[fd := fc]\<rparr>"

text \<open>
  \<open>addEvent\<close>: \<open>cur\<close> is the fiber that \<open>Fiber::GetThis()\<close> returns (it is executing), and the scheduler that
  is recorded is the one that runs the caller.
\<close>

definition addEvent :: "'k epoll_ctl \<Rightarrow> nat \<Rightarrow> Event \<Rightarrow> nat option \<Rightarrow> nat \<Rightarrow> ('k iomanager, io_error, int) outcome" where
  "addEvent ctl fd event cb cur io =
     (let io1 = (if fd < length (m_fdContexts io) then io
                 else io\<lparr>m_fdContexts := contextResize (grown_size fd) (m_fdContexts io)\<rparr>) in
      if \<not> fd < length (m_fdContexts io1) then (Inl Bad_index, io1)
      else let fc = m_fdContexts io1 ! fd in
      if fc_events fc AND event \<noteq> 0 then (Inl (Io_assert ''addEvent''), io1)
      else let op = (if fc_events fc \<noteq> 0 then EPOLL_CTL_MOD else EPOLL_CTL_ADD) in
      case ctl (kernel io1) op fd (EPOLLET OR fc_events fc OR event) of (rt, k) \<Rightarrow>
        let io2 = io1\<lparr>kernel := k\<rparr> in
        if rt \<noteq> 0 then (Inr (- 1), io2)
        else let io3 = io2\<lparr>m_pendingEventCount := m_pendingEventCount io2 + 1\<rparr>;
                 fc1 = fc\<lparr>fc_events := fc_events fc OR event\<rparr> in
          case getContext event fc1 of
            Inl e \<Rightarrow> (Inl e, put_fd fd fc1 io3)
          | Inr ctx \<Rightarrow>
              if ec_scheduler ctx \<or> ec_fiber ctx \<noteq> None \<or> ec_cb ctx \<noteq> None then (Inl (Io_assert ''event_ctx''), put_fd fd fc1 io3)
              else let ctx1 = ctx\<lparr>ec_scheduler := True\<rparr>;
                       ctx2 = (case cb of Some c \<Rightarrow> ctx1\<lparr>ec_cb := Some c\<rparr> | None \<Rightarrow> ctx1\<lparr>ec_fiber := Some cur\<rparr>)
                   in (Inr 0, put_fd fd (putContext event ctx2 fc1) io3))"

text \<open>
  \<open>!fd_ctx->events & event\<close> parses as \<open>(!fd_ctx->events) & event\<close>: 1 or 0 masked with the event.
\<close>

definition not_events_and :: "Event \<Rightarrow> Event \<Rightarrow> bool" where
  "not_events_and events event \<longleftrightarrow> (if events = 0 then 1 else 0) AND event \<noteq> 0"

definition delEvent :: "'k epoll_ctl \<Rightarrow> nat \<Rightarrow> Event \<Rightarrow> ('k iomanager, io_error, bool) outcome" where
  "delEvent ctl fd event io =
     (if length (m_fdContexts io) \<le> fd then (Inr False, io)
      else let fc = m_fdContexts io ! fd in
      if not_events_and (fc_events fc) event then (Inr False, io)
      else let new_events = fc_events fc AND NOT event;
               op = (if new_events \<noteq> 0 then EPOLL_CTL_MOD else EPOLL_CTL_DEL) in
      case ctl (kernel io) op fd (EPOLLET OR new_events) of (rt, k) \<Rightarrow>
        let io1 = io\<lparr>kernel := k\<rparr> in
        if rt \<noteq> 0 then (Inr False, io1)
        else let io2 = io1\<lparr>m_pendingEventCount := m_pendingEventCount io1 - 1\<rparr>;
                 fc1 = fc\<lparr>fc_events := new_events\<rparr> in
          case getContext event fc1 of
            Inl e \<Rightarrow> (Inl e, put_fd fd fc1 io2)
          | Inr ctx \<Rightarrow> (Inr True, put_fd fd (putContext event (resetContext ctx) fc1) io2))"

text \<open>\<open>triggerEvent\<close> on the context in the table, followed by \<open>--m_pendingEventCount\<close>.\<close>

definition trigger_at :: "nat \<Rightarrow> Event \<Rightarrow> ('k iomanager, io_error, unit) outcome" where
  "trigger_at fd event io =
     (case triggerEvent event (m_fdContexts io ! fd) of
        Inl e \<Rightarrow> (Inl e, io)
      | Inr (ts, fc) \<Rightarrow>
          (Inr (), (put_fd fd fc io)\<lparr>scheduled := scheduled io @ ts, m_pendingEventCount := m_pendingEventCount io - 1\<rparr>))"

definition cancelEvent :: "'k epoll_ctl \<Rightarrow> nat \<Rightarrow> Event \<Rightarrow> ('k iomanager, io_error, bool) outcome" where
  "cancelEvent ctl fd event io =
     (if length (m_fdContexts io) \<le> fd then (Inr False, io)
      else let fc = m_fdContexts io ! fd in
      if not_events_and (fc_events fc) event then (Inr False, io)
      else let new_events = fc_events fc AND NOT event;
               op = (if new_events \<noteq> 0 then EPOLL_CTL_MOD else EPOLL_CTL_DEL) in
      case ctl (kernel io) op fd (EPOLLET OR new_events) of (rt, k) \<Rightarrow>
        let io1 = io\<lparr>kernel := k\<rparr> in
        if rt \<noteq> 0 then (Inr False, io1)
        else andThen (trigger_at fd event) (\<lambda>_. ret True) io1)"

text \<open>The two conditional triggers that \<open>cancelAll\<close> and \<open>idle\<close> end with; \<open>m\<close> selects the events.\<close>

definition trigger_if :: "nat \<Rightarrow> u32 \<Rightarrow> Event \<Rightarrow> ('k iomanager, io_error, unit) outcome" where
  "trigger_if fd m event io = (if m AND event \<noteq> 0 then trigger_at fd event io else (Inr (), io))"

definition cancelAll :: "'k epoll_ctl \<Rightarrow> nat \<Rightarrow> ('k iomanager, io_error, bool) outcome" where
  "cancelAll ctl fd io =
     (if length (m_fdContexts io) \<le> fd then (Inr False, io)
      else let fc = m_fdContexts io ! fd in
      if fc_events fc = 0 then (Inr False, io)
      else case ctl (kernel io) EPOLL_CTL_DEL fd 0 of (rt, k) \<Rightarrow>
        let io1 = io\<lparr>kernel := k\<rparr> in
        if rt \<noteq> 0 then (Inr False, io1)
        else andThen (\<lambda>i. trigger_if fd (fc_events (m_fdContexts i ! fd)) READ i) (\<lambda>_.
             andThen (\<lambda>i. trigger_if fd (fc_events (m_fdContexts i ! fd)) WRITE i) (\<lambda>_ i.
             if fc_events (m_fdContexts i ! fd) \<noteq> 0 then (Inl (Io_assert ''events == 0''), i) else (Inr True, i))) io1)"

text \<open>One event that \<open>epoll_wait\<close> reported: the body of the loop in \<open>idle\<close>, for a descriptor other than the pipe.\<close>

definition real_events_of :: "u32 \<Rightarrow> Event \<Rightarrow> u32" where
  "real_events_of reported events =
     (let ev = (if reported AND (EPOLLERR OR EPOLLHUP) \<noteq> 0 then reported OR ((EPOLLIN OR EPOLLOUT) AND events) else reported);
          r1 = (if ev AND EPOLLIN \<noteq> 0 then READ else NONE)
      in if ev AND EPOLLOUT \<noteq> 0 then r1 OR WRITE else r1)"

definition handle_event :: "'k epoll_ctl \<Rightarrow> nat \<Rightarrow> u32 \<Rightarrow> ('k iomanager, io_error, unit) outcome" where
  "handle_event ctl fd reported io =
     (let fc = m_fdContexts io ! fd;
          real_events = real_events_of reported (fc_events fc) in
      if fc_events fc AND real_events = NONE then (Inr (), io)
      else let left_events = fc_events fc AND NOT real_events;
               op = (if left_events \<noteq> 0 then EPOLL_CTL_MOD else EPOLL_CTL_DEL) in
      case ctl (kernel io) op (fc_fd fc) (EPOLLET OR left_events) of (rt2, k) \<Rightarrow>
        let io1 = io\<lparr>kernel := k\<rparr> in
        if rt2 \<noteq> 0 then (Inr (), io1)
        else andThen (trigger_if fd real_events READ) (\<lambda>_. trigger_if fd real_events WRITE) io1)"

text \<open>
  The timeout that \<open>idle\<close> passes to \<open>epoll_wait\<close>: a \<open>uint64_t\<close> that is compared and passed as \<open>int\<close>. A negative
  timeout makes \<open>epoll_wait\<close> wait without limit.
\<close>

definition wait_timeout :: "u64 \<Rightarrow> int" where
  "wait_timeout next_timeout =
     (let t = (if next_timeout \<noteq> - 1
               then (if sint (ucast next_timeout :: 32 word) > 3000 then 3000 else next_timeout)
               else 3000)
      in sint (ucast t :: 32 word))"

text \<open>\<open>IOManager::stopping\<close>; the scheduler's own test is an argument.\<close>

definition io_stopping :: "u64 \<Rightarrow> bool \<Rightarrow> 'k iomanager \<Rightarrow> bool" where
  "io_stopping next_timer scheduler_stopping io \<longleftrightarrow> next_timer = - 1 \<and> m_pendingEventCount io = 0 \<and> scheduler_stopping"

subsection \<open>Invariant\<close>

text \<open>
  A context is filled exactly when its event bit is set, with a scheduler and either a callback or a fiber; the
  pending count is the number of set bits in the table.
\<close>

definition ctx_ok :: "EventContext \<Rightarrow> bool \<Rightarrow> bool" where
  "ctx_ok ec on \<longleftrightarrow> (if on then ec_scheduler ec \<and> (ec_cb ec = None) \<noteq> (ec_fiber ec = None) else ec = empty_ctx)"

definition fc_ok :: "nat \<Rightarrow> FdContext \<Rightarrow> bool" where
  "fc_ok i fc \<longleftrightarrow> fc_fd fc = i \<and> fc_events fc \<in> {0, READ, WRITE, READ OR WRITE}
     \<and> ctx_ok (fc_read fc) (fc_events fc AND READ \<noteq> 0) \<and> ctx_ok (fc_write fc) (fc_events fc AND WRITE \<noteq> 0)"

definition event_bits :: "FdContext \<Rightarrow> nat" where
  "event_bits fc = (if fc_events fc AND READ \<noteq> 0 then 1 else 0) + (if fc_events fc AND WRITE \<noteq> 0 then 1 else 0)"

definition io_inv :: "'k iomanager \<Rightarrow> bool" where
  "io_inv io \<longleftrightarrow> 32 \<le> length (m_fdContexts io) \<and> (\<forall>i < length (m_fdContexts io). fc_ok i (m_fdContexts io ! i))
     \<and> m_pendingEventCount io = of_nat (\<Sum>fc\<leftarrow>m_fdContexts io. event_bits fc)"

text \<open>The tasks that wait in the table, and all tasks: waiting or handed to the scheduler.\<close>

definition ctx_tasks :: "EventContext \<Rightarrow> task multiset" where
  "ctx_tasks ec = (case ec_cb ec of Some c \<Rightarrow> {#Run_cb c#} | None \<Rightarrow> (case ec_fiber ec of Some f \<Rightarrow> {#Run_fiber f#} | None \<Rightarrow> {#}))"

definition fc_tasks :: "FdContext \<Rightarrow> task multiset" where
  "fc_tasks fc = ctx_tasks (fc_read fc) + ctx_tasks (fc_write fc)"

definition io_tasks :: "'k iomanager \<Rightarrow> task multiset" where
  "io_tasks io = mset (scheduled io) + (\<Sum>fc\<leftarrow>m_fdContexts io. fc_tasks fc)"

definition waiting_at :: "'k iomanager \<Rightarrow> nat \<Rightarrow> Event \<Rightarrow> task multiset" where
  "waiting_at io fd event = ctx_tasks (if event = READ then fc_read (m_fdContexts io ! fd) else fc_write (m_fdContexts io ! fd))"

lemma event_word_facts [simp]:
  "(READ OR WRITE) = (5 :: u32)" "NOT (1 :: u32) = - 2" "NOT (4 :: u32) = - 5" "NOT (5 :: u32) = - 6"
  by (simp_all add: not_eq_complement)

lemma ctx_ok_off [simp]: "ctx_ok ec False \<longleftrightarrow> ec = empty_ctx"
  by (simp add: ctx_ok_def)

lemma empty_ctx_simps [simp]: "ec_scheduler empty_ctx = False" "ec_cb empty_ctx = None" "ec_fiber empty_ctx = None" "ctx_tasks empty_ctx = {#}"
  by (simp_all add: empty_ctx_def ctx_tasks_def)

lemma ctx_on:
  assumes "ctx_ok ec True"
  shows "ec_scheduler ec" and "(\<exists>c. ec_cb ec = Some c \<and> ec_fiber ec = None) \<or> (\<exists>f. ec_cb ec = None \<and> ec_fiber ec = Some f)"
  using assms by (auto simp: ctx_ok_def)

text \<open>Firing one context gives its task and an empty context.\<close>

lemma ctx_fire:
  assumes "ctx_ok ec True"
  obtains t where "ctx_tasks ec = {#t#}"
    and "(case ec_cb ec of Some c \<Rightarrow> ([Run_cb c], ec\<lparr>ec_cb := None, ec_scheduler := False\<rparr>)
          | None \<Rightarrow> (case ec_fiber ec of Some f \<Rightarrow> [Run_fiber f] | None \<Rightarrow> [], ec\<lparr>ec_fiber := None, ec_scheduler := False\<rparr>)) = ([t], empty_ctx)"
  using ctx_on [OF assms] that by (cases ec) (auto simp: ctx_tasks_def empty_ctx_def)

lemma triggerEvent_registered:
  assumes ok: "fc_ok i fc" and ev: "event = READ \<or> event = WRITE" and on: "fc_events fc AND event \<noteq> 0"
  obtains t fc' where "triggerEvent event fc = Inr ([t], fc')" and "fc_ok i fc'" and "fc_events fc' = fc_events fc AND NOT event"
    and "event_bits fc = Suc (event_bits fc')" and "fc_tasks fc = add_mset t (fc_tasks fc')"
    and "ctx_tasks (if event = READ then fc_read fc else fc_write fc) = {#t#}"
proof -
  let ?ec = "if event = READ then fc_read fc else fc_write fc"
  have "ctx_ok ?ec True" using assms by (auto simp: fc_ok_def)
  then obtain t where t: "ctx_tasks ?ec = {#t#}" "ec_scheduler ?ec"
    "(case ec_cb ?ec of Some c \<Rightarrow> ([Run_cb c], ?ec\<lparr>ec_cb := None, ec_scheduler := False\<rparr>)
          | None \<Rightarrow> (case ec_fiber ?ec of Some f \<Rightarrow> [Run_fiber f] | None \<Rightarrow> [], ?ec\<lparr>ec_fiber := None, ec_scheduler := False\<rparr>)) = ([t], empty_ctx)"
    by (metis ctx_fire ctx_on(1))
  let ?fc = "putContext event empty_ctx (fc\<lparr>fc_events := fc_events fc AND NOT event\<rparr>)"
  have "triggerEvent event fc = Inr ([t], ?fc)"
    using ev on t(2,3) by (auto simp: triggerEvent_def getContext_def putContext_def Let_def split: option.splits)
  moreover have "fc_ok i ?fc" "fc_events ?fc = fc_events fc AND NOT event" "event_bits fc = Suc (event_bits ?fc)" "fc_tasks fc = add_mset t (fc_tasks ?fc)"
    using assms t(1) by (auto simp: fc_ok_def putContext_def event_bits_def fc_tasks_def)
  ultimately show thesis using t(1) by (rule that)
qed

subsection \<open>The operations keep the invariant\<close>

lemma io_inv_put:
  assumes inv: "io_inv io" and fd: "fd < length (m_fdContexts io)" and ok: "fc_ok fd fc"
    and p: "p + of_nat (event_bits (m_fdContexts io ! fd)) = m_pendingEventCount io + of_nat (event_bits fc)"
  shows "io_inv ((put_fd fd fc io)\<lparr>scheduled := ts, m_pendingEventCount := p\<rparr>)"
proof -
  have "(\<Sum>x\<leftarrow>(m_fdContexts io)[fd := fc]. event_bits x) + event_bits (m_fdContexts io ! fd) = (\<Sum>x\<leftarrow>m_fdContexts io. event_bits x) + event_bits fc"
    using sum_list_replace [OF fd] by blast
  then have "(of_nat (\<Sum>x\<leftarrow>(m_fdContexts io)[fd := fc]. event_bits x) :: u64) + of_nat (event_bits (m_fdContexts io ! fd))
      = of_nat (\<Sum>x\<leftarrow>m_fdContexts io. event_bits x) + of_nat (event_bits fc)"
    by (metis of_nat_add)
  then have "p = of_nat (\<Sum>x\<leftarrow>(m_fdContexts io)[fd := fc]. event_bits x)"
    using p inv by (metis add_right_cancel io_inv_def)
  then show ?thesis using inv fd ok by (simp add: io_inv_def put_fd_def nth_list_update)
qed

lemma io_tasks_put:
  "fd < length (m_fdContexts io) \<Longrightarrow> io_tasks ((put_fd fd fc io)\<lparr>scheduled := ts, m_pendingEventCount := p\<rparr>) + fc_tasks (m_fdContexts io ! fd) + mset (scheduled io)
    = io_tasks io + fc_tasks fc + mset ts"
  using sum_list_replace [of fd "m_fdContexts io" fc_tasks fc] by (simp add: io_tasks_def put_fd_def ac_simps)

lemma trigger_at_ok:
  assumes inv: "io_inv io" and fd: "fd < length (m_fdContexts io)" and ev: "event = READ \<or> event = WRITE"
    and on: "fc_events (m_fdContexts io ! fd) AND event \<noteq> 0"
  shows "\<exists>io'. trigger_at fd event io = (Inr (), io') \<and> io_inv io' \<and> io_tasks io' = io_tasks io \<and> kernel io' = kernel io
    \<and> length (m_fdContexts io') = length (m_fdContexts io) \<and> (\<forall>j. j \<noteq> fd \<longrightarrow> m_fdContexts io' ! j = m_fdContexts io ! j)
    \<and> fc_events (m_fdContexts io' ! fd) = fc_events (m_fdContexts io ! fd) AND NOT event
    \<and> (\<exists>t. waiting_at io fd event = {#t#} \<and> scheduled io' = scheduled io @ [t])"
proof -
  have "fc_ok fd (m_fdContexts io ! fd)" using inv fd by (simp add: io_inv_def)
  then obtain t fc where t: "triggerEvent event (m_fdContexts io ! fd) = Inr ([t], fc)" "fc_ok fd fc"
      "fc_events fc = fc_events (m_fdContexts io ! fd) AND NOT event" "event_bits (m_fdContexts io ! fd) = Suc (event_bits fc)"
      "fc_tasks (m_fdContexts io ! fd) = add_mset t (fc_tasks fc)" "waiting_at io fd event = {#t#}"
    unfolding waiting_at_def using ev on by (rule triggerEvent_registered)
  let ?io = "(put_fd fd fc io)\<lparr>scheduled := scheduled io @ [t], m_pendingEventCount := m_pendingEventCount io - 1\<rparr>"
  have "io_inv ?io" by (rule io_inv_put [OF inv fd t(2)]) (simp add: t(4))
  moreover have "io_tasks ?io = io_tasks io"
    using io_tasks_put [OF fd, where fc = fc and ts = "scheduled io @ [t]" and p = "m_pendingEventCount io - 1"] t(5) by simp
  ultimately show ?thesis
    using t(1,3,6) fd by (auto simp: trigger_at_def put_fd_def)
qed

text \<open>Registered tasks before and after a change of the kernel state only.\<close>

lemma kernel_irrelevant [simp]:
  "io_inv (io\<lparr>kernel := k\<rparr>) = io_inv io" "io_tasks (io\<lparr>kernel := k\<rparr>) = io_tasks io"
  by (simp_all add: io_inv_def io_tasks_def)

lemma contextResize_grow:
  assumes "io_inv io" and "length (m_fdContexts io) \<le> n"
  shows "io_inv (io\<lparr>m_fdContexts := contextResize n (m_fdContexts io)\<rparr>)" and "io_tasks (io\<lparr>m_fdContexts := contextResize n (m_fdContexts io)\<rparr>) = io_tasks io"
    and "i < length (m_fdContexts io) \<Longrightarrow> contextResize n (m_fdContexts io) ! i = m_fdContexts io ! i"
    and "length (m_fdContexts io) \<le> i \<Longrightarrow> i < n \<Longrightarrow> contextResize n (m_fdContexts io) ! i = new_FdContext i"
proof -
  have e: "contextResize n (m_fdContexts io) = m_fdContexts io @ map new_FdContext [length (m_fdContexts io) ..< n]"
    using assms(2) by (simp add: contextResize_def)
  have z: "event_bits \<circ> new_FdContext = (\<lambda>_. 0)" "fc_tasks \<circ> new_FdContext = (\<lambda>_. 0)"
    by (simp_all add: fun_eq_iff new_FdContext_def event_bits_def fc_tasks_def)
  have "fc_ok i (contextResize n (m_fdContexts io) ! i)" if "i < n" for i
    using that assms by (auto simp: e nth_append io_inv_def fc_ok_def new_FdContext_def)
  then show "io_inv (io\<lparr>m_fdContexts := contextResize n (m_fdContexts io)\<rparr>)"
    using assms z(1) by (simp add: io_inv_def e)
  show "io_tasks (io\<lparr>m_fdContexts := contextResize n (m_fdContexts io)\<rparr>) = io_tasks io"
    using z(2) by (simp add: io_tasks_def e)
  show "i < length (m_fdContexts io) \<Longrightarrow> contextResize n (m_fdContexts io) ! i = m_fdContexts io ! i"
    "length (m_fdContexts io) \<le> i \<Longrightarrow> i < n \<Longrightarrow> contextResize n (m_fdContexts io) ! i = new_FdContext i"
    by (simp_all add: e nth_append)
qed

definition new_task :: "nat option \<Rightarrow> nat \<Rightarrow> task" where
  "new_task cb cur = (case cb of Some c \<Rightarrow> Run_cb c | None \<Rightarrow> Run_fiber cur)"

lemma addEvent_ok:
  assumes inv: "io_inv io" and ev: "event = READ \<or> event = WRITE"
    and off: "fd < length (m_fdContexts io) \<longrightarrow> fc_events (m_fdContexts io ! fd) AND event = 0"
  shows "\<exists>rt io'. addEvent ctl fd event cb cur io = (Inr rt, io') \<and> io_inv io' \<and> fd < length (m_fdContexts io')
    \<and> (rt = 0 \<and> io_tasks io' = add_mset (new_task cb cur) (io_tasks io) \<and> fc_events (m_fdContexts io' ! fd) AND event \<noteq> 0
          \<and> waiting_at io' fd event = {#new_task cb cur#} \<and> scheduled io' = scheduled io
       \<or> rt = - 1 \<and> io_tasks io' = io_tasks io)
    \<and> ((\<forall>k op ev. fst (ctl k op fd ev) = 0) \<longrightarrow> rt = 0)"
proof -
  define io1 where "io1 = (if fd < length (m_fdContexts io) then io else io\<lparr>m_fdContexts := contextResize (grown_size fd) (m_fdContexts io)\<rparr>)"
  have len: "32 \<le> length (m_fdContexts io)" using inv by (simp add: io_inv_def)
  have g: "\<not> fd < length (m_fdContexts io) \<Longrightarrow> length (m_fdContexts io) \<le> grown_size fd \<and> fd < grown_size fd" using len by (auto simp: grown_size_def)
  have inv1: "io_inv io1" and t1: "io_tasks io1 = io_tasks io" using inv g contextResize_grow(1,2) [OF inv] by (auto simp: io1_def)
  have fd1: "fd < length (m_fdContexts io1)" using g by (auto simp: io1_def contextResize_def)
  let ?fc = "m_fdContexts io1 ! fd"
  have off1: "fc_events ?fc AND event = 0"
    using off g contextResize_grow(4) [OF inv, of "grown_size fd" fd] by (auto simp: io1_def new_FdContext_def)
  have ok1: "fc_ok fd ?fc" using inv1 fd1 by (simp add: io_inv_def)
  obtain rt k where c: "ctl (kernel io1) (if fc_events ?fc \<noteq> 0 then EPOLL_CTL_MOD else EPOLL_CTL_ADD) fd (EPOLLET OR fc_events ?fc OR event) = (rt, k)"
    by (cases "ctl (kernel io1) (if fc_events ?fc \<noteq> 0 then EPOLL_CTL_MOD else EPOLL_CTL_ADD) fd (EPOLLET OR fc_events ?fc OR event)")
  show ?thesis
  proof (cases "rt = 0")
    case False
    then have "addEvent ctl fd event cb cur io = (Inr (- 1), io1\<lparr>kernel := k\<rparr>)"
      using c fd1 off1 unfolding addEvent_def io1_def [symmetric] Let_def by simp
    moreover have "\<not> (\<forall>k op ev. fst (ctl k op fd ev) = 0)" using c False by (metis fst_conv)
    ultimately show ?thesis using inv1 t1 fd1 by simp
  next
    case True
    let ?ctx = "case cb of Some c \<Rightarrow> empty_ctx\<lparr>ec_scheduler := True, ec_cb := Some c\<rparr> | None \<Rightarrow> empty_ctx\<lparr>ec_scheduler := True, ec_fiber := Some cur\<rparr>"
    let ?fc1 = "putContext event ?ctx (?fc\<lparr>fc_events := fc_events ?fc OR event\<rparr>)"
    let ?io = "(put_fd fd ?fc1 (io1\<lparr>kernel := k\<rparr>))\<lparr>scheduled := scheduled io1, m_pendingEventCount := m_pendingEventCount io1 + 1\<rparr>"
    have old: "(if event = READ then fc_read ?fc else fc_write ?fc) = empty_ctx" using ok1 off1 ev by (auto simp: fc_ok_def)
    have new: "ctx_ok ?ctx True" "ctx_tasks ?ctx = {#new_task cb cur#}"
      by (auto simp: ctx_ok_def ctx_tasks_def new_task_def empty_ctx_def split: option.splits)
    have fc1: "fc_ok fd ?fc1" "event_bits ?fc1 = Suc (event_bits ?fc)" "fc_tasks ?fc1 = add_mset (new_task cb cur) (fc_tasks ?fc)" "fc_events ?fc1 AND event \<noteq> 0"
      using ok1 off1 ev old new by (auto simp: fc_ok_def putContext_def event_bits_def fc_tasks_def)
    have "getContext event (?fc\<lparr>fc_events := fc_events ?fc OR event\<rparr>) = Inr empty_ctx" using old ev by (auto simp: getContext_def)
    then have run: "addEvent ctl fd event cb cur io = (Inr 0, ?io)"
      using c True fd1 off1 unfolding addEvent_def io1_def [symmetric] Let_def by (simp add: put_fd_def)
    have i: "io_inv ?io" by (rule io_inv_put) (use inv1 fd1 fc1 in simp_all)
    have t: "io_tasks ?io = add_mset (new_task cb cur) (io_tasks io)"
      using io_tasks_put [where fd = fd and io = "io1\<lparr>kernel := k\<rparr>" and fc = ?fc1 and ts = "scheduled io1" and p = "m_pendingEventCount io1 + 1"] fd1 fc1(3) t1 by simp
    have w: "waiting_at ?io fd event = {#new_task cb cur#}" using ev new(2) fd1 by (auto simp: waiting_at_def put_fd_def putContext_def)
    have s: "scheduled ?io = scheduled io" by (simp add: io1_def)
    have l: "fd < length (m_fdContexts ?io)" "fc_events (m_fdContexts ?io ! fd) AND event \<noteq> 0" using fd1 fc1(4) by (simp_all add: put_fd_def)
    show ?thesis by (rule exI [of _ 0], rule exI [of _ ?io]) (use run i t w s l in blast)
  qed
qed

lemma and_READ: "x AND 1 = 0 \<longleftrightarrow> \<not> bit (x :: u32) 0"
  using and_exp_eq_0_iff_not_bit [of x 0] by simp

lemma and_WRITE: "x AND 4 = 0 \<longleftrightarrow> \<not> bit (x :: u32) 2"
  using and_exp_eq_0_iff_not_bit [of x 2] by simp

lemma trigger_if_ok:
  assumes inv: "io_inv io" and fd: "fd < length (m_fdContexts io)" and ev: "event = READ \<or> event = WRITE"
    and on: "m AND event \<noteq> 0 \<longrightarrow> fc_events (m_fdContexts io ! fd) AND event \<noteq> 0"
  shows "\<exists>io'. trigger_if fd m event io = (Inr (), io') \<and> io_inv io' \<and> io_tasks io' = io_tasks io \<and> kernel io' = kernel io
    \<and> length (m_fdContexts io') = length (m_fdContexts io) \<and> (\<forall>j. j \<noteq> fd \<longrightarrow> m_fdContexts io' ! j = m_fdContexts io ! j)
    \<and> fc_events (m_fdContexts io' ! fd) = (if m AND event \<noteq> 0 then fc_events (m_fdContexts io ! fd) AND NOT event else fc_events (m_fdContexts io ! fd))"
  using trigger_at_ok [OF inv fd ev] on inv by (auto simp: trigger_if_def)

lemma delEvent_ok:
  assumes inv: "io_inv io" and fd: "fd < length (m_fdContexts io)" and ev: "event = READ \<or> event = WRITE"
    and on: "fc_events (m_fdContexts io ! fd) AND event \<noteq> 0"
  shows "\<exists>b io'. delEvent ctl fd event io = (Inr b, io') \<and> io_inv io'
    \<and> (b \<and> io_tasks io = waiting_at io fd event + io_tasks io' \<and> fc_events (m_fdContexts io' ! fd) AND event = 0 \<or> \<not> b \<and> io_tasks io' = io_tasks io)"
proof -
  let ?fc = "m_fdContexts io ! fd"
  have ok: "fc_ok fd ?fc" using inv fd by (simp add: io_inv_def)
  have nz: "fc_events ?fc \<noteq> 0" using on by auto
  obtain rt k where c: "ctl (kernel io) (if fc_events ?fc AND NOT event \<noteq> 0 then EPOLL_CTL_MOD else EPOLL_CTL_DEL) fd (EPOLLET OR (fc_events ?fc AND NOT event)) = (rt, k)"
    by (cases "ctl (kernel io) (if fc_events ?fc AND NOT event \<noteq> 0 then EPOLL_CTL_MOD else EPOLL_CTL_DEL) fd (EPOLLET OR (fc_events ?fc AND NOT event))")
  show ?thesis
  proof (cases "rt = 0")
    case False
    then have "delEvent ctl fd event io = (Inr False, io\<lparr>kernel := k\<rparr>)"
      using c fd nz unfolding delEvent_def Let_def by (simp add: not_events_and_def)
    then show ?thesis using inv by (intro exI [of _ False] exI [of _ "io\<lparr>kernel := k\<rparr>"]) simp
  next
    case True
    let ?ec = "if event = READ then fc_read ?fc else fc_write ?fc"
    let ?fc1 = "putContext event empty_ctx (?fc\<lparr>fc_events := fc_events ?fc AND NOT event\<rparr>)"
    let ?io = "(put_fd fd ?fc1 (io\<lparr>kernel := k\<rparr>))\<lparr>scheduled := scheduled io, m_pendingEventCount := m_pendingEventCount io - 1\<rparr>"
    have "ctx_ok ?ec True" using ok on ev by (auto simp: fc_ok_def)
    then obtain t where t: "ctx_tasks ?ec = {#t#}" by (rule ctx_fire)
    have reset: "resetContext x = empty_ctx" for x by (cases x) (simp add: resetContext_def empty_ctx_def)
    have "getContext event (?fc\<lparr>fc_events := fc_events ?fc AND NOT event\<rparr>) = Inr ?ec" using ev by (auto simp: getContext_def)
    then have run: "delEvent ctl fd event io = (Inr True, ?io)"
      using c True fd nz unfolding delEvent_def Let_def by (simp add: put_fd_def not_events_and_def reset)
    have fc1: "fc_ok fd ?fc1" "event_bits ?fc = Suc (event_bits ?fc1)" "fc_tasks ?fc = add_mset t (fc_tasks ?fc1)" "fc_events ?fc1 AND event = 0"
      using ok on ev t by (auto simp: fc_ok_def putContext_def event_bits_def fc_tasks_def)
    have "io_inv ?io" by (rule io_inv_put) (use inv fd fc1 in simp_all)
    moreover have "io_tasks io = add_mset t (io_tasks ?io)"
      using io_tasks_put [where fd = fd and io = "io\<lparr>kernel := k\<rparr>" and fc = ?fc1 and ts = "scheduled io" and p = "m_pendingEventCount io - 1"] fd fc1(3) by simp
    ultimately show ?thesis using run fc1(4) fd t by (auto simp: put_fd_def waiting_at_def)
  qed
qed

lemma cancelEvent_ok:
  assumes inv: "io_inv io" and fd: "fd < length (m_fdContexts io)" and ev: "event = READ \<or> event = WRITE"
    and on: "fc_events (m_fdContexts io ! fd) AND event \<noteq> 0"
  shows "\<exists>b io'. cancelEvent ctl fd event io = (Inr b, io') \<and> io_inv io' \<and> io_tasks io' = io_tasks io
    \<and> (b \<longrightarrow> fc_events (m_fdContexts io' ! fd) = fc_events (m_fdContexts io ! fd) AND NOT event
          \<and> (\<exists>t. waiting_at io fd event = {#t#} \<and> scheduled io' = scheduled io @ [t]))
    \<and> ((\<forall>k op ev. fst (ctl k op fd ev) = 0) \<longrightarrow> b)"
proof -
  let ?fc = "m_fdContexts io ! fd"
  have nz: "fc_events ?fc \<noteq> 0" using on by auto
  obtain rt k where c: "ctl (kernel io) (if fc_events ?fc AND NOT event \<noteq> 0 then EPOLL_CTL_MOD else EPOLL_CTL_DEL) fd (EPOLLET OR (fc_events ?fc AND NOT event)) = (rt, k)"
    by (cases "ctl (kernel io) (if fc_events ?fc AND NOT event \<noteq> 0 then EPOLL_CTL_MOD else EPOLL_CTL_DEL) fd (EPOLLET OR (fc_events ?fc AND NOT event))")
  have run: "cancelEvent ctl fd event io = (if rt \<noteq> 0 then (Inr False, io\<lparr>kernel := k\<rparr>) else andThen (trigger_at fd event) (\<lambda>_. ret True) (io\<lparr>kernel := k\<rparr>))"
    using c fd nz unfolding cancelEvent_def Let_def by (simp add: not_events_and_def)
  have z: "(\<forall>k op ev. fst (ctl k op fd ev) = 0) \<Longrightarrow> rt = 0" using c by (metis fst_conv)
  show ?thesis
  proof (cases "rt = 0")
    case True
    then show ?thesis using run trigger_at_ok [of "io\<lparr>kernel := k\<rparr>" fd event] inv fd ev on
      by (auto simp: outcome_simps ret_def waiting_at_def)
  next
    case False
    then show ?thesis using run z inv by auto
  qed
qed

lemma event_cases: "(e :: u32) \<in> {0, READ, WRITE, READ OR WRITE} \<Longrightarrow> e AND NOT READ AND NOT WRITE = 0"
  by auto

lemma cancelAll_ok:
  assumes inv: "io_inv io" and fd: "fd < length (m_fdContexts io)" and on: "fc_events (m_fdContexts io ! fd) \<noteq> 0"
  shows "\<exists>b io'. cancelAll ctl fd io = (Inr b, io') \<and> io_inv io' \<and> io_tasks io' = io_tasks io \<and> (b \<longrightarrow> fc_events (m_fdContexts io' ! fd) = 0)"
proof -
  let ?ev = "\<lambda>i :: 'a iomanager. fc_events (m_fdContexts i ! fd)"
  obtain rt k where c: "ctl (kernel io) EPOLL_CTL_DEL fd 0 = (rt, k)" by (cases "ctl (kernel io) EPOLL_CTL_DEL fd 0")
  let ?io = "io\<lparr>kernel := k\<rparr>"
  have 0: "io_inv ?io" "fd < length (m_fdContexts ?io)" using inv fd by simp_all
  obtain io1 where 1: "trigger_if fd (?ev ?io) READ ?io = (Inr (), io1)" "io_inv io1" "io_tasks io1 = io_tasks ?io" "fd < length (m_fdContexts io1)"
      "?ev io1 = (if ?ev ?io AND READ \<noteq> 0 then ?ev ?io AND NOT READ else ?ev ?io)"
    using trigger_if_ok [OF 0, of READ "?ev ?io"] 0(2) by auto
  obtain io2 where 2: "trigger_if fd (?ev io1) WRITE io1 = (Inr (), io2)" "io_inv io2" "io_tasks io2 = io_tasks io1"
      "?ev io2 = (if ?ev io1 AND WRITE \<noteq> 0 then ?ev io1 AND NOT WRITE else ?ev io1)"
    using trigger_if_ok [OF 1(2,4), of WRITE "?ev io1"] by auto
  have "?ev io \<in> {0, READ, WRITE, READ OR WRITE}" using inv fd by (simp add: io_inv_def fc_ok_def)
  then have "?ev io2 = 0" using 1(5) 2(4) by auto
  then have "rt = 0 \<Longrightarrow> cancelAll ctl fd io = (Inr True, io2)"
    using c fd on 1(1) 2(1) unfolding cancelAll_def Let_def by (simp add: outcome_simps)
  moreover have "rt \<noteq> 0 \<Longrightarrow> cancelAll ctl fd io = (Inr False, ?io)"
    using c fd on unfolding cancelAll_def Let_def by simp
  ultimately show ?thesis using \<open>?ev io2 = 0\<close> 1(3) 2(2,3) inv by (cases "rt = 0") auto
qed

text \<open>The events that count for a report are registered when those in the report are.\<close>

lemma real_events_registered:
  assumes "bit reported 0 \<longrightarrow> bit events 0" and "bit reported 2 \<longrightarrow> bit events 2"
  shows "real_events_of reported events AND READ \<noteq> 0 \<longrightarrow> events AND READ \<noteq> 0"
    and "real_events_of reported events AND WRITE \<noteq> 0 \<longrightarrow> events AND WRITE \<noteq> 0"
  using assms by (auto simp: real_events_of_def Let_def and_READ and_WRITE bit_simps split: if_splits)

lemma handle_event_ok:
  assumes inv: "io_inv io" and fd: "fd < length (m_fdContexts io)"
    and rep: "bit reported 0 \<longrightarrow> bit (fc_events (m_fdContexts io ! fd)) 0" "bit reported 2 \<longrightarrow> bit (fc_events (m_fdContexts io ! fd)) 2"
  shows "\<exists>io'. handle_event ctl fd reported io = (Inr (), io') \<and> io_inv io' \<and> io_tasks io' = io_tasks io"
proof -
  let ?fc = "m_fdContexts io ! fd"
  let ?r = "real_events_of reported (fc_events ?fc)"
  obtain rt k where c: "ctl (kernel io) (if fc_events ?fc AND NOT ?r \<noteq> 0 then EPOLL_CTL_MOD else EPOLL_CTL_DEL) (fc_fd ?fc) (EPOLLET OR (fc_events ?fc AND NOT ?r)) = (rt, k)"
    by (cases "ctl (kernel io) (if fc_events ?fc AND NOT ?r \<noteq> 0 then EPOLL_CTL_MOD else EPOLL_CTL_DEL) (fc_fd ?fc) (EPOLLET OR (fc_events ?fc AND NOT ?r))")
  note sub = real_events_registered [OF rep]
  let ?io = "io\<lparr>kernel := k\<rparr>"
  have 0: "io_inv ?io" "fd < length (m_fdContexts ?io)" using inv fd by simp_all
  obtain io1 where 1: "trigger_if fd ?r READ ?io = (Inr (), io1)" "io_inv io1" "io_tasks io1 = io_tasks ?io" "fd < length (m_fdContexts io1)"
      "fc_events (m_fdContexts io1 ! fd) = (if ?r AND READ \<noteq> 0 then fc_events ?fc AND NOT READ else fc_events ?fc)"
    using trigger_if_ok [OF 0, of READ ?r] 0(2) sub(1) by auto
  have "fc_events ?fc \<in> {0, READ, WRITE, READ OR WRITE}" using inv fd by (simp add: io_inv_def fc_ok_def)
  then have "?r AND WRITE \<noteq> 0 \<longrightarrow> fc_events (m_fdContexts io1 ! fd) AND WRITE \<noteq> 0" using 1(5) sub(2) by auto
  then obtain io2 where 2: "trigger_if fd ?r WRITE io1 = (Inr (), io2)" "io_inv io2" "io_tasks io2 = io_tasks io1"
    using trigger_if_ok [OF 1(2,4), of WRITE ?r] by auto
  have "handle_event ctl fd reported io =
      (if fc_events ?fc AND ?r = 0 then (Inr (), io) else if rt \<noteq> 0 then (Inr (), ?io) else (Inr (), io2))"
    using c 1(1) 2(1) unfolding handle_event_def Let_def by (simp add: outcome_simps)
  then show ?thesis using inv 1(3) 2(2,3) by auto
qed

text \<open>A report of exactly one registered event schedules its task.\<close>

lemma handle_event_single:
  assumes inv: "io_inv io" and fd: "fd < length (m_fdContexts io)" and ev: "event = READ \<or> event = WRITE"
    and on: "fc_events (m_fdContexts io ! fd) AND event \<noteq> 0" and ctl: "\<And>k op ev. fst (ctl k op fd ev) = 0"
  shows "\<exists>io' t. handle_event ctl fd event io = (Inr (), io') \<and> io_inv io' \<and> waiting_at io fd event = {#t#} \<and> scheduled io' = scheduled io @ [t]
    \<and> fc_events (m_fdContexts io' ! fd) = fc_events (m_fdContexts io ! fd) AND NOT event"
proof -
  let ?fc = "m_fdContexts io ! fd"
  have r: "real_events_of event (fc_events ?fc) = event" using ev by (auto simp: real_events_of_def)
  have fdeq: "fc_fd ?fc = fd" using inv fd by (simp add: io_inv_def fc_ok_def)
  obtain k where c: "ctl (kernel io) (if fc_events ?fc AND NOT event \<noteq> 0 then EPOLL_CTL_MOD else EPOLL_CTL_DEL) fd (EPOLLET OR (fc_events ?fc AND NOT event)) = (0, k)"
    using ctl by (metis prod.collapse)
  obtain io' t where io': "trigger_at fd event (io\<lparr>kernel := k\<rparr>) = (Inr (), io')" "io_inv io'" "waiting_at io fd event = {#t#}"
      "scheduled io' = scheduled io @ [t]" "fc_events (m_fdContexts io' ! fd) = fc_events ?fc AND NOT event"
    using trigger_at_ok [of "io\<lparr>kernel := k\<rparr>" fd event] inv fd ev on by (auto simp: waiting_at_def)
  have "handle_event ctl fd event io = andThen (trigger_if fd event READ) (\<lambda>_. trigger_if fd event WRITE) (io\<lparr>kernel := k\<rparr>)"
    using on c unfolding handle_event_def Let_def r fdeq by simp
  also have "\<dots> = (Inr (), io')" using ev io'(1) by (auto simp: trigger_if_def andThen_def)
  finally show ?thesis using io' by blast
qed

text \<open>Deleting and cancelling an event that is not registered while the other one is.\<close>

lemma unregistered_event:
  assumes "io_inv io" and "fd < length (m_fdContexts io)" and "event = READ \<or> event = WRITE"
    and "fc_events (m_fdContexts io ! fd) AND event = 0" and "fc_events (m_fdContexts io ! fd) \<noteq> 0"
    and "\<And>k op fd ev. fst (ctl k op fd ev) = 0"
  shows "(\<exists>io'. delEvent ctl fd event io = (Inr True, io') \<and> m_fdContexts io' = m_fdContexts io \<and> m_pendingEventCount io' = m_pendingEventCount io - 1)
    \<and> fst (cancelEvent ctl fd event io) = Inl (Io_assert ''events & event'')"
proof -
  let ?fc = "m_fdContexts io ! fd"
  have ok: "fc_ok fd ?fc" using assms(1,2) by (simp add: io_inv_def)
  then have e: "fc_events ?fc AND NOT event = fc_events ?fc" using assms(3,4) by (auto simp: fc_ok_def)
  have off: "(if event = READ then fc_read ?fc else fc_write ?fc) = empty_ctx" using ok assms(3,4) by (auto simp: fc_ok_def)
  obtain k where c: "ctl (kernel io) EPOLL_CTL_MOD fd (EPOLLET OR fc_events ?fc) = (0, k)"
    using assms(6) [of "kernel io" EPOLL_CTL_MOD fd "EPOLLET OR fc_events ?fc"] by (metis prod.collapse)
  have get: "getContext event (?fc\<lparr>fc_events := fc_events ?fc\<rparr>) = Inr empty_ctx" using off assms(3) by (auto simp: getContext_def)
  have same: "putContext event (resetContext empty_ctx) (?fc\<lparr>fc_events := fc_events ?fc\<rparr>) = ?fc"
    using off assms(3) by (cases ?fc) (auto simp: putContext_def resetContext_def empty_ctx_def)
  have "delEvent ctl fd event io = (Inr True, put_fd fd ?fc (io\<lparr>kernel := k, m_pendingEventCount := m_pendingEventCount io - 1\<rparr>))"
    using assms(2,5) c get same unfolding delEvent_def Let_def e by (simp add: not_events_and_def)
  moreover have "cancelEvent ctl fd event io = andThen (trigger_at fd event) (\<lambda>_. ret True) (io\<lparr>kernel := k\<rparr>)"
    using assms(2,5) c unfolding cancelEvent_def Let_def e by (simp add: not_events_and_def)
  moreover have "trigger_at fd event (io\<lparr>kernel := k\<rparr>) = (Inl (Io_assert ''events & event''), io\<lparr>kernel := k\<rparr>)"
    using assms(4) by (simp add: trigger_at_def triggerEvent_def)
  ultimately show ?thesis by (simp add: put_fd_def outcome_simps)
qed

subsection \<open>Event life cycles\<close>

definition new_IOManager :: "'k \<Rightarrow> 'k iomanager" where
  "new_IOManager k = \<lparr>kernel = k, m_pendingEventCount = 0, m_fdContexts = contextResize 32 [], scheduled = []\<rparr>"

definition registered :: "'k iomanager \<Rightarrow> nat \<Rightarrow> Event \<Rightarrow> bool" where
  "registered io fd event \<longleftrightarrow> fd < length (m_fdContexts io) \<and> (event = READ \<or> event = WRITE) \<and> fc_events (m_fdContexts io ! fd) AND event \<noteq> 0"

text \<open>
  The operations under the conditions their callers keep: an event is added while it is not registered, deleted
  or cancelled while it is, and \<open>epoll_wait\<close> reports readiness only for registered events (besides errors and
  hang-ups). The step is labelled with the tasks that came in and those that were deleted.
\<close>

inductive io_step :: "'k epoll_ctl \<Rightarrow> 'k iomanager \<Rightarrow> task multiset \<Rightarrow> task multiset \<Rightarrow> 'k iomanager \<Rightarrow> bool" for ctl where
  add: "event = READ \<or> event = WRITE \<Longrightarrow> \<not> registered io fd event \<Longrightarrow> addEvent ctl fd event cb cur io = (Inr rt, io') \<Longrightarrow>
    io_step ctl io (if rt = 0 then {#new_task cb cur#} else {#}) {#} io'"
| del: "registered io fd event \<Longrightarrow> delEvent ctl fd event io = (Inr b, io') \<Longrightarrow>
    io_step ctl io {#} (if b then waiting_at io fd event else {#}) io'"
| cancel: "registered io fd event \<Longrightarrow> cancelEvent ctl fd event io = (Inr b, io') \<Longrightarrow> io_step ctl io {#} {#} io'"
| cancel_all: "fd < length (m_fdContexts io) \<Longrightarrow> cancelAll ctl fd io = (Inr b, io') \<Longrightarrow> io_step ctl io {#} {#} io'"
| report: "fd < length (m_fdContexts io) \<Longrightarrow> bit reported 0 \<longrightarrow> registered io fd READ \<Longrightarrow> bit reported 2 \<longrightarrow> registered io fd WRITE \<Longrightarrow>
    handle_event ctl fd reported io = (Inr (), io') \<Longrightarrow> io_step ctl io {#} {#} io'"

inductive io_reachable :: "'k epoll_ctl \<Rightarrow> task multiset \<Rightarrow> task multiset \<Rightarrow> 'k iomanager \<Rightarrow> bool" for ctl where
  init: "io_reachable ctl {#} {#} (new_IOManager k)"
| step: "io_reachable ctl A D io \<Longrightarrow> io_step ctl io a d io' \<Longrightarrow> io_reachable ctl (A + a) (D + d) io'"

lemma new_contexts:
  "i < n \<Longrightarrow> contextResize n [] ! i = new_FdContext i" "length (contextResize n []) = n"
  "(\<Sum>fc\<leftarrow>contextResize n []. event_bits fc) = 0" "(\<Sum>fc\<leftarrow>contextResize n []. fc_tasks fc) = {#}"
proof -
  have z: "event_bits \<circ> new_FdContext = (\<lambda>_. 0)" "fc_tasks \<circ> new_FdContext = (\<lambda>_. 0)"
    by (simp_all add: fun_eq_iff new_FdContext_def event_bits_def fc_tasks_def)
  show "i < n \<Longrightarrow> contextResize n [] ! i = new_FdContext i" "length (contextResize n []) = n"
    "(\<Sum>fc\<leftarrow>contextResize n []. event_bits fc) = 0" "(\<Sum>fc\<leftarrow>contextResize n []. fc_tasks fc) = {#}"
    by (simp_all add: contextResize_def z)
qed

lemma io_inv_new: "io_inv (new_IOManager k)" "io_tasks (new_IOManager k) = {#}"
proof -
  obtain n where n: "m_fdContexts (new_IOManager k) = contextResize n []" "32 \<le> n" by (simp add: new_IOManager_def)
  have ok: "fc_ok i (new_FdContext i)" for i by (simp add: fc_ok_def new_FdContext_def)
  show "io_inv (new_IOManager k)" unfolding io_inv_def n(1) new_contexts using ok new_contexts(1) n(2)
    by (simp add: new_IOManager_def)
  show "io_tasks (new_IOManager k) = {#}" unfolding io_tasks_def n(1) new_contexts by (simp add: new_IOManager_def)
qed

lemma io_step_ok: "io_step ctl io a d io' \<Longrightarrow> io_inv io \<Longrightarrow> io_inv io' \<and> io_tasks io' + d = io_tasks io + a"
proof (induction rule: io_step.induct)
  case (add event io fd cb cur rt io')
  then show ?case using addEvent_ok [of io event fd ctl cb cur] by (auto simp: registered_def)
next
  case (del io fd event b io')
  then have on: "fd < length (m_fdContexts io)" "event = READ \<or> event = WRITE" "fc_events (m_fdContexts io ! fd) AND event \<noteq> 0"
    by (simp_all add: registered_def)
  show ?case using delEvent_ok [OF \<open>io_inv io\<close> on, of ctl] unfolding del.hyps(2) by (cases b) (auto simp: add.commute)
next
  case (cancel io fd event b io')
  then show ?case using cancelEvent_ok [of io fd event ctl] by (auto simp: registered_def)
next
  case (cancel_all fd io b io')
  then show ?case using cancelAll_ok [of io fd ctl] by (cases "fc_events (m_fdContexts io ! fd) = 0") (auto simp: cancelAll_def)
next
  case (report fd io reported io')
  then show ?case using handle_event_ok [of io fd reported ctl] by (auto simp: registered_def and_READ and_WRITE)
qed

lemma io_reachable_ok: "io_reachable ctl A D io \<Longrightarrow> io_inv io \<and> io_tasks io + D = A"
proof (induction rule: io_reachable.induct)
  case (step A D io a d io')
  then have "io_inv io'" "io_tasks io' + d = io_tasks io + a" "io_tasks io + D = A" using io_step_ok by blast+
  then show ?case by (metis add.assoc add.commute)
qed (simp add: io_inv_new)

text \<open>A manager with one callback waiting for descriptor 1 to become readable, used as the concrete instance.\<close>

definition read_registered :: "unit iomanager" where
  "read_registered = snd (addEvent (\<lambda>k op fd ev. (0, k)) 1 READ (Some 7) 3 (new_IOManager ()))"

lemma read_registered_ok:
  "io_reachable (\<lambda>k op fd ev. (0, k)) {#Run_cb 7#} {#} read_registered"
  "fc_events (m_fdContexts read_registered ! 1) = READ" "1 < length (m_fdContexts read_registered)"
proof -
  let ?ctl = "\<lambda>(k :: unit) (op :: ctl_op) (fd :: nat) (ev :: u32). (0 :: int, k)"
  have nth: "contextResize 32 [] ! Suc 0 = new_FdContext (Suc 0)" "length (contextResize 32 []) = 32"
    by (simp_all add: new_contexts)
  have run: "addEvent ?ctl 1 READ (Some 7) 3 (new_IOManager ()) = (Inr 0, read_registered)" "fc_events (m_fdContexts read_registered ! 1) = READ"
      "1 < length (m_fdContexts read_registered)"
    unfolding read_registered_def
    by (simp_all add: addEvent_def new_IOManager_def nth new_FdContext_def getContext_def putContext_def put_fd_def Let_def empty_ctx_def)
  have "\<not> registered (new_IOManager ()) 1 READ" by (simp add: registered_def new_IOManager_def nth new_FdContext_def)
  from io_step.add [OF _ this run(1)] have st: "io_step ?ctl (new_IOManager ()) {#Run_cb 7#} {#} read_registered" by (simp add: new_task_def)
  show "io_reachable ?ctl {#Run_cb 7#} {#} read_registered" using io_reachable.step [OF io_reachable.init st] by simp
  show "fc_events (m_fdContexts read_registered ! 1) = READ" "1 < length (m_fdContexts read_registered)" by (fact run)+
qed

subsection \<open>Properties\<close>





text \<open>
  \<open>!fd_ctx->events & event\<close> does not test the event: with another event registered on the descriptor, deleting
  an unregistered one succeeds and drops the pending count below the number of waiting events, and cancelling
  it fails the assertion of \<open>triggerEvent\<close>.
\<close>

lemma unregistered_event_miscounted:
  assumes "io_inv io" and "fd < length (m_fdContexts io)" and "event = READ \<or> event = WRITE"
    and "fc_events (m_fdContexts io ! fd) AND event = 0" and "fc_events (m_fdContexts io ! fd) \<noteq> 0"
    and "\<And>k op fd ev. fst (ctl k op fd ev) = 0"
  shows "(\<exists>io'. delEvent ctl fd event io = (Inr True, io') \<and> m_fdContexts io' = m_fdContexts io \<and> m_pendingEventCount io' = m_pendingEventCount io - 1)
    \<and> fst (cancelEvent ctl fd event io) = Inl (Io_assert ''events & event'')"
  using assms by (rule unregistered_event)

text \<open>
  The time \<open>idle\<close> waits in \<open>epoll_wait\<close>: at most three seconds, and no longer than to the next timer, as long
  as that time fits an \<open>int\<close>; but when bit 31 of it is set (about 25 days) the \<open>int\<close> is negative and the wait has no limit.
\<close>

lemma idle_wait_bounds:
  "wait_timeout t \<le> 3000 \<and> (t \<noteq> - 1 \<longrightarrow> unat t < 2 ^ 31 \<longrightarrow> wait_timeout t = min 3000 (int (unat t)))
    \<and> (wait_timeout t < 0 \<longleftrightarrow> t \<noteq> - 1 \<and> bit t 31)"
proof -
  have eq: "wait_timeout t = (if t = - 1 then 3000 else min 3000 (sint (ucast t :: 32 word)))"
    by (auto simp: wait_timeout_def Let_def min_def)
  have neg: "sint (ucast t :: 32 word) < 0 \<longleftrightarrow> bit t 31"
    using bit_last_iff [of "ucast t :: 32 word"] by (simp add: bit_simps)
  have pos: "sint (ucast t :: 32 word) = int (unat t)" if "unat t < 2 ^ 31"
  proof -
    have u: "unat (ucast t :: 32 word) = unat t" using that by (simp add: unsigned_ucast_eq take_bit_nat_eq_self)
    have "sint (ucast t :: 32 word) = signed_take_bit 31 (int (unat t))"
      unfolding sint_uint uint_nat u by simp
    moreover have "signed_take_bit 31 (int n) = int n" if "n < 2 ^ 31" for n using that by (simp add: signed_take_bit_int_eq_self)
    ultimately show ?thesis using that by (simp only:)
  qed
  show ?thesis using eq neg pos by (auto simp: min_def)
qed

text \<open>
  Two threads that grow the table at the same time: each computes its size before it takes the write lock, so
  the one with the smaller descriptor, running second, shrinks the table and drops the other's context.
\<close>

lemma resize_race_drops_context:
  assumes "length ctxs \<le> fd" and "grown_size fd \<le> fd'"
  shows "length (contextResize (grown_size fd) (contextResize (grown_size fd') ctxs)) \<le> fd'"
  using assms by (auto simp: contextResize_def)

end
