(* ===== verification/OrderedSet.thy ===== *)
theory OrderedSet
  imports Prelude
begin

text \<open>
  \<open>std::set\<close> with a comparator, as the sequence its iterators run through. A key is equivalent to an
  element when neither is less than the other; \<open>insert\<close> leaves the set alone when an equivalent element
  is present, \<open>find\<close> returns the equivalent element or \<open>end()\<close>, \<open>lower_bound\<close> the rest of the sequence
  from the first element that is not less than the key.
\<close>

primrec oset_insert :: "('a \<Rightarrow> 'a \<Rightarrow> bool) \<Rightarrow> 'a \<Rightarrow> 'a list \<Rightarrow> 'a list" where
  "oset_insert lt x [] = [x]"
| "oset_insert lt x (y # ys) =
     (if lt x y then x # y # ys else if lt y x then y # oset_insert lt x ys else y # ys)"

primrec oset_find :: "('a \<Rightarrow> 'a \<Rightarrow> bool) \<Rightarrow> 'a \<Rightarrow> 'a list \<Rightarrow> 'a option" where
  "oset_find lt x [] = None"
| "oset_find lt x (y # ys) = (if lt y x then oset_find lt x ys else if lt x y then None else Some y)"

definition oset_erase :: "'a \<Rightarrow> 'a list \<Rightarrow> 'a list" where
  "oset_erase it xs = remove1 it xs"

definition oset_lower_bound :: "('a \<Rightarrow> 'a \<Rightarrow> bool) \<Rightarrow> 'a \<Rightarrow> 'a list \<Rightarrow> 'a list" where
  "oset_lower_bound lt x xs = dropWhile (\<lambda>y. lt y x) xs"

text \<open>What the container needs of the comparator, and what it gives back.\<close>

locale comparator =
  fixes lt :: "'a \<Rightarrow> 'a \<Rightarrow> bool"
  assumes lt_irrefl: "\<not> lt a a"
    and lt_trans: "lt a b \<Longrightarrow> lt b c \<Longrightarrow> lt a c"
    and lt_total: "lt a b \<or> a = b \<or> lt b a"
begin

lemma lt_asym: "lt a b \<Longrightarrow> \<not> lt b a"
  using lt_irrefl lt_trans by blast

lemma set_insert: "set (oset_insert lt x xs) = insert x (set xs)"
  using lt_total by (induction xs) auto

lemma sorted_insert: "sorted_wrt lt xs \<Longrightarrow> sorted_wrt lt (oset_insert lt x xs)"
  by (induction xs) (auto simp: set_insert intro: lt_trans)

lemma sorted_distinct: "sorted_wrt lt xs \<Longrightarrow> distinct xs"
  using lt_irrefl by (induction xs) auto

lemma find_eq: "sorted_wrt lt xs \<Longrightarrow> oset_find lt x xs = (if x \<in> set xs then Some x else None)"
proof (induction xs)
  case (Cons y ys)
  consider "lt y x" | "x = y" | "lt x y" using lt_total by blast
  then show ?case
  proof cases
    case 3
    then have "x \<notin> set (y # ys)" using Cons.prems lt_irrefl lt_asym by auto
    with 3 show ?thesis using lt_asym by simp
  qed (use Cons lt_irrefl in auto)
qed simp

lemma set_erase: "sorted_wrt lt xs \<Longrightarrow> set (oset_erase x xs) = set xs - {x}"
  by (simp add: oset_erase_def sorted_distinct set_remove1_eq)

lemma sorted_erase: "sorted_wrt lt xs \<Longrightarrow> sorted_wrt lt (oset_erase x xs)"
  by (induction xs) (auto simp: oset_erase_def dest: notin_set_remove1)

lemma insert_head:
  assumes "sorted_wrt lt xs" and "x \<notin> set xs"
  shows "hd (oset_insert lt x xs) = x \<longleftrightarrow> (\<forall>y \<in> set xs. lt x y)"
proof (cases xs)
  case (Cons y ys)
  show ?thesis
  proof (cases "lt x y")
    case True
    then show ?thesis using Cons assms(1) lt_trans [of x y] by auto
  next
    case False
    then show ?thesis using Cons assms(2) by auto
  qed
qed simp

text \<open>An initial segment of a sorted sequence that a downward closed test selects is a filter.\<close>

lemma takeWhile_filter:
  assumes "sorted_wrt lt xs" and "\<And>a b. lt a b \<Longrightarrow> P b \<Longrightarrow> P a"
  shows "takeWhile P xs = filter P xs" and "dropWhile P xs = filter (\<lambda>x. \<not> P x) xs"
proof -
  have "takeWhile P xs = filter P xs \<and> dropWhile P xs = filter (\<lambda>x. \<not> P x) xs"
    using assms(1)
  proof (induction xs)
    case (Cons x xs)
    show ?case
    proof (cases "P x")
      case False
      then have no: "\<forall>y \<in> set xs. \<not> P y" using Cons.prems assms(2) [of x] by auto
      then have "filter P xs = []" "filter (\<lambda>y. \<not> P y) xs = xs" by (simp_all add: filter_empty_conv)
      then show ?thesis using False by simp
    qed (use Cons in simp)
  qed simp
  then show "takeWhile P xs = filter P xs" "dropWhile P xs = filter (\<lambda>x. \<not> P x) xs" by simp_all
qed

lemma sorted_cong:
  "sorted_wrt lt xs \<Longrightarrow> (\<And>a b. a \<in> set xs \<Longrightarrow> b \<in> set xs \<Longrightarrow> lt a b = lt' a b) \<Longrightarrow> sorted_wrt lt' xs"
  by (induction xs) auto

end

end
