(* ===== verification/Timer.thy ===== *)
theory Timer
  imports OrderedSet
begin

text \<open>
  Timers (\<open>sylar/timer.h\<close>, \<open>sylar/timer.cpp\<close>). Timer objects live at addresses (natural numbers);
  \<open>m_heap\<close> gives the object at an address and \<open>m_timers\<close> is the \<open>std::set\<close> of the manager, ordered by
  \<open>Timer::Comparator\<close> through the current objects. Every member function that takes the manager's lock
  is one step; \<open>listExpiredCb\<close>, which takes it twice, is two. The clock value, the address of a new object
  and the liveness of weak pointers are arguments. \<open>front_calls\<close> counts the calls of the virtual
  \<open>onTimerInsertedAtFront\<close>. Times are \<open>uint64_t\<close> and wrap.
\<close>

record 'cb timer =
  m_recurring :: bool
  m_ms :: u64
  m_next :: u64
  m_cb :: "'cb option"

record 'cb timer_manager =
  m_heap :: "nat \<Rightarrow> 'cb timer"
  m_timers :: "nat list"
  m_tickled :: bool
  m_previousTime :: u64
  front_calls :: nat

text \<open>\<open>erase(end())\<close>, and \<open>*begin()\<close> of an empty set.\<close>

datatype timer_error = Erase_end | Deref_end

fun Comparator :: "(nat \<Rightarrow> 'cb timer) \<Rightarrow> nat option \<Rightarrow> nat option \<Rightarrow> bool" where
  "Comparator h None None = False"
| "Comparator h None (Some r) = True"
| "Comparator h (Some l) None = False"
| "Comparator h (Some l) (Some r) =
     (if m_next (h l) < m_next (h r) then True
      else if m_next (h l) > m_next (h r) then False
      else l < r)"

definition timer_lt :: "(nat \<Rightarrow> 'cb timer) \<Rightarrow> nat \<Rightarrow> nat \<Rightarrow> bool" where
  "timer_lt h l r = Comparator h (Some l) (Some r)"

definition new_Timer :: "u64 \<Rightarrow> 'cb option \<Rightarrow> bool \<Rightarrow> u64 \<Rightarrow> 'cb timer" where
  "new_Timer ms cb recurring now = \<lparr>m_recurring = recurring, m_ms = ms, m_next = now + ms, m_cb = cb\<rparr>"

definition new_Timer_next :: "u64 \<Rightarrow> 'cb timer" where
  "new_Timer_next nxt = \<lparr>m_recurring = False, m_ms = 0, m_next = nxt, m_cb = None\<rparr>"

definition new_TimerManager :: "u64 \<Rightarrow> 'cb timer_manager" where
  "new_TimerManager now =
     \<lparr>m_heap = (\<lambda>_. new_Timer_next 0), m_timers = [], m_tickled = False, m_previousTime = now, front_calls = 0\<rparr>"

definition tm_find :: "'cb timer_manager \<Rightarrow> nat \<Rightarrow> nat option" where
  "tm_find tm p = oset_find (timer_lt (m_heap tm)) p (m_timers tm)"

definition tm_insert :: "nat \<Rightarrow> 'cb timer_manager \<Rightarrow> 'cb timer_manager" where
  "tm_insert p tm = tm\<lparr>m_timers := oset_insert (timer_lt (m_heap tm)) p (m_timers tm)\<rparr>"

definition tm_erase :: "nat \<Rightarrow> 'cb timer_manager \<Rightarrow> 'cb timer_manager" where
  "tm_erase p tm = tm\<lparr>m_timers := oset_erase p (m_timers tm)\<rparr>"

definition tm_store :: "nat \<Rightarrow> 'cb timer \<Rightarrow> 'cb timer_manager \<Rightarrow> 'cb timer_manager" where
  "tm_store p t tm = tm\<lparr>m_heap := (m_heap tm)(p := t)\<rparr>"

text \<open>The protected \<open>addTimer(Timer::ptr, WriteLock&)\<close>.\<close>

definition addTimer_locked :: "nat \<Rightarrow> 'cb timer_manager \<Rightarrow> 'cb timer_manager" where
  "addTimer_locked val tm =
     (let tm1 = tm_insert val tm;
          at_front = (hd (m_timers tm1) = val) \<and> \<not> m_tickled tm1
      in if at_front then tm1\<lparr>m_tickled := True, front_calls := front_calls tm1 + 1\<rparr> else tm1)"

definition addTimer :: "nat \<Rightarrow> u64 \<Rightarrow> 'cb option \<Rightarrow> bool \<Rightarrow> u64 \<Rightarrow> 'cb timer_manager \<Rightarrow> 'cb timer_manager" where
  "addTimer p ms cb recurring now tm = addTimer_locked p (tm_store p (new_Timer ms cb recurring now) tm)"

definition cancel :: "nat \<Rightarrow> ('cb timer_manager, timer_error, bool) outcome" where
  "cancel p tm =
     (if m_cb (m_heap tm p) \<noteq> None then
        let tm1 = tm_store p ((m_heap tm p)\<lparr>m_cb := None\<rparr>) tm in
        case tm_find tm1 p of
          None \<Rightarrow> (Inl Erase_end, tm1)
        | Some it \<Rightarrow> (Inr True, tm_erase it tm1)
      else (Inr False, tm))"

definition refresh :: "nat \<Rightarrow> u64 \<Rightarrow> 'cb timer_manager \<Rightarrow> bool \<times> 'cb timer_manager" where
  "refresh p now tm =
     (if m_cb (m_heap tm p) = None then (False, tm)
      else case tm_find tm p of
        None \<Rightarrow> (False, tm)
      | Some it \<Rightarrow>
          let tm1 = tm_erase it tm;
              tm2 = tm_store p ((m_heap tm1 p)\<lparr>m_next := now + m_ms (m_heap tm1 p)\<rparr>) tm1
          in (True, tm_insert p tm2))"

definition timer_reset :: "nat \<Rightarrow> u64 \<Rightarrow> bool \<Rightarrow> u64 \<Rightarrow> 'cb timer_manager \<Rightarrow> bool \<times> 'cb timer_manager" where
  "timer_reset p ms from_now now tm =
     (if ms = m_ms (m_heap tm p) \<and> \<not> from_now then (True, tm)
      else if m_cb (m_heap tm p) = None then (False, tm)
      else case tm_find tm p of
        None \<Rightarrow> (False, tm)
      | Some it \<Rightarrow>
          let tm1 = tm_erase it tm;
              start = (if from_now then now else m_next (m_heap tm1 p) - m_ms (m_heap tm1 p));
              tm2 = tm_store p ((m_heap tm1 p)\<lparr>m_ms := ms, m_next := start + ms\<rparr>) tm1
          in (True, addTimer_locked p tm2))"

definition getNextTimer :: "u64 \<Rightarrow> 'cb timer_manager \<Rightarrow> u64 \<times> 'cb timer_manager" where
  "getNextTimer now_ms tm =
     (let tm1 = tm\<lparr>m_tickled := False\<rparr> in
      case m_timers tm1 of
        [] \<Rightarrow> (- 1, tm1)
      | nxt # _ \<Rightarrow>
          if now_ms \<ge> m_next (m_heap tm1 nxt) then (0, tm1)
          else (m_next (m_heap tm1 nxt) - now_ms, tm1))"

definition detectClockRollover :: "u64 \<Rightarrow> 'cb timer_manager \<Rightarrow> bool \<times> 'cb timer_manager" where
  "detectClockRollover now_ms tm =
     (now_ms < m_previousTime tm \<and> now_ms < m_previousTime tm - 60 * 60 * 1000, tm\<lparr>m_previousTime := now_ms\<rparr>)"

definition hasTimer :: "'cb timer_manager \<Rightarrow> bool" where
  "hasTimer tm = (m_timers tm \<noteq> [])"

text \<open>The loop over the expired timers; \<open>cbs\<close> grows at its end.\<close>

primrec expire_loop :: "u64 \<Rightarrow> nat list \<Rightarrow> 'cb option list \<Rightarrow> 'cb timer_manager \<Rightarrow> 'cb option list \<times> 'cb timer_manager" where
  "expire_loop now_ms [] cbs tm = (cbs, tm)"
| "expire_loop now_ms (p # ps) cbs tm =
     (let t = m_heap tm p; cbs1 = cbs @ [m_cb t] in
      if m_recurring t
      then expire_loop now_ms ps cbs1 (tm_insert p (tm_store p (t\<lparr>m_next := now_ms + m_ms t\<rparr>) tm))
      else expire_loop now_ms ps cbs1 (tm_store p (t\<lparr>m_cb := None\<rparr>) tm))"

text \<open>
  \<open>listExpiredCb\<close>: the look under the read lock (\<open>true\<close>: return at once), and the work under the write
  lock. \<open>q\<close> is the address of the temporary \<open>now_timer\<close>.
\<close>

definition listExpired_check :: "'cb timer_manager \<Rightarrow> bool" where
  "listExpired_check tm = (m_timers tm = [])"

definition listExpired_locked ::
    "nat \<Rightarrow> u64 \<Rightarrow> 'cb option list \<Rightarrow> ('cb timer_manager, timer_error, 'cb option list) outcome" where
  "listExpired_locked q now_ms cbs tm =
     (let (rollover, tm1) = detectClockRollover now_ms tm in
      if \<not> rollover \<and> m_timers tm1 = [] then (Inl Deref_end, tm1)
      else if \<not> rollover \<and> m_next (m_heap tm1 (hd (m_timers tm1))) > now_ms then (Inr cbs, tm1)
      else
        let h = (m_heap tm1)(q := new_Timer_next now_ms);
            from_it = (if rollover then [] else oset_lower_bound (timer_lt h) q (m_timers tm1));
            rest = dropWhile (\<lambda>p. m_next (m_heap tm1 p) = now_ms) from_it;
            expired = take (length (m_timers tm1) - length rest) (m_timers tm1);
            (cbs', tm2) = expire_loop now_ms expired cbs (tm1\<lparr>m_timers := rest\<rparr>)
        in (Inr cbs', tm2))"

definition listExpiredCb ::
    "nat \<Rightarrow> u64 \<Rightarrow> 'cb option list \<Rightarrow> ('cb timer_manager, timer_error, 'cb option list) outcome" where
  "listExpiredCb q now_ms cbs tm =
     (if listExpired_check tm then (Inr cbs, tm) else listExpired_locked q now_ms cbs tm)"

text \<open>\<open>addConditionTimer\<close> wraps the callback; \<open>run_callback\<close> is what calling it executes.\<close>

datatype ('w, 'f) callback = Plain 'f | OnTimer 'w 'f

fun run_callback :: "('w \<Rightarrow> bool) \<Rightarrow> ('w, 'f) callback \<Rightarrow> 'f list" where
  "run_callback alive (Plain f) = [f]"
| "run_callback alive (OnTimer weak_cond cb) = (if alive weak_cond then [cb] else [])"

definition addConditionTimer ::
    "nat \<Rightarrow> u64 \<Rightarrow> 'f \<Rightarrow> 'w \<Rightarrow> bool \<Rightarrow> u64 \<Rightarrow> ('w, 'f) callback timer_manager \<Rightarrow> ('w, 'f) callback timer_manager" where
  "addConditionTimer p ms cb weak_cond recurring now tm = addTimer p ms (Some (OnTimer weak_cond cb)) recurring now tm"

subsection \<open>The order of the timers\<close>

lemma timer_lt_iff: "timer_lt h l r \<longleftrightarrow> m_next (h l) < m_next (h r) \<or> m_next (h l) = m_next (h r) \<and> l < r"
  by (auto simp: timer_lt_def)

interpretation tl: comparator "timer_lt h" for h
  by unfold_locales (auto simp: timer_lt_iff)

definition tm_inv :: "'cb timer_manager \<Rightarrow> bool" where
  "tm_inv tm \<longleftrightarrow> sorted_wrt (timer_lt (m_heap tm)) (m_timers tm) \<and> (\<forall>p. m_cb (m_heap tm p) \<noteq> None \<longleftrightarrow> p \<in> set (m_timers tm))"

lemma sorted_store:
  assumes "sorted_wrt (timer_lt h) xs" and "p \<notin> set xs \<or> m_next t = m_next (h p)"
  shows "sorted_wrt (timer_lt (h(p := t))) xs"
proof (rule tl.sorted_cong [OF assms(1)])
  show "timer_lt h a b = timer_lt (h(p := t)) a b" if "a \<in> set xs" "b \<in> set xs" for a b
    using that assms(2) by (auto simp: timer_lt_iff)
qed

lemma tm_inv_new: "tm_inv (new_TimerManager now)"
  by (simp add: tm_inv_def new_TimerManager_def new_Timer_next_def)

lemma tm_find_inv: "tm_inv tm \<Longrightarrow> tm_find tm p = (if m_cb (m_heap tm p) \<noteq> None then Some p else None)"
  by (auto simp: tm_find_def tm_inv_def tl.find_eq)

text \<open>Putting a timer with a callback into the set, when it is not there.\<close>

lemma tm_inv_insert:
  assumes "sorted_wrt (timer_lt (m_heap tm)) (m_timers tm)" and "\<forall>p. p \<noteq> x \<longrightarrow> (m_cb (m_heap tm p) \<noteq> None \<longleftrightarrow> p \<in> set (m_timers tm))"
    and "m_cb (m_heap tm x) \<noteq> None"
  shows "tm_inv (tm_insert x tm)"
  using assms by (auto simp: tm_inv_def tm_insert_def tl.set_insert tl.sorted_insert)

lemma addTimer_locked_inv: "tm_inv (addTimer_locked x tm) = tm_inv (tm_insert x tm)"
  by (simp add: addTimer_locked_def Let_def tm_inv_def)

lemma addTimer_inv:
  assumes "tm_inv tm" and "p \<notin> set (m_timers tm)"
  shows "tm_inv (addTimer p ms (Some cb) recurring now tm)"
  unfolding addTimer_def addTimer_locked_inv
  using assms by (intro tm_inv_insert) (auto simp: tm_store_def tm_inv_def new_Timer_def intro!: sorted_store)

lemma cancel_live:
  assumes "tm_inv tm"
  shows "\<exists>tm'. cancel p tm = (Inr (m_cb (m_heap tm p) \<noteq> None), tm') \<and> tm_inv tm'
    \<and> set (m_timers tm') = set (m_timers tm) - {p} \<and> m_cb (m_heap tm' p) = None
    \<and> front_calls tm' = front_calls tm \<and> m_tickled tm' = m_tickled tm \<and> (\<forall>q. m_next (m_heap tm' q) = m_next (m_heap tm q))"
proof (cases "m_cb (m_heap tm p)")
  case None
  then have "p \<notin> set (m_timers tm)" using assms unfolding tm_inv_def by metis
  then show ?thesis using assms None by (simp add: cancel_def)
next
  case (Some cb)
  let ?tm = "tm_store p ((m_heap tm p)\<lparr>m_cb := None\<rparr>) tm"
  have s: "sorted_wrt (timer_lt (m_heap ?tm)) (m_timers ?tm)"
    using assms by (auto simp: tm_store_def tm_inv_def intro!: sorted_store)
  have "p \<in> set (m_timers tm)" using assms Some by (auto simp: tm_inv_def)
  then have "tm_find ?tm p = Some p" using s by (simp add: tm_find_def tl.find_eq) (simp add: tm_store_def)
  moreover have "set (m_timers (tm_erase p ?tm)) = set (m_timers tm) - {p}"
    using tl.set_erase [OF s] by (simp add: tm_erase_def) (simp add: tm_store_def)
  moreover have "tm_inv (tm_erase p ?tm)"
    using assms s tl.set_erase [OF s] tl.sorted_erase [OF s]
    by (auto simp: tm_inv_def tm_erase_def) (auto simp: tm_store_def split: if_splits)
  ultimately show ?thesis using Some by (simp add: cancel_def Let_def) (simp add: tm_erase_def tm_store_def)
qed

text \<open>Taking a live timer out, changing its times and putting it back.\<close>

lemma tm_inv_move:
  assumes "tm_inv tm" and "m_cb (m_heap tm p) \<noteq> None" and "m_cb t = m_cb (m_heap tm p)"
  shows "tm_inv (tm_insert p (tm_store p t (tm_erase p tm)))"
proof (rule tm_inv_insert)
  have s: "sorted_wrt (timer_lt (m_heap tm)) (m_timers tm)" using assms(1) by (simp add: tm_inv_def)
  note e = tl.set_erase [OF s, of p] tl.sorted_erase [OF s, of p]
  show "sorted_wrt (timer_lt (m_heap (tm_store p t (tm_erase p tm)))) (m_timers (tm_store p t (tm_erase p tm)))"
    using e by (auto simp: tm_store_def tm_erase_def intro!: sorted_store)
  show "\<forall>q. q \<noteq> p \<longrightarrow> (m_cb (m_heap (tm_store p t (tm_erase p tm)) q) \<noteq> None) =
      (q \<in> set (m_timers (tm_store p t (tm_erase p tm))))"
    using e assms(1) by (auto simp: tm_store_def tm_erase_def tm_inv_def)
qed (use assms in \<open>simp add: tm_store_def\<close>)

lemma refresh_inv: "tm_inv tm \<Longrightarrow> tm_inv (snd (refresh p now tm))"
  using tm_inv_move [of tm p] by (simp add: refresh_def tm_find_inv Let_def tm_erase_def)

lemma timer_reset_inv: "tm_inv tm \<Longrightarrow> tm_inv (snd (timer_reset p ms from_now now tm))"
  using tm_inv_move [of tm p]
  by (simp add: timer_reset_def tm_find_inv Let_def addTimer_locked_inv) (simp add: tm_erase_def)

subsection \<open>Expiry\<close>

definition fire :: "u64 \<Rightarrow> 'cb timer \<Rightarrow> 'cb timer" where
  "fire now t = (if m_recurring t then t\<lparr>m_next := now + m_ms t\<rparr> else t\<lparr>m_cb := None\<rparr>)"

lemma expire_loop_correct:
  assumes "sorted_wrt (timer_lt (m_heap tm)) (m_timers tm)" and "distinct ps" and "set ps \<inter> set (m_timers tm) = {}"
  shows "\<exists>tm'. expire_loop now ps cbs tm = (cbs @ map (\<lambda>p. m_cb (m_heap tm p)) ps, tm')
    \<and> sorted_wrt (timer_lt (m_heap tm')) (m_timers tm')
    \<and> m_heap tm' = (\<lambda>p. if p \<in> set ps then fire now (m_heap tm p) else m_heap tm p)
    \<and> set (m_timers tm') = set (m_timers tm) \<union> {p \<in> set ps. m_recurring (m_heap tm p)}"
  using assms
proof (induction ps arbitrary: cbs tm)
  case Nil
  then show ?case by simp
next
  case (Cons p ps)
  let ?t = "m_heap tm p"
  define tm1 where "tm1 = (if m_recurring ?t then tm_insert p (tm_store p (fire now ?t) tm) else tm_store p (fire now ?t) tm)"
  have run: "expire_loop now (p # ps) cbs tm = expire_loop now ps (cbs @ [m_cb ?t]) tm1"
    by (simp add: tm1_def fire_def Let_def)
  have st: "sorted_wrt (timer_lt (m_heap (tm_store p (fire now ?t) tm))) (m_timers (tm_store p (fire now ?t) tm))"
    using Cons.prems by (auto simp: tm_store_def intro!: sorted_store)
  have h1: "m_heap tm1 = (m_heap tm)(p := fire now ?t)"
    by (simp add: tm1_def tm_insert_def tm_store_def)
  have t1: "set (m_timers tm1) = set (m_timers tm) \<union> (if m_recurring ?t then {p} else {})"
    by (simp add: tm1_def tm_insert_def tl.set_insert) (simp add: tm_store_def)
  have "sorted_wrt (timer_lt (m_heap tm1)) (m_timers tm1)"
    using st by (simp add: tm1_def tm_insert_def tl.sorted_insert)
  moreover have "distinct ps" "set ps \<inter> set (m_timers tm1) = {}" using Cons.prems t1 by auto
  moreover have "map (\<lambda>x. m_cb (m_heap tm1 x)) ps = map (\<lambda>x. m_cb (m_heap tm x)) ps"
    using Cons.prems(2) h1 by auto
  moreover have "{x \<in> set ps. m_recurring (m_heap tm1 x)} = {x \<in> set ps. m_recurring (m_heap tm x)}"
    using Cons.prems(2) h1 by auto
  ultimately obtain tm' where tm': "expire_loop now ps (cbs @ [m_cb ?t]) tm1 = (cbs @ [m_cb ?t] @ map (\<lambda>x. m_cb (m_heap tm x)) ps, tm')"
      "sorted_wrt (timer_lt (m_heap tm')) (m_timers tm')"
      "m_heap tm' = (\<lambda>x. if x \<in> set ps then fire now (m_heap tm1 x) else m_heap tm1 x)"
      "set (m_timers tm') = set (m_timers tm1) \<union> {x \<in> set ps. m_recurring (m_heap tm x)}"
    using Cons.IH [of tm1 "cbs @ [m_cb ?t]"] by auto
  have "m_heap tm' = (\<lambda>x. if x \<in> set (p # ps) then fire now (m_heap tm x) else m_heap tm x)"
    using tm'(3) h1 Cons.prems(2) by auto
  moreover have "set (m_timers tm') = set (m_timers tm) \<union> {x \<in> set (p # ps). m_recurring (m_heap tm x)}"
    using tm'(4) t1 by auto
  ultimately show ?case using run tm'(1,2) by simp
qed

text \<open>The iterator that \<open>lower_bound\<close> and the following loop find: the first timer after \<open>now_ms\<close>.\<close>

lemma rest_after_now:
  assumes "sorted_wrt (timer_lt h) xs" and "q \<notin> set xs"
  shows "dropWhile (\<lambda>p. m_next (h p) = now) (oset_lower_bound (timer_lt (h(q := new_Timer_next now))) q xs) =
    filter (\<lambda>p. \<not> m_next (h p) \<le> now) xs"
proof -
  let ?h = "h(q := new_Timer_next now)" and ?P = "\<lambda>p. m_next (h p) \<le> now"
  have s: "sorted_wrt (timer_lt ?h) xs" using assms by (simp add: sorted_store)
  have lb: "oset_lower_bound (timer_lt ?h) q xs = filter (\<lambda>p. \<not> timer_lt ?h p q) xs" (is "_ = ?ys")
    unfolding oset_lower_bound_def by (rule tl.takeWhile_filter(2) [OF s]) (rule tl.lt_trans)
  have ys: "sorted_wrt (timer_lt h) ?ys" using assms(1) by (rule sorted_wrt_filter)
  have "m_next (h p) = now \<longleftrightarrow> ?P p" if "p \<in> set ?ys" for p
    using that assms(2) by (auto simp: timer_lt_iff new_Timer_next_def split: if_splits)
  then have "dropWhile (\<lambda>p. m_next (h p) = now) ?ys = dropWhile ?P ?ys" by (intro dropWhile_cong) auto
  also have "\<dots> = filter (\<lambda>p. \<not> ?P p) ?ys"
    by (rule tl.takeWhile_filter(2) [OF ys]) (auto simp: timer_lt_iff)
  also have "\<dots> = filter (\<lambda>p. \<not> ?P p) xs"
    using assms(2) by (auto simp: timer_lt_iff new_Timer_next_def intro!: filter_cong split: if_splits)
  finally show ?thesis using lb by simp
qed

lemma take_due:
  assumes "sorted_wrt (timer_lt h) xs"
  shows "take (length xs - length (filter (\<lambda>p. \<not> m_next (h p) \<le> now) xs)) xs = filter (\<lambda>p. m_next (h p) \<le> now) xs"
proof -
  let ?P = "\<lambda>p. m_next (h p) \<le> now"
  have f: "takeWhile ?P xs = filter ?P xs" "dropWhile ?P xs = filter (\<lambda>p. \<not> ?P p) xs"
    by (rule tl.takeWhile_filter [OF assms]; auto simp: timer_lt_iff)+
  have "length xs = length (takeWhile ?P xs) + length (dropWhile ?P xs)"
    by (metis length_append takeWhile_dropWhile_id)
  then show ?thesis by (metis f add_diff_cancel_right' takeWhile_eq_take)
qed

definition due :: "u64 \<Rightarrow> 'cb timer_manager \<Rightarrow> nat list" where
  "due now tm = filter (\<lambda>p. fst (detectClockRollover now tm) \<or> m_next (m_heap tm p) \<le> now) (m_timers tm)"

lemma listExpired_locked_correct:
  assumes "tm_inv tm" and "q \<notin> set (m_timers tm)" and "m_timers tm \<noteq> []"
  shows "\<exists>tm'. listExpired_locked q now cbs tm = (Inr (cbs @ map (\<lambda>p. m_cb (m_heap tm p)) (due now tm)), tm')
    \<and> tm_inv tm' \<and> m_heap tm' = (\<lambda>p. if p \<in> set (due now tm) then fire now (m_heap tm p) else m_heap tm p)
    \<and> set (m_timers tm') = set (m_timers tm) - {p \<in> set (due now tm). \<not> m_recurring (m_heap tm p)}"
proof -
  have s: "sorted_wrt (timer_lt (m_heap tm)) (m_timers tm)" and
    live: "\<And>p. m_cb (m_heap tm p) \<noteq> None \<longleftrightarrow> p \<in> set (m_timers tm)" using assms(1) by (auto simp: tm_inv_def)
  define roll where "roll = fst (detectClockRollover now tm)"
  let ?tm1 = "tm\<lparr>m_previousTime := now\<rparr>"
  have dc: "detectClockRollover now tm = (roll, ?tm1)" by (simp add: roll_def detectClockRollover_def)
  have du: "due now tm = filter (\<lambda>p. roll \<or> m_next (m_heap tm p) \<le> now) (m_timers tm)" by (simp add: due_def roll_def)
  show ?thesis
  proof (cases "\<not> roll \<and> m_next (m_heap tm (hd (m_timers tm))) > now")
    case True
    have "m_next (m_heap tm (hd (m_timers tm))) \<le> m_next (m_heap tm p)" if "p \<in> set (m_timers tm)" for p
      using that s assms(3) by (cases "m_timers tm") (auto simp: timer_lt_iff)
    then have "due now tm = []" using True by (fastforce simp: du filter_empty_conv)
    then show ?thesis
      using True assms by (simp add: listExpired_locked_def dc Let_def) (simp add: tm_inv_def)
  next
    case False
    define rest where "rest = filter (\<lambda>p. \<not> (roll \<or> m_next (m_heap tm p) \<le> now)) (m_timers tm)"
    have r: "dropWhile (\<lambda>p. m_next (m_heap tm p) = now) (if roll then []
        else oset_lower_bound (timer_lt ((m_heap tm)(q := new_Timer_next now))) q (m_timers tm)) = rest"
      using rest_after_now [OF s assms(2)] by (simp add: rest_def)
    have e: "take (length (m_timers tm) - length rest) (m_timers tm) = due now tm"
      using take_due [OF s, of now] by (cases roll) (simp_all add: rest_def du)
    have pre: "sorted_wrt (timer_lt (m_heap (?tm1\<lparr>m_timers := rest\<rparr>))) (m_timers (?tm1\<lparr>m_timers := rest\<rparr>))"
        "distinct (due now tm)" "set (due now tm) \<inter> set (m_timers (?tm1\<lparr>m_timers := rest\<rparr>)) = {}"
      using s tl.sorted_distinct [OF s] by (auto simp: rest_def du sorted_wrt_filter)
    have hp: "m_heap (?tm1\<lparr>m_timers := rest\<rparr>) = m_heap tm" "m_timers (?tm1\<lparr>m_timers := rest\<rparr>) = rest" by simp_all
    obtain tm' where tm': "expire_loop now (due now tm) cbs (?tm1\<lparr>m_timers := rest\<rparr>) = (cbs @ map (\<lambda>p. m_cb (m_heap tm p)) (due now tm), tm')"
        "sorted_wrt (timer_lt (m_heap tm')) (m_timers tm')"
        "m_heap tm' = (\<lambda>p. if p \<in> set (due now tm) then fire now (m_heap tm p) else m_heap tm p)"
        "set (m_timers tm') = set rest \<union> {p \<in> set (due now tm). m_recurring (m_heap tm p)}"
      using expire_loop_correct [OF pre, of now cbs, unfolded hp] by blast
    have t: "set (m_timers tm') = set (m_timers tm) - {p \<in> set (due now tm). \<not> m_recurring (m_heap tm p)}"
      using tm'(4) by (auto simp: rest_def du)
    have "(m_cb (m_heap tm' p) \<noteq> None) = (p \<in> set (m_timers tm'))" for p
      using live [of p] t tm'(3) by (auto simp: fire_def du)
    then have "tm_inv tm'" using tm'(2) by (simp add: tm_inv_def)
    moreover have "listExpired_locked q now cbs tm = (Inr (cbs @ map (\<lambda>p. m_cb (m_heap tm p)) (due now tm)), tm')"
      using False assms(3) tm'(1) r e by (auto simp: listExpired_locked_def dc Let_def not_less)
    ultimately show ?thesis using tm'(3) t by blast
  qed
qed

subsection \<open>The manager as a transition system\<close>

text \<open>Every locked section, with any clock values and any free address for a new timer.\<close>

inductive tm_step :: "'cb timer_manager \<Rightarrow> 'cb timer_manager \<Rightarrow> bool" where
  add: "p \<notin> set (m_timers tm) \<Longrightarrow> tm_step tm (addTimer p ms (Some cb) recurring now tm)"
| cancel: "cancel p tm = (res, tm') \<Longrightarrow> tm_step tm tm'"
| refresh: "tm_step tm (snd (refresh p now tm))"
| reset: "tm_step tm (snd (timer_reset p ms from_now now tm))"
| next_timer: "tm_step tm (snd (getNextTimer now tm))"
| expire: "q \<notin> set (m_timers tm) \<Longrightarrow> listExpiredCb q now cbs tm = (res, tm') \<Longrightarrow> tm_step tm tm'"

inductive tm_reachable :: "'cb timer_manager \<Rightarrow> bool" where
  init: "tm_reachable (new_TimerManager now)"
| step: "tm_reachable tm \<Longrightarrow> tm_step tm tm' \<Longrightarrow> tm_reachable tm'"

lemma getNextTimer_inv: "tm_inv tm \<Longrightarrow> tm_inv (snd (getNextTimer now tm))"
  by (auto simp: getNextTimer_def tm_inv_def Let_def split: list.splits)

lemma listExpiredCb_inv:
  assumes "tm_inv tm" and "q \<notin> set (m_timers tm)" and "listExpiredCb q now cbs tm = (res, tm')"
  shows "tm_inv tm'"
  using assms listExpired_locked_correct [OF assms(1,2), of now cbs]
  by (auto simp: listExpiredCb_def listExpired_check_def split: if_splits)

lemma tm_step_inv: "tm_step tm tm' \<Longrightarrow> tm_inv tm \<Longrightarrow> tm_inv tm'"
proof (induction rule: tm_step.induct)
  case (cancel p tm res tm')
  then show ?case using cancel_live [OF cancel(2), of p] by auto
qed (auto intro: addTimer_inv refresh_inv timer_reset_inv getNextTimer_inv listExpiredCb_inv)

lemma tm_reachable_inv: "tm_reachable tm \<Longrightarrow> tm_inv tm"
  by (induction rule: tm_reachable.induct) (auto intro: tm_inv_new tm_step_inv)

subsection \<open>No lost wakeup\<close>

text \<open>The operations that other threads run while the poller sleeps.\<close>

datatype 'cb tm_op = Add nat u64 'cb bool u64 | Cancel nat | Reset nat u64 bool u64

fun tm_run :: "'cb tm_op \<Rightarrow> 'cb timer_manager \<Rightarrow> 'cb timer_manager" where
  "tm_run (Add p ms cb recurring now) tm = (if p \<in> set (m_timers tm) then tm else addTimer p ms (Some cb) recurring now tm)"
| "tm_run (Cancel p) tm = snd (cancel p tm)"
| "tm_run (Reset p ms from_now now) tm = snd (timer_reset p ms from_now now tm)"

definition quiet :: "(u64 \<Rightarrow> bool) \<Rightarrow> nat \<Rightarrow> 'cb timer_manager \<Rightarrow> bool" where
  "quiet Q n tm \<longleftrightarrow> tm_inv tm \<and> n \<le> front_calls tm
     \<and> (front_calls tm = n \<longrightarrow> \<not> m_tickled tm \<and> (\<forall>p \<in> set (m_timers tm). Q (m_next (m_heap tm p))))"

lemma addTimer_locked_quiet:
  assumes "tm_inv (tm_insert p tm)" and "sorted_wrt (timer_lt (m_heap tm)) (m_timers tm)" and "p \<notin> set (m_timers tm)"
    and "n \<le> front_calls tm" and "front_calls tm = n \<longrightarrow> \<not> m_tickled tm \<and> (\<forall>y \<in> set (m_timers tm). Q (m_next (m_heap tm y)))"
    and "\<And>a b. Q a \<Longrightarrow> a \<le> b \<Longrightarrow> Q b"
  shows "quiet Q n (addTimer_locked p tm)"
proof -
  have hd: "hd (m_timers (tm_insert p tm)) = p \<longleftrightarrow> (\<forall>y \<in> set (m_timers tm). timer_lt (m_heap tm) p y)"
    unfolding tm_insert_def using tl.insert_head [OF assms(2,3)] by simp
  have "Q (m_next (m_heap tm p))" if f: "front_calls tm = n" and g: "hd (m_timers (tm_insert p tm)) \<noteq> p"
  proof -
    obtain y where y: "y \<in> set (m_timers tm)" "\<not> timer_lt (m_heap tm) p y" using g hd by auto
    then have "m_next (m_heap tm y) \<le> m_next (m_heap tm p)" using assms(3) by (auto simp: timer_lt_iff not_less)
    then show ?thesis using y assms(5,6) f by blast
  qed
  moreover have "set (m_timers (tm_insert p tm)) = insert p (set (m_timers tm))" by (simp add: tm_insert_def tl.set_insert)
  ultimately show ?thesis
    using assms(1,4,5) unfolding quiet_def addTimer_locked_inv
    by (auto simp: addTimer_locked_def Let_def) (auto simp: tm_insert_def)
qed

lemma tm_run_quiet:
  assumes "quiet Q n tm" and Q: "\<And>a b. Q a \<Longrightarrow> a \<le> b \<Longrightarrow> Q b"
  shows "quiet Q n (tm_run opn tm)"
proof -
  have inv: "tm_inv tm" and s: "sorted_wrt (timer_lt (m_heap tm)) (m_timers tm)" using assms(1) by (simp_all add: quiet_def tm_inv_def)
  show ?thesis
  proof (cases opn)
    case (Add p ms cb recurring now)
    have "quiet Q n (addTimer p ms (Some cb) recurring now tm)" if "p \<notin> set (m_timers tm)"
      unfolding addTimer_def using addTimer_inv [OF inv that, of ms cb recurring now] s that assms
      by (intro addTimer_locked_quiet) (auto simp: addTimer_def addTimer_locked_inv tm_store_def quiet_def intro!: sorted_store)
    then show ?thesis using Add assms(1) by simp
  next
    case (Cancel p)
    then show ?thesis using cancel_live [OF inv, of p] assms(1) by (auto simp: quiet_def)
  next
    case (Reset p ms from_now now)
    note e = tl.set_erase [OF s, of p] tl.sorted_erase [OF s, of p]
    have "quiet Q n (addTimer_locked p (tm_store p t (tm_erase p tm)))"
      if "m_cb (m_heap tm p) \<noteq> None" "m_cb t = m_cb (m_heap tm p)" for t
      using tm_inv_move [OF inv that] e assms
      by (intro addTimer_locked_quiet) (auto simp: tm_store_def tm_erase_def quiet_def intro!: sorted_store)
    then show ?thesis
      using Reset assms(1) inv by (simp add: timer_reset_def tm_find_inv Let_def) (simp add: tm_erase_def)
  qed
qed

lemma fold_tm_run_quiet:
  "quiet Q n tm \<Longrightarrow> (\<And>a b. Q a \<Longrightarrow> a \<le> b \<Longrightarrow> Q b) \<Longrightarrow> quiet Q n (fold tm_run ops tm)"
  by (induction ops arbitrary: tm) (auto intro: tm_run_quiet)

subsection \<open>Properties\<close>

text \<open>
  C7. \<open>listExpiredCb\<close> returns the callbacks of exactly the timers that are due (all of them after a
  clock roll-over, otherwise those with \<open>m_next \<le> now\<close>) in the order of their deadlines, takes them out of
  the set, rearms the recurring ones at \<open>now + m_ms\<close>, clears the callback of the others and touches no other
  timer; whatever address the temporary search timer gets.
\<close>

theorem listExpiredCb_fires_due:
  assumes "tm_inv tm" and "q \<notin> set (m_timers tm)"
  shows "\<exists>tm'. listExpiredCb q now cbs tm = (Inr (cbs @ map (\<lambda>p. m_cb (m_heap tm p)) (due now tm)), tm') \<and> tm_inv tm'
    \<and> m_heap tm' = (\<lambda>p. if p \<in> set (due now tm) then fire now (m_heap tm p) else m_heap tm p)
    \<and> set (m_timers tm') = set (m_timers tm) - {p \<in> set (due now tm). \<not> m_recurring (m_heap tm p)}
    \<and> sorted_wrt (\<lambda>a b. m_next (m_heap tm a) \<le> m_next (m_heap tm b)) (due now tm)"
proof -
  have "sorted_wrt (timer_lt (m_heap tm)) (due now tm)"
    using assms(1) by (simp add: due_def tm_inv_def sorted_wrt_filter)
  then have "sorted_wrt (\<lambda>a b. m_next (m_heap tm a) \<le> m_next (m_heap tm b)) (due now tm)"
    by (rule sorted_wrt_mono_rel [rotated]) (auto simp: timer_lt_iff)
  then show ?thesis
    using listExpired_locked_correct [OF assms, of now cbs] assms(1)
    by (cases "m_timers tm = []") (auto simp: listExpiredCb_def listExpired_check_def due_def)
qed

theorem listExpiredCb_fires_due_witness:
  "\<exists>tm'. listExpiredCb 9 20 [] (addTimer 1 5 (Some ''a'') False 10 (new_TimerManager 0)) = (Inr [Some ''a''], tm')"
proof -
  let ?tm = "addTimer 1 5 (Some ''a'') False 10 (new_TimerManager 0)"
  have "m_timers ?tm = [1]" "m_cb (m_heap ?tm 1) = Some ''a''" "m_next (m_heap ?tm 1) = 15"
    by (simp_all add: addTimer_def addTimer_locked_def tm_insert_def tm_store_def new_TimerManager_def new_Timer_def)
  moreover have "tm_inv ?tm" by (intro addTimer_inv tm_inv_new) (simp add: new_TimerManager_def)
  ultimately show ?thesis
    using listExpiredCb_fires_due [of ?tm 9 20 "[]"] by (auto simp: due_def)
qed

text \<open>
  \<open>getNextTimer\<close>: 0 exactly when a timer is due; otherwise the exact time until the earliest
  deadline, so that no timer is due before \<open>now + r\<close> and one is due then; the largest value when there is no timer.
\<close>

lemma getNextTimer_time_left:
  assumes "tm_inv tm"
  shows "case getNextTimer now tm of (r, tm') \<Rightarrow> \<not> m_tickled tm' \<and> m_timers tm' = m_timers tm \<and> m_heap tm' = m_heap tm
    \<and> (m_timers tm = [] \<longrightarrow> r = - 1)
    \<and> (m_timers tm \<noteq> [] \<longrightarrow> (r = 0 \<longleftrightarrow> (\<exists>p \<in> set (m_timers tm). m_next (m_heap tm p) \<le> now))
      \<and> (r \<noteq> 0 \<longrightarrow> (\<forall>p \<in> set (m_timers tm). now + r \<le> m_next (m_heap tm p)) \<and> (\<exists>p \<in> set (m_timers tm). m_next (m_heap tm p) = now + r)))"
proof (cases "m_timers tm")
  case (Cons x xs)
  have min: "m_next (m_heap tm x) \<le> m_next (m_heap tm p)" if "p \<in> set (m_timers tm)" for p
    using that assms Cons by (auto simp: tm_inv_def timer_lt_iff)
  show ?thesis
  proof (cases "m_next (m_heap tm x) \<le> now")
    case False
    then have "m_next (m_heap tm x) - now \<noteq> 0" by auto
    moreover have "\<not> (\<exists>p \<in> set (m_timers tm). m_next (m_heap tm p) \<le> now)" using False min by force
    ultimately show ?thesis using Cons False min by (simp add: getNextTimer_def)
  qed (use Cons in \<open>auto simp: getNextTimer_def\<close>)
qed (simp add: getNextTimer_def)

text \<open>
  In every state the manager can reach, through any interleaving of its locked operations, the set is
  strictly ordered by deadline and address, holds exactly the timers that have a callback, and
  \<open>cancel\<close> therefore never erases \<open>end()\<close>: it returns whether the timer was live, and afterwards the
  timer is neither in the set nor has a callback.
\<close>

lemma reachable_cancel_safe:
  assumes "tm_reachable tm"
  shows "sorted_wrt (timer_lt (m_heap tm)) (m_timers tm) \<and> (\<forall>p. m_cb (m_heap tm p) \<noteq> None \<longleftrightarrow> p \<in> set (m_timers tm))
    \<and> (\<exists>tm'. cancel p tm = (Inr (p \<in> set (m_timers tm)), tm') \<and> p \<notin> set (m_timers tm') \<and> m_cb (m_heap tm' p) = None)"
proof -
  have inv: "tm_inv tm" by (rule tm_reachable_inv [OF assms])
  then have "(m_cb (m_heap tm p) \<noteq> None) = (p \<in> set (m_timers tm))" unfolding tm_inv_def by blast
  with cancel_live [OF inv, of p] inv show ?thesis by (auto simp: tm_inv_def)
qed

text \<open>A manager with one timer, due at 5.\<close>

definition one_timer :: "string timer_manager" where
  "one_timer = addTimer 1 5 (Some ''a'') False 0 (new_TimerManager 0)"

lemmas demo_defs = addTimer_def addTimer_locked_def tm_insert_def tm_store_def new_Timer_def new_TimerManager_def new_Timer_next_def
  getNextTimer_def timer_lt_def



text \<open>
  \<open>listExpiredCb\<close> releases the lock between its emptiness test and its work. Another thread may cancel
  the only timer in between: then \<open>*m_timers.begin()\<close> is read from an empty set.
\<close>

lemma listExpiredCb_race:
  "\<exists>(tm :: string timer_manager) p q now cbs. tm_reachable tm \<and> \<not> listExpired_check tm
    \<and> fst (listExpired_locked q now cbs (snd (cancel p tm))) = Inl Deref_end"
proof -
  let ?tm0 = "new_TimerManager 0 :: string timer_manager"
  let ?tm = "addTimer 1 5 (Some ''a'') False 10 ?tm0"
  have t: "m_timers ?tm = [1]" "m_previousTime ?tm = 0"
    by (simp_all add: addTimer_def addTimer_locked_def tm_insert_def tm_store_def new_TimerManager_def)
  have r: "tm_reachable ?tm" by (rule tm_reachable.step [OF tm_reachable.init tm_step.add]) (simp add: new_TimerManager_def)
  from cancel_live [OF tm_reachable_inv [OF r], of 1] have "m_timers (snd (cancel 1 ?tm)) = []" using t by auto
  moreover have "m_previousTime (snd (cancel 1 ?tm)) = m_previousTime ?tm"
    by (auto simp: cancel_def Let_def tm_store_def tm_erase_def split: option.splits)
  ultimately have "fst (listExpired_locked 9 20 [] (snd (cancel 1 ?tm))) = Inl Deref_end"
    using t by (simp add: listExpired_locked_def detectClockRollover_def)
  moreover have "\<not> listExpired_check ?tm" using t by (simp add: listExpired_check_def)
  ultimately show ?thesis using r by blast
qed

end
