(* ===== verification/EventLoop.thy ===== *)
theory EventLoop
  imports IOManager Timer
begin

text \<open>
  The loop of \<open>IOManager::idle\<close> (\<open>sylar/iomanager.cpp\<close>), which joins the event table with the timers, and the construction of the manager. One
  iteration runs from the test for the end to \<open>swapOut\<close>. The kernel is a parameter: what \<open>epoll_create\<close>, \<open>pipe\<close> and \<open>fcntl\<close> return, \<open>epoll_ctl\<close>,
  and \<open>epoll_wait\<close>, which gets the time limit. \<open>el_pipe\<close> counts the bytes in the pipe that wakes a waiting thread. Timer callbacks are numbered like the others.
\<close>

datatype report = Tickled | Ready nat u32

datatype wait_result = Interrupted | Wait_failed | Reports "report list"

record 'k poller =
  pl_create :: "'k \<Rightarrow> int \<times> 'k"
  pl_pipe :: "'k \<Rightarrow> int \<times> 'k"
  pl_nonblock :: "'k \<Rightarrow> int \<times> 'k"
  pl_add_pipe :: "'k \<Rightarrow> int \<times> 'k"
  pl_ctl :: "'k epoll_ctl"
  pl_write :: "'k \<Rightarrow> int \<times> 'k"
  pl_wait :: "int \<Rightarrow> 'k \<Rightarrow> wait_result \<times> 'k"

record 'k event_loop =
  el_io :: "'k iomanager"
  el_tm :: "nat timer_manager"
  el_pipe :: nat

datatype loop_error = Loop_io io_error | Loop_timer timer_error

section \<open>Construction\<close>

text \<open>The constructor, up to \<open>start()\<close>: every call is asserted to succeed.\<close>

definition open_IOManager :: "'k poller \<Rightarrow> u64 \<Rightarrow> 'k \<Rightarrow> io_error + 'k event_loop" where
  "open_IOManager P now k =
     (case pl_create P k of (m_epfd, k1) \<Rightarrow>
        if \<not> 0 < m_epfd then Inl (Io_assert ''m_epfd > 0'')
        else case pl_pipe P k1 of (rt, k2) \<Rightarrow>
        if rt \<noteq> 0 then Inl (Io_assert ''pipe'')
        else case pl_nonblock P k2 of (rt, k3) \<Rightarrow>
        if rt \<noteq> 0 then Inl (Io_assert ''fcntl'')
        else case pl_add_pipe P k3 of (rt, k4) \<Rightarrow>
        if rt \<noteq> 0 then Inl (Io_assert ''epoll_ctl'')
        else Inr \<lparr>el_io = new_IOManager k4, el_tm = new_TimerManager now, el_pipe = 0\<rparr>)"

text \<open>\<open>tickle\<close> writes a byte when some thread is idle; \<open>onTimerInsertedAtFront\<close> is the same.\<close>

definition io_tickle :: "'k poller \<Rightarrow> nat \<Rightarrow> ('k event_loop, io_error, unit) outcome" where
  "io_tickle P m_idleThreadCount el =
     (if \<not> 0 < m_idleThreadCount then (Inr (), el)
      else case pl_write P (kernel (el_io el)) of (rt, k) \<Rightarrow>
        let el1 = el\<lparr>el_io := (el_io el)\<lparr>kernel := k\<rparr>\<rparr> in
        if rt = 1 then (Inr (), el1\<lparr>el_pipe := el_pipe el + 1\<rparr>) else (Inl (Io_assert ''rt == 1''), el1))"

definition onTimerInsertedAtFront :: "'k poller \<Rightarrow> nat \<Rightarrow> ('k event_loop, io_error, unit) outcome" where
  "onTimerInsertedAtFront P m_idleThreadCount el = io_tickle P m_idleThreadCount el"

section \<open>An iteration\<close>

text \<open>\<open>stopping(timeout)\<close> asks the timers, which also clears their \<open>m_tickled\<close>.\<close>

definition el_stopping :: "u64 \<Rightarrow> bool \<Rightarrow> 'k event_loop \<Rightarrow> bool \<times> u64 \<times> 'k event_loop" where
  "el_stopping now scheduler_stopping el =
     (let (timeout, tm1) = getNextTimer now (el_tm el)
      in (io_stopping timeout scheduler_stopping (el_io el), timeout, el\<lparr>el_tm := tm1\<rparr>))"

definition clamp_timeout :: "u64 \<Rightarrow> u64" where
  "clamp_timeout t = (if t \<noteq> - 1 then (if sint (ucast t :: 32 word) > 3000 then 3000 else t) else 3000)"

text \<open>The inner loop: again after a signal. It need not end.\<close>

partial_function (option) epoll_wait_loop :: "(int \<Rightarrow> 'k \<Rightarrow> wait_result \<times> 'k) \<Rightarrow> u64 \<Rightarrow> 'k \<Rightarrow> (wait_result \<times> 'k) option" where
  "epoll_wait_loop wait t k =
     (case wait (sint (ucast (clamp_timeout t) :: 32 word)) k of (r, k1) \<Rightarrow>
        if r = Interrupted then epoll_wait_loop wait (clamp_timeout t) k1 else Some (r, k1))"

text \<open>
  The reports. The bytes of the pipe are read 256 at a time, again after a read of exactly one (of an empty pipe \<open>read\<close> gives -1). Other reports are those of \<open>handle_event\<close>.
\<close>

function drain_pipe :: "nat \<Rightarrow> nat" where
  "drain_pipe n = (let got = min n 256 in if got = 1 then drain_pipe (n - got) else n - got)"
  by pat_completeness auto
termination by (relation "measure id") auto

declare drain_pipe.simps [simp del]

primrec handle_reports :: "'k epoll_ctl \<Rightarrow> report list \<Rightarrow> ('k event_loop, io_error, unit) outcome" where
  "handle_reports ctl [] el = (Inr (), el)"
| "handle_reports ctl (r # rs) el =
     (case r of
        Tickled \<Rightarrow> handle_reports ctl rs (el\<lparr>el_pipe := drain_pipe (el_pipe el)\<rparr>)
      | Ready fd events \<Rightarrow>
          (case handle_event ctl fd events (el_io el) of
             (Inl e, io) \<Rightarrow> (Inl e, el\<lparr>el_io := io\<rparr>)
           | (Inr _, io) \<Rightarrow> handle_reports ctl rs (el\<lparr>el_io := io\<rparr>)))"

text \<open>\<open>schedule(cbs.begin(), cbs.end())\<close>: a null function is not put into the task list, and no thread is woken (the call of \<open>tickle\<close> there is commented out).\<close>

definition cb_tasks :: "nat option list \<Rightarrow> task list" where
  "cb_tasks cbs = concat (map (\<lambda>cb. case cb of Some c \<Rightarrow> [Run_cb c] | None \<Rightarrow> []) cbs)"

definition schedule_cbs :: "nat option list \<Rightarrow> 'k event_loop \<Rightarrow> 'k event_loop" where
  "schedule_cbs cbs el = el\<lparr>el_io := (el_io el)\<lparr>scheduled := scheduled (el_io el) @ cb_tasks cbs\<rparr>\<rparr>"

datatype idle_end = Idle_stopped | Idle_swapOut

text \<open>\<open>now1\<close> and \<open>now2\<close> are the times when the timers are asked, \<open>q\<close> is the address of the temporary timer in \<open>listExpiredCb\<close>.\<close>

definition idle_iteration ::
  "'k poller \<Rightarrow> u64 \<Rightarrow> u64 \<Rightarrow> nat \<Rightarrow> bool \<Rightarrow> 'k event_loop \<Rightarrow> ((loop_error + idle_end) \<times> 'k event_loop) option" where
  "idle_iteration P now1 now2 q scheduler_stopping el =
     (case el_stopping now1 scheduler_stopping el of (stop, next_timeout, el1) \<Rightarrow>
        if stop \<and> next_timeout = - 1 then Some (Inr Idle_stopped, el1)
        else case epoll_wait_loop (pl_wait P) next_timeout (kernel (el_io el1)) of
          None \<Rightarrow> None
        | Some (r, k) \<Rightarrow>
            let el2 = el1\<lparr>el_io := (el_io el1)\<lparr>kernel := k\<rparr>\<rparr> in
            (case listExpiredCb q now2 [] (el_tm el2) of
               (Inl e, tm2) \<Rightarrow> Some (Inl (Loop_timer e), el2\<lparr>el_tm := tm2\<rparr>)
             | (Inr cbs, tm2) \<Rightarrow>
                 Some (case handle_reports (pl_ctl P) (case r of Reports rs \<Rightarrow> rs | _ \<Rightarrow> []) (schedule_cbs cbs (el2\<lparr>el_tm := tm2\<rparr>)) of
                         (Inl e, el3) \<Rightarrow> (Inl (Loop_io e), el3)
                       | (Inr _, el3) \<Rightarrow> (Inr Idle_swapOut, el3))))"

section \<open>The reports\<close>

text \<open>Draining leaves bytes only when more than 256 were written.\<close>

lemma drain_pipe_eq: "drain_pipe n = n - 256"
proof (cases "n = 1")
  case True
  then show ?thesis using drain_pipe.simps [of 1] drain_pipe.simps [of 0] by simp
next
  case False
  then show ?thesis using drain_pipe.simps [of n] by (simp add: Let_def min_def)
qed

lemma trigger_at_frame:
  assumes "trigger_at fd event io = (r, io')"
  shows "length (m_fdContexts io') = length (m_fdContexts io) \<and> (\<forall>j. j \<noteq> fd \<longrightarrow> m_fdContexts io' ! j = m_fdContexts io ! j) \<and> (\<exists>ts. scheduled io' = scheduled io @ ts)"
  using assms by (auto simp: trigger_at_def put_fd_def split: sum.splits prod.splits)

lemma trigger_if_frame:
  assumes "trigger_if fd m event io = (r, io')"
  shows "length (m_fdContexts io') = length (m_fdContexts io) \<and> (\<forall>j. j \<noteq> fd \<longrightarrow> m_fdContexts io' ! j = m_fdContexts io ! j) \<and> (\<exists>ts. scheduled io' = scheduled io @ ts)"
  using assms trigger_at_frame [of fd event io] by (auto simp: trigger_if_def split: if_splits)

lemma handle_event_frame:
  assumes "handle_event ctl fd reported io = (r, io')"
  shows "length (m_fdContexts io') = length (m_fdContexts io) \<and> (\<forall>j. j \<noteq> fd \<longrightarrow> m_fdContexts io' ! j = m_fdContexts io ! j) \<and> (\<exists>ts. scheduled io' = scheduled io @ ts)"
proof -
  define m where "m = real_events_of reported (fc_events (m_fdContexts io ! fd))"
  consider "m_fdContexts io' = m_fdContexts io" "scheduled io' = scheduled io"
    | k where "andThen (trigger_if fd m READ) (\<lambda>_. trigger_if fd m WRITE) (io\<lparr>kernel := k\<rparr>) = (r, io')"
    using assms by (auto simp: handle_event_def Let_def m_def split: if_splits prod.splits)
  then show ?thesis
  proof cases
    case 2
    obtain r1 io1 where 1: "trigger_if fd m READ (io\<lparr>kernel := k\<rparr>) = (r1, io1)" by (metis surj_pair)
    show ?thesis
    proof (cases r1)
      case (Inl e)
      then show ?thesis using 2 1 trigger_if_frame [OF 1] by (auto simp: andThen_def)
    next
      case (Inr u)
      then have "trigger_if fd m WRITE io1 = (r, io')" using 2 1 by (simp add: andThen_def)
      then show ?thesis using trigger_if_frame [OF 1] trigger_if_frame [of fd m WRITE io1 r io'] by auto
    qed
  qed simp
qed

text \<open>
  What \<open>epoll_wait\<close> may report: each descriptor once, and readiness only for registered events, besides errors and hang-ups.
\<close>

definition report_ok :: "'k iomanager \<Rightarrow> report \<Rightarrow> bool" where
  "report_ok io r = (case r of Tickled \<Rightarrow> True
     | Ready fd events \<Rightarrow> fd < length (m_fdContexts io) \<and> (bit events 0 \<longrightarrow> bit (fc_events (m_fdContexts io ! fd)) 0) \<and> (bit events 2 \<longrightarrow> bit (fc_events (m_fdContexts io ! fd)) 2))"

primrec reports_ok :: "'k iomanager \<Rightarrow> report list \<Rightarrow> bool" where
  "reports_ok io [] = True"
| "reports_ok io (r # rs) = (report_ok io r \<and> (case r of Tickled \<Rightarrow> True | Ready fd events \<Rightarrow> list_all (\<lambda>r2. case r2 of Tickled \<Rightarrow> True | Ready fd2 _ \<Rightarrow> fd2 \<noteq> fd) rs)
     \<and> reports_ok io rs)"

lemma reports_ok_cong:
  assumes "length (m_fdContexts io') = length (m_fdContexts io)" and "\<And>j. j \<noteq> fd \<Longrightarrow> m_fdContexts io' ! j = m_fdContexts io ! j"
    and "list_all (\<lambda>r. case r of Tickled \<Rightarrow> True | Ready fd2 _ \<Rightarrow> fd2 \<noteq> fd) rs"
  shows "reports_ok io' rs = reports_ok io rs"
  using assms(3)
proof (induction rs)
  case (Cons r rs)
  then show ?case using assms(1,2) by (cases r) (auto simp: report_ok_def)
qed simp

lemma handle_reports_ok:
  assumes "io_inv (el_io el)" and "reports_ok (el_io el) rs"
  shows "\<exists>el' ts. handle_reports ctl rs el = (Inr (), el') \<and> io_inv (el_io el') \<and> io_tasks (el_io el') = io_tasks (el_io el) \<and> el_tm el' = el_tm el
    \<and> scheduled (el_io el') = scheduled (el_io el) @ ts"
  using assms
proof (induction rs arbitrary: el)
  case (Cons r rs)
  show ?case
  proof (cases r)
    case Tickled
    then show ?thesis using Cons.IH [of "el\<lparr>el_pipe := drain_pipe (el_pipe el)\<rparr>"] Cons.prems by simp
  next
    case (Ready fd events)
    obtain io1 where io1: "handle_event ctl fd events (el_io el) = (Inr (), io1)" "io_inv io1" "io_tasks io1 = io_tasks (el_io el)"
      using handle_event_ok [OF Cons.prems(1), of fd events ctl] Cons.prems(2) Ready by (auto simp: report_ok_def)
    note frame = handle_event_frame [OF io1(1)]
    then have "reports_ok io1 rs" using reports_ok_cong [of io1 "el_io el" fd rs] Cons.prems(2) Ready by auto
    then show ?thesis using Cons.IH [of "el\<lparr>el_io := io1\<rparr>"] io1 frame Ready by auto
  qed
qed simp

section \<open>The iteration\<close>

lemma wait_timeout_clamp: "wait_timeout t = sint (ucast (clamp_timeout t) :: 32 word)"
  by (simp add: wait_timeout_def clamp_timeout_def Let_def)

lemma clamp_idem: "clamp_timeout (clamp_timeout t) = clamp_timeout t"
  by (auto simp: clamp_timeout_def)

text \<open>After signals the kernel is asked again with the same limit.\<close>

lemma epoll_wait_same_limit:
  assumes "epoll_wait_loop wait t k = Some y"
  shows "fst y \<noteq> Interrupted \<and> (\<exists>k1. wait (wait_timeout t) k1 = y)"
proof (rule epoll_wait_loop.raw_induct [where P = "\<lambda>wait t k y. fst y \<noteq> Interrupted \<and> (\<exists>k1. wait (wait_timeout t) k1 = y)", OF _ assms])
  fix loop and wait :: "int \<Rightarrow> 'b \<Rightarrow> wait_result \<times> 'b" and t k y
  assume IH: "\<And>wait t k y. loop wait t k = Some y \<Longrightarrow> fst y \<noteq> Interrupted \<and> (\<exists>k1. wait (wait_timeout t) k1 = y)"
    and step: "(case wait (sint (ucast (clamp_timeout t) :: 32 word)) k of (r, k1) \<Rightarrow> if r = Interrupted then loop wait (clamp_timeout t) k1 else Some (r, k1)) = Some y"
  obtain r k1 where w: "wait (wait_timeout t) k = (r, k1)" by (metis surj_pair)
  show "fst y \<noteq> Interrupted \<and> (\<exists>k1. wait (wait_timeout t) k1 = y)"
  proof (cases "r = Interrupted")
    case True
    then have "loop wait (clamp_timeout t) k1 = Some y" using step w by (simp add: wait_timeout_clamp)
    from IH [OF this] show ?thesis by (simp add: wait_timeout_clamp clamp_idem)
  next
    case False
    then show ?thesis using step w by (auto simp: wait_timeout_clamp)
  qed
qed

lemma cb_tasks_map: "list_all (\<lambda>p. f p \<noteq> None) ps \<Longrightarrow> cb_tasks (map f ps) = map (\<lambda>p. Run_cb (the (f p))) ps"
  by (induction ps) (auto simp: cb_tasks_def)

lemma due_tasks:
  assumes "tm_inv tm"
  shows "cb_tasks (map (\<lambda>p. m_cb (m_heap tm p)) (due now tm)) = map (\<lambda>p. Run_cb (the (m_cb (m_heap tm p)))) (due now tm)"
  using assms by (intro cb_tasks_map) (auto simp: tm_inv_def due_def list_all_iff)

text \<open>The answer of the timers, and the wait it leads to.\<close>

lemma no_timer_iff: "0 < now \<Longrightarrow> fst (getNextTimer now tm) = - 1 \<longleftrightarrow> m_timers tm = []"
proof -
  have "x - now \<noteq> - 1" if "0 < now" "now < x" for x :: u64
  proof
    assume "x - now = - 1"
    then have "x = now - 1" by (simp add: algebra_simps)
    moreover have "now - 1 < now" using that(1) by unat_arith
    ultimately show False using that(2) by simp
  qed
  then show "0 < now \<Longrightarrow> ?thesis" by (auto simp: getNextTimer_def Let_def not_le split: list.splits)
qed

text \<open>\<open>listExpiredCb\<close>, with and without timers.\<close>

lemma listExpiredCb_due:
  assumes "tm_inv tm" and "q \<notin> set (m_timers tm)"
  shows "\<exists>tm'. listExpiredCb q now [] tm = (Inr (map (\<lambda>p. m_cb (m_heap tm p)) (due now tm)), tm') \<and> tm_inv tm'"
  using listExpired_locked_correct [OF assms, of now "[]"] assms(1)
  by (cases "m_timers tm = []") (auto simp: listExpiredCb_def listExpired_check_def due_def)

lemma wait_within_deadlines:
  assumes "tm_inv tm" and "p \<in> set (m_timers tm)" and "now < m_next (m_heap tm p)" and "unat (fst (getNextTimer now tm)) < 2 ^ 31"
  shows "int (unat now) + wait_timeout (fst (getNextTimer now tm)) \<le> int (unat (m_next (m_heap tm p)))"
proof -
  obtain x xs where t: "m_timers tm = x # xs" using assms(2) by (cases "m_timers tm") auto
  have "m_next (m_heap tm x) \<le> m_next (m_heap tm p)" using assms(1,2) t by (auto simp: tm_inv_def timer_lt_iff)
  then have first: "unat (m_next (m_heap tm x)) \<le> unat (m_next (m_heap tm p))" by (simp add: word_le_nat_alt)
  let ?r = "fst (getNextTimer now tm)"
  have "?r \<noteq> - 1" using assms(4) by (auto simp: unsigned_minus_1_eq_mask mask_eq_exp_minus_1)
  then have "wait_timeout ?r \<le> int (unat ?r)" using idle_wait_bounds [of ?r] assms(4) by simp
  moreover have "int (unat now) + int (unat ?r) \<le> int (unat (m_next (m_heap tm p)))"
  proof (cases "m_next (m_heap tm x) \<le> now")
    case True
    then have "?r = 0" using t by (simp add: getNextTimer_def Let_def)
    moreover have "unat now \<le> unat (m_next (m_heap tm p))" using assms(3) by (simp only: word_less_nat_alt less_imp_le)
    ultimately show ?thesis by (simp only: unat_0 of_nat_0 add_0_right of_nat_le_iff)
  next
    case False
    then have le: "now \<le> m_next (m_heap tm x)" by simp
    have "unat ?r = unat (m_next (m_heap tm x)) - unat now" using False t unat_sub [OF le] by (simp add: getNextTimer_def Let_def)
    moreover have "unat now \<le> unat (m_next (m_heap tm x))" using le by (simp only: word_le_nat_alt)
    ultimately show ?thesis using first by linarith
  qed
  ultimately show ?thesis by simp
qed

lemma el_stopping_eq:
  "0 < now \<Longrightarrow> el_stopping now stp el = (m_timers (el_tm el) = [] \<and> m_pendingEventCount (el_io el) = 0 \<and> stp, fst (getNextTimer now (el_tm el)),
     el\<lparr>el_tm := snd (getNextTimer now (el_tm el))\<rparr>)"
  using no_timer_iff [of now "el_tm el"] by (cases "getNextTimer now (el_tm el)") (simp add: el_stopping_def io_stopping_def)

lemma getNextTimer_keeps: "snd (getNextTimer now tm) = tm\<lparr>m_tickled := False\<rparr>"
  by (simp add: getNextTimer_def Let_def split: list.splits)

lemma due_tickled [simp]: "due now (tm\<lparr>m_tickled := b\<rparr>) = due now tm"
  by (simp add: due_def detectClockRollover_def)


text \<open>A loop with one timer, due at 15; \<open>epoll_wait\<close> reports the pipe.\<close>

definition quiet_poller :: "unit poller" where
  "quiet_poller = \<lparr>pl_create = (\<lambda>k. (3, k)), pl_pipe = (\<lambda>k. (0, k)), pl_nonblock = (\<lambda>k. (0, k)), pl_add_pipe = (\<lambda>k. (0, k)),
     pl_ctl = (\<lambda>k op fd ev. (0, k)), pl_write = (\<lambda>k. (1, k)), pl_wait = (\<lambda>t k. (Reports [Tickled], k))\<rparr>"

definition one_timer_loop :: "unit event_loop" where
  "one_timer_loop = \<lparr>el_io = new_IOManager (), el_tm = addTimer 1 5 (Some 7) False 10 (new_TimerManager 0), el_pipe = 1\<rparr>"


end
