(* ===== verification/OrderedMap.thy ===== *)
theory OrderedMap
  imports Prelude
begin

text \<open>
  \<open>std::map\<close> with a comparator, as the sequence of pairs its iterators run through. Keys are equivalent when
  neither is less than the other. \<open>operator[]\<close> keeps the key that is there and replaces its value, \<open>insert\<close> keeps
  both, \<open>erase\<close> removes the equivalent key. The comparator is a strict weak order: equivalent keys need not be equal.
\<close>

primrec omap_find :: "('k \<Rightarrow> 'k \<Rightarrow> bool) \<Rightarrow> 'k \<Rightarrow> ('k \<times> 'v) list \<Rightarrow> 'v option" where
  "omap_find lt k [] = None"
| "omap_find lt k (p # ps) = (if lt (fst p) k then omap_find lt k ps else if lt k (fst p) then None else Some (snd p))"

primrec omap_assign :: "('k \<Rightarrow> 'k \<Rightarrow> bool) \<Rightarrow> 'k \<Rightarrow> 'v \<Rightarrow> ('k \<times> 'v) list \<Rightarrow> ('k \<times> 'v) list" where
  "omap_assign lt k v [] = [(k, v)]"
| "omap_assign lt k v (p # ps) =
     (if lt k (fst p) then (k, v) # p # ps else if lt (fst p) k then p # omap_assign lt k v ps else (fst p, v) # ps)"

primrec omap_insert :: "('k \<Rightarrow> 'k \<Rightarrow> bool) \<Rightarrow> 'k \<Rightarrow> 'v \<Rightarrow> ('k \<times> 'v) list \<Rightarrow> ('k \<times> 'v) list" where
  "omap_insert lt k v [] = [(k, v)]"
| "omap_insert lt k v (p # ps) =
     (if lt k (fst p) then (k, v) # p # ps else if lt (fst p) k then p # omap_insert lt k v ps else p # ps)"

primrec omap_erase :: "('k \<Rightarrow> 'k \<Rightarrow> bool) \<Rightarrow> 'k \<Rightarrow> ('k \<times> 'v) list \<Rightarrow> ('k \<times> 'v) list" where
  "omap_erase lt k [] = []"
| "omap_erase lt k (p # ps) = (if lt (fst p) k then p # omap_erase lt k ps else if lt k (fst p) then p # ps else ps)"

text \<open>What the container needs of its comparator, and the laws its clients use.\<close>

locale weak_order =
  fixes lt :: "'k \<Rightarrow> 'k \<Rightarrow> bool"
  assumes lt_irrefl: "\<not> lt a a"
    and lt_trans: "lt a b \<Longrightarrow> lt b c \<Longrightarrow> lt a c"
    and lt_incomparable: "\<not> lt a b \<Longrightarrow> \<not> lt b a \<Longrightarrow> (lt a c \<longleftrightarrow> lt b c) \<and> (lt c a \<longleftrightarrow> lt c b)"
begin

definition eqv :: "'k \<Rightarrow> 'k \<Rightarrow> bool" where
  "eqv a b \<longleftrightarrow> \<not> lt a b \<and> \<not> lt b a"

definition omap_inv :: "('k \<times> 'v) list \<Rightarrow> bool" where
  "omap_inv m \<longleftrightarrow> sorted_wrt lt (map fst m)"

lemma lt_asym: "lt a b \<Longrightarrow> \<not> lt b a"
  using lt_irrefl lt_trans by blast

lemma eqv_refl [simp]: "eqv a a"
  by (simp add: eqv_def lt_irrefl)

lemma eqv_sym: "eqv a b \<Longrightarrow> eqv b a"
  by (simp add: eqv_def)

lemma eqv_lt: "eqv a b \<Longrightarrow> (lt a c \<longleftrightarrow> lt b c) \<and> (lt c a \<longleftrightarrow> lt c b)"
  unfolding eqv_def using lt_incomparable by blast

lemma omap_inv_Nil [simp]: "omap_inv []"
  by (simp add: omap_inv_def)

lemma omap_inv_Cons: "omap_inv (p # ps) \<longleftrightarrow> (\<forall>q \<in> set ps. lt (fst p) (fst q)) \<and> omap_inv ps"
  by (auto simp: omap_inv_def)

lemma find_eqv: "eqv k k' \<Longrightarrow> omap_find lt k m = omap_find lt k' m"
  by (induction m) (auto dest: eqv_lt)

lemma keys_assign: "fst ` set (omap_assign lt k v m) \<subseteq> insert k (fst ` set m)"
  by (induction m) auto

lemma keys_insert: "fst ` set (omap_insert lt k v m) \<subseteq> insert k (fst ` set m)"
  by (induction m) auto

lemma keys_erase: "set (omap_erase lt k m) \<subseteq> set m"
  by (induction m) auto

lemma above_head:
  assumes "\<forall>q \<in> set ps. lt a (fst q)" and "fst ` set ps' \<subseteq> insert k (fst ` set ps)" and "lt a k"
  shows "\<forall>q \<in> set ps'. lt a (fst q)"
  using assms by force

lemma inv_assign: "omap_inv m \<Longrightarrow> omap_inv (omap_assign lt k v m)"
proof (induction m)
  case (Cons p ps)
  then show ?case using above_head [OF _ keys_assign, of ps "fst p" k v]
    by (auto simp: omap_inv_Cons intro: lt_trans)
qed (simp add: omap_inv_def)

lemma inv_insert: "omap_inv m \<Longrightarrow> omap_inv (omap_insert lt k v m)"
proof (induction m)
  case (Cons p ps)
  then show ?case using above_head [OF _ keys_insert, of ps "fst p" k v]
    by (auto simp: omap_inv_Cons intro: lt_trans)
qed (simp add: omap_inv_def)

lemma inv_erase: "omap_inv m \<Longrightarrow> omap_inv (omap_erase lt k m)"
proof (induction m)
  case (Cons p ps)
  then show ?case using keys_erase [of k ps] by (auto simp: omap_inv_Cons)
qed simp

lemma find_above: "\<forall>q \<in> set m. lt k (fst q) \<Longrightarrow> omap_find lt k m = None"
  using lt_asym by (cases m) auto

lemma find_assign: "omap_inv m \<Longrightarrow> omap_find lt k' (omap_assign lt k v m) = (if eqv k k' then Some v else omap_find lt k' m)"
proof (induction m)
  case (Cons p ps)
  consider "lt k (fst p)" | "lt (fst p) k" | "eqv k (fst p)" by (auto simp: eqv_def)
  then show ?case
  proof cases
    case 1
    have "lt k' k \<Longrightarrow> lt k' (fst p) \<and> \<not> lt (fst p) k'" using 1 lt_trans [of k' k "fst p"] lt_asym [of k' "fst p"] by blast
    with 1 show ?thesis using lt_asym [of k "fst p"] lt_asym [of k k'] by (simp add: eqv_def)
  next
    case 2
    then show ?thesis using Cons eqv_lt [of k k' "fst p"] lt_asym by (auto simp: omap_inv_Cons)
  next
    case 3
    then show ?thesis using eqv_lt [of k "fst p" k'] by (auto simp: eqv_def)
  qed
qed (auto simp: eqv_def)

lemma find_insert:
  "omap_inv m \<Longrightarrow> omap_find lt k' (omap_insert lt k v m) = (if eqv k k' \<and> omap_find lt k m = None then Some v else omap_find lt k' m)"
proof (induction m)
  case (Cons p ps)
  consider "lt k (fst p)" | "lt (fst p) k" | "eqv k (fst p)" by (auto simp: eqv_def)
  then show ?case
  proof cases
    case 1
    have "lt k' k \<Longrightarrow> lt k' (fst p) \<and> \<not> lt (fst p) k'" using 1 lt_trans [of k' k "fst p"] lt_asym [of k' "fst p"] by blast
    with 1 show ?thesis using lt_asym [of k "fst p"] lt_asym [of k k'] by (simp add: eqv_def)
  next
    case 2
    then show ?thesis using Cons eqv_lt [of k k' "fst p"] lt_asym by (auto simp: omap_inv_Cons)
  next
    case 3
    then show ?thesis using eqv_lt [of k "fst p" k'] by (auto simp: eqv_def)
  qed
qed (auto simp: eqv_def)

lemma find_erase: "omap_inv m \<Longrightarrow> omap_find lt k' (omap_erase lt k m) = (if eqv k k' then None else omap_find lt k' m)"
proof (induction m)
  case (Cons p ps)
  consider "lt k (fst p)" | "lt (fst p) k" | "eqv k (fst p)" by (auto simp: eqv_def)
  then show ?case
  proof cases
    case 1
    then show ?thesis using eqv_lt [of k k' "fst p"] lt_asym [of k "fst p"] by (auto simp: eqv_def)
  next
    case 2
    then show ?thesis using Cons eqv_lt [of k k' "fst p"] lt_asym by (auto simp: omap_inv_Cons)
  next
    case 3
    have "omap_find lt k' ps = None" if "eqv k k'"
    proof (rule find_above)
      show "\<forall>q \<in> set ps. lt k' (fst q)"
        using Cons.prems eqv_lt [OF 3] eqv_lt [OF that] by (simp add: omap_inv_Cons)
    qed
    moreover have "omap_find lt k' ps = None" if "lt k' k"
    proof (rule find_above)
      show "\<forall>q \<in> set ps. lt k' (fst q)"
        using Cons.prems eqv_lt [OF 3] that lt_trans by (auto simp: omap_inv_Cons)
    qed
    ultimately show ?thesis using 3 eqv_lt [OF 3, of k'] lt_asym [of k' k] by (auto simp: eqv_def)
  qed
qed simp

end

end
