(* ===== verification/Util.thy ===== *)
theory Util
  imports Prelude
begin

text \<open>
  String and time helpers (\<open>sylar/util.cpp\<close>). A \<open>std::string\<close> is a list of characters; positions that may
  be \<open>npos\<close> are options. The optional result buffer \<open>ss\<close> of the URL codecs, which is allocated at the first
  character that has to change, is kept: \<open>pre\<close> is the part of the input already passed.
\<close>

definition uri_chars :: "nat list" where
  "uri_chars =
    [0, 0, 0, 0, 0, 0, 0, 0, 0, 0, 0, 0, 0, 0, 0, 0,
     0, 0, 0, 0, 0, 0, 0, 0, 0, 0, 0, 0, 0, 0, 0, 0,
     0, 0, 0, 0, 0, 0, 0, 0, 0, 0, 0, 0, 0, 1, 1, 0,
     1, 1, 1, 1, 1, 1, 1, 1, 1, 1, 0, 0, 0, 1, 0, 0,
     0, 1, 1, 1, 1, 1, 1, 1, 1, 1, 1, 1, 1, 1, 1, 1,
     1, 1, 1, 1, 1, 1, 1, 1, 1, 1, 1, 0, 0, 0, 0, 1,
     0, 1, 1, 1, 1, 1, 1, 1, 1, 1, 1, 1, 1, 1, 1, 1,
     1, 1, 1, 1, 1, 1, 1, 1, 1, 1, 1, 0, 0, 0, 1, 0,
     0, 0, 0, 0, 0, 0, 0, 0, 0, 0, 0, 0, 0, 0, 0, 0,
     0, 0, 0, 0, 0, 0, 0, 0, 0, 0, 0, 0, 0, 0, 0, 0,
     0, 0, 0, 0, 0, 0, 0, 0, 0, 0, 0, 0, 0, 0, 0, 0,
     0, 0, 0, 0, 0, 0, 0, 0, 0, 0, 0, 0, 0, 0, 0, 0,
     0, 0, 0, 0, 0, 0, 0, 0, 0, 0, 0, 0, 0, 0, 0, 0,
     0, 0, 0, 0, 0, 0, 0, 0, 0, 0, 0, 0, 0, 0, 0, 0,
     0, 0, 0, 0, 0, 0, 0, 0, 0, 0, 0, 0, 0, 0, 0, 0,
     0, 0, 0, 0, 0, 0, 0, 0, 0, 0, 0, 0, 0, 0, 0, 0]"

definition xdigit_chars :: "nat list" where
  "xdigit_chars =
    [0, 0, 0, 0, 0, 0, 0, 0, 0, 0, 0, 0, 0, 0, 0, 0,
     0, 0, 0, 0, 0, 0, 0, 0, 0, 0, 0, 0, 0, 0, 0, 0,
     0, 0, 0, 0, 0, 0, 0, 0, 0, 0, 0, 0, 0, 0, 0, 0,
     0, 1, 2, 3, 4, 5, 6, 7, 8, 9, 0, 0, 0, 0, 0, 0,
     0, 10, 11, 12, 13, 14, 15, 0, 0, 0, 0, 0, 0, 0, 0, 0,
     0, 0, 0, 0, 0, 0, 0, 0, 0, 0, 0, 0, 0, 0, 0, 0,
     0, 10, 11, 12, 13, 14, 15, 0, 0, 0, 0, 0, 0, 0, 0, 0,
     0, 0, 0, 0, 0, 0, 0, 0, 0, 0, 0, 0, 0, 0, 0, 0,
     0, 0, 0, 0, 0, 0, 0, 0, 0, 0, 0, 0, 0, 0, 0, 0,
     0, 0, 0, 0, 0, 0, 0, 0, 0, 0, 0, 0, 0, 0, 0, 0,
     0, 0, 0, 0, 0, 0, 0, 0, 0, 0, 0, 0, 0, 0, 0, 0,
     0, 0, 0, 0, 0, 0, 0, 0, 0, 0, 0, 0, 0, 0, 0, 0,
     0, 0, 0, 0, 0, 0, 0, 0, 0, 0, 0, 0, 0, 0, 0, 0,
     0, 0, 0, 0, 0, 0, 0, 0, 0, 0, 0, 0, 0, 0, 0, 0,
     0, 0, 0, 0, 0, 0, 0, 0, 0, 0, 0, 0, 0, 0, 0, 0,
     0, 0, 0, 0, 0, 0, 0, 0, 0, 0, 0, 0, 0, 0, 0, 0]"

definition CHAR_IS_UNRESERVED :: "char \<Rightarrow> bool" where
  "CHAR_IS_UNRESERVED c \<longleftrightarrow> uri_chars ! of_char c \<noteq> 0"

definition hexdigits :: string where
  "hexdigits = ''0123456789ABCDEF''"

text \<open>\<open>isxdigit\<close> of the C library.\<close>

definition isxdigit :: "char \<Rightarrow> bool" where
  "isxdigit c \<longleftrightarrow> c \<in> set ''0123456789ABCDEFabcdef''"

primrec url_encode_loop :: "bool \<Rightarrow> string \<Rightarrow> string option \<Rightarrow> string \<Rightarrow> string option" where
  "url_encode_loop space_as_plus pre ss [] = ss"
| "url_encode_loop space_as_plus pre ss (c # cs) =
     (if \<not> CHAR_IS_UNRESERVED c then
        let s = (case ss of None \<Rightarrow> pre | Some s \<Rightarrow> s) in
        url_encode_loop space_as_plus (pre @ [c])
          (Some (if c = CHR '' '' \<and> space_as_plus then s @ ''+''
                 else s @ [CHR ''%'', hexdigits ! (of_char c div 16), hexdigits ! (of_char c mod 16)])) cs
      else url_encode_loop space_as_plus (pre @ [c]) (map_option (\<lambda>s. s @ [c]) ss) cs)"

definition UrlEncode :: "string \<Rightarrow> bool \<Rightarrow> string" where
  "UrlEncode str space_as_plus = (case url_encode_loop space_as_plus [] None str of None \<Rightarrow> str | Some rt \<Rightarrow> rt)"

definition xdigit_pair :: "char \<Rightarrow> char \<Rightarrow> char" where
  "xdigit_pair h l = char_of (push_bit 4 (xdigit_chars ! of_char h) OR (xdigit_chars ! of_char l))"

text \<open>The test \<open>*c == '%' && (c + 2) < end && isxdigit(c[1]) && isxdigit(c[2])\<close>, with what it finds.\<close>

definition escape_at :: "char \<Rightarrow> string \<Rightarrow> (char \<times> char \<times> string) option" where
  "escape_at c cs =
     (case cs of
        h # l # rest \<Rightarrow> if c = CHR ''%'' \<and> isxdigit h \<and> isxdigit l then Some (h, l, rest) else None
      | _ \<Rightarrow> None)"

lemma escape_at_Some: "escape_at c cs = Some (h, l, rest) \<Longrightarrow> cs = h # l # rest"
  by (auto simp: escape_at_def split: list.splits if_splits)

function url_decode_loop :: "bool \<Rightarrow> string \<Rightarrow> string option \<Rightarrow> string \<Rightarrow> string option" where
  "url_decode_loop space_as_plus pre ss [] = ss"
| "url_decode_loop space_as_plus pre ss (c # cs) =
     (if c = CHR ''+'' \<and> space_as_plus then
        url_decode_loop space_as_plus (pre @ [c]) (Some ((case ss of None \<Rightarrow> pre | Some s \<Rightarrow> s) @ '' '')) cs
      else case escape_at c cs of
          Some (h, l, rest) \<Rightarrow>
            url_decode_loop space_as_plus (pre @ [c, h, l])
              (Some ((case ss of None \<Rightarrow> pre | Some s \<Rightarrow> s) @ [xdigit_pair h l])) rest
        | None \<Rightarrow> url_decode_loop space_as_plus (pre @ [c]) (map_option (\<lambda>s. s @ [c]) ss) cs)"
  by pat_completeness auto
termination
  by (relation "measure (\<lambda>(sp, pre, ss, cs). length cs)") (auto dest: escape_at_Some)

definition UrlDecode :: "string \<Rightarrow> bool \<Rightarrow> string" where
  "UrlDecode str space_as_plus = (case url_decode_loop space_as_plus [] None str of None \<Rightarrow> str | Some rt \<Rightarrow> rt)"

text \<open>\<open>std::string::find_first_not_of\<close>, \<open>find_last_not_of\<close> and \<open>substr\<close>.\<close>

definition find_first_not_of :: "string \<Rightarrow> string \<Rightarrow> nat option" where
  "find_first_not_of str delimit =
     (let n = length (takeWhile (\<lambda>c. c \<in> set delimit) str) in if n < length str then Some n else None)"

definition find_last_not_of :: "string \<Rightarrow> string \<Rightarrow> nat option" where
  "find_last_not_of str delimit =
     (let n = length (takeWhile (\<lambda>c. c \<in> set delimit) (rev str)) in if n < length str then Some (length str - 1 - n) else None)"

definition substr :: "string \<Rightarrow> nat \<Rightarrow> nat \<Rightarrow> string" where
  "substr str pos n = take n (drop pos str)"

definition Trim :: "string \<Rightarrow> string \<Rightarrow> string" where
  "Trim str delimit =
     (case find_first_not_of str delimit of
        None \<Rightarrow> []
      | Some begin \<Rightarrow>
          (case find_last_not_of str delimit of
             None \<Rightarrow> substr str begin (length str)
           | Some end' \<Rightarrow> substr str begin (end' - begin + 1)))"

definition TrimLeft :: "string \<Rightarrow> string \<Rightarrow> string" where
  "TrimLeft str delimit =
     (case find_first_not_of str delimit of None \<Rightarrow> [] | Some begin \<Rightarrow> substr str begin (length str))"

definition TrimRight :: "string \<Rightarrow> string \<Rightarrow> string" where
  "TrimRight str delimit = (case find_last_not_of str delimit of None \<Rightarrow> [] | Some end' \<Rightarrow> substr str 0 end')"

text \<open>\<open>gettimeofday\<close> gives seconds and microseconds.\<close>

definition GetCurrentMS :: "int \<Rightarrow> int \<Rightarrow> u64" where
  "GetCurrentMS tv_sec tv_usec = word_of_int (tv_sec * 1000 + tv_usec div 1000)"

definition GetCurrentUS :: "int \<Rightarrow> int \<Rightarrow> u64" where
  "GetCurrentUS tv_sec tv_usec = word_of_int (tv_sec * 1000 * 1000) + word_of_int tv_usec"

subsection \<open>URL coding\<close>

definition enc_char :: "bool \<Rightarrow> char \<Rightarrow> string" where
  "enc_char sp c =
     (if CHAR_IS_UNRESERVED c then [c] else if c = CHR '' '' \<and> sp then ''+''
      else [CHR ''%'', hexdigits ! (of_char c div 16), hexdigits ! (of_char c mod 16)])"

function dec_string :: "bool \<Rightarrow> string \<Rightarrow> string" where
  "dec_string sp [] = []"
| "dec_string sp (c # cs) =
     (if c = CHR ''+'' \<and> sp then CHR '' '' # dec_string sp cs
      else case escape_at c cs of
          Some (h, l, rest) \<Rightarrow> xdigit_pair h l # dec_string sp rest
        | None \<Rightarrow> c # dec_string sp cs)"
  by pat_completeness auto
termination
  by (relation "measure (\<lambda>(sp, cs). length cs)") (auto dest: escape_at_Some)

lemma url_encode_loop_Some: "url_encode_loop sp pre (Some s) cs = Some (s @ concat (map (enc_char sp) cs))"
  by (induction cs arbitrary: pre s) (auto simp: enc_char_def Let_def)

lemma url_encode_loop_None:
  "url_encode_loop sp pre None cs = (if \<forall>c \<in> set cs. CHAR_IS_UNRESERVED c then None else Some (pre @ concat (map (enc_char sp) cs)))"
  by (induction cs arbitrary: pre) (auto simp: enc_char_def Let_def url_encode_loop_Some)

lemma UrlEncode_eq: "UrlEncode str sp = concat (map (enc_char sp) str)"
proof -
  have "\<forall>c \<in> set str. CHAR_IS_UNRESERVED c \<Longrightarrow> concat (map (enc_char sp) str) = str"
    by (induction str) (auto simp: enc_char_def)
  then show ?thesis by (simp add: UrlEncode_def url_encode_loop_None)
qed

lemma url_decode_loop_Some: "url_decode_loop sp pre (Some s) cs = Some (s @ dec_string sp cs)"
  by (induction sp cs arbitrary: pre s rule: dec_string.induct) (auto split: option.splits)

lemma url_decode_loop_None:
  "url_decode_loop sp pre None cs = Some (pre @ dec_string sp cs) \<or> url_decode_loop sp pre None cs = None \<and> dec_string sp cs = cs"
proof (induction sp cs arbitrary: pre rule: dec_string.induct)
  case (2 sp c cs)
  show ?case
  proof (cases "c = CHR ''+'' \<and> sp \<or> escape_at c cs \<noteq> None")
    case True
    then show ?thesis by (auto simp: url_decode_loop_Some split: option.splits)
  next
    case False
    then have plain: "\<not> (c = CHR ''+'' \<and> sp)" "escape_at c cs = None" by blast+
    then show ?thesis using "2.IH"(2) [OF plain, of "pre @ [c]"] by auto
  qed
qed simp

lemma UrlDecode_eq: "UrlDecode str sp = dec_string sp str"
  using url_decode_loop_None [of sp "[]" str] by (auto simp: UrlDecode_def)

lemma hexdigit_facts:
  assumes "n < 16"
  shows "isxdigit (hexdigits ! n)" and "xdigit_chars ! of_char (hexdigits ! n) = n" and "CHAR_IS_UNRESERVED (hexdigits ! n)"
proof -
  have "\<forall>n \<in> {0 ..< 16}. isxdigit (hexdigits ! n) \<and> xdigit_chars ! of_char (hexdigits ! n) = n \<and> CHAR_IS_UNRESERVED (hexdigits ! n)"
    by code_simp
  then show "isxdigit (hexdigits ! n)" "xdigit_chars ! of_char (hexdigits ! n) = n" "CHAR_IS_UNRESERVED (hexdigits ! n)"
    using assms by auto
qed

lemma special_chars: "\<not> CHAR_IS_UNRESERVED CHR ''%''" "\<not> CHAR_IS_UNRESERVED CHR ''+''" "\<not> CHAR_IS_UNRESERVED CHR '' ''"
  by code_simp+

lemma nibbles: "b < 16 \<Longrightarrow> push_bit 4 a OR b = 16 * a + (b :: nat)"
proof -
  assume "b < 16"
  then have "take_bit 4 b = b" by (simp add: take_bit_nat_eq_self_iff)
  then have "push_bit 4 a AND b = 0"
    by (metis and.commute bit_eq_iff bit_and_iff bit_push_bit_iff bit_take_bit_iff not_le bit_0_eq bot_apply bot_bool_def)
  then have "push_bit 4 a OR b = push_bit 4 a + b" by (simp add: disjunctive_add_eq_or)
  then show ?thesis by (simp add: push_bit_eq_mult)
qed

lemma xdigit_pair_hex: "xdigit_pair (hexdigits ! (of_char c div 16)) (hexdigits ! (of_char c mod 16)) = c"
proof -
  have "of_char c < (256 :: nat)" by simp
  then have "(of_char c :: nat) div 16 < 16" by (simp add: less_mult_imp_div_less)
  then have "xdigit_pair (hexdigits ! (of_char c div 16)) (hexdigits ! (of_char c mod 16)) =
      char_of (16 * (of_char c div 16) + of_char c mod (16 :: nat))"
    by (simp add: xdigit_pair_def hexdigit_facts nibbles)
  then show ?thesis by simp
qed

lemma dec_enc_char: "dec_string sp (enc_char sp' c @ rest) = c # dec_string sp rest" if "sp' \<longrightarrow> sp"
proof (cases "CHAR_IS_UNRESERVED c")
  case True
  then have "c \<noteq> CHR ''+''" "c \<noteq> CHR ''%''" using special_chars by auto
  then show ?thesis using True by (simp add: enc_char_def escape_at_def split: list.splits)
next
  case False
  have "(of_char c :: nat) div 16 < 16" by (simp add: less_mult_imp_div_less)
  then show ?thesis
    using False that by (auto simp: enc_char_def escape_at_def hexdigit_facts xdigit_pair_hex)
qed

text \<open>
  C6. URL coding round trips: for every byte string, \<open>UrlDecode\<close> of \<open>UrlEncode\<close> is the string, also when
  the encoder was told to write a blank as \<open>%20\<close> and the decoder understands both forms.
\<close>

theorem url_roundtrip:
  assumes "sp' \<longrightarrow> sp"
  shows "UrlDecode (UrlEncode str sp') sp = str"
  unfolding UrlDecode_eq UrlEncode_eq using dec_enc_char [OF assms] by (induction str) auto

theorem url_roundtrip_witness: "UrlDecode (UrlEncode ''a b%=+'' True) True = ''a b%=+''"
  by (rule url_roundtrip) simp

text \<open>
  What \<open>UrlEncode\<close> emits is safe in a query: every character of the result is unreserved, or the \<open>%\<close>
  of an escape, or the \<open>+\<close> of a blank; and a string of unreserved characters is returned as it is.
\<close>

lemma UrlEncode_safe:
  "set (UrlEncode str sp) \<subseteq> {c. CHAR_IS_UNRESERVED c} \<union> {CHR ''%'', CHR ''+''}
    \<and> ((\<forall>c \<in> set str. CHAR_IS_UNRESERVED c) \<longrightarrow> UrlEncode str sp = str)"
proof
  have "(of_char c :: nat) div 16 < 16" for c by (simp add: less_mult_imp_div_less)
  then show "set (UrlEncode str sp) \<subseteq> {c. CHAR_IS_UNRESERVED c} \<union> {CHR ''%'', CHR ''+''}"
    by (auto simp: UrlEncode_eq enc_char_def hexdigit_facts split: if_splits)
  show "(\<forall>c \<in> set str. CHAR_IS_UNRESERVED c) \<longrightarrow> UrlEncode str sp = str"
    by (simp add: UrlEncode_def url_encode_loop_None)
qed

subsection \<open>Trimming\<close>

text \<open>The string without its leading and trailing delimiters.\<close>

definition strip_right :: "string \<Rightarrow> string \<Rightarrow> string" where
  "strip_right str delimit = rev (dropWhile (\<lambda>c. c \<in> set delimit) (rev str))"

lemma find_first_None: "find_first_not_of str d = None \<longleftrightarrow> dropWhile (\<lambda>c. c \<in> set d) str = []"
  by (auto simp: find_first_not_of_def Let_def dropWhile_eq_drop)

lemma TrimLeft_eq: "TrimLeft str d = dropWhile (\<lambda>c. c \<in> set d) str"
  by (auto simp: TrimLeft_def find_first_not_of_def substr_def Let_def dropWhile_eq_drop)

lemma strip_right_split:
  obtains t where "str = strip_right str d @ t" and "length t = length (takeWhile (\<lambda>c. c \<in> set d) (rev str))" and "set t \<subseteq> set d"
proof (rule that)
  let ?t = "rev (takeWhile (\<lambda>c. c \<in> set d) (rev str))"
  show "str = strip_right str d @ ?t"
    unfolding strip_right_def by (metis rev_append rev_rev_ident takeWhile_dropWhile_id)
  show "set ?t \<subseteq> set d" by (auto dest: set_takeWhileD)
qed simp

lemma TrimRight_eq: "TrimRight str d = butlast (strip_right str d)"
proof -
  obtain t where t: "str = strip_right str d @ t" "length t = length (takeWhile (\<lambda>c. c \<in> set d) (rev str))"
    by (rule strip_right_split)
  then have l: "length str = length (strip_right str d) + length t" by (metis length_append)
  then have "TrimRight str d = take (length (strip_right str d) - 1) str"
    using t(2) by (cases "strip_right str d = []") (auto simp: TrimRight_def find_last_not_of_def Let_def substr_def)
  also have "\<dots> = take (length (strip_right str d) - 1) (strip_right str d)"
    by (subst t(1)) simp
  finally show ?thesis by (simp add: butlast_conv_take)
qed

lemma Trim_eq: "Trim str d = dropWhile (\<lambda>c. c \<in> set d) (strip_right str d)"
proof -
  let ?D = "\<lambda>c. c \<in> set d" and ?s = "strip_right str d"
  obtain t where t: "str = ?s @ t" "length t = length (takeWhile ?D (rev str))" "set t \<subseteq> set d"
    by (rule strip_right_split)
  then have l: "length str = length ?s + length t" by (metis length_append)
  show ?thesis
  proof (cases "\<exists>c \<in> set ?s. \<not> ?D c")
    case False
    then have "dropWhile ?D ?s = []" "\<forall>c \<in> set str. ?D c" using t(1,3) by (auto simp: dropWhile_eq_Nil_conv) (metis Un_iff set_append subsetD)
    then have e: "dropWhile ?D ?s = []" and tk: "takeWhile ?D str = str" by (simp_all add: takeWhile_eq_all_conv)
    have "find_first_not_of str d = None" unfolding find_first_not_of_def tk by simp
    then show ?thesis unfolding e by (simp add: Trim_def)
  next
    case True
    then have dw: "dropWhile ?D str = dropWhile ?D ?s @ t" "takeWhile ?D str = takeWhile ?D ?s"
      by (subst t(1), auto)+
    let ?b = "length (takeWhile ?D ?s)"
    have "length ?s = ?b + length (dropWhile ?D ?s)" by (metis length_append takeWhile_dropWhile_id)
    moreover have "dropWhile ?D ?s \<noteq> []" using True by (simp add: dropWhile_eq_Nil_conv)
    ultimately have b: "?b < length ?s" by (cases "dropWhile ?D ?s") simp_all
    have "Trim str d = take (length ?s - ?b) (drop ?b str)"
      using b l t(2) by (simp add: Trim_def find_first_not_of_def find_last_not_of_def Let_def substr_def dw(2) Suc_diff_Suc) auto
    also have "drop ?b str = dropWhile ?D ?s @ t" using dw by (metis dropWhile_eq_drop)
    finally show ?thesis by (simp add: dropWhile_eq_drop)
  qed
qed

text \<open>
  \<open>Trim\<close> removes exactly the delimiters at both ends and \<open>TrimLeft\<close> those at the front; \<open>TrimRight\<close>
  removes the delimiters at the back and, in addition, the last character that should have stayed.
\<close>

lemma trim_results:
  "Trim str d = dropWhile (\<lambda>c. c \<in> set d) (strip_right str d) \<and> TrimLeft str d = dropWhile (\<lambda>c. c \<in> set d) str
    \<and> TrimRight str d = butlast (strip_right str d)"
  by (simp add: Trim_eq TrimLeft_eq TrimRight_eq)

lemma GetCurrentUS_MS:
  assumes "0 \<le> s" and "s < 2 ^ 40" and "0 \<le> u" and "u < 1000000"
  shows "uint (GetCurrentUS s u) div 1000 = uint (GetCurrentMS s u)"
proof -
  have "uint (GetCurrentUS s u) = s * 1000 * 1000 + u"
    using assms unfolding GetCurrentUS_def by (simp add: unsigned_of_int take_bit_int_eq_self flip: of_int_add of_int_mult)
  moreover have "uint (GetCurrentMS s u) = s * 1000 + u div 1000"
    using assms unfolding GetCurrentMS_def by (simp add: unsigned_of_int take_bit_int_eq_self del: of_int_add of_int_mult)
  ultimately show ?thesis by simp
qed

end
