(* ===== verification/Http.thy ===== *)
theory Http
  imports OrderedMap Util
begin

text \<open>
  HTTP messages (\<open>sylar/http/http.h\<close>, \<open>sylar/http/http.cpp\<close>): methods and statuses, the case-insensitive maps, requests with
  their lazily parsed parameters and cookies, responses, and their text form. Strings are byte sequences; a
  call of \<open>c_str()\<close> that is read up to the first zero byte is \<open>c_str\<close>. \<open>Time2Str\<close> (locale and time zone) and
  \<open>boost::lexical_cast\<close> are parameters.
\<close>

subsection \<open>Methods and statuses\<close>

text \<open>The enumeration, in the order of its numbers; the constructors have the prefix \<open>M_\<close>.\<close>

datatype HttpMethod =
    M_DELETE | M_GET | M_HEAD | M_POST | M_PUT | M_CONNECT | M_OPTIONS | M_TRACE
  | M_COPY | M_LOCK | M_MKCOL | M_MOVE | M_PROPFIND | M_PROPPATCH | M_SEARCH | M_UNLOCK
  | M_BIND | M_REBIND | M_UNBIND | M_ACL | M_REPORT | M_MKACTIVITY | M_CHECKOUT | M_MERGE
  | M_MSEARCH | M_NOTIFY | M_SUBSCRIBE | M_UNSUBSCRIBE | M_PATCH | M_PURGE | M_MKCALENDAR | M_LINK
  | M_UNLINK | M_SOURCE | INVALID_METHOD

definition HTTP_METHOD_MAP :: "(HttpMethod \<times> string) list" where
  "HTTP_METHOD_MAP =
    [(M_DELETE, ''DELETE''), (M_GET, ''GET''), (M_HEAD, ''HEAD''), (M_POST, ''POST''),
     (M_PUT, ''PUT''), (M_CONNECT, ''CONNECT''), (M_OPTIONS, ''OPTIONS''), (M_TRACE, ''TRACE''),
     (M_COPY, ''COPY''), (M_LOCK, ''LOCK''), (M_MKCOL, ''MKCOL''), (M_MOVE, ''MOVE''),
     (M_PROPFIND, ''PROPFIND''), (M_PROPPATCH, ''PROPPATCH''), (M_SEARCH, ''SEARCH''), (M_UNLOCK, ''UNLOCK''),
     (M_BIND, ''BIND''), (M_REBIND, ''REBIND''), (M_UNBIND, ''UNBIND''), (M_ACL, ''ACL''),
     (M_REPORT, ''REPORT''), (M_MKACTIVITY, ''MKACTIVITY''), (M_CHECKOUT, ''CHECKOUT''), (M_MERGE, ''MERGE''),
     (M_MSEARCH, ''M-SEARCH''), (M_NOTIFY, ''NOTIFY''), (M_SUBSCRIBE, ''SUBSCRIBE''), (M_UNSUBSCRIBE, ''UNSUBSCRIBE''),
     (M_PATCH, ''PATCH''), (M_PURGE, ''PURGE''), (M_MKCALENDAR, ''MKCALENDAR''), (M_LINK, ''LINK''),
     (M_UNLINK, ''UNLINK''), (M_SOURCE, ''SOURCE'')]"

text \<open>A status is the number it holds: the response parser casts any number to the enumeration.\<close>

type_synonym HttpStatus = nat

definition HTTP_STATUS_MAP :: "(HttpStatus \<times> string) list" where
  "HTTP_STATUS_MAP =
    [(100, ''Continue''), (101, ''Switching Protocols''), (102, ''Processing''),
     (200, ''OK''), (201, ''Created''), (202, ''Accepted''),
     (203, ''Non-Authoritative Information''), (204, ''No Content''), (205, ''Reset Content''),
     (206, ''Partial Content''), (207, ''Multi-Status''), (208, ''Already Reported''),
     (226, ''IM Used''), (300, ''Multiple Choices''), (301, ''Moved Permanently''),
     (302, ''Found''), (303, ''See Other''), (304, ''Not Modified''),
     (305, ''Use Proxy''), (307, ''Temporary Redirect''), (308, ''Permanent Redirect''),
     (400, ''Bad Request''), (401, ''Unauthorized''), (402, ''Payment Required''),
     (403, ''Forbidden''), (404, ''Not Found''), (405, ''Method Not Allowed''),
     (406, ''Not Acceptable''), (407, ''Proxy Authentication Required''), (408, ''Request Timeout''),
     (409, ''Conflict''), (410, ''Gone''), (411, ''Length Required''),
     (412, ''Precondition Failed''), (413, ''Payload Too Large''), (414, ''URI Too Long''),
     (415, ''Unsupported Media Type''), (416, ''Range Not Satisfiable''), (417, ''Expectation Failed''),
     (421, ''Misdirected Request''), (422, ''Unprocessable Entity''), (423, ''Locked''),
     (424, ''Failed Dependency''), (426, ''Upgrade Required''), (428, ''Precondition Required''),
     (429, ''Too Many Requests''), (431, ''Request Header Fields Too Large''), (451, ''Unavailable For Legal Reasons''),
     (500, ''Internal Server Error''), (501, ''Not Implemented''), (502, ''Bad Gateway''),
     (503, ''Service Unavailable''), (504, ''Gateway Timeout''), (505, ''HTTP Version Not Supported''),
     (506, ''Variant Also Negotiates''), (507, ''Insufficient Storage''), (508, ''Loop Detected''),
     (510, ''Not Extended''), (511, ''Network Authentication Required'')]"

definition c_str :: "string \<Rightarrow> string" where
  "c_str s = takeWhile (\<lambda>c. c \<noteq> CHR 0x00) s"

primrec find_method :: "(string \<Rightarrow> bool) \<Rightarrow> (HttpMethod \<times> string) list \<Rightarrow> HttpMethod" where
  "find_method P [] = INVALID_METHOD"
| "find_method P (e # es) = (if P (snd e) then fst e else find_method P es)"

definition StringToHttpMethod :: "string \<Rightarrow> HttpMethod" where
  "StringToHttpMethod m = find_method (\<lambda>s. s = c_str m) HTTP_METHOD_MAP"

text \<open>\<open>strncmp\<close> with the length of the method's name: the rest of the characters is not looked at.\<close>

definition CharsToHttpMethod :: "string \<Rightarrow> HttpMethod" where
  "CharsToHttpMethod m = find_method (\<lambda>s. take (length s) (c_str m) = s) HTTP_METHOD_MAP"

definition HttpMethodToString :: "HttpMethod \<Rightarrow> string" where
  "HttpMethodToString m = (case map_of HTTP_METHOD_MAP m of Some s \<Rightarrow> s | None \<Rightarrow> ''<unknown>'')"

definition HttpStatusToString :: "HttpStatus \<Rightarrow> string" where
  "HttpStatusToString s = (case map_of HTTP_STATUS_MAP s of Some d \<Rightarrow> d | None \<Rightarrow> ''<unknown>'')"

subsection \<open>Case-insensitive maps\<close>

fun strcasecmp :: "string \<Rightarrow> string \<Rightarrow> int" where
  "strcasecmp [] [] = 0"
| "strcasecmp [] (b # bs) = - int (tolower b)"
| "strcasecmp (a # as) [] = int (tolower a)"
| "strcasecmp (a # as) (b # bs) = (if tolower a = tolower b then strcasecmp as bs else int (tolower a) - int (tolower b))"

definition CaseInsensitiveLess :: "string \<Rightarrow> string \<Rightarrow> bool" where
  "CaseInsensitiveLess lhs rhs \<longleftrightarrow> strcasecmp (c_str lhs) (c_str rhs) < 0"

primrec strcasestr_found :: "string \<Rightarrow> string \<Rightarrow> bool" where
  "strcasestr_found [] needle = (needle = [])"
| "strcasestr_found (c # cs) needle =
     (map tolower (take (length needle) (c # cs)) = map tolower needle \<or> strcasestr_found cs needle)"

type_synonym MapType = "(string \<times> string) list"

definition map_find :: "string \<Rightarrow> MapType \<Rightarrow> string option" where
  "map_find = omap_find CaseInsensitiveLess"

definition map_assign :: "string \<Rightarrow> string \<Rightarrow> MapType \<Rightarrow> MapType" where
  "map_assign = omap_assign CaseInsensitiveLess"

definition map_insert :: "string \<Rightarrow> string \<Rightarrow> MapType \<Rightarrow> MapType" where
  "map_insert = omap_insert CaseInsensitiveLess"

definition map_erase :: "string \<Rightarrow> MapType \<Rightarrow> MapType" where
  "map_erase = omap_erase CaseInsensitiveLess"

definition find_or :: "string \<Rightarrow> string \<Rightarrow> MapType \<Rightarrow> string" where
  "find_or key def m = (case map_find key m of None \<Rightarrow> def | Some v \<Rightarrow> v)"

text \<open>\<open>checkGetAs\<close> and \<open>getAs\<close>; a failing \<open>lexical_cast\<close> throws and is caught.\<close>

definition checkGetAs :: "(string \<Rightarrow> 't option) \<Rightarrow> MapType \<Rightarrow> string \<Rightarrow> 't \<Rightarrow> bool \<times> 't" where
  "checkGetAs lexical_cast m key def =
     (case map_find key m of
        None \<Rightarrow> (False, def)
      | Some s \<Rightarrow> (case lexical_cast s of Some v \<Rightarrow> (True, v) | None \<Rightarrow> (False, def)))"

definition getAs :: "(string \<Rightarrow> 't option) \<Rightarrow> MapType \<Rightarrow> string \<Rightarrow> 't \<Rightarrow> 't" where
  "getAs lexical_cast m key def =
     (case map_find key m of None \<Rightarrow> def | Some s \<Rightarrow> (case lexical_cast s of Some v \<Rightarrow> v | None \<Rightarrow> def))"

subsection \<open>Requests\<close>

record HttpRequest =
  m_method :: HttpMethod
  m_version :: u8
  m_close :: bool
  m_websocket :: bool
  m_parserParamFlag :: u8
  m_path :: string
  m_query :: string
  m_fragment :: string
  m_body :: string
  m_headers :: MapType
  m_params :: MapType
  m_cookies :: MapType

record HttpResponse =
  r_status :: HttpStatus
  r_version :: u8
  r_close :: bool
  r_websocket :: bool
  r_body :: string
  r_reason :: string
  r_headers :: MapType
  r_cookies :: "string list"

definition new_HttpRequest :: "u8 \<Rightarrow> bool \<Rightarrow> HttpRequest" where
  "new_HttpRequest version close =
     \<lparr>m_method = M_GET, m_version = version, m_close = close, m_websocket = False, m_parserParamFlag = 0, m_path = ''/'',
      m_query = [], m_fragment = [], m_body = [], m_headers = [], m_params = [], m_cookies = []\<rparr>"

definition new_HttpResponse :: "u8 \<Rightarrow> bool \<Rightarrow> HttpResponse" where
  "new_HttpResponse version close =
     \<lparr>r_status = 200, r_version = version, r_close = close, r_websocket = False, r_body = [], r_reason = [], r_headers = [], r_cookies = []\<rparr>"

definition createResponse :: "HttpRequest \<Rightarrow> HttpResponse" where
  "createResponse req = new_HttpResponse (m_version req) (m_close req)"

definition getHeader :: "string \<Rightarrow> string \<Rightarrow> HttpRequest \<Rightarrow> string" where
  "getHeader key def req = find_or key def (m_headers req)"

definition setHeader :: "string \<Rightarrow> string \<Rightarrow> HttpRequest \<Rightarrow> HttpRequest" where
  "setHeader key val req = req\<lparr>m_headers := map_assign key val (m_headers req)\<rparr>"

definition setParam :: "string \<Rightarrow> string \<Rightarrow> HttpRequest \<Rightarrow> HttpRequest" where
  "setParam key val req = req\<lparr>m_params := map_assign key val (m_params req)\<rparr>"

definition setCookie :: "string \<Rightarrow> string \<Rightarrow> HttpRequest \<Rightarrow> HttpRequest" where
  "setCookie key val req = req\<lparr>m_cookies := map_assign key val (m_cookies req)\<rparr>"

definition delHeader :: "string \<Rightarrow> HttpRequest \<Rightarrow> HttpRequest" where
  "delHeader key req = req\<lparr>m_headers := map_erase key (m_headers req)\<rparr>"

definition delParam :: "string \<Rightarrow> HttpRequest \<Rightarrow> HttpRequest" where
  "delParam key req = req\<lparr>m_params := map_erase key (m_params req)\<rparr>"

definition delCookie :: "string \<Rightarrow> HttpRequest \<Rightarrow> HttpRequest" where
  "delCookie key req = req\<lparr>m_cookies := map_erase key (m_cookies req)\<rparr>"

text \<open>The value is what is stored through \<open>val\<close>, when there is one.\<close>

definition hasHeader :: "string \<Rightarrow> HttpRequest \<Rightarrow> string option" where
  "hasHeader key req = map_find key (m_headers req)"

text \<open>\<open>find(c, pos)\<close> of a string.\<close>

definition find_from :: "char \<Rightarrow> string \<Rightarrow> nat \<Rightarrow> nat option" where
  "find_from c str pos =
     (let n = length (takeWhile (\<lambda>d. d \<noteq> c) (drop pos str)) in if pos + n < length str then Some (pos + n) else None)"

lemma find_from_bounds: "find_from c str pos = Some i \<Longrightarrow> pos \<le> i \<and> i < length str"
  by (auto simp: find_from_def Let_def split: if_splits)

text \<open>The loop of the macro \<open>PARSE_PARAM\<close>. Without a further separator \<open>substr\<close> takes the rest.\<close>

function PARSE_PARAM :: "string \<Rightarrow> char \<Rightarrow> (string \<Rightarrow> string) \<Rightarrow> nat \<Rightarrow> MapType \<Rightarrow> MapType" where
  "PARSE_PARAM str flag trim pos m =
     (case find_from CHR ''='' str pos of
        None \<Rightarrow> m
      | Some key \<Rightarrow>
          (case find_from flag str key of
             None \<Rightarrow> map_insert (trim (substr str pos (key - pos))) (UrlDecode (substr str (key + 1) (length str)) True) m
           | Some pos' \<Rightarrow>
               PARSE_PARAM str flag trim (pos' + 1)
                 (map_insert (trim (substr str pos (key - pos))) (UrlDecode (substr str (key + 1) (pos' - key - 1)) True) m)))"
  by pat_completeness auto
termination
  by (relation "measure (\<lambda>(str, flag, trim, pos, m). length str - pos)") (auto dest!: find_from_bounds)

declare PARSE_PARAM.simps [simp del]

definition initQueryParam :: "HttpRequest \<Rightarrow> HttpRequest" where
  "initQueryParam req =
     (if m_parserParamFlag req AND 0x1 \<noteq> 0 then req
      else req\<lparr>m_params := PARSE_PARAM (m_query req) CHR ''&'' (\<lambda>s. s) 0 (m_params req), m_parserParamFlag := m_parserParamFlag req OR 0x1\<rparr>)"

definition initBodyParam :: "HttpRequest \<Rightarrow> HttpRequest" where
  "initBodyParam req =
     (if m_parserParamFlag req AND 0x2 \<noteq> 0 then req
      else if \<not> strcasestr_found (c_str (getHeader ''content-type'' [] req)) ''application/x-www-form-urlencoded''
      then req\<lparr>m_parserParamFlag := m_parserParamFlag req OR 0x2\<rparr>
      else req\<lparr>m_params := PARSE_PARAM (m_body req) CHR ''&'' (\<lambda>s. s) 0 (m_params req), m_parserParamFlag := m_parserParamFlag req OR 0x2\<rparr>)"

abbreviation blanks :: string where
  "blanks \<equiv> [CHR '' '', CHR 0x09, CHR 0x0D, CHR 0x0A]"

definition initCookies :: "HttpRequest \<Rightarrow> HttpRequest" where
  "initCookies req =
     (if m_parserParamFlag req AND 0x4 \<noteq> 0 then req
      else let cookie = getHeader ''cookie'' [] req in
      if cookie = [] then req\<lparr>m_parserParamFlag := m_parserParamFlag req OR 0x4\<rparr>
      else req\<lparr>m_cookies := PARSE_PARAM cookie CHR '';'' (\<lambda>s. Trim s blanks) 0 (m_cookies req), m_parserParamFlag := m_parserParamFlag req OR 0x4\<rparr>)"

definition initParam :: "HttpRequest \<Rightarrow> HttpRequest" where
  "initParam req = initCookies (initBodyParam (initQueryParam req))"

definition getParams :: "string \<Rightarrow> string \<Rightarrow> HttpRequest \<Rightarrow> string \<times> HttpRequest" where
  "getParams key def req = (let req' = initBodyParam (initQueryParam req) in (find_or key def (m_params req'), req'))"

definition getCookie :: "string \<Rightarrow> string \<Rightarrow> HttpRequest \<Rightarrow> string \<times> HttpRequest" where
  "getCookie key def req = (let req' = initCookies req in (find_or key def (m_cookies req'), req'))"

definition hasParam :: "string \<Rightarrow> HttpRequest \<Rightarrow> string option \<times> HttpRequest" where
  "hasParam key req = (let req' = initBodyParam (initQueryParam req) in (map_find key (m_params req'), req'))"

definition hasCookie :: "string \<Rightarrow> HttpRequest \<Rightarrow> string option \<times> HttpRequest" where
  "hasCookie key req = (let req' = initCookies req in (map_find key (m_cookies req'), req'))"

definition getParamAs :: "(string \<Rightarrow> 't option) \<Rightarrow> string \<Rightarrow> 't \<Rightarrow> HttpRequest \<Rightarrow> 't \<times> HttpRequest" where
  "getParamAs lexical_cast key def req = (let req' = initBodyParam (initQueryParam req) in (getAs lexical_cast (m_params req') key def, req'))"

definition checkGetParamAs :: "(string \<Rightarrow> 't option) \<Rightarrow> string \<Rightarrow> 't \<Rightarrow> HttpRequest \<Rightarrow> (bool \<times> 't) \<times> HttpRequest" where
  "checkGetParamAs lexical_cast key def req = (let req' = initBodyParam (initQueryParam req) in (checkGetAs lexical_cast (m_params req') key def, req'))"

definition getCookieAs :: "(string \<Rightarrow> 't option) \<Rightarrow> string \<Rightarrow> 't \<Rightarrow> HttpRequest \<Rightarrow> 't \<times> HttpRequest" where
  "getCookieAs lexical_cast key def req = (let req' = initCookies req in (getAs lexical_cast (m_cookies req') key def, req'))"

definition checkGetCookieAs :: "(string \<Rightarrow> 't option) \<Rightarrow> string \<Rightarrow> 't \<Rightarrow> HttpRequest \<Rightarrow> (bool \<times> 't) \<times> HttpRequest" where
  "checkGetCookieAs lexical_cast key def req = (let req' = initCookies req in (checkGetAs lexical_cast (m_cookies req') key def, req'))"

definition HttpRequest_init :: "HttpRequest \<Rightarrow> HttpRequest" where
  "HttpRequest_init req =
     (let conn = getHeader ''connection'' [] req in
      if conn = [] then req else req\<lparr>m_close := (strcasecmp (c_str conn) ''keep-alive'' \<noteq> 0)\<rparr>)"

subsection \<open>Text form\<close>

abbreviation crlf :: string where
  "crlf \<equiv> [CHR 0x0D, CHR 0x0A]"

definition version_text :: "u8 \<Rightarrow> string" where
  "version_text v = dec_of_nat (unat (drop_bit 4 v)) @ ''.'' @ dec_of_nat (unat (v AND 0x0F))"

definition header_lines :: "bool \<Rightarrow> MapType \<Rightarrow> string" where
  "header_lines websocket hs =
     concat (map (\<lambda>i. if \<not> websocket \<and> strcasecmp (c_str (fst i)) ''connection'' = 0 then [] else fst i @ '': '' @ snd i @ crlf) hs)"

definition HttpRequest_dump :: "HttpRequest \<Rightarrow> string" where
  "HttpRequest_dump req =
     HttpMethodToString (m_method req) @ '' '' @ m_path req
     @ (if m_query req = [] then [] else ''?'') @ m_query req
     @ (if m_fragment req = [] then [] else ''#'') @ m_fragment req
     @ '' HTTP/'' @ version_text (m_version req) @ crlf
     @ (if \<not> m_websocket req then ''connection:'' @ (if m_close req then '' close'' else ''keep-alive'') @ crlf else [])
     @ header_lines (m_websocket req) (m_headers req)
     @ (if m_body req \<noteq> [] then ''content-length: '' @ dec_of_nat (length (m_body req)) @ crlf @ crlf @ m_body req else crlf)"

definition HttpResponse_dump :: "HttpResponse \<Rightarrow> string" where
  "HttpResponse_dump rsp =
     ''HTTP/'' @ version_text (r_version rsp) @ '' '' @ dec_of_nat (r_status rsp) @ '' ''
     @ (if r_reason rsp = [] then HttpStatusToString (r_status rsp) else r_reason rsp) @ crlf
     @ header_lines (r_websocket rsp) (r_headers rsp)
     @ concat (map (\<lambda>i. ''Set-Cookie: '' @ i @ crlf) (r_cookies rsp))
     @ (if \<not> r_websocket rsp then ''connection: '' @ (if r_close rsp then ''close'' else ''keep-alive'') @ crlf else [])
     @ (if r_body rsp \<noteq> [] then ''content-length; '' @ dec_of_nat (length (r_body rsp)) @ crlf @ crlf @ r_body rsp else crlf)"

subsection \<open>Responses\<close>

definition response_getHeader :: "string \<Rightarrow> string \<Rightarrow> HttpResponse \<Rightarrow> string" where
  "response_getHeader key def rsp = find_or key def (r_headers rsp)"

definition response_setHeader :: "string \<Rightarrow> string \<Rightarrow> HttpResponse \<Rightarrow> HttpResponse" where
  "response_setHeader key val rsp = rsp\<lparr>r_headers := map_assign key val (r_headers rsp)\<rparr>"

definition response_delHeader :: "string \<Rightarrow> HttpResponse \<Rightarrow> HttpResponse" where
  "response_delHeader key rsp = rsp\<lparr>r_headers := map_erase key (r_headers rsp)\<rparr>"

definition setRedirect :: "string \<Rightarrow> HttpResponse \<Rightarrow> HttpResponse" where
  "setRedirect uri rsp = response_setHeader ''Location'' uri (rsp\<lparr>r_status := 302\<rparr>)"

definition response_setCookie ::
    "(int \<Rightarrow> string) \<Rightarrow> string \<Rightarrow> string \<Rightarrow> int \<Rightarrow> string \<Rightarrow> string \<Rightarrow> bool \<Rightarrow> HttpResponse \<Rightarrow> HttpResponse" where
  "response_setCookie time2str key val expired path domain secure rsp =
     rsp\<lparr>r_cookies := r_cookies rsp @
       [key @ ''='' @ val
        @ (if expired > 0 then '';expires='' @ time2str expired @ '' GMT'' else [])
        @ (if domain \<noteq> [] then '';domain='' @ domain else [])
        @ (if path \<noteq> [] then '';path='' @ path else [])
        @ (if secure then ''secure'' else [])]\<rparr>"

subsection \<open>The order of the keys\<close>

definition ci_key :: "string \<Rightarrow> nat list" where
  "ci_key s = map tolower (c_str s)"

lemma tolower_pos: "c \<noteq> CHR 0x00 \<Longrightarrow> 0 < tolower c"
  using of_char_eq_iff [of c "CHR 0x00", where 'a = nat] by (auto simp: tolower_def Let_def)

lemma c_str_pos: "c \<in> set (c_str s) \<Longrightarrow> 0 < tolower c"
  by (auto simp: c_str_def dest!: set_takeWhileD intro!: tolower_pos)

lemma strcasecmp_key:
  assumes "\<forall>c \<in> set a \<union> set b. 0 < tolower c"
  shows "strcasecmp a b < 0 \<longleftrightarrow> ord_class.lexordp (map tolower a) (map tolower b)" and "strcasecmp a b = 0 \<longleftrightarrow> map tolower a = map tolower b"
  using assms by (induction a b rule: strcasecmp.induct) auto

lemma less_key: "CaseInsensitiveLess a b \<longleftrightarrow> ord_class.lexordp (ci_key a) (ci_key b)"
  unfolding CaseInsensitiveLess_def ci_key_def by (rule strcasecmp_key) (auto dest: c_str_pos)

interpretation ci: weak_order CaseInsensitiveLess
proof
  show "\<not> CaseInsensitiveLess a a" for a by (simp add: less_key lexordp_irreflexive')
  show "CaseInsensitiveLess a b \<Longrightarrow> CaseInsensitiveLess b c \<Longrightarrow> CaseInsensitiveLess a c" for a b c
    unfolding less_key by (rule lexordp_trans)
  show "(CaseInsensitiveLess a c \<longleftrightarrow> CaseInsensitiveLess b c) \<and> (CaseInsensitiveLess c a \<longleftrightarrow> CaseInsensitiveLess c b)"
    if "\<not> CaseInsensitiveLess a b" "\<not> CaseInsensitiveLess b a" for a b c
    using that lexordp_linear [of "ci_key a" "ci_key b"] by (auto simp: less_key)
qed

lemma eqv_key: "ci.eqv a b \<longleftrightarrow> ci_key a = ci_key b"
  using lexordp_linear [of "ci_key a" "ci_key b"] lexordp_irreflexive' [of "ci_key a"] by (auto simp: ci.eqv_def less_key)

text \<open>Two keys are the same header when they differ in letter case only.\<close>

definition same_key :: "string \<Rightarrow> string \<Rightarrow> bool" where
  "same_key a b \<longleftrightarrow> ci_key a = ci_key b"

definition map_ok :: "MapType \<Rightarrow> bool" where
  "map_ok m \<longleftrightarrow> sorted_wrt CaseInsensitiveLess (map fst m)"

lemma map_ok_inv: "map_ok m = ci.omap_inv m"
  by (simp add: map_ok_def ci.omap_inv_def)

lemma map_laws:
  assumes "map_ok m"
  shows "map_find k' (map_assign k v m) = (if same_key k k' then Some v else map_find k' m)"
    and "map_find k' (map_erase k m) = (if same_key k k' then None else map_find k' m)"
    and "map_find k' (map_insert k v m) = (if same_key k k' \<and> map_find k m = None then Some v else map_find k' m)"
    and "map_ok (map_assign k v m)" and "map_ok (map_erase k m)" and "map_ok (map_insert k v m)"
  using assms
  by (simp_all add: map_ok_inv map_find_def map_assign_def map_erase_def map_insert_def same_key_def
      ci.find_assign ci.find_erase ci.find_insert ci.inv_assign ci.inv_erase ci.inv_insert eqv_key)

lemma map_find_same: "same_key k k' \<Longrightarrow> map_find k m = map_find k' m"
  using ci.find_eqv by (simp add: map_find_def same_key_def eqv_key)

lemma map_ok_Nil [simp]: "map_ok []"
  by (simp add: map_ok_def)

subsection \<open>Parameters\<close>

text \<open>The loop of \<open>PARSE_PARAM\<close> on what is left of the string.\<close>

lemma PARSE_PARAM_step:
  assumes "str = pre @ k @ CHR ''='' # v @ rest" and "CHR ''='' \<notin> set k" and "flag \<notin> set v" and "flag \<noteq> CHR ''=''"
    and "rest = [] \<or> (\<exists>r. rest = flag # r)"
  shows "PARSE_PARAM str flag trim (length pre) m =
    (if rest = [] then map_insert (trim k) (UrlDecode v True) m
     else PARSE_PARAM str flag trim (length (pre @ k @ CHR ''='' # v) + 1) (map_insert (trim k) (UrlDecode v True) m))"
proof -
  have tw: "takeWhile (\<lambda>d. d \<noteq> c) (xs @ c # ys) = xs" if "c \<notin> set xs" for c :: char and xs ys
    using that by (induction xs) auto
  have f1: "find_from CHR ''='' str (length pre) = Some (length pre + length k)"
    using assms(1,2) by (simp add: find_from_def tw)
  have d: "drop (length pre + length k) str = (CHR ''='' # v) @ rest" using assms(1) by simp
  have nf: "flag \<notin> set (CHR ''='' # v)" using assms(3,4) by simp
  have s1: "substr str (length pre) (length k) = k" using assms(1) by (simp add: substr_def)
  show ?thesis
  proof (cases "rest = []")
    case True
    then have "takeWhile (\<lambda>d. d \<noteq> flag) (drop (length pre + length k) str) = CHR ''='' # v"
      using d nf by (auto simp: takeWhile_eq_all_conv)
    then have f2: "find_from flag str (length pre + length k) = None"
      using assms(1) True by (simp add: find_from_def)
    have "substr str (length pre + length k + 1) (length str) = v" using assms(1) True by (simp add: substr_def)
    then show ?thesis using True f1 f2 s1 by (subst PARSE_PARAM.simps) simp
  next
    case False
    then obtain r where r: "rest = flag # r" using assms(5) by blast
    then have "takeWhile (\<lambda>d. d \<noteq> flag) (drop (length pre + length k) str) = CHR ''='' # v"
      using d tw [OF nf] by simp
    then have f2: "find_from flag str (length pre + length k) = Some (length pre + length k + Suc (length v))"
      using assms(1) r by (simp add: find_from_def)
    have "substr str (length pre + length k + 1) (length v) = v" using assms(1) by (simp add: substr_def)
    then show ?thesis using False f1 f2 s1 by (subst PARSE_PARAM.simps) (simp add: add.assoc)
  qed
qed

definition pair_text :: "string \<times> string \<Rightarrow> string" where
  "pair_text p = fst p @ ''='' @ UrlEncode (snd p) True"

fun query_text :: "(string \<times> string) list \<Rightarrow> string" where
  "query_text [] = []"
| "query_text [p] = pair_text p"
| "query_text (p # q # ps) = pair_text p @ ''&'' @ query_text (q # ps)"

lemma amp_not_encoded: "CHR ''&'' \<notin> set (UrlEncode s True)"
proof -
  have "\<not> CHAR_IS_UNRESERVED CHR ''&''" by code_simp
  moreover have "CHAR_IS_UNRESERVED x \<or> x = CHR ''%'' \<or> x = CHR ''+''" if "x \<in> set (enc_char True c)" for x c
  proof -
    have "of_char c < (256 :: nat)" by simp
    then have "of_char c div 16 < (16 :: nat)" by linarith
    then show ?thesis using that hexdigit_facts(3) by (auto simp: enc_char_def split: if_splits)
  qed
  ultimately show ?thesis by (fastforce simp: UrlEncode_eq)
qed

lemma decode_encode: "UrlDecode (UrlEncode s True) True = s"
proof -
  have "dec_string True (concat (map (enc_char True) s)) = s" by (induction s) (simp_all add: dec_enc_char)
  then show ?thesis by (simp add: UrlEncode_eq UrlDecode_eq)
qed

lemma PARSE_PARAM_query:
  assumes "\<forall>p \<in> set ps. CHR ''='' \<notin> set (fst p)" and "str = pre @ query_text ps"
  shows "PARSE_PARAM str CHR ''&'' (\<lambda>s. s) (length pre) m = fold (\<lambda>p. map_insert (fst p) (snd p)) ps m"
  using assms
proof (induction ps arbitrary: pre m rule: query_text.induct)
  case 1
  then show ?case by (subst PARSE_PARAM.simps) (simp add: find_from_def)
next
  case (2 p)
  then show ?case
    using PARSE_PARAM_step [of str pre "fst p" "UrlEncode (snd p) True" "[]" "CHR ''&''" "\<lambda>s. s" m] amp_not_encoded
    by (simp add: pair_text_def decode_encode)
next
  case (3 p q ps)
  let ?pre = "pre @ pair_text p @ ''&''"
  have "PARSE_PARAM str CHR ''&'' (\<lambda>s. s) (length pre) m = PARSE_PARAM str CHR ''&'' (\<lambda>s. s) (length ?pre) (map_insert (fst p) (snd p) m)"
    using 3(2,3) PARSE_PARAM_step [of str pre "fst p" "UrlEncode (snd p) True" "''&'' @ query_text (q # ps)" "CHR ''&''" "\<lambda>s. s" m] amp_not_encoded
    by (simp add: pair_text_def decode_encode)
  then show ?case using 3(1) [of ?pre "map_insert (fst p) (snd p) m"] 3(2,3) by simp
qed

lemma fold_insert_find:
  assumes "map_ok m" and "(k, v) \<in> set ps" and "\<forall>p \<in> set ps. map_find (fst p) m = None" and "distinct (map (ci_key \<circ> fst) ps)"
  shows "map_find k (fold (\<lambda>p. map_insert (fst p) (snd p)) ps m) = Some v"
proof -
  have keep: "map_ok m \<Longrightarrow> map_find k m = Some v \<Longrightarrow> map_find k (fold (\<lambda>p. map_insert (fst p) (snd p)) qs m) = Some v" for qs :: MapType and m
  proof (induction qs arbitrary: m)
    case (Cons q qs)
    have "map_find k (map_insert (fst q) (snd q) m) = Some v"
      using Cons.prems map_find_same [of "fst q" k m] by (auto simp: map_laws)
    then show ?case using Cons by (simp add: map_laws)
  qed simp
  show ?thesis using assms
  proof (induction ps arbitrary: m)
    case (Cons p ps)
    have new: "map_find (fst q) (map_insert (fst p) (snd p) m) = None" if "q \<in> set ps" for q
      using Cons.prems that by (force simp: map_laws same_key_def)
    show ?case
    proof (cases "p = (k, v)")
      case True
      then have "map_find k (map_insert k v m) = Some v" using Cons.prems by (auto simp: map_laws same_key_def)
      then show ?thesis using keep [of "map_insert k v m" ps] Cons.prems(1) True by (simp add: map_laws)
    next
      case False
      then show ?thesis using Cons.IH [of "map_insert (fst p) (snd p) m"] Cons.prems new by (auto simp: map_laws)
    qed
  qed simp
qed

subsection \<open>Properties\<close>

text \<open>
  Headers are found whatever the case of their letters: a header that was set is what every spelling of its
  name gives, deleting removes all spellings, other headers stay as they were, and the map keeps its order.
\<close>

lemma headers_case_insensitive:
  assumes "map_ok (m_headers req)"
  shows "getHeader k' d (setHeader k v req) = (if same_key k k' then v else getHeader k' d req)
    \<and> getHeader k' d (delHeader k req) = (if same_key k k' then d else getHeader k' d req)
    \<and> map_ok (m_headers (setHeader k v req)) \<and> map_ok (m_headers (delHeader k req))"
  using assms by (simp add: getHeader_def setHeader_def delHeader_def find_or_def map_laws)



text \<open>
  C26. Methods and their names: every method is recovered from its name, also by the parser's \<open>CharsToHttpMethod\<close>, which
  only sees a name with more text after it; an unknown method has no name that is taken for a method.
\<close>

theorem method_names_roundtrip:
  "(StringToHttpMethod (HttpMethodToString m) = m) \<and> (m = INVALID_METHOD \<or> CharsToHttpMethod (HttpMethodToString m @ rest) = m)"
  by (cases m) (simp_all add: StringToHttpMethod_def CharsToHttpMethod_def HttpMethodToString_def HTTP_METHOD_MAP_def c_str_def)

end
