(* ===== verification/Address.thy ===== *)
theory Address
  imports Endian OrderedSet Http
begin

text \<open>
  Network addresses (\<open>sylar/address.h\<close>, \<open>sylar/address.cpp\<close>). The socket address structures are records; \<open>addr_mem\<close> is
  their object representation on the little-endian host, which \<open>memcmp\<close> and the casts of \<open>Address::Create\<close> see. Fields in
  network byte order are stored swapped, as in the code. Name resolution, \<open>inet_pton\<close> and the list of interfaces are parameters.
\<close>

abbreviation (input) AF_UNSPEC :: int where "AF_UNSPEC \<equiv> 0"
abbreviation (input) AF_UNIX :: int where "AF_UNIX \<equiv> 1"
abbreviation (input) AF_INET :: int where "AF_INET \<equiv> 2"
abbreviation (input) AF_INET6 :: int where "AF_INET6 \<equiv> 10"

record sockaddr_in =
  sin_family :: u16
  sin_port :: u16
  sin_addr :: u32
  sin_zero :: "u8 list"

record sockaddr_in6 =
  sin6_family :: u16
  sin6_port :: u16
  sin6_flowinfo :: u32
  sin6_addr :: "u8 list"
  sin6_scope_id :: u32

record sockaddr_un =
  sun_family :: u16
  sun_path :: "u8 list"

record sockaddr =
  sa_family :: u16
  sa_data :: "u8 list"

datatype address =
    IPv4Address sockaddr_in
  | IPv6Address sockaddr_in6
  | UnixAddress sockaddr_un nat
  | UnknownAddress sockaddr

text \<open>A shift by the width or more, an index outside an array, \<open>logic_error\<close>, a read behind the object, the first element of an empty vector, a null pointer.\<close>

datatype addr_error = Undefined_shift | Index_out_of_range | Path_too_long | Short_read | Empty_result | Null_pointer

definition in_mem :: "sockaddr_in \<Rightarrow> u8 list" where
  "in_mem a = mem_bytes 2 (sin_family a) @ mem_bytes 2 (sin_port a) @ mem_bytes 4 (sin_addr a) @ sin_zero a"

definition in6_mem :: "sockaddr_in6 \<Rightarrow> u8 list" where
  "in6_mem a = mem_bytes 2 (sin6_family a) @ mem_bytes 2 (sin6_port a) @ mem_bytes 4 (sin6_flowinfo a) @ sin6_addr a @ mem_bytes 4 (sin6_scope_id a)"

primrec addr_mem :: "address \<Rightarrow> u8 list" where
  "addr_mem (IPv4Address a) = in_mem a"
| "addr_mem (IPv6Address a) = in6_mem a"
| "addr_mem (UnixAddress a n) = mem_bytes 2 (sun_family a) @ sun_path a"
| "addr_mem (UnknownAddress a) = mem_bytes 2 (sa_family a) @ sa_data a"

primrec getAddrLen :: "address \<Rightarrow> nat" where
  "getAddrLen (IPv4Address a) = 16"
| "getAddrLen (IPv6Address a) = 28"
| "getAddrLen (UnixAddress a n) = n"
| "getAddrLen (UnknownAddress a) = 16"

primrec getFamily :: "address \<Rightarrow> int" where
  "getFamily (IPv4Address a) = uint (sin_family a)"
| "getFamily (IPv6Address a) = uint (sin6_family a)"
| "getFamily (UnixAddress a n) = uint (sun_family a)"
| "getFamily (UnknownAddress a) = uint (sa_family a)"

subsection \<open>Construction\<close>

definition in_of_mem :: "u8 list \<Rightarrow> sockaddr_in" where
  "in_of_mem m = \<lparr>sin_family = of_mem (take 2 m), sin_port = of_mem (take 2 (drop 2 m)), sin_addr = of_mem (take 4 (drop 4 m)), sin_zero = take 8 (drop 8 m)\<rparr>"

definition in6_of_mem :: "u8 list \<Rightarrow> sockaddr_in6" where
  "in6_of_mem m = \<lparr>sin6_family = of_mem (take 2 m), sin6_port = of_mem (take 2 (drop 2 m)), sin6_flowinfo = of_mem (take 4 (drop 4 m)),
     sin6_addr = take 16 (drop 8 m), sin6_scope_id = of_mem (take 4 (drop 24 m))\<rparr>"

definition sockaddr_of_mem :: "u8 list \<Rightarrow> sockaddr" where
  "sockaddr_of_mem m = \<lparr>sa_family = of_mem (take 2 m), sa_data = take 14 (drop 2 m)\<rparr>"

text \<open>\<open>Address::Create\<close> reads the structure that the family selects; \<open>addrlen\<close> is not used.\<close>

definition Address_Create :: "u8 list option \<Rightarrow> addr_error + address option" where
  "Address_Create addr =
     (case addr of
        None \<Rightarrow> Inr None
      | Some m \<Rightarrow>
          (let family = uint (of_mem (take 2 m) :: u16) in
           if length m < 2 then Inl Short_read
           else if family = AF_INET then (if length m < 16 then Inl Short_read else Inr (Some (IPv4Address (in_of_mem m))))
           else if family = AF_INET6 then (if length m < 28 then Inl Short_read else Inr (Some (IPv6Address (in6_of_mem m))))
           else (if length m < 16 then Inl Short_read else Inr (Some (UnknownAddress (sockaddr_of_mem m))))))"

text \<open>The constructor takes an address but only stores the port.\<close>

definition new_IPv4Address :: "u32 \<Rightarrow> u16 \<Rightarrow> address" where
  "new_IPv4Address address port = IPv4Address \<lparr>sin_family = 2, sin_port = byteswapOnLittleEndian port, sin_addr = 0, sin_zero = replicate 8 0\<rparr>"

definition new_IPv6Address :: address where
  "new_IPv6Address = IPv6Address \<lparr>sin6_family = 10, sin6_port = 0, sin6_flowinfo = 0, sin6_addr = replicate 16 0, sin6_scope_id = 0\<rparr>"

definition new_IPv6Address_bytes :: "u8 list \<Rightarrow> u16 \<Rightarrow> address" where
  "new_IPv6Address_bytes address port =
     IPv6Address \<lparr>sin6_family = 10, sin6_port = byteswapOnLittleEndian port, sin6_flowinfo = 0, sin6_addr = take 16 address, sin6_scope_id = 0\<rparr>"

definition new_UnixAddress :: address where
  "new_UnixAddress = UnixAddress \<lparr>sun_family = 1, sun_path = replicate 108 0\<rparr> (2 + 107)"

definition new_UnixAddress_path :: "string \<Rightarrow> addr_error + address" where
  "new_UnixAddress_path path =
     (let n = length path + 1;
          m_length = (if path \<noteq> [] \<and> hd path = CHR 0x00 then n - 1 else n)
      in if m_length > 108 then Inl Path_too_long
         else let bytes = take m_length (map of_char path @ [0])
              in Inr (UnixAddress \<lparr>sun_family = 1, sun_path = bytes @ replicate (108 - m_length) 0\<rparr> (m_length + 2)))"

definition new_UnknownAddress :: "int \<Rightarrow> address" where
  "new_UnknownAddress family = UnknownAddress \<lparr>sa_family = word_of_int family, sa_data = replicate 14 0\<rparr>"

text \<open>\<open>IPv4Address::Create\<close> and \<open>IPv6Address::Create\<close>: \<open>inet_pton\<close> fills in the address or fails.\<close>

definition IPv4Address_Create :: "(string \<Rightarrow> u32 option) \<Rightarrow> string \<Rightarrow> u16 \<Rightarrow> address option" where
  "IPv4Address_Create inet_pton address port =
     (case inet_pton address of
        None \<Rightarrow> None
      | Some a \<Rightarrow> Some (IPv4Address \<lparr>sin_family = 2, sin_port = byteswapOnLittleEndian port, sin_addr = a, sin_zero = replicate 8 0\<rparr>))"

definition IPv6Address_Create :: "(string \<Rightarrow> u8 list option) \<Rightarrow> string \<Rightarrow> u16 \<Rightarrow> address option" where
  "IPv6Address_Create inet_pton address port =
     (case inet_pton address of
        None \<Rightarrow> None
      | Some a \<Rightarrow> Some (IPv6Address \<lparr>sin6_family = 10, sin6_port = byteswapOnLittleEndian port, sin6_flowinfo = 0, sin6_addr = a, sin6_scope_id = 0\<rparr>))"

primrec setPort :: "u16 \<Rightarrow> address \<Rightarrow> address" where
  "setPort v (IPv4Address a) = IPv4Address (a\<lparr>sin_port := byteswapOnLittleEndian v\<rparr>)"
| "setPort v (IPv6Address a) = IPv6Address (a\<lparr>sin6_port := byteswapOnLittleEndian v\<rparr>)"
| "setPort v (UnixAddress a n) = UnixAddress a n"
| "setPort v (UnknownAddress a) = UnknownAddress a"

primrec getPort :: "address \<Rightarrow> u32" where
  "getPort (IPv4Address a) = ucast (byteswapOnLittleEndian (sin_port a))"
| "getPort (IPv6Address a) = ucast (byteswapOnLittleEndian (sin6_port a))"
| "getPort (UnixAddress a n) = 0"
| "getPort (UnknownAddress a) = 0"

primrec is_ip :: "address \<Rightarrow> bool" where
  "is_ip (IPv4Address a) = True"
| "is_ip (IPv6Address a) = True"
| "is_ip (UnixAddress a n) = False"
| "is_ip (UnknownAddress a) = False"

text \<open>\<open>IPAddress::Create\<close> on the first result of \<open>getaddrinfo\<close>, \<open>None\<close> when that fails.\<close>

definition IPAddress_Create :: "(string \<Rightarrow> u8 list option) \<Rightarrow> string \<Rightarrow> u16 \<Rightarrow> addr_error + address option" where
  "IPAddress_Create getaddrinfo address port =
     (case getaddrinfo address of
        None \<Rightarrow> Inr None
      | Some m \<Rightarrow> (case Address_Create (Some m) of
            Inl e \<Rightarrow> Inl e
          | Inr None \<Rightarrow> Inr None
          | Inr (Some a) \<Rightarrow> Inr (if is_ip a then Some (setPort port a) else None)))"

subsection \<open>Comparison\<close>

fun memcmp :: "u8 list \<Rightarrow> u8 list \<Rightarrow> int" where
  "memcmp (a # as) (b # bs) = (if a = b then memcmp as bs else uint a - uint b)"
| "memcmp _ _ = 0"

definition Address_less :: "address \<Rightarrow> address \<Rightarrow> bool" where
  "Address_less lhs rhs =
     (let minlen = min (getAddrLen lhs) (getAddrLen rhs);
          result = memcmp (take minlen (addr_mem lhs)) (take minlen (addr_mem rhs))
      in if result < 0 then True else if result > 0 then False
         else if getAddrLen lhs < getAddrLen rhs then True else False)"

definition Address_equal :: "address \<Rightarrow> address \<Rightarrow> bool" where
  "Address_equal lhs rhs \<longleftrightarrow> getAddrLen lhs = getAddrLen rhs
     \<and> memcmp (take (getAddrLen lhs) (addr_mem lhs)) (take (getAddrLen lhs) (addr_mem rhs)) = 0"

subsection \<open>Networks\<close>

text \<open>
  \<open>CreateMask<T>\<close>: \<open>(1 << (sizeof(T) * 8 - bits)) - 1\<close> in \<open>int\<close> arithmetic, converted to \<open>T\<close>; \<open>w\<close> is the width of
  \<open>T\<close>. The count is a \<open>size_t\<close>, so it wraps to a huge value when there are too many bits. A count of 31 overflows
  \<open>int\<close> and one of 32 or more is undefined.
\<close>

definition CreateMask :: "nat \<Rightarrow> u32 \<Rightarrow> addr_error + nat" where
  "CreateMask w bits =
     (if w < unat bits \<or> 31 \<le> w - unat bits then Inl Undefined_shift else Inr ((2 ^ (w - unat bits) - 1) mod 2 ^ w))"

function CountBytes :: "'a::len word \<Rightarrow> nat \<Rightarrow> nat" where
  "CountBytes val result = (if val = 0 then result else CountBytes (val AND (val - 1)) (result + 1))"
  by pat_completeness auto
termination
proof (relation "measure (\<lambda>(val, result). unat val)", simp)
  fix val :: "'a word" and result :: nat
  assume "val \<noteq> 0"
  then have "unat (val - 1) < unat val" by (rule measure_unat)
  moreover have "val AND (val - 1) \<le> val - 1" by (simp add: word_and_le1)
  ultimately show "((val AND (val - 1), result + 1), (val, result)) \<in> measure (\<lambda>(val, result). unat val)"
    by (simp add: word_le_nat_alt)
qed

declare CountBytes.simps [simp del]

definition broadcast4 :: "u32 \<Rightarrow> sockaddr_in \<Rightarrow> addr_error + address option" where
  "broadcast4 prefix_len a =
     (if prefix_len > 32 then Inr None
      else case CreateMask 32 prefix_len of
        Inl e \<Rightarrow> Inl e
      | Inr m \<Rightarrow> Inr (Some (IPv4Address (a\<lparr>sin_addr := sin_addr a OR byteswapOnLittleEndian (of_nat m)\<rparr>))))"

definition network4 :: "u32 \<Rightarrow> sockaddr_in \<Rightarrow> addr_error + address option" where
  "network4 prefix_len a =
     (if prefix_len > 32 then Inr None
      else case CreateMask 32 prefix_len of
        Inl e \<Rightarrow> Inl e
      | Inr m \<Rightarrow> Inr (Some (IPv4Address (a\<lparr>sin_addr := sin_addr a AND byteswapOnLittleEndian (of_nat m)\<rparr>))))"

definition subnetMask4 :: "u32 \<Rightarrow> addr_error + address option" where
  "subnetMask4 prefix_len =
     (case CreateMask 32 prefix_len of
        Inl e \<Rightarrow> Inl e
      | Inr m \<Rightarrow> Inr (Some (IPv4Address \<lparr>sin_family = 2, sin_port = 0, sin_addr = NOT (byteswapOnLittleEndian (of_nat m)), sin_zero = replicate 8 0\<rparr>)))"

text \<open>The IPv6 versions change one byte of the address, then fill the following or the preceding bytes.\<close>

definition broadcast6 :: "u32 \<Rightarrow> sockaddr_in6 \<Rightarrow> addr_error + address option" where
  "broadcast6 prefix_len a =
     (let i = unat (prefix_len div 8) in
      if 16 \<le> i then Inl Index_out_of_range
      else case CreateMask 8 (prefix_len mod 8) of
        Inl e \<Rightarrow> Inl e
      | Inr m \<Rightarrow> Inr (Some (IPv6Address (a\<lparr>sin6_addr :=
          take (i + 1) ((sin6_addr a)[i := sin6_addr a ! i OR of_nat m]) @ replicate (16 - (i + 1)) 0xff\<rparr>))))"

definition network6 :: "u32 \<Rightarrow> sockaddr_in6 \<Rightarrow> addr_error + address option" where
  "network6 prefix_len a =
     (let i = unat (prefix_len div 8) in
      if 16 \<le> i then Inl Index_out_of_range
      else case CreateMask 8 (prefix_len mod 8) of
        Inl e \<Rightarrow> Inl e
      | Inr m \<Rightarrow> Inr (Some (IPv6Address (a\<lparr>sin6_addr := (sin6_addr a)[i := sin6_addr a ! i AND of_nat m]\<rparr>))))"

definition subnetMask6 :: "u32 \<Rightarrow> addr_error + address option" where
  "subnetMask6 prefix_len =
     (let i = unat (prefix_len div 8) in
      if 16 \<le> i then Inl Index_out_of_range
      else case CreateMask 8 (prefix_len mod 8) of
        Inl e \<Rightarrow> Inl e
      | Inr m \<Rightarrow> Inr (Some (IPv6Address \<lparr>sin6_family = 10, sin6_port = 0, sin6_flowinfo = 0,
          sin6_addr = replicate (i + 1) 0xff @ drop (i + 1) ((replicate 16 0)[i := NOT (of_nat m)]), sin6_scope_id = 0\<rparr>)))"

subsection \<open>Text\<close>

definition ipv4_text :: "sockaddr_in \<Rightarrow> string" where
  "ipv4_text a =
     (let addr = byteswapOnLittleEndian (sin_addr a) in
      dec_of_nat (unat (drop_bit 24 addr AND 0xff)) @ ''.'' @ dec_of_nat (unat (drop_bit 10 addr AND 0xff)) @ ''.''
      @ dec_of_nat (unat (drop_bit 8 addr AND 0xff)) @ ''.'' @ dec_of_nat (unat (addr AND 0xff))
      @ '':'' @ dec_of_nat (unat (byteswapOnLittleEndian (sin_port a))))"

definition ipv6_group :: "sockaddr_in6 \<Rightarrow> nat \<Rightarrow> u16" where
  "ipv6_group a i = of_mem (take 2 (drop (2 * i) (sin6_addr a)))"

text \<open>The body of the loop over the eight groups; the state is what was written and \<open>used_zeros\<close>.\<close>

definition ipv6_step :: "sockaddr_in6 \<Rightarrow> nat \<Rightarrow> string \<times> bool \<Rightarrow> string \<times> bool" where
  "ipv6_step a i = (\<lambda>(os, used_zeros).
     if ipv6_group a i = 0 \<and> \<not> used_zeros then (os, used_zeros)
     else let (os1, used1) = (if i \<noteq> 0 \<and> ipv6_group a (i - 1) = 0 \<and> \<not> used_zeros then (os @ '':'', True) else (os, used_zeros));
              os2 = (if i \<noteq> 0 then os1 @ '':'' else os1)
          in (os2 @ hex_of_nat (unat (byteswapOnLittleEndian (ipv6_group a i))), used1))"

definition ipv6_text :: "sockaddr_in6 \<Rightarrow> string" where
  "ipv6_text a =
     (let (os, used_zeros) = fold (ipv6_step a) [0..<8] (''['', False);
          os1 = (if \<not> used_zeros \<and> ipv6_group a 7 = 0 then os @ ''::'' else os)
      in os1 @ '']:'' @ dec_of_nat (unat (byteswapOnLittleEndian (sin6_port a))))"

definition unix_text :: "sockaddr_un \<Rightarrow> nat \<Rightarrow> string" where
  "unix_text a m_length =
     (if m_length > 2 \<and> sun_path a ! 0 = 0
      then [CHR 0x5C, CHR ''0''] @ map (\<lambda>b. char_of (unat b)) (take (m_length - 2 - 1) (drop 1 (sun_path a)))
      else c_str (map (\<lambda>b. char_of (unat b)) (sun_path a)))"

primrec Address_toString :: "address \<Rightarrow> string" where
  "Address_toString (IPv4Address a) = ipv4_text a"
| "Address_toString (IPv6Address a) = ipv6_text a"
| "Address_toString (UnixAddress a n) = unix_text a n"
| "Address_toString (UnknownAddress a) = ''[UnknownAddress family='' @ dec_of_nat (unat (sa_family a)) @ '']''"

subsection \<open>Name resolution\<close>

text \<open>
  The part of \<open>Address::Lookup\<close> that splits \<open>host\<close> into node and service. \<open>service\<close> is a pointer into the host
  string, \<open>None\<close> when null: for a host with several colons it stays at the first one.
\<close>

definition bracket_split :: "string \<Rightarrow> string \<times> string option" where
  "bracket_split host =
     (if host \<noteq> [] \<and> hd host = CHR ''['' then
        (case find_from CHR '']'' host 1 of
           None \<Rightarrow> ([], None)
         | Some e \<Rightarrow> (substr host 1 (e - 1), if take 1 (drop (e + 1) host) = '':'' then Some (drop (e + 2) host) else None))
      else ([], None))"

definition split_host :: "string \<Rightarrow> string \<times> string option" where
  "split_host host =
     (let (node, service) = bracket_split host;
          (node1, service1) =
            (if node = [] then
               (case find_from CHR '':'' host 0 of
                  None \<Rightarrow> ([], None)
                | Some i \<Rightarrow>
                    (if find_from CHR '':'' host (i + 1) = None then (take i host, Some (drop (i + 1) host))
                     else ([], Some (drop i host))))
             else (node, service))
      in (if node1 = [] then host else node1, service1))"

primrec create_all :: "u8 list list \<Rightarrow> addr_error + address list" where
  "create_all [] = Inr []"
| "create_all (m # ms) =
     (case Address_Create (Some m) of
        Inl e \<Rightarrow> Inl e
      | Inr a \<Rightarrow> (case create_all ms of Inl e \<Rightarrow> Inl e | Inr as \<Rightarrow> Inr (case a of Some x \<Rightarrow> x # as | None \<Rightarrow> as)))"

type_synonym resolver = "string \<Rightarrow> string option \<Rightarrow> int \<Rightarrow> int \<Rightarrow> int \<Rightarrow> u8 list list option"

definition Lookup :: "resolver \<Rightarrow> string \<Rightarrow> int \<Rightarrow> int \<Rightarrow> int \<Rightarrow> addr_error + address list option" where
  "Lookup getaddrinfo host family type protocol =
     (case split_host host of (node, service) \<Rightarrow>
        case getaddrinfo (c_str node) (map_option c_str service) family type protocol of
          None \<Rightarrow> Inr None
        | Some ms \<Rightarrow> (case create_all ms of Inl e \<Rightarrow> Inl e | Inr as \<Rightarrow> Inr (Some as)))"

definition LookupAny :: "resolver \<Rightarrow> string \<Rightarrow> int \<Rightarrow> int \<Rightarrow> int \<Rightarrow> addr_error + address option" where
  "LookupAny getaddrinfo host family type protocol =
     (case Lookup getaddrinfo host family type protocol of
        Inl e \<Rightarrow> Inl e
      | Inr None \<Rightarrow> Inr None
      | Inr (Some []) \<Rightarrow> Inl Empty_result
      | Inr (Some (a # as)) \<Rightarrow> Inr (Some a))"

definition LookupAnyIPAddress :: "resolver \<Rightarrow> string \<Rightarrow> int \<Rightarrow> int \<Rightarrow> int \<Rightarrow> addr_error + address option" where
  "LookupAnyIPAddress getaddrinfo host family type protocol =
     (case Lookup getaddrinfo host family type protocol of
        Inl e \<Rightarrow> Inl e
      | Inr None \<Rightarrow> Inr None
      | Inr (Some as) \<Rightarrow> Inr (find is_ip as))"

text \<open>One interface of \<open>getifaddrs\<close>: its name, the memory of its address, which may be missing, and of its netmask.\<close>

record ifaddr =
  ifa_name :: string
  ifa_addr :: "u8 list option"
  ifa_netmask :: "u8 list"

definition interface_entry :: "int \<Rightarrow> ifaddr \<Rightarrow> addr_error + (string \<times> address \<times> nat) option" where
  "interface_entry family i =
     (case ifa_addr i of
        None \<Rightarrow> Inl Null_pointer
      | Some m \<Rightarrow>
          let f = uint (of_mem (take 2 m) :: u16) in
          if family \<noteq> AF_UNSPEC \<and> family \<noteq> f then Inr None
          else if f = AF_INET then
            (case Address_Create (Some m) of
               Inl e \<Rightarrow> Inl e
             | Inr None \<Rightarrow> Inr None
             | Inr (Some a) \<Rightarrow> Inr (Some (ifa_name i, a, CountBytes (sin_addr (in_of_mem (ifa_netmask i))) 0)))
          else if f = AF_INET6 then
            (case Address_Create (Some m) of
               Inl e \<Rightarrow> Inl e
             | Inr None \<Rightarrow> Inr None
             | Inr (Some a) \<Rightarrow> Inr (Some (ifa_name i, a, sum_list (map (\<lambda>b. CountBytes b 0) (sin6_addr (in6_of_mem (ifa_netmask i)))))))
          else Inr None)"

primrec interface_entries :: "int \<Rightarrow> ifaddr list \<Rightarrow> addr_error + (string \<times> address \<times> nat) list" where
  "interface_entries family [] = Inr []"
| "interface_entries family (i # is) =
     (case interface_entry family i of
        Inl e \<Rightarrow> Inl e
      | Inr r \<Rightarrow> (case interface_entries family is of Inl e \<Rightarrow> Inl e | Inr rs \<Rightarrow> Inr (case r of Some x \<Rightarrow> x # rs | None \<Rightarrow> rs)))"

text \<open>\<open>GetInterfaceAddresses\<close> for all interfaces (the multimap as the sequence of its insertions), and for one name.\<close>

definition GetInterfaceAddresses :: "ifaddr list option \<Rightarrow> int \<Rightarrow> addr_error + (string \<times> address \<times> nat) list option" where
  "GetInterfaceAddresses getifaddrs family =
     (case getifaddrs of
        None \<Rightarrow> Inr None
      | Some is \<Rightarrow> (case interface_entries family is of Inl e \<Rightarrow> Inl e | Inr rs \<Rightarrow> Inr (Some rs)))"

definition GetInterfaceAddresses_of :: "ifaddr list option \<Rightarrow> string \<Rightarrow> int \<Rightarrow> addr_error + (address \<times> nat) list option" where
  "GetInterfaceAddresses_of getifaddrs iface family =
     (if iface = [] \<or> iface = ''*'' then
        Inr (Some ((if family = AF_INET \<or> family = AF_UNSPEC then [(new_IPv4Address 0 0, 0)] else [])
                   @ (if family = AF_INET6 \<or> family = AF_UNSPEC then [(new_IPv6Address, 0)] else [])))
      else case GetInterfaceAddresses getifaddrs family of
        Inl e \<Rightarrow> Inl e
      | Inr None \<Rightarrow> Inr None
      | Inr (Some rs) \<Rightarrow> Inr (Some (map snd (filter (\<lambda>r. fst r = iface) rs))))"

subsection \<open>Counting bits\<close>

fun pop :: "nat \<Rightarrow> nat" where
  "pop n = (if n = 0 then 0 else n mod 2 + pop (n div 2))"

declare pop.simps [simp del]

lemma pop_0 [simp]: "pop 0 = 0"
  by (simp add: pop.simps)

lemma pop_double: "pop (2 * n) = pop n" "pop (Suc (2 * n)) = Suc (pop n)"
  by (cases "n = 0"; simp add: pop.simps [of "2 * n"]) (simp add: pop.simps [of "Suc (2 * n)"])

text \<open>Masking with the predecessor clears exactly one bit.\<close>

lemma and_double: "2 * a AND Suc (2 * b) = 2 * (a AND b)" "Suc (2 * a) AND 2 * b = 2 * (a AND b)" for a b :: nat
  by (simp_all add: and_rec [of "2 * a"] and_rec [of "Suc (2 * a)"])

lemma pop_clear_lowest: "0 < n \<Longrightarrow> Suc (pop (n AND (n - 1))) = pop n"
proof (induction n rule: less_induct)
  case (less n)
  show ?case
  proof (cases "even n")
    case True
    then obtain m where m: "n = 2 * m" by (rule evenE)
    then have "0 < m" and p: "n - 1 = Suc (2 * (m - 1))" using less.prems by auto
    then have "n AND (n - 1) = 2 * (m AND (m - 1))" unfolding p by (simp add: m and_double)
    then show ?thesis using less.IH [of m] \<open>0 < m\<close> by (simp add: m pop_double)
  next
    case False
    then obtain m where m: "n = Suc (2 * m)" by (metis oddE Suc_eq_plus1)
    then have "n AND (n - 1) = 2 * m" by (simp add: and_double)
    then show ?thesis by (simp add: m pop_double)
  qed
qed

lemma CountBytes_pop: "CountBytes v r = r + pop (unat v)"
proof (induction v r rule: CountBytes.induct)
  case (1 v r)
  show ?case
  proof (cases "v = 0")
    case False
    then have u: "unat (v AND (v - 1)) = unat v AND (unat v - 1)" "0 < unat v"
      by (simp_all add: unsigned_and_eq unat_minus_one unat_gt_0)
    show ?thesis using 1 [OF False] False pop_clear_lowest [OF u(2)] unfolding u(1) by (subst CountBytes.simps) simp
  qed (simp add: CountBytes.simps)
qed

text \<open>A netmask with \<open>p\<close> leading ones has the prefix length \<open>p\<close>.\<close>

lemma pop_mask: "pop (2 ^ n - 1) = n"
proof (induction n)
  case (Suc n)
  obtain k where k: "(2 :: nat) ^ n = Suc k" by (metis not0_implies_Suc power_eq_0_iff zero_neq_numeral)
  then have "2 ^ Suc n - 1 = Suc (2 * (2 ^ n - 1 :: nat))" by simp
  then show ?case using Suc by (simp only: pop_double)
qed simp

subsection \<open>Masks\<close>

definition host4 :: "sockaddr_in \<Rightarrow> u32" where
  "host4 a = byteswapOnLittleEndian (sin_addr a)"

lemma byteswap_bits:
  "byteswap (a OR b) = byteswap a OR byteswap (b :: u32)" "byteswap (a AND b) = byteswap a AND byteswap (b :: u32)" "byteswap (NOT a) = NOT (byteswap (a :: u32))"
proof -
  have bit: "bit (byteswap w) n \<longleftrightarrow> n < 32 \<and> bit w (8 * (4 - 1 - n div 8) + n mod 8)" for w :: u32 and n
    using bit_byteswap [of 4 w n] by simp
  have "8 * (4 - 1 - n div 8) + n mod 8 < 32" if "n < 32" for n :: nat using that by presburger
  then show "byteswap (NOT a) = NOT (byteswap a)" by (intro bit_word_eqI) (auto simp: bit bit_simps)
  show "byteswap (a OR b) = byteswap a OR byteswap b" "byteswap (a AND b) = byteswap a AND byteswap b"
    by (rule bit_word_eqI; auto simp: bit bit_simps)+
qed

lemma byteswap_twice: "byteswap (byteswap (w :: u32)) = w" "byteswap (byteswap (p :: u16)) = p"
  using byteswap_byteswap [of 4 w] byteswap_byteswap [of 2 p] by simp_all

lemma CreateMask_32:
  assumes "2 \<le> p" and "p \<le> 32"
  shows "CreateMask 32 p = Inr (2 ^ (32 - unat p) - 1)"
proof -
  have p: "2 \<le> unat p" "unat p \<le> 32" using assms by (simp_all add: word_le_nat_alt)
  have "(2 ^ n - 1) mod 2 ^ 32 = (2 ^ n - 1 :: nat)" if "n < 31" for n
  proof -
    have "(2 :: nat) ^ n < 2 ^ 32" using that by (intro power_strict_increasing) simp_all
    then show ?thesis by (intro mod_less) simp
  qed
  then show ?thesis using p by (simp add: CreateMask_def)
qed

text \<open>
  C24. The network operations of an IPv4 address, for every prefix length from 2 to 32: the broadcast address sets all
  host bits and keeps the rest, the subnet mask is the leading \<open>p\<close> bits. \<open>networdAddress\<close>, however,
  keeps the host bits and clears the network. For prefixes 0 and 1 all three shift or overflow an \<open>int\<close> out of its range.
\<close>

theorem ipv4_prefix_operations:
  fixes p :: u32
  shows "(2 \<le> p \<and> p \<le> 32 \<longrightarrow>
      (\<exists>b. broadcast4 p a = Inr (Some (IPv4Address b)) \<and> host4 b = host4 a OR mask (32 - unat p) \<and> sin_port b = sin_port a)
    \<and> (\<exists>b. network4 p a = Inr (Some (IPv4Address b)) \<and> host4 b = host4 a AND mask (32 - unat p))
    \<and> (\<exists>b. subnetMask4 p = Inr (Some (IPv4Address b)) \<and> host4 b = NOT (mask (32 - unat p))))
    \<and> (p < 2 \<longrightarrow> broadcast4 p a = Inl Undefined_shift \<and> network4 p a = Inl Undefined_shift \<and> subnetMask4 p = Inl Undefined_shift)"
proof (intro conjI impI)
  assume p: "2 \<le> p \<and> p \<le> 32"
  have n: "\<not> p > 32" using p by (simp add: not_less)
  note m = CreateMask_32 [OF conjunct1 [OF p] conjunct2 [OF p]]
  show "\<exists>b. broadcast4 p a = Inr (Some (IPv4Address b)) \<and> host4 b = host4 a OR mask (32 - unat p) \<and> sin_port b = sin_port a"
    using n by (simp add: broadcast4_def m host4_def byteswapOnLittleEndian_def byteswap_bits byteswap_twice mask_eq_exp_minus_1)
  show "\<exists>b. network4 p a = Inr (Some (IPv4Address b)) \<and> host4 b = host4 a AND mask (32 - unat p)"
    using n by (simp add: network4_def m host4_def byteswapOnLittleEndian_def byteswap_bits byteswap_twice mask_eq_exp_minus_1)
  show "\<exists>b. subnetMask4 p = Inr (Some (IPv4Address b)) \<and> host4 b = NOT (mask (32 - unat p))"
    by (simp add: subnetMask4_def m host4_def byteswapOnLittleEndian_def byteswap_bits byteswap_twice mask_eq_exp_minus_1)
next
  assume "p < 2"
  then have "p = 0 \<or> p = 1" by (auto simp: word_less_nat_alt word_unat_eq_iff)
  then have "CreateMask 32 p = Inl Undefined_shift" "\<not> p > 32" by (auto simp: CreateMask_def)
  then show "broadcast4 p a = Inl Undefined_shift" "network4 p a = Inl Undefined_shift" "subnetMask4 p = Inl Undefined_shift"
    by (simp_all add: broadcast4_def network4_def subnetMask4_def)
qed

theorem ipv4_prefix_operations_witness:
  "\<exists>b. network4 24 (in_of_mem [2, 0, 0, 80, 192, 168, 1, 7, 0, 0, 0, 0, 0, 0, 0, 0]) = Inr (Some (IPv4Address b)) \<and> host4 b = 7"
proof -
  have "host4 (in_of_mem [2, 0, 0, 80, 192, 168, 1, 7, 0, 0, 0, 0, 0, 0, 0, 0]) AND mask 8 = 7" by code_simp
  then show ?thesis using ipv4_prefix_operations [of 24 "in_of_mem [2, 0, 0, 80, 192, 168, 1, 7, 0, 0, 0, 0, 0, 0, 0, 0]"] by auto
qed

subsection \<open>IPv6 prefixes\<close>

text \<open>Bit \<open>k\<close> of an IPv6 address, counted from the front.\<close>

definition bit6 :: "u8 list \<Rightarrow> nat \<Rightarrow> bool" where
  "bit6 bs k \<longleftrightarrow> bit (bs ! (k div 8)) (7 - k mod 8)"

lemma CreateMask_8: "CreateMask 8 (p mod 8) = Inr (2 ^ (8 - unat p mod 8) - 1)" for p :: u32
proof -
  have u: "unat (p mod 8) = unat p mod 8" by (simp add: unat_mod)
  have "(2 ^ n - 1) mod 256 = (2 ^ n - 1 :: nat)" if "n \<le> 8" for n
  proof -
    have "(2 :: nat) ^ n \<le> 2 ^ 8" using that by (intro power_increasing) simp_all
    then show ?thesis by (intro mod_less) simp
  qed
  moreover have "\<not> 8 < unat p mod 8" "\<not> 31 \<le> 8 - unat p mod 8" using mod_less_divisor [of 8 "unat p"] by linarith+
  ultimately show ?thesis by (simp add: CreateMask_def u)
qed

text \<open>
  The broadcast operation sets all bits from the prefix on. The subnet mask, whose loop also overwrites the
  byte that the prefix ends in, has the ones of whole bytes only, one byte too many when the prefix ends at a byte.
\<close>

lemma broadcast6_bits:
  assumes "unat p < 128" and "length (sin6_addr a) = 16"
  shows "\<exists>b. broadcast6 p a = Inr (Some (IPv6Address b)) \<and> length (sin6_addr b) = 16
    \<and> (\<forall>k < 128. bit6 (sin6_addr b) k \<longleftrightarrow> unat p \<le> k \<or> bit6 (sin6_addr a) k)"
proof -
  let ?i = "unat p div 8" and ?m = "2 ^ (8 - unat p mod 8) - 1 :: u8"
  let ?bs = "take (?i + 1) ((sin6_addr a)[?i := sin6_addr a ! ?i OR ?m]) @ replicate (16 - (?i + 1)) (0xff :: u8)"
  have i: "unat (p div 8) = ?i" "?i < 16" using assms(1) by (simp_all add: unat_div)
  have "broadcast6 p a = Inr (Some (IPv6Address (a\<lparr>sin6_addr := ?bs\<rparr>)))"
    using i by (simp add: broadcast6_def CreateMask_8 Let_def)
  moreover have "bit6 ?bs k \<longleftrightarrow> unat p \<le> k \<or> bit6 (sin6_addr a) k" if "k < 128" for k
  proof -
    have e: "(0xff :: u8) = - 1" by simp
    have ff: "bit (0xff :: u8) j" if "j < 8" for j unfolding e using that by simp
    have m: "bit ?m j \<longleftrightarrow> j < 8 - unat p mod 8" for j
      using bit_mask_iff [of "8 - unat p mod 8" j, where 'a = u8] by (auto simp: mask_eq_exp_minus_1)
    consider "k div 8 < ?i" | "k div 8 = ?i" | "?i < k div 8" by linarith
    then show ?thesis
    proof cases
      case 1
      then have "k < unat p" by (metis div_le_mono leD leI)
      with 1 assms(2) i(2) show ?thesis by (simp add: bit6_def nth_append)
    next
      case 2
      then have "k = ?i * 8 + k mod 8" "unat p = ?i * 8 + unat p mod 8" using div_mult_mod_eq [of k 8] div_mult_mod_eq [of "unat p" 8] by simp_all
      then have pk: "unat p \<le> k \<longleftrightarrow> unat p mod 8 \<le> k mod 8" by (metis nat_add_left_cancel_le)
      have nth: "?bs ! ?i = sin6_addr a ! ?i OR ?m" using assms(2) i(2) by (simp add: nth_append)
      have "7 - k mod 8 < 8 - unat p mod 8 \<longleftrightarrow> unat p mod 8 \<le> k mod 8" using mod_less_divisor [of 8 k] mod_less_divisor [of 8 "unat p"] by arith
      then show ?thesis unfolding bit6_def 2 nth bit_or_iff m pk by blast
    next
      case 3
      then have "unat p \<le> k" using div_le_mono [of k "unat p" 8] by (intro leI notI) simp
      moreover have "k div 8 < 16" using that by (simp add: less_mult_imp_div_less)
      ultimately show ?thesis using 3 assms(2) i(2) ff by (simp add: bit6_def nth_append)
    qed
  qed
  ultimately show ?thesis using assms(2) i(2) by (auto simp: min_def)
qed

lemma prefix6_128_out_of_range: "unat p \<ge> 128 \<Longrightarrow> broadcast6 p a = Inl Index_out_of_range \<and> network6 p a = Inl Index_out_of_range \<and> subnetMask6 p = Inl Index_out_of_range"
  using div_le_mono [of 128 "unat p" 8] by (simp add: broadcast6_def network6_def subnetMask6_def unat_div Let_def)

subsection \<open>Memory\<close>

definition addr_ok :: "address \<Rightarrow> bool" where
  "addr_ok a = (case a of
     IPv4Address x \<Rightarrow> sin_family x = 2 \<and> length (sin_zero x) = 8
   | IPv6Address x \<Rightarrow> sin6_family x = 10 \<and> length (sin6_addr x) = 16
   | UnixAddress x n \<Rightarrow> sun_family x = 1 \<and> length (sun_path x) = 108 \<and> n \<le> 110
   | UnknownAddress x \<Rightarrow> sa_family x \<notin> {1, 2, 10} \<and> length (sa_data x) = 14)"

lemma of_mem_bytes: "of_mem (mem_bytes 2 (w :: u16)) = w" "of_mem (mem_bytes 4 (v :: u32)) = v"
  by (rule of_mem_mem_bytes_full; simp)+

text \<open>What the kernel is given as the memory of an address is made into the same address again.\<close>

lemma Create_addr_mem:
  assumes "addr_ok a" and "\<not> (\<exists>x n. a = UnixAddress x n)"
  shows "Address_Create (Some (addr_mem a)) = Inr (Some a)"
proof (cases a)
  case (IPv4Address x)
  then show ?thesis using assms(1) by (cases x) (simp add: addr_ok_def Address_Create_def in_mem_def in_of_mem_def of_mem_bytes Let_def)
next
  case (IPv6Address x)
  then show ?thesis using assms(1) by (cases x) (simp add: addr_ok_def Address_Create_def in6_mem_def in6_of_mem_def of_mem_bytes Let_def)
next
  case (UnknownAddress x)
  then have "uint (sa_family x) \<noteq> 2" "uint (sa_family x) \<noteq> 10" using assms(1) by (auto simp: addr_ok_def word_uint_eq_iff)
  then show ?thesis using assms(1) UnknownAddress by (cases x) (simp add: addr_ok_def Address_Create_def sockaddr_of_mem_def of_mem_bytes Let_def)
qed (use assms(2) in blast)

text \<open>The comparison is the lexicographic order of the used bytes, so it orders the addresses up to \<open>operator==\<close>.\<close>

definition addr_key :: "address \<Rightarrow> u8 list" where
  "addr_key a = take (getAddrLen a) (addr_mem a)"

lemma length_addr_key: "addr_ok a \<Longrightarrow> length (addr_key a) = getAddrLen a"
  by (cases a) (auto simp: addr_ok_def addr_key_def in_mem_def in6_mem_def)

lemma memcmp_lex:
  "(memcmp (take (length ys) xs) (take (length xs) ys) < 0 \<or> memcmp (take (length ys) xs) (take (length xs) ys) = 0 \<and> length xs < length ys)
    \<longleftrightarrow> ord_class.lexordp xs ys"
  by (induction xs ys rule: memcmp.induct) (auto simp: word_less_def word_uint_eq_iff)

lemma memcmp_eq: "length xs = length ys \<Longrightarrow> memcmp xs ys = 0 \<longleftrightarrow> xs = ys"
  by (induction xs ys rule: memcmp.induct) (auto simp: word_uint_eq_iff)

lemma Address_less_key: "addr_ok a \<Longrightarrow> addr_ok b \<Longrightarrow> Address_less a b \<longleftrightarrow> ord_class.lexordp (addr_key a) (addr_key b)"
  using memcmp_lex [of "addr_key b" "addr_key a"] length_addr_key [of a] length_addr_key [of b]
  by (auto simp: Address_less_def Let_def addr_key_def min.commute)

lemma Address_equal_key:
  assumes "addr_ok a" and "addr_ok b"
  shows "Address_equal a b \<longleftrightarrow> addr_key a = addr_key b"
proof (cases "getAddrLen a = getAddrLen b")
  case True
  then have "length (addr_key a) = length (addr_key b)" using length_addr_key [OF assms(1)] length_addr_key [OF assms(2)] by simp
  from memcmp_eq [OF this] show ?thesis using True by (simp add: Address_equal_def addr_key_def)
next
  case False
  then show ?thesis using length_addr_key [OF assms(1)] length_addr_key [OF assms(2)] by (auto simp: Address_equal_def)
qed

lemma Address_order:
  assumes "addr_ok a" and "addr_ok b" and "addr_ok c"
  shows "Address_less a b \<Longrightarrow> Address_less b c \<Longrightarrow> Address_less a c" and "\<not> Address_less a a"
    and "Address_less a b \<or> Address_equal a b \<or> Address_less b a" and "Address_less a b \<Longrightarrow> \<not> Address_equal a b"
  using assms lexordp_trans [of "addr_key a" "addr_key b" "addr_key c"] lexordp_irreflexive' [of "addr_key a"] lexordp_linear [of "addr_key a" "addr_key b"]
  by (auto simp: Address_less_key Address_equal_key)

lemma port_roundtrip: "is_ip a \<Longrightarrow> getPort (setPort v a) = ucast v"
  by (cases a) (simp_all add: byteswapOnLittleEndian_def byteswap_twice)

subsection \<open>Hosts\<close>

lemma find_from_append: "c \<notin> set xs \<Longrightarrow> find_from c (pre @ xs @ c # ys) (length pre) = Some (length pre + length xs)"
proof -
  assume "c \<notin> set xs"
  then have "takeWhile (\<lambda>d. d \<noteq> c) (xs @ c # ys) = xs" by (induction xs) auto
  then show ?thesis by (simp add: find_from_def)
qed

lemma find_from_none: "c \<notin> set xs \<Longrightarrow> find_from c (pre @ xs) (length pre) = None"
proof -
  assume "c \<notin> set xs"
  then have "length (takeWhile (\<lambda>d. d \<noteq> c) xs) = length xs" by (induction xs) auto
  then show ?thesis by (simp add: find_from_def)
qed

lemma find_from_some: "c \<in> set xs \<Longrightarrow> find_from c (pre @ xs) (length pre) \<noteq> None"
  using find_from_append by (metis option.distinct(1) split_list_first)

text \<open>
  How \<open>Lookup\<close> splits a host: \<open>name:port\<close>, \<open>name\<close>, \<open>[v6]:port\<close> and \<open>[v6]\<close> give the parts they show. But for
  a bare IPv6 address, which has several colons, the service that is passed on is not null: it is the text from the first colon on.
\<close>

lemma split_host_cases:
  assumes "CHR '':'' \<notin> set name" and "name \<noteq> []" and "CHR '':'' \<notin> set port" and "hd name \<noteq> CHR ''[''" and "CHR '']'' \<notin> set v6" and "v6 \<noteq> []"
  shows "split_host (name @ '':'' @ port) = (name, Some port) \<and> split_host name = (name, None)
    \<and> split_host (''['' @ v6 @ '']:'' @ port) = (v6, Some port) \<and> split_host (''['' @ v6 @ '']'') = (v6, None)
    \<and> split_host (name @ '':'' @ rest @ '':'' @ port) = (name @ '':'' @ rest @ '':'' @ port, Some ('':'' @ rest @ '':'' @ port))"
proof (intro conjI)
  have plain: "bracket_split (name @ xs) = ([], None)" for xs using assms(2,4) by (cases name) (auto simp: bracket_split_def)
  have c0: "find_from CHR '':'' (name @ CHR '':'' # ys) 0 = Some (length name)" for ys
    using find_from_append [of "CHR '':''" name "[]" ys] assms(1) by simp
  have "find_from CHR '':'' (name @ '':'' @ port) (length name + 1) = None"
    using find_from_none [of "CHR '':''" port "name @ '':''"] assms(3) by simp
  then show "split_host (name @ '':'' @ port) = (name, Some port)" using plain [of "'':'' @ port"] c0 [of port] assms(2) by (simp add: split_host_def)
  show "split_host name = (name, None)" using plain [of "[]"] find_from_none [of "CHR '':''" name "[]"] assms(1) by (simp add: split_host_def)
  have e: "find_from CHR '']'' (''['' @ v6 @ CHR '']'' # ys) 1 = Some (1 + length v6)" for ys
    using find_from_append [of "CHR '']''" v6 "''[''" ys] assms(5) by simp
  show "split_host (''['' @ v6 @ '']:'' @ port) = (v6, Some port)" "split_host (''['' @ v6 @ '']'') = (v6, None)"
    using e [of "'':'' @ port"] e [of "[]"] assms(6) by (simp_all add: split_host_def bracket_split_def substr_def)
  have "find_from CHR '':'' (name @ '':'' @ rest @ '':'' @ port) (length name + 1) \<noteq> None"
    using find_from_some [of "CHR '':''" "rest @ '':'' @ port" "name @ '':''"] by simp
  then show "split_host (name @ '':'' @ rest @ '':'' @ port) = (name @ '':'' @ rest @ '':'' @ port, Some ('':'' @ rest @ '':'' @ port))"
    using plain [of "'':'' @ rest @ '':'' @ port"] c0 [of "rest @ '':'' @ port"] by (simp add: split_host_def)
qed

end
