(* ===== verification/Uri.thy ===== *)
theory Uri
  imports Address
begin

text \<open>
  Uniform resource identifiers (\<open>sylar/uri.h\<close> and the handwritten end of \<open>sylar/http/uri.rl.cc\<close>). \<open>Uri::Create\<close>, the
  generated parser of the same file, is in \<open>UriParser\<close>.
\<close>

record uri =
  u_scheme :: string
  u_userinfo :: string
  u_host :: string
  u_path :: string
  u_query :: string
  u_fragment :: string
  u_port :: int

definition new_Uri :: uri where
  "new_Uri = \<lparr>u_scheme = [], u_userinfo = [], u_host = [], u_path = [], u_query = [], u_fragment = [], u_port = 0\<rparr>"

definition isDefaultPort :: "uri \<Rightarrow> bool" where
  "isDefaultPort u =
     (if u_port u = 0 then True
      else if u_scheme u = ''http'' \<or> u_scheme u = ''ws'' then u_port u = 80
      else if u_scheme u = ''https'' \<or> u_scheme u = ''wss'' then u_port u = 443
      else False)"

definition Uri_getPath :: "uri \<Rightarrow> string" where
  "Uri_getPath u = (if u_path u = [] then ''/'' else u_path u)"

definition Uri_getPort :: "uri \<Rightarrow> int" where
  "Uri_getPort u =
     (if u_port u \<noteq> 0 then u_port u
      else if u_scheme u = ''http'' \<or> u_scheme u = ''ws'' then 80
      else if u_scheme u = ''https'' \<or> u_scheme u = ''wss'' then 443
      else u_port u)"

definition Uri_dump :: "uri \<Rightarrow> string" where
  "Uri_dump u =
     u_scheme u @ ''://'' @ u_userinfo u @ (if u_userinfo u = [] then [] else ''@'') @ u_host u
     @ (if isDefaultPort u then [] else '':'' @ dec_of_int (u_port u)) @ Uri_getPath u
     @ (if u_query u = [] then [] else ''?'') @ u_query u @ (if u_fragment u = [] then [] else ''#'') @ u_fragment u"

text \<open>The port is passed to \<open>setPort(uint16_t)\<close>.\<close>

definition createAddress :: "resolver \<Rightarrow> uri \<Rightarrow> addr_error + address option" where
  "createAddress getaddrinfo u =
     map_sum id (map_option (setPort (word_of_int (Uri_getPort u)))) (LookupAnyIPAddress getaddrinfo (u_host u) AF_UNSPEC 0 0)"

text \<open>Leaving out the default port loses nothing: the port that the text implies is the port that is used.\<close>

lemma default_port_implied: "isDefaultPort u \<Longrightarrow> Uri_getPort (u\<lparr>u_port := 0\<rparr>) = Uri_getPort u"
  by (auto simp: isDefaultPort_def Uri_getPort_def split: if_splits)

text \<open>The address of a URI has its port.\<close>

lemma createAddress_port:
  assumes "createAddress getaddrinfo u = Inr (Some a)" and "0 \<le> Uri_getPort u" and "Uri_getPort u < 2 ^ 16"
  shows "is_ip a \<and> getPort a = word_of_int (Uri_getPort u)"
proof -
  obtain b where b: "LookupAnyIPAddress getaddrinfo (u_host u) AF_UNSPEC 0 0 = Inr (Some b)" "a = setPort (word_of_int (Uri_getPort u)) b"
    using assms(1) by (auto simp: createAddress_def map_sum_def split: sum.splits)
  then have "is_ip b" by (auto simp: LookupAnyIPAddress_def find_Some_iff split: sum.splits option.splits)
  moreover from this have "is_ip a" using b(2) by (cases b) simp_all
  moreover have "(ucast (word_of_int (Uri_getPort u) :: u16) :: u32) = word_of_int (Uri_getPort u)"
    using assms(2,3) by (simp add: unsigned_of_int take_bit_int_eq_self)
  ultimately show ?thesis using port_roundtrip [of b "word_of_int (Uri_getPort u)"] unfolding b(2) by argo
qed

end
