(* ===== verification/UriTables.thy ===== *)
theory UriTables
  imports Main
begin

text \<open>
  The transitions of the generated parser \<open>Uri::Create\<close> (\<open>sylar/http/uri.rl.cc\<close>), one definition for each label of the goto code: \<open>ur_tr_n\<close> is the
  code at \<open>trn\<close> (its actions and the state it goes to), \<open>ur_state_n\<close> the code at \<open>case n\<close>, which chooses by the character \<open>*p\<close>, a \<open>signed char\<close>.
  \<open>Reject\<close> is \<open>st0\<close>. This theory holds the transitions and the states of addresses in brackets and of percent-encoded octets, \<open>UriStates\<close> the others.
\<close>

datatype ur_action = Mark | Save_scheme | Save_port | Save_userinfo | Save_host | Save_path | Save_query | Save_fragment

datatype ur_jump = Reject | Move "ur_action list" nat

section \<open>Transitions\<close>

definition ur_tr_38 :: ur_jump where "ur_tr_38 = Move [Save_userinfo] 469"
definition ur_tr_263 :: ur_jump where "ur_tr_263 = Move [Save_userinfo] 522"
definition ur_tr_461 :: ur_jump where "ur_tr_461 = Move [Mark] 508"
definition ur_tr_462 :: ur_jump where "ur_tr_462 = Move [Mark] 454"
definition ur_tr_463 :: ur_jump where "ur_tr_463 = Move [Mark] 1"
definition ur_tr_466 :: ur_jump where "ur_tr_466 = Move [Mark] 457"
definition ur_tr_467 :: ur_jump where "ur_tr_467 = Move [Mark, Save_query] 453"
definition ur_tr_468 :: ur_jump where "ur_tr_468 = Move [Mark] 7"
definition ur_tr_469 :: ur_jump where "ur_tr_469 = Move [Save_query] 453"
definition ur_tr_472 :: ur_jump where "ur_tr_472 = Move [Mark] 9"
definition ur_tr_473 :: ur_jump where "ur_tr_473 = Move [Mark] 467"
definition ur_tr_474 :: ur_jump where "ur_tr_474 = Move [Mark, Save_host] 453"
definition ur_tr_475 :: ur_jump where "ur_tr_475 = Move [Mark] 31"
definition ur_tr_476 :: ur_jump where "ur_tr_476 = Move [Mark, Save_host] 455"
definition ur_tr_477 :: ur_jump where "ur_tr_477 = Move [Mark] 490"
definition ur_tr_478 :: ur_jump where "ur_tr_478 = Move [Mark] 504"
definition ur_tr_479 :: ur_jump where "ur_tr_479 = Move [Mark] 506"
definition ur_tr_480 :: ur_jump where "ur_tr_480 = Move [Mark] 505"
definition ur_tr_481 :: ur_jump where "ur_tr_481 = Move [Mark, Save_host] 468"
definition ur_tr_482 :: ur_jump where "ur_tr_482 = Move [Mark, Save_host] 456"
definition ur_tr_483 :: ur_jump where "ur_tr_483 = Move [Mark, Save_userinfo] 469"
definition ur_tr_484 :: ur_jump where "ur_tr_484 = Move [Mark] 38"
definition ur_tr_485 :: ur_jump where "ur_tr_485 = Move [Save_host] 453"
definition ur_tr_486 :: ur_jump where "ur_tr_486 = Move [Save_host] 455"
definition ur_tr_487 :: ur_jump where "ur_tr_487 = Move [Save_host] 461"
definition ur_tr_488 :: ur_jump where "ur_tr_488 = Move [Save_host] 456"
definition ur_tr_489 :: ur_jump where "ur_tr_489 = Move [Mark, Save_port] 453"
definition ur_tr_490 :: ur_jump where "ur_tr_490 = Move [Mark, Save_port] 455"
definition ur_tr_491 :: ur_jump where "ur_tr_491 = Move [Mark] 462"
definition ur_tr_492 :: ur_jump where "ur_tr_492 = Move [Mark, Save_port] 456"
definition ur_tr_493 :: ur_jump where "ur_tr_493 = Move [Save_port] 453"
definition ur_tr_494 :: ur_jump where "ur_tr_494 = Move [Save_port] 455"
definition ur_tr_496 :: ur_jump where "ur_tr_496 = Move [Save_port] 456"
definition ur_tr_499 :: ur_jump where "ur_tr_499 = Move [Save_host] 468"
definition ur_tr_500 :: ur_jump where "ur_tr_500 = Move [Mark] 489"
definition ur_tr_501 :: ur_jump where "ur_tr_501 = Move [Mark] 470"
definition ur_tr_502 :: ur_jump where "ur_tr_502 = Move [Mark] 36"
definition ur_tr_503 :: ur_jump where "ur_tr_503 = Move [Mark] 471"
definition ur_tr_504 :: ur_jump where "ur_tr_504 = Move [Mark] 485"
definition ur_tr_505 :: ur_jump where "ur_tr_505 = Move [Mark] 487"
definition ur_tr_506 :: ur_jump where "ur_tr_506 = Move [Mark] 486"
definition ur_tr_507 :: ur_jump where "ur_tr_507 = Move [Mark, Save_host] 461"
definition ur_tr_543 :: ur_jump where "ur_tr_543 = Move [Save_scheme] 509"
definition ur_tr_546 :: ur_jump where "ur_tr_546 = Move [Mark] 229"
definition ur_tr_547 :: ur_jump where "ur_tr_547 = Move [Mark] 520"
definition ur_tr_548 :: ur_jump where "ur_tr_548 = Move [Mark, Save_host, Save_path] 453"
definition ur_tr_549 :: ur_jump where "ur_tr_549 = Move [Mark] 253"
definition ur_tr_550 :: ur_jump where "ur_tr_550 = Move [Mark, Save_host] 513"
definition ur_tr_551 :: ur_jump where "ur_tr_551 = Move [Mark] 543"
definition ur_tr_552 :: ur_jump where "ur_tr_552 = Move [Mark] 557"
definition ur_tr_553 :: ur_jump where "ur_tr_553 = Move [Mark] 559"
definition ur_tr_554 :: ur_jump where "ur_tr_554 = Move [Mark] 558"
definition ur_tr_555 :: ur_jump where "ur_tr_555 = Move [Mark, Save_host] 521"
definition ur_tr_556 :: ur_jump where "ur_tr_556 = Move [Mark, Save_host, Save_path] 456"
definition ur_tr_557 :: ur_jump where "ur_tr_557 = Move [Mark, Save_userinfo] 522"
definition ur_tr_558 :: ur_jump where "ur_tr_558 = Move [Mark] 260"
definition ur_tr_559 :: ur_jump where "ur_tr_559 = Move [Save_host, Mark, Save_path] 453"
definition ur_tr_560 :: ur_jump where "ur_tr_560 = Move [Save_host, Mark] 513"
definition ur_tr_561 :: ur_jump where "ur_tr_561 = Move [Save_host] 514"
definition ur_tr_562 :: ur_jump where "ur_tr_562 = Move [Save_host, Mark, Save_path] 456"
definition ur_tr_563 :: ur_jump where "ur_tr_563 = Move [Save_path] 453"
definition ur_tr_565 :: ur_jump where "ur_tr_565 = Move [Save_path] 456"
definition ur_tr_566 :: ur_jump where "ur_tr_566 = Move [Mark, Save_port, Save_path] 453"
definition ur_tr_567 :: ur_jump where "ur_tr_567 = Move [Mark, Save_port] 513"
definition ur_tr_568 :: ur_jump where "ur_tr_568 = Move [Mark] 515"
definition ur_tr_569 :: ur_jump where "ur_tr_569 = Move [Mark, Save_port, Save_path] 456"
definition ur_tr_570 :: ur_jump where "ur_tr_570 = Move [Save_port, Mark, Save_path] 453"
definition ur_tr_571 :: ur_jump where "ur_tr_571 = Move [Save_port, Mark] 513"
definition ur_tr_573 :: ur_jump where "ur_tr_573 = Move [Save_port, Mark, Save_path] 456"
definition ur_tr_576 :: ur_jump where "ur_tr_576 = Move [Save_host] 521"
definition ur_tr_577 :: ur_jump where "ur_tr_577 = Move [Mark] 542"
definition ur_tr_578 :: ur_jump where "ur_tr_578 = Move [Mark] 523"
definition ur_tr_579 :: ur_jump where "ur_tr_579 = Move [Mark] 258"
definition ur_tr_580 :: ur_jump where "ur_tr_580 = Move [Mark] 524"
definition ur_tr_581 :: ur_jump where "ur_tr_581 = Move [Mark] 538"
definition ur_tr_582 :: ur_jump where "ur_tr_582 = Move [Mark] 540"
definition ur_tr_583 :: ur_jump where "ur_tr_583 = Move [Mark] 539"
definition ur_tr_584 :: ur_jump where "ur_tr_584 = Move [Mark, Save_host] 514"

lemmas ur_tr_defs =
  ur_tr_38_def ur_tr_263_def ur_tr_461_def ur_tr_462_def ur_tr_463_def ur_tr_466_def ur_tr_467_def ur_tr_468_def ur_tr_469_def ur_tr_472_def
  ur_tr_473_def ur_tr_474_def ur_tr_475_def ur_tr_476_def ur_tr_477_def ur_tr_478_def ur_tr_479_def ur_tr_480_def ur_tr_481_def ur_tr_482_def
  ur_tr_483_def ur_tr_484_def ur_tr_485_def ur_tr_486_def ur_tr_487_def ur_tr_488_def ur_tr_489_def ur_tr_490_def ur_tr_491_def ur_tr_492_def
  ur_tr_493_def ur_tr_494_def ur_tr_496_def ur_tr_499_def ur_tr_500_def ur_tr_501_def ur_tr_502_def ur_tr_503_def ur_tr_504_def ur_tr_505_def
  ur_tr_506_def ur_tr_507_def ur_tr_543_def ur_tr_546_def ur_tr_547_def ur_tr_548_def ur_tr_549_def ur_tr_550_def ur_tr_551_def ur_tr_552_def
  ur_tr_553_def ur_tr_554_def ur_tr_555_def ur_tr_556_def ur_tr_557_def ur_tr_558_def ur_tr_559_def ur_tr_560_def ur_tr_561_def ur_tr_562_def
  ur_tr_563_def ur_tr_565_def ur_tr_566_def ur_tr_567_def ur_tr_568_def ur_tr_569_def ur_tr_570_def ur_tr_571_def ur_tr_573_def ur_tr_576_def
  ur_tr_577_def ur_tr_578_def ur_tr_579_def ur_tr_580_def ur_tr_581_def ur_tr_582_def ur_tr_583_def ur_tr_584_def

section \<open>States\<close>

definition ur_state_1 :: "int \<Rightarrow> ur_jump" where
  "ur_state_1 c =
    (if c < 65 then (if 48 \<le> c \<and> c \<le> 57 then Move [] 2
      else Reject)
     else if c > 70 then (if 97 \<le> c \<and> c \<le> 102 then Move [] 2
      else Reject)
     else Move [] 2)"

definition ur_state_2 :: "int \<Rightarrow> ur_jump" where
  "ur_state_2 c =
    (if c < 65 then (if 48 \<le> c \<and> c \<le> 57 then Move [] 454
      else Reject)
     else if c > 70 then (if 97 \<le> c \<and> c \<le> 102 then Move [] 454
      else Reject)
     else Move [] 454)"

definition ur_state_3 :: "int \<Rightarrow> ur_jump" where
  "ur_state_3 c =
    (if c < 65 then (if 48 \<le> c \<and> c \<le> 57 then Move [] 4
      else Reject)
     else if c > 70 then (if 97 \<le> c \<and> c \<le> 102 then Move [] 4
      else Reject)
     else Move [] 4)"

definition ur_state_4 :: "int \<Rightarrow> ur_jump" where
  "ur_state_4 c =
    (if c < 65 then (if 48 \<le> c \<and> c \<le> 57 then Move [] 452
      else Reject)
     else if c > 70 then (if 97 \<le> c \<and> c \<le> 102 then Move [] 452
      else Reject)
     else Move [] 452)"

definition ur_state_5 :: "int \<Rightarrow> ur_jump" where
  "ur_state_5 c =
    (if c < 65 then (if 48 \<le> c \<and> c \<le> 57 then Move [] 6
      else Reject)
     else if c > 70 then (if 97 \<le> c \<and> c \<le> 102 then Move [] 6
      else Reject)
     else Move [] 6)"

definition ur_state_6 :: "int \<Rightarrow> ur_jump" where
  "ur_state_6 c =
    (if c < 65 then (if 48 \<le> c \<and> c \<le> 57 then Move [] 455
      else Reject)
     else if c > 70 then (if 97 \<le> c \<and> c \<le> 102 then Move [] 455
      else Reject)
     else Move [] 455)"

definition ur_state_7 :: "int \<Rightarrow> ur_jump" where
  "ur_state_7 c =
    (if c < 65 then (if 48 \<le> c \<and> c \<le> 57 then Move [] 8
      else Reject)
     else if c > 70 then (if 97 \<le> c \<and> c \<le> 102 then Move [] 8
      else Reject)
     else Move [] 8)"

definition ur_state_8 :: "int \<Rightarrow> ur_jump" where
  "ur_state_8 c =
    (if c < 65 then (if 48 \<le> c \<and> c \<le> 57 then Move [] 457
      else Reject)
     else if c > 70 then (if 97 \<le> c \<and> c \<le> 102 then Move [] 457
      else Reject)
     else Move [] 457)"

definition ur_state_9 :: "int \<Rightarrow> ur_jump" where
  "ur_state_9 c =
    (if 48 \<le> c \<and> c \<le> 52 then Move [] 10
     else Reject)"

definition ur_state_10 :: "int \<Rightarrow> ur_jump" where
  "ur_state_10 c =
    (if 48 \<le> c \<and> c \<le> 57 then Move [] 11
     else Reject)"

definition ur_state_11 :: "int \<Rightarrow> ur_jump" where
  "ur_state_11 c =
    (if c = 46 then Move [] 12
     else Reject)"

definition ur_state_12 :: "int \<Rightarrow> ur_jump" where
  "ur_state_12 c =
    (if c = 2 then Move [] 13
     else if c = 48 then Move [] 15
     else if c = 49 then Move [] 27
     else if c = 50 then Move [] 29
     else if 51 \<le> c \<and> c \<le> 57 then Move [] 28
     else Reject)"

definition ur_state_13 :: "int \<Rightarrow> ur_jump" where
  "ur_state_13 c =
    (if 48 \<le> c \<and> c \<le> 52 then Move [] 14
     else Reject)"

definition ur_state_14 :: "int \<Rightarrow> ur_jump" where
  "ur_state_14 c =
    (if 48 \<le> c \<and> c \<le> 57 then Move [] 15
     else Reject)"

definition ur_state_15 :: "int \<Rightarrow> ur_jump" where
  "ur_state_15 c =
    (if c = 46 then Move [] 16
     else Reject)"

definition ur_state_16 :: "int \<Rightarrow> ur_jump" where
  "ur_state_16 c =
    (if c = 2 then Move [] 17
     else if c = 48 then Move [] 19
     else if c = 49 then Move [] 23
     else if c = 50 then Move [] 25
     else if 51 \<le> c \<and> c \<le> 57 then Move [] 24
     else Reject)"

definition ur_state_17 :: "int \<Rightarrow> ur_jump" where
  "ur_state_17 c =
    (if 48 \<le> c \<and> c \<le> 52 then Move [] 18
     else Reject)"

definition ur_state_18 :: "int \<Rightarrow> ur_jump" where
  "ur_state_18 c =
    (if 48 \<le> c \<and> c \<le> 57 then Move [] 19
     else Reject)"

definition ur_state_19 :: "int \<Rightarrow> ur_jump" where
  "ur_state_19 c =
    (if c = 46 then Move [] 20
     else Reject)"

definition ur_state_20 :: "int \<Rightarrow> ur_jump" where
  "ur_state_20 c =
    (if c = 2 then Move [] 21
     else if c = 48 then Move [] 460
     else if c = 49 then Move [] 463
     else if c = 50 then Move [] 465
     else if 51 \<le> c \<and> c \<le> 57 then Move [] 464
     else Reject)"

definition ur_state_21 :: "int \<Rightarrow> ur_jump" where
  "ur_state_21 c =
    (if 48 \<le> c \<and> c \<le> 52 then Move [] 22
     else Reject)"

definition ur_state_22 :: "int \<Rightarrow> ur_jump" where
  "ur_state_22 c =
    (if 48 \<le> c \<and> c \<le> 57 then Move [] 460
     else Reject)"

definition ur_state_23 :: "int \<Rightarrow> ur_jump" where
  "ur_state_23 c =
    (if c = 46 then Move [] 20
     else if 48 \<le> c \<and> c \<le> 57 then Move [] 24
     else Reject)"

definition ur_state_24 :: "int \<Rightarrow> ur_jump" where
  "ur_state_24 c =
    (if c = 46 then Move [] 20
     else if 48 \<le> c \<and> c \<le> 57 then Move [] 19
     else Reject)"

definition ur_state_25 :: "int \<Rightarrow> ur_jump" where
  "ur_state_25 c =
    (if c = 46 then Move [] 20
     else if c = 53 then Move [] 26
     else if 48 \<le> c \<and> c \<le> 57 then Move [] 19
     else Reject)"

definition ur_state_26 :: "int \<Rightarrow> ur_jump" where
  "ur_state_26 c =
    (if c = 46 then Move [] 20
     else if 48 \<le> c \<and> c \<le> 53 then Move [] 19
     else Reject)"

definition ur_state_27 :: "int \<Rightarrow> ur_jump" where
  "ur_state_27 c =
    (if c = 46 then Move [] 16
     else if 48 \<le> c \<and> c \<le> 57 then Move [] 28
     else Reject)"

definition ur_state_28 :: "int \<Rightarrow> ur_jump" where
  "ur_state_28 c =
    (if c = 46 then Move [] 16
     else if 48 \<le> c \<and> c \<le> 57 then Move [] 15
     else Reject)"

definition ur_state_29 :: "int \<Rightarrow> ur_jump" where
  "ur_state_29 c =
    (if c = 46 then Move [] 16
     else if c = 53 then Move [] 30
     else if 48 \<le> c \<and> c \<le> 57 then Move [] 15
     else Reject)"

definition ur_state_30 :: "int \<Rightarrow> ur_jump" where
  "ur_state_30 c =
    (if c = 46 then Move [] 16
     else if 48 \<le> c \<and> c \<le> 53 then Move [] 15
     else Reject)"

definition ur_state_31 :: "int \<Rightarrow> ur_jump" where
  "ur_state_31 c =
    (if c < 65 then (if 48 \<le> c \<and> c \<le> 57 then Move [] 32
      else Reject)
     else if c > 70 then (if 97 \<le> c \<and> c \<le> 102 then Move [] 32
      else Reject)
     else Move [] 32)"

definition ur_state_32 :: "int \<Rightarrow> ur_jump" where
  "ur_state_32 c =
    (if c < 65 then (if 48 \<le> c \<and> c \<le> 57 then Move [] 467
      else Reject)
     else if c > 70 then (if 97 \<le> c \<and> c \<le> 102 then Move [] 467
      else Reject)
     else Move [] 467)"

definition ur_state_33 :: "int \<Rightarrow> ur_jump" where
  "ur_state_33 c =
    (if c = 33 then Move [] 33
     else if c = 37 then Move [] 34
     else if c = 61 then Move [] 33
     else if c = 64 then ur_tr_38
     else if c = 95 then Move [] 33
     else if c = 126 then Move [] 33
     else if c < 48 then (if 36 \<le> c \<and> c \<le> 46 then Move [] 33
      else Reject)
     else if c > 59 then (if c > 90 then (if 97 \<le> c \<and> c \<le> 122 then Move [] 33
       else Reject)
      else if c \<ge> 65 then Move [] 33
      else Reject)
     else Move [] 33)"

definition ur_state_34 :: "int \<Rightarrow> ur_jump" where
  "ur_state_34 c =
    (if c < 65 then (if 48 \<le> c \<and> c \<le> 57 then Move [] 35
      else Reject)
     else if c > 70 then (if 97 \<le> c \<and> c \<le> 102 then Move [] 35
      else Reject)
     else Move [] 35)"

definition ur_state_35 :: "int \<Rightarrow> ur_jump" where
  "ur_state_35 c =
    (if c < 65 then (if 48 \<le> c \<and> c \<le> 57 then Move [] 33
      else Reject)
     else if c > 70 then (if 97 \<le> c \<and> c \<le> 102 then Move [] 33
      else Reject)
     else Move [] 33)"

definition ur_state_36 :: "int \<Rightarrow> ur_jump" where
  "ur_state_36 c =
    (if c < 65 then (if 48 \<le> c \<and> c \<le> 57 then Move [] 37
      else Reject)
     else if c > 70 then (if 97 \<le> c \<and> c \<le> 102 then Move [] 37
      else Reject)
     else Move [] 37)"

definition ur_state_37 :: "int \<Rightarrow> ur_jump" where
  "ur_state_37 c =
    (if c < 65 then (if 48 \<le> c \<and> c \<le> 57 then Move [] 470
      else Reject)
     else if c > 70 then (if 97 \<le> c \<and> c \<le> 102 then Move [] 470
      else Reject)
     else Move [] 470)"

definition ur_state_38 :: "int \<Rightarrow> ur_jump" where
  "ur_state_38 c =
    (if c = 58 then Move [] 146
     else if c = 118 then Move [] 225
     else if c < 65 then (if 48 \<le> c \<and> c \<le> 57 then Move [] 39
      else Reject)
     else if c > 70 then (if 97 \<le> c \<and> c \<le> 102 then Move [] 39
      else Reject)
     else Move [] 39)"

definition ur_state_39 :: "int \<Rightarrow> ur_jump" where
  "ur_state_39 c =
    (if c = 58 then Move [] 43
     else if c < 65 then (if 48 \<le> c \<and> c \<le> 57 then Move [] 40
      else Reject)
     else if c > 70 then (if 97 \<le> c \<and> c \<le> 102 then Move [] 40
      else Reject)
     else Move [] 40)"

definition ur_state_40 :: "int \<Rightarrow> ur_jump" where
  "ur_state_40 c =
    (if c = 58 then Move [] 43
     else if c < 65 then (if 48 \<le> c \<and> c \<le> 57 then Move [] 41
      else Reject)
     else if c > 70 then (if 97 \<le> c \<and> c \<le> 102 then Move [] 41
      else Reject)
     else Move [] 41)"

definition ur_state_41 :: "int \<Rightarrow> ur_jump" where
  "ur_state_41 c =
    (if c = 58 then Move [] 43
     else if c < 65 then (if 48 \<le> c \<and> c \<le> 57 then Move [] 42
      else Reject)
     else if c > 70 then (if 97 \<le> c \<and> c \<le> 102 then Move [] 42
      else Reject)
     else Move [] 42)"

definition ur_state_42 :: "int \<Rightarrow> ur_jump" where
  "ur_state_42 c =
    (if c = 58 then Move [] 43
     else Reject)"

definition ur_state_43 :: "int \<Rightarrow> ur_jump" where
  "ur_state_43 c =
    (if c = 58 then Move [] 141
     else if c < 65 then (if 48 \<le> c \<and> c \<le> 57 then Move [] 44
      else Reject)
     else if c > 70 then (if 97 \<le> c \<and> c \<le> 102 then Move [] 44
      else Reject)
     else Move [] 44)"

definition ur_state_44 :: "int \<Rightarrow> ur_jump" where
  "ur_state_44 c =
    (if c = 58 then Move [] 48
     else if c < 65 then (if 48 \<le> c \<and> c \<le> 57 then Move [] 45
      else Reject)
     else if c > 70 then (if 97 \<le> c \<and> c \<le> 102 then Move [] 45
      else Reject)
     else Move [] 45)"

definition ur_state_45 :: "int \<Rightarrow> ur_jump" where
  "ur_state_45 c =
    (if c = 58 then Move [] 48
     else if c < 65 then (if 48 \<le> c \<and> c \<le> 57 then Move [] 46
      else Reject)
     else if c > 70 then (if 97 \<le> c \<and> c \<le> 102 then Move [] 46
      else Reject)
     else Move [] 46)"

definition ur_state_46 :: "int \<Rightarrow> ur_jump" where
  "ur_state_46 c =
    (if c = 58 then Move [] 48
     else if c < 65 then (if 48 \<le> c \<and> c \<le> 57 then Move [] 47
      else Reject)
     else if c > 70 then (if 97 \<le> c \<and> c \<le> 102 then Move [] 47
      else Reject)
     else Move [] 47)"

definition ur_state_47 :: "int \<Rightarrow> ur_jump" where
  "ur_state_47 c =
    (if c = 58 then Move [] 48
     else Reject)"

definition ur_state_48 :: "int \<Rightarrow> ur_jump" where
  "ur_state_48 c =
    (if c = 58 then Move [] 136
     else if c < 65 then (if 48 \<le> c \<and> c \<le> 57 then Move [] 49
      else Reject)
     else if c > 70 then (if 97 \<le> c \<and> c \<le> 102 then Move [] 49
      else Reject)
     else Move [] 49)"

definition ur_state_49 :: "int \<Rightarrow> ur_jump" where
  "ur_state_49 c =
    (if c = 58 then Move [] 53
     else if c < 65 then (if 48 \<le> c \<and> c \<le> 57 then Move [] 50
      else Reject)
     else if c > 70 then (if 97 \<le> c \<and> c \<le> 102 then Move [] 50
      else Reject)
     else Move [] 50)"

definition ur_state_50 :: "int \<Rightarrow> ur_jump" where
  "ur_state_50 c =
    (if c = 58 then Move [] 53
     else if c < 65 then (if 48 \<le> c \<and> c \<le> 57 then Move [] 51
      else Reject)
     else if c > 70 then (if 97 \<le> c \<and> c \<le> 102 then Move [] 51
      else Reject)
     else Move [] 51)"

definition ur_state_51 :: "int \<Rightarrow> ur_jump" where
  "ur_state_51 c =
    (if c = 58 then Move [] 53
     else if c < 65 then (if 48 \<le> c \<and> c \<le> 57 then Move [] 52
      else Reject)
     else if c > 70 then (if 97 \<le> c \<and> c \<le> 102 then Move [] 52
      else Reject)
     else Move [] 52)"

definition ur_state_52 :: "int \<Rightarrow> ur_jump" where
  "ur_state_52 c =
    (if c = 58 then Move [] 53
     else Reject)"

definition ur_state_53 :: "int \<Rightarrow> ur_jump" where
  "ur_state_53 c =
    (if c = 58 then Move [] 131
     else if c < 65 then (if 48 \<le> c \<and> c \<le> 57 then Move [] 54
      else Reject)
     else if c > 70 then (if 97 \<le> c \<and> c \<le> 102 then Move [] 54
      else Reject)
     else Move [] 54)"

definition ur_state_54 :: "int \<Rightarrow> ur_jump" where
  "ur_state_54 c =
    (if c = 58 then Move [] 58
     else if c < 65 then (if 48 \<le> c \<and> c \<le> 57 then Move [] 55
      else Reject)
     else if c > 70 then (if 97 \<le> c \<and> c \<le> 102 then Move [] 55
      else Reject)
     else Move [] 55)"

definition ur_state_55 :: "int \<Rightarrow> ur_jump" where
  "ur_state_55 c =
    (if c = 58 then Move [] 58
     else if c < 65 then (if 48 \<le> c \<and> c \<le> 57 then Move [] 56
      else Reject)
     else if c > 70 then (if 97 \<le> c \<and> c \<le> 102 then Move [] 56
      else Reject)
     else Move [] 56)"

definition ur_state_56 :: "int \<Rightarrow> ur_jump" where
  "ur_state_56 c =
    (if c = 58 then Move [] 58
     else if c < 65 then (if 48 \<le> c \<and> c \<le> 57 then Move [] 57
      else Reject)
     else if c > 70 then (if 97 \<le> c \<and> c \<le> 102 then Move [] 57
      else Reject)
     else Move [] 57)"

definition ur_state_57 :: "int \<Rightarrow> ur_jump" where
  "ur_state_57 c =
    (if c = 58 then Move [] 58
     else Reject)"

definition ur_state_58 :: "int \<Rightarrow> ur_jump" where
  "ur_state_58 c =
    (if c = 58 then Move [] 126
     else if c < 65 then (if 48 \<le> c \<and> c \<le> 57 then Move [] 59
      else Reject)
     else if c > 70 then (if 97 \<le> c \<and> c \<le> 102 then Move [] 59
      else Reject)
     else Move [] 59)"

definition ur_state_59 :: "int \<Rightarrow> ur_jump" where
  "ur_state_59 c =
    (if c = 58 then Move [] 63
     else if c < 65 then (if 48 \<le> c \<and> c \<le> 57 then Move [] 60
      else Reject)
     else if c > 70 then (if 97 \<le> c \<and> c \<le> 102 then Move [] 60
      else Reject)
     else Move [] 60)"

definition ur_state_60 :: "int \<Rightarrow> ur_jump" where
  "ur_state_60 c =
    (if c = 58 then Move [] 63
     else if c < 65 then (if 48 \<le> c \<and> c \<le> 57 then Move [] 61
      else Reject)
     else if c > 70 then (if 97 \<le> c \<and> c \<le> 102 then Move [] 61
      else Reject)
     else Move [] 61)"

definition ur_state_61 :: "int \<Rightarrow> ur_jump" where
  "ur_state_61 c =
    (if c = 58 then Move [] 63
     else if c < 65 then (if 48 \<le> c \<and> c \<le> 57 then Move [] 62
      else Reject)
     else if c > 70 then (if 97 \<le> c \<and> c \<le> 102 then Move [] 62
      else Reject)
     else Move [] 62)"

definition ur_state_62 :: "int \<Rightarrow> ur_jump" where
  "ur_state_62 c =
    (if c = 58 then Move [] 63
     else Reject)"

definition ur_state_63 :: "int \<Rightarrow> ur_jump" where
  "ur_state_63 c =
    (if c = 58 then Move [] 113
     else if c < 65 then (if 48 \<le> c \<and> c \<le> 57 then Move [] 64
      else Reject)
     else if c > 70 then (if 97 \<le> c \<and> c \<le> 102 then Move [] 64
      else Reject)
     else Move [] 64)"

definition ur_state_64 :: "int \<Rightarrow> ur_jump" where
  "ur_state_64 c =
    (if c = 58 then Move [] 68
     else if c < 65 then (if 48 \<le> c \<and> c \<le> 57 then Move [] 65
      else Reject)
     else if c > 70 then (if 97 \<le> c \<and> c \<le> 102 then Move [] 65
      else Reject)
     else Move [] 65)"

definition ur_state_65 :: "int \<Rightarrow> ur_jump" where
  "ur_state_65 c =
    (if c = 58 then Move [] 68
     else if c < 65 then (if 48 \<le> c \<and> c \<le> 57 then Move [] 66
      else Reject)
     else if c > 70 then (if 97 \<le> c \<and> c \<le> 102 then Move [] 66
      else Reject)
     else Move [] 66)"

definition ur_state_66 :: "int \<Rightarrow> ur_jump" where
  "ur_state_66 c =
    (if c = 58 then Move [] 68
     else if c < 65 then (if 48 \<le> c \<and> c \<le> 57 then Move [] 67
      else Reject)
     else if c > 70 then (if 97 \<le> c \<and> c \<le> 102 then Move [] 67
      else Reject)
     else Move [] 67)"

definition ur_state_67 :: "int \<Rightarrow> ur_jump" where
  "ur_state_67 c =
    (if c = 58 then Move [] 68
     else Reject)"

definition ur_state_68 :: "int \<Rightarrow> ur_jump" where
  "ur_state_68 c =
    (if c = 2 then Move [] 69
     else if c = 48 then Move [] 96
     else if c = 49 then Move [] 104
     else if c = 50 then Move [] 107
     else if c = 58 then Move [] 111
     else if c < 65 then (if 51 \<le> c \<and> c \<le> 57 then Move [] 110
      else Reject)
     else if c > 70 then (if 97 \<le> c \<and> c \<le> 102 then Move [] 112
      else Reject)
     else Move [] 112)"

definition ur_state_69 :: "int \<Rightarrow> ur_jump" where
  "ur_state_69 c =
    (if 48 \<le> c \<and> c \<le> 52 then Move [] 70
     else Reject)"

definition ur_state_70 :: "int \<Rightarrow> ur_jump" where
  "ur_state_70 c =
    (if 48 \<le> c \<and> c \<le> 57 then Move [] 71
     else Reject)"

definition ur_state_71 :: "int \<Rightarrow> ur_jump" where
  "ur_state_71 c =
    (if c = 46 then Move [] 72
     else Reject)"

definition ur_state_72 :: "int \<Rightarrow> ur_jump" where
  "ur_state_72 c =
    (if c = 2 then Move [] 73
     else if c = 48 then Move [] 75
     else if c = 49 then Move [] 92
     else if c = 50 then Move [] 94
     else if 51 \<le> c \<and> c \<le> 57 then Move [] 93
     else Reject)"

definition ur_state_73 :: "int \<Rightarrow> ur_jump" where
  "ur_state_73 c =
    (if 48 \<le> c \<and> c \<le> 52 then Move [] 74
     else Reject)"

definition ur_state_74 :: "int \<Rightarrow> ur_jump" where
  "ur_state_74 c =
    (if 48 \<le> c \<and> c \<le> 57 then Move [] 75
     else Reject)"

definition ur_state_75 :: "int \<Rightarrow> ur_jump" where
  "ur_state_75 c =
    (if c = 46 then Move [] 76
     else Reject)"

definition ur_state_76 :: "int \<Rightarrow> ur_jump" where
  "ur_state_76 c =
    (if c = 2 then Move [] 77
     else if c = 48 then Move [] 79
     else if c = 49 then Move [] 88
     else if c = 50 then Move [] 90
     else if 51 \<le> c \<and> c \<le> 57 then Move [] 89
     else Reject)"

definition ur_state_77 :: "int \<Rightarrow> ur_jump" where
  "ur_state_77 c =
    (if 48 \<le> c \<and> c \<le> 52 then Move [] 78
     else Reject)"

definition ur_state_78 :: "int \<Rightarrow> ur_jump" where
  "ur_state_78 c =
    (if 48 \<le> c \<and> c \<le> 57 then Move [] 79
     else Reject)"

definition ur_state_79 :: "int \<Rightarrow> ur_jump" where
  "ur_state_79 c =
    (if c = 46 then Move [] 80
     else Reject)"

definition ur_state_80 :: "int \<Rightarrow> ur_jump" where
  "ur_state_80 c =
    (if c = 2 then Move [] 81
     else if c = 48 then Move [] 83
     else if c = 49 then Move [] 84
     else if c = 50 then Move [] 86
     else if 51 \<le> c \<and> c \<le> 57 then Move [] 85
     else Reject)"

definition ur_state_81 :: "int \<Rightarrow> ur_jump" where
  "ur_state_81 c =
    (if 48 \<le> c \<and> c \<le> 52 then Move [] 82
     else Reject)"

definition ur_state_82 :: "int \<Rightarrow> ur_jump" where
  "ur_state_82 c =
    (if 48 \<le> c \<and> c \<le> 57 then Move [] 83
     else Reject)"

definition ur_state_83 :: "int \<Rightarrow> ur_jump" where
  "ur_state_83 c =
    (if c = 93 then Move [] 460
     else Reject)"

definition ur_state_84 :: "int \<Rightarrow> ur_jump" where
  "ur_state_84 c =
    (if c = 93 then Move [] 460
     else if 48 \<le> c \<and> c \<le> 57 then Move [] 85
     else Reject)"

definition ur_state_85 :: "int \<Rightarrow> ur_jump" where
  "ur_state_85 c =
    (if c = 93 then Move [] 460
     else if 48 \<le> c \<and> c \<le> 57 then Move [] 83
     else Reject)"

definition ur_state_86 :: "int \<Rightarrow> ur_jump" where
  "ur_state_86 c =
    (if c = 53 then Move [] 87
     else if c = 93 then Move [] 460
     else if 48 \<le> c \<and> c \<le> 57 then Move [] 83
     else Reject)"

definition ur_state_87 :: "int \<Rightarrow> ur_jump" where
  "ur_state_87 c =
    (if c = 93 then Move [] 460
     else if 48 \<le> c \<and> c \<le> 53 then Move [] 83
     else Reject)"

definition ur_state_88 :: "int \<Rightarrow> ur_jump" where
  "ur_state_88 c =
    (if c = 46 then Move [] 80
     else if 48 \<le> c \<and> c \<le> 57 then Move [] 89
     else Reject)"

definition ur_state_89 :: "int \<Rightarrow> ur_jump" where
  "ur_state_89 c =
    (if c = 46 then Move [] 80
     else if 48 \<le> c \<and> c \<le> 57 then Move [] 79
     else Reject)"

definition ur_state_90 :: "int \<Rightarrow> ur_jump" where
  "ur_state_90 c =
    (if c = 46 then Move [] 80
     else if c = 53 then Move [] 91
     else if 48 \<le> c \<and> c \<le> 57 then Move [] 79
     else Reject)"

definition ur_state_91 :: "int \<Rightarrow> ur_jump" where
  "ur_state_91 c =
    (if c = 46 then Move [] 80
     else if 48 \<le> c \<and> c \<le> 53 then Move [] 79
     else Reject)"

definition ur_state_92 :: "int \<Rightarrow> ur_jump" where
  "ur_state_92 c =
    (if c = 46 then Move [] 76
     else if 48 \<le> c \<and> c \<le> 57 then Move [] 93
     else Reject)"

definition ur_state_93 :: "int \<Rightarrow> ur_jump" where
  "ur_state_93 c =
    (if c = 46 then Move [] 76
     else if 48 \<le> c \<and> c \<le> 57 then Move [] 75
     else Reject)"

definition ur_state_94 :: "int \<Rightarrow> ur_jump" where
  "ur_state_94 c =
    (if c = 46 then Move [] 76
     else if c = 53 then Move [] 95
     else if 48 \<le> c \<and> c \<le> 57 then Move [] 75
     else Reject)"

definition ur_state_95 :: "int \<Rightarrow> ur_jump" where
  "ur_state_95 c =
    (if c = 46 then Move [] 76
     else if 48 \<le> c \<and> c \<le> 53 then Move [] 75
     else Reject)"

definition ur_state_96 :: "int \<Rightarrow> ur_jump" where
  "ur_state_96 c =
    (if c = 46 then Move [] 72
     else if c = 58 then Move [] 100
     else if c < 65 then (if 48 \<le> c \<and> c \<le> 57 then Move [] 97
      else Reject)
     else if c > 70 then (if 97 \<le> c \<and> c \<le> 102 then Move [] 97
      else Reject)
     else Move [] 97)"

definition ur_state_97 :: "int \<Rightarrow> ur_jump" where
  "ur_state_97 c =
    (if c = 58 then Move [] 100
     else if c < 65 then (if 48 \<le> c \<and> c \<le> 57 then Move [] 98
      else Reject)
     else if c > 70 then (if 97 \<le> c \<and> c \<le> 102 then Move [] 98
      else Reject)
     else Move [] 98)"

definition ur_state_98 :: "int \<Rightarrow> ur_jump" where
  "ur_state_98 c =
    (if c = 58 then Move [] 100
     else if c < 65 then (if 48 \<le> c \<and> c \<le> 57 then Move [] 99
      else Reject)
     else if c > 70 then (if 97 \<le> c \<and> c \<le> 102 then Move [] 99
      else Reject)
     else Move [] 99)"

definition ur_state_99 :: "int \<Rightarrow> ur_jump" where
  "ur_state_99 c =
    (if c = 58 then Move [] 100
     else Reject)"

definition ur_state_100 :: "int \<Rightarrow> ur_jump" where
  "ur_state_100 c =
    (if c = 58 then Move [] 83
     else if c < 65 then (if 48 \<le> c \<and> c \<le> 57 then Move [] 101
      else Reject)
     else if c > 70 then (if 97 \<le> c \<and> c \<le> 102 then Move [] 101
      else Reject)
     else Move [] 101)"

definition ur_state_101 :: "int \<Rightarrow> ur_jump" where
  "ur_state_101 c =
    (if c = 93 then Move [] 460
     else if c < 65 then (if 48 \<le> c \<and> c \<le> 57 then Move [] 102
      else Reject)
     else if c > 70 then (if 97 \<le> c \<and> c \<le> 102 then Move [] 102
      else Reject)
     else Move [] 102)"

definition ur_state_102 :: "int \<Rightarrow> ur_jump" where
  "ur_state_102 c =
    (if c = 93 then Move [] 460
     else if c < 65 then (if 48 \<le> c \<and> c \<le> 57 then Move [] 103
      else Reject)
     else if c > 70 then (if 97 \<le> c \<and> c \<le> 102 then Move [] 103
      else Reject)
     else Move [] 103)"

definition ur_state_103 :: "int \<Rightarrow> ur_jump" where
  "ur_state_103 c =
    (if c = 93 then Move [] 460
     else if c < 65 then (if 48 \<le> c \<and> c \<le> 57 then Move [] 83
      else Reject)
     else if c > 70 then (if 97 \<le> c \<and> c \<le> 102 then Move [] 83
      else Reject)
     else Move [] 83)"

definition ur_state_104 :: "int \<Rightarrow> ur_jump" where
  "ur_state_104 c =
    (if c = 46 then Move [] 72
     else if c = 58 then Move [] 100
     else if c < 65 then (if 48 \<le> c \<and> c \<le> 57 then Move [] 105
      else Reject)
     else if c > 70 then (if 97 \<le> c \<and> c \<le> 102 then Move [] 97
      else Reject)
     else Move [] 97)"

definition ur_state_105 :: "int \<Rightarrow> ur_jump" where
  "ur_state_105 c =
    (if c = 46 then Move [] 72
     else if c = 58 then Move [] 100
     else if c < 65 then (if 48 \<le> c \<and> c \<le> 57 then Move [] 106
      else Reject)
     else if c > 70 then (if 97 \<le> c \<and> c \<le> 102 then Move [] 98
      else Reject)
     else Move [] 98)"

definition ur_state_106 :: "int \<Rightarrow> ur_jump" where
  "ur_state_106 c =
    (if c = 46 then Move [] 72
     else if c = 58 then Move [] 100
     else if c < 65 then (if 48 \<le> c \<and> c \<le> 57 then Move [] 99
      else Reject)
     else if c > 70 then (if 97 \<le> c \<and> c \<le> 102 then Move [] 99
      else Reject)
     else Move [] 99)"

definition ur_state_107 :: "int \<Rightarrow> ur_jump" where
  "ur_state_107 c =
    (if c = 46 then Move [] 72
     else if c = 53 then Move [] 109
     else if c = 58 then Move [] 100
     else if c < 65 then (if 48 \<le> c \<and> c \<le> 57 then Move [] 108
      else Reject)
     else if c > 70 then (if 97 \<le> c \<and> c \<le> 102 then Move [] 97
      else Reject)
     else Move [] 97)"

definition ur_state_108 :: "int \<Rightarrow> ur_jump" where
  "ur_state_108 c =
    (if c = 46 then Move [] 72
     else if c = 58 then Move [] 100
     else if c < 65 then (if 48 \<le> c \<and> c \<le> 57 then Move [] 98
      else Reject)
     else if c > 70 then (if 97 \<le> c \<and> c \<le> 102 then Move [] 98
      else Reject)
     else Move [] 98)"

definition ur_state_109 :: "int \<Rightarrow> ur_jump" where
  "ur_state_109 c =
    (if c = 46 then Move [] 72
     else if c = 58 then Move [] 100
     else if c < 54 then (if 48 \<le> c \<and> c \<le> 53 then Move [] 106
      else Reject)
     else if c > 57 then (if c > 70 then (if 97 \<le> c \<and> c \<le> 102 then Move [] 98
       else Reject)
      else if c \<ge> 65 then Move [] 98
      else Reject)
     else Move [] 98)"

definition ur_state_110 :: "int \<Rightarrow> ur_jump" where
  "ur_state_110 c =
    (if c = 46 then Move [] 72
     else if c = 58 then Move [] 100
     else if c < 65 then (if 48 \<le> c \<and> c \<le> 57 then Move [] 108
      else Reject)
     else if c > 70 then (if 97 \<le> c \<and> c \<le> 102 then Move [] 97
      else Reject)
     else Move [] 97)"

definition ur_state_111 :: "int \<Rightarrow> ur_jump" where
  "ur_state_111 c =
    (if c < 65 then (if 48 \<le> c \<and> c \<le> 57 then Move [] 101
      else Reject)
     else if c > 70 then (if 97 \<le> c \<and> c \<le> 102 then Move [] 101
      else Reject)
     else Move [] 101)"

definition ur_state_112 :: "int \<Rightarrow> ur_jump" where
  "ur_state_112 c =
    (if c = 58 then Move [] 100
     else if c < 65 then (if 48 \<le> c \<and> c \<le> 57 then Move [] 97
      else Reject)
     else if c > 70 then (if 97 \<le> c \<and> c \<le> 102 then Move [] 97
      else Reject)
     else Move [] 97)"

definition ur_state_113 :: "int \<Rightarrow> ur_jump" where
  "ur_state_113 c =
    (if c = 2 then Move [] 69
     else if c = 48 then Move [] 114
     else if c = 49 then Move [] 118
     else if c = 50 then Move [] 121
     else if c < 65 then (if 51 \<le> c \<and> c \<le> 57 then Move [] 124
      else Reject)
     else if c > 70 then (if 97 \<le> c \<and> c \<le> 102 then Move [] 125
      else Reject)
     else Move [] 125)"

definition ur_state_114 :: "int \<Rightarrow> ur_jump" where
  "ur_state_114 c =
    (if c = 46 then Move [] 72
     else if c = 58 then Move [] 111
     else if c < 65 then (if 48 \<le> c \<and> c \<le> 57 then Move [] 115
      else Reject)
     else if c > 70 then (if 97 \<le> c \<and> c \<le> 102 then Move [] 115
      else Reject)
     else Move [] 115)"

definition ur_state_115 :: "int \<Rightarrow> ur_jump" where
  "ur_state_115 c =
    (if c = 58 then Move [] 111
     else if c < 65 then (if 48 \<le> c \<and> c \<le> 57 then Move [] 116
      else Reject)
     else if c > 70 then (if 97 \<le> c \<and> c \<le> 102 then Move [] 116
      else Reject)
     else Move [] 116)"

definition ur_state_116 :: "int \<Rightarrow> ur_jump" where
  "ur_state_116 c =
    (if c = 58 then Move [] 111
     else if c < 65 then (if 48 \<le> c \<and> c \<le> 57 then Move [] 117
      else Reject)
     else if c > 70 then (if 97 \<le> c \<and> c \<le> 102 then Move [] 117
      else Reject)
     else Move [] 117)"

definition ur_state_117 :: "int \<Rightarrow> ur_jump" where
  "ur_state_117 c =
    (if c = 58 then Move [] 111
     else Reject)"

definition ur_state_118 :: "int \<Rightarrow> ur_jump" where
  "ur_state_118 c =
    (if c = 46 then Move [] 72
     else if c = 58 then Move [] 111
     else if c < 65 then (if 48 \<le> c \<and> c \<le> 57 then Move [] 119
      else Reject)
     else if c > 70 then (if 97 \<le> c \<and> c \<le> 102 then Move [] 115
      else Reject)
     else Move [] 115)"

definition ur_state_119 :: "int \<Rightarrow> ur_jump" where
  "ur_state_119 c =
    (if c = 46 then Move [] 72
     else if c = 58 then Move [] 111
     else if c < 65 then (if 48 \<le> c \<and> c \<le> 57 then Move [] 120
      else Reject)
     else if c > 70 then (if 97 \<le> c \<and> c \<le> 102 then Move [] 116
      else Reject)
     else Move [] 116)"

definition ur_state_120 :: "int \<Rightarrow> ur_jump" where
  "ur_state_120 c =
    (if c = 46 then Move [] 72
     else if c = 58 then Move [] 111
     else if c < 65 then (if 48 \<le> c \<and> c \<le> 57 then Move [] 117
      else Reject)
     else if c > 70 then (if 97 \<le> c \<and> c \<le> 102 then Move [] 117
      else Reject)
     else Move [] 117)"

definition ur_state_121 :: "int \<Rightarrow> ur_jump" where
  "ur_state_121 c =
    (if c = 46 then Move [] 72
     else if c = 53 then Move [] 123
     else if c = 58 then Move [] 111
     else if c < 65 then (if 48 \<le> c \<and> c \<le> 57 then Move [] 122
      else Reject)
     else if c > 70 then (if 97 \<le> c \<and> c \<le> 102 then Move [] 115
      else Reject)
     else Move [] 115)"

definition ur_state_122 :: "int \<Rightarrow> ur_jump" where
  "ur_state_122 c =
    (if c = 46 then Move [] 72
     else if c = 58 then Move [] 111
     else if c < 65 then (if 48 \<le> c \<and> c \<le> 57 then Move [] 116
      else Reject)
     else if c > 70 then (if 97 \<le> c \<and> c \<le> 102 then Move [] 116
      else Reject)
     else Move [] 116)"

definition ur_state_123 :: "int \<Rightarrow> ur_jump" where
  "ur_state_123 c =
    (if c = 46 then Move [] 72
     else if c = 58 then Move [] 111
     else if c < 54 then (if 48 \<le> c \<and> c \<le> 53 then Move [] 120
      else Reject)
     else if c > 57 then (if c > 70 then (if 97 \<le> c \<and> c \<le> 102 then Move [] 116
       else Reject)
      else if c \<ge> 65 then Move [] 116
      else Reject)
     else Move [] 116)"

definition ur_state_124 :: "int \<Rightarrow> ur_jump" where
  "ur_state_124 c =
    (if c = 46 then Move [] 72
     else if c = 58 then Move [] 111
     else if c < 65 then (if 48 \<le> c \<and> c \<le> 57 then Move [] 122
      else Reject)
     else if c > 70 then (if 97 \<le> c \<and> c \<le> 102 then Move [] 115
      else Reject)
     else Move [] 115)"

definition ur_state_125 :: "int \<Rightarrow> ur_jump" where
  "ur_state_125 c =
    (if c = 58 then Move [] 111
     else if c < 65 then (if 48 \<le> c \<and> c \<le> 57 then Move [] 115
      else Reject)
     else if c > 70 then (if 97 \<le> c \<and> c \<le> 102 then Move [] 115
      else Reject)
     else Move [] 115)"

definition ur_state_126 :: "int \<Rightarrow> ur_jump" where
  "ur_state_126 c =
    (if c < 65 then (if 48 \<le> c \<and> c \<le> 57 then Move [] 127
      else Reject)
     else if c > 70 then (if 97 \<le> c \<and> c \<le> 102 then Move [] 127
      else Reject)
     else Move [] 127)"

definition ur_state_127 :: "int \<Rightarrow> ur_jump" where
  "ur_state_127 c =
    (if c = 58 then Move [] 113
     else if c < 65 then (if 48 \<le> c \<and> c \<le> 57 then Move [] 128
      else Reject)
     else if c > 70 then (if 97 \<le> c \<and> c \<le> 102 then Move [] 128
      else Reject)
     else Move [] 128)"

definition ur_state_128 :: "int \<Rightarrow> ur_jump" where
  "ur_state_128 c =
    (if c = 58 then Move [] 113
     else if c < 65 then (if 48 \<le> c \<and> c \<le> 57 then Move [] 129
      else Reject)
     else if c > 70 then (if 97 \<le> c \<and> c \<le> 102 then Move [] 129
      else Reject)
     else Move [] 129)"

definition ur_state_129 :: "int \<Rightarrow> ur_jump" where
  "ur_state_129 c =
    (if c = 58 then Move [] 113
     else if c < 65 then (if 48 \<le> c \<and> c \<le> 57 then Move [] 130
      else Reject)
     else if c > 70 then (if 97 \<le> c \<and> c \<le> 102 then Move [] 130
      else Reject)
     else Move [] 130)"

definition ur_state_130 :: "int \<Rightarrow> ur_jump" where
  "ur_state_130 c =
    (if c = 58 then Move [] 113
     else Reject)"

definition ur_state_131 :: "int \<Rightarrow> ur_jump" where
  "ur_state_131 c =
    (if c < 65 then (if 48 \<le> c \<and> c \<le> 57 then Move [] 132
      else Reject)
     else if c > 70 then (if 97 \<le> c \<and> c \<le> 102 then Move [] 132
      else Reject)
     else Move [] 132)"

definition ur_state_132 :: "int \<Rightarrow> ur_jump" where
  "ur_state_132 c =
    (if c = 58 then Move [] 126
     else if c < 65 then (if 48 \<le> c \<and> c \<le> 57 then Move [] 133
      else Reject)
     else if c > 70 then (if 97 \<le> c \<and> c \<le> 102 then Move [] 133
      else Reject)
     else Move [] 133)"

definition ur_state_133 :: "int \<Rightarrow> ur_jump" where
  "ur_state_133 c =
    (if c = 58 then Move [] 126
     else if c < 65 then (if 48 \<le> c \<and> c \<le> 57 then Move [] 134
      else Reject)
     else if c > 70 then (if 97 \<le> c \<and> c \<le> 102 then Move [] 134
      else Reject)
     else Move [] 134)"

definition ur_state_134 :: "int \<Rightarrow> ur_jump" where
  "ur_state_134 c =
    (if c = 58 then Move [] 126
     else if c < 65 then (if 48 \<le> c \<and> c \<le> 57 then Move [] 135
      else Reject)
     else if c > 70 then (if 97 \<le> c \<and> c \<le> 102 then Move [] 135
      else Reject)
     else Move [] 135)"

definition ur_state_135 :: "int \<Rightarrow> ur_jump" where
  "ur_state_135 c =
    (if c = 58 then Move [] 126
     else Reject)"

definition ur_state_136 :: "int \<Rightarrow> ur_jump" where
  "ur_state_136 c =
    (if c < 65 then (if 48 \<le> c \<and> c \<le> 57 then Move [] 137
      else Reject)
     else if c > 70 then (if 97 \<le> c \<and> c \<le> 102 then Move [] 137
      else Reject)
     else Move [] 137)"

definition ur_state_137 :: "int \<Rightarrow> ur_jump" where
  "ur_state_137 c =
    (if c = 58 then Move [] 131
     else if c < 65 then (if 48 \<le> c \<and> c \<le> 57 then Move [] 138
      else Reject)
     else if c > 70 then (if 97 \<le> c \<and> c \<le> 102 then Move [] 138
      else Reject)
     else Move [] 138)"

definition ur_state_138 :: "int \<Rightarrow> ur_jump" where
  "ur_state_138 c =
    (if c = 58 then Move [] 131
     else if c < 65 then (if 48 \<le> c \<and> c \<le> 57 then Move [] 139
      else Reject)
     else if c > 70 then (if 97 \<le> c \<and> c \<le> 102 then Move [] 139
      else Reject)
     else Move [] 139)"

definition ur_state_139 :: "int \<Rightarrow> ur_jump" where
  "ur_state_139 c =
    (if c = 58 then Move [] 131
     else if c < 65 then (if 48 \<le> c \<and> c \<le> 57 then Move [] 140
      else Reject)
     else if c > 70 then (if 97 \<le> c \<and> c \<le> 102 then Move [] 140
      else Reject)
     else Move [] 140)"

definition ur_state_140 :: "int \<Rightarrow> ur_jump" where
  "ur_state_140 c =
    (if c = 58 then Move [] 131
     else Reject)"

definition ur_state_141 :: "int \<Rightarrow> ur_jump" where
  "ur_state_141 c =
    (if c < 65 then (if 48 \<le> c \<and> c \<le> 57 then Move [] 142
      else Reject)
     else if c > 70 then (if 97 \<le> c \<and> c \<le> 102 then Move [] 142
      else Reject)
     else Move [] 142)"

definition ur_state_142 :: "int \<Rightarrow> ur_jump" where
  "ur_state_142 c =
    (if c = 58 then Move [] 136
     else if c < 65 then (if 48 \<le> c \<and> c \<le> 57 then Move [] 143
      else Reject)
     else if c > 70 then (if 97 \<le> c \<and> c \<le> 102 then Move [] 143
      else Reject)
     else Move [] 143)"

definition ur_state_143 :: "int \<Rightarrow> ur_jump" where
  "ur_state_143 c =
    (if c = 58 then Move [] 136
     else if c < 65 then (if 48 \<le> c \<and> c \<le> 57 then Move [] 144
      else Reject)
     else if c > 70 then (if 97 \<le> c \<and> c \<le> 102 then Move [] 144
      else Reject)
     else Move [] 144)"

definition ur_state_144 :: "int \<Rightarrow> ur_jump" where
  "ur_state_144 c =
    (if c = 58 then Move [] 136
     else if c < 65 then (if 48 \<le> c \<and> c \<le> 57 then Move [] 145
      else Reject)
     else if c > 70 then (if 97 \<le> c \<and> c \<le> 102 then Move [] 145
      else Reject)
     else Move [] 145)"

definition ur_state_145 :: "int \<Rightarrow> ur_jump" where
  "ur_state_145 c =
    (if c = 58 then Move [] 136
     else Reject)"

definition ur_state_146 :: "int \<Rightarrow> ur_jump" where
  "ur_state_146 c =
    (if c = 58 then Move [] 147
     else Reject)"

definition ur_state_147 :: "int \<Rightarrow> ur_jump" where
  "ur_state_147 c =
    (if c = 2 then Move [] 69
     else if c = 48 then Move [] 148
     else if c = 49 then Move [] 217
     else if c = 50 then Move [] 220
     else if c = 93 then Move [] 460
     else if c < 65 then (if 51 \<le> c \<and> c \<le> 57 then Move [] 223
      else Reject)
     else if c > 70 then (if 97 \<le> c \<and> c \<le> 102 then Move [] 224
      else Reject)
     else Move [] 224)"

definition ur_state_148 :: "int \<Rightarrow> ur_jump" where
  "ur_state_148 c =
    (if c = 46 then Move [] 72
     else if c = 58 then Move [] 152
     else if c = 93 then Move [] 460
     else if c < 65 then (if 48 \<le> c \<and> c \<le> 57 then Move [] 149
      else Reject)
     else if c > 70 then (if 97 \<le> c \<and> c \<le> 102 then Move [] 149
      else Reject)
     else Move [] 149)"

definition ur_state_149 :: "int \<Rightarrow> ur_jump" where
  "ur_state_149 c =
    (if c = 58 then Move [] 152
     else if c = 93 then Move [] 460
     else if c < 65 then (if 48 \<le> c \<and> c \<le> 57 then Move [] 150
      else Reject)
     else if c > 70 then (if 97 \<le> c \<and> c \<le> 102 then Move [] 150
      else Reject)
     else Move [] 150)"

definition ur_state_150 :: "int \<Rightarrow> ur_jump" where
  "ur_state_150 c =
    (if c = 58 then Move [] 152
     else if c = 93 then Move [] 460
     else if c < 65 then (if 48 \<le> c \<and> c \<le> 57 then Move [] 151
      else Reject)
     else if c > 70 then (if 97 \<le> c \<and> c \<le> 102 then Move [] 151
      else Reject)
     else Move [] 151)"

definition ur_state_151 :: "int \<Rightarrow> ur_jump" where
  "ur_state_151 c =
    (if c = 58 then Move [] 152
     else if c = 93 then Move [] 460
     else Reject)"

definition ur_state_152 :: "int \<Rightarrow> ur_jump" where
  "ur_state_152 c =
    (if c = 2 then Move [] 69
     else if c = 48 then Move [] 153
     else if c = 49 then Move [] 209
     else if c = 50 then Move [] 212
     else if c < 65 then (if 51 \<le> c \<and> c \<le> 57 then Move [] 215
      else Reject)
     else if c > 70 then (if 97 \<le> c \<and> c \<le> 102 then Move [] 216
      else Reject)
     else Move [] 216)"

definition ur_state_153 :: "int \<Rightarrow> ur_jump" where
  "ur_state_153 c =
    (if c = 46 then Move [] 72
     else if c = 58 then Move [] 157
     else if c = 93 then Move [] 460
     else if c < 65 then (if 48 \<le> c \<and> c \<le> 57 then Move [] 154
      else Reject)
     else if c > 70 then (if 97 \<le> c \<and> c \<le> 102 then Move [] 154
      else Reject)
     else Move [] 154)"

definition ur_state_154 :: "int \<Rightarrow> ur_jump" where
  "ur_state_154 c =
    (if c = 58 then Move [] 157
     else if c = 93 then Move [] 460
     else if c < 65 then (if 48 \<le> c \<and> c \<le> 57 then Move [] 155
      else Reject)
     else if c > 70 then (if 97 \<le> c \<and> c \<le> 102 then Move [] 155
      else Reject)
     else Move [] 155)"

definition ur_state_155 :: "int \<Rightarrow> ur_jump" where
  "ur_state_155 c =
    (if c = 58 then Move [] 157
     else if c = 93 then Move [] 460
     else if c < 65 then (if 48 \<le> c \<and> c \<le> 57 then Move [] 156
      else Reject)
     else if c > 70 then (if 97 \<le> c \<and> c \<le> 102 then Move [] 156
      else Reject)
     else Move [] 156)"

definition ur_state_156 :: "int \<Rightarrow> ur_jump" where
  "ur_state_156 c =
    (if c = 58 then Move [] 157
     else if c = 93 then Move [] 460
     else Reject)"

definition ur_state_157 :: "int \<Rightarrow> ur_jump" where
  "ur_state_157 c =
    (if c = 2 then Move [] 69
     else if c = 48 then Move [] 158
     else if c = 49 then Move [] 201
     else if c = 50 then Move [] 204
     else if c < 65 then (if 51 \<le> c \<and> c \<le> 57 then Move [] 207
      else Reject)
     else if c > 70 then (if 97 \<le> c \<and> c \<le> 102 then Move [] 208
      else Reject)
     else Move [] 208)"

definition ur_state_158 :: "int \<Rightarrow> ur_jump" where
  "ur_state_158 c =
    (if c = 46 then Move [] 72
     else if c = 58 then Move [] 162
     else if c = 93 then Move [] 460
     else if c < 65 then (if 48 \<le> c \<and> c \<le> 57 then Move [] 159
      else Reject)
     else if c > 70 then (if 97 \<le> c \<and> c \<le> 102 then Move [] 159
      else Reject)
     else Move [] 159)"

definition ur_state_159 :: "int \<Rightarrow> ur_jump" where
  "ur_state_159 c =
    (if c = 58 then Move [] 162
     else if c = 93 then Move [] 460
     else if c < 65 then (if 48 \<le> c \<and> c \<le> 57 then Move [] 160
      else Reject)
     else if c > 70 then (if 97 \<le> c \<and> c \<le> 102 then Move [] 160
      else Reject)
     else Move [] 160)"

definition ur_state_160 :: "int \<Rightarrow> ur_jump" where
  "ur_state_160 c =
    (if c = 58 then Move [] 162
     else if c = 93 then Move [] 460
     else if c < 65 then (if 48 \<le> c \<and> c \<le> 57 then Move [] 161
      else Reject)
     else if c > 70 then (if 97 \<le> c \<and> c \<le> 102 then Move [] 161
      else Reject)
     else Move [] 161)"

definition ur_state_161 :: "int \<Rightarrow> ur_jump" where
  "ur_state_161 c =
    (if c = 58 then Move [] 162
     else if c = 93 then Move [] 460
     else Reject)"

definition ur_state_162 :: "int \<Rightarrow> ur_jump" where
  "ur_state_162 c =
    (if c = 2 then Move [] 69
     else if c = 48 then Move [] 163
     else if c = 49 then Move [] 193
     else if c = 50 then Move [] 196
     else if c < 65 then (if 51 \<le> c \<and> c \<le> 57 then Move [] 199
      else Reject)
     else if c > 70 then (if 97 \<le> c \<and> c \<le> 102 then Move [] 200
      else Reject)
     else Move [] 200)"

definition ur_state_163 :: "int \<Rightarrow> ur_jump" where
  "ur_state_163 c =
    (if c = 46 then Move [] 72
     else if c = 58 then Move [] 167
     else if c = 93 then Move [] 460
     else if c < 65 then (if 48 \<le> c \<and> c \<le> 57 then Move [] 164
      else Reject)
     else if c > 70 then (if 97 \<le> c \<and> c \<le> 102 then Move [] 164
      else Reject)
     else Move [] 164)"

definition ur_state_164 :: "int \<Rightarrow> ur_jump" where
  "ur_state_164 c =
    (if c = 58 then Move [] 167
     else if c = 93 then Move [] 460
     else if c < 65 then (if 48 \<le> c \<and> c \<le> 57 then Move [] 165
      else Reject)
     else if c > 70 then (if 97 \<le> c \<and> c \<le> 102 then Move [] 165
      else Reject)
     else Move [] 165)"

definition ur_state_165 :: "int \<Rightarrow> ur_jump" where
  "ur_state_165 c =
    (if c = 58 then Move [] 167
     else if c = 93 then Move [] 460
     else if c < 65 then (if 48 \<le> c \<and> c \<le> 57 then Move [] 166
      else Reject)
     else if c > 70 then (if 97 \<le> c \<and> c \<le> 102 then Move [] 166
      else Reject)
     else Move [] 166)"

definition ur_state_166 :: "int \<Rightarrow> ur_jump" where
  "ur_state_166 c =
    (if c = 58 then Move [] 167
     else if c = 93 then Move [] 460
     else Reject)"

definition ur_state_167 :: "int \<Rightarrow> ur_jump" where
  "ur_state_167 c =
    (if c = 2 then Move [] 69
     else if c = 48 then Move [] 168
     else if c = 49 then Move [] 185
     else if c = 50 then Move [] 188
     else if c < 65 then (if 51 \<le> c \<and> c \<le> 57 then Move [] 191
      else Reject)
     else if c > 70 then (if 97 \<le> c \<and> c \<le> 102 then Move [] 192
      else Reject)
     else Move [] 192)"

definition ur_state_168 :: "int \<Rightarrow> ur_jump" where
  "ur_state_168 c =
    (if c = 46 then Move [] 72
     else if c = 58 then Move [] 172
     else if c = 93 then Move [] 460
     else if c < 65 then (if 48 \<le> c \<and> c \<le> 57 then Move [] 169
      else Reject)
     else if c > 70 then (if 97 \<le> c \<and> c \<le> 102 then Move [] 169
      else Reject)
     else Move [] 169)"

definition ur_state_169 :: "int \<Rightarrow> ur_jump" where
  "ur_state_169 c =
    (if c = 58 then Move [] 172
     else if c = 93 then Move [] 460
     else if c < 65 then (if 48 \<le> c \<and> c \<le> 57 then Move [] 170
      else Reject)
     else if c > 70 then (if 97 \<le> c \<and> c \<le> 102 then Move [] 170
      else Reject)
     else Move [] 170)"

definition ur_state_170 :: "int \<Rightarrow> ur_jump" where
  "ur_state_170 c =
    (if c = 58 then Move [] 172
     else if c = 93 then Move [] 460
     else if c < 65 then (if 48 \<le> c \<and> c \<le> 57 then Move [] 171
      else Reject)
     else if c > 70 then (if 97 \<le> c \<and> c \<le> 102 then Move [] 171
      else Reject)
     else Move [] 171)"

definition ur_state_171 :: "int \<Rightarrow> ur_jump" where
  "ur_state_171 c =
    (if c = 58 then Move [] 172
     else if c = 93 then Move [] 460
     else Reject)"

definition ur_state_172 :: "int \<Rightarrow> ur_jump" where
  "ur_state_172 c =
    (if c = 2 then Move [] 69
     else if c = 48 then Move [] 173
     else if c = 49 then Move [] 177
     else if c = 50 then Move [] 180
     else if c < 65 then (if 51 \<le> c \<and> c \<le> 57 then Move [] 183
      else Reject)
     else if c > 70 then (if 97 \<le> c \<and> c \<le> 102 then Move [] 184
      else Reject)
     else Move [] 184)"

definition ur_state_173 :: "int \<Rightarrow> ur_jump" where
  "ur_state_173 c =
    (if c = 46 then Move [] 72
     else if c = 58 then Move [] 111
     else if c = 93 then Move [] 460
     else if c < 65 then (if 48 \<le> c \<and> c \<le> 57 then Move [] 174
      else Reject)
     else if c > 70 then (if 97 \<le> c \<and> c \<le> 102 then Move [] 174
      else Reject)
     else Move [] 174)"

definition ur_state_174 :: "int \<Rightarrow> ur_jump" where
  "ur_state_174 c =
    (if c = 58 then Move [] 111
     else if c = 93 then Move [] 460
     else if c < 65 then (if 48 \<le> c \<and> c \<le> 57 then Move [] 175
      else Reject)
     else if c > 70 then (if 97 \<le> c \<and> c \<le> 102 then Move [] 175
      else Reject)
     else Move [] 175)"

definition ur_state_175 :: "int \<Rightarrow> ur_jump" where
  "ur_state_175 c =
    (if c = 58 then Move [] 111
     else if c = 93 then Move [] 460
     else if c < 65 then (if 48 \<le> c \<and> c \<le> 57 then Move [] 176
      else Reject)
     else if c > 70 then (if 97 \<le> c \<and> c \<le> 102 then Move [] 176
      else Reject)
     else Move [] 176)"

definition ur_state_176 :: "int \<Rightarrow> ur_jump" where
  "ur_state_176 c =
    (if c = 58 then Move [] 111
     else if c = 93 then Move [] 460
     else Reject)"

definition ur_state_177 :: "int \<Rightarrow> ur_jump" where
  "ur_state_177 c =
    (if c = 46 then Move [] 72
     else if c = 58 then Move [] 111
     else if c = 93 then Move [] 460
     else if c < 65 then (if 48 \<le> c \<and> c \<le> 57 then Move [] 178
      else Reject)
     else if c > 70 then (if 97 \<le> c \<and> c \<le> 102 then Move [] 174
      else Reject)
     else Move [] 174)"

definition ur_state_178 :: "int \<Rightarrow> ur_jump" where
  "ur_state_178 c =
    (if c = 46 then Move [] 72
     else if c = 58 then Move [] 111
     else if c = 93 then Move [] 460
     else if c < 65 then (if 48 \<le> c \<and> c \<le> 57 then Move [] 179
      else Reject)
     else if c > 70 then (if 97 \<le> c \<and> c \<le> 102 then Move [] 175
      else Reject)
     else Move [] 175)"

definition ur_state_179 :: "int \<Rightarrow> ur_jump" where
  "ur_state_179 c =
    (if c = 46 then Move [] 72
     else if c = 58 then Move [] 111
     else if c = 93 then Move [] 460
     else if c < 65 then (if 48 \<le> c \<and> c \<le> 57 then Move [] 176
      else Reject)
     else if c > 70 then (if 97 \<le> c \<and> c \<le> 102 then Move [] 176
      else Reject)
     else Move [] 176)"

definition ur_state_180 :: "int \<Rightarrow> ur_jump" where
  "ur_state_180 c =
    (if c = 46 then Move [] 72
     else if c = 53 then Move [] 182
     else if c = 58 then Move [] 111
     else if c = 93 then Move [] 460
     else if c < 65 then (if 48 \<le> c \<and> c \<le> 57 then Move [] 181
      else Reject)
     else if c > 70 then (if 97 \<le> c \<and> c \<le> 102 then Move [] 174
      else Reject)
     else Move [] 174)"

definition ur_state_181 :: "int \<Rightarrow> ur_jump" where
  "ur_state_181 c =
    (if c = 46 then Move [] 72
     else if c = 58 then Move [] 111
     else if c = 93 then Move [] 460
     else if c < 65 then (if 48 \<le> c \<and> c \<le> 57 then Move [] 175
      else Reject)
     else if c > 70 then (if 97 \<le> c \<and> c \<le> 102 then Move [] 175
      else Reject)
     else Move [] 175)"

definition ur_state_182 :: "int \<Rightarrow> ur_jump" where
  "ur_state_182 c =
    (if c = 46 then Move [] 72
     else if c = 58 then Move [] 111
     else if c = 93 then Move [] 460
     else if c < 54 then (if 48 \<le> c \<and> c \<le> 53 then Move [] 179
      else Reject)
     else if c > 57 then (if c > 70 then (if 97 \<le> c \<and> c \<le> 102 then Move [] 175
       else Reject)
      else if c \<ge> 65 then Move [] 175
      else Reject)
     else Move [] 175)"

definition ur_state_183 :: "int \<Rightarrow> ur_jump" where
  "ur_state_183 c =
    (if c = 46 then Move [] 72
     else if c = 58 then Move [] 111
     else if c = 93 then Move [] 460
     else if c < 65 then (if 48 \<le> c \<and> c \<le> 57 then Move [] 181
      else Reject)
     else if c > 70 then (if 97 \<le> c \<and> c \<le> 102 then Move [] 174
      else Reject)
     else Move [] 174)"

definition ur_state_184 :: "int \<Rightarrow> ur_jump" where
  "ur_state_184 c =
    (if c = 58 then Move [] 111
     else if c = 93 then Move [] 460
     else if c < 65 then (if 48 \<le> c \<and> c \<le> 57 then Move [] 174
      else Reject)
     else if c > 70 then (if 97 \<le> c \<and> c \<le> 102 then Move [] 174
      else Reject)
     else Move [] 174)"

definition ur_state_185 :: "int \<Rightarrow> ur_jump" where
  "ur_state_185 c =
    (if c = 46 then Move [] 72
     else if c = 58 then Move [] 172
     else if c = 93 then Move [] 460
     else if c < 65 then (if 48 \<le> c \<and> c \<le> 57 then Move [] 186
      else Reject)
     else if c > 70 then (if 97 \<le> c \<and> c \<le> 102 then Move [] 169
      else Reject)
     else Move [] 169)"

definition ur_state_186 :: "int \<Rightarrow> ur_jump" where
  "ur_state_186 c =
    (if c = 46 then Move [] 72
     else if c = 58 then Move [] 172
     else if c = 93 then Move [] 460
     else if c < 65 then (if 48 \<le> c \<and> c \<le> 57 then Move [] 187
      else Reject)
     else if c > 70 then (if 97 \<le> c \<and> c \<le> 102 then Move [] 170
      else Reject)
     else Move [] 170)"

definition ur_state_187 :: "int \<Rightarrow> ur_jump" where
  "ur_state_187 c =
    (if c = 46 then Move [] 72
     else if c = 58 then Move [] 172
     else if c = 93 then Move [] 460
     else if c < 65 then (if 48 \<le> c \<and> c \<le> 57 then Move [] 171
      else Reject)
     else if c > 70 then (if 97 \<le> c \<and> c \<le> 102 then Move [] 171
      else Reject)
     else Move [] 171)"

definition ur_state_188 :: "int \<Rightarrow> ur_jump" where
  "ur_state_188 c =
    (if c = 46 then Move [] 72
     else if c = 53 then Move [] 190
     else if c = 58 then Move [] 172
     else if c = 93 then Move [] 460
     else if c < 65 then (if 48 \<le> c \<and> c \<le> 57 then Move [] 189
      else Reject)
     else if c > 70 then (if 97 \<le> c \<and> c \<le> 102 then Move [] 169
      else Reject)
     else Move [] 169)"

definition ur_state_189 :: "int \<Rightarrow> ur_jump" where
  "ur_state_189 c =
    (if c = 46 then Move [] 72
     else if c = 58 then Move [] 172
     else if c = 93 then Move [] 460
     else if c < 65 then (if 48 \<le> c \<and> c \<le> 57 then Move [] 170
      else Reject)
     else if c > 70 then (if 97 \<le> c \<and> c \<le> 102 then Move [] 170
      else Reject)
     else Move [] 170)"

definition ur_state_190 :: "int \<Rightarrow> ur_jump" where
  "ur_state_190 c =
    (if c = 46 then Move [] 72
     else if c = 58 then Move [] 172
     else if c = 93 then Move [] 460
     else if c < 54 then (if 48 \<le> c \<and> c \<le> 53 then Move [] 187
      else Reject)
     else if c > 57 then (if c > 70 then (if 97 \<le> c \<and> c \<le> 102 then Move [] 170
       else Reject)
      else if c \<ge> 65 then Move [] 170
      else Reject)
     else Move [] 170)"

definition ur_state_191 :: "int \<Rightarrow> ur_jump" where
  "ur_state_191 c =
    (if c = 46 then Move [] 72
     else if c = 58 then Move [] 172
     else if c = 93 then Move [] 460
     else if c < 65 then (if 48 \<le> c \<and> c \<le> 57 then Move [] 189
      else Reject)
     else if c > 70 then (if 97 \<le> c \<and> c \<le> 102 then Move [] 169
      else Reject)
     else Move [] 169)"

definition ur_state_192 :: "int \<Rightarrow> ur_jump" where
  "ur_state_192 c =
    (if c = 58 then Move [] 172
     else if c = 93 then Move [] 460
     else if c < 65 then (if 48 \<le> c \<and> c \<le> 57 then Move [] 169
      else Reject)
     else if c > 70 then (if 97 \<le> c \<and> c \<le> 102 then Move [] 169
      else Reject)
     else Move [] 169)"

definition ur_state_193 :: "int \<Rightarrow> ur_jump" where
  "ur_state_193 c =
    (if c = 46 then Move [] 72
     else if c = 58 then Move [] 167
     else if c = 93 then Move [] 460
     else if c < 65 then (if 48 \<le> c \<and> c \<le> 57 then Move [] 194
      else Reject)
     else if c > 70 then (if 97 \<le> c \<and> c \<le> 102 then Move [] 164
      else Reject)
     else Move [] 164)"

definition ur_state_194 :: "int \<Rightarrow> ur_jump" where
  "ur_state_194 c =
    (if c = 46 then Move [] 72
     else if c = 58 then Move [] 167
     else if c = 93 then Move [] 460
     else if c < 65 then (if 48 \<le> c \<and> c \<le> 57 then Move [] 195
      else Reject)
     else if c > 70 then (if 97 \<le> c \<and> c \<le> 102 then Move [] 165
      else Reject)
     else Move [] 165)"

definition ur_state_195 :: "int \<Rightarrow> ur_jump" where
  "ur_state_195 c =
    (if c = 46 then Move [] 72
     else if c = 58 then Move [] 167
     else if c = 93 then Move [] 460
     else if c < 65 then (if 48 \<le> c \<and> c \<le> 57 then Move [] 166
      else Reject)
     else if c > 70 then (if 97 \<le> c \<and> c \<le> 102 then Move [] 166
      else Reject)
     else Move [] 166)"

definition ur_state_196 :: "int \<Rightarrow> ur_jump" where
  "ur_state_196 c =
    (if c = 46 then Move [] 72
     else if c = 53 then Move [] 198
     else if c = 58 then Move [] 167
     else if c = 93 then Move [] 460
     else if c < 65 then (if 48 \<le> c \<and> c \<le> 57 then Move [] 197
      else Reject)
     else if c > 70 then (if 97 \<le> c \<and> c \<le> 102 then Move [] 164
      else Reject)
     else Move [] 164)"

definition ur_state_197 :: "int \<Rightarrow> ur_jump" where
  "ur_state_197 c =
    (if c = 46 then Move [] 72
     else if c = 58 then Move [] 167
     else if c = 93 then Move [] 460
     else if c < 65 then (if 48 \<le> c \<and> c \<le> 57 then Move [] 165
      else Reject)
     else if c > 70 then (if 97 \<le> c \<and> c \<le> 102 then Move [] 165
      else Reject)
     else Move [] 165)"

definition ur_state_198 :: "int \<Rightarrow> ur_jump" where
  "ur_state_198 c =
    (if c = 46 then Move [] 72
     else if c = 58 then Move [] 167
     else if c = 93 then Move [] 460
     else if c < 54 then (if 48 \<le> c \<and> c \<le> 53 then Move [] 195
      else Reject)
     else if c > 57 then (if c > 70 then (if 97 \<le> c \<and> c \<le> 102 then Move [] 165
       else Reject)
      else if c \<ge> 65 then Move [] 165
      else Reject)
     else Move [] 165)"

definition ur_state_199 :: "int \<Rightarrow> ur_jump" where
  "ur_state_199 c =
    (if c = 46 then Move [] 72
     else if c = 58 then Move [] 167
     else if c = 93 then Move [] 460
     else if c < 65 then (if 48 \<le> c \<and> c \<le> 57 then Move [] 197
      else Reject)
     else if c > 70 then (if 97 \<le> c \<and> c \<le> 102 then Move [] 164
      else Reject)
     else Move [] 164)"

definition ur_state_200 :: "int \<Rightarrow> ur_jump" where
  "ur_state_200 c =
    (if c = 58 then Move [] 167
     else if c = 93 then Move [] 460
     else if c < 65 then (if 48 \<le> c \<and> c \<le> 57 then Move [] 164
      else Reject)
     else if c > 70 then (if 97 \<le> c \<and> c \<le> 102 then Move [] 164
      else Reject)
     else Move [] 164)"

definition ur_state_201 :: "int \<Rightarrow> ur_jump" where
  "ur_state_201 c =
    (if c = 46 then Move [] 72
     else if c = 58 then Move [] 162
     else if c = 93 then Move [] 460
     else if c < 65 then (if 48 \<le> c \<and> c \<le> 57 then Move [] 202
      else Reject)
     else if c > 70 then (if 97 \<le> c \<and> c \<le> 102 then Move [] 159
      else Reject)
     else Move [] 159)"

definition ur_state_202 :: "int \<Rightarrow> ur_jump" where
  "ur_state_202 c =
    (if c = 46 then Move [] 72
     else if c = 58 then Move [] 162
     else if c = 93 then Move [] 460
     else if c < 65 then (if 48 \<le> c \<and> c \<le> 57 then Move [] 203
      else Reject)
     else if c > 70 then (if 97 \<le> c \<and> c \<le> 102 then Move [] 160
      else Reject)
     else Move [] 160)"

definition ur_state_203 :: "int \<Rightarrow> ur_jump" where
  "ur_state_203 c =
    (if c = 46 then Move [] 72
     else if c = 58 then Move [] 162
     else if c = 93 then Move [] 460
     else if c < 65 then (if 48 \<le> c \<and> c \<le> 57 then Move [] 161
      else Reject)
     else if c > 70 then (if 97 \<le> c \<and> c \<le> 102 then Move [] 161
      else Reject)
     else Move [] 161)"

definition ur_state_204 :: "int \<Rightarrow> ur_jump" where
  "ur_state_204 c =
    (if c = 46 then Move [] 72
     else if c = 53 then Move [] 206
     else if c = 58 then Move [] 162
     else if c = 93 then Move [] 460
     else if c < 65 then (if 48 \<le> c \<and> c \<le> 57 then Move [] 205
      else Reject)
     else if c > 70 then (if 97 \<le> c \<and> c \<le> 102 then Move [] 159
      else Reject)
     else Move [] 159)"

definition ur_state_205 :: "int \<Rightarrow> ur_jump" where
  "ur_state_205 c =
    (if c = 46 then Move [] 72
     else if c = 58 then Move [] 162
     else if c = 93 then Move [] 460
     else if c < 65 then (if 48 \<le> c \<and> c \<le> 57 then Move [] 160
      else Reject)
     else if c > 70 then (if 97 \<le> c \<and> c \<le> 102 then Move [] 160
      else Reject)
     else Move [] 160)"

definition ur_state_206 :: "int \<Rightarrow> ur_jump" where
  "ur_state_206 c =
    (if c = 46 then Move [] 72
     else if c = 58 then Move [] 162
     else if c = 93 then Move [] 460
     else if c < 54 then (if 48 \<le> c \<and> c \<le> 53 then Move [] 203
      else Reject)
     else if c > 57 then (if c > 70 then (if 97 \<le> c \<and> c \<le> 102 then Move [] 160
       else Reject)
      else if c \<ge> 65 then Move [] 160
      else Reject)
     else Move [] 160)"

definition ur_state_207 :: "int \<Rightarrow> ur_jump" where
  "ur_state_207 c =
    (if c = 46 then Move [] 72
     else if c = 58 then Move [] 162
     else if c = 93 then Move [] 460
     else if c < 65 then (if 48 \<le> c \<and> c \<le> 57 then Move [] 205
      else Reject)
     else if c > 70 then (if 97 \<le> c \<and> c \<le> 102 then Move [] 159
      else Reject)
     else Move [] 159)"

definition ur_state_208 :: "int \<Rightarrow> ur_jump" where
  "ur_state_208 c =
    (if c = 58 then Move [] 162
     else if c = 93 then Move [] 460
     else if c < 65 then (if 48 \<le> c \<and> c \<le> 57 then Move [] 159
      else Reject)
     else if c > 70 then (if 97 \<le> c \<and> c \<le> 102 then Move [] 159
      else Reject)
     else Move [] 159)"

definition ur_state_209 :: "int \<Rightarrow> ur_jump" where
  "ur_state_209 c =
    (if c = 46 then Move [] 72
     else if c = 58 then Move [] 157
     else if c = 93 then Move [] 460
     else if c < 65 then (if 48 \<le> c \<and> c \<le> 57 then Move [] 210
      else Reject)
     else if c > 70 then (if 97 \<le> c \<and> c \<le> 102 then Move [] 154
      else Reject)
     else Move [] 154)"

definition ur_state_210 :: "int \<Rightarrow> ur_jump" where
  "ur_state_210 c =
    (if c = 46 then Move [] 72
     else if c = 58 then Move [] 157
     else if c = 93 then Move [] 460
     else if c < 65 then (if 48 \<le> c \<and> c \<le> 57 then Move [] 211
      else Reject)
     else if c > 70 then (if 97 \<le> c \<and> c \<le> 102 then Move [] 155
      else Reject)
     else Move [] 155)"

definition ur_state_211 :: "int \<Rightarrow> ur_jump" where
  "ur_state_211 c =
    (if c = 46 then Move [] 72
     else if c = 58 then Move [] 157
     else if c = 93 then Move [] 460
     else if c < 65 then (if 48 \<le> c \<and> c \<le> 57 then Move [] 156
      else Reject)
     else if c > 70 then (if 97 \<le> c \<and> c \<le> 102 then Move [] 156
      else Reject)
     else Move [] 156)"

definition ur_state_212 :: "int \<Rightarrow> ur_jump" where
  "ur_state_212 c =
    (if c = 46 then Move [] 72
     else if c = 53 then Move [] 214
     else if c = 58 then Move [] 157
     else if c = 93 then Move [] 460
     else if c < 65 then (if 48 \<le> c \<and> c \<le> 57 then Move [] 213
      else Reject)
     else if c > 70 then (if 97 \<le> c \<and> c \<le> 102 then Move [] 154
      else Reject)
     else Move [] 154)"

definition ur_state_213 :: "int \<Rightarrow> ur_jump" where
  "ur_state_213 c =
    (if c = 46 then Move [] 72
     else if c = 58 then Move [] 157
     else if c = 93 then Move [] 460
     else if c < 65 then (if 48 \<le> c \<and> c \<le> 57 then Move [] 155
      else Reject)
     else if c > 70 then (if 97 \<le> c \<and> c \<le> 102 then Move [] 155
      else Reject)
     else Move [] 155)"

definition ur_state_214 :: "int \<Rightarrow> ur_jump" where
  "ur_state_214 c =
    (if c = 46 then Move [] 72
     else if c = 58 then Move [] 157
     else if c = 93 then Move [] 460
     else if c < 54 then (if 48 \<le> c \<and> c \<le> 53 then Move [] 211
      else Reject)
     else if c > 57 then (if c > 70 then (if 97 \<le> c \<and> c \<le> 102 then Move [] 155
       else Reject)
      else if c \<ge> 65 then Move [] 155
      else Reject)
     else Move [] 155)"

definition ur_state_215 :: "int \<Rightarrow> ur_jump" where
  "ur_state_215 c =
    (if c = 46 then Move [] 72
     else if c = 58 then Move [] 157
     else if c = 93 then Move [] 460
     else if c < 65 then (if 48 \<le> c \<and> c \<le> 57 then Move [] 213
      else Reject)
     else if c > 70 then (if 97 \<le> c \<and> c \<le> 102 then Move [] 154
      else Reject)
     else Move [] 154)"

definition ur_state_216 :: "int \<Rightarrow> ur_jump" where
  "ur_state_216 c =
    (if c = 58 then Move [] 157
     else if c = 93 then Move [] 460
     else if c < 65 then (if 48 \<le> c \<and> c \<le> 57 then Move [] 154
      else Reject)
     else if c > 70 then (if 97 \<le> c \<and> c \<le> 102 then Move [] 154
      else Reject)
     else Move [] 154)"

definition ur_state_217 :: "int \<Rightarrow> ur_jump" where
  "ur_state_217 c =
    (if c = 46 then Move [] 72
     else if c = 58 then Move [] 152
     else if c = 93 then Move [] 460
     else if c < 65 then (if 48 \<le> c \<and> c \<le> 57 then Move [] 218
      else Reject)
     else if c > 70 then (if 97 \<le> c \<and> c \<le> 102 then Move [] 149
      else Reject)
     else Move [] 149)"

definition ur_state_218 :: "int \<Rightarrow> ur_jump" where
  "ur_state_218 c =
    (if c = 46 then Move [] 72
     else if c = 58 then Move [] 152
     else if c = 93 then Move [] 460
     else if c < 65 then (if 48 \<le> c \<and> c \<le> 57 then Move [] 219
      else Reject)
     else if c > 70 then (if 97 \<le> c \<and> c \<le> 102 then Move [] 150
      else Reject)
     else Move [] 150)"

definition ur_state_219 :: "int \<Rightarrow> ur_jump" where
  "ur_state_219 c =
    (if c = 46 then Move [] 72
     else if c = 58 then Move [] 152
     else if c = 93 then Move [] 460
     else if c < 65 then (if 48 \<le> c \<and> c \<le> 57 then Move [] 151
      else Reject)
     else if c > 70 then (if 97 \<le> c \<and> c \<le> 102 then Move [] 151
      else Reject)
     else Move [] 151)"

definition ur_state_220 :: "int \<Rightarrow> ur_jump" where
  "ur_state_220 c =
    (if c = 46 then Move [] 72
     else if c = 53 then Move [] 222
     else if c = 58 then Move [] 152
     else if c = 93 then Move [] 460
     else if c < 65 then (if 48 \<le> c \<and> c \<le> 57 then Move [] 221
      else Reject)
     else if c > 70 then (if 97 \<le> c \<and> c \<le> 102 then Move [] 149
      else Reject)
     else Move [] 149)"

definition ur_state_221 :: "int \<Rightarrow> ur_jump" where
  "ur_state_221 c =
    (if c = 46 then Move [] 72
     else if c = 58 then Move [] 152
     else if c = 93 then Move [] 460
     else if c < 65 then (if 48 \<le> c \<and> c \<le> 57 then Move [] 150
      else Reject)
     else if c > 70 then (if 97 \<le> c \<and> c \<le> 102 then Move [] 150
      else Reject)
     else Move [] 150)"

definition ur_state_222 :: "int \<Rightarrow> ur_jump" where
  "ur_state_222 c =
    (if c = 46 then Move [] 72
     else if c = 58 then Move [] 152
     else if c = 93 then Move [] 460
     else if c < 54 then (if 48 \<le> c \<and> c \<le> 53 then Move [] 219
      else Reject)
     else if c > 57 then (if c > 70 then (if 97 \<le> c \<and> c \<le> 102 then Move [] 150
       else Reject)
      else if c \<ge> 65 then Move [] 150
      else Reject)
     else Move [] 150)"

definition ur_state_223 :: "int \<Rightarrow> ur_jump" where
  "ur_state_223 c =
    (if c = 46 then Move [] 72
     else if c = 58 then Move [] 152
     else if c = 93 then Move [] 460
     else if c < 65 then (if 48 \<le> c \<and> c \<le> 57 then Move [] 221
      else Reject)
     else if c > 70 then (if 97 \<le> c \<and> c \<le> 102 then Move [] 149
      else Reject)
     else Move [] 149)"

definition ur_state_224 :: "int \<Rightarrow> ur_jump" where
  "ur_state_224 c =
    (if c = 58 then Move [] 152
     else if c = 93 then Move [] 460
     else if c < 65 then (if 48 \<le> c \<and> c \<le> 57 then Move [] 149
      else Reject)
     else if c > 70 then (if 97 \<le> c \<and> c \<le> 102 then Move [] 149
      else Reject)
     else Move [] 149)"

definition ur_state_225 :: "int \<Rightarrow> ur_jump" where
  "ur_state_225 c =
    (if c < 65 then (if 48 \<le> c \<and> c \<le> 57 then Move [] 226
      else Reject)
     else if c > 70 then (if 97 \<le> c \<and> c \<le> 102 then Move [] 226
      else Reject)
     else Move [] 226)"

definition ur_state_226 :: "int \<Rightarrow> ur_jump" where
  "ur_state_226 c =
    (if c = 46 then Move [] 227
     else if c < 65 then (if 48 \<le> c \<and> c \<le> 57 then Move [] 226
      else Reject)
     else if c > 70 then (if 97 \<le> c \<and> c \<le> 102 then Move [] 226
      else Reject)
     else Move [] 226)"

definition ur_state_227 :: "int \<Rightarrow> ur_jump" where
  "ur_state_227 c =
    (if c = 33 then Move [] 228
     else if c = 36 then Move [] 228
     else if c = 61 then Move [] 228
     else if c = 95 then Move [] 228
     else if c = 126 then Move [] 228
     else if c < 48 then (if 38 \<le> c \<and> c \<le> 46 then Move [] 228
      else Reject)
     else if c > 59 then (if c > 90 then (if 97 \<le> c \<and> c \<le> 122 then Move [] 228
       else Reject)
      else if c \<ge> 65 then Move [] 228
      else Reject)
     else Move [] 228)"

definition ur_state_228 :: "int \<Rightarrow> ur_jump" where
  "ur_state_228 c =
    (if c = 33 then Move [] 228
     else if c = 36 then Move [] 228
     else if c = 61 then Move [] 228
     else if c = 93 then Move [] 460
     else if c = 95 then Move [] 228
     else if c = 126 then Move [] 228
     else if c < 48 then (if 38 \<le> c \<and> c \<le> 46 then Move [] 228
      else Reject)
     else if c > 59 then (if c > 90 then (if 97 \<le> c \<and> c \<le> 122 then Move [] 228
       else Reject)
      else if c \<ge> 65 then Move [] 228
      else Reject)
     else Move [] 228)"

definition ur_state_229 :: "int \<Rightarrow> ur_jump" where
  "ur_state_229 c =
    (if 48 \<le> c \<and> c \<le> 52 then Move [] 230
     else Reject)"

definition ur_state_230 :: "int \<Rightarrow> ur_jump" where
  "ur_state_230 c =
    (if 48 \<le> c \<and> c \<le> 57 then Move [] 231
     else Reject)"

definition ur_state_231 :: "int \<Rightarrow> ur_jump" where
  "ur_state_231 c =
    (if c = 46 then Move [] 232
     else Reject)"

definition ur_state_232 :: "int \<Rightarrow> ur_jump" where
  "ur_state_232 c =
    (if c = 2 then Move [] 233
     else if c = 48 then Move [] 235
     else if c = 49 then Move [] 249
     else if c = 50 then Move [] 251
     else if 51 \<le> c \<and> c \<le> 57 then Move [] 250
     else Reject)"

definition ur_state_233 :: "int \<Rightarrow> ur_jump" where
  "ur_state_233 c =
    (if 48 \<le> c \<and> c \<le> 52 then Move [] 234
     else Reject)"

definition ur_state_234 :: "int \<Rightarrow> ur_jump" where
  "ur_state_234 c =
    (if 48 \<le> c \<and> c \<le> 57 then Move [] 235
     else Reject)"

definition ur_state_235 :: "int \<Rightarrow> ur_jump" where
  "ur_state_235 c =
    (if c = 46 then Move [] 236
     else Reject)"

definition ur_state_236 :: "int \<Rightarrow> ur_jump" where
  "ur_state_236 c =
    (if c = 2 then Move [] 237
     else if c = 48 then Move [] 239
     else if c = 49 then Move [] 245
     else if c = 50 then Move [] 247
     else if 51 \<le> c \<and> c \<le> 57 then Move [] 246
     else Reject)"

definition ur_state_237 :: "int \<Rightarrow> ur_jump" where
  "ur_state_237 c =
    (if 48 \<le> c \<and> c \<le> 52 then Move [] 238
     else Reject)"

definition ur_state_238 :: "int \<Rightarrow> ur_jump" where
  "ur_state_238 c =
    (if 48 \<le> c \<and> c \<le> 57 then Move [] 239
     else Reject)"

definition ur_state_239 :: "int \<Rightarrow> ur_jump" where
  "ur_state_239 c =
    (if c = 46 then Move [] 240
     else Reject)"

definition ur_state_240 :: "int \<Rightarrow> ur_jump" where
  "ur_state_240 c =
    (if c = 2 then Move [] 241
     else if c = 48 then Move [] 512
     else if c = 49 then Move [] 516
     else if c = 50 then Move [] 518
     else if 51 \<le> c \<and> c \<le> 57 then Move [] 517
     else Reject)"

definition ur_state_241 :: "int \<Rightarrow> ur_jump" where
  "ur_state_241 c =
    (if 48 \<le> c \<and> c \<le> 52 then Move [] 242
     else Reject)"

definition ur_state_242 :: "int \<Rightarrow> ur_jump" where
  "ur_state_242 c =
    (if 48 \<le> c \<and> c \<le> 57 then Move [] 512
     else Reject)"

definition ur_state_243 :: "int \<Rightarrow> ur_jump" where
  "ur_state_243 c =
    (if c < 65 then (if 48 \<le> c \<and> c \<le> 57 then Move [] 244
      else Reject)
     else if c > 70 then (if 97 \<le> c \<and> c \<le> 102 then Move [] 244
      else Reject)
     else Move [] 244)"

definition ur_state_244 :: "int \<Rightarrow> ur_jump" where
  "ur_state_244 c =
    (if c < 65 then (if 48 \<le> c \<and> c \<le> 57 then Move [] 513
      else Reject)
     else if c > 70 then (if 97 \<le> c \<and> c \<le> 102 then Move [] 513
      else Reject)
     else Move [] 513)"

definition ur_state_245 :: "int \<Rightarrow> ur_jump" where
  "ur_state_245 c =
    (if c = 46 then Move [] 240
     else if 48 \<le> c \<and> c \<le> 57 then Move [] 246
     else Reject)"

definition ur_state_246 :: "int \<Rightarrow> ur_jump" where
  "ur_state_246 c =
    (if c = 46 then Move [] 240
     else if 48 \<le> c \<and> c \<le> 57 then Move [] 239
     else Reject)"

definition ur_state_247 :: "int \<Rightarrow> ur_jump" where
  "ur_state_247 c =
    (if c = 46 then Move [] 240
     else if c = 53 then Move [] 248
     else if 48 \<le> c \<and> c \<le> 57 then Move [] 239
     else Reject)"

definition ur_state_248 :: "int \<Rightarrow> ur_jump" where
  "ur_state_248 c =
    (if c = 46 then Move [] 240
     else if 48 \<le> c \<and> c \<le> 53 then Move [] 239
     else Reject)"

definition ur_state_249 :: "int \<Rightarrow> ur_jump" where
  "ur_state_249 c =
    (if c = 46 then Move [] 236
     else if 48 \<le> c \<and> c \<le> 57 then Move [] 250
     else Reject)"

definition ur_state_250 :: "int \<Rightarrow> ur_jump" where
  "ur_state_250 c =
    (if c = 46 then Move [] 236
     else if 48 \<le> c \<and> c \<le> 57 then Move [] 235
     else Reject)"

definition ur_state_251 :: "int \<Rightarrow> ur_jump" where
  "ur_state_251 c =
    (if c = 46 then Move [] 236
     else if c = 53 then Move [] 252
     else if 48 \<le> c \<and> c \<le> 57 then Move [] 235
     else Reject)"

definition ur_state_252 :: "int \<Rightarrow> ur_jump" where
  "ur_state_252 c =
    (if c = 46 then Move [] 236
     else if 48 \<le> c \<and> c \<le> 53 then Move [] 235
     else Reject)"

definition ur_state_253 :: "int \<Rightarrow> ur_jump" where
  "ur_state_253 c =
    (if c < 65 then (if 48 \<le> c \<and> c \<le> 57 then Move [] 254
      else Reject)
     else if c > 70 then (if 97 \<le> c \<and> c \<le> 102 then Move [] 254
      else Reject)
     else Move [] 254)"

definition ur_state_254 :: "int \<Rightarrow> ur_jump" where
  "ur_state_254 c =
    (if c < 65 then (if 48 \<le> c \<and> c \<le> 57 then Move [] 520
      else Reject)
     else if c > 70 then (if 97 \<le> c \<and> c \<le> 102 then Move [] 520
      else Reject)
     else Move [] 520)"

definition ur_state_255 :: "int \<Rightarrow> ur_jump" where
  "ur_state_255 c =
    (if c = 33 then Move [] 255
     else if c = 37 then Move [] 256
     else if c = 61 then Move [] 255
     else if c = 64 then ur_tr_263
     else if c = 95 then Move [] 255
     else if c = 126 then Move [] 255
     else if c < 48 then (if 36 \<le> c \<and> c \<le> 46 then Move [] 255
      else Reject)
     else if c > 59 then (if c > 90 then (if 97 \<le> c \<and> c \<le> 122 then Move [] 255
       else Reject)
      else if c \<ge> 65 then Move [] 255
      else Reject)
     else Move [] 255)"

definition ur_state_256 :: "int \<Rightarrow> ur_jump" where
  "ur_state_256 c =
    (if c < 65 then (if 48 \<le> c \<and> c \<le> 57 then Move [] 257
      else Reject)
     else if c > 70 then (if 97 \<le> c \<and> c \<le> 102 then Move [] 257
      else Reject)
     else Move [] 257)"

definition ur_state_257 :: "int \<Rightarrow> ur_jump" where
  "ur_state_257 c =
    (if c < 65 then (if 48 \<le> c \<and> c \<le> 57 then Move [] 255
      else Reject)
     else if c > 70 then (if 97 \<le> c \<and> c \<le> 102 then Move [] 255
      else Reject)
     else Move [] 255)"

definition ur_state_258 :: "int \<Rightarrow> ur_jump" where
  "ur_state_258 c =
    (if c < 65 then (if 48 \<le> c \<and> c \<le> 57 then Move [] 259
      else Reject)
     else if c > 70 then (if 97 \<le> c \<and> c \<le> 102 then Move [] 259
      else Reject)
     else Move [] 259)"

definition ur_state_259 :: "int \<Rightarrow> ur_jump" where
  "ur_state_259 c =
    (if c < 65 then (if 48 \<le> c \<and> c \<le> 57 then Move [] 523
      else Reject)
     else if c > 70 then (if 97 \<le> c \<and> c \<le> 102 then Move [] 523
      else Reject)
     else Move [] 523)"

definition ur_state_260 :: "int \<Rightarrow> ur_jump" where
  "ur_state_260 c =
    (if c = 58 then Move [] 368
     else if c = 118 then Move [] 447
     else if c < 65 then (if 48 \<le> c \<and> c \<le> 57 then Move [] 261
      else Reject)
     else if c > 70 then (if 97 \<le> c \<and> c \<le> 102 then Move [] 261
      else Reject)
     else Move [] 261)"

definition ur_state_261 :: "int \<Rightarrow> ur_jump" where
  "ur_state_261 c =
    (if c = 58 then Move [] 265
     else if c < 65 then (if 48 \<le> c \<and> c \<le> 57 then Move [] 262
      else Reject)
     else if c > 70 then (if 97 \<le> c \<and> c \<le> 102 then Move [] 262
      else Reject)
     else Move [] 262)"

definition ur_state_262 :: "int \<Rightarrow> ur_jump" where
  "ur_state_262 c =
    (if c = 58 then Move [] 265
     else if c < 65 then (if 48 \<le> c \<and> c \<le> 57 then Move [] 263
      else Reject)
     else if c > 70 then (if 97 \<le> c \<and> c \<le> 102 then Move [] 263
      else Reject)
     else Move [] 263)"

definition ur_state_263 :: "int \<Rightarrow> ur_jump" where
  "ur_state_263 c =
    (if c = 58 then Move [] 265
     else if c < 65 then (if 48 \<le> c \<and> c \<le> 57 then Move [] 264
      else Reject)
     else if c > 70 then (if 97 \<le> c \<and> c \<le> 102 then Move [] 264
      else Reject)
     else Move [] 264)"

definition ur_state_264 :: "int \<Rightarrow> ur_jump" where
  "ur_state_264 c =
    (if c = 58 then Move [] 265
     else Reject)"

definition ur_state_265 :: "int \<Rightarrow> ur_jump" where
  "ur_state_265 c =
    (if c = 58 then Move [] 363
     else if c < 65 then (if 48 \<le> c \<and> c \<le> 57 then Move [] 266
      else Reject)
     else if c > 70 then (if 97 \<le> c \<and> c \<le> 102 then Move [] 266
      else Reject)
     else Move [] 266)"

definition ur_state_266 :: "int \<Rightarrow> ur_jump" where
  "ur_state_266 c =
    (if c = 58 then Move [] 270
     else if c < 65 then (if 48 \<le> c \<and> c \<le> 57 then Move [] 267
      else Reject)
     else if c > 70 then (if 97 \<le> c \<and> c \<le> 102 then Move [] 267
      else Reject)
     else Move [] 267)"

definition ur_state_267 :: "int \<Rightarrow> ur_jump" where
  "ur_state_267 c =
    (if c = 58 then Move [] 270
     else if c < 65 then (if 48 \<le> c \<and> c \<le> 57 then Move [] 268
      else Reject)
     else if c > 70 then (if 97 \<le> c \<and> c \<le> 102 then Move [] 268
      else Reject)
     else Move [] 268)"

definition ur_state_268 :: "int \<Rightarrow> ur_jump" where
  "ur_state_268 c =
    (if c = 58 then Move [] 270
     else if c < 65 then (if 48 \<le> c \<and> c \<le> 57 then Move [] 269
      else Reject)
     else if c > 70 then (if 97 \<le> c \<and> c \<le> 102 then Move [] 269
      else Reject)
     else Move [] 269)"

definition ur_state_269 :: "int \<Rightarrow> ur_jump" where
  "ur_state_269 c =
    (if c = 58 then Move [] 270
     else Reject)"

definition ur_state_270 :: "int \<Rightarrow> ur_jump" where
  "ur_state_270 c =
    (if c = 58 then Move [] 358
     else if c < 65 then (if 48 \<le> c \<and> c \<le> 57 then Move [] 271
      else Reject)
     else if c > 70 then (if 97 \<le> c \<and> c \<le> 102 then Move [] 271
      else Reject)
     else Move [] 271)"

definition ur_state_271 :: "int \<Rightarrow> ur_jump" where
  "ur_state_271 c =
    (if c = 58 then Move [] 275
     else if c < 65 then (if 48 \<le> c \<and> c \<le> 57 then Move [] 272
      else Reject)
     else if c > 70 then (if 97 \<le> c \<and> c \<le> 102 then Move [] 272
      else Reject)
     else Move [] 272)"

definition ur_state_272 :: "int \<Rightarrow> ur_jump" where
  "ur_state_272 c =
    (if c = 58 then Move [] 275
     else if c < 65 then (if 48 \<le> c \<and> c \<le> 57 then Move [] 273
      else Reject)
     else if c > 70 then (if 97 \<le> c \<and> c \<le> 102 then Move [] 273
      else Reject)
     else Move [] 273)"

definition ur_state_273 :: "int \<Rightarrow> ur_jump" where
  "ur_state_273 c =
    (if c = 58 then Move [] 275
     else if c < 65 then (if 48 \<le> c \<and> c \<le> 57 then Move [] 274
      else Reject)
     else if c > 70 then (if 97 \<le> c \<and> c \<le> 102 then Move [] 274
      else Reject)
     else Move [] 274)"

definition ur_state_274 :: "int \<Rightarrow> ur_jump" where
  "ur_state_274 c =
    (if c = 58 then Move [] 275
     else Reject)"

definition ur_state_275 :: "int \<Rightarrow> ur_jump" where
  "ur_state_275 c =
    (if c = 58 then Move [] 353
     else if c < 65 then (if 48 \<le> c \<and> c \<le> 57 then Move [] 276
      else Reject)
     else if c > 70 then (if 97 \<le> c \<and> c \<le> 102 then Move [] 276
      else Reject)
     else Move [] 276)"

definition ur_state_276 :: "int \<Rightarrow> ur_jump" where
  "ur_state_276 c =
    (if c = 58 then Move [] 280
     else if c < 65 then (if 48 \<le> c \<and> c \<le> 57 then Move [] 277
      else Reject)
     else if c > 70 then (if 97 \<le> c \<and> c \<le> 102 then Move [] 277
      else Reject)
     else Move [] 277)"

definition ur_state_277 :: "int \<Rightarrow> ur_jump" where
  "ur_state_277 c =
    (if c = 58 then Move [] 280
     else if c < 65 then (if 48 \<le> c \<and> c \<le> 57 then Move [] 278
      else Reject)
     else if c > 70 then (if 97 \<le> c \<and> c \<le> 102 then Move [] 278
      else Reject)
     else Move [] 278)"

definition ur_state_278 :: "int \<Rightarrow> ur_jump" where
  "ur_state_278 c =
    (if c = 58 then Move [] 280
     else if c < 65 then (if 48 \<le> c \<and> c \<le> 57 then Move [] 279
      else Reject)
     else if c > 70 then (if 97 \<le> c \<and> c \<le> 102 then Move [] 279
      else Reject)
     else Move [] 279)"

definition ur_state_279 :: "int \<Rightarrow> ur_jump" where
  "ur_state_279 c =
    (if c = 58 then Move [] 280
     else Reject)"

definition ur_state_280 :: "int \<Rightarrow> ur_jump" where
  "ur_state_280 c =
    (if c = 58 then Move [] 348
     else if c < 65 then (if 48 \<le> c \<and> c \<le> 57 then Move [] 281
      else Reject)
     else if c > 70 then (if 97 \<le> c \<and> c \<le> 102 then Move [] 281
      else Reject)
     else Move [] 281)"

definition ur_state_281 :: "int \<Rightarrow> ur_jump" where
  "ur_state_281 c =
    (if c = 58 then Move [] 285
     else if c < 65 then (if 48 \<le> c \<and> c \<le> 57 then Move [] 282
      else Reject)
     else if c > 70 then (if 97 \<le> c \<and> c \<le> 102 then Move [] 282
      else Reject)
     else Move [] 282)"

definition ur_state_282 :: "int \<Rightarrow> ur_jump" where
  "ur_state_282 c =
    (if c = 58 then Move [] 285
     else if c < 65 then (if 48 \<le> c \<and> c \<le> 57 then Move [] 283
      else Reject)
     else if c > 70 then (if 97 \<le> c \<and> c \<le> 102 then Move [] 283
      else Reject)
     else Move [] 283)"

definition ur_state_283 :: "int \<Rightarrow> ur_jump" where
  "ur_state_283 c =
    (if c = 58 then Move [] 285
     else if c < 65 then (if 48 \<le> c \<and> c \<le> 57 then Move [] 284
      else Reject)
     else if c > 70 then (if 97 \<le> c \<and> c \<le> 102 then Move [] 284
      else Reject)
     else Move [] 284)"

definition ur_state_284 :: "int \<Rightarrow> ur_jump" where
  "ur_state_284 c =
    (if c = 58 then Move [] 285
     else Reject)"

definition ur_state_285 :: "int \<Rightarrow> ur_jump" where
  "ur_state_285 c =
    (if c = 58 then Move [] 335
     else if c < 65 then (if 48 \<le> c \<and> c \<le> 57 then Move [] 286
      else Reject)
     else if c > 70 then (if 97 \<le> c \<and> c \<le> 102 then Move [] 286
      else Reject)
     else Move [] 286)"

definition ur_state_286 :: "int \<Rightarrow> ur_jump" where
  "ur_state_286 c =
    (if c = 58 then Move [] 290
     else if c < 65 then (if 48 \<le> c \<and> c \<le> 57 then Move [] 287
      else Reject)
     else if c > 70 then (if 97 \<le> c \<and> c \<le> 102 then Move [] 287
      else Reject)
     else Move [] 287)"

definition ur_state_287 :: "int \<Rightarrow> ur_jump" where
  "ur_state_287 c =
    (if c = 58 then Move [] 290
     else if c < 65 then (if 48 \<le> c \<and> c \<le> 57 then Move [] 288
      else Reject)
     else if c > 70 then (if 97 \<le> c \<and> c \<le> 102 then Move [] 288
      else Reject)
     else Move [] 288)"

definition ur_state_288 :: "int \<Rightarrow> ur_jump" where
  "ur_state_288 c =
    (if c = 58 then Move [] 290
     else if c < 65 then (if 48 \<le> c \<and> c \<le> 57 then Move [] 289
      else Reject)
     else if c > 70 then (if 97 \<le> c \<and> c \<le> 102 then Move [] 289
      else Reject)
     else Move [] 289)"

definition ur_state_289 :: "int \<Rightarrow> ur_jump" where
  "ur_state_289 c =
    (if c = 58 then Move [] 290
     else Reject)"

definition ur_state_290 :: "int \<Rightarrow> ur_jump" where
  "ur_state_290 c =
    (if c = 2 then Move [] 291
     else if c = 48 then Move [] 318
     else if c = 49 then Move [] 326
     else if c = 50 then Move [] 329
     else if c = 58 then Move [] 333
     else if c < 65 then (if 51 \<le> c \<and> c \<le> 57 then Move [] 332
      else Reject)
     else if c > 70 then (if 97 \<le> c \<and> c \<le> 102 then Move [] 334
      else Reject)
     else Move [] 334)"

definition ur_state_291 :: "int \<Rightarrow> ur_jump" where
  "ur_state_291 c =
    (if 48 \<le> c \<and> c \<le> 52 then Move [] 292
     else Reject)"

definition ur_state_292 :: "int \<Rightarrow> ur_jump" where
  "ur_state_292 c =
    (if 48 \<le> c \<and> c \<le> 57 then Move [] 293
     else Reject)"

definition ur_state_293 :: "int \<Rightarrow> ur_jump" where
  "ur_state_293 c =
    (if c = 46 then Move [] 294
     else Reject)"

definition ur_state_294 :: "int \<Rightarrow> ur_jump" where
  "ur_state_294 c =
    (if c = 2 then Move [] 295
     else if c = 48 then Move [] 297
     else if c = 49 then Move [] 314
     else if c = 50 then Move [] 316
     else if 51 \<le> c \<and> c \<le> 57 then Move [] 315
     else Reject)"

definition ur_state_295 :: "int \<Rightarrow> ur_jump" where
  "ur_state_295 c =
    (if 48 \<le> c \<and> c \<le> 52 then Move [] 296
     else Reject)"

definition ur_state_296 :: "int \<Rightarrow> ur_jump" where
  "ur_state_296 c =
    (if 48 \<le> c \<and> c \<le> 57 then Move [] 297
     else Reject)"

definition ur_state_297 :: "int \<Rightarrow> ur_jump" where
  "ur_state_297 c =
    (if c = 46 then Move [] 298
     else Reject)"

definition ur_state_298 :: "int \<Rightarrow> ur_jump" where
  "ur_state_298 c =
    (if c = 2 then Move [] 299
     else if c = 48 then Move [] 301
     else if c = 49 then Move [] 310
     else if c = 50 then Move [] 312
     else if 51 \<le> c \<and> c \<le> 57 then Move [] 311
     else Reject)"

definition ur_state_299 :: "int \<Rightarrow> ur_jump" where
  "ur_state_299 c =
    (if 48 \<le> c \<and> c \<le> 52 then Move [] 300
     else Reject)"

definition ur_state_300 :: "int \<Rightarrow> ur_jump" where
  "ur_state_300 c =
    (if 48 \<le> c \<and> c \<le> 57 then Move [] 301
     else Reject)"

definition ur_state_301 :: "int \<Rightarrow> ur_jump" where
  "ur_state_301 c =
    (if c = 46 then Move [] 302
     else Reject)"

definition ur_state_302 :: "int \<Rightarrow> ur_jump" where
  "ur_state_302 c =
    (if c = 2 then Move [] 303
     else if c = 48 then Move [] 305
     else if c = 49 then Move [] 306
     else if c = 50 then Move [] 308
     else if 51 \<le> c \<and> c \<le> 57 then Move [] 307
     else Reject)"

definition ur_state_303 :: "int \<Rightarrow> ur_jump" where
  "ur_state_303 c =
    (if 48 \<le> c \<and> c \<le> 52 then Move [] 304
     else Reject)"

definition ur_state_304 :: "int \<Rightarrow> ur_jump" where
  "ur_state_304 c =
    (if 48 \<le> c \<and> c \<le> 57 then Move [] 305
     else Reject)"

definition ur_state_305 :: "int \<Rightarrow> ur_jump" where
  "ur_state_305 c =
    (if c = 93 then Move [] 512
     else Reject)"

definition ur_state_306 :: "int \<Rightarrow> ur_jump" where
  "ur_state_306 c =
    (if c = 93 then Move [] 512
     else if 48 \<le> c \<and> c \<le> 57 then Move [] 307
     else Reject)"

definition ur_state_307 :: "int \<Rightarrow> ur_jump" where
  "ur_state_307 c =
    (if c = 93 then Move [] 512
     else if 48 \<le> c \<and> c \<le> 57 then Move [] 305
     else Reject)"

definition ur_state_308 :: "int \<Rightarrow> ur_jump" where
  "ur_state_308 c =
    (if c = 53 then Move [] 309
     else if c = 93 then Move [] 512
     else if 48 \<le> c \<and> c \<le> 57 then Move [] 305
     else Reject)"

definition ur_state_309 :: "int \<Rightarrow> ur_jump" where
  "ur_state_309 c =
    (if c = 93 then Move [] 512
     else if 48 \<le> c \<and> c \<le> 53 then Move [] 305
     else Reject)"

definition ur_state_310 :: "int \<Rightarrow> ur_jump" where
  "ur_state_310 c =
    (if c = 46 then Move [] 302
     else if 48 \<le> c \<and> c \<le> 57 then Move [] 311
     else Reject)"

definition ur_state_311 :: "int \<Rightarrow> ur_jump" where
  "ur_state_311 c =
    (if c = 46 then Move [] 302
     else if 48 \<le> c \<and> c \<le> 57 then Move [] 301
     else Reject)"

definition ur_state_312 :: "int \<Rightarrow> ur_jump" where
  "ur_state_312 c =
    (if c = 46 then Move [] 302
     else if c = 53 then Move [] 313
     else if 48 \<le> c \<and> c \<le> 57 then Move [] 301
     else Reject)"

definition ur_state_313 :: "int \<Rightarrow> ur_jump" where
  "ur_state_313 c =
    (if c = 46 then Move [] 302
     else if 48 \<le> c \<and> c \<le> 53 then Move [] 301
     else Reject)"

definition ur_state_314 :: "int \<Rightarrow> ur_jump" where
  "ur_state_314 c =
    (if c = 46 then Move [] 298
     else if 48 \<le> c \<and> c \<le> 57 then Move [] 315
     else Reject)"

definition ur_state_315 :: "int \<Rightarrow> ur_jump" where
  "ur_state_315 c =
    (if c = 46 then Move [] 298
     else if 48 \<le> c \<and> c \<le> 57 then Move [] 297
     else Reject)"

definition ur_state_316 :: "int \<Rightarrow> ur_jump" where
  "ur_state_316 c =
    (if c = 46 then Move [] 298
     else if c = 53 then Move [] 317
     else if 48 \<le> c \<and> c \<le> 57 then Move [] 297
     else Reject)"

definition ur_state_317 :: "int \<Rightarrow> ur_jump" where
  "ur_state_317 c =
    (if c = 46 then Move [] 298
     else if 48 \<le> c \<and> c \<le> 53 then Move [] 297
     else Reject)"

definition ur_state_318 :: "int \<Rightarrow> ur_jump" where
  "ur_state_318 c =
    (if c = 46 then Move [] 294
     else if c = 58 then Move [] 322
     else if c < 65 then (if 48 \<le> c \<and> c \<le> 57 then Move [] 319
      else Reject)
     else if c > 70 then (if 97 \<le> c \<and> c \<le> 102 then Move [] 319
      else Reject)
     else Move [] 319)"

definition ur_state_319 :: "int \<Rightarrow> ur_jump" where
  "ur_state_319 c =
    (if c = 58 then Move [] 322
     else if c < 65 then (if 48 \<le> c \<and> c \<le> 57 then Move [] 320
      else Reject)
     else if c > 70 then (if 97 \<le> c \<and> c \<le> 102 then Move [] 320
      else Reject)
     else Move [] 320)"

definition ur_state_320 :: "int \<Rightarrow> ur_jump" where
  "ur_state_320 c =
    (if c = 58 then Move [] 322
     else if c < 65 then (if 48 \<le> c \<and> c \<le> 57 then Move [] 321
      else Reject)
     else if c > 70 then (if 97 \<le> c \<and> c \<le> 102 then Move [] 321
      else Reject)
     else Move [] 321)"

definition ur_state_321 :: "int \<Rightarrow> ur_jump" where
  "ur_state_321 c =
    (if c = 58 then Move [] 322
     else Reject)"

definition ur_state_322 :: "int \<Rightarrow> ur_jump" where
  "ur_state_322 c =
    (if c = 58 then Move [] 305
     else if c < 65 then (if 48 \<le> c \<and> c \<le> 57 then Move [] 323
      else Reject)
     else if c > 70 then (if 97 \<le> c \<and> c \<le> 102 then Move [] 323
      else Reject)
     else Move [] 323)"

definition ur_state_323 :: "int \<Rightarrow> ur_jump" where
  "ur_state_323 c =
    (if c = 93 then Move [] 512
     else if c < 65 then (if 48 \<le> c \<and> c \<le> 57 then Move [] 324
      else Reject)
     else if c > 70 then (if 97 \<le> c \<and> c \<le> 102 then Move [] 324
      else Reject)
     else Move [] 324)"

definition ur_state_324 :: "int \<Rightarrow> ur_jump" where
  "ur_state_324 c =
    (if c = 93 then Move [] 512
     else if c < 65 then (if 48 \<le> c \<and> c \<le> 57 then Move [] 325
      else Reject)
     else if c > 70 then (if 97 \<le> c \<and> c \<le> 102 then Move [] 325
      else Reject)
     else Move [] 325)"

definition ur_state_325 :: "int \<Rightarrow> ur_jump" where
  "ur_state_325 c =
    (if c = 93 then Move [] 512
     else if c < 65 then (if 48 \<le> c \<and> c \<le> 57 then Move [] 305
      else Reject)
     else if c > 70 then (if 97 \<le> c \<and> c \<le> 102 then Move [] 305
      else Reject)
     else Move [] 305)"

definition ur_state_326 :: "int \<Rightarrow> ur_jump" where
  "ur_state_326 c =
    (if c = 46 then Move [] 294
     else if c = 58 then Move [] 322
     else if c < 65 then (if 48 \<le> c \<and> c \<le> 57 then Move [] 327
      else Reject)
     else if c > 70 then (if 97 \<le> c \<and> c \<le> 102 then Move [] 319
      else Reject)
     else Move [] 319)"

definition ur_state_327 :: "int \<Rightarrow> ur_jump" where
  "ur_state_327 c =
    (if c = 46 then Move [] 294
     else if c = 58 then Move [] 322
     else if c < 65 then (if 48 \<le> c \<and> c \<le> 57 then Move [] 328
      else Reject)
     else if c > 70 then (if 97 \<le> c \<and> c \<le> 102 then Move [] 320
      else Reject)
     else Move [] 320)"

definition ur_state_328 :: "int \<Rightarrow> ur_jump" where
  "ur_state_328 c =
    (if c = 46 then Move [] 294
     else if c = 58 then Move [] 322
     else if c < 65 then (if 48 \<le> c \<and> c \<le> 57 then Move [] 321
      else Reject)
     else if c > 70 then (if 97 \<le> c \<and> c \<le> 102 then Move [] 321
      else Reject)
     else Move [] 321)"

definition ur_state_329 :: "int \<Rightarrow> ur_jump" where
  "ur_state_329 c =
    (if c = 46 then Move [] 294
     else if c = 53 then Move [] 331
     else if c = 58 then Move [] 322
     else if c < 65 then (if 48 \<le> c \<and> c \<le> 57 then Move [] 330
      else Reject)
     else if c > 70 then (if 97 \<le> c \<and> c \<le> 102 then Move [] 319
      else Reject)
     else Move [] 319)"

definition ur_state_330 :: "int \<Rightarrow> ur_jump" where
  "ur_state_330 c =
    (if c = 46 then Move [] 294
     else if c = 58 then Move [] 322
     else if c < 65 then (if 48 \<le> c \<and> c \<le> 57 then Move [] 320
      else Reject)
     else if c > 70 then (if 97 \<le> c \<and> c \<le> 102 then Move [] 320
      else Reject)
     else Move [] 320)"

definition ur_state_331 :: "int \<Rightarrow> ur_jump" where
  "ur_state_331 c =
    (if c = 46 then Move [] 294
     else if c = 58 then Move [] 322
     else if c < 54 then (if 48 \<le> c \<and> c \<le> 53 then Move [] 328
      else Reject)
     else if c > 57 then (if c > 70 then (if 97 \<le> c \<and> c \<le> 102 then Move [] 320
       else Reject)
      else if c \<ge> 65 then Move [] 320
      else Reject)
     else Move [] 320)"

definition ur_state_332 :: "int \<Rightarrow> ur_jump" where
  "ur_state_332 c =
    (if c = 46 then Move [] 294
     else if c = 58 then Move [] 322
     else if c < 65 then (if 48 \<le> c \<and> c \<le> 57 then Move [] 330
      else Reject)
     else if c > 70 then (if 97 \<le> c \<and> c \<le> 102 then Move [] 319
      else Reject)
     else Move [] 319)"

definition ur_state_333 :: "int \<Rightarrow> ur_jump" where
  "ur_state_333 c =
    (if c < 65 then (if 48 \<le> c \<and> c \<le> 57 then Move [] 323
      else Reject)
     else if c > 70 then (if 97 \<le> c \<and> c \<le> 102 then Move [] 323
      else Reject)
     else Move [] 323)"

definition ur_state_334 :: "int \<Rightarrow> ur_jump" where
  "ur_state_334 c =
    (if c = 58 then Move [] 322
     else if c < 65 then (if 48 \<le> c \<and> c \<le> 57 then Move [] 319
      else Reject)
     else if c > 70 then (if 97 \<le> c \<and> c \<le> 102 then Move [] 319
      else Reject)
     else Move [] 319)"

definition ur_state_335 :: "int \<Rightarrow> ur_jump" where
  "ur_state_335 c =
    (if c = 2 then Move [] 291
     else if c = 48 then Move [] 336
     else if c = 49 then Move [] 340
     else if c = 50 then Move [] 343
     else if c < 65 then (if 51 \<le> c \<and> c \<le> 57 then Move [] 346
      else Reject)
     else if c > 70 then (if 97 \<le> c \<and> c \<le> 102 then Move [] 347
      else Reject)
     else Move [] 347)"

definition ur_state_336 :: "int \<Rightarrow> ur_jump" where
  "ur_state_336 c =
    (if c = 46 then Move [] 294
     else if c = 58 then Move [] 333
     else if c < 65 then (if 48 \<le> c \<and> c \<le> 57 then Move [] 337
      else Reject)
     else if c > 70 then (if 97 \<le> c \<and> c \<le> 102 then Move [] 337
      else Reject)
     else Move [] 337)"

definition ur_state_337 :: "int \<Rightarrow> ur_jump" where
  "ur_state_337 c =
    (if c = 58 then Move [] 333
     else if c < 65 then (if 48 \<le> c \<and> c \<le> 57 then Move [] 338
      else Reject)
     else if c > 70 then (if 97 \<le> c \<and> c \<le> 102 then Move [] 338
      else Reject)
     else Move [] 338)"

definition ur_state_338 :: "int \<Rightarrow> ur_jump" where
  "ur_state_338 c =
    (if c = 58 then Move [] 333
     else if c < 65 then (if 48 \<le> c \<and> c \<le> 57 then Move [] 339
      else Reject)
     else if c > 70 then (if 97 \<le> c \<and> c \<le> 102 then Move [] 339
      else Reject)
     else Move [] 339)"

definition ur_state_339 :: "int \<Rightarrow> ur_jump" where
  "ur_state_339 c =
    (if c = 58 then Move [] 333
     else Reject)"

definition ur_state_340 :: "int \<Rightarrow> ur_jump" where
  "ur_state_340 c =
    (if c = 46 then Move [] 294
     else if c = 58 then Move [] 333
     else if c < 65 then (if 48 \<le> c \<and> c \<le> 57 then Move [] 341
      else Reject)
     else if c > 70 then (if 97 \<le> c \<and> c \<le> 102 then Move [] 337
      else Reject)
     else Move [] 337)"

definition ur_state_341 :: "int \<Rightarrow> ur_jump" where
  "ur_state_341 c =
    (if c = 46 then Move [] 294
     else if c = 58 then Move [] 333
     else if c < 65 then (if 48 \<le> c \<and> c \<le> 57 then Move [] 342
      else Reject)
     else if c > 70 then (if 97 \<le> c \<and> c \<le> 102 then Move [] 338
      else Reject)
     else Move [] 338)"

definition ur_state_342 :: "int \<Rightarrow> ur_jump" where
  "ur_state_342 c =
    (if c = 46 then Move [] 294
     else if c = 58 then Move [] 333
     else if c < 65 then (if 48 \<le> c \<and> c \<le> 57 then Move [] 339
      else Reject)
     else if c > 70 then (if 97 \<le> c \<and> c \<le> 102 then Move [] 339
      else Reject)
     else Move [] 339)"

definition ur_state_343 :: "int \<Rightarrow> ur_jump" where
  "ur_state_343 c =
    (if c = 46 then Move [] 294
     else if c = 53 then Move [] 345
     else if c = 58 then Move [] 333
     else if c < 65 then (if 48 \<le> c \<and> c \<le> 57 then Move [] 344
      else Reject)
     else if c > 70 then (if 97 \<le> c \<and> c \<le> 102 then Move [] 337
      else Reject)
     else Move [] 337)"

definition ur_state_344 :: "int \<Rightarrow> ur_jump" where
  "ur_state_344 c =
    (if c = 46 then Move [] 294
     else if c = 58 then Move [] 333
     else if c < 65 then (if 48 \<le> c \<and> c \<le> 57 then Move [] 338
      else Reject)
     else if c > 70 then (if 97 \<le> c \<and> c \<le> 102 then Move [] 338
      else Reject)
     else Move [] 338)"

definition ur_state_345 :: "int \<Rightarrow> ur_jump" where
  "ur_state_345 c =
    (if c = 46 then Move [] 294
     else if c = 58 then Move [] 333
     else if c < 54 then (if 48 \<le> c \<and> c \<le> 53 then Move [] 342
      else Reject)
     else if c > 57 then (if c > 70 then (if 97 \<le> c \<and> c \<le> 102 then Move [] 338
       else Reject)
      else if c \<ge> 65 then Move [] 338
      else Reject)
     else Move [] 338)"

definition ur_state_346 :: "int \<Rightarrow> ur_jump" where
  "ur_state_346 c =
    (if c = 46 then Move [] 294
     else if c = 58 then Move [] 333
     else if c < 65 then (if 48 \<le> c \<and> c \<le> 57 then Move [] 344
      else Reject)
     else if c > 70 then (if 97 \<le> c \<and> c \<le> 102 then Move [] 337
      else Reject)
     else Move [] 337)"

definition ur_state_347 :: "int \<Rightarrow> ur_jump" where
  "ur_state_347 c =
    (if c = 58 then Move [] 333
     else if c < 65 then (if 48 \<le> c \<and> c \<le> 57 then Move [] 337
      else Reject)
     else if c > 70 then (if 97 \<le> c \<and> c \<le> 102 then Move [] 337
      else Reject)
     else Move [] 337)"

definition ur_state_348 :: "int \<Rightarrow> ur_jump" where
  "ur_state_348 c =
    (if c < 65 then (if 48 \<le> c \<and> c \<le> 57 then Move [] 349
      else Reject)
     else if c > 70 then (if 97 \<le> c \<and> c \<le> 102 then Move [] 349
      else Reject)
     else Move [] 349)"

definition ur_state_349 :: "int \<Rightarrow> ur_jump" where
  "ur_state_349 c =
    (if c = 58 then Move [] 335
     else if c < 65 then (if 48 \<le> c \<and> c \<le> 57 then Move [] 350
      else Reject)
     else if c > 70 then (if 97 \<le> c \<and> c \<le> 102 then Move [] 350
      else Reject)
     else Move [] 350)"

definition ur_state_350 :: "int \<Rightarrow> ur_jump" where
  "ur_state_350 c =
    (if c = 58 then Move [] 335
     else if c < 65 then (if 48 \<le> c \<and> c \<le> 57 then Move [] 351
      else Reject)
     else if c > 70 then (if 97 \<le> c \<and> c \<le> 102 then Move [] 351
      else Reject)
     else Move [] 351)"

definition ur_state_351 :: "int \<Rightarrow> ur_jump" where
  "ur_state_351 c =
    (if c = 58 then Move [] 335
     else if c < 65 then (if 48 \<le> c \<and> c \<le> 57 then Move [] 352
      else Reject)
     else if c > 70 then (if 97 \<le> c \<and> c \<le> 102 then Move [] 352
      else Reject)
     else Move [] 352)"

definition ur_state_352 :: "int \<Rightarrow> ur_jump" where
  "ur_state_352 c =
    (if c = 58 then Move [] 335
     else Reject)"

definition ur_state_353 :: "int \<Rightarrow> ur_jump" where
  "ur_state_353 c =
    (if c < 65 then (if 48 \<le> c \<and> c \<le> 57 then Move [] 354
      else Reject)
     else if c > 70 then (if 97 \<le> c \<and> c \<le> 102 then Move [] 354
      else Reject)
     else Move [] 354)"

definition ur_state_354 :: "int \<Rightarrow> ur_jump" where
  "ur_state_354 c =
    (if c = 58 then Move [] 348
     else if c < 65 then (if 48 \<le> c \<and> c \<le> 57 then Move [] 355
      else Reject)
     else if c > 70 then (if 97 \<le> c \<and> c \<le> 102 then Move [] 355
      else Reject)
     else Move [] 355)"

definition ur_state_355 :: "int \<Rightarrow> ur_jump" where
  "ur_state_355 c =
    (if c = 58 then Move [] 348
     else if c < 65 then (if 48 \<le> c \<and> c \<le> 57 then Move [] 356
      else Reject)
     else if c > 70 then (if 97 \<le> c \<and> c \<le> 102 then Move [] 356
      else Reject)
     else Move [] 356)"

definition ur_state_356 :: "int \<Rightarrow> ur_jump" where
  "ur_state_356 c =
    (if c = 58 then Move [] 348
     else if c < 65 then (if 48 \<le> c \<and> c \<le> 57 then Move [] 357
      else Reject)
     else if c > 70 then (if 97 \<le> c \<and> c \<le> 102 then Move [] 357
      else Reject)
     else Move [] 357)"

definition ur_state_357 :: "int \<Rightarrow> ur_jump" where
  "ur_state_357 c =
    (if c = 58 then Move [] 348
     else Reject)"

definition ur_state_358 :: "int \<Rightarrow> ur_jump" where
  "ur_state_358 c =
    (if c < 65 then (if 48 \<le> c \<and> c \<le> 57 then Move [] 359
      else Reject)
     else if c > 70 then (if 97 \<le> c \<and> c \<le> 102 then Move [] 359
      else Reject)
     else Move [] 359)"

definition ur_state_359 :: "int \<Rightarrow> ur_jump" where
  "ur_state_359 c =
    (if c = 58 then Move [] 353
     else if c < 65 then (if 48 \<le> c \<and> c \<le> 57 then Move [] 360
      else Reject)
     else if c > 70 then (if 97 \<le> c \<and> c \<le> 102 then Move [] 360
      else Reject)
     else Move [] 360)"

definition ur_state_360 :: "int \<Rightarrow> ur_jump" where
  "ur_state_360 c =
    (if c = 58 then Move [] 353
     else if c < 65 then (if 48 \<le> c \<and> c \<le> 57 then Move [] 361
      else Reject)
     else if c > 70 then (if 97 \<le> c \<and> c \<le> 102 then Move [] 361
      else Reject)
     else Move [] 361)"

definition ur_state_361 :: "int \<Rightarrow> ur_jump" where
  "ur_state_361 c =
    (if c = 58 then Move [] 353
     else if c < 65 then (if 48 \<le> c \<and> c \<le> 57 then Move [] 362
      else Reject)
     else if c > 70 then (if 97 \<le> c \<and> c \<le> 102 then Move [] 362
      else Reject)
     else Move [] 362)"

definition ur_state_362 :: "int \<Rightarrow> ur_jump" where
  "ur_state_362 c =
    (if c = 58 then Move [] 353
     else Reject)"

definition ur_state_363 :: "int \<Rightarrow> ur_jump" where
  "ur_state_363 c =
    (if c < 65 then (if 48 \<le> c \<and> c \<le> 57 then Move [] 364
      else Reject)
     else if c > 70 then (if 97 \<le> c \<and> c \<le> 102 then Move [] 364
      else Reject)
     else Move [] 364)"

definition ur_state_364 :: "int \<Rightarrow> ur_jump" where
  "ur_state_364 c =
    (if c = 58 then Move [] 358
     else if c < 65 then (if 48 \<le> c \<and> c \<le> 57 then Move [] 365
      else Reject)
     else if c > 70 then (if 97 \<le> c \<and> c \<le> 102 then Move [] 365
      else Reject)
     else Move [] 365)"

definition ur_state_365 :: "int \<Rightarrow> ur_jump" where
  "ur_state_365 c =
    (if c = 58 then Move [] 358
     else if c < 65 then (if 48 \<le> c \<and> c \<le> 57 then Move [] 366
      else Reject)
     else if c > 70 then (if 97 \<le> c \<and> c \<le> 102 then Move [] 366
      else Reject)
     else Move [] 366)"

definition ur_state_366 :: "int \<Rightarrow> ur_jump" where
  "ur_state_366 c =
    (if c = 58 then Move [] 358
     else if c < 65 then (if 48 \<le> c \<and> c \<le> 57 then Move [] 367
      else Reject)
     else if c > 70 then (if 97 \<le> c \<and> c \<le> 102 then Move [] 367
      else Reject)
     else Move [] 367)"

definition ur_state_367 :: "int \<Rightarrow> ur_jump" where
  "ur_state_367 c =
    (if c = 58 then Move [] 358
     else Reject)"

definition ur_state_368 :: "int \<Rightarrow> ur_jump" where
  "ur_state_368 c =
    (if c = 58 then Move [] 369
     else Reject)"

definition ur_state_369 :: "int \<Rightarrow> ur_jump" where
  "ur_state_369 c =
    (if c = 2 then Move [] 291
     else if c = 48 then Move [] 370
     else if c = 49 then Move [] 439
     else if c = 50 then Move [] 442
     else if c = 93 then Move [] 512
     else if c < 65 then (if 51 \<le> c \<and> c \<le> 57 then Move [] 445
      else Reject)
     else if c > 70 then (if 97 \<le> c \<and> c \<le> 102 then Move [] 446
      else Reject)
     else Move [] 446)"

definition ur_state_370 :: "int \<Rightarrow> ur_jump" where
  "ur_state_370 c =
    (if c = 46 then Move [] 294
     else if c = 58 then Move [] 374
     else if c = 93 then Move [] 512
     else if c < 65 then (if 48 \<le> c \<and> c \<le> 57 then Move [] 371
      else Reject)
     else if c > 70 then (if 97 \<le> c \<and> c \<le> 102 then Move [] 371
      else Reject)
     else Move [] 371)"

definition ur_state_371 :: "int \<Rightarrow> ur_jump" where
  "ur_state_371 c =
    (if c = 58 then Move [] 374
     else if c = 93 then Move [] 512
     else if c < 65 then (if 48 \<le> c \<and> c \<le> 57 then Move [] 372
      else Reject)
     else if c > 70 then (if 97 \<le> c \<and> c \<le> 102 then Move [] 372
      else Reject)
     else Move [] 372)"

definition ur_state_372 :: "int \<Rightarrow> ur_jump" where
  "ur_state_372 c =
    (if c = 58 then Move [] 374
     else if c = 93 then Move [] 512
     else if c < 65 then (if 48 \<le> c \<and> c \<le> 57 then Move [] 373
      else Reject)
     else if c > 70 then (if 97 \<le> c \<and> c \<le> 102 then Move [] 373
      else Reject)
     else Move [] 373)"

definition ur_state_373 :: "int \<Rightarrow> ur_jump" where
  "ur_state_373 c =
    (if c = 58 then Move [] 374
     else if c = 93 then Move [] 512
     else Reject)"

definition ur_state_374 :: "int \<Rightarrow> ur_jump" where
  "ur_state_374 c =
    (if c = 2 then Move [] 291
     else if c = 48 then Move [] 375
     else if c = 49 then Move [] 431
     else if c = 50 then Move [] 434
     else if c < 65 then (if 51 \<le> c \<and> c \<le> 57 then Move [] 437
      else Reject)
     else if c > 70 then (if 97 \<le> c \<and> c \<le> 102 then Move [] 438
      else Reject)
     else Move [] 438)"

definition ur_state_375 :: "int \<Rightarrow> ur_jump" where
  "ur_state_375 c =
    (if c = 46 then Move [] 294
     else if c = 58 then Move [] 379
     else if c = 93 then Move [] 512
     else if c < 65 then (if 48 \<le> c \<and> c \<le> 57 then Move [] 376
      else Reject)
     else if c > 70 then (if 97 \<le> c \<and> c \<le> 102 then Move [] 376
      else Reject)
     else Move [] 376)"

definition ur_state_376 :: "int \<Rightarrow> ur_jump" where
  "ur_state_376 c =
    (if c = 58 then Move [] 379
     else if c = 93 then Move [] 512
     else if c < 65 then (if 48 \<le> c \<and> c \<le> 57 then Move [] 377
      else Reject)
     else if c > 70 then (if 97 \<le> c \<and> c \<le> 102 then Move [] 377
      else Reject)
     else Move [] 377)"

definition ur_state_377 :: "int \<Rightarrow> ur_jump" where
  "ur_state_377 c =
    (if c = 58 then Move [] 379
     else if c = 93 then Move [] 512
     else if c < 65 then (if 48 \<le> c \<and> c \<le> 57 then Move [] 378
      else Reject)
     else if c > 70 then (if 97 \<le> c \<and> c \<le> 102 then Move [] 378
      else Reject)
     else Move [] 378)"

definition ur_state_378 :: "int \<Rightarrow> ur_jump" where
  "ur_state_378 c =
    (if c = 58 then Move [] 379
     else if c = 93 then Move [] 512
     else Reject)"

definition ur_state_379 :: "int \<Rightarrow> ur_jump" where
  "ur_state_379 c =
    (if c = 2 then Move [] 291
     else if c = 48 then Move [] 380
     else if c = 49 then Move [] 423
     else if c = 50 then Move [] 426
     else if c < 65 then (if 51 \<le> c \<and> c \<le> 57 then Move [] 429
      else Reject)
     else if c > 70 then (if 97 \<le> c \<and> c \<le> 102 then Move [] 430
      else Reject)
     else Move [] 430)"

definition ur_state_380 :: "int \<Rightarrow> ur_jump" where
  "ur_state_380 c =
    (if c = 46 then Move [] 294
     else if c = 58 then Move [] 384
     else if c = 93 then Move [] 512
     else if c < 65 then (if 48 \<le> c \<and> c \<le> 57 then Move [] 381
      else Reject)
     else if c > 70 then (if 97 \<le> c \<and> c \<le> 102 then Move [] 381
      else Reject)
     else Move [] 381)"

definition ur_state_381 :: "int \<Rightarrow> ur_jump" where
  "ur_state_381 c =
    (if c = 58 then Move [] 384
     else if c = 93 then Move [] 512
     else if c < 65 then (if 48 \<le> c \<and> c \<le> 57 then Move [] 382
      else Reject)
     else if c > 70 then (if 97 \<le> c \<and> c \<le> 102 then Move [] 382
      else Reject)
     else Move [] 382)"

definition ur_state_382 :: "int \<Rightarrow> ur_jump" where
  "ur_state_382 c =
    (if c = 58 then Move [] 384
     else if c = 93 then Move [] 512
     else if c < 65 then (if 48 \<le> c \<and> c \<le> 57 then Move [] 383
      else Reject)
     else if c > 70 then (if 97 \<le> c \<and> c \<le> 102 then Move [] 383
      else Reject)
     else Move [] 383)"

definition ur_state_383 :: "int \<Rightarrow> ur_jump" where
  "ur_state_383 c =
    (if c = 58 then Move [] 384
     else if c = 93 then Move [] 512
     else Reject)"

definition ur_state_384 :: "int \<Rightarrow> ur_jump" where
  "ur_state_384 c =
    (if c = 2 then Move [] 291
     else if c = 48 then Move [] 385
     else if c = 49 then Move [] 415
     else if c = 50 then Move [] 418
     else if c < 65 then (if 51 \<le> c \<and> c \<le> 57 then Move [] 421
      else Reject)
     else if c > 70 then (if 97 \<le> c \<and> c \<le> 102 then Move [] 422
      else Reject)
     else Move [] 422)"

definition ur_state_385 :: "int \<Rightarrow> ur_jump" where
  "ur_state_385 c =
    (if c = 46 then Move [] 294
     else if c = 58 then Move [] 389
     else if c = 93 then Move [] 512
     else if c < 65 then (if 48 \<le> c \<and> c \<le> 57 then Move [] 386
      else Reject)
     else if c > 70 then (if 97 \<le> c \<and> c \<le> 102 then Move [] 386
      else Reject)
     else Move [] 386)"

definition ur_state_386 :: "int \<Rightarrow> ur_jump" where
  "ur_state_386 c =
    (if c = 58 then Move [] 389
     else if c = 93 then Move [] 512
     else if c < 65 then (if 48 \<le> c \<and> c \<le> 57 then Move [] 387
      else Reject)
     else if c > 70 then (if 97 \<le> c \<and> c \<le> 102 then Move [] 387
      else Reject)
     else Move [] 387)"

definition ur_state_387 :: "int \<Rightarrow> ur_jump" where
  "ur_state_387 c =
    (if c = 58 then Move [] 389
     else if c = 93 then Move [] 512
     else if c < 65 then (if 48 \<le> c \<and> c \<le> 57 then Move [] 388
      else Reject)
     else if c > 70 then (if 97 \<le> c \<and> c \<le> 102 then Move [] 388
      else Reject)
     else Move [] 388)"

definition ur_state_388 :: "int \<Rightarrow> ur_jump" where
  "ur_state_388 c =
    (if c = 58 then Move [] 389
     else if c = 93 then Move [] 512
     else Reject)"

definition ur_state_389 :: "int \<Rightarrow> ur_jump" where
  "ur_state_389 c =
    (if c = 2 then Move [] 291
     else if c = 48 then Move [] 390
     else if c = 49 then Move [] 407
     else if c = 50 then Move [] 410
     else if c < 65 then (if 51 \<le> c \<and> c \<le> 57 then Move [] 413
      else Reject)
     else if c > 70 then (if 97 \<le> c \<and> c \<le> 102 then Move [] 414
      else Reject)
     else Move [] 414)"

definition ur_state_390 :: "int \<Rightarrow> ur_jump" where
  "ur_state_390 c =
    (if c = 46 then Move [] 294
     else if c = 58 then Move [] 394
     else if c = 93 then Move [] 512
     else if c < 65 then (if 48 \<le> c \<and> c \<le> 57 then Move [] 391
      else Reject)
     else if c > 70 then (if 97 \<le> c \<and> c \<le> 102 then Move [] 391
      else Reject)
     else Move [] 391)"

definition ur_state_391 :: "int \<Rightarrow> ur_jump" where
  "ur_state_391 c =
    (if c = 58 then Move [] 394
     else if c = 93 then Move [] 512
     else if c < 65 then (if 48 \<le> c \<and> c \<le> 57 then Move [] 392
      else Reject)
     else if c > 70 then (if 97 \<le> c \<and> c \<le> 102 then Move [] 392
      else Reject)
     else Move [] 392)"

definition ur_state_392 :: "int \<Rightarrow> ur_jump" where
  "ur_state_392 c =
    (if c = 58 then Move [] 394
     else if c = 93 then Move [] 512
     else if c < 65 then (if 48 \<le> c \<and> c \<le> 57 then Move [] 393
      else Reject)
     else if c > 70 then (if 97 \<le> c \<and> c \<le> 102 then Move [] 393
      else Reject)
     else Move [] 393)"

definition ur_state_393 :: "int \<Rightarrow> ur_jump" where
  "ur_state_393 c =
    (if c = 58 then Move [] 394
     else if c = 93 then Move [] 512
     else Reject)"

definition ur_state_394 :: "int \<Rightarrow> ur_jump" where
  "ur_state_394 c =
    (if c = 2 then Move [] 291
     else if c = 48 then Move [] 395
     else if c = 49 then Move [] 399
     else if c = 50 then Move [] 402
     else if c < 65 then (if 51 \<le> c \<and> c \<le> 57 then Move [] 405
      else Reject)
     else if c > 70 then (if 97 \<le> c \<and> c \<le> 102 then Move [] 406
      else Reject)
     else Move [] 406)"

definition ur_state_395 :: "int \<Rightarrow> ur_jump" where
  "ur_state_395 c =
    (if c = 46 then Move [] 294
     else if c = 58 then Move [] 333
     else if c = 93 then Move [] 512
     else if c < 65 then (if 48 \<le> c \<and> c \<le> 57 then Move [] 396
      else Reject)
     else if c > 70 then (if 97 \<le> c \<and> c \<le> 102 then Move [] 396
      else Reject)
     else Move [] 396)"

definition ur_state_396 :: "int \<Rightarrow> ur_jump" where
  "ur_state_396 c =
    (if c = 58 then Move [] 333
     else if c = 93 then Move [] 512
     else if c < 65 then (if 48 \<le> c \<and> c \<le> 57 then Move [] 397
      else Reject)
     else if c > 70 then (if 97 \<le> c \<and> c \<le> 102 then Move [] 397
      else Reject)
     else Move [] 397)"

definition ur_state_397 :: "int \<Rightarrow> ur_jump" where
  "ur_state_397 c =
    (if c = 58 then Move [] 333
     else if c = 93 then Move [] 512
     else if c < 65 then (if 48 \<le> c \<and> c \<le> 57 then Move [] 398
      else Reject)
     else if c > 70 then (if 97 \<le> c \<and> c \<le> 102 then Move [] 398
      else Reject)
     else Move [] 398)"

definition ur_state_398 :: "int \<Rightarrow> ur_jump" where
  "ur_state_398 c =
    (if c = 58 then Move [] 333
     else if c = 93 then Move [] 512
     else Reject)"

definition ur_state_399 :: "int \<Rightarrow> ur_jump" where
  "ur_state_399 c =
    (if c = 46 then Move [] 294
     else if c = 58 then Move [] 333
     else if c = 93 then Move [] 512
     else if c < 65 then (if 48 \<le> c \<and> c \<le> 57 then Move [] 400
      else Reject)
     else if c > 70 then (if 97 \<le> c \<and> c \<le> 102 then Move [] 396
      else Reject)
     else Move [] 396)"

definition ur_state_400 :: "int \<Rightarrow> ur_jump" where
  "ur_state_400 c =
    (if c = 46 then Move [] 294
     else if c = 58 then Move [] 333
     else if c = 93 then Move [] 512
     else if c < 65 then (if 48 \<le> c \<and> c \<le> 57 then Move [] 401
      else Reject)
     else if c > 70 then (if 97 \<le> c \<and> c \<le> 102 then Move [] 397
      else Reject)
     else Move [] 397)"

definition ur_state_401 :: "int \<Rightarrow> ur_jump" where
  "ur_state_401 c =
    (if c = 46 then Move [] 294
     else if c = 58 then Move [] 333
     else if c = 93 then Move [] 512
     else if c < 65 then (if 48 \<le> c \<and> c \<le> 57 then Move [] 398
      else Reject)
     else if c > 70 then (if 97 \<le> c \<and> c \<le> 102 then Move [] 398
      else Reject)
     else Move [] 398)"

definition ur_state_402 :: "int \<Rightarrow> ur_jump" where
  "ur_state_402 c =
    (if c = 46 then Move [] 294
     else if c = 53 then Move [] 404
     else if c = 58 then Move [] 333
     else if c = 93 then Move [] 512
     else if c < 65 then (if 48 \<le> c \<and> c \<le> 57 then Move [] 403
      else Reject)
     else if c > 70 then (if 97 \<le> c \<and> c \<le> 102 then Move [] 396
      else Reject)
     else Move [] 396)"

definition ur_state_403 :: "int \<Rightarrow> ur_jump" where
  "ur_state_403 c =
    (if c = 46 then Move [] 294
     else if c = 58 then Move [] 333
     else if c = 93 then Move [] 512
     else if c < 65 then (if 48 \<le> c \<and> c \<le> 57 then Move [] 397
      else Reject)
     else if c > 70 then (if 97 \<le> c \<and> c \<le> 102 then Move [] 397
      else Reject)
     else Move [] 397)"

definition ur_state_404 :: "int \<Rightarrow> ur_jump" where
  "ur_state_404 c =
    (if c = 46 then Move [] 294
     else if c = 58 then Move [] 333
     else if c = 93 then Move [] 512
     else if c < 54 then (if 48 \<le> c \<and> c \<le> 53 then Move [] 401
      else Reject)
     else if c > 57 then (if c > 70 then (if 97 \<le> c \<and> c \<le> 102 then Move [] 397
       else Reject)
      else if c \<ge> 65 then Move [] 397
      else Reject)
     else Move [] 397)"

definition ur_state_405 :: "int \<Rightarrow> ur_jump" where
  "ur_state_405 c =
    (if c = 46 then Move [] 294
     else if c = 58 then Move [] 333
     else if c = 93 then Move [] 512
     else if c < 65 then (if 48 \<le> c \<and> c \<le> 57 then Move [] 403
      else Reject)
     else if c > 70 then (if 97 \<le> c \<and> c \<le> 102 then Move [] 396
      else Reject)
     else Move [] 396)"

definition ur_state_406 :: "int \<Rightarrow> ur_jump" where
  "ur_state_406 c =
    (if c = 58 then Move [] 333
     else if c = 93 then Move [] 512
     else if c < 65 then (if 48 \<le> c \<and> c \<le> 57 then Move [] 396
      else Reject)
     else if c > 70 then (if 97 \<le> c \<and> c \<le> 102 then Move [] 396
      else Reject)
     else Move [] 396)"

definition ur_state_407 :: "int \<Rightarrow> ur_jump" where
  "ur_state_407 c =
    (if c = 46 then Move [] 294
     else if c = 58 then Move [] 394
     else if c = 93 then Move [] 512
     else if c < 65 then (if 48 \<le> c \<and> c \<le> 57 then Move [] 408
      else Reject)
     else if c > 70 then (if 97 \<le> c \<and> c \<le> 102 then Move [] 391
      else Reject)
     else Move [] 391)"

definition ur_state_408 :: "int \<Rightarrow> ur_jump" where
  "ur_state_408 c =
    (if c = 46 then Move [] 294
     else if c = 58 then Move [] 394
     else if c = 93 then Move [] 512
     else if c < 65 then (if 48 \<le> c \<and> c \<le> 57 then Move [] 409
      else Reject)
     else if c > 70 then (if 97 \<le> c \<and> c \<le> 102 then Move [] 392
      else Reject)
     else Move [] 392)"

definition ur_state_409 :: "int \<Rightarrow> ur_jump" where
  "ur_state_409 c =
    (if c = 46 then Move [] 294
     else if c = 58 then Move [] 394
     else if c = 93 then Move [] 512
     else if c < 65 then (if 48 \<le> c \<and> c \<le> 57 then Move [] 393
      else Reject)
     else if c > 70 then (if 97 \<le> c \<and> c \<le> 102 then Move [] 393
      else Reject)
     else Move [] 393)"

definition ur_state_410 :: "int \<Rightarrow> ur_jump" where
  "ur_state_410 c =
    (if c = 46 then Move [] 294
     else if c = 53 then Move [] 412
     else if c = 58 then Move [] 394
     else if c = 93 then Move [] 512
     else if c < 65 then (if 48 \<le> c \<and> c \<le> 57 then Move [] 411
      else Reject)
     else if c > 70 then (if 97 \<le> c \<and> c \<le> 102 then Move [] 391
      else Reject)
     else Move [] 391)"

definition ur_state_411 :: "int \<Rightarrow> ur_jump" where
  "ur_state_411 c =
    (if c = 46 then Move [] 294
     else if c = 58 then Move [] 394
     else if c = 93 then Move [] 512
     else if c < 65 then (if 48 \<le> c \<and> c \<le> 57 then Move [] 392
      else Reject)
     else if c > 70 then (if 97 \<le> c \<and> c \<le> 102 then Move [] 392
      else Reject)
     else Move [] 392)"

definition ur_state_412 :: "int \<Rightarrow> ur_jump" where
  "ur_state_412 c =
    (if c = 46 then Move [] 294
     else if c = 58 then Move [] 394
     else if c = 93 then Move [] 512
     else if c < 54 then (if 48 \<le> c \<and> c \<le> 53 then Move [] 409
      else Reject)
     else if c > 57 then (if c > 70 then (if 97 \<le> c \<and> c \<le> 102 then Move [] 392
       else Reject)
      else if c \<ge> 65 then Move [] 392
      else Reject)
     else Move [] 392)"

definition ur_state_413 :: "int \<Rightarrow> ur_jump" where
  "ur_state_413 c =
    (if c = 46 then Move [] 294
     else if c = 58 then Move [] 394
     else if c = 93 then Move [] 512
     else if c < 65 then (if 48 \<le> c \<and> c \<le> 57 then Move [] 411
      else Reject)
     else if c > 70 then (if 97 \<le> c \<and> c \<le> 102 then Move [] 391
      else Reject)
     else Move [] 391)"

definition ur_state_414 :: "int \<Rightarrow> ur_jump" where
  "ur_state_414 c =
    (if c = 58 then Move [] 394
     else if c = 93 then Move [] 512
     else if c < 65 then (if 48 \<le> c \<and> c \<le> 57 then Move [] 391
      else Reject)
     else if c > 70 then (if 97 \<le> c \<and> c \<le> 102 then Move [] 391
      else Reject)
     else Move [] 391)"

definition ur_state_415 :: "int \<Rightarrow> ur_jump" where
  "ur_state_415 c =
    (if c = 46 then Move [] 294
     else if c = 58 then Move [] 389
     else if c = 93 then Move [] 512
     else if c < 65 then (if 48 \<le> c \<and> c \<le> 57 then Move [] 416
      else Reject)
     else if c > 70 then (if 97 \<le> c \<and> c \<le> 102 then Move [] 386
      else Reject)
     else Move [] 386)"

definition ur_state_416 :: "int \<Rightarrow> ur_jump" where
  "ur_state_416 c =
    (if c = 46 then Move [] 294
     else if c = 58 then Move [] 389
     else if c = 93 then Move [] 512
     else if c < 65 then (if 48 \<le> c \<and> c \<le> 57 then Move [] 417
      else Reject)
     else if c > 70 then (if 97 \<le> c \<and> c \<le> 102 then Move [] 387
      else Reject)
     else Move [] 387)"

definition ur_state_417 :: "int \<Rightarrow> ur_jump" where
  "ur_state_417 c =
    (if c = 46 then Move [] 294
     else if c = 58 then Move [] 389
     else if c = 93 then Move [] 512
     else if c < 65 then (if 48 \<le> c \<and> c \<le> 57 then Move [] 388
      else Reject)
     else if c > 70 then (if 97 \<le> c \<and> c \<le> 102 then Move [] 388
      else Reject)
     else Move [] 388)"

definition ur_state_418 :: "int \<Rightarrow> ur_jump" where
  "ur_state_418 c =
    (if c = 46 then Move [] 294
     else if c = 53 then Move [] 420
     else if c = 58 then Move [] 389
     else if c = 93 then Move [] 512
     else if c < 65 then (if 48 \<le> c \<and> c \<le> 57 then Move [] 419
      else Reject)
     else if c > 70 then (if 97 \<le> c \<and> c \<le> 102 then Move [] 386
      else Reject)
     else Move [] 386)"

definition ur_state_419 :: "int \<Rightarrow> ur_jump" where
  "ur_state_419 c =
    (if c = 46 then Move [] 294
     else if c = 58 then Move [] 389
     else if c = 93 then Move [] 512
     else if c < 65 then (if 48 \<le> c \<and> c \<le> 57 then Move [] 387
      else Reject)
     else if c > 70 then (if 97 \<le> c \<and> c \<le> 102 then Move [] 387
      else Reject)
     else Move [] 387)"

definition ur_state_420 :: "int \<Rightarrow> ur_jump" where
  "ur_state_420 c =
    (if c = 46 then Move [] 294
     else if c = 58 then Move [] 389
     else if c = 93 then Move [] 512
     else if c < 54 then (if 48 \<le> c \<and> c \<le> 53 then Move [] 417
      else Reject)
     else if c > 57 then (if c > 70 then (if 97 \<le> c \<and> c \<le> 102 then Move [] 387
       else Reject)
      else if c \<ge> 65 then Move [] 387
      else Reject)
     else Move [] 387)"

definition ur_state_421 :: "int \<Rightarrow> ur_jump" where
  "ur_state_421 c =
    (if c = 46 then Move [] 294
     else if c = 58 then Move [] 389
     else if c = 93 then Move [] 512
     else if c < 65 then (if 48 \<le> c \<and> c \<le> 57 then Move [] 419
      else Reject)
     else if c > 70 then (if 97 \<le> c \<and> c \<le> 102 then Move [] 386
      else Reject)
     else Move [] 386)"

definition ur_state_422 :: "int \<Rightarrow> ur_jump" where
  "ur_state_422 c =
    (if c = 58 then Move [] 389
     else if c = 93 then Move [] 512
     else if c < 65 then (if 48 \<le> c \<and> c \<le> 57 then Move [] 386
      else Reject)
     else if c > 70 then (if 97 \<le> c \<and> c \<le> 102 then Move [] 386
      else Reject)
     else Move [] 386)"

definition ur_state_423 :: "int \<Rightarrow> ur_jump" where
  "ur_state_423 c =
    (if c = 46 then Move [] 294
     else if c = 58 then Move [] 384
     else if c = 93 then Move [] 512
     else if c < 65 then (if 48 \<le> c \<and> c \<le> 57 then Move [] 424
      else Reject)
     else if c > 70 then (if 97 \<le> c \<and> c \<le> 102 then Move [] 381
      else Reject)
     else Move [] 381)"

definition ur_state_424 :: "int \<Rightarrow> ur_jump" where
  "ur_state_424 c =
    (if c = 46 then Move [] 294
     else if c = 58 then Move [] 384
     else if c = 93 then Move [] 512
     else if c < 65 then (if 48 \<le> c \<and> c \<le> 57 then Move [] 425
      else Reject)
     else if c > 70 then (if 97 \<le> c \<and> c \<le> 102 then Move [] 382
      else Reject)
     else Move [] 382)"

definition ur_state_425 :: "int \<Rightarrow> ur_jump" where
  "ur_state_425 c =
    (if c = 46 then Move [] 294
     else if c = 58 then Move [] 384
     else if c = 93 then Move [] 512
     else if c < 65 then (if 48 \<le> c \<and> c \<le> 57 then Move [] 383
      else Reject)
     else if c > 70 then (if 97 \<le> c \<and> c \<le> 102 then Move [] 383
      else Reject)
     else Move [] 383)"

definition ur_state_426 :: "int \<Rightarrow> ur_jump" where
  "ur_state_426 c =
    (if c = 46 then Move [] 294
     else if c = 53 then Move [] 428
     else if c = 58 then Move [] 384
     else if c = 93 then Move [] 512
     else if c < 65 then (if 48 \<le> c \<and> c \<le> 57 then Move [] 427
      else Reject)
     else if c > 70 then (if 97 \<le> c \<and> c \<le> 102 then Move [] 381
      else Reject)
     else Move [] 381)"

definition ur_state_427 :: "int \<Rightarrow> ur_jump" where
  "ur_state_427 c =
    (if c = 46 then Move [] 294
     else if c = 58 then Move [] 384
     else if c = 93 then Move [] 512
     else if c < 65 then (if 48 \<le> c \<and> c \<le> 57 then Move [] 382
      else Reject)
     else if c > 70 then (if 97 \<le> c \<and> c \<le> 102 then Move [] 382
      else Reject)
     else Move [] 382)"

definition ur_state_428 :: "int \<Rightarrow> ur_jump" where
  "ur_state_428 c =
    (if c = 46 then Move [] 294
     else if c = 58 then Move [] 384
     else if c = 93 then Move [] 512
     else if c < 54 then (if 48 \<le> c \<and> c \<le> 53 then Move [] 425
      else Reject)
     else if c > 57 then (if c > 70 then (if 97 \<le> c \<and> c \<le> 102 then Move [] 382
       else Reject)
      else if c \<ge> 65 then Move [] 382
      else Reject)
     else Move [] 382)"

definition ur_state_429 :: "int \<Rightarrow> ur_jump" where
  "ur_state_429 c =
    (if c = 46 then Move [] 294
     else if c = 58 then Move [] 384
     else if c = 93 then Move [] 512
     else if c < 65 then (if 48 \<le> c \<and> c \<le> 57 then Move [] 427
      else Reject)
     else if c > 70 then (if 97 \<le> c \<and> c \<le> 102 then Move [] 381
      else Reject)
     else Move [] 381)"

definition ur_state_430 :: "int \<Rightarrow> ur_jump" where
  "ur_state_430 c =
    (if c = 58 then Move [] 384
     else if c = 93 then Move [] 512
     else if c < 65 then (if 48 \<le> c \<and> c \<le> 57 then Move [] 381
      else Reject)
     else if c > 70 then (if 97 \<le> c \<and> c \<le> 102 then Move [] 381
      else Reject)
     else Move [] 381)"

definition ur_state_431 :: "int \<Rightarrow> ur_jump" where
  "ur_state_431 c =
    (if c = 46 then Move [] 294
     else if c = 58 then Move [] 379
     else if c = 93 then Move [] 512
     else if c < 65 then (if 48 \<le> c \<and> c \<le> 57 then Move [] 432
      else Reject)
     else if c > 70 then (if 97 \<le> c \<and> c \<le> 102 then Move [] 376
      else Reject)
     else Move [] 376)"

definition ur_state_432 :: "int \<Rightarrow> ur_jump" where
  "ur_state_432 c =
    (if c = 46 then Move [] 294
     else if c = 58 then Move [] 379
     else if c = 93 then Move [] 512
     else if c < 65 then (if 48 \<le> c \<and> c \<le> 57 then Move [] 433
      else Reject)
     else if c > 70 then (if 97 \<le> c \<and> c \<le> 102 then Move [] 377
      else Reject)
     else Move [] 377)"

definition ur_state_433 :: "int \<Rightarrow> ur_jump" where
  "ur_state_433 c =
    (if c = 46 then Move [] 294
     else if c = 58 then Move [] 379
     else if c = 93 then Move [] 512
     else if c < 65 then (if 48 \<le> c \<and> c \<le> 57 then Move [] 378
      else Reject)
     else if c > 70 then (if 97 \<le> c \<and> c \<le> 102 then Move [] 378
      else Reject)
     else Move [] 378)"

definition ur_state_434 :: "int \<Rightarrow> ur_jump" where
  "ur_state_434 c =
    (if c = 46 then Move [] 294
     else if c = 53 then Move [] 436
     else if c = 58 then Move [] 379
     else if c = 93 then Move [] 512
     else if c < 65 then (if 48 \<le> c \<and> c \<le> 57 then Move [] 435
      else Reject)
     else if c > 70 then (if 97 \<le> c \<and> c \<le> 102 then Move [] 376
      else Reject)
     else Move [] 376)"

definition ur_state_435 :: "int \<Rightarrow> ur_jump" where
  "ur_state_435 c =
    (if c = 46 then Move [] 294
     else if c = 58 then Move [] 379
     else if c = 93 then Move [] 512
     else if c < 65 then (if 48 \<le> c \<and> c \<le> 57 then Move [] 377
      else Reject)
     else if c > 70 then (if 97 \<le> c \<and> c \<le> 102 then Move [] 377
      else Reject)
     else Move [] 377)"

definition ur_state_436 :: "int \<Rightarrow> ur_jump" where
  "ur_state_436 c =
    (if c = 46 then Move [] 294
     else if c = 58 then Move [] 379
     else if c = 93 then Move [] 512
     else if c < 54 then (if 48 \<le> c \<and> c \<le> 53 then Move [] 433
      else Reject)
     else if c > 57 then (if c > 70 then (if 97 \<le> c \<and> c \<le> 102 then Move [] 377
       else Reject)
      else if c \<ge> 65 then Move [] 377
      else Reject)
     else Move [] 377)"

definition ur_state_437 :: "int \<Rightarrow> ur_jump" where
  "ur_state_437 c =
    (if c = 46 then Move [] 294
     else if c = 58 then Move [] 379
     else if c = 93 then Move [] 512
     else if c < 65 then (if 48 \<le> c \<and> c \<le> 57 then Move [] 435
      else Reject)
     else if c > 70 then (if 97 \<le> c \<and> c \<le> 102 then Move [] 376
      else Reject)
     else Move [] 376)"

definition ur_state_438 :: "int \<Rightarrow> ur_jump" where
  "ur_state_438 c =
    (if c = 58 then Move [] 379
     else if c = 93 then Move [] 512
     else if c < 65 then (if 48 \<le> c \<and> c \<le> 57 then Move [] 376
      else Reject)
     else if c > 70 then (if 97 \<le> c \<and> c \<le> 102 then Move [] 376
      else Reject)
     else Move [] 376)"

definition ur_state_439 :: "int \<Rightarrow> ur_jump" where
  "ur_state_439 c =
    (if c = 46 then Move [] 294
     else if c = 58 then Move [] 374
     else if c = 93 then Move [] 512
     else if c < 65 then (if 48 \<le> c \<and> c \<le> 57 then Move [] 440
      else Reject)
     else if c > 70 then (if 97 \<le> c \<and> c \<le> 102 then Move [] 371
      else Reject)
     else Move [] 371)"

definition ur_state_440 :: "int \<Rightarrow> ur_jump" where
  "ur_state_440 c =
    (if c = 46 then Move [] 294
     else if c = 58 then Move [] 374
     else if c = 93 then Move [] 512
     else if c < 65 then (if 48 \<le> c \<and> c \<le> 57 then Move [] 441
      else Reject)
     else if c > 70 then (if 97 \<le> c \<and> c \<le> 102 then Move [] 372
      else Reject)
     else Move [] 372)"

definition ur_state_441 :: "int \<Rightarrow> ur_jump" where
  "ur_state_441 c =
    (if c = 46 then Move [] 294
     else if c = 58 then Move [] 374
     else if c = 93 then Move [] 512
     else if c < 65 then (if 48 \<le> c \<and> c \<le> 57 then Move [] 373
      else Reject)
     else if c > 70 then (if 97 \<le> c \<and> c \<le> 102 then Move [] 373
      else Reject)
     else Move [] 373)"

definition ur_state_442 :: "int \<Rightarrow> ur_jump" where
  "ur_state_442 c =
    (if c = 46 then Move [] 294
     else if c = 53 then Move [] 444
     else if c = 58 then Move [] 374
     else if c = 93 then Move [] 512
     else if c < 65 then (if 48 \<le> c \<and> c \<le> 57 then Move [] 443
      else Reject)
     else if c > 70 then (if 97 \<le> c \<and> c \<le> 102 then Move [] 371
      else Reject)
     else Move [] 371)"

definition ur_state_443 :: "int \<Rightarrow> ur_jump" where
  "ur_state_443 c =
    (if c = 46 then Move [] 294
     else if c = 58 then Move [] 374
     else if c = 93 then Move [] 512
     else if c < 65 then (if 48 \<le> c \<and> c \<le> 57 then Move [] 372
      else Reject)
     else if c > 70 then (if 97 \<le> c \<and> c \<le> 102 then Move [] 372
      else Reject)
     else Move [] 372)"

definition ur_state_444 :: "int \<Rightarrow> ur_jump" where
  "ur_state_444 c =
    (if c = 46 then Move [] 294
     else if c = 58 then Move [] 374
     else if c = 93 then Move [] 512
     else if c < 54 then (if 48 \<le> c \<and> c \<le> 53 then Move [] 441
      else Reject)
     else if c > 57 then (if c > 70 then (if 97 \<le> c \<and> c \<le> 102 then Move [] 372
       else Reject)
      else if c \<ge> 65 then Move [] 372
      else Reject)
     else Move [] 372)"

definition ur_state_445 :: "int \<Rightarrow> ur_jump" where
  "ur_state_445 c =
    (if c = 46 then Move [] 294
     else if c = 58 then Move [] 374
     else if c = 93 then Move [] 512
     else if c < 65 then (if 48 \<le> c \<and> c \<le> 57 then Move [] 443
      else Reject)
     else if c > 70 then (if 97 \<le> c \<and> c \<le> 102 then Move [] 371
      else Reject)
     else Move [] 371)"

definition ur_state_446 :: "int \<Rightarrow> ur_jump" where
  "ur_state_446 c =
    (if c = 58 then Move [] 374
     else if c = 93 then Move [] 512
     else if c < 65 then (if 48 \<le> c \<and> c \<le> 57 then Move [] 371
      else Reject)
     else if c > 70 then (if 97 \<le> c \<and> c \<le> 102 then Move [] 371
      else Reject)
     else Move [] 371)"

definition ur_state_447 :: "int \<Rightarrow> ur_jump" where
  "ur_state_447 c =
    (if c < 65 then (if 48 \<le> c \<and> c \<le> 57 then Move [] 448
      else Reject)
     else if c > 70 then (if 97 \<le> c \<and> c \<le> 102 then Move [] 448
      else Reject)
     else Move [] 448)"

definition ur_state_448 :: "int \<Rightarrow> ur_jump" where
  "ur_state_448 c =
    (if c = 46 then Move [] 449
     else if c < 65 then (if 48 \<le> c \<and> c \<le> 57 then Move [] 448
      else Reject)
     else if c > 70 then (if 97 \<le> c \<and> c \<le> 102 then Move [] 448
      else Reject)
     else Move [] 448)"

definition ur_state_449 :: "int \<Rightarrow> ur_jump" where
  "ur_state_449 c =
    (if c = 33 then Move [] 450
     else if c = 36 then Move [] 450
     else if c = 61 then Move [] 450
     else if c = 95 then Move [] 450
     else if c = 126 then Move [] 450
     else if c < 48 then (if 38 \<le> c \<and> c \<le> 46 then Move [] 450
      else Reject)
     else if c > 59 then (if c > 90 then (if 97 \<le> c \<and> c \<le> 122 then Move [] 450
       else Reject)
      else if c \<ge> 65 then Move [] 450
      else Reject)
     else Move [] 450)"

definition ur_state_450 :: "int \<Rightarrow> ur_jump" where
  "ur_state_450 c =
    (if c = 33 then Move [] 450
     else if c = 36 then Move [] 450
     else if c = 61 then Move [] 450
     else if c = 93 then Move [] 512
     else if c = 95 then Move [] 450
     else if c = 126 then Move [] 450
     else if c < 48 then (if 38 \<le> c \<and> c \<le> 46 then Move [] 450
      else Reject)
     else if c > 59 then (if c > 90 then (if 97 \<le> c \<and> c \<le> 122 then Move [] 450
       else Reject)
      else if c \<ge> 65 then Move [] 450
      else Reject)
     else Move [] 450)"

end
