(* ===== verification/UriStates.thy ===== *)
theory UriStates
  imports UriTables
begin

text \<open>
  The other states of \<open>Uri::Create\<close>, the numbering of all states (the \<open>switch\<close> at the begin of the loop), and the actions at the end of the text for each
  state (the \<open>switch\<close> at \<open>_test_eof\<close>). The final states are those from 451 on.
\<close>

section \<open>States\<close>

definition ur_state_451 :: "int \<Rightarrow> ur_jump" where
  "ur_state_451 c =
    (if c = 34 then Reject
     else if c = 35 then Move [] 453
     else if c = 37 then Move [] 3
     else if c = 47 then Move [] 458
     else if c = 58 then Reject
     else if c = 60 then Reject
     else if c = 62 then Reject
     else if c = 63 then Move [] 456
     else if c = 96 then Reject
     else if c = 127 then Reject
     else if c < 91 then (if c > 32 then (if 65 \<le> c \<and> c \<le> 90 then ur_tr_461
       else Move [] 452)
      else if c \<ge> 0 then Reject
      else Move [] 452)
     else if c > 94 then (if c > 122 then (if 123 \<le> c \<and> c \<le> 125 then Reject
       else Move [] 452)
      else if c \<ge> 97 then ur_tr_461
      else Move [] 452)
     else Reject)"

definition ur_state_452 :: "int \<Rightarrow> ur_jump" where
  "ur_state_452 c =
    (if c = 34 then Reject
     else if c = 35 then Move [] 453
     else if c = 37 then Move [] 3
     else if c = 47 then Move [] 455
     else if c = 58 then Reject
     else if c = 60 then Reject
     else if c = 62 then Reject
     else if c = 63 then Move [] 456
     else if c = 96 then Reject
     else if c = 127 then Reject
     else if c < 91 then (if 0 \<le> c \<and> c \<le> 32 then Reject
      else Move [] 452)
     else if c > 94 then (if 123 \<le> c \<and> c \<le> 125 then Reject
      else Move [] 452)
     else Reject)"

definition ur_state_453 :: "int \<Rightarrow> ur_jump" where
  "ur_state_453 c =
    (if c = 37 then ur_tr_463
     else if c = 60 then Reject
     else if c = 62 then Reject
     else if c = 96 then Reject
     else if c = 127 then Reject
     else if c < 34 then (if 0 \<le> c \<and> c \<le> 32 then Reject
      else ur_tr_462)
     else if c > 35 then (if c > 94 then (if 123 \<le> c \<and> c \<le> 125 then Reject
       else ur_tr_462)
      else if c \<ge> 91 then Reject
      else ur_tr_462)
     else Reject)"

definition ur_state_454 :: "int \<Rightarrow> ur_jump" where
  "ur_state_454 c =
    (if c = 37 then Move [] 1
     else if c = 60 then Reject
     else if c = 62 then Reject
     else if c = 96 then Reject
     else if c = 127 then Reject
     else if c < 34 then (if 0 \<le> c \<and> c \<le> 32 then Reject
      else Move [] 454)
     else if c > 35 then (if c > 94 then (if 123 \<le> c \<and> c \<le> 125 then Reject
       else Move [] 454)
      else if c \<ge> 91 then Reject
      else Move [] 454)
     else Reject)"

definition ur_state_455 :: "int \<Rightarrow> ur_jump" where
  "ur_state_455 c =
    (if c = 34 then Reject
     else if c = 35 then Move [] 453
     else if c = 37 then Move [] 5
     else if c = 60 then Reject
     else if c = 62 then Reject
     else if c = 63 then Move [] 456
     else if c = 96 then Reject
     else if c = 127 then Reject
     else if c < 91 then (if 0 \<le> c \<and> c \<le> 32 then Reject
      else Move [] 455)
     else if c > 94 then (if 123 \<le> c \<and> c \<le> 125 then Reject
      else Move [] 455)
     else Reject)"

definition ur_state_456 :: "int \<Rightarrow> ur_jump" where
  "ur_state_456 c =
    (if c = 34 then Reject
     else if c = 35 then ur_tr_467
     else if c = 37 then ur_tr_468
     else if c = 60 then Reject
     else if c = 62 then Reject
     else if c = 96 then Reject
     else if c = 127 then Reject
     else if c < 91 then (if 0 \<le> c \<and> c \<le> 32 then Reject
      else ur_tr_466)
     else if c > 94 then (if 123 \<le> c \<and> c \<le> 125 then Reject
      else ur_tr_466)
     else Reject)"

definition ur_state_457 :: "int \<Rightarrow> ur_jump" where
  "ur_state_457 c =
    (if c = 34 then Reject
     else if c = 35 then ur_tr_469
     else if c = 37 then Move [] 7
     else if c = 60 then Reject
     else if c = 62 then Reject
     else if c = 96 then Reject
     else if c = 127 then Reject
     else if c < 91 then (if 0 \<le> c \<and> c \<le> 32 then Reject
      else Move [] 457)
     else if c > 94 then (if 123 \<le> c \<and> c \<le> 125 then Reject
      else Move [] 457)
     else Reject)"

definition ur_state_458 :: "int \<Rightarrow> ur_jump" where
  "ur_state_458 c =
    (if c = 34 then Reject
     else if c = 35 then Move [] 453
     else if c = 37 then Move [] 5
     else if c = 47 then Move [] 459
     else if c = 60 then Reject
     else if c = 62 then Reject
     else if c = 63 then Move [] 456
     else if c = 96 then Reject
     else if c = 127 then Reject
     else if c < 91 then (if 0 \<le> c \<and> c \<le> 32 then Reject
      else Move [] 455)
     else if c > 94 then (if 123 \<le> c \<and> c \<le> 125 then Reject
      else Move [] 455)
     else Reject)"

definition ur_state_459 :: "int \<Rightarrow> ur_jump" where
  "ur_state_459 c =
    (if c = 2 then ur_tr_472
     else if c = 33 then ur_tr_473
     else if c = 35 then ur_tr_474
     else if c = 37 then ur_tr_475
     else if c = 47 then ur_tr_476
     else if c = 48 then ur_tr_477
     else if c = 49 then ur_tr_478
     else if c = 50 then ur_tr_479
     else if c = 58 then ur_tr_481
     else if c = 59 then ur_tr_473
     else if c = 61 then ur_tr_473
     else if c = 63 then ur_tr_482
     else if c = 64 then ur_tr_483
     else if c = 91 then ur_tr_484
     else if c = 95 then ur_tr_473
     else if c = 126 then ur_tr_473
     else if c < 51 then (if 36 \<le> c \<and> c \<le> 46 then ur_tr_473
      else Reject)
     else if c > 57 then (if c > 90 then (if 97 \<le> c \<and> c \<le> 122 then ur_tr_473
       else Reject)
      else if c \<ge> 65 then ur_tr_473
      else Reject)
     else ur_tr_480)"

definition ur_state_460 :: "int \<Rightarrow> ur_jump" where
  "ur_state_460 c =
    (if c = 35 then ur_tr_485
     else if c = 47 then ur_tr_486
     else if c = 58 then ur_tr_487
     else if c = 63 then ur_tr_488
     else Reject)"

definition ur_state_461 :: "int \<Rightarrow> ur_jump" where
  "ur_state_461 c =
    (if c = 35 then ur_tr_489
     else if c = 47 then ur_tr_490
     else if c = 63 then ur_tr_492
     else if 48 \<le> c \<and> c \<le> 57 then ur_tr_491
     else Reject)"

definition ur_state_462 :: "int \<Rightarrow> ur_jump" where
  "ur_state_462 c =
    (if c = 35 then ur_tr_493
     else if c = 47 then ur_tr_494
     else if c = 63 then ur_tr_496
     else if 48 \<le> c \<and> c \<le> 57 then Move [] 462
     else Reject)"

definition ur_state_463 :: "int \<Rightarrow> ur_jump" where
  "ur_state_463 c =
    (if c = 35 then ur_tr_485
     else if c = 47 then ur_tr_486
     else if c = 58 then ur_tr_487
     else if c = 63 then ur_tr_488
     else if 48 \<le> c \<and> c \<le> 57 then Move [] 464
     else Reject)"

definition ur_state_464 :: "int \<Rightarrow> ur_jump" where
  "ur_state_464 c =
    (if c = 35 then ur_tr_485
     else if c = 47 then ur_tr_486
     else if c = 58 then ur_tr_487
     else if c = 63 then ur_tr_488
     else if 48 \<le> c \<and> c \<le> 57 then Move [] 460
     else Reject)"

definition ur_state_465 :: "int \<Rightarrow> ur_jump" where
  "ur_state_465 c =
    (if c = 35 then ur_tr_485
     else if c = 47 then ur_tr_486
     else if c = 53 then Move [] 466
     else if c = 58 then ur_tr_487
     else if c = 63 then ur_tr_488
     else if 48 \<le> c \<and> c \<le> 57 then Move [] 460
     else Reject)"

definition ur_state_466 :: "int \<Rightarrow> ur_jump" where
  "ur_state_466 c =
    (if c = 35 then ur_tr_485
     else if c = 47 then ur_tr_486
     else if c = 58 then ur_tr_487
     else if c = 63 then ur_tr_488
     else if 48 \<le> c \<and> c \<le> 53 then Move [] 460
     else Reject)"

definition ur_state_467 :: "int \<Rightarrow> ur_jump" where
  "ur_state_467 c =
    (if c = 33 then Move [] 467
     else if c = 35 then ur_tr_485
     else if c = 37 then Move [] 31
     else if c = 47 then ur_tr_486
     else if c = 58 then ur_tr_499
     else if c = 61 then Move [] 467
     else if c = 63 then ur_tr_488
     else if c = 64 then ur_tr_38
     else if c = 95 then Move [] 467
     else if c = 126 then Move [] 467
     else if c < 65 then (if 36 \<le> c \<and> c \<le> 59 then Move [] 467
      else Reject)
     else if c > 90 then (if 97 \<le> c \<and> c \<le> 122 then Move [] 467
      else Reject)
     else Move [] 467)"

definition ur_state_468 :: "int \<Rightarrow> ur_jump" where
  "ur_state_468 c =
    (if c = 33 then Move [] 33
     else if c = 35 then ur_tr_489
     else if c = 37 then Move [] 34
     else if c = 47 then ur_tr_490
     else if c = 61 then Move [] 33
     else if c = 63 then ur_tr_492
     else if c = 64 then ur_tr_38
     else if c = 95 then Move [] 33
     else if c = 126 then Move [] 33
     else if c < 58 then (if c > 46 then (if 48 \<le> c \<and> c \<le> 57 then ur_tr_500
       else Reject)
      else if c \<ge> 36 then Move [] 33
      else Reject)
     else if c > 59 then (if c > 90 then (if 97 \<le> c \<and> c \<le> 122 then Move [] 33
       else Reject)
      else if c \<ge> 65 then Move [] 33
      else Reject)
     else Move [] 33)"

definition ur_state_469 :: "int \<Rightarrow> ur_jump" where
  "ur_state_469 c =
    (if c = 2 then ur_tr_472
     else if c = 33 then ur_tr_501
     else if c = 35 then ur_tr_474
     else if c = 37 then ur_tr_502
     else if c = 47 then ur_tr_476
     else if c = 48 then ur_tr_503
     else if c = 49 then ur_tr_504
     else if c = 50 then ur_tr_505
     else if c = 58 then ur_tr_507
     else if c = 59 then ur_tr_501
     else if c = 61 then ur_tr_501
     else if c = 63 then ur_tr_482
     else if c = 91 then ur_tr_484
     else if c = 95 then ur_tr_501
     else if c = 126 then ur_tr_501
     else if c < 51 then (if 36 \<le> c \<and> c \<le> 46 then ur_tr_501
      else Reject)
     else if c > 57 then (if c > 90 then (if 97 \<le> c \<and> c \<le> 122 then ur_tr_501
       else Reject)
      else if c \<ge> 65 then ur_tr_501
      else Reject)
     else ur_tr_506)"

definition ur_state_470 :: "int \<Rightarrow> ur_jump" where
  "ur_state_470 c =
    (if c = 33 then Move [] 470
     else if c = 35 then ur_tr_485
     else if c = 37 then Move [] 36
     else if c = 47 then ur_tr_486
     else if c = 58 then ur_tr_487
     else if c = 61 then Move [] 470
     else if c = 63 then ur_tr_488
     else if c = 95 then Move [] 470
     else if c = 126 then Move [] 470
     else if c < 65 then (if 36 \<le> c \<and> c \<le> 59 then Move [] 470
      else Reject)
     else if c > 90 then (if 97 \<le> c \<and> c \<le> 122 then Move [] 470
      else Reject)
     else Move [] 470)"

definition ur_state_471 :: "int \<Rightarrow> ur_jump" where
  "ur_state_471 c =
    (if c = 33 then Move [] 470
     else if c = 35 then ur_tr_485
     else if c = 37 then Move [] 36
     else if c = 46 then Move [] 472
     else if c = 47 then ur_tr_486
     else if c = 58 then ur_tr_487
     else if c = 61 then Move [] 470
     else if c = 63 then ur_tr_488
     else if c = 95 then Move [] 470
     else if c = 126 then Move [] 470
     else if c < 65 then (if 36 \<le> c \<and> c \<le> 59 then Move [] 470
      else Reject)
     else if c > 90 then (if 97 \<le> c \<and> c \<le> 122 then Move [] 470
      else Reject)
     else Move [] 470)"

definition ur_state_472 :: "int \<Rightarrow> ur_jump" where
  "ur_state_472 c =
    (if c = 2 then Move [] 13
     else if c = 33 then Move [] 470
     else if c = 35 then ur_tr_485
     else if c = 37 then Move [] 36
     else if c = 47 then ur_tr_486
     else if c = 48 then Move [] 473
     else if c = 49 then Move [] 481
     else if c = 50 then Move [] 483
     else if c = 58 then ur_tr_487
     else if c = 59 then Move [] 470
     else if c = 61 then Move [] 470
     else if c = 63 then ur_tr_488
     else if c = 95 then Move [] 470
     else if c = 126 then Move [] 470
     else if c < 51 then (if 36 \<le> c \<and> c \<le> 46 then Move [] 470
      else Reject)
     else if c > 57 then (if c > 90 then (if 97 \<le> c \<and> c \<le> 122 then Move [] 470
       else Reject)
      else if c \<ge> 65 then Move [] 470
      else Reject)
     else Move [] 482)"

definition ur_state_473 :: "int \<Rightarrow> ur_jump" where
  "ur_state_473 c =
    (if c = 33 then Move [] 470
     else if c = 35 then ur_tr_485
     else if c = 37 then Move [] 36
     else if c = 46 then Move [] 474
     else if c = 47 then ur_tr_486
     else if c = 58 then ur_tr_487
     else if c = 61 then Move [] 470
     else if c = 63 then ur_tr_488
     else if c = 95 then Move [] 470
     else if c = 126 then Move [] 470
     else if c < 65 then (if 36 \<le> c \<and> c \<le> 59 then Move [] 470
      else Reject)
     else if c > 90 then (if 97 \<le> c \<and> c \<le> 122 then Move [] 470
      else Reject)
     else Move [] 470)"

definition ur_state_474 :: "int \<Rightarrow> ur_jump" where
  "ur_state_474 c =
    (if c = 2 then Move [] 17
     else if c = 33 then Move [] 470
     else if c = 35 then ur_tr_485
     else if c = 37 then Move [] 36
     else if c = 47 then ur_tr_486
     else if c = 48 then Move [] 475
     else if c = 49 then Move [] 477
     else if c = 50 then Move [] 479
     else if c = 58 then ur_tr_487
     else if c = 59 then Move [] 470
     else if c = 61 then Move [] 470
     else if c = 63 then ur_tr_488
     else if c = 95 then Move [] 470
     else if c = 126 then Move [] 470
     else if c < 51 then (if 36 \<le> c \<and> c \<le> 46 then Move [] 470
      else Reject)
     else if c > 57 then (if c > 90 then (if 97 \<le> c \<and> c \<le> 122 then Move [] 470
       else Reject)
      else if c \<ge> 65 then Move [] 470
      else Reject)
     else Move [] 478)"

definition ur_state_475 :: "int \<Rightarrow> ur_jump" where
  "ur_state_475 c =
    (if c = 33 then Move [] 470
     else if c = 35 then ur_tr_485
     else if c = 37 then Move [] 36
     else if c = 46 then Move [] 476
     else if c = 47 then ur_tr_486
     else if c = 58 then ur_tr_487
     else if c = 61 then Move [] 470
     else if c = 63 then ur_tr_488
     else if c = 95 then Move [] 470
     else if c = 126 then Move [] 470
     else if c < 65 then (if 36 \<le> c \<and> c \<le> 59 then Move [] 470
      else Reject)
     else if c > 90 then (if 97 \<le> c \<and> c \<le> 122 then Move [] 470
      else Reject)
     else Move [] 470)"

definition ur_state_476 :: "int \<Rightarrow> ur_jump" where
  "ur_state_476 c =
    (if c = 2 then Move [] 21
     else if c = 33 then Move [] 470
     else if c = 35 then ur_tr_485
     else if c = 37 then Move [] 36
     else if c = 47 then ur_tr_486
     else if c = 58 then ur_tr_487
     else if c = 61 then Move [] 470
     else if c = 63 then ur_tr_488
     else if c = 95 then Move [] 470
     else if c = 126 then Move [] 470
     else if c < 65 then (if 36 \<le> c \<and> c \<le> 59 then Move [] 470
      else Reject)
     else if c > 90 then (if 97 \<le> c \<and> c \<le> 122 then Move [] 470
      else Reject)
     else Move [] 470)"

definition ur_state_477 :: "int \<Rightarrow> ur_jump" where
  "ur_state_477 c =
    (if c = 33 then Move [] 470
     else if c = 35 then ur_tr_485
     else if c = 37 then Move [] 36
     else if c = 46 then Move [] 476
     else if c = 47 then ur_tr_486
     else if c = 58 then ur_tr_487
     else if c = 59 then Move [] 470
     else if c = 61 then Move [] 470
     else if c = 63 then ur_tr_488
     else if c = 95 then Move [] 470
     else if c = 126 then Move [] 470
     else if c < 48 then (if 36 \<le> c \<and> c \<le> 45 then Move [] 470
      else Reject)
     else if c > 57 then (if c > 90 then (if 97 \<le> c \<and> c \<le> 122 then Move [] 470
       else Reject)
      else if c \<ge> 65 then Move [] 470
      else Reject)
     else Move [] 478)"

definition ur_state_478 :: "int \<Rightarrow> ur_jump" where
  "ur_state_478 c =
    (if c = 33 then Move [] 470
     else if c = 35 then ur_tr_485
     else if c = 37 then Move [] 36
     else if c = 46 then Move [] 476
     else if c = 47 then ur_tr_486
     else if c = 58 then ur_tr_487
     else if c = 59 then Move [] 470
     else if c = 61 then Move [] 470
     else if c = 63 then ur_tr_488
     else if c = 95 then Move [] 470
     else if c = 126 then Move [] 470
     else if c < 48 then (if 36 \<le> c \<and> c \<le> 45 then Move [] 470
      else Reject)
     else if c > 57 then (if c > 90 then (if 97 \<le> c \<and> c \<le> 122 then Move [] 470
       else Reject)
      else if c \<ge> 65 then Move [] 470
      else Reject)
     else Move [] 475)"

definition ur_state_479 :: "int \<Rightarrow> ur_jump" where
  "ur_state_479 c =
    (if c = 33 then Move [] 470
     else if c = 35 then ur_tr_485
     else if c = 37 then Move [] 36
     else if c = 46 then Move [] 476
     else if c = 47 then ur_tr_486
     else if c = 53 then Move [] 480
     else if c = 58 then ur_tr_487
     else if c = 59 then Move [] 470
     else if c = 61 then Move [] 470
     else if c = 63 then ur_tr_488
     else if c = 95 then Move [] 470
     else if c = 126 then Move [] 470
     else if c < 48 then (if 36 \<le> c \<and> c \<le> 45 then Move [] 470
      else Reject)
     else if c > 57 then (if c > 90 then (if 97 \<le> c \<and> c \<le> 122 then Move [] 470
       else Reject)
      else if c \<ge> 65 then Move [] 470
      else Reject)
     else Move [] 475)"

definition ur_state_480 :: "int \<Rightarrow> ur_jump" where
  "ur_state_480 c =
    (if c = 33 then Move [] 470
     else if c = 35 then ur_tr_485
     else if c = 37 then Move [] 36
     else if c = 46 then Move [] 476
     else if c = 47 then ur_tr_486
     else if c = 58 then ur_tr_487
     else if c = 61 then Move [] 470
     else if c = 63 then ur_tr_488
     else if c = 95 then Move [] 470
     else if c = 126 then Move [] 470
     else if c < 54 then (if c > 45 then (if 48 \<le> c \<and> c \<le> 53 then Move [] 475
       else Reject)
      else if c \<ge> 36 then Move [] 470
      else Reject)
     else if c > 59 then (if c > 90 then (if 97 \<le> c \<and> c \<le> 122 then Move [] 470
       else Reject)
      else if c \<ge> 65 then Move [] 470
      else Reject)
     else Move [] 470)"

definition ur_state_481 :: "int \<Rightarrow> ur_jump" where
  "ur_state_481 c =
    (if c = 33 then Move [] 470
     else if c = 35 then ur_tr_485
     else if c = 37 then Move [] 36
     else if c = 46 then Move [] 474
     else if c = 47 then ur_tr_486
     else if c = 58 then ur_tr_487
     else if c = 59 then Move [] 470
     else if c = 61 then Move [] 470
     else if c = 63 then ur_tr_488
     else if c = 95 then Move [] 470
     else if c = 126 then Move [] 470
     else if c < 48 then (if 36 \<le> c \<and> c \<le> 45 then Move [] 470
      else Reject)
     else if c > 57 then (if c > 90 then (if 97 \<le> c \<and> c \<le> 122 then Move [] 470
       else Reject)
      else if c \<ge> 65 then Move [] 470
      else Reject)
     else Move [] 482)"

definition ur_state_482 :: "int \<Rightarrow> ur_jump" where
  "ur_state_482 c =
    (if c = 33 then Move [] 470
     else if c = 35 then ur_tr_485
     else if c = 37 then Move [] 36
     else if c = 46 then Move [] 474
     else if c = 47 then ur_tr_486
     else if c = 58 then ur_tr_487
     else if c = 59 then Move [] 470
     else if c = 61 then Move [] 470
     else if c = 63 then ur_tr_488
     else if c = 95 then Move [] 470
     else if c = 126 then Move [] 470
     else if c < 48 then (if 36 \<le> c \<and> c \<le> 45 then Move [] 470
      else Reject)
     else if c > 57 then (if c > 90 then (if 97 \<le> c \<and> c \<le> 122 then Move [] 470
       else Reject)
      else if c \<ge> 65 then Move [] 470
      else Reject)
     else Move [] 473)"

definition ur_state_483 :: "int \<Rightarrow> ur_jump" where
  "ur_state_483 c =
    (if c = 33 then Move [] 470
     else if c = 35 then ur_tr_485
     else if c = 37 then Move [] 36
     else if c = 46 then Move [] 474
     else if c = 47 then ur_tr_486
     else if c = 53 then Move [] 484
     else if c = 58 then ur_tr_487
     else if c = 59 then Move [] 470
     else if c = 61 then Move [] 470
     else if c = 63 then ur_tr_488
     else if c = 95 then Move [] 470
     else if c = 126 then Move [] 470
     else if c < 48 then (if 36 \<le> c \<and> c \<le> 45 then Move [] 470
      else Reject)
     else if c > 57 then (if c > 90 then (if 97 \<le> c \<and> c \<le> 122 then Move [] 470
       else Reject)
      else if c \<ge> 65 then Move [] 470
      else Reject)
     else Move [] 473)"

definition ur_state_484 :: "int \<Rightarrow> ur_jump" where
  "ur_state_484 c =
    (if c = 33 then Move [] 470
     else if c = 35 then ur_tr_485
     else if c = 37 then Move [] 36
     else if c = 46 then Move [] 474
     else if c = 47 then ur_tr_486
     else if c = 58 then ur_tr_487
     else if c = 61 then Move [] 470
     else if c = 63 then ur_tr_488
     else if c = 95 then Move [] 470
     else if c = 126 then Move [] 470
     else if c < 54 then (if c > 45 then (if 48 \<le> c \<and> c \<le> 53 then Move [] 473
       else Reject)
      else if c \<ge> 36 then Move [] 470
      else Reject)
     else if c > 59 then (if c > 90 then (if 97 \<le> c \<and> c \<le> 122 then Move [] 470
       else Reject)
      else if c \<ge> 65 then Move [] 470
      else Reject)
     else Move [] 470)"

definition ur_state_485 :: "int \<Rightarrow> ur_jump" where
  "ur_state_485 c =
    (if c = 33 then Move [] 470
     else if c = 35 then ur_tr_485
     else if c = 37 then Move [] 36
     else if c = 46 then Move [] 472
     else if c = 47 then ur_tr_486
     else if c = 58 then ur_tr_487
     else if c = 59 then Move [] 470
     else if c = 61 then Move [] 470
     else if c = 63 then ur_tr_488
     else if c = 95 then Move [] 470
     else if c = 126 then Move [] 470
     else if c < 48 then (if 36 \<le> c \<and> c \<le> 45 then Move [] 470
      else Reject)
     else if c > 57 then (if c > 90 then (if 97 \<le> c \<and> c \<le> 122 then Move [] 470
       else Reject)
      else if c \<ge> 65 then Move [] 470
      else Reject)
     else Move [] 486)"

definition ur_state_486 :: "int \<Rightarrow> ur_jump" where
  "ur_state_486 c =
    (if c = 33 then Move [] 470
     else if c = 35 then ur_tr_485
     else if c = 37 then Move [] 36
     else if c = 46 then Move [] 472
     else if c = 47 then ur_tr_486
     else if c = 58 then ur_tr_487
     else if c = 59 then Move [] 470
     else if c = 61 then Move [] 470
     else if c = 63 then ur_tr_488
     else if c = 95 then Move [] 470
     else if c = 126 then Move [] 470
     else if c < 48 then (if 36 \<le> c \<and> c \<le> 45 then Move [] 470
      else Reject)
     else if c > 57 then (if c > 90 then (if 97 \<le> c \<and> c \<le> 122 then Move [] 470
       else Reject)
      else if c \<ge> 65 then Move [] 470
      else Reject)
     else Move [] 471)"

definition ur_state_487 :: "int \<Rightarrow> ur_jump" where
  "ur_state_487 c =
    (if c = 33 then Move [] 470
     else if c = 35 then ur_tr_485
     else if c = 37 then Move [] 36
     else if c = 46 then Move [] 472
     else if c = 47 then ur_tr_486
     else if c = 53 then Move [] 488
     else if c = 58 then ur_tr_487
     else if c = 59 then Move [] 470
     else if c = 61 then Move [] 470
     else if c = 63 then ur_tr_488
     else if c = 95 then Move [] 470
     else if c = 126 then Move [] 470
     else if c < 48 then (if 36 \<le> c \<and> c \<le> 45 then Move [] 470
      else Reject)
     else if c > 57 then (if c > 90 then (if 97 \<le> c \<and> c \<le> 122 then Move [] 470
       else Reject)
      else if c \<ge> 65 then Move [] 470
      else Reject)
     else Move [] 471)"

definition ur_state_488 :: "int \<Rightarrow> ur_jump" where
  "ur_state_488 c =
    (if c = 33 then Move [] 470
     else if c = 35 then ur_tr_485
     else if c = 37 then Move [] 36
     else if c = 46 then Move [] 472
     else if c = 47 then ur_tr_486
     else if c = 58 then ur_tr_487
     else if c = 61 then Move [] 470
     else if c = 63 then ur_tr_488
     else if c = 95 then Move [] 470
     else if c = 126 then Move [] 470
     else if c < 54 then (if c > 45 then (if 48 \<le> c \<and> c \<le> 53 then Move [] 471
       else Reject)
      else if c \<ge> 36 then Move [] 470
      else Reject)
     else if c > 59 then (if c > 90 then (if 97 \<le> c \<and> c \<le> 122 then Move [] 470
       else Reject)
      else if c \<ge> 65 then Move [] 470
      else Reject)
     else Move [] 470)"

definition ur_state_489 :: "int \<Rightarrow> ur_jump" where
  "ur_state_489 c =
    (if c = 33 then Move [] 33
     else if c = 35 then ur_tr_493
     else if c = 37 then Move [] 34
     else if c = 47 then ur_tr_494
     else if c = 61 then Move [] 33
     else if c = 63 then ur_tr_496
     else if c = 64 then ur_tr_38
     else if c = 95 then Move [] 33
     else if c = 126 then Move [] 33
     else if c < 58 then (if c > 46 then (if 48 \<le> c \<and> c \<le> 57 then Move [] 489
       else Reject)
      else if c \<ge> 36 then Move [] 33
      else Reject)
     else if c > 59 then (if c > 90 then (if 97 \<le> c \<and> c \<le> 122 then Move [] 33
       else Reject)
      else if c \<ge> 65 then Move [] 33
      else Reject)
     else Move [] 33)"

definition ur_state_490 :: "int \<Rightarrow> ur_jump" where
  "ur_state_490 c =
    (if c = 33 then Move [] 467
     else if c = 35 then ur_tr_485
     else if c = 37 then Move [] 31
     else if c = 46 then Move [] 491
     else if c = 47 then ur_tr_486
     else if c = 58 then ur_tr_499
     else if c = 61 then Move [] 467
     else if c = 63 then ur_tr_488
     else if c = 64 then ur_tr_38
     else if c = 95 then Move [] 467
     else if c = 126 then Move [] 467
     else if c < 65 then (if 36 \<le> c \<and> c \<le> 59 then Move [] 467
      else Reject)
     else if c > 90 then (if 97 \<le> c \<and> c \<le> 122 then Move [] 467
      else Reject)
     else Move [] 467)"

definition ur_state_491 :: "int \<Rightarrow> ur_jump" where
  "ur_state_491 c =
    (if c = 2 then Move [] 13
     else if c = 33 then Move [] 467
     else if c = 35 then ur_tr_485
     else if c = 37 then Move [] 31
     else if c = 47 then ur_tr_486
     else if c = 48 then Move [] 492
     else if c = 49 then Move [] 500
     else if c = 50 then Move [] 502
     else if c = 58 then ur_tr_499
     else if c = 59 then Move [] 467
     else if c = 61 then Move [] 467
     else if c = 63 then ur_tr_488
     else if c = 64 then ur_tr_38
     else if c = 95 then Move [] 467
     else if c = 126 then Move [] 467
     else if c < 51 then (if 36 \<le> c \<and> c \<le> 46 then Move [] 467
      else Reject)
     else if c > 57 then (if c > 90 then (if 97 \<le> c \<and> c \<le> 122 then Move [] 467
       else Reject)
      else if c \<ge> 65 then Move [] 467
      else Reject)
     else Move [] 501)"

definition ur_state_492 :: "int \<Rightarrow> ur_jump" where
  "ur_state_492 c =
    (if c = 33 then Move [] 467
     else if c = 35 then ur_tr_485
     else if c = 37 then Move [] 31
     else if c = 46 then Move [] 493
     else if c = 47 then ur_tr_486
     else if c = 58 then ur_tr_499
     else if c = 61 then Move [] 467
     else if c = 63 then ur_tr_488
     else if c = 64 then ur_tr_38
     else if c = 95 then Move [] 467
     else if c = 126 then Move [] 467
     else if c < 65 then (if 36 \<le> c \<and> c \<le> 59 then Move [] 467
      else Reject)
     else if c > 90 then (if 97 \<le> c \<and> c \<le> 122 then Move [] 467
      else Reject)
     else Move [] 467)"

definition ur_state_493 :: "int \<Rightarrow> ur_jump" where
  "ur_state_493 c =
    (if c = 2 then Move [] 17
     else if c = 33 then Move [] 467
     else if c = 35 then ur_tr_485
     else if c = 37 then Move [] 31
     else if c = 47 then ur_tr_486
     else if c = 48 then Move [] 494
     else if c = 49 then Move [] 496
     else if c = 50 then Move [] 498
     else if c = 58 then ur_tr_499
     else if c = 59 then Move [] 467
     else if c = 61 then Move [] 467
     else if c = 63 then ur_tr_488
     else if c = 64 then ur_tr_38
     else if c = 95 then Move [] 467
     else if c = 126 then Move [] 467
     else if c < 51 then (if 36 \<le> c \<and> c \<le> 46 then Move [] 467
      else Reject)
     else if c > 57 then (if c > 90 then (if 97 \<le> c \<and> c \<le> 122 then Move [] 467
       else Reject)
      else if c \<ge> 65 then Move [] 467
      else Reject)
     else Move [] 497)"

definition ur_state_494 :: "int \<Rightarrow> ur_jump" where
  "ur_state_494 c =
    (if c = 33 then Move [] 467
     else if c = 35 then ur_tr_485
     else if c = 37 then Move [] 31
     else if c = 46 then Move [] 495
     else if c = 47 then ur_tr_486
     else if c = 58 then ur_tr_499
     else if c = 61 then Move [] 467
     else if c = 63 then ur_tr_488
     else if c = 64 then ur_tr_38
     else if c = 95 then Move [] 467
     else if c = 126 then Move [] 467
     else if c < 65 then (if 36 \<le> c \<and> c \<le> 59 then Move [] 467
      else Reject)
     else if c > 90 then (if 97 \<le> c \<and> c \<le> 122 then Move [] 467
      else Reject)
     else Move [] 467)"

definition ur_state_495 :: "int \<Rightarrow> ur_jump" where
  "ur_state_495 c =
    (if c = 2 then Move [] 21
     else if c = 33 then Move [] 467
     else if c = 35 then ur_tr_485
     else if c = 37 then Move [] 31
     else if c = 47 then ur_tr_486
     else if c = 58 then ur_tr_499
     else if c = 61 then Move [] 467
     else if c = 63 then ur_tr_488
     else if c = 64 then ur_tr_38
     else if c = 95 then Move [] 467
     else if c = 126 then Move [] 467
     else if c < 65 then (if 36 \<le> c \<and> c \<le> 59 then Move [] 467
      else Reject)
     else if c > 90 then (if 97 \<le> c \<and> c \<le> 122 then Move [] 467
      else Reject)
     else Move [] 467)"

definition ur_state_496 :: "int \<Rightarrow> ur_jump" where
  "ur_state_496 c =
    (if c = 33 then Move [] 467
     else if c = 35 then ur_tr_485
     else if c = 37 then Move [] 31
     else if c = 46 then Move [] 495
     else if c = 47 then ur_tr_486
     else if c = 58 then ur_tr_499
     else if c = 59 then Move [] 467
     else if c = 61 then Move [] 467
     else if c = 63 then ur_tr_488
     else if c = 64 then ur_tr_38
     else if c = 95 then Move [] 467
     else if c = 126 then Move [] 467
     else if c < 48 then (if 36 \<le> c \<and> c \<le> 45 then Move [] 467
      else Reject)
     else if c > 57 then (if c > 90 then (if 97 \<le> c \<and> c \<le> 122 then Move [] 467
       else Reject)
      else if c \<ge> 65 then Move [] 467
      else Reject)
     else Move [] 497)"

definition ur_state_497 :: "int \<Rightarrow> ur_jump" where
  "ur_state_497 c =
    (if c = 33 then Move [] 467
     else if c = 35 then ur_tr_485
     else if c = 37 then Move [] 31
     else if c = 46 then Move [] 495
     else if c = 47 then ur_tr_486
     else if c = 58 then ur_tr_499
     else if c = 59 then Move [] 467
     else if c = 61 then Move [] 467
     else if c = 63 then ur_tr_488
     else if c = 64 then ur_tr_38
     else if c = 95 then Move [] 467
     else if c = 126 then Move [] 467
     else if c < 48 then (if 36 \<le> c \<and> c \<le> 45 then Move [] 467
      else Reject)
     else if c > 57 then (if c > 90 then (if 97 \<le> c \<and> c \<le> 122 then Move [] 467
       else Reject)
      else if c \<ge> 65 then Move [] 467
      else Reject)
     else Move [] 494)"

definition ur_state_498 :: "int \<Rightarrow> ur_jump" where
  "ur_state_498 c =
    (if c = 33 then Move [] 467
     else if c = 35 then ur_tr_485
     else if c = 37 then Move [] 31
     else if c = 46 then Move [] 495
     else if c = 47 then ur_tr_486
     else if c = 53 then Move [] 499
     else if c = 58 then ur_tr_499
     else if c = 59 then Move [] 467
     else if c = 61 then Move [] 467
     else if c = 63 then ur_tr_488
     else if c = 64 then ur_tr_38
     else if c = 95 then Move [] 467
     else if c = 126 then Move [] 467
     else if c < 48 then (if 36 \<le> c \<and> c \<le> 45 then Move [] 467
      else Reject)
     else if c > 57 then (if c > 90 then (if 97 \<le> c \<and> c \<le> 122 then Move [] 467
       else Reject)
      else if c \<ge> 65 then Move [] 467
      else Reject)
     else Move [] 494)"

definition ur_state_499 :: "int \<Rightarrow> ur_jump" where
  "ur_state_499 c =
    (if c = 33 then Move [] 467
     else if c = 35 then ur_tr_485
     else if c = 37 then Move [] 31
     else if c = 46 then Move [] 495
     else if c = 47 then ur_tr_486
     else if c = 58 then ur_tr_499
     else if c = 61 then Move [] 467
     else if c = 63 then ur_tr_488
     else if c = 64 then ur_tr_38
     else if c = 95 then Move [] 467
     else if c = 126 then Move [] 467
     else if c < 54 then (if c > 45 then (if 48 \<le> c \<and> c \<le> 53 then Move [] 494
       else Reject)
      else if c \<ge> 36 then Move [] 467
      else Reject)
     else if c > 59 then (if c > 90 then (if 97 \<le> c \<and> c \<le> 122 then Move [] 467
       else Reject)
      else if c \<ge> 65 then Move [] 467
      else Reject)
     else Move [] 467)"

definition ur_state_500 :: "int \<Rightarrow> ur_jump" where
  "ur_state_500 c =
    (if c = 33 then Move [] 467
     else if c = 35 then ur_tr_485
     else if c = 37 then Move [] 31
     else if c = 46 then Move [] 493
     else if c = 47 then ur_tr_486
     else if c = 58 then ur_tr_499
     else if c = 59 then Move [] 467
     else if c = 61 then Move [] 467
     else if c = 63 then ur_tr_488
     else if c = 64 then ur_tr_38
     else if c = 95 then Move [] 467
     else if c = 126 then Move [] 467
     else if c < 48 then (if 36 \<le> c \<and> c \<le> 45 then Move [] 467
      else Reject)
     else if c > 57 then (if c > 90 then (if 97 \<le> c \<and> c \<le> 122 then Move [] 467
       else Reject)
      else if c \<ge> 65 then Move [] 467
      else Reject)
     else Move [] 501)"

definition ur_state_501 :: "int \<Rightarrow> ur_jump" where
  "ur_state_501 c =
    (if c = 33 then Move [] 467
     else if c = 35 then ur_tr_485
     else if c = 37 then Move [] 31
     else if c = 46 then Move [] 493
     else if c = 47 then ur_tr_486
     else if c = 58 then ur_tr_499
     else if c = 59 then Move [] 467
     else if c = 61 then Move [] 467
     else if c = 63 then ur_tr_488
     else if c = 64 then ur_tr_38
     else if c = 95 then Move [] 467
     else if c = 126 then Move [] 467
     else if c < 48 then (if 36 \<le> c \<and> c \<le> 45 then Move [] 467
      else Reject)
     else if c > 57 then (if c > 90 then (if 97 \<le> c \<and> c \<le> 122 then Move [] 467
       else Reject)
      else if c \<ge> 65 then Move [] 467
      else Reject)
     else Move [] 492)"

definition ur_state_502 :: "int \<Rightarrow> ur_jump" where
  "ur_state_502 c =
    (if c = 33 then Move [] 467
     else if c = 35 then ur_tr_485
     else if c = 37 then Move [] 31
     else if c = 46 then Move [] 493
     else if c = 47 then ur_tr_486
     else if c = 53 then Move [] 503
     else if c = 58 then ur_tr_499
     else if c = 59 then Move [] 467
     else if c = 61 then Move [] 467
     else if c = 63 then ur_tr_488
     else if c = 64 then ur_tr_38
     else if c = 95 then Move [] 467
     else if c = 126 then Move [] 467
     else if c < 48 then (if 36 \<le> c \<and> c \<le> 45 then Move [] 467
      else Reject)
     else if c > 57 then (if c > 90 then (if 97 \<le> c \<and> c \<le> 122 then Move [] 467
       else Reject)
      else if c \<ge> 65 then Move [] 467
      else Reject)
     else Move [] 492)"

definition ur_state_503 :: "int \<Rightarrow> ur_jump" where
  "ur_state_503 c =
    (if c = 33 then Move [] 467
     else if c = 35 then ur_tr_485
     else if c = 37 then Move [] 31
     else if c = 46 then Move [] 493
     else if c = 47 then ur_tr_486
     else if c = 58 then ur_tr_499
     else if c = 61 then Move [] 467
     else if c = 63 then ur_tr_488
     else if c = 64 then ur_tr_38
     else if c = 95 then Move [] 467
     else if c = 126 then Move [] 467
     else if c < 54 then (if c > 45 then (if 48 \<le> c \<and> c \<le> 53 then Move [] 492
       else Reject)
      else if c \<ge> 36 then Move [] 467
      else Reject)
     else if c > 59 then (if c > 90 then (if 97 \<le> c \<and> c \<le> 122 then Move [] 467
       else Reject)
      else if c \<ge> 65 then Move [] 467
      else Reject)
     else Move [] 467)"

definition ur_state_504 :: "int \<Rightarrow> ur_jump" where
  "ur_state_504 c =
    (if c = 33 then Move [] 467
     else if c = 35 then ur_tr_485
     else if c = 37 then Move [] 31
     else if c = 46 then Move [] 491
     else if c = 47 then ur_tr_486
     else if c = 58 then ur_tr_499
     else if c = 59 then Move [] 467
     else if c = 61 then Move [] 467
     else if c = 63 then ur_tr_488
     else if c = 64 then ur_tr_38
     else if c = 95 then Move [] 467
     else if c = 126 then Move [] 467
     else if c < 48 then (if 36 \<le> c \<and> c \<le> 45 then Move [] 467
      else Reject)
     else if c > 57 then (if c > 90 then (if 97 \<le> c \<and> c \<le> 122 then Move [] 467
       else Reject)
      else if c \<ge> 65 then Move [] 467
      else Reject)
     else Move [] 505)"

definition ur_state_505 :: "int \<Rightarrow> ur_jump" where
  "ur_state_505 c =
    (if c = 33 then Move [] 467
     else if c = 35 then ur_tr_485
     else if c = 37 then Move [] 31
     else if c = 46 then Move [] 491
     else if c = 47 then ur_tr_486
     else if c = 58 then ur_tr_499
     else if c = 59 then Move [] 467
     else if c = 61 then Move [] 467
     else if c = 63 then ur_tr_488
     else if c = 64 then ur_tr_38
     else if c = 95 then Move [] 467
     else if c = 126 then Move [] 467
     else if c < 48 then (if 36 \<le> c \<and> c \<le> 45 then Move [] 467
      else Reject)
     else if c > 57 then (if c > 90 then (if 97 \<le> c \<and> c \<le> 122 then Move [] 467
       else Reject)
      else if c \<ge> 65 then Move [] 467
      else Reject)
     else Move [] 490)"

definition ur_state_506 :: "int \<Rightarrow> ur_jump" where
  "ur_state_506 c =
    (if c = 33 then Move [] 467
     else if c = 35 then ur_tr_485
     else if c = 37 then Move [] 31
     else if c = 46 then Move [] 491
     else if c = 47 then ur_tr_486
     else if c = 53 then Move [] 507
     else if c = 58 then ur_tr_499
     else if c = 59 then Move [] 467
     else if c = 61 then Move [] 467
     else if c = 63 then ur_tr_488
     else if c = 64 then ur_tr_38
     else if c = 95 then Move [] 467
     else if c = 126 then Move [] 467
     else if c < 48 then (if 36 \<le> c \<and> c \<le> 45 then Move [] 467
      else Reject)
     else if c > 57 then (if c > 90 then (if 97 \<le> c \<and> c \<le> 122 then Move [] 467
       else Reject)
      else if c \<ge> 65 then Move [] 467
      else Reject)
     else Move [] 490)"

definition ur_state_507 :: "int \<Rightarrow> ur_jump" where
  "ur_state_507 c =
    (if c = 33 then Move [] 467
     else if c = 35 then ur_tr_485
     else if c = 37 then Move [] 31
     else if c = 46 then Move [] 491
     else if c = 47 then ur_tr_486
     else if c = 58 then ur_tr_499
     else if c = 61 then Move [] 467
     else if c = 63 then ur_tr_488
     else if c = 64 then ur_tr_38
     else if c = 95 then Move [] 467
     else if c = 126 then Move [] 467
     else if c < 54 then (if c > 45 then (if 48 \<le> c \<and> c \<le> 53 then Move [] 490
       else Reject)
      else if c \<ge> 36 then Move [] 467
      else Reject)
     else if c > 59 then (if c > 90 then (if 97 \<le> c \<and> c \<le> 122 then Move [] 467
       else Reject)
      else if c \<ge> 65 then Move [] 467
      else Reject)
     else Move [] 467)"

definition ur_state_508 :: "int \<Rightarrow> ur_jump" where
  "ur_state_508 c =
    (if c = 34 then Reject
     else if c = 35 then Move [] 453
     else if c = 37 then Move [] 3
     else if c = 43 then Move [] 508
     else if c = 47 then Move [] 455
     else if c = 58 then ur_tr_543
     else if c = 60 then Reject
     else if c = 62 then Reject
     else if c = 63 then Move [] 456
     else if c = 96 then Reject
     else if c = 127 then Reject
     else if c < 65 then (if c > 32 then (if 45 \<le> c \<and> c \<le> 57 then Move [] 508
       else Move [] 452)
      else if c \<ge> 0 then Reject
      else Move [] 452)
     else if c > 90 then (if c < 97 then (if 91 \<le> c \<and> c \<le> 94 then Reject
       else Move [] 452)
      else if c > 122 then (if 123 \<le> c \<and> c \<le> 125 then Reject
       else Move [] 452)
      else Move [] 508)
     else Move [] 508)"

definition ur_state_509 :: "int \<Rightarrow> ur_jump" where
  "ur_state_509 c =
    (if c = 34 then Reject
     else if c = 35 then Move [] 453
     else if c = 37 then Move [] 5
     else if c = 47 then Move [] 510
     else if c = 60 then Reject
     else if c = 62 then Reject
     else if c = 63 then Move [] 456
     else if c = 96 then Reject
     else if c = 127 then Reject
     else if c < 91 then (if 0 \<le> c \<and> c \<le> 32 then Reject
      else Move [] 455)
     else if c > 94 then (if 123 \<le> c \<and> c \<le> 125 then Reject
      else Move [] 455)
     else Reject)"

definition ur_state_510 :: "int \<Rightarrow> ur_jump" where
  "ur_state_510 c =
    (if c = 34 then Reject
     else if c = 35 then Move [] 453
     else if c = 37 then Move [] 5
     else if c = 47 then Move [] 511
     else if c = 60 then Reject
     else if c = 62 then Reject
     else if c = 63 then Move [] 456
     else if c = 96 then Reject
     else if c = 127 then Reject
     else if c < 91 then (if 0 \<le> c \<and> c \<le> 32 then Reject
      else Move [] 455)
     else if c > 94 then (if 123 \<le> c \<and> c \<le> 125 then Reject
      else Move [] 455)
     else Reject)"

definition ur_state_511 :: "int \<Rightarrow> ur_jump" where
  "ur_state_511 c =
    (if c = 2 then ur_tr_546
     else if c = 33 then ur_tr_547
     else if c = 35 then ur_tr_548
     else if c = 37 then ur_tr_549
     else if c = 47 then ur_tr_550
     else if c = 48 then ur_tr_551
     else if c = 49 then ur_tr_552
     else if c = 50 then ur_tr_553
     else if c = 58 then ur_tr_555
     else if c = 59 then ur_tr_547
     else if c = 61 then ur_tr_547
     else if c = 63 then ur_tr_556
     else if c = 64 then ur_tr_557
     else if c = 91 then ur_tr_558
     else if c = 95 then ur_tr_547
     else if c = 126 then ur_tr_547
     else if c < 51 then (if 36 \<le> c \<and> c \<le> 46 then ur_tr_547
      else Reject)
     else if c > 57 then (if c > 90 then (if 97 \<le> c \<and> c \<le> 122 then ur_tr_547
       else Reject)
      else if c \<ge> 65 then ur_tr_547
      else Reject)
     else ur_tr_554)"

definition ur_state_512 :: "int \<Rightarrow> ur_jump" where
  "ur_state_512 c =
    (if c = 35 then ur_tr_559
     else if c = 47 then ur_tr_560
     else if c = 58 then ur_tr_561
     else if c = 63 then ur_tr_562
     else Reject)"

definition ur_state_513 :: "int \<Rightarrow> ur_jump" where
  "ur_state_513 c =
    (if c = 34 then Reject
     else if c = 35 then ur_tr_563
     else if c = 37 then Move [] 243
     else if c = 60 then Reject
     else if c = 62 then Reject
     else if c = 63 then ur_tr_565
     else if c = 96 then Reject
     else if c = 127 then Reject
     else if c < 91 then (if 0 \<le> c \<and> c \<le> 32 then Reject
      else Move [] 513)
     else if c > 94 then (if 123 \<le> c \<and> c \<le> 125 then Reject
      else Move [] 513)
     else Reject)"

definition ur_state_514 :: "int \<Rightarrow> ur_jump" where
  "ur_state_514 c =
    (if c = 35 then ur_tr_566
     else if c = 47 then ur_tr_567
     else if c = 63 then ur_tr_569
     else if 48 \<le> c \<and> c \<le> 57 then ur_tr_568
     else Reject)"

definition ur_state_515 :: "int \<Rightarrow> ur_jump" where
  "ur_state_515 c =
    (if c = 35 then ur_tr_570
     else if c = 47 then ur_tr_571
     else if c = 63 then ur_tr_573
     else if 48 \<le> c \<and> c \<le> 57 then Move [] 515
     else Reject)"

definition ur_state_516 :: "int \<Rightarrow> ur_jump" where
  "ur_state_516 c =
    (if c = 35 then ur_tr_559
     else if c = 47 then ur_tr_560
     else if c = 58 then ur_tr_561
     else if c = 63 then ur_tr_562
     else if 48 \<le> c \<and> c \<le> 57 then Move [] 517
     else Reject)"

definition ur_state_517 :: "int \<Rightarrow> ur_jump" where
  "ur_state_517 c =
    (if c = 35 then ur_tr_559
     else if c = 47 then ur_tr_560
     else if c = 58 then ur_tr_561
     else if c = 63 then ur_tr_562
     else if 48 \<le> c \<and> c \<le> 57 then Move [] 512
     else Reject)"

definition ur_state_518 :: "int \<Rightarrow> ur_jump" where
  "ur_state_518 c =
    (if c = 35 then ur_tr_559
     else if c = 47 then ur_tr_560
     else if c = 53 then Move [] 519
     else if c = 58 then ur_tr_561
     else if c = 63 then ur_tr_562
     else if 48 \<le> c \<and> c \<le> 57 then Move [] 512
     else Reject)"

definition ur_state_519 :: "int \<Rightarrow> ur_jump" where
  "ur_state_519 c =
    (if c = 35 then ur_tr_559
     else if c = 47 then ur_tr_560
     else if c = 58 then ur_tr_561
     else if c = 63 then ur_tr_562
     else if 48 \<le> c \<and> c \<le> 53 then Move [] 512
     else Reject)"

definition ur_state_520 :: "int \<Rightarrow> ur_jump" where
  "ur_state_520 c =
    (if c = 33 then Move [] 520
     else if c = 35 then ur_tr_559
     else if c = 37 then Move [] 253
     else if c = 47 then ur_tr_560
     else if c = 58 then ur_tr_576
     else if c = 61 then Move [] 520
     else if c = 63 then ur_tr_562
     else if c = 64 then ur_tr_263
     else if c = 95 then Move [] 520
     else if c = 126 then Move [] 520
     else if c < 65 then (if 36 \<le> c \<and> c \<le> 59 then Move [] 520
      else Reject)
     else if c > 90 then (if 97 \<le> c \<and> c \<le> 122 then Move [] 520
      else Reject)
     else Move [] 520)"

definition ur_state_521 :: "int \<Rightarrow> ur_jump" where
  "ur_state_521 c =
    (if c = 33 then Move [] 255
     else if c = 35 then ur_tr_566
     else if c = 37 then Move [] 256
     else if c = 47 then ur_tr_567
     else if c = 61 then Move [] 255
     else if c = 63 then ur_tr_569
     else if c = 64 then ur_tr_263
     else if c = 95 then Move [] 255
     else if c = 126 then Move [] 255
     else if c < 58 then (if c > 46 then (if 48 \<le> c \<and> c \<le> 57 then ur_tr_577
       else Reject)
      else if c \<ge> 36 then Move [] 255
      else Reject)
     else if c > 59 then (if c > 90 then (if 97 \<le> c \<and> c \<le> 122 then Move [] 255
       else Reject)
      else if c \<ge> 65 then Move [] 255
      else Reject)
     else Move [] 255)"

definition ur_state_522 :: "int \<Rightarrow> ur_jump" where
  "ur_state_522 c =
    (if c = 2 then ur_tr_546
     else if c = 33 then ur_tr_578
     else if c = 35 then ur_tr_548
     else if c = 37 then ur_tr_579
     else if c = 47 then ur_tr_550
     else if c = 48 then ur_tr_580
     else if c = 49 then ur_tr_581
     else if c = 50 then ur_tr_582
     else if c = 58 then ur_tr_584
     else if c = 59 then ur_tr_578
     else if c = 61 then ur_tr_578
     else if c = 63 then ur_tr_556
     else if c = 91 then ur_tr_558
     else if c = 95 then ur_tr_578
     else if c = 126 then ur_tr_578
     else if c < 51 then (if 36 \<le> c \<and> c \<le> 46 then ur_tr_578
      else Reject)
     else if c > 57 then (if c > 90 then (if 97 \<le> c \<and> c \<le> 122 then ur_tr_578
       else Reject)
      else if c \<ge> 65 then ur_tr_578
      else Reject)
     else ur_tr_583)"

definition ur_state_523 :: "int \<Rightarrow> ur_jump" where
  "ur_state_523 c =
    (if c = 33 then Move [] 523
     else if c = 35 then ur_tr_559
     else if c = 37 then Move [] 258
     else if c = 47 then ur_tr_560
     else if c = 58 then ur_tr_561
     else if c = 61 then Move [] 523
     else if c = 63 then ur_tr_562
     else if c = 95 then Move [] 523
     else if c = 126 then Move [] 523
     else if c < 65 then (if 36 \<le> c \<and> c \<le> 59 then Move [] 523
      else Reject)
     else if c > 90 then (if 97 \<le> c \<and> c \<le> 122 then Move [] 523
      else Reject)
     else Move [] 523)"

definition ur_state_524 :: "int \<Rightarrow> ur_jump" where
  "ur_state_524 c =
    (if c = 33 then Move [] 523
     else if c = 35 then ur_tr_559
     else if c = 37 then Move [] 258
     else if c = 46 then Move [] 525
     else if c = 47 then ur_tr_560
     else if c = 58 then ur_tr_561
     else if c = 61 then Move [] 523
     else if c = 63 then ur_tr_562
     else if c = 95 then Move [] 523
     else if c = 126 then Move [] 523
     else if c < 65 then (if 36 \<le> c \<and> c \<le> 59 then Move [] 523
      else Reject)
     else if c > 90 then (if 97 \<le> c \<and> c \<le> 122 then Move [] 523
      else Reject)
     else Move [] 523)"

definition ur_state_525 :: "int \<Rightarrow> ur_jump" where
  "ur_state_525 c =
    (if c = 2 then Move [] 233
     else if c = 33 then Move [] 523
     else if c = 35 then ur_tr_559
     else if c = 37 then Move [] 258
     else if c = 47 then ur_tr_560
     else if c = 48 then Move [] 526
     else if c = 49 then Move [] 534
     else if c = 50 then Move [] 536
     else if c = 58 then ur_tr_561
     else if c = 59 then Move [] 523
     else if c = 61 then Move [] 523
     else if c = 63 then ur_tr_562
     else if c = 95 then Move [] 523
     else if c = 126 then Move [] 523
     else if c < 51 then (if 36 \<le> c \<and> c \<le> 46 then Move [] 523
      else Reject)
     else if c > 57 then (if c > 90 then (if 97 \<le> c \<and> c \<le> 122 then Move [] 523
       else Reject)
      else if c \<ge> 65 then Move [] 523
      else Reject)
     else Move [] 535)"

definition ur_state_526 :: "int \<Rightarrow> ur_jump" where
  "ur_state_526 c =
    (if c = 33 then Move [] 523
     else if c = 35 then ur_tr_559
     else if c = 37 then Move [] 258
     else if c = 46 then Move [] 527
     else if c = 47 then ur_tr_560
     else if c = 58 then ur_tr_561
     else if c = 61 then Move [] 523
     else if c = 63 then ur_tr_562
     else if c = 95 then Move [] 523
     else if c = 126 then Move [] 523
     else if c < 65 then (if 36 \<le> c \<and> c \<le> 59 then Move [] 523
      else Reject)
     else if c > 90 then (if 97 \<le> c \<and> c \<le> 122 then Move [] 523
      else Reject)
     else Move [] 523)"

definition ur_state_527 :: "int \<Rightarrow> ur_jump" where
  "ur_state_527 c =
    (if c = 2 then Move [] 237
     else if c = 33 then Move [] 523
     else if c = 35 then ur_tr_559
     else if c = 37 then Move [] 258
     else if c = 47 then ur_tr_560
     else if c = 48 then Move [] 528
     else if c = 49 then Move [] 530
     else if c = 50 then Move [] 532
     else if c = 58 then ur_tr_561
     else if c = 59 then Move [] 523
     else if c = 61 then Move [] 523
     else if c = 63 then ur_tr_562
     else if c = 95 then Move [] 523
     else if c = 126 then Move [] 523
     else if c < 51 then (if 36 \<le> c \<and> c \<le> 46 then Move [] 523
      else Reject)
     else if c > 57 then (if c > 90 then (if 97 \<le> c \<and> c \<le> 122 then Move [] 523
       else Reject)
      else if c \<ge> 65 then Move [] 523
      else Reject)
     else Move [] 531)"

definition ur_state_528 :: "int \<Rightarrow> ur_jump" where
  "ur_state_528 c =
    (if c = 33 then Move [] 523
     else if c = 35 then ur_tr_559
     else if c = 37 then Move [] 258
     else if c = 46 then Move [] 529
     else if c = 47 then ur_tr_560
     else if c = 58 then ur_tr_561
     else if c = 61 then Move [] 523
     else if c = 63 then ur_tr_562
     else if c = 95 then Move [] 523
     else if c = 126 then Move [] 523
     else if c < 65 then (if 36 \<le> c \<and> c \<le> 59 then Move [] 523
      else Reject)
     else if c > 90 then (if 97 \<le> c \<and> c \<le> 122 then Move [] 523
      else Reject)
     else Move [] 523)"

definition ur_state_529 :: "int \<Rightarrow> ur_jump" where
  "ur_state_529 c =
    (if c = 2 then Move [] 241
     else if c = 33 then Move [] 523
     else if c = 35 then ur_tr_559
     else if c = 37 then Move [] 258
     else if c = 47 then ur_tr_560
     else if c = 58 then ur_tr_561
     else if c = 61 then Move [] 523
     else if c = 63 then ur_tr_562
     else if c = 95 then Move [] 523
     else if c = 126 then Move [] 523
     else if c < 65 then (if 36 \<le> c \<and> c \<le> 59 then Move [] 523
      else Reject)
     else if c > 90 then (if 97 \<le> c \<and> c \<le> 122 then Move [] 523
      else Reject)
     else Move [] 523)"

definition ur_state_530 :: "int \<Rightarrow> ur_jump" where
  "ur_state_530 c =
    (if c = 33 then Move [] 523
     else if c = 35 then ur_tr_559
     else if c = 37 then Move [] 258
     else if c = 46 then Move [] 529
     else if c = 47 then ur_tr_560
     else if c = 58 then ur_tr_561
     else if c = 59 then Move [] 523
     else if c = 61 then Move [] 523
     else if c = 63 then ur_tr_562
     else if c = 95 then Move [] 523
     else if c = 126 then Move [] 523
     else if c < 48 then (if 36 \<le> c \<and> c \<le> 45 then Move [] 523
      else Reject)
     else if c > 57 then (if c > 90 then (if 97 \<le> c \<and> c \<le> 122 then Move [] 523
       else Reject)
      else if c \<ge> 65 then Move [] 523
      else Reject)
     else Move [] 531)"

definition ur_state_531 :: "int \<Rightarrow> ur_jump" where
  "ur_state_531 c =
    (if c = 33 then Move [] 523
     else if c = 35 then ur_tr_559
     else if c = 37 then Move [] 258
     else if c = 46 then Move [] 529
     else if c = 47 then ur_tr_560
     else if c = 58 then ur_tr_561
     else if c = 59 then Move [] 523
     else if c = 61 then Move [] 523
     else if c = 63 then ur_tr_562
     else if c = 95 then Move [] 523
     else if c = 126 then Move [] 523
     else if c < 48 then (if 36 \<le> c \<and> c \<le> 45 then Move [] 523
      else Reject)
     else if c > 57 then (if c > 90 then (if 97 \<le> c \<and> c \<le> 122 then Move [] 523
       else Reject)
      else if c \<ge> 65 then Move [] 523
      else Reject)
     else Move [] 528)"

definition ur_state_532 :: "int \<Rightarrow> ur_jump" where
  "ur_state_532 c =
    (if c = 33 then Move [] 523
     else if c = 35 then ur_tr_559
     else if c = 37 then Move [] 258
     else if c = 46 then Move [] 529
     else if c = 47 then ur_tr_560
     else if c = 53 then Move [] 533
     else if c = 58 then ur_tr_561
     else if c = 59 then Move [] 523
     else if c = 61 then Move [] 523
     else if c = 63 then ur_tr_562
     else if c = 95 then Move [] 523
     else if c = 126 then Move [] 523
     else if c < 48 then (if 36 \<le> c \<and> c \<le> 45 then Move [] 523
      else Reject)
     else if c > 57 then (if c > 90 then (if 97 \<le> c \<and> c \<le> 122 then Move [] 523
       else Reject)
      else if c \<ge> 65 then Move [] 523
      else Reject)
     else Move [] 528)"

definition ur_state_533 :: "int \<Rightarrow> ur_jump" where
  "ur_state_533 c =
    (if c = 33 then Move [] 523
     else if c = 35 then ur_tr_559
     else if c = 37 then Move [] 258
     else if c = 46 then Move [] 529
     else if c = 47 then ur_tr_560
     else if c = 58 then ur_tr_561
     else if c = 61 then Move [] 523
     else if c = 63 then ur_tr_562
     else if c = 95 then Move [] 523
     else if c = 126 then Move [] 523
     else if c < 54 then (if c > 45 then (if 48 \<le> c \<and> c \<le> 53 then Move [] 528
       else Reject)
      else if c \<ge> 36 then Move [] 523
      else Reject)
     else if c > 59 then (if c > 90 then (if 97 \<le> c \<and> c \<le> 122 then Move [] 523
       else Reject)
      else if c \<ge> 65 then Move [] 523
      else Reject)
     else Move [] 523)"

definition ur_state_534 :: "int \<Rightarrow> ur_jump" where
  "ur_state_534 c =
    (if c = 33 then Move [] 523
     else if c = 35 then ur_tr_559
     else if c = 37 then Move [] 258
     else if c = 46 then Move [] 527
     else if c = 47 then ur_tr_560
     else if c = 58 then ur_tr_561
     else if c = 59 then Move [] 523
     else if c = 61 then Move [] 523
     else if c = 63 then ur_tr_562
     else if c = 95 then Move [] 523
     else if c = 126 then Move [] 523
     else if c < 48 then (if 36 \<le> c \<and> c \<le> 45 then Move [] 523
      else Reject)
     else if c > 57 then (if c > 90 then (if 97 \<le> c \<and> c \<le> 122 then Move [] 523
       else Reject)
      else if c \<ge> 65 then Move [] 523
      else Reject)
     else Move [] 535)"

definition ur_state_535 :: "int \<Rightarrow> ur_jump" where
  "ur_state_535 c =
    (if c = 33 then Move [] 523
     else if c = 35 then ur_tr_559
     else if c = 37 then Move [] 258
     else if c = 46 then Move [] 527
     else if c = 47 then ur_tr_560
     else if c = 58 then ur_tr_561
     else if c = 59 then Move [] 523
     else if c = 61 then Move [] 523
     else if c = 63 then ur_tr_562
     else if c = 95 then Move [] 523
     else if c = 126 then Move [] 523
     else if c < 48 then (if 36 \<le> c \<and> c \<le> 45 then Move [] 523
      else Reject)
     else if c > 57 then (if c > 90 then (if 97 \<le> c \<and> c \<le> 122 then Move [] 523
       else Reject)
      else if c \<ge> 65 then Move [] 523
      else Reject)
     else Move [] 526)"

definition ur_state_536 :: "int \<Rightarrow> ur_jump" where
  "ur_state_536 c =
    (if c = 33 then Move [] 523
     else if c = 35 then ur_tr_559
     else if c = 37 then Move [] 258
     else if c = 46 then Move [] 527
     else if c = 47 then ur_tr_560
     else if c = 53 then Move [] 537
     else if c = 58 then ur_tr_561
     else if c = 59 then Move [] 523
     else if c = 61 then Move [] 523
     else if c = 63 then ur_tr_562
     else if c = 95 then Move [] 523
     else if c = 126 then Move [] 523
     else if c < 48 then (if 36 \<le> c \<and> c \<le> 45 then Move [] 523
      else Reject)
     else if c > 57 then (if c > 90 then (if 97 \<le> c \<and> c \<le> 122 then Move [] 523
       else Reject)
      else if c \<ge> 65 then Move [] 523
      else Reject)
     else Move [] 526)"

definition ur_state_537 :: "int \<Rightarrow> ur_jump" where
  "ur_state_537 c =
    (if c = 33 then Move [] 523
     else if c = 35 then ur_tr_559
     else if c = 37 then Move [] 258
     else if c = 46 then Move [] 527
     else if c = 47 then ur_tr_560
     else if c = 58 then ur_tr_561
     else if c = 61 then Move [] 523
     else if c = 63 then ur_tr_562
     else if c = 95 then Move [] 523
     else if c = 126 then Move [] 523
     else if c < 54 then (if c > 45 then (if 48 \<le> c \<and> c \<le> 53 then Move [] 526
       else Reject)
      else if c \<ge> 36 then Move [] 523
      else Reject)
     else if c > 59 then (if c > 90 then (if 97 \<le> c \<and> c \<le> 122 then Move [] 523
       else Reject)
      else if c \<ge> 65 then Move [] 523
      else Reject)
     else Move [] 523)"

definition ur_state_538 :: "int \<Rightarrow> ur_jump" where
  "ur_state_538 c =
    (if c = 33 then Move [] 523
     else if c = 35 then ur_tr_559
     else if c = 37 then Move [] 258
     else if c = 46 then Move [] 525
     else if c = 47 then ur_tr_560
     else if c = 58 then ur_tr_561
     else if c = 59 then Move [] 523
     else if c = 61 then Move [] 523
     else if c = 63 then ur_tr_562
     else if c = 95 then Move [] 523
     else if c = 126 then Move [] 523
     else if c < 48 then (if 36 \<le> c \<and> c \<le> 45 then Move [] 523
      else Reject)
     else if c > 57 then (if c > 90 then (if 97 \<le> c \<and> c \<le> 122 then Move [] 523
       else Reject)
      else if c \<ge> 65 then Move [] 523
      else Reject)
     else Move [] 539)"

definition ur_state_539 :: "int \<Rightarrow> ur_jump" where
  "ur_state_539 c =
    (if c = 33 then Move [] 523
     else if c = 35 then ur_tr_559
     else if c = 37 then Move [] 258
     else if c = 46 then Move [] 525
     else if c = 47 then ur_tr_560
     else if c = 58 then ur_tr_561
     else if c = 59 then Move [] 523
     else if c = 61 then Move [] 523
     else if c = 63 then ur_tr_562
     else if c = 95 then Move [] 523
     else if c = 126 then Move [] 523
     else if c < 48 then (if 36 \<le> c \<and> c \<le> 45 then Move [] 523
      else Reject)
     else if c > 57 then (if c > 90 then (if 97 \<le> c \<and> c \<le> 122 then Move [] 523
       else Reject)
      else if c \<ge> 65 then Move [] 523
      else Reject)
     else Move [] 524)"

definition ur_state_540 :: "int \<Rightarrow> ur_jump" where
  "ur_state_540 c =
    (if c = 33 then Move [] 523
     else if c = 35 then ur_tr_559
     else if c = 37 then Move [] 258
     else if c = 46 then Move [] 525
     else if c = 47 then ur_tr_560
     else if c = 53 then Move [] 541
     else if c = 58 then ur_tr_561
     else if c = 59 then Move [] 523
     else if c = 61 then Move [] 523
     else if c = 63 then ur_tr_562
     else if c = 95 then Move [] 523
     else if c = 126 then Move [] 523
     else if c < 48 then (if 36 \<le> c \<and> c \<le> 45 then Move [] 523
      else Reject)
     else if c > 57 then (if c > 90 then (if 97 \<le> c \<and> c \<le> 122 then Move [] 523
       else Reject)
      else if c \<ge> 65 then Move [] 523
      else Reject)
     else Move [] 524)"

definition ur_state_541 :: "int \<Rightarrow> ur_jump" where
  "ur_state_541 c =
    (if c = 33 then Move [] 523
     else if c = 35 then ur_tr_559
     else if c = 37 then Move [] 258
     else if c = 46 then Move [] 525
     else if c = 47 then ur_tr_560
     else if c = 58 then ur_tr_561
     else if c = 61 then Move [] 523
     else if c = 63 then ur_tr_562
     else if c = 95 then Move [] 523
     else if c = 126 then Move [] 523
     else if c < 54 then (if c > 45 then (if 48 \<le> c \<and> c \<le> 53 then Move [] 524
       else Reject)
      else if c \<ge> 36 then Move [] 523
      else Reject)
     else if c > 59 then (if c > 90 then (if 97 \<le> c \<and> c \<le> 122 then Move [] 523
       else Reject)
      else if c \<ge> 65 then Move [] 523
      else Reject)
     else Move [] 523)"

definition ur_state_542 :: "int \<Rightarrow> ur_jump" where
  "ur_state_542 c =
    (if c = 33 then Move [] 255
     else if c = 35 then ur_tr_570
     else if c = 37 then Move [] 256
     else if c = 47 then ur_tr_571
     else if c = 61 then Move [] 255
     else if c = 63 then ur_tr_573
     else if c = 64 then ur_tr_263
     else if c = 95 then Move [] 255
     else if c = 126 then Move [] 255
     else if c < 58 then (if c > 46 then (if 48 \<le> c \<and> c \<le> 57 then Move [] 542
       else Reject)
      else if c \<ge> 36 then Move [] 255
      else Reject)
     else if c > 59 then (if c > 90 then (if 97 \<le> c \<and> c \<le> 122 then Move [] 255
       else Reject)
      else if c \<ge> 65 then Move [] 255
      else Reject)
     else Move [] 255)"

definition ur_state_543 :: "int \<Rightarrow> ur_jump" where
  "ur_state_543 c =
    (if c = 33 then Move [] 520
     else if c = 35 then ur_tr_559
     else if c = 37 then Move [] 253
     else if c = 46 then Move [] 544
     else if c = 47 then ur_tr_560
     else if c = 58 then ur_tr_576
     else if c = 61 then Move [] 520
     else if c = 63 then ur_tr_562
     else if c = 64 then ur_tr_263
     else if c = 95 then Move [] 520
     else if c = 126 then Move [] 520
     else if c < 65 then (if 36 \<le> c \<and> c \<le> 59 then Move [] 520
      else Reject)
     else if c > 90 then (if 97 \<le> c \<and> c \<le> 122 then Move [] 520
      else Reject)
     else Move [] 520)"

definition ur_state_544 :: "int \<Rightarrow> ur_jump" where
  "ur_state_544 c =
    (if c = 2 then Move [] 233
     else if c = 33 then Move [] 520
     else if c = 35 then ur_tr_559
     else if c = 37 then Move [] 253
     else if c = 47 then ur_tr_560
     else if c = 48 then Move [] 545
     else if c = 49 then Move [] 553
     else if c = 50 then Move [] 555
     else if c = 58 then ur_tr_576
     else if c = 59 then Move [] 520
     else if c = 61 then Move [] 520
     else if c = 63 then ur_tr_562
     else if c = 64 then ur_tr_263
     else if c = 95 then Move [] 520
     else if c = 126 then Move [] 520
     else if c < 51 then (if 36 \<le> c \<and> c \<le> 46 then Move [] 520
      else Reject)
     else if c > 57 then (if c > 90 then (if 97 \<le> c \<and> c \<le> 122 then Move [] 520
       else Reject)
      else if c \<ge> 65 then Move [] 520
      else Reject)
     else Move [] 554)"

definition ur_state_545 :: "int \<Rightarrow> ur_jump" where
  "ur_state_545 c =
    (if c = 33 then Move [] 520
     else if c = 35 then ur_tr_559
     else if c = 37 then Move [] 253
     else if c = 46 then Move [] 546
     else if c = 47 then ur_tr_560
     else if c = 58 then ur_tr_576
     else if c = 61 then Move [] 520
     else if c = 63 then ur_tr_562
     else if c = 64 then ur_tr_263
     else if c = 95 then Move [] 520
     else if c = 126 then Move [] 520
     else if c < 65 then (if 36 \<le> c \<and> c \<le> 59 then Move [] 520
      else Reject)
     else if c > 90 then (if 97 \<le> c \<and> c \<le> 122 then Move [] 520
      else Reject)
     else Move [] 520)"

definition ur_state_546 :: "int \<Rightarrow> ur_jump" where
  "ur_state_546 c =
    (if c = 2 then Move [] 237
     else if c = 33 then Move [] 520
     else if c = 35 then ur_tr_559
     else if c = 37 then Move [] 253
     else if c = 47 then ur_tr_560
     else if c = 48 then Move [] 547
     else if c = 49 then Move [] 549
     else if c = 50 then Move [] 551
     else if c = 58 then ur_tr_576
     else if c = 59 then Move [] 520
     else if c = 61 then Move [] 520
     else if c = 63 then ur_tr_562
     else if c = 64 then ur_tr_263
     else if c = 95 then Move [] 520
     else if c = 126 then Move [] 520
     else if c < 51 then (if 36 \<le> c \<and> c \<le> 46 then Move [] 520
      else Reject)
     else if c > 57 then (if c > 90 then (if 97 \<le> c \<and> c \<le> 122 then Move [] 520
       else Reject)
      else if c \<ge> 65 then Move [] 520
      else Reject)
     else Move [] 550)"

definition ur_state_547 :: "int \<Rightarrow> ur_jump" where
  "ur_state_547 c =
    (if c = 33 then Move [] 520
     else if c = 35 then ur_tr_559
     else if c = 37 then Move [] 253
     else if c = 46 then Move [] 548
     else if c = 47 then ur_tr_560
     else if c = 58 then ur_tr_576
     else if c = 61 then Move [] 520
     else if c = 63 then ur_tr_562
     else if c = 64 then ur_tr_263
     else if c = 95 then Move [] 520
     else if c = 126 then Move [] 520
     else if c < 65 then (if 36 \<le> c \<and> c \<le> 59 then Move [] 520
      else Reject)
     else if c > 90 then (if 97 \<le> c \<and> c \<le> 122 then Move [] 520
      else Reject)
     else Move [] 520)"

definition ur_state_548 :: "int \<Rightarrow> ur_jump" where
  "ur_state_548 c =
    (if c = 2 then Move [] 241
     else if c = 33 then Move [] 520
     else if c = 35 then ur_tr_559
     else if c = 37 then Move [] 253
     else if c = 47 then ur_tr_560
     else if c = 58 then ur_tr_576
     else if c = 61 then Move [] 520
     else if c = 63 then ur_tr_562
     else if c = 64 then ur_tr_263
     else if c = 95 then Move [] 520
     else if c = 126 then Move [] 520
     else if c < 65 then (if 36 \<le> c \<and> c \<le> 59 then Move [] 520
      else Reject)
     else if c > 90 then (if 97 \<le> c \<and> c \<le> 122 then Move [] 520
      else Reject)
     else Move [] 520)"

definition ur_state_549 :: "int \<Rightarrow> ur_jump" where
  "ur_state_549 c =
    (if c = 33 then Move [] 520
     else if c = 35 then ur_tr_559
     else if c = 37 then Move [] 253
     else if c = 46 then Move [] 548
     else if c = 47 then ur_tr_560
     else if c = 58 then ur_tr_576
     else if c = 59 then Move [] 520
     else if c = 61 then Move [] 520
     else if c = 63 then ur_tr_562
     else if c = 64 then ur_tr_263
     else if c = 95 then Move [] 520
     else if c = 126 then Move [] 520
     else if c < 48 then (if 36 \<le> c \<and> c \<le> 45 then Move [] 520
      else Reject)
     else if c > 57 then (if c > 90 then (if 97 \<le> c \<and> c \<le> 122 then Move [] 520
       else Reject)
      else if c \<ge> 65 then Move [] 520
      else Reject)
     else Move [] 550)"

definition ur_state_550 :: "int \<Rightarrow> ur_jump" where
  "ur_state_550 c =
    (if c = 33 then Move [] 520
     else if c = 35 then ur_tr_559
     else if c = 37 then Move [] 253
     else if c = 46 then Move [] 548
     else if c = 47 then ur_tr_560
     else if c = 58 then ur_tr_576
     else if c = 59 then Move [] 520
     else if c = 61 then Move [] 520
     else if c = 63 then ur_tr_562
     else if c = 64 then ur_tr_263
     else if c = 95 then Move [] 520
     else if c = 126 then Move [] 520
     else if c < 48 then (if 36 \<le> c \<and> c \<le> 45 then Move [] 520
      else Reject)
     else if c > 57 then (if c > 90 then (if 97 \<le> c \<and> c \<le> 122 then Move [] 520
       else Reject)
      else if c \<ge> 65 then Move [] 520
      else Reject)
     else Move [] 547)"

definition ur_state_551 :: "int \<Rightarrow> ur_jump" where
  "ur_state_551 c =
    (if c = 33 then Move [] 520
     else if c = 35 then ur_tr_559
     else if c = 37 then Move [] 253
     else if c = 46 then Move [] 548
     else if c = 47 then ur_tr_560
     else if c = 53 then Move [] 552
     else if c = 58 then ur_tr_576
     else if c = 59 then Move [] 520
     else if c = 61 then Move [] 520
     else if c = 63 then ur_tr_562
     else if c = 64 then ur_tr_263
     else if c = 95 then Move [] 520
     else if c = 126 then Move [] 520
     else if c < 48 then (if 36 \<le> c \<and> c \<le> 45 then Move [] 520
      else Reject)
     else if c > 57 then (if c > 90 then (if 97 \<le> c \<and> c \<le> 122 then Move [] 520
       else Reject)
      else if c \<ge> 65 then Move [] 520
      else Reject)
     else Move [] 547)"

definition ur_state_552 :: "int \<Rightarrow> ur_jump" where
  "ur_state_552 c =
    (if c = 33 then Move [] 520
     else if c = 35 then ur_tr_559
     else if c = 37 then Move [] 253
     else if c = 46 then Move [] 548
     else if c = 47 then ur_tr_560
     else if c = 58 then ur_tr_576
     else if c = 61 then Move [] 520
     else if c = 63 then ur_tr_562
     else if c = 64 then ur_tr_263
     else if c = 95 then Move [] 520
     else if c = 126 then Move [] 520
     else if c < 54 then (if c > 45 then (if 48 \<le> c \<and> c \<le> 53 then Move [] 547
       else Reject)
      else if c \<ge> 36 then Move [] 520
      else Reject)
     else if c > 59 then (if c > 90 then (if 97 \<le> c \<and> c \<le> 122 then Move [] 520
       else Reject)
      else if c \<ge> 65 then Move [] 520
      else Reject)
     else Move [] 520)"

definition ur_state_553 :: "int \<Rightarrow> ur_jump" where
  "ur_state_553 c =
    (if c = 33 then Move [] 520
     else if c = 35 then ur_tr_559
     else if c = 37 then Move [] 253
     else if c = 46 then Move [] 546
     else if c = 47 then ur_tr_560
     else if c = 58 then ur_tr_576
     else if c = 59 then Move [] 520
     else if c = 61 then Move [] 520
     else if c = 63 then ur_tr_562
     else if c = 64 then ur_tr_263
     else if c = 95 then Move [] 520
     else if c = 126 then Move [] 520
     else if c < 48 then (if 36 \<le> c \<and> c \<le> 45 then Move [] 520
      else Reject)
     else if c > 57 then (if c > 90 then (if 97 \<le> c \<and> c \<le> 122 then Move [] 520
       else Reject)
      else if c \<ge> 65 then Move [] 520
      else Reject)
     else Move [] 554)"

definition ur_state_554 :: "int \<Rightarrow> ur_jump" where
  "ur_state_554 c =
    (if c = 33 then Move [] 520
     else if c = 35 then ur_tr_559
     else if c = 37 then Move [] 253
     else if c = 46 then Move [] 546
     else if c = 47 then ur_tr_560
     else if c = 58 then ur_tr_576
     else if c = 59 then Move [] 520
     else if c = 61 then Move [] 520
     else if c = 63 then ur_tr_562
     else if c = 64 then ur_tr_263
     else if c = 95 then Move [] 520
     else if c = 126 then Move [] 520
     else if c < 48 then (if 36 \<le> c \<and> c \<le> 45 then Move [] 520
      else Reject)
     else if c > 57 then (if c > 90 then (if 97 \<le> c \<and> c \<le> 122 then Move [] 520
       else Reject)
      else if c \<ge> 65 then Move [] 520
      else Reject)
     else Move [] 545)"

definition ur_state_555 :: "int \<Rightarrow> ur_jump" where
  "ur_state_555 c =
    (if c = 33 then Move [] 520
     else if c = 35 then ur_tr_559
     else if c = 37 then Move [] 253
     else if c = 46 then Move [] 546
     else if c = 47 then ur_tr_560
     else if c = 53 then Move [] 556
     else if c = 58 then ur_tr_576
     else if c = 59 then Move [] 520
     else if c = 61 then Move [] 520
     else if c = 63 then ur_tr_562
     else if c = 64 then ur_tr_263
     else if c = 95 then Move [] 520
     else if c = 126 then Move [] 520
     else if c < 48 then (if 36 \<le> c \<and> c \<le> 45 then Move [] 520
      else Reject)
     else if c > 57 then (if c > 90 then (if 97 \<le> c \<and> c \<le> 122 then Move [] 520
       else Reject)
      else if c \<ge> 65 then Move [] 520
      else Reject)
     else Move [] 545)"

definition ur_state_556 :: "int \<Rightarrow> ur_jump" where
  "ur_state_556 c =
    (if c = 33 then Move [] 520
     else if c = 35 then ur_tr_559
     else if c = 37 then Move [] 253
     else if c = 46 then Move [] 546
     else if c = 47 then ur_tr_560
     else if c = 58 then ur_tr_576
     else if c = 61 then Move [] 520
     else if c = 63 then ur_tr_562
     else if c = 64 then ur_tr_263
     else if c = 95 then Move [] 520
     else if c = 126 then Move [] 520
     else if c < 54 then (if c > 45 then (if 48 \<le> c \<and> c \<le> 53 then Move [] 545
       else Reject)
      else if c \<ge> 36 then Move [] 520
      else Reject)
     else if c > 59 then (if c > 90 then (if 97 \<le> c \<and> c \<le> 122 then Move [] 520
       else Reject)
      else if c \<ge> 65 then Move [] 520
      else Reject)
     else Move [] 520)"

definition ur_state_557 :: "int \<Rightarrow> ur_jump" where
  "ur_state_557 c =
    (if c = 33 then Move [] 520
     else if c = 35 then ur_tr_559
     else if c = 37 then Move [] 253
     else if c = 46 then Move [] 544
     else if c = 47 then ur_tr_560
     else if c = 58 then ur_tr_576
     else if c = 59 then Move [] 520
     else if c = 61 then Move [] 520
     else if c = 63 then ur_tr_562
     else if c = 64 then ur_tr_263
     else if c = 95 then Move [] 520
     else if c = 126 then Move [] 520
     else if c < 48 then (if 36 \<le> c \<and> c \<le> 45 then Move [] 520
      else Reject)
     else if c > 57 then (if c > 90 then (if 97 \<le> c \<and> c \<le> 122 then Move [] 520
       else Reject)
      else if c \<ge> 65 then Move [] 520
      else Reject)
     else Move [] 558)"

definition ur_state_558 :: "int \<Rightarrow> ur_jump" where
  "ur_state_558 c =
    (if c = 33 then Move [] 520
     else if c = 35 then ur_tr_559
     else if c = 37 then Move [] 253
     else if c = 46 then Move [] 544
     else if c = 47 then ur_tr_560
     else if c = 58 then ur_tr_576
     else if c = 59 then Move [] 520
     else if c = 61 then Move [] 520
     else if c = 63 then ur_tr_562
     else if c = 64 then ur_tr_263
     else if c = 95 then Move [] 520
     else if c = 126 then Move [] 520
     else if c < 48 then (if 36 \<le> c \<and> c \<le> 45 then Move [] 520
      else Reject)
     else if c > 57 then (if c > 90 then (if 97 \<le> c \<and> c \<le> 122 then Move [] 520
       else Reject)
      else if c \<ge> 65 then Move [] 520
      else Reject)
     else Move [] 543)"

definition ur_state_559 :: "int \<Rightarrow> ur_jump" where
  "ur_state_559 c =
    (if c = 33 then Move [] 520
     else if c = 35 then ur_tr_559
     else if c = 37 then Move [] 253
     else if c = 46 then Move [] 544
     else if c = 47 then ur_tr_560
     else if c = 53 then Move [] 560
     else if c = 58 then ur_tr_576
     else if c = 59 then Move [] 520
     else if c = 61 then Move [] 520
     else if c = 63 then ur_tr_562
     else if c = 64 then ur_tr_263
     else if c = 95 then Move [] 520
     else if c = 126 then Move [] 520
     else if c < 48 then (if 36 \<le> c \<and> c \<le> 45 then Move [] 520
      else Reject)
     else if c > 57 then (if c > 90 then (if 97 \<le> c \<and> c \<le> 122 then Move [] 520
       else Reject)
      else if c \<ge> 65 then Move [] 520
      else Reject)
     else Move [] 543)"

definition ur_state_560 :: "int \<Rightarrow> ur_jump" where
  "ur_state_560 c =
    (if c = 33 then Move [] 520
     else if c = 35 then ur_tr_559
     else if c = 37 then Move [] 253
     else if c = 46 then Move [] 544
     else if c = 47 then ur_tr_560
     else if c = 58 then ur_tr_576
     else if c = 61 then Move [] 520
     else if c = 63 then ur_tr_562
     else if c = 64 then ur_tr_263
     else if c = 95 then Move [] 520
     else if c = 126 then Move [] 520
     else if c < 54 then (if c > 45 then (if 48 \<le> c \<and> c \<le> 53 then Move [] 543
       else Reject)
      else if c \<ge> 36 then Move [] 520
      else Reject)
     else if c > 59 then (if c > 90 then (if 97 \<le> c \<and> c \<le> 122 then Move [] 520
       else Reject)
      else if c \<ge> 65 then Move [] 520
      else Reject)
     else Move [] 520)"

section \<open>The numbering\<close>

definition ur_rows :: "(int \<Rightarrow> ur_jump) list list" where
  "ur_rows =
    [[\<lambda>c. Reject, ur_state_1, ur_state_2, ur_state_3, ur_state_4, ur_state_5, ur_state_6, ur_state_7, ur_state_8, ur_state_9, ur_state_10,
      ur_state_11, ur_state_12, ur_state_13, ur_state_14, ur_state_15, ur_state_16, ur_state_17, ur_state_18, ur_state_19],
     [ur_state_20, ur_state_21, ur_state_22, ur_state_23, ur_state_24, ur_state_25, ur_state_26, ur_state_27, ur_state_28, ur_state_29, ur_state_30,
      ur_state_31, ur_state_32, ur_state_33, ur_state_34, ur_state_35, ur_state_36, ur_state_37, ur_state_38, ur_state_39],
     [ur_state_40, ur_state_41, ur_state_42, ur_state_43, ur_state_44, ur_state_45, ur_state_46, ur_state_47, ur_state_48, ur_state_49, ur_state_50,
      ur_state_51, ur_state_52, ur_state_53, ur_state_54, ur_state_55, ur_state_56, ur_state_57, ur_state_58, ur_state_59],
     [ur_state_60, ur_state_61, ur_state_62, ur_state_63, ur_state_64, ur_state_65, ur_state_66, ur_state_67, ur_state_68, ur_state_69, ur_state_70,
      ur_state_71, ur_state_72, ur_state_73, ur_state_74, ur_state_75, ur_state_76, ur_state_77, ur_state_78, ur_state_79],
     [ur_state_80, ur_state_81, ur_state_82, ur_state_83, ur_state_84, ur_state_85, ur_state_86, ur_state_87, ur_state_88, ur_state_89, ur_state_90,
      ur_state_91, ur_state_92, ur_state_93, ur_state_94, ur_state_95, ur_state_96, ur_state_97, ur_state_98, ur_state_99],
     [ur_state_100, ur_state_101, ur_state_102, ur_state_103, ur_state_104, ur_state_105, ur_state_106, ur_state_107, ur_state_108, ur_state_109,
      ur_state_110, ur_state_111, ur_state_112, ur_state_113, ur_state_114, ur_state_115, ur_state_116, ur_state_117, ur_state_118, ur_state_119],
     [ur_state_120, ur_state_121, ur_state_122, ur_state_123, ur_state_124, ur_state_125, ur_state_126, ur_state_127, ur_state_128, ur_state_129,
      ur_state_130, ur_state_131, ur_state_132, ur_state_133, ur_state_134, ur_state_135, ur_state_136, ur_state_137, ur_state_138, ur_state_139],
     [ur_state_140, ur_state_141, ur_state_142, ur_state_143, ur_state_144, ur_state_145, ur_state_146, ur_state_147, ur_state_148, ur_state_149,
      ur_state_150, ur_state_151, ur_state_152, ur_state_153, ur_state_154, ur_state_155, ur_state_156, ur_state_157, ur_state_158, ur_state_159],
     [ur_state_160, ur_state_161, ur_state_162, ur_state_163, ur_state_164, ur_state_165, ur_state_166, ur_state_167, ur_state_168, ur_state_169,
      ur_state_170, ur_state_171, ur_state_172, ur_state_173, ur_state_174, ur_state_175, ur_state_176, ur_state_177, ur_state_178, ur_state_179],
     [ur_state_180, ur_state_181, ur_state_182, ur_state_183, ur_state_184, ur_state_185, ur_state_186, ur_state_187, ur_state_188, ur_state_189,
      ur_state_190, ur_state_191, ur_state_192, ur_state_193, ur_state_194, ur_state_195, ur_state_196, ur_state_197, ur_state_198, ur_state_199],
     [ur_state_200, ur_state_201, ur_state_202, ur_state_203, ur_state_204, ur_state_205, ur_state_206, ur_state_207, ur_state_208, ur_state_209,
      ur_state_210, ur_state_211, ur_state_212, ur_state_213, ur_state_214, ur_state_215, ur_state_216, ur_state_217, ur_state_218, ur_state_219],
     [ur_state_220, ur_state_221, ur_state_222, ur_state_223, ur_state_224, ur_state_225, ur_state_226, ur_state_227, ur_state_228, ur_state_229,
      ur_state_230, ur_state_231, ur_state_232, ur_state_233, ur_state_234, ur_state_235, ur_state_236, ur_state_237, ur_state_238, ur_state_239],
     [ur_state_240, ur_state_241, ur_state_242, ur_state_243, ur_state_244, ur_state_245, ur_state_246, ur_state_247, ur_state_248, ur_state_249,
      ur_state_250, ur_state_251, ur_state_252, ur_state_253, ur_state_254, ur_state_255, ur_state_256, ur_state_257, ur_state_258, ur_state_259],
     [ur_state_260, ur_state_261, ur_state_262, ur_state_263, ur_state_264, ur_state_265, ur_state_266, ur_state_267, ur_state_268, ur_state_269,
      ur_state_270, ur_state_271, ur_state_272, ur_state_273, ur_state_274, ur_state_275, ur_state_276, ur_state_277, ur_state_278, ur_state_279],
     [ur_state_280, ur_state_281, ur_state_282, ur_state_283, ur_state_284, ur_state_285, ur_state_286, ur_state_287, ur_state_288, ur_state_289,
      ur_state_290, ur_state_291, ur_state_292, ur_state_293, ur_state_294, ur_state_295, ur_state_296, ur_state_297, ur_state_298, ur_state_299],
     [ur_state_300, ur_state_301, ur_state_302, ur_state_303, ur_state_304, ur_state_305, ur_state_306, ur_state_307, ur_state_308, ur_state_309,
      ur_state_310, ur_state_311, ur_state_312, ur_state_313, ur_state_314, ur_state_315, ur_state_316, ur_state_317, ur_state_318, ur_state_319],
     [ur_state_320, ur_state_321, ur_state_322, ur_state_323, ur_state_324, ur_state_325, ur_state_326, ur_state_327, ur_state_328, ur_state_329,
      ur_state_330, ur_state_331, ur_state_332, ur_state_333, ur_state_334, ur_state_335, ur_state_336, ur_state_337, ur_state_338, ur_state_339],
     [ur_state_340, ur_state_341, ur_state_342, ur_state_343, ur_state_344, ur_state_345, ur_state_346, ur_state_347, ur_state_348, ur_state_349,
      ur_state_350, ur_state_351, ur_state_352, ur_state_353, ur_state_354, ur_state_355, ur_state_356, ur_state_357, ur_state_358, ur_state_359],
     [ur_state_360, ur_state_361, ur_state_362, ur_state_363, ur_state_364, ur_state_365, ur_state_366, ur_state_367, ur_state_368, ur_state_369,
      ur_state_370, ur_state_371, ur_state_372, ur_state_373, ur_state_374, ur_state_375, ur_state_376, ur_state_377, ur_state_378, ur_state_379],
     [ur_state_380, ur_state_381, ur_state_382, ur_state_383, ur_state_384, ur_state_385, ur_state_386, ur_state_387, ur_state_388, ur_state_389,
      ur_state_390, ur_state_391, ur_state_392, ur_state_393, ur_state_394, ur_state_395, ur_state_396, ur_state_397, ur_state_398, ur_state_399],
     [ur_state_400, ur_state_401, ur_state_402, ur_state_403, ur_state_404, ur_state_405, ur_state_406, ur_state_407, ur_state_408, ur_state_409,
      ur_state_410, ur_state_411, ur_state_412, ur_state_413, ur_state_414, ur_state_415, ur_state_416, ur_state_417, ur_state_418, ur_state_419],
     [ur_state_420, ur_state_421, ur_state_422, ur_state_423, ur_state_424, ur_state_425, ur_state_426, ur_state_427, ur_state_428, ur_state_429,
      ur_state_430, ur_state_431, ur_state_432, ur_state_433, ur_state_434, ur_state_435, ur_state_436, ur_state_437, ur_state_438, ur_state_439],
     [ur_state_440, ur_state_441, ur_state_442, ur_state_443, ur_state_444, ur_state_445, ur_state_446, ur_state_447, ur_state_448, ur_state_449,
      ur_state_450, ur_state_451, ur_state_452, ur_state_453, ur_state_454, ur_state_455, ur_state_456, ur_state_457, ur_state_458, ur_state_459],
     [ur_state_460, ur_state_461, ur_state_462, ur_state_463, ur_state_464, ur_state_465, ur_state_466, ur_state_467, ur_state_468, ur_state_469,
      ur_state_470, ur_state_471, ur_state_472, ur_state_473, ur_state_474, ur_state_475, ur_state_476, ur_state_477, ur_state_478, ur_state_479],
     [ur_state_480, ur_state_481, ur_state_482, ur_state_483, ur_state_484, ur_state_485, ur_state_486, ur_state_487, ur_state_488, ur_state_489,
      ur_state_490, ur_state_491, ur_state_492, ur_state_493, ur_state_494, ur_state_495, ur_state_496, ur_state_497, ur_state_498, ur_state_499],
     [ur_state_500, ur_state_501, ur_state_502, ur_state_503, ur_state_504, ur_state_505, ur_state_506, ur_state_507, ur_state_508, ur_state_509,
      ur_state_510, ur_state_511, ur_state_512, ur_state_513, ur_state_514, ur_state_515, ur_state_516, ur_state_517, ur_state_518, ur_state_519],
     [ur_state_520, ur_state_521, ur_state_522, ur_state_523, ur_state_524, ur_state_525, ur_state_526, ur_state_527, ur_state_528, ur_state_529,
      ur_state_530, ur_state_531, ur_state_532, ur_state_533, ur_state_534, ur_state_535, ur_state_536, ur_state_537, ur_state_538, ur_state_539],
     [ur_state_540, ur_state_541, ur_state_542, ur_state_543, ur_state_544, ur_state_545, ur_state_546, ur_state_547, ur_state_548, ur_state_549,
      ur_state_550, ur_state_551, ur_state_552, ur_state_553, ur_state_554, ur_state_555, ur_state_556, ur_state_557, ur_state_558, ur_state_559],
     [ur_state_560]]"

definition ur_next :: "nat \<Rightarrow> int \<Rightarrow> ur_jump" where
  "ur_next cs = ur_rows ! (cs div 20) ! (cs mod 20)"

text \<open>The actions at the end.\<close>

definition ur_eof :: "nat \<Rightarrow> ur_action list" where
  "ur_eof cs =
    (if cs \<in> set [453] then [Mark, Save_fragment]
     else if cs \<in> set [454] then [Save_fragment]
     else if cs \<in> set [456] then [Mark, Save_query]
     else if cs \<in> set [457] then [Save_query]
     else if cs \<in> set [459, 469] then [Mark, Save_host]
     else if cs \<in> set [460, 463, 464, 465, 466, 467, 470, 471, 472, 473, 474, 475, 476, 477, 478, 479, 480, 481, 482, 483, 484, 485, 486, 487,
       488, 490, 491, 492, 493, 494, 495, 496, 497, 498, 499, 500, 501, 502, 503, 504, 505, 506, 507] then [Save_host]
     else if cs \<in> set [461, 468] then [Mark, Save_port]
     else if cs \<in> set [462, 489] then [Save_port]
     else if cs \<in> set [511, 522] then [Mark, Save_host, Save_path]
     else if cs \<in> set [512, 516, 517, 518, 519, 520, 523, 524, 525, 526, 527, 528, 529, 530, 531, 532, 533, 534, 535, 536, 537, 538, 539, 540,
       541, 543, 544, 545, 546, 547, 548, 549, 550, 551, 552, 553, 554, 555, 556, 557, 558, 559, 560] then [Save_host, Mark, Save_path]
     else if cs \<in> set [513] then [Save_path]
     else if cs \<in> set [514, 521] then [Mark, Save_port, Save_path]
     else if cs \<in> set [515, 542] then [Save_port, Mark, Save_path]
     else [])"

end
