(* ===== verification/UriParser.thy ===== *)
theory UriParser
  imports Uri UriStates CText
begin

text \<open>
  \<open>Uri::Create\<close> (\<open>sylar/http/uri.rl.cc\<close>): the actions and the loop over the transitions of \<open>UriTables\<close> and \<open>UriStates\<close>. The text is a \<open>std::string\<close>, its
  characters are followed by a zero. \<open>mark\<close> is a position in it, or null. \<open>std::string\<close> of a null pointer and a positive length throws
  \<open>std::logic_error\<close>; \<open>atoi\<close> of a null pointer faults.
\<close>

datatype uri_error = Null_string | Null_read

definition uri_parser_start :: nat where "uri_parser_start = 451"
definition uri_parser_first_final :: nat where "uri_parser_first_final = 451"
definition uri_parser_error :: nat where "uri_parser_error = 0"

text \<open>\<open>std::string(mark, p - mark)\<close>. The difference of a pointer into the text and a null pointer is positive.\<close>

definition marked :: "string \<Rightarrow> nat \<Rightarrow> nat option \<Rightarrow> uri_error + string" where
  "marked s p mark = (case mark of None \<Rightarrow> Inl Null_string | Some m \<Rightarrow> Inr (take (p - m) (drop m s)))"

definition ur_action :: "string \<Rightarrow> nat \<Rightarrow> ur_action \<Rightarrow> uri \<times> nat option \<Rightarrow> uri_error + uri \<times> nat option" where
  "ur_action s p a = (\<lambda>(u, mark).
     case a of
       Mark \<Rightarrow> Inr (u, Some p)
     | Save_scheme \<Rightarrow> map_sum id (\<lambda>v. (u\<lparr>u_scheme := v\<rparr>, None)) (marked s p mark)
     | Save_port \<Rightarrow>
         if mark \<noteq> Some p then
           (case mark of None \<Rightarrow> Inl Null_read | Some m \<Rightarrow> Inr (u\<lparr>u_port := c_atoi (drop m s)\<rparr>, None))
         else Inr (u, None)
     | Save_userinfo \<Rightarrow> if mark \<noteq> None then map_sum id (\<lambda>v. (u\<lparr>u_userinfo := v\<rparr>, None)) (marked s p mark) else Inr (u, None)
     | Save_host \<Rightarrow> if mark \<noteq> None then map_sum id (\<lambda>v. (u\<lparr>u_host := v\<rparr>, mark)) (marked s p mark) else Inr (u, mark)
     | Save_path \<Rightarrow> map_sum id (\<lambda>v. (u\<lparr>u_path := v\<rparr>, None)) (marked s p mark)
     | Save_query \<Rightarrow> map_sum id (\<lambda>v. (u\<lparr>u_query := v\<rparr>, None)) (marked s p mark)
     | Save_fragment \<Rightarrow> map_sum id (\<lambda>v. (u\<lparr>u_fragment := v\<rparr>, None)) (marked s p mark))"

primrec ur_actions :: "string \<Rightarrow> nat \<Rightarrow> ur_action list \<Rightarrow> uri \<times> nat option \<Rightarrow> uri_error + uri \<times> nat option" where
  "ur_actions s p [] st = Inr st"
| "ur_actions s p (a # as) st = (case ur_action s p a st of Inl e \<Rightarrow> Inl e | Inr st1 \<Rightarrow> ur_actions s p as st1)"

text \<open>The loop from \<open>p\<close> on: at the end of the text the actions of the state are run, \<open>st0\<close> leaves without them.\<close>

function ur_loop :: "string \<Rightarrow> nat \<Rightarrow> nat \<Rightarrow> uri \<times> nat option \<Rightarrow> uri_error + nat \<times> uri" where
  "ur_loop s p cs st =
     (if length s \<le> p then map_sum id (\<lambda>st1. (cs, fst st1)) (ur_actions s p (ur_eof cs) st)
      else case ur_next cs (char_code (s ! p)) of
        Reject \<Rightarrow> Inr (uri_parser_error, fst st)
      | Move as t \<Rightarrow> (case ur_actions s p as st of Inl e \<Rightarrow> Inl e | Inr st1 \<Rightarrow> ur_loop s (p + 1) t st1))"
  by pat_completeness auto
termination
  by (relation "measure (\<lambda>(s, p, cs, st). length s - p)") auto

declare ur_loop.simps [simp del]

definition Uri_Create :: "string \<Rightarrow> uri_error + uri option" where
  "Uri_Create uristr =
     (case ur_loop uristr 0 uri_parser_start (new_Uri, None) of
        Inl e \<Rightarrow> Inl e
      | Inr (cs, u) \<Rightarrow> Inr (if cs = uri_parser_error then None else if uri_parser_first_final \<le> cs then Some u else None))"

end
