(* ===== verification/UriClasses.thy ===== *)
theory UriClasses
  imports UriStates
begin

text \<open>
  Classes of states of \<open>Uri::Create\<close>. While the machine reads a host it also checks whether this is an IPv4 address, and before an \<open>@\<close> was read the host may
  still become user information: most states of the authority are copies of one state. The states of a class behave alike on the characters
  of a name.
\<close>

section \<open>Character codes\<close>

text \<open>Unreserved characters and delimiters of a part; those that may also be in a path (all octets above 127 among them), and in a query or fragment.\<close>

definition reg_code :: "int \<Rightarrow> bool" where
  "reg_code c \<longleftrightarrow> c = 33 \<or> c = 36 \<or> 38 \<le> c \<and> c \<le> 46 \<or> 48 \<le> c \<and> c \<le> 57 \<or> c = 59 \<or> c = 61 \<or> 65 \<le> c \<and> c \<le> 90 \<or> c = 95 \<or> 97 \<le> c \<and> c \<le> 122 \<or> c = 126"

definition path_code :: "int \<Rightarrow> bool" where
  "path_code c \<longleftrightarrow> reg_code c \<or> c < 0 \<or> c = 47 \<or> c = 58 \<or> c = 64"

definition query_code :: "int \<Rightarrow> bool" where
  "query_code c \<longleftrightarrow> path_code c \<or> c = 63"

definition hex_code :: "int \<Rightarrow> bool" where
  "hex_code c \<longleftrightarrow> 48 \<le> c \<and> c \<le> 57 \<or> 65 \<le> c \<and> c \<le> 70 \<or> 97 \<le> c \<and> c \<le> 102"

definition alpha_code :: "int \<Rightarrow> bool" where
  "alpha_code c \<longleftrightarrow> 65 \<le> c \<and> c \<le> 90 \<or> 97 \<le> c \<and> c \<le> 122"

definition scheme_code :: "int \<Rightarrow> bool" where
  "scheme_code c \<longleftrightarrow> alpha_code c \<or> 48 \<le> c \<and> c \<le> 57 \<or> c = 43 \<or> c = 45 \<or> c = 46"

section \<open>Classes\<close>

text \<open>A host that may still be user information, and a host behind user information.\<close>

definition authority_states :: "nat list" where
  "authority_states = [520, 543, 544, 545, 546, 547, 548, 549, 550, 551, 552, 553, 554, 555, 556, 557, 558, 559, 560]"

lemma authority_states_mem: "s \<in> set authority_states \<longleftrightarrow> s = 520 \<or> s = 543 \<or> s = 544 \<or> s = 545 \<or> s = 546 \<or> s = 547 \<or> s = 548 \<or> s = 549 \<or> s = 550 \<or> s = 551 \<or>
    s = 552 \<or> s = 553 \<or> s = 554 \<or> s = 555 \<or> s = 556 \<or> s = 557 \<or> s = 558 \<or> s = 559 \<or> s = 560"
  by (simp add: authority_states_def)

definition host_states :: "nat list" where
  "host_states = [523, 524, 525, 526, 527, 528, 529, 530, 531, 532, 533, 534, 535, 536, 537, 538, 539, 540, 541]"

lemma host_states_mem: "s \<in> set host_states \<longleftrightarrow> s = 523 \<or> s = 524 \<or> s = 525 \<or> s = 526 \<or> s = 527 \<or> s = 528 \<or> s = 529 \<or> s = 530 \<or> s = 531 \<or> s = 532 \<or>
    s = 533 \<or> s = 534 \<or> s = 535 \<or> s = 536 \<or> s = 537 \<or> s = 538 \<or> s = 539 \<or> s = 540 \<or> s = 541"
  by (simp add: host_states_def)

lemmas uri_class_defs = authority_states_def host_states_def

text \<open>A transition with given actions into a class.\<close>

primrec moves :: "ur_action list \<Rightarrow> nat list \<Rightarrow> ur_jump \<Rightarrow> bool" where
  "moves as ss Reject = False"
| "moves as ss (Move bs t) = (bs = as \<and> t \<in> set ss)"

lemma movesE:
  assumes "moves as ss j"
  obtains t where "j = Move as t" and "t \<in> set ss"
  using assms by (cases j) auto

lemma ur_next_states_0:
  "ur_next (Suc 0) = ur_state_1" "ur_next 2 = ur_state_2" "ur_next 7 = ur_state_7" "ur_next 8 = ur_state_8" "ur_next 243 = ur_state_243"
  "ur_next 244 = ur_state_244" "ur_next 253 = ur_state_253" "ur_next 254 = ur_state_254" "ur_next 258 = ur_state_258" "ur_next 259 = ur_state_259"
  "ur_next 451 = ur_state_451" "ur_next 453 = ur_state_453" "ur_next 454 = ur_state_454" "ur_next 456 = ur_state_456" "ur_next 457 = ur_state_457"
  "ur_next 508 = ur_state_508"
  by (simp_all add: ur_next_def ur_rows_def)

lemma ur_next_states_1:
  "ur_next 509 = ur_state_509" "ur_next 510 = ur_state_510" "ur_next 511 = ur_state_511" "ur_next 513 = ur_state_513" "ur_next 514 = ur_state_514"
  "ur_next 515 = ur_state_515" "ur_next 520 = ur_state_520" "ur_next 521 = ur_state_521" "ur_next 522 = ur_state_522" "ur_next 523 = ur_state_523"
  "ur_next 524 = ur_state_524" "ur_next 525 = ur_state_525" "ur_next 526 = ur_state_526" "ur_next 527 = ur_state_527" "ur_next 528 = ur_state_528"
  "ur_next 529 = ur_state_529"
  by (simp_all add: ur_next_def ur_rows_def)

lemma ur_next_states_2:
  "ur_next 530 = ur_state_530" "ur_next 531 = ur_state_531" "ur_next 532 = ur_state_532" "ur_next 533 = ur_state_533" "ur_next 534 = ur_state_534"
  "ur_next 535 = ur_state_535" "ur_next 536 = ur_state_536" "ur_next 537 = ur_state_537" "ur_next 538 = ur_state_538" "ur_next 539 = ur_state_539"
  "ur_next 540 = ur_state_540" "ur_next 541 = ur_state_541" "ur_next 542 = ur_state_542" "ur_next 543 = ur_state_543" "ur_next 544 = ur_state_544"
  "ur_next 545 = ur_state_545"
  by (simp_all add: ur_next_def ur_rows_def)

lemma ur_next_states_3:
  "ur_next 546 = ur_state_546" "ur_next 547 = ur_state_547" "ur_next 548 = ur_state_548" "ur_next 549 = ur_state_549" "ur_next 550 = ur_state_550"
  "ur_next 551 = ur_state_551" "ur_next 552 = ur_state_552" "ur_next 553 = ur_state_553" "ur_next 554 = ur_state_554" "ur_next 555 = ur_state_555"
  "ur_next 556 = ur_state_556" "ur_next 557 = ur_state_557" "ur_next 558 = ur_state_558" "ur_next 559 = ur_state_559" "ur_next 560 = ur_state_560"
  by (simp_all add: ur_next_def ur_rows_def)

lemmas ur_next_states = ur_next_states_0 ur_next_states_1 ur_next_states_2 ur_next_states_3

lemma authority_reg_0:
  assumes "reg_code c"
  shows "moves [] authority_states (ur_state_520 c)" "moves [] authority_states (ur_state_543 c)" "moves [] authority_states (ur_state_544 c)"
    "moves [] authority_states (ur_state_545 c)" "moves [] authority_states (ur_state_546 c)" "moves [] authority_states (ur_state_547 c)"
    "moves [] authority_states (ur_state_548 c)" "moves [] authority_states (ur_state_549 c)" "moves [] authority_states (ur_state_550 c)"
    "moves [] authority_states (ur_state_551 c)"
  using assms unfolding reg_code_def
  by (elim disjE; simp add: ur_tr_defs uri_class_defs ur_state_520_def ur_state_543_def ur_state_544_def ur_state_545_def ur_state_546_def ur_state_547_def ur_state_548_def ur_state_549_def
      ur_state_550_def ur_state_551_def)+

lemma authority_reg_1:
  assumes "reg_code c"
  shows "moves [] authority_states (ur_state_552 c)" "moves [] authority_states (ur_state_553 c)" "moves [] authority_states (ur_state_554 c)"
    "moves [] authority_states (ur_state_555 c)" "moves [] authority_states (ur_state_556 c)" "moves [] authority_states (ur_state_557 c)"
    "moves [] authority_states (ur_state_558 c)" "moves [] authority_states (ur_state_559 c)" "moves [] authority_states (ur_state_560 c)"
  using assms unfolding reg_code_def
  by (elim disjE; simp add: ur_tr_defs uri_class_defs ur_state_552_def ur_state_553_def ur_state_554_def ur_state_555_def ur_state_556_def ur_state_557_def ur_state_558_def ur_state_559_def
      ur_state_560_def)+

lemma authority_pct:
  shows "ur_state_520 37 = Move [] 253" "ur_state_543 37 = Move [] 253" "ur_state_544 37 = Move [] 253" "ur_state_545 37 = Move [] 253"
    "ur_state_546 37 = Move [] 253" "ur_state_547 37 = Move [] 253" "ur_state_548 37 = Move [] 253" "ur_state_549 37 = Move [] 253"
    "ur_state_550 37 = Move [] 253" "ur_state_551 37 = Move [] 253" "ur_state_552 37 = Move [] 253" "ur_state_553 37 = Move [] 253"
    "ur_state_554 37 = Move [] 253" "ur_state_555 37 = Move [] 253" "ur_state_556 37 = Move [] 253" "ur_state_557 37 = Move [] 253"
    "ur_state_558 37 = Move [] 253" "ur_state_559 37 = Move [] 253" "ur_state_560 37 = Move [] 253"
  by (simp_all add: ur_tr_defs ur_state_520_def ur_state_543_def ur_state_544_def ur_state_545_def ur_state_546_def ur_state_547_def ur_state_548_def ur_state_549_def
      ur_state_550_def ur_state_551_def ur_state_552_def ur_state_553_def ur_state_554_def ur_state_555_def ur_state_556_def ur_state_557_def
      ur_state_558_def ur_state_559_def ur_state_560_def)

lemma authority_slash:
  shows "ur_state_520 47 = Move [Save_host, Mark] 513" "ur_state_543 47 = Move [Save_host, Mark] 513" "ur_state_544 47 = Move [Save_host, Mark] 513"
    "ur_state_545 47 = Move [Save_host, Mark] 513" "ur_state_546 47 = Move [Save_host, Mark] 513" "ur_state_547 47 = Move [Save_host, Mark] 513"
    "ur_state_548 47 = Move [Save_host, Mark] 513" "ur_state_549 47 = Move [Save_host, Mark] 513" "ur_state_550 47 = Move [Save_host, Mark] 513"
    "ur_state_551 47 = Move [Save_host, Mark] 513" "ur_state_552 47 = Move [Save_host, Mark] 513" "ur_state_553 47 = Move [Save_host, Mark] 513"
    "ur_state_554 47 = Move [Save_host, Mark] 513" "ur_state_555 47 = Move [Save_host, Mark] 513" "ur_state_556 47 = Move [Save_host, Mark] 513"
    "ur_state_557 47 = Move [Save_host, Mark] 513" "ur_state_558 47 = Move [Save_host, Mark] 513" "ur_state_559 47 = Move [Save_host, Mark] 513"
    "ur_state_560 47 = Move [Save_host, Mark] 513"
  by (simp_all add: ur_tr_defs ur_state_520_def ur_state_543_def ur_state_544_def ur_state_545_def ur_state_546_def ur_state_547_def ur_state_548_def ur_state_549_def
      ur_state_550_def ur_state_551_def ur_state_552_def ur_state_553_def ur_state_554_def ur_state_555_def ur_state_556_def ur_state_557_def
      ur_state_558_def ur_state_559_def ur_state_560_def)

lemma authority_colon:
  shows "ur_state_520 58 = Move [Save_host] 521" "ur_state_543 58 = Move [Save_host] 521" "ur_state_544 58 = Move [Save_host] 521"
    "ur_state_545 58 = Move [Save_host] 521" "ur_state_546 58 = Move [Save_host] 521" "ur_state_547 58 = Move [Save_host] 521"
    "ur_state_548 58 = Move [Save_host] 521" "ur_state_549 58 = Move [Save_host] 521" "ur_state_550 58 = Move [Save_host] 521"
    "ur_state_551 58 = Move [Save_host] 521" "ur_state_552 58 = Move [Save_host] 521" "ur_state_553 58 = Move [Save_host] 521"
    "ur_state_554 58 = Move [Save_host] 521" "ur_state_555 58 = Move [Save_host] 521" "ur_state_556 58 = Move [Save_host] 521"
    "ur_state_557 58 = Move [Save_host] 521" "ur_state_558 58 = Move [Save_host] 521" "ur_state_559 58 = Move [Save_host] 521"
    "ur_state_560 58 = Move [Save_host] 521"
  by (simp_all add: ur_tr_defs ur_state_520_def ur_state_543_def ur_state_544_def ur_state_545_def ur_state_546_def ur_state_547_def ur_state_548_def ur_state_549_def
      ur_state_550_def ur_state_551_def ur_state_552_def ur_state_553_def ur_state_554_def ur_state_555_def ur_state_556_def ur_state_557_def
      ur_state_558_def ur_state_559_def ur_state_560_def)

lemma authority_at:
  shows "ur_state_520 64 = Move [Save_userinfo] 522" "ur_state_543 64 = Move [Save_userinfo] 522" "ur_state_544 64 = Move [Save_userinfo] 522"
    "ur_state_545 64 = Move [Save_userinfo] 522" "ur_state_546 64 = Move [Save_userinfo] 522" "ur_state_547 64 = Move [Save_userinfo] 522"
    "ur_state_548 64 = Move [Save_userinfo] 522" "ur_state_549 64 = Move [Save_userinfo] 522" "ur_state_550 64 = Move [Save_userinfo] 522"
    "ur_state_551 64 = Move [Save_userinfo] 522" "ur_state_552 64 = Move [Save_userinfo] 522" "ur_state_553 64 = Move [Save_userinfo] 522"
    "ur_state_554 64 = Move [Save_userinfo] 522" "ur_state_555 64 = Move [Save_userinfo] 522" "ur_state_556 64 = Move [Save_userinfo] 522"
    "ur_state_557 64 = Move [Save_userinfo] 522" "ur_state_558 64 = Move [Save_userinfo] 522" "ur_state_559 64 = Move [Save_userinfo] 522"
    "ur_state_560 64 = Move [Save_userinfo] 522"
  by (simp_all add: ur_tr_defs ur_state_520_def ur_state_543_def ur_state_544_def ur_state_545_def ur_state_546_def ur_state_547_def ur_state_548_def ur_state_549_def
      ur_state_550_def ur_state_551_def ur_state_552_def ur_state_553_def ur_state_554_def ur_state_555_def ur_state_556_def ur_state_557_def
      ur_state_558_def ur_state_559_def ur_state_560_def)

lemma host_reg_0:
  assumes "reg_code c"
  shows "moves [] host_states (ur_state_523 c)" "moves [] host_states (ur_state_524 c)" "moves [] host_states (ur_state_525 c)"
    "moves [] host_states (ur_state_526 c)" "moves [] host_states (ur_state_527 c)" "moves [] host_states (ur_state_528 c)"
    "moves [] host_states (ur_state_529 c)" "moves [] host_states (ur_state_530 c)" "moves [] host_states (ur_state_531 c)"
    "moves [] host_states (ur_state_532 c)"
  using assms unfolding reg_code_def
  by (elim disjE; simp add: ur_tr_defs uri_class_defs ur_state_523_def ur_state_524_def ur_state_525_def ur_state_526_def ur_state_527_def ur_state_528_def ur_state_529_def ur_state_530_def
      ur_state_531_def ur_state_532_def)+

lemma host_reg_1:
  assumes "reg_code c"
  shows "moves [] host_states (ur_state_533 c)" "moves [] host_states (ur_state_534 c)" "moves [] host_states (ur_state_535 c)"
    "moves [] host_states (ur_state_536 c)" "moves [] host_states (ur_state_537 c)" "moves [] host_states (ur_state_538 c)"
    "moves [] host_states (ur_state_539 c)" "moves [] host_states (ur_state_540 c)" "moves [] host_states (ur_state_541 c)"
  using assms unfolding reg_code_def
  by (elim disjE; simp add: ur_tr_defs uri_class_defs ur_state_533_def ur_state_534_def ur_state_535_def ur_state_536_def ur_state_537_def ur_state_538_def ur_state_539_def ur_state_540_def
      ur_state_541_def)+

lemma host_pct:
  shows "ur_state_523 37 = Move [] 258" "ur_state_524 37 = Move [] 258" "ur_state_525 37 = Move [] 258" "ur_state_526 37 = Move [] 258"
    "ur_state_527 37 = Move [] 258" "ur_state_528 37 = Move [] 258" "ur_state_529 37 = Move [] 258" "ur_state_530 37 = Move [] 258"
    "ur_state_531 37 = Move [] 258" "ur_state_532 37 = Move [] 258" "ur_state_533 37 = Move [] 258" "ur_state_534 37 = Move [] 258"
    "ur_state_535 37 = Move [] 258" "ur_state_536 37 = Move [] 258" "ur_state_537 37 = Move [] 258" "ur_state_538 37 = Move [] 258"
    "ur_state_539 37 = Move [] 258" "ur_state_540 37 = Move [] 258" "ur_state_541 37 = Move [] 258"
  by (simp_all add: ur_tr_defs ur_state_523_def ur_state_524_def ur_state_525_def ur_state_526_def ur_state_527_def ur_state_528_def ur_state_529_def ur_state_530_def
      ur_state_531_def ur_state_532_def ur_state_533_def ur_state_534_def ur_state_535_def ur_state_536_def ur_state_537_def ur_state_538_def
      ur_state_539_def ur_state_540_def ur_state_541_def)

lemma host_slash:
  shows "ur_state_523 47 = Move [Save_host, Mark] 513" "ur_state_524 47 = Move [Save_host, Mark] 513" "ur_state_525 47 = Move [Save_host, Mark] 513"
    "ur_state_526 47 = Move [Save_host, Mark] 513" "ur_state_527 47 = Move [Save_host, Mark] 513" "ur_state_528 47 = Move [Save_host, Mark] 513"
    "ur_state_529 47 = Move [Save_host, Mark] 513" "ur_state_530 47 = Move [Save_host, Mark] 513" "ur_state_531 47 = Move [Save_host, Mark] 513"
    "ur_state_532 47 = Move [Save_host, Mark] 513" "ur_state_533 47 = Move [Save_host, Mark] 513" "ur_state_534 47 = Move [Save_host, Mark] 513"
    "ur_state_535 47 = Move [Save_host, Mark] 513" "ur_state_536 47 = Move [Save_host, Mark] 513" "ur_state_537 47 = Move [Save_host, Mark] 513"
    "ur_state_538 47 = Move [Save_host, Mark] 513" "ur_state_539 47 = Move [Save_host, Mark] 513" "ur_state_540 47 = Move [Save_host, Mark] 513"
    "ur_state_541 47 = Move [Save_host, Mark] 513"
  by (simp_all add: ur_tr_defs ur_state_523_def ur_state_524_def ur_state_525_def ur_state_526_def ur_state_527_def ur_state_528_def ur_state_529_def ur_state_530_def
      ur_state_531_def ur_state_532_def ur_state_533_def ur_state_534_def ur_state_535_def ur_state_536_def ur_state_537_def ur_state_538_def
      ur_state_539_def ur_state_540_def ur_state_541_def)

lemma host_colon:
  shows "ur_state_523 58 = Move [Save_host] 514" "ur_state_524 58 = Move [Save_host] 514" "ur_state_525 58 = Move [Save_host] 514"
    "ur_state_526 58 = Move [Save_host] 514" "ur_state_527 58 = Move [Save_host] 514" "ur_state_528 58 = Move [Save_host] 514"
    "ur_state_529 58 = Move [Save_host] 514" "ur_state_530 58 = Move [Save_host] 514" "ur_state_531 58 = Move [Save_host] 514"
    "ur_state_532 58 = Move [Save_host] 514" "ur_state_533 58 = Move [Save_host] 514" "ur_state_534 58 = Move [Save_host] 514"
    "ur_state_535 58 = Move [Save_host] 514" "ur_state_536 58 = Move [Save_host] 514" "ur_state_537 58 = Move [Save_host] 514"
    "ur_state_538 58 = Move [Save_host] 514" "ur_state_539 58 = Move [Save_host] 514" "ur_state_540 58 = Move [Save_host] 514"
    "ur_state_541 58 = Move [Save_host] 514"
  by (simp_all add: ur_tr_defs ur_state_523_def ur_state_524_def ur_state_525_def ur_state_526_def ur_state_527_def ur_state_528_def ur_state_529_def ur_state_530_def
      ur_state_531_def ur_state_532_def ur_state_533_def ur_state_534_def ur_state_535_def ur_state_536_def ur_state_537_def ur_state_538_def
      ur_state_539_def ur_state_540_def ur_state_541_def)

section \<open>Steps\<close>

lemma next_authority_reg: "s \<in> set authority_states \<Longrightarrow> reg_code c \<Longrightarrow> moves [] authority_states (ur_next s c)"
  by (auto simp: authority_states_mem ur_next_states authority_reg_0 authority_reg_1)

lemma next_authority_pct: "s \<in> set authority_states \<Longrightarrow> ur_next s 37 = Move [] 253"
  by (auto simp: authority_states_mem ur_next_states authority_pct)

lemma next_authority_slash: "s \<in> set authority_states \<Longrightarrow> ur_next s 47 = Move [Save_host, Mark] 513"
  by (auto simp: authority_states_mem ur_next_states authority_slash)

lemma next_authority_colon: "s \<in> set authority_states \<Longrightarrow> ur_next s 58 = Move [Save_host] 521"
  by (auto simp: authority_states_mem ur_next_states authority_colon)

lemma next_authority_at: "s \<in> set authority_states \<Longrightarrow> ur_next s 64 = Move [Save_userinfo] 522"
  by (auto simp: authority_states_mem ur_next_states authority_at)

lemma next_host_reg: "s \<in> set host_states \<Longrightarrow> reg_code c \<Longrightarrow> moves [] host_states (ur_next s c)"
  by (auto simp: host_states_mem ur_next_states host_reg_0 host_reg_1)

lemma next_host_pct: "s \<in> set host_states \<Longrightarrow> ur_next s 37 = Move [] 258"
  by (auto simp: host_states_mem ur_next_states host_pct)

lemma next_host_slash: "s \<in> set host_states \<Longrightarrow> ur_next s 47 = Move [Save_host, Mark] 513"
  by (auto simp: host_states_mem ur_next_states host_slash)

lemma next_host_colon: "s \<in> set host_states \<Longrightarrow> ur_next s 58 = Move [Save_host] 514"
  by (auto simp: host_states_mem ur_next_states host_colon)

lemma next_authority_entry:
  "reg_code c \<Longrightarrow> moves [Mark] authority_states (ur_next 511 c)" "ur_next 511 37 = Move [Mark] 253"
  "reg_code c \<Longrightarrow> moves [Mark] host_states (ur_next 522 c)" "ur_next 522 37 = Move [Mark] 258"
proof -
  show "moves [Mark] authority_states (ur_next 511 c)" if "reg_code c"
    using that unfolding reg_code_def by (elim disjE; simp add: ur_next_states ur_tr_defs uri_class_defs ur_state_511_def)
  show "moves [Mark] host_states (ur_next 522 c)" if "reg_code c"
    using that unfolding reg_code_def by (elim disjE; simp add: ur_next_states ur_tr_defs uri_class_defs ur_state_522_def)
qed (simp_all add: ur_next_states ur_tr_defs ur_state_511_def ur_state_522_def)

lemma next_hex:
  assumes "hex_code c"
  shows "ur_next (Suc 0) c = Move [] 2" "ur_next 2 c = Move [] 454" "ur_next 7 c = Move [] 8" "ur_next 8 c = Move [] 457" "ur_next 243 c = Move [] 244"
    "ur_next 244 c = Move [] 513" "ur_next 253 c = Move [] 254" "ur_next 254 c = Move [] 520" "ur_next 258 c = Move [] 259" "ur_next 259 c = Move [] 523"
  using assms unfolding hex_code_def
  by (elim disjE; simp add: ur_next_states ur_tr_defs ur_state_1_def ur_state_2_def ur_state_7_def ur_state_8_def ur_state_243_def ur_state_244_def ur_state_253_def
      ur_state_254_def ur_state_258_def ur_state_259_def)+

lemma next_scheme:
  "alpha_code c \<Longrightarrow> ur_next 451 c = Move [Mark] 508" "scheme_code c \<Longrightarrow> ur_next 508 c = Move [] 508" "ur_next 508 58 = Move [Save_scheme] 509"
  "ur_next 509 47 = Move [] 510" "ur_next 510 47 = Move [] 511"
  subgoal unfolding alpha_code_def by (elim disjE; simp add: ur_next_states ur_tr_defs ur_state_451_def)
  subgoal unfolding scheme_code_def alpha_code_def by (elim disjE; simp add: ur_next_states ur_tr_defs ur_state_508_def)
  by (simp_all add: ur_next_states ur_tr_defs ur_state_508_def ur_state_509_def ur_state_510_def)

lemma next_port:
  assumes "48 \<le> c" and "c \<le> 57"
  shows "ur_next 514 c = Move [Mark] 515" "ur_next 515 c = Move [] 515" "ur_next 521 c = Move [Mark] 542" "ur_next 542 c = Move [] 542"
  using assms by (simp_all add: ur_next_states ur_tr_defs ur_state_514_def ur_state_515_def ur_state_521_def ur_state_542_def)

lemma next_after_port:
  "ur_next 515 47 = Move [Save_port, Mark] 513" "ur_next 542 47 = Move [Save_port, Mark] 513"
  "ur_next 514 47 = Move [Mark, Save_port] 513" "ur_next 521 47 = Move [Mark, Save_port] 513"
  "ur_next 514 63 = Move [Mark, Save_port, Save_path] 456" "ur_next 521 63 = Move [Mark, Save_port, Save_path] 456"
  "ur_next 514 35 = Move [Mark, Save_port, Save_path] 453" "ur_next 521 35 = Move [Mark, Save_port, Save_path] 453"
  by (simp_all add: ur_next_states ur_tr_defs ur_state_514_def ur_state_515_def ur_state_521_def ur_state_542_def)

lemma next_path:
  "path_code c \<Longrightarrow> ur_next 513 c = Move [] 513" "ur_next 513 37 = Move [] 243" "ur_next 513 63 = Move [Save_path] 456" "ur_next 513 35 = Move [Save_path] 453"
  subgoal unfolding path_code_def reg_code_def by (elim disjE; simp add: ur_next_states ur_tr_defs ur_state_513_def)
  by (simp_all add: ur_next_states ur_tr_defs ur_state_513_def)

lemma next_query:
  "query_code c \<Longrightarrow> ur_next 456 c = Move [Mark] 457" "query_code c \<Longrightarrow> ur_next 457 c = Move [] 457" "ur_next 456 37 = Move [Mark] 7" "ur_next 457 37 = Move [] 7"
  "ur_next 457 35 = Move [Save_query] 453"
  subgoal unfolding query_code_def path_code_def reg_code_def by (elim disjE; simp add: ur_next_states ur_tr_defs ur_state_456_def)
  subgoal unfolding query_code_def path_code_def reg_code_def by (elim disjE; simp add: ur_next_states ur_tr_defs ur_state_457_def)
  by (simp_all add: ur_next_states ur_tr_defs ur_state_456_def ur_state_457_def)

lemma next_fragment:
  "query_code c \<Longrightarrow> ur_next 453 c = Move [Mark] 454" "query_code c \<Longrightarrow> ur_next 454 c = Move [] 454" "ur_next 453 37 = Move [Mark] (Suc 0)"
  "ur_next 454 37 = Move [] (Suc 0)"
  subgoal unfolding query_code_def path_code_def reg_code_def by (elim disjE; simp add: ur_next_states ur_tr_defs ur_state_453_def)
  subgoal unfolding query_code_def path_code_def reg_code_def by (elim disjE; simp add: ur_next_states ur_tr_defs ur_state_454_def)
  by (simp_all add: ur_next_states ur_tr_defs ur_state_453_def ur_state_454_def)

lemma eof_actions: "ur_eof 513 = [Save_path]" "ur_eof 457 = [Save_query]" "ur_eof 454 = [Save_fragment]" "ur_eof 514 = [Mark, Save_port, Save_path]"
    "ur_eof 521 = [Mark, Save_port, Save_path]"
  by (simp_all add: ur_eof_def)

end
