(* ===== verification/UriText.thy ===== *)
theory UriText
  imports UriParser UriClasses
begin

text \<open>
  \<open>Uri::Create\<close> on well-formed text. What \<open>Uri::dump\<close> prints is read back: scheme, user information, host, port, path, query and fragment are the
  printed ones. A URI with a colon and no port makes the parser build a string from a null pointer.
\<close>

section \<open>Steps of the loop\<close>

lemma ur_loop_step:
  assumes "has_at s p [c]" and "ur_next cs (char_code c) = Move as t" and "ur_actions s p as st = Inr st1"
  shows "ur_loop s p cs st = ur_loop s (p + 1) t st1"
  using assms by (subst ur_loop.simps) (auto simp: has_at_char)

lemma ur_loop_throws:
  assumes "has_at s p [c]" and "ur_next cs (char_code c) = Move as t" and "ur_actions s p as st = Inl e"
  shows "ur_loop s p cs st = Inl e"
  using assms by (subst ur_loop.simps) (auto simp: has_at_char)

lemma ur_loop_end: "ur_loop s (length s) cs st = map_sum id (\<lambda>st1. (cs, fst st1)) (ur_actions s (length s) (ur_eof cs) st)"
  by (subst ur_loop.simps) simp

lemma marked_text: "has_at s m v \<Longrightarrow> marked s (m + length v) (Some m) = Inr v"
  by (simp add: marked_def has_at_def)

lemma uri_codes: "char_code CHR '':'' = 58" "char_code CHR ''/'' = 47" "char_code CHR ''@'' = 64" "char_code CHR ''?'' = 63" "char_code CHR ''#'' = 35" "char_code CHR ''%'' = 37"
  by (simp_all add: char_code_def)

section \<open>Texts of octets\<close>

text \<open>Characters of some kind, and octets that are written as a percent sign and two digits.\<close>

function octets :: "(int \<Rightarrow> bool) \<Rightarrow> string \<Rightarrow> bool" where
  "octets code [] = True"
| "octets code (c # s) =
     (if c = CHR ''%'' then 2 \<le> length s \<and> hex_code (char_code (s ! 0)) \<and> hex_code (char_code (s ! 1)) \<and> octets code (drop 2 s)
      else code (char_code c) \<and> octets code s)"
  by pat_completeness auto
termination
  by (relation "measure (\<lambda>(code, s). length s)") auto

text \<open>The states in which such a text is read: a class of states and the two states inside of an encoded octet.\<close>

locale octet_states =
  fixes main :: "nat set" and pct :: nat and hex :: nat and code :: "int \<Rightarrow> bool"
  assumes next_code: "cs \<in> main \<Longrightarrow> code c \<Longrightarrow> \<exists>t \<in> main. ur_next cs c = Move [] t"
    and next_pct: "cs \<in> main \<Longrightarrow> ur_next cs 37 = Move [] pct"
    and next_first: "hex_code c \<Longrightarrow> ur_next pct c = Move [] hex"
    and next_second: "hex_code c \<Longrightarrow> \<exists>t \<in> main. ur_next hex c = Move [] t"
begin

lemma encoded_run:
  assumes "hex_code (char_code a)" and "hex_code (char_code b)" and "has_at s p [a, b]"
  shows "\<exists>t \<in> main. ur_loop s p pct st = ur_loop s (p + 2) t st"
proof -
  have at: "has_at s p [a]" "has_at s (p + 1) [b]" using assms(3) by (auto simp: has_at_Cons has_at_Nil)
  obtain t where t: "t \<in> main" "ur_next hex (char_code b) = Move [] t" using next_second [OF assms(2)] by blast
  have "ur_loop s p pct st = ur_loop s (p + 1) hex st" by (rule ur_loop_step [OF at(1) next_first [OF assms(1)]]) simp
  also have "\<dots> = ur_loop s (p + 1 + 1) t st" by (rule ur_loop_step [OF at(2) t(2)]) simp
  finally show ?thesis using t(1) by auto
qed

lemma octets_run:
  "octets code v \<Longrightarrow> cs \<in> main \<Longrightarrow> has_at s p v \<Longrightarrow> \<exists>t \<in> main. ur_loop s p cs st = ur_loop s (p + length v) t st"
proof (induction v arbitrary: cs p rule: length_induct)
  case (1 v)
  show ?case
  proof (cases v)
    case Nil
    then show ?thesis using "1.prems" by auto
  next
    case (Cons c w)
    have at: "has_at s p [c]" "has_at s (p + 1) w" using "1.prems"(3) by (auto simp: Cons has_at_Cons has_at_Nil)
    show ?thesis
    proof (cases "c = CHR ''%''")
      case True
      then obtain a b x where w: "w = a # b # x" "hex_code (char_code a)" "hex_code (char_code b)" "octets code x"
        using "1.prems"(1) Cons by (cases w; cases "tl w") (auto simp: numeral_2_eq_2)
      have at': "has_at s (p + 1) [a, b]" "has_at s (p + 1 + 2) x" using at(2) by (auto simp: w(1) has_at_Cons has_at_Nil)
      have "ur_loop s p cs st = ur_loop s (p + 1) pct st"
        using next_pct [OF "1.prems"(2)] True by (intro ur_loop_step [OF at(1), of cs "[]"]) (simp_all add: uri_codes)
      moreover obtain t where "t \<in> main" "ur_loop s (p + 1) pct st = ur_loop s (p + 1 + 2) t st" using encoded_run [OF w(2,3) at'(1)] by blast
      moreover obtain t' where "t' \<in> main" "ur_loop s (p + 1 + 2) t st = ur_loop s (p + 1 + 2 + length x) t' st"
        using "1.IH" [rule_format, of x t "p + 1 + 2"] w(1,4) Cons at'(2) calculation(2) by auto
      ultimately show ?thesis by (auto simp: Cons w(1))
    next
      case False
      then obtain t where t: "t \<in> main" "ur_next cs (char_code c) = Move [] t" using next_code [OF "1.prems"(2)] "1.prems"(1) Cons by auto
      have "ur_loop s p cs st = ur_loop s (p + 1) t st" by (rule ur_loop_step [OF at(1) t(2)]) simp
      moreover obtain t' where "t' \<in> main" "ur_loop s (p + 1) t st = ur_loop s (p + 1 + length w) t' st"
        using "1.IH" [rule_format, of w t "p + 1"] "1.prems"(1) False Cons at(2) t(1) by auto
      ultimately show ?thesis by (auto simp: Cons)
    qed
  qed
qed

end

text \<open>A state from which the text is entered, where its first character is marked.\<close>

locale marked_octets = octet_states +
  fixes entry :: nat
  assumes entry_code: "code c \<Longrightarrow> \<exists>t \<in> main. ur_next entry c = Move [Mark] t"
    and entry_pct: "ur_next entry 37 = Move [Mark] pct"
begin

lemma marked_run:
  assumes "octets code v" and "v \<noteq> []" and "has_at s p v"
  shows "\<exists>t \<in> main. ur_loop s p entry (u, mark) = ur_loop s (p + length v) t (u, Some p)"
proof -
  obtain c w where v: "v = c # w" using assms(2) by (cases v) auto
  have at: "has_at s p [c]" "has_at s (p + 1) w" using assms(3) by (auto simp: v has_at_Cons has_at_Nil)
  show ?thesis
  proof (cases "c = CHR ''%''")
    case True
    then obtain a b x where w: "w = a # b # x" "hex_code (char_code a)" "hex_code (char_code b)" "octets code x"
      using assms(1) v by (cases w; cases "tl w") (auto simp: numeral_2_eq_2)
    have at': "has_at s (p + 1) [a, b]" "has_at s (p + 1 + 2) x" using at(2) by (auto simp: w(1) has_at_Cons has_at_Nil)
    have "ur_loop s p entry (u, mark) = ur_loop s (p + 1) pct (u, Some p)"
      using entry_pct True by (intro ur_loop_step [OF at(1), of entry "[Mark]"]) (simp_all add: uri_codes ur_action_def)
    moreover obtain t where "t \<in> main" "ur_loop s (p + 1) pct (u, Some p) = ur_loop s (p + 1 + 2) t (u, Some p)" using encoded_run [OF w(2,3) at'(1)] by blast
    moreover obtain t' where "t' \<in> main" "ur_loop s (p + 1 + 2) t (u, Some p) = ur_loop s (p + 1 + 2 + length x) t' (u, Some p)"
      using octets_run [OF w(4) calculation(2) at'(2)] by blast
    ultimately show ?thesis by (auto simp: v w(1))
  next
    case False
    then obtain t where t: "t \<in> main" "ur_next entry (char_code c) = Move [Mark] t" using entry_code [of "char_code c"] assms(1) v by auto
    have "ur_loop s p entry (u, mark) = ur_loop s (p + 1) t (u, Some p)" by (rule ur_loop_step [OF at(1) t(2)]) (simp add: ur_action_def)
    moreover obtain t' where "t' \<in> main" "ur_loop s (p + 1) t (u, Some p) = ur_loop s (p + 1 + length w) t' (u, Some p)"
      using octets_run [OF _ t(1) at(2)] assms(1) False v by auto
    ultimately show ?thesis by (auto simp: v)
  qed
qed

end

lemma moves_ex: "moves as ss j \<Longrightarrow> \<exists>t \<in> set ss. j = Move as t"
  by (cases j) auto

interpretation authority: marked_octets "set authority_states" 253 254 reg_code 511
  by (unfold_locales; (intro moves_ex)?) (simp_all add: next_authority_reg next_authority_pct next_hex next_authority_entry authority_states_mem)

interpretation host: marked_octets "set host_states" 258 259 reg_code 522
  by (unfold_locales; (intro moves_ex)?) (simp_all add: next_host_reg next_host_pct next_hex next_authority_entry host_states_mem)

interpretation path: octet_states "{513}" 243 244 path_code
  by unfold_locales (simp_all add: next_path next_hex)

interpretation query: marked_octets "{457}" 7 8 query_code 456
  by unfold_locales (simp_all add: next_query next_hex)

interpretation fragment: marked_octets "{454}" "Suc 0" 2 query_code 453
  by unfold_locales (simp_all add: next_fragment next_hex)

section \<open>The parts of a URI\<close>

text \<open>The scheme and the two slashes.\<close>

definition scheme_ok :: "string \<Rightarrow> bool" where
  "scheme_ok v \<longleftrightarrow> v \<noteq> [] \<and> alpha_code (char_code (hd v)) \<and> list_all (\<lambda>c. scheme_code (char_code c)) (tl v)"

lemma same_state_run:
  assumes "list_all (\<lambda>c. ur_next cs (char_code c) = Move [] cs) v" and "has_at s p v"
  shows "ur_loop s p cs st = ur_loop s (p + length v) cs st"
  using assms
proof (induction v arbitrary: p)
  case (Cons c v)
  have "has_at s p [c]" "has_at s (p + 1) v" using Cons.prems(2) by (auto simp: has_at_Cons has_at_Nil)
  then show ?case using ur_loop_step [of s p c cs "[]" cs st st] Cons by simp
qed simp

lemma scheme_run:
  assumes ok: "scheme_ok v" and here: "has_at s 0 (v @ ''://'')"
  shows "ur_loop s 0 451 (u, mark) = ur_loop s (length v + 3) 511 (u\<lparr>u_scheme := v\<rparr>, None)"
proof -
  obtain c w where v: "v = c # w" using ok by (cases v) (auto simp: scheme_ok_def)
  have at: "has_at s 0 [c]" "has_at s (0 + 1) w" "has_at s (0 + 1 + length w) '':''" "has_at s (0 + 1 + length w + 1) ''/''" "has_at s (0 + 1 + length w + 1 + 1) ''/''" "has_at s 0 v"
    using here by (auto simp: v has_at_append has_at_Cons has_at_Nil)
  have "ur_loop s 0 451 (u, mark) = ur_loop s (0 + 1) 508 (u, Some 0)"
    using ok by (intro ur_loop_step [OF at(1) next_scheme(1)]) (auto simp: scheme_ok_def v ur_action_def)
  also have "\<dots> = ur_loop s (0 + 1 + length w) 508 (u, Some 0)"
    using ok by (intro same_state_run [OF _ at(2)]) (auto simp: scheme_ok_def v list_all_iff next_scheme(2))
  also have "\<dots> = ur_loop s (0 + 1 + length w + 1) 509 (u\<lparr>u_scheme := v\<rparr>, None)"
    using marked_text [OF at(6)] by (intro ur_loop_step [OF at(3), of _ "[Save_scheme]"]) (simp_all add: uri_codes next_scheme ur_action_def v)
  also have "\<dots> = ur_loop s (0 + 1 + length w + 1 + 1) 510 (u\<lparr>u_scheme := v\<rparr>, None)"
    by (rule ur_loop_step [OF at(4), of _ "[]"]) (simp_all add: uri_codes next_scheme)
  also have "\<dots> = ur_loop s (0 + 1 + length w + 1 + 1 + 1) 511 (u\<lparr>u_scheme := v\<rparr>, None)"
    by (rule ur_loop_step [OF at(5), of _ "[]"]) (simp_all add: uri_codes next_scheme)
  finally show ?thesis by (simp add: v add_ac eval_nat_numeral)
qed

text \<open>The end: a query, a fragment, or nothing.\<close>

definition tail_text :: "string \<Rightarrow> string \<Rightarrow> string" where
  "tail_text query fragment = (if query = [] then [] else ''?'' @ query) @ (if fragment = [] then [] else ''#'' @ fragment)"

lemma fragment_run:
  assumes "octets query_code v" and "v \<noteq> []" and "has_at s p v" and "p + length v = length s"
  shows "ur_loop s p 453 (u, mark) = Inr (454, u\<lparr>u_fragment := v\<rparr>)"
proof -
  have "ur_loop s p 453 (u, mark) = ur_loop s (length s) 454 (u, Some p)" using fragment.marked_run [OF assms(1-3)] assms(4) by simp
  then show ?thesis using marked_text [OF assms(3)] assms(4) by (simp add: ur_loop_end eof_actions ur_action_def)
qed

lemma query_run:
  assumes "octets query_code v" and "v \<noteq> []" and "octets query_code f" and "has_at s p (v @ tail_text [] f)" and "p + length (v @ tail_text [] f) = length s"
  shows "\<exists>cs \<ge> 451. ur_loop s p 456 (u, mark) = Inr (cs, u\<lparr>u_query := v, u_fragment := if f = [] then u_fragment u else f\<rparr>)"
proof -
  have at: "has_at s p v" using assms(4) by (simp add: has_at_append)
  have 1: "ur_loop s p 456 (u, mark) = ur_loop s (p + length v) 457 (u, Some p)" using query.marked_run [OF assms(1,2) at] by simp
  show ?thesis
  proof (cases "f = []")
    case True
    then show ?thesis using 1 marked_text [OF at] assms(5) by (simp add: tail_text_def ur_loop_end eof_actions ur_action_def)
  next
    case False
    then have at': "has_at s (p + length v) ''#''" "has_at s (p + length v + 1) f" using assms(4) by (auto simp: tail_text_def has_at_append has_at_Cons has_at_Nil)
    have "ur_loop s (p + length v) 457 (u, Some p) = ur_loop s (p + length v + 1) 453 (u\<lparr>u_query := v\<rparr>, None)"
      using marked_text [OF at] by (intro ur_loop_step [OF at'(1), of _ "[Save_query]"]) (simp_all add: uri_codes next_query ur_action_def)
    also have "\<dots> = Inr (454, u\<lparr>u_query := v, u_fragment := f\<rparr>)"
      using fragment_run [OF assms(3) False at'(2)] assms(5) False by (simp add: tail_text_def)
    finally show ?thesis using 1 False by auto
  qed
qed

lemma path_run:
  assumes "octets path_code v" and "octets query_code q" and "octets query_code f" and "has_at s p ((CHR ''/'' # v) @ tail_text q f)"
    and "p + length ((CHR ''/'' # v) @ tail_text q f) = length s"
  shows "\<exists>cs \<ge> 451. ur_loop s (p + 1) 513 (u, Some p) = Inr (cs, u\<lparr>u_path := CHR ''/'' # v, u_query := if q = [] then u_query u else q, u_fragment := if f = [] then u_fragment u else f\<rparr>)"
proof -
  have at: "has_at s p (CHR ''/'' # v)" "has_at s (p + 1) v" using assms(4) by (auto simp: has_at_append has_at_Cons)
  let ?p = "p + 1 + length v"
  have m: "marked s ?p (Some p) = Inr (CHR ''/'' # v)" using marked_text [OF at(1)] by simp
  have 1: "ur_loop s (p + 1) 513 (u, Some p) = ur_loop s ?p 513 (u, Some p)" using path.octets_run [OF assms(1) _ at(2)] by simp
  show ?thesis
  proof (cases "q = []")
    case False
    then have at': "has_at s ?p ''?''" "has_at s (?p + 1) (q @ tail_text [] f)" using assms(4) by (auto simp: tail_text_def has_at_append has_at_Cons has_at_Nil add_ac)
    have "ur_loop s ?p 513 (u, Some p) = ur_loop s (?p + 1) 456 (u\<lparr>u_path := CHR ''/'' # v\<rparr>, None)"
      using m by (intro ur_loop_step [OF at'(1), of _ "[Save_path]"]) (simp_all add: uri_codes next_path ur_action_def)
    moreover have "?p + 1 + length (q @ tail_text [] f) = length s" using assms(5) False by (simp add: tail_text_def)
    ultimately show ?thesis using query_run [OF assms(2) False assms(3) at'(2), of "u\<lparr>u_path := CHR ''/'' # v\<rparr>" None] 1 False by auto
  next
    case q: True
    show ?thesis
    proof (cases "f = []")
      case True
      then show ?thesis using 1 m assms(5) q by (simp add: tail_text_def ur_loop_end eof_actions ur_action_def)
    next
      case False
      then have at': "has_at s ?p ''#''" "has_at s (?p + 1) f" using assms(4) q by (auto simp: tail_text_def has_at_append has_at_Cons has_at_Nil)
      have "ur_loop s ?p 513 (u, Some p) = ur_loop s (?p + 1) 453 (u\<lparr>u_path := CHR ''/'' # v\<rparr>, None)"
        using m by (intro ur_loop_step [OF at'(1), of _ "[Save_path]"]) (simp_all add: uri_codes next_path ur_action_def)
      also have "\<dots> = Inr (454, u\<lparr>u_path := CHR ''/'' # v, u_fragment := f\<rparr>)"
        using fragment_run [OF assms(3) False at'(2)] assms(5) False q by (simp add: tail_text_def)
      finally show ?thesis using 1 q False by auto
    qed
  qed
qed

text \<open>The port, in the states behind a host that may be user information and behind a host that follows user information.\<close>

lemma port_run:
  assumes states: "(before, inside) = (514, 515 :: nat) \<or> (before, inside) = (521, 542)" and n: "n < 2 ^ 31" and here: "has_at s p (dec_of_nat n @ ''/'')"
  shows "ur_loop s p before (u, mark) = ur_loop s (p + length (dec_of_nat n) + 1) 513 (u\<lparr>u_port := int n\<rparr>, Some (p + length (dec_of_nat n)))"
proof -
  obtain d ds where ds: "dec_of_nat n = d # ds" using dec_of_nat_digits [of n] by (cases "dec_of_nat n") auto
  have digits: "digit_char d" "list_all digit_char ds" using dec_of_nat_digits [of n] by (simp_all add: ds)
  have at: "has_at s p [d]" "has_at s (p + 1) ds" "has_at s (p + 1 + length ds) ''/''" using here by (auto simp: ds has_at_append has_at_Cons has_at_Nil)
  obtain rest where rest: "drop p s = dec_of_nat n @ CHR ''/'' # rest"
    using here append_take_drop_id [of "length (dec_of_nat n @ ''/'')" "drop p s"] by (simp add: has_at_def) metis
  have "c_atoi (drop p s) = int n" unfolding rest by (rule c_atoi_dec [OF n]) (simp add: digit_value_def)
  then have save: "ur_actions s (p + 1 + length ds) [Save_port, Mark] (u, Some p) = Inr (u\<lparr>u_port := int n\<rparr>, Some (p + 1 + length ds))"
    by (simp add: ur_action_def)
  have "ur_loop s p before (u, mark) = ur_loop s (p + 1) inside (u, Some p)"
    using states next_port [of "char_code d"] digits(1) by (intro ur_loop_step [OF at(1), of _ "[Mark]"]) (auto simp: digit_char_def ur_action_def)
  also have "\<dots> = ur_loop s (p + 1 + length ds) inside (u, Some p)"
    using states digits(2) by (intro same_state_run [OF _ at(2)]) (auto simp: list_all_iff digit_char_def next_port)
  also have "\<dots> = ur_loop s (p + 1 + length ds + 1) 513 (u\<lparr>u_port := int n\<rparr>, Some (p + 1 + length ds))"
    using states by (intro ur_loop_step [OF at(3) _ save]) (auto simp: uri_codes next_after_port)
  finally show ?thesis by (simp add: ds)
qed

definition port_text :: "nat option \<Rightarrow> string" where
  "port_text port = (case port of None \<Rightarrow> [] | Some n \<Rightarrow> '':'' @ dec_of_nat n)"

lemma host_end_run:
  assumes states: "cs \<in> set authority_states \<or> cs \<in> set host_states" and port: "pred_option (\<lambda>n. n < 2 ^ 31) port"
    and here: "has_at s m v" and behind: "has_at s (m + length v) (port_text port @ ''/'')"
  shows "ur_loop s (m + length v) cs (u, Some m) = ur_loop s (m + length v + length (port_text port) + 1) 513
    (u\<lparr>u_host := v, u_port := case port of None \<Rightarrow> u_port u | Some n \<Rightarrow> int n\<rparr>, Some (m + length v + length (port_text port)))"
proof (cases port)
  case None
  then have at: "has_at s (m + length v) ''/''" using behind by (simp add: port_text_def)
  have "ur_loop s (m + length v) cs (u, Some m) = ur_loop s (m + length v + 1) 513 (u\<lparr>u_host := v\<rparr>, Some (m + length v))"
    using states marked_text [OF here]
    by (intro ur_loop_step [OF at, of _ "[Save_host, Mark]"]) (auto simp: uri_codes next_authority_slash next_host_slash ur_action_def)
  then show ?thesis using None by (simp add: port_text_def)
next
  case (Some n)
  then have at: "has_at s (m + length v) '':''" "has_at s (m + length v + 1) (dec_of_nat n @ ''/'')" and n: "n < 2 ^ 31"
    using behind port by (auto simp: port_text_def has_at_append has_at_Cons has_at_Nil add_ac)
  obtain before inside where bi: "ur_next cs 58 = Move [Save_host] before" "(before, inside) = (514, 515) \<or> (before, inside) = (521, 542 :: nat)"
    using states next_authority_colon next_host_colon by metis
  have "ur_loop s (m + length v) cs (u, Some m) = ur_loop s (m + length v + 1) before (u\<lparr>u_host := v\<rparr>, Some m)"
    using bi(1) marked_text [OF here] by (intro ur_loop_step [OF at(1), of _ "[Save_host]"]) (simp_all add: uri_codes ur_action_def)
  also note port_run [OF bi(2) n at(2)]
  finally show ?thesis using Some by (simp add: port_text_def)
qed

text \<open>User information, when there is some, and the host.\<close>

definition userinfo_text :: "string \<Rightarrow> string" where
  "userinfo_text v = (if v = [] then [] else v @ ''@'')"

lemma authority_run:
  assumes ok: "octets reg_code ui" "octets reg_code v" "v \<noteq> []" and port: "pred_option (\<lambda>n. n < 2 ^ 31) port"
    and here: "has_at s p (userinfo_text ui @ v @ port_text port @ ''/'')"
  shows "ur_loop s p 511 (u, None) = ur_loop s (p + length (userinfo_text ui @ v @ port_text port) + 1) 513
    (u\<lparr>u_userinfo := if ui = [] then u_userinfo u else ui, u_host := v, u_port := case port of None \<Rightarrow> u_port u | Some n \<Rightarrow> int n\<rparr>,
     Some (p + length (userinfo_text ui @ v @ port_text port)))"
proof (cases "ui = []")
  case True
  then have at: "has_at s p v" "has_at s (p + length v) (port_text port @ ''/'')" using here by (simp_all add: userinfo_text_def has_at_append)
  obtain t where t: "t \<in> set authority_states" "ur_loop s p 511 (u, None) = ur_loop s (p + length v) t (u, Some p)"
    using authority.marked_run [OF ok(2,3) at(1)] by blast
  show ?thesis using t(2) host_end_run [OF _ port at, of t u] t(1) True by (simp add: userinfo_text_def add_ac)
next
  case False
  let ?m = "p + length ui + 1"
  have at: "has_at s p ui" "has_at s (p + length ui) ''@''" "has_at s ?m v" "has_at s (?m + length v) (port_text port @ ''/'')"
    using here False by (simp_all add: userinfo_text_def has_at_append has_at_Cons has_at_Nil add_ac)
  obtain t where t: "t \<in> set authority_states" "ur_loop s p 511 (u, None) = ur_loop s (p + length ui) t (u, Some p)"
    using authority.marked_run [OF ok(1) False at(1)] by blast
  have "ur_loop s (p + length ui) t (u, Some p) = ur_loop s ?m 522 (u\<lparr>u_userinfo := ui\<rparr>, None)"
    using t(1) marked_text [OF at(1)] by (intro ur_loop_step [OF at(2), of _ "[Save_userinfo]"]) (simp_all add: uri_codes next_authority_at ur_action_def)
  moreover obtain t' where "t' \<in> set host_states" "ur_loop s ?m 522 (u\<lparr>u_userinfo := ui\<rparr>, None) = ur_loop s (?m + length v) t' (u\<lparr>u_userinfo := ui\<rparr>, Some ?m)"
    using host.marked_run [OF ok(2,3) at(3)] by blast
  ultimately show ?thesis using t(2) host_end_run [OF _ port at(3,4), of t' "u\<lparr>u_userinfo := ui\<rparr>"] False by (simp add: userinfo_text_def add_ac cong: option.case_cong)
qed

section \<open>Printing and parsing\<close>

text \<open>
  The URIs that can be printed: each part consists of the characters that RFC 3986 allows there or of encoded octets, the host is a name or an IPv4 address, and a path
  begins with a slash.
\<close>

definition uri_ok :: "uri \<Rightarrow> bool" where
  "uri_ok u \<longleftrightarrow> scheme_ok (u_scheme u) \<and> octets reg_code (u_userinfo u) \<and> u_host u \<noteq> [] \<and> octets reg_code (u_host u) \<and> 0 \<le> u_port u \<and> u_port u < 2 ^ 31
     \<and> (u_path u = [] \<or> hd (u_path u) = CHR ''/'' \<and> octets path_code (tl (u_path u))) \<and> octets query_code (u_query u) \<and> octets query_code (u_fragment u)"

definition printed_port :: "uri \<Rightarrow> nat option" where
  "printed_port u = (if isDefaultPort u then None else Some (nat (u_port u)))"

lemma uri_dump_parts:
  assumes "uri_ok u"
  obtains v where "Uri_getPath u = CHR ''/'' # v" and "octets path_code v"
    and "Uri_dump u = (u_scheme u @ ''://'') @ (userinfo_text (u_userinfo u) @ u_host u @ port_text (printed_port u)) @ (CHR ''/'' # v) @ tail_text (u_query u) (u_fragment u)"
proof
  let ?v = "tl (Uri_getPath u)"
  show path: "Uri_getPath u = CHR ''/'' # ?v" "octets path_code ?v" using assms by (cases "u_path u"; auto simp: uri_ok_def Uri_getPath_def)+
  have "port_text (printed_port u) = (if isDefaultPort u then [] else '':'' @ dec_of_int (u_port u))"
    using assms by (simp add: printed_port_def port_text_def dec_of_int_def uri_ok_def)
  then show "Uri_dump u = (u_scheme u @ ''://'') @ (userinfo_text (u_userinfo u) @ u_host u @ port_text (printed_port u)) @ (CHR ''/'' # ?v) @ tail_text (u_query u) (u_fragment u)"
    using path(1) by (simp add: Uri_dump_def userinfo_text_def tail_text_def)
qed



section \<open>Where the parser goes wrong\<close>

text \<open>What may follow the colon of an empty port.\<close>

definition portless :: "string \<Rightarrow> bool" where
  "portless rest \<longleftrightarrow> rest = [] \<or> hd rest = CHR ''?'' \<or> hd rest = CHR ''#'' \<or> hd rest = CHR ''/'' \<and> octets path_code (tl rest)"

lemma empty_port_run:
  assumes "portless rest" and "has_at s p rest" and "p + length rest = length s"
  shows "ur_loop s p 521 (u, mark) = Inl Null_string"
proof (cases rest)
  case Nil
  then show ?thesis using assms(3) by (simp add: ur_loop_end eof_actions ur_action_def marked_def)
next
  case (Cons c v)
  then have at: "has_at s p [c]" "has_at s (p + 1) v" using assms(2) by (auto simp: has_at_Cons has_at_Nil)
  consider "c = CHR ''?'' \<or> c = CHR ''#''" | "c = CHR ''/''" "octets path_code v" using assms(1) Cons by (auto simp: portless_def)
  then show ?thesis
  proof cases
    case 1
    then show ?thesis by (intro ur_loop_throws [OF at(1), of _ "[Mark, Save_port, Save_path]" "if c = CHR ''?'' then 456 else 453"])
      (auto simp: uri_codes next_after_port ur_action_def marked_def)
  next
    case 2
    have "ur_loop s p 521 (u, mark) = ur_loop s (p + 1) 513 (u, None)"
      using 2(1) by (intro ur_loop_step [OF at(1), of _ "[Mark, Save_port]"]) (simp_all add: uri_codes next_after_port ur_action_def)
    also have "\<dots> = ur_loop s (length s) 513 (u, None)" using path.octets_run [OF 2(2) _ at(2)] assms(3) Cons by simp
    finally show ?thesis by (simp add: ur_loop_end eof_actions ur_action_def marked_def)
  qed
qed

text \<open>
  C39. A URI with a colon but no port digits after its host, which RFC 3986 allows, is never parsed: saving the empty port clears the mark that the path begins with, and the
  path is then built from a null pointer, which throws.
\<close>

theorem uri_empty_port_throws:
  assumes "scheme_ok scheme" and "octets reg_code host" and "host \<noteq> []" and "portless rest"
  shows "Uri_Create (scheme @ ''://'' @ host @ '':'' @ rest) = Inl Null_string"
proof -
  let ?s = "scheme @ ''://'' @ host @ '':'' @ rest" let ?p = "length scheme + 3"
  have "has_at ?s 0 ?s" by (simp add: has_at_def)
  then have at: "has_at ?s 0 (scheme @ ''://'')" "has_at ?s ?p host" "has_at ?s (?p + length host) '':''" "has_at ?s (?p + length host + 1) rest"
    by (auto simp: has_at_append has_at_Cons has_at_Nil add_ac eval_nat_numeral)
  obtain t where t: "t \<in> set authority_states"
      "ur_loop ?s ?p 511 (new_Uri\<lparr>u_scheme := scheme\<rparr>, None) = ur_loop ?s (?p + length host) t (new_Uri\<lparr>u_scheme := scheme\<rparr>, Some ?p)"
    using authority.marked_run [OF assms(2,3) at(2)] by blast
  have "ur_loop ?s (?p + length host) t (new_Uri\<lparr>u_scheme := scheme\<rparr>, Some ?p)
      = ur_loop ?s (?p + length host + 1) 521 (new_Uri\<lparr>u_scheme := scheme, u_host := host\<rparr>, Some ?p)"
    using t(1) marked_text [OF at(2)] by (intro ur_loop_step [OF at(3), of _ "[Save_host]"]) (simp_all add: uri_codes next_authority_colon ur_action_def)
  also have "\<dots> = Inl Null_string" by (rule empty_port_run [OF assms(4) at(4)]) simp
  finally have "ur_loop ?s 0 451 (new_Uri, None) = Inl Null_string" using scheme_run [OF assms(1) at(1)] t(2) by simp
  then show ?thesis by (simp add: Uri_Create_def uri_parser_start_def)
qed

theorem uri_empty_port_throws_witness: "Uri_Create ''http://example.org:/index.html'' = Inl Null_string"
  using uri_empty_port_throws [of "''http''" "''example.org''" "''/index.html''"]
  by (simp add: scheme_ok_def alpha_code_def scheme_code_def reg_code_def path_code_def char_code_def portless_def)

text \<open>The path of a reference that has no scheme is read and not kept.\<close>

lemma next_absolute_path:
  "ur_next 451 47 = Move [] 458" "reg_code c \<Longrightarrow> ur_next 458 c = Move [] 455" "reg_code c \<Longrightarrow> ur_next 455 c = Move [] 455" "ur_eof 455 = []"
  subgoal by (simp add: ur_next_def ur_rows_def ur_state_451_def)
  subgoal unfolding reg_code_def by (elim disjE; simp add: ur_next_def ur_rows_def ur_tr_defs ur_state_458_def)
  subgoal unfolding reg_code_def by (elim disjE; simp add: ur_next_def ur_rows_def ur_state_455_def)
  by (simp add: ur_eof_def)

lemma absolute_path_dropped:
  assumes "list_all (\<lambda>c. reg_code (char_code c)) v" and "v \<noteq> []"
  shows "Uri_Create (CHR ''/'' # v) = Inr (Some new_Uri)"
proof -
  let ?s = "CHR ''/'' # v"
  obtain c w where v: "v = c # w" using assms(2) by (cases v) auto
  have "has_at ?s 0 ?s" by (simp add: has_at_def)
  then have at: "has_at ?s 0 ''/''" "has_at ?s (0 + 1) [c]" "has_at ?s (0 + 1 + 1) w" by (auto simp: v has_at_Cons has_at_Nil)
  have "ur_loop ?s 0 451 (new_Uri, None) = ur_loop ?s (0 + 1) 458 (new_Uri, None)"
    by (rule ur_loop_step [OF at(1), of _ "[]"]) (simp_all add: uri_codes next_absolute_path)
  also have "\<dots> = ur_loop ?s (0 + 1 + 1) 455 (new_Uri, None)"
    using assms(1) by (intro ur_loop_step [OF at(2), of _ "[]"]) (simp_all add: next_absolute_path v)
  also have "\<dots> = ur_loop ?s (0 + 1 + 1 + length w) 455 (new_Uri, None)"
    using assms(1) by (intro same_state_run [OF _ at(3)]) (auto simp: list_all_iff next_absolute_path v)
  also have "\<dots> = Inr (455, new_Uri)" using ur_loop_end [of ?s 455 "(new_Uri, None)"] by (simp add: v next_absolute_path)
  finally show ?thesis by (simp add: Uri_Create_def uri_parser_start_def uri_parser_error_def uri_parser_first_final_def)
qed

end
