(* ===== verification/FdManager.thy ===== *)
theory FdManager
  imports Prelude
begin

text \<open>
  The descriptor table behind the hooked system calls (\<open>sylar/fd_manager.h\<close>, \<open>sylar/fd_manager.cpp\<close>).
  The operating system is a parameter: a record of its calls on a kernel state of any type, with \<open>errno\<close> as
  a cell that can be read and written. A descriptor is an \<open>int\<close>; a comparison with \<open>size()\<close> and an index convert it to 64 bits unsigned.
\<close>

abbreviation O_NONBLOCK :: u32 where "O_NONBLOCK \<equiv> 0x800"
abbreviation SOL_SOCKET :: int where "SOL_SOCKET \<equiv> 1"
abbreviation SO_RCVTIMEO :: int where "SO_RCVTIMEO \<equiv> 20"
abbreviation SO_SNDTIMEO :: int where "SO_SNDTIMEO \<equiv> 21"

datatype fcntl_cmd =
    F_DUPFD | F_GETFD | F_SETFD | F_GETFL | F_SETFL | F_GETLK | F_SETLK | F_SETLKW | F_SETOWN | F_GETOWN | F_SETSIG | F_GETSIG
  | F_SETOWN_EX | F_GETOWN_EX | F_SETLEASE | F_GETLEASE | F_NOTIFY | F_DUPFD_CLOEXEC | F_SETPIPE_SZ | F_GETPIPE_SZ | F_other nat

text \<open>What is passed on to \<open>fcntl_f\<close> as third argument.\<close>

datatype fcntl_arg = No_arg | Int_arg u32 | Ptr_arg nat

text \<open>
  The calls of the operating system: \<open>os_fstat\<close> gives \<open>None\<close> on failure and otherwise whether the descriptor
  is a socket; the value of \<open>fcntl\<close> and the argument that \<open>FIONBIO\<close> points to are \<open>int\<close>s of 32 bits.
\<close>

record 'k os =
  os_errno :: "'k \<Rightarrow> int"
  os_set_errno :: "int \<Rightarrow> 'k \<Rightarrow> 'k"
  os_fstat :: "int \<Rightarrow> 'k \<Rightarrow> bool option \<times> 'k"
  os_fcntl :: "int \<Rightarrow> fcntl_cmd \<Rightarrow> fcntl_arg \<Rightarrow> 'k \<Rightarrow> u32 \<times> 'k"

record FdCtx =
  m_isInit :: bool
  m_isSocket :: bool
  m_sysNonblock :: bool
  m_userNonblock :: bool
  m_isClosed :: bool
  m_fd :: int
  m_recvTimeout :: u64
  m_sendTimeout :: u64

datatype fd_error = Index_out_of_range

text \<open>\<open>FdCtx::init\<close>; the setters and getters of the header are the record's own.\<close>

definition FdCtx_init :: "'k os \<Rightarrow> FdCtx \<Rightarrow> 'k \<Rightarrow> bool \<times> FdCtx \<times> 'k" where
  "FdCtx_init os c k =
     (if m_isInit c then (True, c, k)
      else let c1 = c\<lparr>m_recvTimeout := - 1, m_sendTimeout := - 1\<rparr>;
               (st, k1) = os_fstat os (m_fd c1) k;
               c2 = (case st of None \<Rightarrow> c1\<lparr>m_isInit := False, m_isSocket := False\<rparr>
                              | Some sock \<Rightarrow> c1\<lparr>m_isInit := True, m_isSocket := sock\<rparr>);
               (c3, k3) =
                 (if m_isSocket c2 then
                    let (flags, k2) = os_fcntl os (m_fd c2) F_GETFL (Int_arg 0) k1;
                        k2' = (if flags AND O_NONBLOCK = 0 then snd (os_fcntl os (m_fd c2) F_SETFL (Int_arg (flags OR O_NONBLOCK)) k2) else k2)
                    in (c2\<lparr>m_sysNonblock := True\<rparr>, k2')
                  else (c2\<lparr>m_sysNonblock := False\<rparr>, k1));
               c4 = c3\<lparr>m_userNonblock := False, m_isClosed := False\<rparr>
           in (m_isInit c4, c4, k3))"

definition new_FdCtx :: "'k os \<Rightarrow> int \<Rightarrow> 'k \<Rightarrow> FdCtx \<times> 'k" where
  "new_FdCtx os fd k =
     snd (FdCtx_init os \<lparr>m_isInit = False, m_isSocket = False, m_sysNonblock = False, m_userNonblock = False,
                         m_isClosed = False, m_fd = fd, m_recvTimeout = - 1, m_sendTimeout = - 1\<rparr> k)"

definition setTimeout :: "int \<Rightarrow> u64 \<Rightarrow> FdCtx \<Rightarrow> FdCtx" where
  "setTimeout type v c = (if type = SO_RCVTIMEO then c\<lparr>m_recvTimeout := v\<rparr> else c\<lparr>m_sendTimeout := v\<rparr>)"

definition getTimeout :: "int \<Rightarrow> FdCtx \<Rightarrow> u64" where
  "getTimeout type c = (if type = SO_RCVTIMEO then m_recvTimeout c else m_sendTimeout c)"

definition new_FdManager :: "FdCtx option list" where
  "new_FdManager = replicate 64 None"

definition fd_index :: "int \<Rightarrow> nat" where
  "fd_index fd = unat (word_of_int fd :: u64)"

text \<open>\<open>FdManager::get\<close>: the look under the read lock (\<open>Some\<close>: return that), and the creation under the write lock.\<close>

definition get_look :: "int \<Rightarrow> bool \<Rightarrow> FdCtx option list \<Rightarrow> FdCtx option option" where
  "get_look fd auto_create datas =
     (if length datas \<le> fd_index fd then (if \<not> auto_create then Some None else None)
      else if datas ! fd_index fd \<noteq> None \<or> \<not> auto_create then Some (datas ! fd_index fd) else None)"

definition get_create :: "'k os \<Rightarrow> int \<Rightarrow> FdCtx option list \<times> 'k \<Rightarrow> (fd_error + FdCtx option) \<times> FdCtx option list \<times> 'k" where
  "get_create os fd = (\<lambda>(datas, k).
     let (ctx, k1) = new_FdCtx os fd k in
     if fd_index fd < length datas then (Inr (Some ctx), datas[fd_index fd := Some ctx], k1)
     else (Inl Index_out_of_range, datas, k1))"

definition FdManager_get :: "'k os \<Rightarrow> int \<Rightarrow> bool \<Rightarrow> FdCtx option list \<times> 'k \<Rightarrow> (fd_error + FdCtx option) \<times> FdCtx option list \<times> 'k" where
  "FdManager_get os fd auto_create s =
     (case get_look fd auto_create (fst s) of
        Some r \<Rightarrow> (Inr r, s)
      | None \<Rightarrow> get_create os fd s)"

definition FdManager_del :: "int \<Rightarrow> FdCtx option list \<Rightarrow> FdCtx option list" where
  "FdManager_del fd datas = (if length datas \<le> fd_index fd then datas else datas[fd_index fd := None])"

subsection \<open>Behaviour\<close>

lemma fd_index_nat: "0 \<le> fd \<Longrightarrow> fd < 2 ^ 31 \<Longrightarrow> fd_index fd = nat fd"
  by (simp add: fd_index_def unat_eq_nat_uint uint_word_of_int take_bit_int_eq_self)

lemma fd_index_neg: "- (2 ^ 31) \<le> fd \<Longrightarrow> fd < 0 \<Longrightarrow> 2 ^ 63 \<le> fd_index fd"
proof -
  assume b: "- (2 ^ 31) \<le> fd" "fd < 0"
  have "fd mod 2 ^ 64 = fd + 2 ^ 64"
    using b mod_add_self2 [of fd "2 ^ 64"] mod_pos_pos_trivial [of "fd + 2 ^ 64" "2 ^ 64"] by simp
  then have "uint (word_of_int fd :: u64) = fd + 2 ^ 64" by (simp add: uint_word_of_int take_bit_eq_mod)
  then show ?thesis using b by (simp add: fd_index_def unat_eq_nat_uint)
qed

text \<open>A lookup without creation never touches the table or the kernel, and never leaves the table.\<close>

lemma get_plain: "FdManager_get os fd False s = (Inr (if fd_index fd < length (fst s) then fst s ! fd_index fd else None), s)"
  by (simp add: FdManager_get_def get_look_def)

lemma get_del: "fst (FdManager_get os fd False (FdManager_del fd datas, k)) = Inr None"
  by (simp add: get_plain FdManager_del_def)

lemma get_create_inside:
  assumes "fd_index fd < length (fst s)"
  shows "\<exists>c datas k'. FdManager_get os fd True s = (Inr (Some c), datas, k') \<and> length datas = length (fst s)
    \<and> FdManager_get os fd False (datas, k') = (Inr (Some c), datas, k')"
proof (cases "fst s ! fd_index fd")
  case None
  obtain c k' where c: "new_FdCtx os fd (snd s) = (c, k')" by force
  have "FdManager_get os fd True s = (Inr (Some c), (fst s)[fd_index fd := Some c], k')"
    using None assms c by (cases s) (simp add: FdManager_get_def get_look_def get_create_def)
  then show ?thesis using assms by (simp add: get_plain)
next
  case (Some c)
  then show ?thesis using assms by (cases s) (auto simp: FdManager_get_def get_look_def)
qed

text \<open>Creating a context for a descriptor beyond the 64 entries indexes the vector out of range.\<close>

lemma get_create_outside: "length (fst s) \<le> fd_index fd \<Longrightarrow> fst (FdManager_get os fd True s) = Inl Index_out_of_range"
  by (cases s) (simp add: FdManager_get_def get_look_def get_create_def Let_def split: prod.split)

lemma get_length: "FdManager_get os fd auto_create s = (r, datas, k') \<Longrightarrow> length datas = length (fst s)"
  by (cases s) (auto simp: FdManager_get_def get_create_def Let_def split: option.splits prod.splits if_splits)

lemma timeout_set_get:
  assumes "type = SO_RCVTIMEO \<or> type = SO_SNDTIMEO" and "type' = SO_RCVTIMEO \<or> type' = SO_SNDTIMEO"
  shows "getTimeout type' (setTimeout type v c) = (if type = type' then v else getTimeout type' c)"
  using assms by (auto simp: getTimeout_def setTimeout_def)

text \<open>A new context of a socket: blocking for the user, never timing out, and not blocking for the kernel.\<close>

lemma new_FdCtx_fields:
  assumes "new_FdCtx os fd k = (c, k')" and "os_fstat os fd k = (st, k1)"
  shows "m_fd c = fd \<and> \<not> m_userNonblock c \<and> \<not> m_isClosed c \<and> m_recvTimeout c = - 1 \<and> m_sendTimeout c = - 1
    \<and> m_isSocket c = (st = Some True) \<and> m_sysNonblock c = (st = Some True) \<and> m_isInit c = (st \<noteq> None)"
  using assms by (cases st) (auto simp: new_FdCtx_def FdCtx_init_def Let_def split: prod.splits if_splits)

text \<open>
  Looking a descriptor up with creation works below the 64 entries the table has: the new context is what later
  lookups give. For every other descriptor the vector, which never grows, is indexed out of range.
\<close>

lemma get_create_in_table_only:
  assumes "length datas = 64" and "0 \<le> fd" and "fd < 2 ^ 31"
  shows "if fd < 64
    then \<exists>c datas' k'. FdManager_get os fd True (datas, k) = (Inr (Some c), datas', k') \<and> length datas' = 64
      \<and> FdManager_get os fd False (datas', k') = (Inr (Some c), datas', k')
    else fst (FdManager_get os fd True (datas, k)) = Inl Index_out_of_range"
  using get_create_inside [of fd "(datas, k)" os] get_create_outside [of "(datas, k)" fd os] fd_index_nat [OF assms(2,3)] assms
  by auto

definition quiet_os :: "unit os" where
  "quiet_os = \<lparr>os_errno = (\<lambda>_. 0), os_set_errno = (\<lambda>_ k. k), os_fstat = (\<lambda>_ k. (Some True, k)), os_fcntl = (\<lambda>_ _ _ k. (0, k))\<rparr>"

end
