(* ===== verification/Hook.thy ===== *)
theory Hook
  imports FdManager IOManager Timer "HOL-Library.Signed_Division"
begin

text \<open>
  The hooked system calls (\<open>sylar/hook.h\<close>, \<open>sylar/hook.cpp\<close>): blocking calls that suspend the fiber instead of the
  thread. The state joins the event table, the timers and the descriptor table; \<open>tinfos\<close> holds the
  \<open>timer_info\<close> objects that are alive with their \<open>cancelled\<close> field. A call that may suspend is split at
  \<open>YieldToHold\<close>: its first part returns or holds, and its \<open>resume\<close> part runs when the fiber is scheduled again.
  The original calls are parameters, functions on the kernel state.
\<close>

abbreviation EINTR :: int where "EINTR \<equiv> 4"
abbreviation EBADF :: int where "EBADF \<equiv> 9"
abbreviation EAGAIN :: int where "EAGAIN \<equiv> 11"
abbreviation ETIMEDOUT :: int where "ETIMEDOUT \<equiv> 110"
abbreviation EINPROGRESS :: int where "EINPROGRESS \<equiv> 115"
abbreviation FIONBIO :: nat where "FIONBIO \<equiv> 0x5421"

text \<open>What a timer runs: the timeout of a call (\<open>timer_info\<close>, descriptor, event), or scheduling a sleeping fiber.\<close>

datatype hook_cb = Io_timeout nat int Event | Schedule_fiber nat

record 'k hook =
  iom :: "'k iomanager"
  tm :: "(nat, hook_cb) callback timer_manager"
  fdm :: "FdCtx option list"
  tinfos :: "nat \<Rightarrow> int option"

datatype hook_error = Io_failed io_error | Timer_failed timer_error | Fd_failed fd_error | No_iomanager

text \<open>The original functions, found with \<open>dlsym\<close>, and \<open>epoll_ctl\<close>. An address, a time or a message is opaque.\<close>

record 'k calls =
  os_calls :: "'k os"
  epoll :: "'k epoll_ctl"
  sleep_f :: "u32 \<Rightarrow> 'k \<Rightarrow> int \<times> 'k"
  usleep_f :: "u32 \<Rightarrow> 'k \<Rightarrow> int \<times> 'k"
  nanosleep_f :: "int \<Rightarrow> int \<Rightarrow> 'k \<Rightarrow> int \<times> 'k"
  socket_f :: "int \<Rightarrow> int \<Rightarrow> int \<Rightarrow> 'k \<Rightarrow> int \<times> 'k"
  connect_f :: "int \<Rightarrow> nat \<Rightarrow> 'k \<Rightarrow> int \<times> 'k"
  accept_f :: "int \<Rightarrow> 'k \<Rightarrow> int \<times> 'k"
  close_f :: "int \<Rightarrow> 'k \<Rightarrow> int \<times> 'k"
  ioctl_f :: "int \<Rightarrow> nat \<Rightarrow> u32 \<Rightarrow> 'k \<Rightarrow> int \<times> 'k"
  setsockopt_f :: "int \<Rightarrow> int \<Rightarrow> int \<Rightarrow> int \<times> int \<Rightarrow> 'k \<Rightarrow> int \<times> 'k"
  so_error_f :: "int \<Rightarrow> 'k \<Rightarrow> int option \<times> 'k"

text \<open>The calling thread: whether hooks are on, the running fiber and whether there is a current \<open>IOManager\<close>.\<close>

record thread =
  t_hook_enable :: bool
  this_fiber :: nat
  has_iom :: bool

text \<open>What a call does first: return a value, or hold with the timer that limits the wait.\<close>

datatype progress = Return int | Hold "nat option"

definition set_kernel :: "'k \<Rightarrow> 'k hook \<Rightarrow> 'k hook" where
  "set_kernel k h = h\<lparr>iom := (iom h)\<lparr>kernel := k\<rparr>\<rparr>"

abbreviation kern :: "'k hook \<Rightarrow> 'k" where "kern h \<equiv> kernel (iom h)"

definition errno :: "'k calls \<Rightarrow> 'k hook \<Rightarrow> int" where
  "errno C h = os_errno (os_calls C) (kern h)"

definition set_errno :: "'k calls \<Rightarrow> int \<Rightarrow> 'k hook \<Rightarrow> 'k hook" where
  "set_errno C e h = set_kernel (os_set_errno (os_calls C) e (kern h)) h"

text \<open>An original function, called as it is.\<close>

definition call :: "('k \<Rightarrow> int \<times> 'k) \<Rightarrow> ('k hook, hook_error, progress) outcome" where
  "call f h = (case f (kern h) of (n, k) \<Rightarrow> (Inr (Return n), set_kernel k h))"

definition lookup_ctx :: "int \<Rightarrow> 'k hook \<Rightarrow> FdCtx option" where
  "lookup_ctx fd h = (case get_look fd False (fdm h) of Some r \<Rightarrow> r | None \<Rightarrow> None)"

text \<open>\<open>FdMgr::GetInstance()->get(fd, true)\<close>, whose result the hooks ignore.\<close>

definition create_ctx :: "'k calls \<Rightarrow> int \<Rightarrow> ('k hook, hook_error, unit) outcome" where
  "create_ctx C fd h =
     (case FdManager_get (os_calls C) fd True (fdm h, kern h) of
        (Inl e, datas, k) \<Rightarrow> (Inl (Fd_failed e), set_kernel k (h\<lparr>fdm := datas\<rparr>))
      | (Inr _, datas, k) \<Rightarrow> (Inr (), set_kernel k (h\<lparr>fdm := datas\<rparr>)))"

text \<open>\<open>if (timer) timer->cancel();\<close>\<close>

definition cancel_timer :: "nat option \<Rightarrow> ('k hook, hook_error, unit) outcome" where
  "cancel_timer timer h =
     (case timer of
        None \<Rightarrow> (Inr (), h)
      | Some p \<Rightarrow> (case cancel p (tm h) of
            (Inl e, t) \<Rightarrow> (Inl (Timer_failed e), h\<lparr>tm := t\<rparr>)
          | (Inr _, t) \<Rightarrow> (Inr (), h\<lparr>tm := t\<rparr>)))"

subsection \<open>Input and output\<close>

text \<open>The locals of one \<open>do_io\<close>: \<open>io_fun\<close> is the original function with its arguments.\<close>

record 'k frame =
  io_fd :: int
  io_fun :: "'k \<Rightarrow> int \<times> 'k"
  io_event :: Event
  io_to :: u64
  io_tinfo :: nat

text \<open>\<open>while (n == -1 && errno == EINTR)\<close>: no end when the call is interrupted for ever.\<close>

partial_function (option) eintr_loop :: "'k os \<Rightarrow> ('k \<Rightarrow> int \<times> 'k) \<Rightarrow> int \<times> 'k \<Rightarrow> (int \<times> 'k) option" where
  "eintr_loop os f nk = (if fst nk = - 1 \<and> os_errno os (snd nk) = EINTR then eintr_loop os f (f (snd nk)) else Some nk)"

definition new_tinfo :: "nat \<Rightarrow> 'k hook \<Rightarrow> 'k hook" where
  "new_tinfo t h = h\<lparr>tinfos := (tinfos h)(t \<mapsto> 0)\<rparr>"

text \<open>The end of the shared pointer's scope: weak pointers to the object are dead.\<close>

definition drop_tinfo :: "nat \<Rightarrow> 'k hook \<Rightarrow> 'k hook" where
  "drop_tinfo t h = h\<lparr>tinfos := (tinfos h)(t := None)\<rparr>"

definition cancelled :: "nat \<Rightarrow> 'k hook \<Rightarrow> int" where
  "cancelled t h = (case tinfos h t of Some c \<Rightarrow> c | None \<Rightarrow> 0)"

definition add_timeout :: "nat \<Rightarrow> u64 \<Rightarrow> u64 \<Rightarrow> nat \<Rightarrow> int \<Rightarrow> Event \<Rightarrow> 'k hook \<Rightarrow> nat option \<times> 'k hook" where
  "add_timeout p now to t fd event h =
     (if to \<noteq> - 1 then (Some p, h\<lparr>tm := addConditionTimer p to (Io_timeout t fd event) t False now (tm h)\<rparr>) else (None, h))"

text \<open>The part of \<open>do_io\<close> for \<open>EAGAIN\<close>: a condition timer at the new address \<open>p\<close>, the event, and the wait.\<close>

definition do_io_wait :: "'k calls \<Rightarrow> thread \<Rightarrow> nat \<Rightarrow> u64 \<Rightarrow> 'k frame \<Rightarrow> ('k hook, hook_error, progress) outcome" where
  "do_io_wait C th p now fr h =
     (if \<not> has_iom th then (Inl No_iomanager, h)
      else let (timer, h1) = add_timeout p now (io_to fr) (io_tinfo fr) (io_fd fr) (io_event fr) h in
      case addEvent (epoll C) (nat (io_fd fr)) (io_event fr) None (this_fiber th) (iom h1) of
        (Inl e, io) \<Rightarrow> (Inl (Io_failed e), h1\<lparr>iom := io\<rparr>)
      | (Inr rt, io) \<Rightarrow>
          let h2 = h1\<lparr>iom := io\<rparr> in
          if rt \<noteq> 0 then andThen (cancel_timer timer) (\<lambda>_ h3. (Inr (Return (- 1)), drop_tinfo (io_tinfo fr) h3)) h2
          else (Inr (Hold timer), h2))"

text \<open>From the label \<open>retry\<close>.\<close>

definition do_io_retry :: "'k calls \<Rightarrow> thread \<Rightarrow> nat \<Rightarrow> u64 \<Rightarrow> 'k frame \<Rightarrow> 'k hook \<Rightarrow> ((hook_error + progress) \<times> 'k hook) option" where
  "do_io_retry C th p now fr h =
     (case eintr_loop (os_calls C) (io_fun fr) (io_fun fr (kern h)) of
        None \<Rightarrow> None
      | Some (n, k) \<Rightarrow>
          let h1 = set_kernel k h in
          Some (if n = - 1 \<and> errno C h1 = EAGAIN then do_io_wait C th p now fr h1
                else (Inr (Return n), drop_tinfo (io_tinfo fr) h1)))"

definition do_io_resume :: "'k calls \<Rightarrow> thread \<Rightarrow> nat \<Rightarrow> u64 \<Rightarrow> 'k frame \<Rightarrow> nat option \<Rightarrow> 'k hook \<Rightarrow> ((hook_error + progress) \<times> 'k hook) option" where
  "do_io_resume C th p now fr timer h =
     (case cancel_timer timer h of
        (Inl e, h1) \<Rightarrow> Some (Inl e, h1)
      | (Inr _, h1) \<Rightarrow>
          if cancelled (io_tinfo fr) h1 \<noteq> 0
          then Some (Inr (Return (- 1)), drop_tinfo (io_tinfo fr) (set_errno C (cancelled (io_tinfo fr) h1) h1))
          else do_io_retry C th p now fr h1)"

text \<open>
  \<open>do_io\<close> up to its first suspension; \<open>t\<close> and \<open>p\<close> are the addresses of the new \<open>timer_info\<close> and of a new timer.
  The frame that a later \<open>do_io_resume\<close> continues with is \<open>io_frame\<close>.
\<close>

definition io_frame :: "int \<Rightarrow> ('k \<Rightarrow> int \<times> 'k) \<Rightarrow> Event \<Rightarrow> int \<Rightarrow> nat \<Rightarrow> FdCtx \<Rightarrow> 'k frame" where
  "io_frame fd f event timeout_so t ctx =
     \<lparr>io_fd = fd, io_fun = f, io_event = event, io_to = getTimeout timeout_so ctx, io_tinfo = t\<rparr>"

definition do_io ::
    "'k calls \<Rightarrow> thread \<Rightarrow> nat \<Rightarrow> nat \<Rightarrow> u64 \<Rightarrow> int \<Rightarrow> ('k \<Rightarrow> int \<times> 'k) \<Rightarrow> Event \<Rightarrow> int \<Rightarrow> 'k hook
      \<Rightarrow> ((hook_error + progress) \<times> 'k hook) option" where
  "do_io C th t p now fd f event timeout_so h =
     (if \<not> t_hook_enable th then Some (call f h)
      else case lookup_ctx fd h of
        None \<Rightarrow> Some (call f h)
      | Some ctx \<Rightarrow>
          if m_isClosed ctx then Some (Inr (Return (- 1)), set_errno C EBADF h)
          else if \<not> m_isSocket ctx \<or> m_userNonblock ctx then Some (call f h)
          else do_io_retry C th p now (io_frame fd f event timeout_so t ctx) (new_tinfo t h))"

text \<open>The callback of the condition timer, and what running a timer's callback does.\<close>

definition io_timeout :: "'k calls \<Rightarrow> nat \<Rightarrow> int \<Rightarrow> Event \<Rightarrow> ('k hook, hook_error, unit) outcome" where
  "io_timeout C t fd event h =
     (case tinfos h t of
        None \<Rightarrow> (Inr (), h)
      | Some c \<Rightarrow>
          if c \<noteq> 0 then (Inr (), h)
          else let h1 = h\<lparr>tinfos := (tinfos h)(t \<mapsto> ETIMEDOUT)\<rparr> in
          case cancelEvent (epoll C) (nat fd) event (iom h1) of
            (Inl e, io) \<Rightarrow> (Inl (Io_failed e), h1\<lparr>iom := io\<rparr>)
          | (Inr _, io) \<Rightarrow> (Inr (), h1\<lparr>iom := io\<rparr>))"

primrec exec_cb :: "'k calls \<Rightarrow> hook_cb \<Rightarrow> ('k hook, hook_error, unit) outcome" where
  "exec_cb C (Io_timeout t fd event) h = io_timeout C t fd event h"
| "exec_cb C (Schedule_fiber f) h = (Inr (), h\<lparr>iom := (iom h)\<lparr>scheduled := scheduled (iom h) @ [Run_fiber f]\<rparr>\<rparr>)"

definition fire_cb :: "'k calls \<Rightarrow> (nat, hook_cb) callback \<Rightarrow> ('k hook, hook_error, unit) outcome" where
  "fire_cb C cb h = (case run_callback (\<lambda>t. tinfos h t \<noteq> None) cb of [] \<Rightarrow> (Inr (), h) | f # _ \<Rightarrow> exec_cb C f h)"

subsection \<open>Sleeping\<close>

definition hold_for :: "nat \<Rightarrow> u64 \<Rightarrow> thread \<Rightarrow> u64 \<Rightarrow> ('k hook, hook_error, progress) outcome" where
  "hold_for p now th ms h =
     (if \<not> has_iom th then (Inl No_iomanager, h)
      else (Inr (Hold (Some p)), h\<lparr>tm := addTimer p ms (Some (Plain (Schedule_fiber (this_fiber th)))) False now (tm h)\<rparr>))"

text \<open>\<open>seconds * 1000\<close> is an \<open>unsigned int\<close> product; \<open>timeout_ms\<close> of \<open>nanosleep\<close> is an \<open>int\<close>, converted to 64 bits.\<close>

definition hook_sleep :: "'k calls \<Rightarrow> thread \<Rightarrow> nat \<Rightarrow> u64 \<Rightarrow> u32 \<Rightarrow> ('k hook, hook_error, progress) outcome" where
  "hook_sleep C th p now seconds h =
     (if \<not> t_hook_enable th then call (sleep_f C seconds) h else hold_for p now th (ucast (seconds * 1000)) h)"

definition hook_usleep :: "'k calls \<Rightarrow> thread \<Rightarrow> nat \<Rightarrow> u64 \<Rightarrow> u32 \<Rightarrow> ('k hook, hook_error, progress) outcome" where
  "hook_usleep C th p now usec h =
     (if \<not> t_hook_enable th then call (usleep_f C usec) h else hold_for p now th (ucast (usec div 1000)) h)"

definition hook_nanosleep :: "'k calls \<Rightarrow> thread \<Rightarrow> nat \<Rightarrow> u64 \<Rightarrow> int \<Rightarrow> int \<Rightarrow> ('k hook, hook_error, progress) outcome" where
  "hook_nanosleep C th p now tv_sec tv_nsec h =
     (if \<not> t_hook_enable th then call (nanosleep_f C tv_sec tv_nsec) h
      else hold_for p now th (scast (word_of_int (tv_sec * 1000 + tv_nsec sdiv 1000 sdiv 1000) :: u32)) h)"

subsection \<open>Sockets and descriptors\<close>

definition hook_socket :: "'k calls \<Rightarrow> thread \<Rightarrow> int \<Rightarrow> int \<Rightarrow> int \<Rightarrow> ('k hook, hook_error, int) outcome" where
  "hook_socket C th domain type protocol h =
     (case socket_f C domain type protocol (kern h) of (fd, k) \<Rightarrow>
        let h1 = set_kernel k h in
        if \<not> t_hook_enable th then (Inr fd, h1)
        else if fd = - 1 then (Inr fd, h1)
        else andThen (create_ctx C fd) (\<lambda>_. ret fd) h1)"

text \<open>The end of \<open>connect_with_timeout\<close>: the pending error of the socket.\<close>

definition connect_finish :: "'k calls \<Rightarrow> int \<Rightarrow> nat \<Rightarrow> ('k hook, hook_error, progress) outcome" where
  "connect_finish C fd t h =
     (case so_error_f C fd (kern h) of (r, k) \<Rightarrow>
        let h1 = set_kernel k h in
        case r of
          None \<Rightarrow> (Inr (Return (- 1)), drop_tinfo t h1)
        | Some error \<Rightarrow>
            if error = 0 then (Inr (Return 0), drop_tinfo t h1)
            else (Inr (Return (- 1)), drop_tinfo t (set_errno C error h1)))"

definition connect_resume :: "'k calls \<Rightarrow> int \<Rightarrow> nat \<Rightarrow> nat option \<Rightarrow> ('k hook, hook_error, progress) outcome" where
  "connect_resume C fd t timer =
     andThen (cancel_timer timer) (\<lambda>_ h1.
       if cancelled t h1 \<noteq> 0 then (Inr (Return (- 1)), drop_tinfo t (set_errno C (cancelled t h1) h1))
       else connect_finish C fd t h1)"

definition connect_with_timeout ::
    "'k calls \<Rightarrow> thread \<Rightarrow> nat \<Rightarrow> nat \<Rightarrow> u64 \<Rightarrow> int \<Rightarrow> nat \<Rightarrow> u64 \<Rightarrow> ('k hook, hook_error, progress) outcome" where
  "connect_with_timeout C th t p now fd addr timeout_ms h =
     (if \<not> t_hook_enable th then call (connect_f C fd addr) h
      else case lookup_ctx fd h of
        None \<Rightarrow> (Inr (Return (- 1)), set_errno C EBADF h)
      | Some ctx \<Rightarrow>
          if m_isClosed ctx then (Inr (Return (- 1)), set_errno C EBADF h)
          else if \<not> m_isSocket ctx then call (connect_f C fd addr) h
          else if m_userNonblock ctx then call (connect_f C fd addr) h
          else case connect_f C fd addr (kern h) of (n, k) \<Rightarrow>
            let h1 = set_kernel k h in
            if n = 0 then (Inr (Return 0), h1)
            else if n \<noteq> - 1 \<or> errno C h1 \<noteq> EINPROGRESS then (Inr (Return n), h1)
            else if \<not> has_iom th then (Inl No_iomanager, h1)
            else let (timer, h2) = add_timeout p now timeout_ms t fd WRITE (new_tinfo t h1) in
              case addEvent (epoll C) (nat fd) WRITE None (this_fiber th) (iom h2) of
                (Inl e, io) \<Rightarrow> (Inl (Io_failed e), h2\<lparr>iom := io\<rparr>)
              | (Inr rt, io) \<Rightarrow>
                  let h3 = h2\<lparr>iom := io\<rparr> in
                  if rt = 0 then (Inr (Hold timer), h3)
                  else andThen (cancel_timer timer) (\<lambda>_. connect_finish C fd t) h3)"

definition hook_connect :: "'k calls \<Rightarrow> u64 \<Rightarrow> thread \<Rightarrow> nat \<Rightarrow> nat \<Rightarrow> u64 \<Rightarrow> int \<Rightarrow> nat \<Rightarrow> ('k hook, hook_error, progress) outcome" where
  "hook_connect C s_connect_timeout th t p now sockfd addr = connect_with_timeout C th t p now sockfd addr s_connect_timeout"

text \<open>\<open>accept\<close> registers the descriptor that its \<open>do_io\<close> returns, also when that was resumed.\<close>

definition accept_finish :: "'k calls \<Rightarrow> ((hook_error + progress) \<times> 'k hook) option \<Rightarrow> ((hook_error + progress) \<times> 'k hook) option" where
  "accept_finish C r =
     (case r of
        Some (Inr (Return fd), h) \<Rightarrow> Some (if 0 \<le> fd then andThen (create_ctx C fd) (\<lambda>_. ret (Return fd)) h else (Inr (Return fd), h))
      | _ \<Rightarrow> r)"

definition hook_accept :: "'k calls \<Rightarrow> thread \<Rightarrow> nat \<Rightarrow> nat \<Rightarrow> u64 \<Rightarrow> int \<Rightarrow> 'k hook \<Rightarrow> ((hook_error + progress) \<times> 'k hook) option" where
  "hook_accept C th t p now sockfd h = accept_finish C (do_io C th t p now sockfd (accept_f C sockfd) READ SO_RCVTIMEO h)"

text \<open>\<open>read\<close>, \<open>readv\<close>, \<open>recv\<close>, \<open>recvfrom\<close>, \<open>recvmsg\<close>, and \<open>write\<close>, \<open>writev\<close>, \<open>send\<close>, \<open>sendto\<close>, \<open>sendmsg\<close>: \<open>f\<close> is the original with its arguments.\<close>

definition hook_read :: "'k calls \<Rightarrow> thread \<Rightarrow> nat \<Rightarrow> nat \<Rightarrow> u64 \<Rightarrow> int \<Rightarrow> ('k \<Rightarrow> int \<times> 'k) \<Rightarrow> 'k hook \<Rightarrow> ((hook_error + progress) \<times> 'k hook) option" where
  "hook_read C th t p now fd f = do_io C th t p now fd f READ SO_RCVTIMEO"

definition hook_write :: "'k calls \<Rightarrow> thread \<Rightarrow> nat \<Rightarrow> nat \<Rightarrow> u64 \<Rightarrow> int \<Rightarrow> ('k \<Rightarrow> int \<times> 'k) \<Rightarrow> 'k hook \<Rightarrow> ((hook_error + progress) \<times> 'k hook) option" where
  "hook_write C th t p now fd f = do_io C th t p now fd f WRITE SO_SNDTIMEO"

definition hook_close :: "'k calls \<Rightarrow> thread \<Rightarrow> int \<Rightarrow> ('k hook, hook_error, int) outcome" where
  "hook_close C th fd h =
     (let finish = (\<lambda>h. case close_f C fd (kern h) of (n, k) \<Rightarrow> (Inr n, set_kernel k h)) in
      if \<not> t_hook_enable th then finish h
      else case lookup_ctx fd h of
        None \<Rightarrow> finish h
      | Some ctx \<Rightarrow>
          (if has_iom th then
             (case cancelAll (epoll C) (nat fd) (iom h) of
                (Inl e, io) \<Rightarrow> (Inl (Io_failed e), h\<lparr>iom := io\<rparr>)
              | (Inr _, io) \<Rightarrow> finish (h\<lparr>iom := io, fdm := FdManager_del fd (fdm h)\<rparr>))
           else finish (h\<lparr>fdm := FdManager_del fd (fdm h)\<rparr>)))"

definition put_ctx :: "int \<Rightarrow> FdCtx \<Rightarrow> 'k hook \<Rightarrow> 'k hook" where
  "put_ctx fd ctx h = h\<lparr>fdm := (fdm h)[fd_index fd := Some ctx]\<rparr>"

definition pass_fcntl :: "'k calls \<Rightarrow> int \<Rightarrow> fcntl_cmd \<Rightarrow> fcntl_arg \<Rightarrow> 'k hook \<Rightarrow> u32 \<times> 'k hook" where
  "pass_fcntl C fd cmd arg h = (case os_fcntl (os_calls C) fd cmd arg (kern h) of (r, k) \<Rightarrow> (r, set_kernel k h))"

text \<open>\<open>fcntl\<close>: \<open>va_int\<close> and \<open>va_ptr\<close> are what \<open>va_arg\<close> reads as an \<open>int\<close> and as a pointer.\<close>

definition hook_fcntl :: "'k calls \<Rightarrow> int \<Rightarrow> fcntl_cmd \<Rightarrow> u32 \<Rightarrow> nat \<Rightarrow> 'k hook \<Rightarrow> u32 \<times> 'k hook" where
  "hook_fcntl C fd cmd va_int va_ptr h =
     (case cmd of
        F_SETFL \<Rightarrow>
          (case lookup_ctx fd h of
             None \<Rightarrow> pass_fcntl C fd cmd (Int_arg va_int) h
           | Some ctx \<Rightarrow>
               if m_isClosed ctx \<or> \<not> m_isSocket ctx then pass_fcntl C fd cmd (Int_arg va_int) h
               else let ctx1 = ctx\<lparr>m_userNonblock := (va_int AND O_NONBLOCK \<noteq> 0)\<rparr>;
                        arg = (if m_sysNonblock ctx1 then va_int OR O_NONBLOCK else va_int AND NOT O_NONBLOCK)
                    in pass_fcntl C fd cmd (Int_arg arg) (put_ctx fd ctx1 h))
      | F_GETFL \<Rightarrow>
          (case pass_fcntl C fd cmd No_arg h of (arg, h1) \<Rightarrow>
             case lookup_ctx fd h1 of
               None \<Rightarrow> (arg, h1)
             | Some ctx \<Rightarrow>
                 if m_isClosed ctx \<or> \<not> m_isSocket ctx then (arg, h1)
                 else if m_userNonblock ctx then (arg OR O_NONBLOCK, h1)
                 else (arg AND NOT O_NONBLOCK, h1))
      | _ \<Rightarrow>
          if cmd \<in> {F_DUPFD, F_DUPFD_CLOEXEC, F_SETFD, F_SETOWN, F_SETSIG, F_SETLEASE, F_NOTIFY, F_SETPIPE_SZ}
          then pass_fcntl C fd cmd (Int_arg va_int) h
          else if cmd \<in> {F_GETFD, F_GETOWN, F_GETSIG, F_GETLEASE, F_GETPIPE_SZ} then pass_fcntl C fd cmd No_arg h
          else if cmd \<in> {F_SETLK, F_SETLKW, F_GETLK, F_GETOWN_EX, F_SETOWN_EX} then pass_fcntl C fd cmd (Ptr_arg va_ptr) h
          else pass_fcntl C fd cmd No_arg h)"

text \<open>\<open>ioctl\<close>: \<open>arg\<close> is the \<open>int\<close> that the third argument points to.\<close>

definition hook_ioctl :: "'k calls \<Rightarrow> int \<Rightarrow> nat \<Rightarrow> u32 \<Rightarrow> 'k hook \<Rightarrow> int \<times> 'k hook" where
  "hook_ioctl C fd request arg h =
     (let pass = (\<lambda>h. case ioctl_f C fd request arg (kern h) of (r, k) \<Rightarrow> (r, set_kernel k h)) in
      if FIONBIO = request then
        (case lookup_ctx fd h of
           None \<Rightarrow> pass h
         | Some ctx \<Rightarrow>
             if m_isClosed ctx \<or> \<not> m_isSocket ctx then pass h
             else pass (put_ctx fd (ctx\<lparr>m_userNonblock := (arg \<noteq> 0)\<rparr>) h))
      else pass h)"

text \<open>\<open>setsockopt\<close>: \<open>tv\<close> is the \<open>timeval\<close> that \<open>optval\<close> points to.\<close>

definition hook_setsockopt :: "'k calls \<Rightarrow> thread \<Rightarrow> int \<Rightarrow> int \<Rightarrow> int \<Rightarrow> int \<times> int \<Rightarrow> 'k hook \<Rightarrow> int \<times> 'k hook" where
  "hook_setsockopt C th sockfd level optname tv h =
     (let pass = (\<lambda>h. case setsockopt_f C sockfd level optname tv (kern h) of (r, k) \<Rightarrow> (r, set_kernel k h)) in
      if \<not> t_hook_enable th then pass h
      else if level = SOL_SOCKET \<and> (optname = SO_RCVTIMEO \<or> optname = SO_SNDTIMEO) then
        (case lookup_ctx sockfd h of
           None \<Rightarrow> pass h
         | Some ctx \<Rightarrow> pass (put_ctx sockfd (setTimeout optname (word_of_int (fst tv * 1000 + snd tv sdiv 1000)) ctx) h))
      else pass h)"

subsection \<open>Waiting for a descriptor\<close>

lemma and_not_and: "(x AND NOT e) AND e = (0 :: u32)"
  by (simp add: and.assoc)

lemma set_kernel_fields [simp]:
  "tm (set_kernel k h) = tm h" "fdm (set_kernel k h) = fdm h" "tinfos (set_kernel k h) = tinfos h" "kern (set_kernel k h) = k"
  "io_inv (iom (set_kernel k h)) = io_inv (iom h)" "m_fdContexts (iom (set_kernel k h)) = m_fdContexts (iom h)"
  "scheduled (iom (set_kernel k h)) = scheduled (iom h)"
  by (simp_all add: set_kernel_def io_inv_def)

lemma tinfo_fields [simp]:
  "iom (new_tinfo t h) = iom h" "tm (new_tinfo t h) = tm h" "fdm (new_tinfo t h) = fdm h" "tinfos (new_tinfo t h) = (tinfos h)(t \<mapsto> 0)"
  "iom (drop_tinfo t h) = iom h" "tm (drop_tinfo t h) = tm h" "fdm (drop_tinfo t h) = fdm h" "tinfos (drop_tinfo t h) = (tinfos h)(t := None)"
  by (simp_all add: new_tinfo_def drop_tinfo_def)

lemma eintr_loop_done [simp]: "\<not> (n = - 1 \<and> os_errno os k = EINTR) \<Longrightarrow> eintr_loop os f (n, k) = Some (n, k)"
  by (subst eintr_loop.simps) auto

text \<open>The state of a call that holds: its fiber waits for the event, its \<open>timer_info\<close> is alive and its timer is set.\<close>

definition holding :: "nat \<Rightarrow> int \<Rightarrow> Event \<Rightarrow> nat \<Rightarrow> 'k hook \<Rightarrow> bool" where
  "holding f fd event t h \<longleftrightarrow> io_inv (iom h) \<and> tm_inv (tm h) \<and> registered (iom h) (nat fd) event
     \<and> waiting_at (iom h) (nat fd) event = {#Run_fiber f#} \<and> tinfos h t = Some 0"

lemma cancel_inv: "tm_inv w \<Longrightarrow> \<exists>b w'. cancel p w = (Inr b, w') \<and> tm_inv w' \<and> p \<notin> set (m_timers w')"
  using cancel_live [of w p] by (cases "m_cb (m_heap w p)") (auto simp: cancel_def tm_inv_def)

lemma cancel_timer_ok:
  assumes "tm_inv (tm h)"
  shows "\<exists>tm'. cancel_timer timer h = (Inr (), h\<lparr>tm := tm'\<rparr>) \<and> tm_inv tm' \<and> (\<forall>p. timer = Some p \<longrightarrow> p \<notin> set (m_timers tm'))"
proof (cases timer)
  case (Some p)
  then show ?thesis using cancel_inv [OF assms, of p] by (auto simp: cancel_timer_def)
qed (use assms in \<open>auto simp: cancel_timer_def intro!: exI [of _ "tm h"]\<close>)

lemma io_timeout_holding:
  assumes hold: "holding f fd event t h" and ctl: "\<And>k op fd ev. fst (epoll C k op fd ev) = 0"
  shows "\<exists>h'. io_timeout C t fd event h = (Inr (), h') \<and> scheduled (iom h') = scheduled (iom h) @ [Run_fiber f]
    \<and> tinfos h' t = Some ETIMEDOUT \<and> tm h' = tm h \<and> io_inv (iom h')"
proof -
  have r: "nat fd < length (m_fdContexts (iom h))" "event = READ \<or> event = WRITE" "fc_events (m_fdContexts (iom h) ! nat fd) AND event \<noteq> 0" "io_inv (iom h)"
    using hold by (simp_all add: holding_def registered_def)
  obtain io where io: "cancelEvent (epoll C) (nat fd) event (iom h) = (Inr True, io)" "io_inv io" "scheduled io = scheduled (iom h) @ [Run_fiber f]"
    using cancelEvent_ok [OF r(4,1,2,3), of "epoll C"] ctl hold by (auto simp: holding_def)
  then show ?thesis using hold by (simp add: io_timeout_def holding_def)
qed

lemma do_io_resume_timed_out:
  assumes "tm_inv (tm h)" and "tinfos h (io_tinfo fr) = Some ETIMEDOUT"
    and "\<And>e k. os_errno (os_calls C) (os_set_errno (os_calls C) e k) = e"
  shows "\<exists>h'. do_io_resume C th p now fr timer h = Some (Inr (Return (- 1)), h') \<and> errno C h' = ETIMEDOUT \<and> tinfos h' (io_tinfo fr) = None"
  using cancel_timer_ok [OF assms(1), of timer] assms(2,3)
  by (auto simp: do_io_resume_def cancelled_def errno_def set_errno_def)

lemma addTimer_set:
  assumes "tm_inv w" and "p \<notin> set (m_timers w)"
  shows "p \<in> set (m_timers (addTimer p ms (Some cb) recurring now w)) \<and> m_next (m_heap (addTimer p ms (Some cb) recurring now w) p) = now + ms
    \<and> m_cb (m_heap (addTimer p ms (Some cb) recurring now w) p) = Some cb"
  by (auto simp: addTimer_def addTimer_locked_def Let_def tm_insert_def tm_store_def new_Timer_def tl.set_insert)

lemma do_io_holds:
  assumes inv: "io_inv (iom h)" "tm_inv (tm h)" "p \<notin> set (m_timers (tm h))"
    and th: "t_hook_enable th" "has_iom th" and ctx: "lookup_ctx fd h = Some ctx" "\<not> m_isClosed ctx" "m_isSocket ctx" "\<not> m_userNonblock ctx"
    and ev: "event = READ \<or> event = WRITE" "\<not> registered (iom h) (nat fd) event"
    and again: "f (kern h) = (- 1, k)" "os_errno (os_calls C) k = EAGAIN" and ctl: "\<And>k op fd ev. fst (epoll C k op fd ev) = 0"
  shows "\<exists>h'. do_io C th t p now fd f event timeout_so h = Some (Inr (Hold (if getTimeout timeout_so ctx = - 1 then None else Some p)), h')
    \<and> holding (this_fiber th) fd event t h' \<and> scheduled (iom h') = scheduled (iom h)
    \<and> (getTimeout timeout_so ctx \<noteq> - 1 \<longrightarrow> p \<in> set (m_timers (tm h')) \<and> m_next (m_heap (tm h') p) = now + getTimeout timeout_so ctx
        \<and> m_cb (m_heap (tm h') p) = Some (OnTimer t (Io_timeout t fd event)))"
proof -
  let ?to = "getTimeout timeout_so ctx" and ?fr = "io_frame fd f event timeout_so t ctx"
  define h1 where "h1 = set_kernel k (new_tinfo t h)"
  obtain timer h2 where h2: "add_timeout p now ?to t fd event h1 = (timer, h2)" by force
  have tm2: "timer = (if ?to = - 1 then None else Some p)" "iom h2 = iom h1" "tinfos h2 t = Some 0" "tm_inv (tm h2)"
    "?to \<noteq> - 1 \<longrightarrow> p \<in> set (m_timers (tm h2)) \<and> m_next (m_heap (tm h2) p) = now + ?to \<and> m_cb (m_heap (tm h2) p) = Some (OnTimer t (Io_timeout t fd event))"
    using h2 inv addTimer_inv [of "tm h" p ?to "OnTimer t (Io_timeout t fd event)" False now] addTimer_set [of "tm h" p]
    by (auto simp: add_timeout_def h1_def addConditionTimer_def split: if_splits)
  have io1: "io_inv (iom h1)" "nat fd < length (m_fdContexts (iom h1)) \<longrightarrow> fc_events (m_fdContexts (iom h1) ! nat fd) AND event = 0"
    using inv(1) ev by (auto simp: h1_def registered_def)
  obtain io where io: "addEvent (epoll C) (nat fd) event None (this_fiber th) (iom h1) = (Inr 0, io)" "io_inv io" "nat fd < length (m_fdContexts io)"
      "fc_events (m_fdContexts io ! nat fd) AND event \<noteq> 0" "waiting_at io (nat fd) event = {#Run_fiber (this_fiber th)#}" "scheduled io = scheduled (iom h1)"
    using addEvent_ok [OF io1(1) ev(1) io1(2), of "epoll C" None "this_fiber th"] ctl by (auto simp: new_task_def)
  have "do_io_wait C th p now ?fr h1 = (Inr (Hold timer), h2\<lparr>iom := io\<rparr>)"
    using h2 io(1) th(2) tm2(2) by (simp add: do_io_wait_def io_frame_def)
  then have "do_io C th t p now fd f event timeout_so h = Some (Inr (Hold timer), h2\<lparr>iom := io\<rparr>)"
    using th ctx again by (simp add: do_io_def do_io_retry_def io_frame_def errno_def flip: h1_def)
  moreover have "holding (this_fiber th) fd event t (h2\<lparr>iom := io\<rparr>)"
    using io tm2(3,4) ev(1) by (simp add: holding_def registered_def)
  ultimately show ?thesis using tm2 io(6) by (simp add: h1_def)
qed

subsection \<open>A concrete system\<close>

text \<open>A kernel that holds \<open>errno\<close> and the status flags of one descriptor; every input call would block.\<close>

definition demo_os :: "(int \<times> u32) os" where
  "demo_os = \<lparr>os_errno = fst, os_set_errno = (\<lambda>e k. (e, snd k)), os_fstat = (\<lambda>fd k. (Some True, k)),
     os_fcntl = (\<lambda>fd cmd arg k. case (cmd, arg) of (F_GETFL, _) \<Rightarrow> (snd k, k) | (F_SETFL, Int_arg v) \<Rightarrow> (0, (fst k, v)) | _ \<Rightarrow> (0, k))\<rparr>"

definition demo_calls :: "(int \<times> u32) calls" where
  "demo_calls = \<lparr>os_calls = demo_os, epoll = (\<lambda>k op fd ev. (0, k)), sleep_f = (\<lambda>_ k. (0, k)), usleep_f = (\<lambda>_ k. (0, k)), nanosleep_f = (\<lambda>_ _ k. (0, k)),
     socket_f = (\<lambda>_ _ _ k. (5, k)), connect_f = (\<lambda>_ _ k. (- 1, (EINPROGRESS, snd k))), accept_f = (\<lambda>_ k. (- 1, (EAGAIN, snd k))), close_f = (\<lambda>_ k. (0, k)),
     ioctl_f = (\<lambda>fd req arg k. (0, (fst k, if arg = 0 then snd k AND NOT O_NONBLOCK else snd k OR O_NONBLOCK))), setsockopt_f = (\<lambda>_ _ _ _ k. (0, k)), so_error_f = (\<lambda>_ k. (Some 0, k))\<rparr>"

definition demo_ctx :: FdCtx where
  "demo_ctx = \<lparr>m_isInit = True, m_isSocket = True, m_sysNonblock = True, m_userNonblock = False, m_isClosed = False, m_fd = 5, m_recvTimeout = 100, m_sendTimeout = - 1\<rparr>"

definition demo_thread :: thread where
  "demo_thread = \<lparr>t_hook_enable = True, this_fiber = 3, has_iom = True\<rparr>"

definition demo_hook :: "(int \<times> u32) hook" where
  "demo_hook = \<lparr>iom = new_IOManager (0, O_NONBLOCK), tm = new_TimerManager 0, fdm = new_FdManager[5 := Some demo_ctx], tinfos = (\<lambda>_. None)\<rparr>"

lemma fd_index_5 [simp]: "fd_index 5 = 5"
  by (simp add: fd_index_nat)

lemma demo_facts:
  "io_inv (iom demo_hook)" "tm_inv (tm demo_hook)" "1 \<notin> set (m_timers (tm demo_hook))" "t_hook_enable demo_thread" "has_iom demo_thread"
  "lookup_ctx 5 demo_hook = Some demo_ctx" "\<not> m_isClosed demo_ctx" "m_isSocket demo_ctx" "\<not> m_userNonblock demo_ctx" "\<not> registered (iom demo_hook) (nat 5) READ"
  "\<And>k op fd ev. fst (epoll demo_calls k op fd ev) = 0" "\<And>e k. os_errno (os_calls demo_calls) (os_set_errno (os_calls demo_calls) e k) = e"
  "getTimeout SO_RCVTIMEO demo_ctx = 100"
proof -
  have c: "contextResize 32 [] ! 5 = new_FdContext 5" "length (contextResize 32 []) = 32" by (simp_all add: new_contexts)
  show "\<not> registered (iom demo_hook) (nat 5) READ" by (simp add: registered_def demo_hook_def new_IOManager_def c new_FdContext_def)
  show "tm_inv (tm demo_hook)" by (simp add: demo_hook_def tm_inv_new)
  show "io_inv (iom demo_hook)" "1 \<notin> set (m_timers (tm demo_hook))" "t_hook_enable demo_thread" "has_iom demo_thread"
    "lookup_ctx 5 demo_hook = Some demo_ctx" "\<not> m_isClosed demo_ctx" "m_isSocket demo_ctx" "\<not> m_userNonblock demo_ctx"
    "\<And>k op fd ev. fst (epoll demo_calls k op fd ev) = 0" "\<And>e k. os_errno (os_calls demo_calls) (os_set_errno (os_calls demo_calls) e k) = e"
    "getTimeout SO_RCVTIMEO demo_ctx = 100"
    by (simp_all add: demo_hook_def io_inv_new new_TimerManager_def demo_thread_def demo_ctx_def lookup_ctx_def get_look_def new_FdManager_def
        demo_calls_def demo_os_def getTimeout_def)
qed

subsection \<open>Properties\<close>

text \<open>
  C16. A blocking call on a managed socket that finds no data holds with a timer at its timeout. When that timer's
  callback runs, exactly this fiber is scheduled, and the resumed call returns -1 with \<open>errno\<close> \<open>ETIMEDOUT\<close>, whatever happened to the timers meanwhile.
\<close>

theorem do_io_times_out:
  assumes "io_inv (iom h)" "tm_inv (tm h)" "p \<notin> set (m_timers (tm h))"
    and "t_hook_enable th" "has_iom th" and "lookup_ctx fd h = Some ctx" "\<not> m_isClosed ctx" "m_isSocket ctx" "\<not> m_userNonblock ctx"
    and "event = READ \<or> event = WRITE" "\<not> registered (iom h) (nat fd) event"
    and "f (kern h) = (- 1, k)" "os_errno (os_calls C) k = EAGAIN" and "getTimeout timeout_so ctx \<noteq> - 1"
    and "\<And>k op fd ev. fst (epoll C k op fd ev) = 0" and "\<And>e k. os_errno (os_calls C) (os_set_errno (os_calls C) e k) = e"
  shows "\<exists>h1 h2 cb. do_io C th t p now fd f event timeout_so h = Some (Inr (Hold (Some p)), h1)
    \<and> p \<in> set (m_timers (tm h1)) \<and> m_next (m_heap (tm h1) p) = now + getTimeout timeout_so ctx \<and> m_cb (m_heap (tm h1) p) = Some cb
    \<and> fire_cb C cb h1 = (Inr (), h2) \<and> scheduled (iom h2) = scheduled (iom h) @ [Run_fiber (this_fiber th)]
    \<and> (\<forall>tm' p' now'. tm_inv tm' \<longrightarrow> (\<exists>h3. do_io_resume C th p' now' (io_frame fd f event timeout_so t ctx) (Some p) (h2\<lparr>tm := tm'\<rparr>)
          = Some (Inr (Return (- 1)), h3) \<and> errno C h3 = ETIMEDOUT))"
proof -
  obtain h1 where h1: "do_io C th t p now fd f event timeout_so h = Some (Inr (Hold (Some p)), h1)" "holding (this_fiber th) fd event t h1"
      "scheduled (iom h1) = scheduled (iom h)" "p \<in> set (m_timers (tm h1))" "m_next (m_heap (tm h1) p) = now + getTimeout timeout_so ctx"
      "m_cb (m_heap (tm h1) p) = Some (OnTimer t (Io_timeout t fd event))"
    using do_io_holds [where h = h and p = p and f = f and C = C and t = t and now = now and timeout_so = timeout_so,
        OF assms(1-13) assms(15)] assms(14) by auto
  obtain h2 where h2: "io_timeout C t fd event h1 = (Inr (), h2)" "scheduled (iom h2) = scheduled (iom h1) @ [Run_fiber (this_fiber th)]" "tinfos h2 t = Some ETIMEDOUT"
    using io_timeout_holding [OF h1(2) assms(15)] by blast
  have "fire_cb C (OnTimer t (Io_timeout t fd event)) h1 = (Inr (), h2)"
    using h2(1) h1(2) by (simp add: fire_cb_def holding_def)
  moreover have "\<exists>h3. do_io_resume C th p' now' (io_frame fd f event timeout_so t ctx) (Some p) (h2\<lparr>tm := tm'\<rparr>) = Some (Inr (Return (- 1)), h3) \<and> errno C h3 = ETIMEDOUT"
    if "tm_inv tm'" for tm' p' now'
    using do_io_resume_timed_out [of "h2\<lparr>tm := tm'\<rparr>" "io_frame fd f event timeout_so t ctx" C th p' now' "Some p"] that h2(3) assms(16)
    by (auto simp: io_frame_def)
  ultimately show ?thesis using h1 h2(2) by metis
qed

theorem do_io_times_out_witness:
  "\<exists>h1. do_io demo_calls demo_thread 9 1 0 5 (accept_f demo_calls 5) READ SO_RCVTIMEO demo_hook = Some (Inr (Hold (Some 1)), h1)
    \<and> m_next (m_heap (tm h1) 1) = 100"
proof -
  have a: "accept_f demo_calls 5 (kern demo_hook) = (- 1, (EAGAIN, O_NONBLOCK))" "os_errno (os_calls demo_calls) (EAGAIN, O_NONBLOCK) = EAGAIN"
    by (simp_all add: demo_calls_def demo_hook_def new_IOManager_def demo_os_def)
  show ?thesis
    using do_io_times_out [where f = "accept_f demo_calls 5" and event = READ and timeout_so = SO_RCVTIMEO and t = 9 and now = 0,
        OF demo_facts(1-9) _ demo_facts(10) a _ demo_facts(11,12)] demo_facts(13) by auto
qed



text \<open>
  The timeout of a call whose event was already reported, before its fiber runs again, with the other event of the
  descriptor waited for: \<open>cancelEvent\<close> passes its guard and the assertion of \<open>triggerEvent\<close> fails.
\<close>

lemma io_timeout_race_asserts:
  assumes "io_inv (iom h)" and "nat fd < length (m_fdContexts (iom h))" and "event = READ \<or> event = WRITE"
    and "fc_events (m_fdContexts (iom h) ! nat fd) AND event = 0" and "fc_events (m_fdContexts (iom h) ! nat fd) \<noteq> 0"
    and "\<And>k op fd ev. fst (epoll C k op fd ev) = 0" and "tinfos h t = Some 0"
  shows "fst (fire_cb C (OnTimer t (Io_timeout t fd event)) h) = Inl (Io_failed (Io_assert ''events & event''))"
proof -
  obtain io where "cancelEvent (epoll C) (nat fd) event (iom h) = (Inl (Io_assert ''events & event''), io)"
    using unregistered_event [where ctl = "epoll C", OF assms(1-6)] by (cases "cancelEvent (epoll C) (nat fd) event (iom h)") simp
  then show ?thesis using assms(7) by (simp add: fire_cb_def io_timeout_def)
qed

subsection \<open>Blocking mode\<close>

lemma lookup_put [simp]: "lookup_ctx fd h = Some ctx \<Longrightarrow> lookup_ctx fd (put_ctx fd ctx' h) = Some ctx'"
  by (auto simp: lookup_ctx_def get_look_def put_ctx_def split: if_splits)

lemma lookup_set_kernel [simp]: "lookup_ctx fd (set_kernel k h) = lookup_ctx fd h"
  by (simp add: lookup_ctx_def)

lemma kern_put [simp]: "kern (put_ctx fd ctx h) = kern h"
  by (simp add: put_ctx_def)

lemma and_power: "(v :: u32) AND 2 ^ n = (if bit v n then 2 ^ n else 0)"
  by (rule bit_word_eqI) (auto simp: bit_simps)

lemma or_and_absorb: "(v OR e) AND e = (e :: u32)"
  by (rule bit_word_eqI) (auto simp: bit_simps)

lemma mask_facts:
  "(v OR O_NONBLOCK) AND O_NONBLOCK = (O_NONBLOCK :: u32)" "(v AND - 2049) AND O_NONBLOCK = (0 :: u32)"
  "v AND O_NONBLOCK = (if bit v 11 then O_NONBLOCK else 0 :: u32)"
  using and_not_and [of v O_NONBLOCK] and_power [of v 11] by (simp_all add: or_and_absorb)

text \<open>
  C19. The hooked \<open>fcntl\<close> gives the program its own blocking mode: after setting flags on a managed socket, reading them
  back gives the mode that was set, while the kernel keeps the socket non-blocking. The kernel is assumed to give back the mode it was given.
\<close>

theorem fcntl_virtual_blocking_mode:
  assumes "lookup_ctx fd h = Some ctx" and "\<not> m_isClosed ctx" and "m_isSocket ctx" and "m_sysNonblock ctx"
    and "\<And>v k. fst (os_fcntl (os_calls C) fd F_GETFL No_arg (snd (os_fcntl (os_calls C) fd F_SETFL (Int_arg v) k))) AND O_NONBLOCK = v AND O_NONBLOCK"
    and "hook_fcntl C fd F_SETFL v p h = (r1, h1)" and "hook_fcntl C fd F_GETFL w q h1 = (r2, h2)"
  shows "r2 AND O_NONBLOCK = v AND O_NONBLOCK
    \<and> fst (os_fcntl (os_calls C) fd F_GETFL No_arg (kern h1)) AND O_NONBLOCK = O_NONBLOCK
    \<and> (\<exists>ctx1. lookup_ctx fd h1 = Some ctx1 \<and> (m_userNonblock ctx1 \<longleftrightarrow> v AND O_NONBLOCK \<noteq> 0))"
proof -
  let ?ctx = "ctx\<lparr>m_userNonblock := (v AND O_NONBLOCK \<noteq> 0)\<rparr>"
  let ?k = "snd (os_fcntl (os_calls C) fd F_SETFL (Int_arg (v OR O_NONBLOCK)) (kern h))"
  have h1: "h1 = set_kernel ?k (put_ctx fd ?ctx h)"
    using assms(1-4,6) by (simp add: hook_fcntl_def pass_fcntl_def split: prod.splits)
  then have look: "lookup_ctx fd h1 = Some ?ctx" using assms(1) by simp
  have r2: "r2 AND O_NONBLOCK = (if v AND O_NONBLOCK \<noteq> 0 then O_NONBLOCK else 0)"
    using assms(2,3,7) look by (auto simp: hook_fcntl_def pass_fcntl_def mask_facts(1,2) split: prod.splits)
  have "fst (os_fcntl (os_calls C) fd F_GETFL No_arg (kern h1)) AND O_NONBLOCK = O_NONBLOCK"
    unfolding h1 using assms(5) [of "v OR O_NONBLOCK" "kern h"] by (simp add: mask_facts(1))
  moreover have "r2 AND O_NONBLOCK = v AND O_NONBLOCK" unfolding r2 using mask_facts(3) [of v] by auto
  ultimately show ?thesis using look by auto
qed

theorem fcntl_virtual_blocking_mode_witness:
  "\<exists>r1 h1 r2 h2. hook_fcntl demo_calls 5 F_SETFL 2 0 demo_hook = (r1, h1) \<and> hook_fcntl demo_calls 5 F_GETFL 0 0 h1 = (r2, h2)
    \<and> r2 AND O_NONBLOCK = 0 \<and> fst (os_fcntl (os_calls demo_calls) 5 F_GETFL No_arg (kern h1)) AND O_NONBLOCK = O_NONBLOCK"
proof -
  obtain r1 h1 where h1: "hook_fcntl demo_calls 5 F_SETFL 2 0 demo_hook = (r1, h1)" by force
  obtain r2 h2 where h2: "hook_fcntl demo_calls 5 F_GETFL 0 0 h1 = (r2, h2)" by force
  have os: "fst (os_fcntl (os_calls demo_calls) 5 F_GETFL No_arg (snd (os_fcntl (os_calls demo_calls) 5 F_SETFL (Int_arg v) k))) AND O_NONBLOCK = v AND O_NONBLOCK" for v k
    by (simp add: demo_calls_def demo_os_def)
  have "m_sysNonblock demo_ctx" by (simp add: demo_ctx_def)
  from fcntl_virtual_blocking_mode [OF demo_facts(6,7,8) this os h1 h2] show ?thesis using h1 h2 by simp
qed

text \<open>
  The hooked \<open>ioctl\<close> passes the program's \<open>FIONBIO\<close> on unchanged: turning non-blocking mode off clears it in
  the kernel although the context still counts the socket as non-blocking, and the next hooked call blocks its thread.
\<close>

lemma ioctl_unblocks_kernel:
  assumes "lookup_ctx fd h = Some ctx" and "\<not> m_isClosed ctx" and "m_isSocket ctx" and "hook_ioctl C fd FIONBIO 0 h = (r, h')"
  shows "kern h' = snd (ioctl_f C fd FIONBIO 0 (kern h)) \<and> lookup_ctx fd h' = Some (ctx\<lparr>m_userNonblock := False\<rparr>)"
  using assms by (auto simp: hook_ioctl_def split: prod.splits)

text \<open>
  C18. Closing a managed descriptor wakes whoever waits on it: no event stays registered, every waiting task is
  either handed to the scheduler or still waits on another descriptor, the context is forgotten, and the descriptor is closed once.
\<close>

theorem close_wakes_waiters:
  assumes "io_inv (iom h)" and "nat fd < length (m_fdContexts (iom h))" and "t_hook_enable th" and "has_iom th"
    and "lookup_ctx fd h = Some ctx" and "fst (epoll C (kern h) EPOLL_CTL_DEL (nat fd) 0) = 0"
  shows "\<exists>n h'. hook_close C th fd h = (Inr n, h') \<and> lookup_ctx fd h' = None \<and> io_inv (iom h')
    \<and> fc_events (m_fdContexts (iom h') ! nat fd) = 0 \<and> io_tasks (iom h') = io_tasks (iom h)"
proof -
  let ?fc = "m_fdContexts (iom h) ! nat fd"
  have "\<exists>b io. cancelAll (epoll C) (nat fd) (iom h) = (Inr b, io) \<and> io_inv io \<and> fc_events (m_fdContexts io ! nat fd) = 0 \<and> io_tasks io = io_tasks (iom h)"
  proof (cases "fc_events ?fc = 0")
    case True
    then show ?thesis using assms(1,2) by (auto simp: cancelAll_def)
  next
    case False
    then obtain b io where io: "cancelAll (epoll C) (nat fd) (iom h) = (Inr b, io)" "io_inv io" "io_tasks io = io_tasks (iom h)" "b \<longrightarrow> fc_events (m_fdContexts io ! nat fd) = 0"
      using cancelAll_ok [OF assms(1,2), of "epoll C"] by blast
    obtain k where "epoll C (kern h) EPOLL_CTL_DEL (nat fd) 0 = (0, k)" using assms(6) by (metis prod.collapse)
    then have "b" using io(1) assms(2) False by (auto simp: cancelAll_def andThen_def split: prod.splits sum.splits if_splits)
    then show ?thesis using io by blast
  qed
  then obtain b io where io: "cancelAll (epoll C) (nat fd) (iom h) = (Inr b, io)" "io_inv io" "fc_events (m_fdContexts io ! nat fd) = 0" "io_tasks io = io_tasks (iom h)"
    by blast
  obtain n k where nk: "close_f C fd (kernel io) = (n, k)" by force
  let ?h = "set_kernel k (h\<lparr>iom := io, fdm := FdManager_del fd (fdm h)\<rparr>)"
  have "hook_close C th fd h = (Inr n, ?h)" using assms(3-5) io(1) nk by (simp add: hook_close_def)
  moreover have "lookup_ctx fd ?h = None" by (simp add: lookup_ctx_def get_look_def FdManager_del_def)
  ultimately show ?thesis using io by (auto simp: io_tasks_def)
qed

theorem close_wakes_waiters_witness:
  "\<exists>n h'. hook_close demo_calls demo_thread 5 demo_hook = (Inr n, h') \<and> lookup_ctx 5 h' = None"
proof -
  have "nat 5 < length (m_fdContexts (iom demo_hook))" by (simp add: demo_hook_def new_IOManager_def new_contexts)
  from close_wakes_waiters [OF demo_facts(1) this demo_facts(4,5,6)] show ?thesis using demo_facts(11) by blast
qed

text \<open>
  The hooked sleeps: the fiber holds, its timer is due after the milliseconds the call asked for, and running it
  schedules exactly this fiber. For \<open>sleep\<close> the number of milliseconds is an \<open>unsigned int\<close> product, so it wraps from 4294968 seconds on.
\<close>

lemma sleep_wakes_after:
  assumes "tm_inv (tm h)" and "p \<notin> set (m_timers (tm h))" and "t_hook_enable th" and "has_iom th"
  shows "\<exists>h1. hook_sleep C th p now seconds h = (Inr (Hold (Some p)), h1) \<and> tm_inv (tm h1) \<and> p \<in> set (m_timers (tm h1))
    \<and> m_next (m_heap (tm h1) p) = now + of_nat (unat seconds * 1000 mod 2 ^ 32)
    \<and> (\<exists>cb h2. m_cb (m_heap (tm h1) p) = Some cb \<and> fire_cb C cb h1 = (Inr (), h2) \<and> scheduled (iom h2) = scheduled (iom h) @ [Run_fiber (this_fiber th)])"
proof -
  let ?ms = "ucast (seconds * 1000) :: u64" and ?cb = "Plain (Schedule_fiber (this_fiber th)) :: (nat, hook_cb) callback"
  have "unat (seconds * 1000) = unat seconds * 1000 mod 2 ^ 32" by (simp add: unat_word_ariths)
  then have ms: "?ms = of_nat (unat seconds * 1000 mod 2 ^ 32)" by (metis of_nat_unat)
  show ?thesis
    using assms addTimer_inv [OF assms(1,2), of ?ms ?cb False now] addTimer_set [OF assms(1,2), of ?ms ?cb False now]
    by (simp add: hook_sleep_def hold_for_def fire_cb_def ms)
qed

end
