(* ===== verification/Socket.thy ===== *)
theory Socket
  imports Hook Address
begin

text \<open>
  Sockets (\<open>sylar/socket.h\<close>, \<open>sylar/socket.cpp\<close>) over the hooked system calls. \<open>socket\<close>, \<open>close\<close>,
  \<open>setsockopt\<close> and the lookups in the descriptor table are the definitions of \<open>Hook\<close>. A call that may suspend
  its fiber (accept, connect, send, receive) is seen from the fiber: a function from the state at the call to
  its result and the state at the return, whatever else ran meanwhile. OpenSSL is a parameter.
\<close>

abbreviation (input) SOCK_STREAM :: int where "SOCK_STREAM \<equiv> 1"
abbreviation (input) SOCK_DGRAM :: int where "SOCK_DGRAM \<equiv> 2"

record socket =
  s_sock :: int
  s_family :: int
  s_type :: int
  s_protocol :: int
  s_isConnected :: bool
  s_localAddress :: "address option"
  s_remoteAddress :: "address option"

text \<open>
  What is documented of \<open>recv\<close> and \<open>send\<close>: a positive result is a number of bytes, at most what was asked for; \<open>recv\<close>
  has stored that many. The calls that obey this are types.
\<close>

typedef 'k recv_call = "{f :: int \<Rightarrow> nat \<Rightarrow> 'k hook \<Rightarrow> (int \<times> string) \<times> 'k hook.
    \<forall>fd n h. 0 < fst (fst (f fd n h)) \<longrightarrow> fst (fst (f fd n h)) \<le> int n \<and> int (length (snd (fst (f fd n h)))) = fst (fst (f fd n h))}"
  morphisms recv_f Recv_call
  by (rule exI [of _ "\<lambda>fd n h. ((- 1, []), h)"]) simp

typedef 'k send_call = "{f :: int \<Rightarrow> string \<Rightarrow> 'k hook \<Rightarrow> int \<times> 'k hook. \<forall>fd bs h. fst (f fd bs h) \<le> int (length bs)}"
  morphisms send_f Send_call
  by (rule exI [of _ "\<lambda>fd bs h. (- 1, h)"]) simp

lemma recv_law:
  assumes "recv_f f fd n h = ((rt, bs), h1)" and "0 < rt"
  shows "rt \<le> int n \<and> int (length bs) = rt"
proof -
  have "0 < fst (fst (recv_f f fd n h)) \<longrightarrow> fst (fst (recv_f f fd n h)) \<le> int n
      \<and> int (length (snd (fst (recv_f f fd n h)))) = fst (fst (recv_f f fd n h))"
    using recv_f [of f] by blast
  then show ?thesis using assms by simp
qed

lemma send_law: "send_f f fd bs h = (rt, h1) \<Longrightarrow> rt \<le> int (length bs)"
proof -
  have "fst (send_f f fd bs h) \<le> int (length bs)" using send_f [of f] by blast
  then show "send_f f fd bs h = (rt, h1) \<Longrightarrow> rt \<le> int (length bs)" by simp
qed

text \<open>The network as a fiber on the thread \<open>net_thread\<close> sees it. \<open>getpeername\<close> gives the memory of the
  address, not longer than the object, and its length; \<open>net_getsockopt\<close> the value of an option; \<open>net_recvfrom\<close>, besides what
  was received, the memory of the sender's address.\<close>

record 'k network =
  net_calls :: "'k calls"
  net_thread :: thread
  net_accept :: "int \<Rightarrow> 'k hook \<Rightarrow> int \<times> 'k hook"
  net_connect :: "int \<Rightarrow> u8 list \<Rightarrow> u64 option \<Rightarrow> 'k hook \<Rightarrow> int \<times> 'k hook"
  net_bind :: "int \<Rightarrow> u8 list \<Rightarrow> 'k hook \<Rightarrow> int \<times> 'k hook"
  net_listen :: "int \<Rightarrow> int \<Rightarrow> 'k hook \<Rightarrow> int \<times> 'k hook"
  net_getpeername :: "int \<Rightarrow> 'k hook \<Rightarrow> (u8 list \<times> nat) option \<times> 'k hook"
  net_getsockopt :: "int \<Rightarrow> int \<Rightarrow> int \<Rightarrow> 'k hook \<Rightarrow> int option \<times> 'k hook"
  net_recv :: "'k recv_call"
  net_send :: "'k send_call"
  net_sendto :: "u8 list \<Rightarrow> 'k send_call"
  net_recvfrom :: "nat \<Rightarrow> int \<Rightarrow> nat \<Rightarrow> 'k hook \<Rightarrow> (int \<times> string \<times> u8 list) \<times> 'k hook"

definition new_Socket :: "int \<Rightarrow> int \<Rightarrow> int \<Rightarrow> socket" where
  "new_Socket family type protocol =
     \<lparr>s_sock = - 1, s_family = family, s_type = type, s_protocol = protocol, s_isConnected = False, s_localAddress = None, s_remoteAddress = None\<rparr>"

definition CreateTCP :: "address \<Rightarrow> socket" where
  "CreateTCP address = new_Socket (getFamily address) SOCK_STREAM 0"

definition CreateUDP :: "address \<Rightarrow> socket" where
  "CreateUDP address = new_Socket (getFamily address) SOCK_DGRAM 0"

definition CreateTCPSocket :: socket where "CreateTCPSocket = new_Socket AF_INET SOCK_STREAM 0"
definition CreateUDPSocket :: socket where "CreateUDPSocket = new_Socket AF_INET SOCK_DGRAM 0"
definition CreateTCPSocket6 :: socket where "CreateTCPSocket6 = new_Socket AF_INET6 SOCK_STREAM 0"
definition CreateUDPSocket6 :: socket where "CreateUDPSocket6 = new_Socket AF_INET6 SOCK_DGRAM 0"
definition CreateTCPUnixSocket :: socket where "CreateTCPUnixSocket = new_Socket AF_UNIX SOCK_STREAM 0"
definition CreateUDPUnixSocket :: socket where "CreateUDPUnixSocket = new_Socket AF_UNIX SOCK_DGRAM 0"

definition isVaild :: "socket \<Rightarrow> bool" where
  "isVaild s \<longleftrightarrow> s_sock s \<noteq> - 1"

subsection \<open>Options\<close>

text \<open>The timeouts are read from the descriptor table, \<open>-1\<close> without a context.\<close>

definition getSendTimeout :: "socket \<Rightarrow> 'k hook \<Rightarrow> int" where
  "getSendTimeout s h = (case lookup_ctx (s_sock s) h of Some ctx \<Rightarrow> sint (getTimeout SO_SNDTIMEO ctx) | None \<Rightarrow> - 1)"

definition getRecvTimeout :: "socket \<Rightarrow> 'k hook \<Rightarrow> int" where
  "getRecvTimeout s h = (case lookup_ctx (s_sock s) h of Some ctx \<Rightarrow> sint (getTimeout SO_RCVTIMEO ctx) | None \<Rightarrow> - 1)"

definition setOption :: "'k network \<Rightarrow> int \<Rightarrow> int \<Rightarrow> int \<times> int \<Rightarrow> socket \<Rightarrow> 'k hook \<Rightarrow> bool \<times> 'k hook" where
  "setOption net level option v s h =
     (case hook_setsockopt (net_calls net) (net_thread net) (s_sock s) level option v h of (rt, h1) \<Rightarrow> (rt = 0, h1))"

definition getOption :: "'k network \<Rightarrow> int \<Rightarrow> int \<Rightarrow> socket \<Rightarrow> 'k hook \<Rightarrow> int option \<times> 'k hook" where
  "getOption net level option s h = net_getsockopt net (s_sock s) level option h"

text \<open>\<open>getError\<close> reads \<open>SO_ERROR\<close> (4).\<close>

definition getError :: "'k network \<Rightarrow> socket \<Rightarrow> 'k hook \<Rightarrow> int \<times> 'k hook" where
  "getError net s h = (case getOption net SOL_SOCKET 4 s h of (None, h1) \<Rightarrow> (- 1, h1) | (Some error, h1) \<Rightarrow> (error, h1))"

text \<open>\<open>timeval{int(v / 1000), int(v % 1000 * 1000)}\<close>, with C division.\<close>

definition timeval_of :: "int \<Rightarrow> int \<times> int" where
  "timeval_of v = (sint (word_of_int (v sdiv 1000) :: u32), sint (word_of_int (v smod 1000 * 1000) :: u32))"

definition setSendTimeout :: "'k network \<Rightarrow> int \<Rightarrow> socket \<Rightarrow> 'k hook \<Rightarrow> 'k hook" where
  "setSendTimeout net v s h = snd (setOption net SOL_SOCKET SO_SNDTIMEO (timeval_of v) s h)"

definition setRecvTimeout :: "'k network \<Rightarrow> int \<Rightarrow> socket \<Rightarrow> 'k hook \<Rightarrow> 'k hook" where
  "setRecvTimeout net v s h = snd (setOption net SOL_SOCKET SO_RCVTIMEO (timeval_of v) s h)"

text \<open>\<open>initSock\<close>: \<open>SO_REUSEADDR\<close> (2), and \<open>TCP_NODELAY\<close> (1) of \<open>IPPROTO_TCP\<close> (6) for a stream; the option value is 1.\<close>

definition initSock :: "'k network \<Rightarrow> socket \<Rightarrow> 'k hook \<Rightarrow> 'k hook" where
  "initSock net s h =
     (let h1 = snd (setOption net SOL_SOCKET 2 (1, 0) s h) in
      if s_type s = SOCK_STREAM then snd (setOption net 6 1 (1, 0) s h1) else h1)"

subsection \<open>Addresses\<close>

definition empty_address :: "int \<Rightarrow> address" where
  "empty_address family =
     (if family = AF_INET then new_IPv4Address 0 0 else if family = AF_INET6 then new_IPv6Address
      else if family = AF_UNIX then new_UnixAddress else new_UnknownAddress family)"

text \<open>The kernel writes \<open>m\<close> over the beginning of the address that the object holds.\<close>

primrec overwrite_address :: "u8 list \<Rightarrow> address \<Rightarrow> address" where
  "overwrite_address m (IPv4Address a) = IPv4Address (in_of_mem (m @ drop (length m) (in_mem a)))"
| "overwrite_address m (IPv6Address a) = IPv6Address (in6_of_mem (m @ drop (length m) (in6_mem a)))"
| "overwrite_address m (UnixAddress a n) =
     (let mem = m @ drop (length m) (mem_bytes 2 (sun_family a) @ sun_path a) in
      UnixAddress \<lparr>sun_family = of_mem (take 2 mem), sun_path = take 108 (drop 2 mem)\<rparr> n)"
| "overwrite_address m (UnknownAddress a) = UnknownAddress (sockaddr_of_mem (m @ drop (length m) (mem_bytes 2 (sa_family a) @ sa_data a)))"

definition fill_address :: "int \<Rightarrow> u8 list \<Rightarrow> nat \<Rightarrow> address" where
  "fill_address family m len =
     (case overwrite_address m (empty_address family) of
        UnixAddress a n \<Rightarrow> UnixAddress a len
      | a \<Rightarrow> a)"

definition getRemoteAddress :: "'k network \<Rightarrow> socket \<Rightarrow> 'k hook \<Rightarrow> address \<times> socket \<times> 'k hook" where
  "getRemoteAddress net s h =
     (case s_remoteAddress s of
        Some a \<Rightarrow> (a, s, h)
      | None \<Rightarrow>
          (case net_getpeername net (s_sock s) h of
             (None, h1) \<Rightarrow> (new_UnknownAddress (s_family s), s, h1)
           | (Some (m, len), h1) \<Rightarrow>
               let a = fill_address (s_family s) m len in (a, s\<lparr>s_remoteAddress := Some a\<rparr>, h1)))"

text \<open>\<open>getLocalAddress\<close> calls \<open>getpeername\<close> too.\<close>

definition getLocalAddress :: "'k network \<Rightarrow> socket \<Rightarrow> 'k hook \<Rightarrow> address \<times> socket \<times> 'k hook" where
  "getLocalAddress net s h =
     (case s_localAddress s of
        Some a \<Rightarrow> (a, s, h)
      | None \<Rightarrow>
          (case net_getpeername net (s_sock s) h of
             (None, h1) \<Rightarrow> (new_UnknownAddress (s_family s), s, h1)
           | (Some (m, len), h1) \<Rightarrow>
               let a = fill_address (s_family s) m len in (a, s\<lparr>s_localAddress := Some a\<rparr>, h1)))"

subsection \<open>Connections\<close>

definition newSock :: "'k network \<Rightarrow> socket \<Rightarrow> ('k hook, hook_error, socket) outcome" where
  "newSock net s =
     andThen (hook_socket (net_calls net) (net_thread net) (s_family s) (s_type s) (s_protocol s)) (\<lambda>fd h.
       let s1 = s\<lparr>s_sock := fd\<rparr> in if fd \<noteq> - 1 then (Inr s1, initSock net s1 h) else (Inr s1, h))"

definition Socket_init :: "'k network \<Rightarrow> int \<Rightarrow> socket \<Rightarrow> 'k hook \<Rightarrow> bool \<times> socket \<times> 'k hook" where
  "Socket_init net sock s h =
     (case lookup_ctx sock h of
        None \<Rightarrow> (False, s, h)
      | Some ctx \<Rightarrow>
          if m_isSocket ctx \<and> \<not> m_isClosed ctx then
            let s1 = s\<lparr>s_sock := sock, s_isConnected := True\<rparr>;
                h1 = initSock net s1 h;
                (_, s2, h2) = getLocalAddress net s1 h1;
                (_, s3, h3) = getRemoteAddress net s2 h2
            in (True, s3, h3)
          else (False, s, h))"

definition Socket_accept :: "'k network \<Rightarrow> socket \<Rightarrow> 'k hook \<Rightarrow> socket option \<times> 'k hook" where
  "Socket_accept net s h =
     (case net_accept net (s_sock s) h of (newsock, h1) \<Rightarrow>
        if newsock = - 1 then (None, h1)
        else case Socket_init net newsock (new_Socket (s_family s) (s_type s) (s_protocol s)) h1 of
          (ok, sock, h2) \<Rightarrow> (if ok then Some sock else None, h2))"

definition Socket_close :: "'k network \<Rightarrow> socket \<Rightarrow> ('k hook, hook_error, bool \<times> socket) outcome" where
  "Socket_close net s =
     (if \<not> s_isConnected s \<and> s_sock s = - 1 then ret (True, s)
      else if s_sock s \<noteq> - 1 then
        andThen (hook_close (net_calls net) (net_thread net) (s_sock s)) (\<lambda>_. ret (False, s\<lparr>s_isConnected := False, s_sock := - 1\<rparr>))
      else ret (False, s\<lparr>s_isConnected := False\<rparr>))"

definition ensure_sock :: "'k network \<Rightarrow> socket \<Rightarrow> ('k hook, hook_error, socket) outcome" where
  "ensure_sock net s = (if \<not> isVaild s then newSock net s else ret s)"

definition Socket_bind :: "'k network \<Rightarrow> address \<Rightarrow> socket \<Rightarrow> ('k hook, hook_error, bool \<times> socket) outcome" where
  "Socket_bind net addr s =
     andThen (ensure_sock net s) (\<lambda>s1 h.
       if \<not> isVaild s1 then (Inr (False, s1), h)
       else if getFamily addr \<noteq> s_family s1 then (Inr (False, s1), h)
       else case net_bind net (s_sock s1) (take (getAddrLen addr) (addr_mem addr)) h of (rt, h1) \<Rightarrow>
         if rt \<noteq> 0 then (Inr (False, s1), h1)
         else case getLocalAddress net s1 h1 of (_, s2, h2) \<Rightarrow> (Inr (True, s2), h2))"

text \<open>\<open>timeout_ms\<close> of \<open>-1\<close> selects \<open>connect\<close>, any other \<open>connect_with_timeout\<close>.\<close>

definition Socket_connect :: "'k network \<Rightarrow> address \<Rightarrow> u64 \<Rightarrow> socket \<Rightarrow> ('k hook, hook_error, bool \<times> socket) outcome" where
  "Socket_connect net addr timeout_ms s =
     andThen (ensure_sock net (s\<lparr>s_remoteAddress := Some addr\<rparr>)) (\<lambda>s1 h.
       if \<not> isVaild s1 then (Inr (False, s1), h)
       else if getFamily addr \<noteq> s_family s1 then (Inr (False, s1), h)
       else case net_connect net (s_sock s1) (take (getAddrLen addr) (addr_mem addr)) (if timeout_ms = - 1 then None else Some timeout_ms) h of (rt, h1) \<Rightarrow>
         if rt \<noteq> 0 then andThen (Socket_close net s1) (\<lambda>r. ret (False, snd r)) h1
         else let s2 = s1\<lparr>s_isConnected := True\<rparr>;
                  (_, s3, h3) = getRemoteAddress net s2 h1;
                  (_, s4, h4) = getLocalAddress net s3 h3
              in (Inr (True, s4), h4))"

definition Socket_listen :: "'k network \<Rightarrow> int \<Rightarrow> socket \<Rightarrow> 'k hook \<Rightarrow> bool \<times> 'k hook" where
  "Socket_listen net backlog s h =
     (if \<not> isVaild s then (False, h) else case net_listen net (s_sock s) backlog h of (rt, h1) \<Rightarrow> (rt = 0, h1))"

subsection \<open>Transfer\<close>

definition Socket_send :: "'k network \<Rightarrow> string \<Rightarrow> socket \<Rightarrow> 'k hook \<Rightarrow> int \<times> 'k hook" where
  "Socket_send net bs s h = (if s_isConnected s then send_f (net_send net) (s_sock s) bs h else (- 1, h))"

definition Socket_recv :: "'k network \<Rightarrow> nat \<Rightarrow> socket \<Rightarrow> 'k hook \<Rightarrow> (int \<times> string) \<times> 'k hook" where
  "Socket_recv net n s h = (if s_isConnected s then recv_f (net_recv net) (s_sock s) n h else ((- 1, []), h))"

text \<open>The versions for several buffers: one \<open>sendmsg\<close> or \<open>recvmsg\<close>, which works on the buffers in order as on one.\<close>

definition Socket_send_iov :: "'k network \<Rightarrow> string list \<Rightarrow> socket \<Rightarrow> 'k hook \<Rightarrow> int \<times> 'k hook" where
  "Socket_send_iov net bufs s h = (if s_isConnected s then send_f (net_send net) (s_sock s) (concat bufs) h else (- 1, h))"

definition Socket_recv_iov :: "'k network \<Rightarrow> nat list \<Rightarrow> socket \<Rightarrow> 'k hook \<Rightarrow> (int \<times> string) \<times> 'k hook" where
  "Socket_recv_iov net lens s h = (if s_isConnected s then recv_f (net_recv net) (s_sock s) (sum_list lens) h else ((- 1, []), h))"

definition sendTo :: "'k network \<Rightarrow> string \<Rightarrow> address \<Rightarrow> socket \<Rightarrow> 'k hook \<Rightarrow> int \<times> 'k hook" where
  "sendTo net bs dest s h =
     (if s_isConnected s then send_f (net_sendto net (take (getAddrLen dest) (addr_mem dest))) (s_sock s) bs h else (- 1, h))"

definition sendTo_iov :: "'k network \<Rightarrow> string list \<Rightarrow> address \<Rightarrow> socket \<Rightarrow> 'k hook \<Rightarrow> int \<times> 'k hook" where
  "sendTo_iov net bufs dest s h =
     (if s_isConnected s then send_f (net_sendto net (take (getAddrLen dest) (addr_mem dest))) (s_sock s) (concat bufs) h else (- 1, h))"

text \<open>The sender's address is stored into \<open>from\<close>; the length that the kernel reports is not.\<close>

definition recvFrom :: "'k network \<Rightarrow> nat \<Rightarrow> address \<Rightarrow> socket \<Rightarrow> 'k hook \<Rightarrow> (int \<times> string \<times> address) \<times> 'k hook" where
  "recvFrom net n sender s h =
     (if s_isConnected s then
        (case net_recvfrom net (getAddrLen sender) (s_sock s) n h of ((rt, bs, m), h1) \<Rightarrow> ((rt, bs, overwrite_address m sender), h1))
      else ((- 1, [], sender), h))"

definition recvFrom_iov :: "'k network \<Rightarrow> nat list \<Rightarrow> address \<Rightarrow> socket \<Rightarrow> 'k hook \<Rightarrow> (int \<times> string \<times> address) \<times> 'k hook" where
  "recvFrom_iov net lens sender s h =
     (if s_isConnected s then
        (case net_recvfrom net (getAddrLen sender) (s_sock s) (sum_list lens) h of ((rt, bs, m), h1) \<Rightarrow> ((rt, bs, overwrite_address m sender), h1))
      else ((- 1, [], sender), h))"

text \<open>\<open>Socket::dump\<close>.\<close>

definition Socket_dump :: "socket \<Rightarrow> string" where
  "Socket_dump s =
     ''[Socket sock='' @ dec_of_int (s_sock s) @ '' is_connected='' @ (if s_isConnected s then ''1'' else ''0'')
     @ '' family='' @ dec_of_int (s_family s) @ '' type='' @ dec_of_int (s_type s) @ '' protocol='' @ dec_of_int (s_protocol s)
     @ (case s_localAddress s of None \<Rightarrow> [] | Some a \<Rightarrow> '' local_address='' @ Address_toString a)
     @ (case s_remoteAddress s of None \<Rightarrow> [] | Some a \<Rightarrow> '' remote_address'' @ Address_toString a) @ '']''"

text \<open>Cancelling what other fibers wait for on this socket.\<close>

definition cancelRead :: "'k network \<Rightarrow> socket \<Rightarrow> ('k hook, hook_error, bool) outcome" where
  "cancelRead net s h =
     (if \<not> has_iom (net_thread net) then (Inl No_iomanager, h)
      else if s_sock s < 0 then (Inl (Io_failed Bad_index), h)
      else case cancelEvent (epoll (net_calls net)) (nat (s_sock s)) READ (iom h) of
        (Inl e, io) \<Rightarrow> (Inl (Io_failed e), h\<lparr>iom := io\<rparr>)
      | (Inr b, io) \<Rightarrow> (Inr b, h\<lparr>iom := io\<rparr>))"

definition cancelWrite :: "'k network \<Rightarrow> socket \<Rightarrow> ('k hook, hook_error, bool) outcome" where
  "cancelWrite net s h =
     (if \<not> has_iom (net_thread net) then (Inl No_iomanager, h)
      else if s_sock s < 0 then (Inl (Io_failed Bad_index), h)
      else case cancelEvent (epoll (net_calls net)) (nat (s_sock s)) WRITE (iom h) of
        (Inl e, io) \<Rightarrow> (Inl (Io_failed e), h\<lparr>iom := io\<rparr>)
      | (Inr b, io) \<Rightarrow> (Inr b, h\<lparr>iom := io\<rparr>))"

definition cancelAccept :: "'k network \<Rightarrow> socket \<Rightarrow> ('k hook, hook_error, bool) outcome" where
  "cancelAccept net s = cancelRead net s"

definition Socket_cancelAll :: "'k network \<Rightarrow> socket \<Rightarrow> ('k hook, hook_error, bool) outcome" where
  "Socket_cancelAll net s h =
     (if \<not> has_iom (net_thread net) then (Inl No_iomanager, h)
      else if s_sock s < 0 then (Inl (Io_failed Bad_index), h)
      else case cancelAll (epoll (net_calls net)) (nat (s_sock s)) (iom h) of
        (Inl e, io) \<Rightarrow> (Inl (Io_failed e), h\<lparr>iom := io\<rparr>)
      | (Inr b, io) \<Rightarrow> (Inr b, h\<lparr>iom := io\<rparr>))"

subsection \<open>Life cycle\<close>

text \<open>A connected socket has a descriptor.\<close>

definition sock_inv :: "socket \<Rightarrow> bool" where
  "sock_inv s \<longleftrightarrow> (s_isConnected s \<longrightarrow> isVaild s)"

lemma sock_inv_new: "sock_inv (new_Socket family type protocol)"
  by (simp add: sock_inv_def new_Socket_def)

lemma address_keeps:
  "getLocalAddress net s h = (a, s', h') \<Longrightarrow> s_sock s' = s_sock s \<and> s_isConnected s' = s_isConnected s"
  "getRemoteAddress net s h = (a, s', h') \<Longrightarrow> s_sock s' = s_sock s \<and> s_isConnected s' = s_isConnected s"
  by (auto simp: getLocalAddress_def getRemoteAddress_def Let_def split: option.splits prod.splits)

lemma ensure_sock_inv: "ensure_sock net s h = (Inr s', h') \<Longrightarrow> sock_inv s \<Longrightarrow> s_isConnected s' = s_isConnected s \<and> sock_inv s'"
  by (auto simp: ensure_sock_def newSock_def ret_def sock_inv_def isVaild_def Let_def split: if_splits elim!: andThen_eq_InrE)

lemma Socket_close_inv: "Socket_close net s h = (Inr (b, s'), h') \<Longrightarrow> \<not> s_isConnected s' \<and> \<not> isVaild s'"
  by (auto simp: Socket_close_def ret_def isVaild_def split: if_splits elim!: andThen_eq_InrE)

lemma Socket_accept_inv: "Socket_accept net s h = (Some s', h') \<Longrightarrow> s_isConnected s' \<and> isVaild s'"
  by (auto simp: Socket_accept_def Socket_init_def isVaild_def Let_def split: prod.splits option.splits if_splits dest!: address_keeps)

lemma Socket_connect_inv:
  assumes "Socket_connect net addr timeout_ms s h = (Inr (ok, s'), h')" and "sock_inv s"
  shows "sock_inv s' \<and> (ok \<longrightarrow> s_isConnected s' \<and> isVaild s')"
proof -
  obtain s1 h1 where s1: "ensure_sock net (s\<lparr>s_remoteAddress := Some addr\<rparr>) h = (Inr s1, h1)"
    using assms(1) by (auto simp: Socket_connect_def elim!: andThen_eq_InrE)
  have inv: "sock_inv s1" using ensure_sock_inv [OF s1] assms(2) by (simp add: sock_inv_def isVaild_def)
  show ?thesis
    using assms(1) inv s1 unfolding Socket_connect_def
    by (auto simp: outcome_simps sock_inv_def isVaild_def ret_def Let_def split: prod.splits if_splits elim!: andThen_eq_InrE dest!: address_keeps Socket_close_inv)
qed

text \<open>On a socket that is not connected no transfer reaches the network.\<close>

lemma transfer_closed:
  "\<not> s_isConnected s \<Longrightarrow> Socket_send net bs s h = (- 1, h) \<and> Socket_recv net n s h = ((- 1, []), h)"
  by (simp add: Socket_send_def Socket_recv_def)

text \<open>The two addresses of a new connection are the same: both are the peer's.\<close>

lemma local_address_is_peer:
  assumes "s_localAddress s = None" and "s_remoteAddress s = None" and "\<And>h. net_getpeername net (s_sock s) h = (Some (m, len), h)"
  shows "fst (getLocalAddress net s h) = fst (getRemoteAddress net s h)"
  using assms by (simp add: getLocalAddress_def getRemoteAddress_def Let_def)

text \<open>
  Timeouts are kept exactly: after setting the receive or send timeout of a managed socket to a number of
  milliseconds, the getter returns this number and the other timeout is as before, through the \<open>timeval\<close> the value is passed in.
\<close>

lemma timeout_roundtrip:
  assumes "lookup_ctx (s_sock s) h = Some ctx" and "t_hook_enable (net_thread net)" and "0 \<le> v" and "v < 2 ^ 31 * 1000"
  shows "getRecvTimeout s (setRecvTimeout net v s h) = v \<and> getSendTimeout s (setRecvTimeout net v s h) = getSendTimeout s h
    \<and> getSendTimeout s (setSendTimeout net v s h) = v \<and> getRecvTimeout s (setSendTimeout net v s h) = getRecvTimeout s h"
proof -
  have small: "sint (word_of_int x :: u32) = x" if "0 \<le> x" "x < 2 ^ 31" for x
    using that by (simp add: signed_of_int signed_take_bit_int_eq_self)
  have div: "v sdiv 1000 = v div 1000" "v smod 1000 = v mod 1000" using assms(3) by (simp_all add: signed_divide_int_def signed_modulo_int_def sgn_if)
  have sm: "0 \<le> v div 1000" "v div 1000 < 2 ^ 31" "0 \<le> v mod 1000 * 1000" "v mod 1000 * 1000 < 2 ^ 31"
    using assms(3,4) pos_mod_bound [of 1000 v] pos_mod_sign [of 1000 v] by simp_all
  have tv: "timeval_of v = (v div 1000, v mod 1000 * 1000)"
    unfolding timeval_of_def div using small [OF sm(1,2)] small [OF sm(3,4)] by simp
  have us: "x * 1000 sdiv 1000 = x" if "0 \<le> x" for x :: int
    using that by (auto simp: signed_divide_int_def sgn_if)
  have ms: "v div 1000 * 1000 + v mod 1000 * 1000 sdiv 1000 = v"
    using us [of "v mod 1000"] div_mult_mod_eq [of v 1000] by (simp add: pos_mod_sign)
  have wide: "sint (word_of_int v :: u64) = v" using assms(3,4) by (simp add: signed_of_int signed_take_bit_int_eq_self)
  have set: "lookup_ctx (s_sock s) (snd (setOption net SOL_SOCKET so (timeval_of v) s h)) = Some (setTimeout so (word_of_int v) ctx)"
    if "so = SO_RCVTIMEO \<or> so = SO_SNDTIMEO" for so
    using that assms(1,2) ms by (auto simp: setOption_def hook_setsockopt_def tv split: prod.splits)
  show ?thesis
    using set [of SO_RCVTIMEO] set [of SO_SNDTIMEO] assms(1) wide
    by (simp add: setRecvTimeout_def setSendTimeout_def getRecvTimeout_def getSendTimeout_def timeout_set_get)
qed

definition demo_network :: "(int \<times> u32) network" where
  "demo_network = \<lparr>net_calls = demo_calls, net_thread = demo_thread, net_accept = (\<lambda>_ h. (- 1, h)), net_connect = (\<lambda>_ _ _ h. (0, h)),
     net_bind = (\<lambda>_ _ h. (0, h)), net_listen = (\<lambda>_ _ h. (0, h)), net_getpeername = (\<lambda>_ h. (None, h)), net_getsockopt = (\<lambda>_ _ _ h. (Some 0, h)),
     net_recv = Recv_call (\<lambda>fd n h. ((- 1, []), h)), net_send = Send_call (\<lambda>fd bs h. (int (length bs), h)),
     net_sendto = (\<lambda>_. Send_call (\<lambda>fd bs h. (int (length bs), h))), net_recvfrom = (\<lambda>_ _ _ h. ((- 1, [], []), h))\<rparr>"

end
