(* ===== verification/SslSocket.thy ===== *)
theory SslSocket
  imports Socket
begin

text \<open>
  Sockets over TLS (\<open>SSLSocket\<close> in \<open>sylar/socket.h\<close>, \<open>sylar/socket.cpp\<close>). OpenSSL is a parameter: contexts and connections are handles,
  what a call changes is part of the state of the world.
\<close>

record ('c, 'l, 'k) openssl =
  SSL_CTX_new_client :: "'k hook \<Rightarrow> 'c option \<times> 'k hook"
  SSL_CTX_new_server :: "'k hook \<Rightarrow> 'c option \<times> 'k hook"
  SSL_new :: "'c option \<Rightarrow> 'k hook \<Rightarrow> 'l option \<times> 'k hook"
  SSL_set_fd :: "'l option \<Rightarrow> int \<Rightarrow> 'k hook \<Rightarrow> 'k hook"
  SSL_connect :: "'l option \<Rightarrow> 'k hook \<Rightarrow> int \<times> 'k hook"
  SSL_accept :: "'l option \<Rightarrow> 'k hook \<Rightarrow> int \<times> 'k hook"
  SSL_write :: "'l \<Rightarrow> string \<Rightarrow> 'k hook \<Rightarrow> int \<times> 'k hook"
  SSL_read :: "'l \<Rightarrow> nat \<Rightarrow> 'k hook \<Rightarrow> (int \<times> string) \<times> 'k hook"
  use_certificate_chain_file :: "'c option \<Rightarrow> string \<Rightarrow> 'k hook \<Rightarrow> int \<times> 'k hook"
  use_PrivateKey_file :: "'c option \<Rightarrow> string \<Rightarrow> 'k hook \<Rightarrow> int \<times> 'k hook"
  check_private_key :: "'c option \<Rightarrow> 'k hook \<Rightarrow> int \<times> 'k hook"

record ('c, 'l) ssl_socket =
  ssl_base :: socket
  ssl_ctx :: "'c option"
  ssl_ssl :: "'l option"

definition new_SSLSocket :: "int \<Rightarrow> int \<Rightarrow> int \<Rightarrow> ('c, 'l) ssl_socket" where
  "new_SSLSocket family type protocol = \<lparr>ssl_base = new_Socket family type protocol, ssl_ctx = None, ssl_ssl = None\<rparr>"

definition SSL_CreateTCP :: "address \<Rightarrow> ('c, 'l) ssl_socket" where
  "SSL_CreateTCP address = new_SSLSocket (getFamily address) SOCK_STREAM 0"

definition SSL_CreateTCPSocket :: "('c, 'l) ssl_socket" where
  "SSL_CreateTCPSocket = new_SSLSocket AF_INET SOCK_STREAM 0"

definition SSL_CreateTCPSocket6 :: "('c, 'l) ssl_socket" where
  "SSL_CreateTCPSocket6 = new_SSLSocket AF_INET6 SOCK_STREAM 0"

definition ssl_init :: "('c, 'l, 'k) openssl \<Rightarrow> 'k network \<Rightarrow> int \<Rightarrow> ('c, 'l) ssl_socket \<Rightarrow> 'k hook \<Rightarrow> bool \<times> ('c, 'l) ssl_socket \<times> 'k hook" where
  "ssl_init L net sock s h =
     (case Socket_init net sock (ssl_base s) h of (v, b, h1) \<Rightarrow>
        if v then
          (case SSL_new L (ssl_ctx s) h1 of (l, h2) \<Rightarrow>
             case SSL_accept L l (SSL_set_fd L l (s_sock b) h2) of (rt, h3) \<Rightarrow> (rt = 1, s\<lparr>ssl_base := b, ssl_ssl := l\<rparr>, h3))
        else (v, s\<lparr>ssl_base := b\<rparr>, h1))"

definition ssl_close :: "'k network \<Rightarrow> ('c, 'l) ssl_socket \<Rightarrow> ('k hook, hook_error, bool \<times> ('c, 'l) ssl_socket) outcome" where
  "ssl_close net s = andThen (Socket_close net (ssl_base s)) (\<lambda>(ok, b). ret (ok, s\<lparr>ssl_base := b\<rparr>))"

text \<open>A new socket whose handshake fails is closed by its destructor.\<close>

definition ssl_accept :: "('c, 'l, 'k) openssl \<Rightarrow> 'k network \<Rightarrow> ('c, 'l) ssl_socket \<Rightarrow> ('k hook, hook_error, ('c, 'l) ssl_socket option) outcome" where
  "ssl_accept L net s h =
     (case net_accept net (s_sock (ssl_base s)) h of (newsock, h1) \<Rightarrow>
        if newsock = - 1 then (Inr None, h1)
        else case ssl_init L net newsock
            ((new_SSLSocket (s_family (ssl_base s)) (s_type (ssl_base s)) (s_protocol (ssl_base s)))\<lparr>ssl_ctx := ssl_ctx s\<rparr>) h1 of
          (ok, sock, h2) \<Rightarrow> if ok then (Inr (Some sock), h2) else andThen (ssl_close net sock) (\<lambda>_. ret None) h2)"

definition ssl_bind :: "'k network \<Rightarrow> address \<Rightarrow> ('c, 'l) ssl_socket \<Rightarrow> ('k hook, hook_error, bool \<times> ('c, 'l) ssl_socket) outcome" where
  "ssl_bind net addr s = andThen (Socket_bind net addr (ssl_base s)) (\<lambda>(ok, b). ret (ok, s\<lparr>ssl_base := b\<rparr>))"

definition ssl_connect ::
  "('c, 'l, 'k) openssl \<Rightarrow> 'k network \<Rightarrow> address \<Rightarrow> u64 \<Rightarrow> ('c, 'l) ssl_socket \<Rightarrow> ('k hook, hook_error, bool \<times> ('c, 'l) ssl_socket) outcome" where
  "ssl_connect L net addr timeout_ms s =
     andThen (Socket_connect net addr timeout_ms (ssl_base s)) (\<lambda>(v, b) h.
       if v then
         (case SSL_CTX_new_client L h of (c, h1) \<Rightarrow>
            case SSL_new L c h1 of (l, h2) \<Rightarrow>
              case SSL_connect L l (SSL_set_fd L l (s_sock b) h2) of (rt, h3) \<Rightarrow>
                (Inr (rt = 1, \<lparr>ssl_base = b, ssl_ctx = c, ssl_ssl = l\<rparr>), h3))
       else (Inr (v, s\<lparr>ssl_base := b\<rparr>), h))"

definition ssl_listen :: "'k network \<Rightarrow> int \<Rightarrow> ('c, 'l) ssl_socket \<Rightarrow> 'k hook \<Rightarrow> bool \<times> 'k hook" where
  "ssl_listen net backlog s = Socket_listen net backlog (ssl_base s)"

definition ssl_send :: "('c, 'l, 'k) openssl \<Rightarrow> string \<Rightarrow> ('c, 'l) ssl_socket \<Rightarrow> 'k hook \<Rightarrow> int \<times> 'k hook" where
  "ssl_send L bs s h = (case ssl_ssl s of Some l \<Rightarrow> SSL_write L l bs h | None \<Rightarrow> (- 1, h))"

definition ssl_recv :: "('c, 'l, 'k) openssl \<Rightarrow> nat \<Rightarrow> ('c, 'l) ssl_socket \<Rightarrow> 'k hook \<Rightarrow> (int \<times> string) \<times> 'k hook" where
  "ssl_recv L n s h = (case ssl_ssl s of Some l \<Rightarrow> SSL_read L l n h | None \<Rightarrow> ((- 1, []), h))"

text \<open>The versions for several buffers: one call per buffer, until one is not served completely. The \<open>int\<close> sum is taken to fit.\<close>

primrec ssl_send_loop :: "('c, 'l, 'k) openssl \<Rightarrow> 'l \<Rightarrow> string list \<Rightarrow> int \<Rightarrow> 'k hook \<Rightarrow> int \<times> 'k hook" where
  "ssl_send_loop L l [] tot h = (tot, h)"
| "ssl_send_loop L l (b # bs) tot h =
     (case SSL_write L l b h of (tmp, h1) \<Rightarrow>
        if tmp \<le> 0 then (tmp, h1)
        else if tmp \<noteq> int (length b) then (tot + tmp, h1)
        else ssl_send_loop L l bs (tot + tmp) h1)"

definition ssl_send_iov :: "('c, 'l, 'k) openssl \<Rightarrow> string list \<Rightarrow> ('c, 'l) ssl_socket \<Rightarrow> 'k hook \<Rightarrow> int \<times> 'k hook" where
  "ssl_send_iov L bufs s h = (case ssl_ssl s of None \<Rightarrow> (- 1, h) | Some l \<Rightarrow> ssl_send_loop L l bufs 0 h)"

primrec ssl_recv_loop :: "('c, 'l, 'k) openssl \<Rightarrow> 'l \<Rightarrow> nat list \<Rightarrow> int \<Rightarrow> string list \<Rightarrow> 'k hook \<Rightarrow> (int \<times> string list) \<times> 'k hook" where
  "ssl_recv_loop L l [] tot acc h = ((tot, acc), h)"
| "ssl_recv_loop L l (n # ns) tot acc h =
     (case SSL_read L l n h of ((tmp, bs), h1) \<Rightarrow>
        if tmp \<le> 0 then ((tmp, acc), h1)
        else if tmp \<noteq> int n then ((tot + tmp, acc @ [bs]), h1)
        else ssl_recv_loop L l ns (tot + tmp) (acc @ [bs]) h1)"

definition ssl_recv_iov :: "('c, 'l, 'k) openssl \<Rightarrow> nat list \<Rightarrow> ('c, 'l) ssl_socket \<Rightarrow> 'k hook \<Rightarrow> (int \<times> string list) \<times> 'k hook" where
  "ssl_recv_iov L lens s h = (case ssl_ssl s of None \<Rightarrow> ((- 1, []), h) | Some l \<Rightarrow> ssl_recv_loop L l lens 0 [] h)"

definition loadCertificates ::
  "('c, 'l, 'k) openssl \<Rightarrow> string \<Rightarrow> string \<Rightarrow> ('c, 'l) ssl_socket \<Rightarrow> 'k hook \<Rightarrow> bool \<times> ('c, 'l) ssl_socket \<times> 'k hook" where
  "loadCertificates L cert_file key_file s h =
     (case SSL_CTX_new_server L h of (c, h1) \<Rightarrow>
        let s1 = s\<lparr>ssl_ctx := c\<rparr> in
        case use_certificate_chain_file L c (c_str cert_file) h1 of (r1, h2) \<Rightarrow>
          if r1 \<noteq> 1 then (False, s1, h2)
          else case use_PrivateKey_file L c (c_str key_file) h2 of (r2, h3) \<Rightarrow>
            if r2 \<noteq> 1 then (False, s1, h3)
            else case check_private_key L c h3 of (r3, h4) \<Rightarrow> (r3 = 1, s1, h4))"

definition ssl_dump :: "('c, 'l) ssl_socket \<Rightarrow> string" where
  "ssl_dump x = (let s = ssl_base x in
     ''[SSLSocket sock='' @ dec_of_int (s_sock s) @ '' is_connected='' @ (if s_isConnected s then ''1'' else ''0'')
     @ '' family='' @ dec_of_int (s_family s) @ '' type='' @ dec_of_int (s_type s) @ '' protocol='' @ dec_of_int (s_protocol s)
     @ (case s_localAddress s of None \<Rightarrow> [] | Some a \<Rightarrow> '' local_address='' @ Address_toString a)
     @ (case s_remoteAddress s of None \<Rightarrow> [] | Some a \<Rightarrow> '' remote_address='' @ Address_toString a) @ '']'')"

subsection \<open>Life cycle\<close>

text \<open>An accepted or connected TLS socket is connected and has a TLS connection on its descriptor.\<close>

lemma ssl_accept_inv: "ssl_accept L net s h = (Inr (Some s'), h') \<Longrightarrow> s_isConnected (ssl_base s') \<and> isVaild (ssl_base s') \<and> ssl_ctx s' = ssl_ctx s"
  by (auto simp: ssl_accept_def ssl_init_def Socket_init_def isVaild_def Let_def ret_def
      split: prod.splits option.splits if_splits elim!: andThen_eq_InrE dest!: address_keeps)

lemma ssl_connect_inv:
  assumes "ssl_connect L net addr timeout_ms s h = (Inr (True, s'), h')" and "sock_inv (ssl_base s)"
  shows "s_isConnected (ssl_base s') \<and> isVaild (ssl_base s')"
  using assms by (auto simp: ssl_connect_def split: prod.splits if_splits elim!: andThen_eq_InrE dest!: Socket_connect_inv)

text \<open>
  A gathered send reports a prefix: when no single write fails, the result counts the bytes of the buffers in order. When a later write
  fails, its result is returned although earlier buffers were sent.
\<close>

lemma ssl_send_loop_complete:
  assumes "\<And>b h. b \<in> set bufs \<Longrightarrow> fst (SSL_write L l b h) = int (length b)" and "\<forall>b \<in> set bufs. b \<noteq> []"
  shows "fst (ssl_send_loop L l bufs tot h) = tot + int (length (concat bufs))"
  using assms
proof (induction bufs arbitrary: tot h)
  case (Cons b bs)
  obtain h1 where "SSL_write L l b h = (int (length b), h1)" using Cons.prems(1) [of b h] by (cases "SSL_write L l b h") auto
  then show ?case using Cons by simp
qed simp

lemma ssl_send_loop_hides:
  assumes "SSL_write L l b h = (int (length b), h1)" and "b \<noteq> []" and "SSL_write L l c h1 = (- 1, h2)"
  shows "ssl_send_loop L l (b # c # bs) 0 h = (- 1, h2)"
  using assms by simp

end
