(* ===== verification/Config.thy ===== *)
theory Config
  imports OrderedMap
begin

text \<open>
  The configuration system (\<open>sylar/config.h\<close>, \<open>sylar/config.cpp\<close>): typed variables with listeners, the registry of all variables,
  conversions of containers from and to YAML text, and loading a YAML tree. The YAML library is a parameter. Variables of all types are in one
  registry; a value carries no type of its own, the variable has a tag \<open>'t\<close>, as the dynamic type of the object has.
  A variable is never removed from the registry, so its name stands for the pointer to it.
\<close>

section \<open>YAML\<close>

text \<open>
  Nodes and the functions that the code calls on them: \<open>y_items\<close> are the pairs from \<open>begin()\<close> to \<open>end()\<close>, \<open>y_elems\<close> the nodes
  \<open>node[0]\<close> to \<open>node[size() - 1]\<close>, \<open>y_emit\<close> the text that \<open><<\<close> prints, \<open>y_Load\<close> the parser (\<open>None\<close> when it throws), \<open>y_Sequence\<close> and
  \<open>y_Map\<close> a node after \<open>push_back\<close> or assignment of the given ones, \<open>y_get\<close> a defined \<open>node[key]\<close>, \<open>y_string\<close> and \<open>y_int\<close> the conversions \<open>as\<close>,
  \<open>y_of_string\<close> and \<open>y_of_int\<close> scalar nodes.
\<close>

record 'n yaml =
  y_IsMap :: "'n \<Rightarrow> bool"
  y_IsScalar :: "'n \<Rightarrow> bool"
  y_Scalar :: "'n \<Rightarrow> string"
  y_items :: "'n \<Rightarrow> ('n \<times> 'n) list"
  y_elems :: "'n \<Rightarrow> 'n list"
  y_emit :: "'n \<Rightarrow> string"
  y_Load :: "string \<Rightarrow> 'n option"
  y_Sequence :: "'n list \<Rightarrow> 'n"
  y_Map :: "(string \<times> 'n) list \<Rightarrow> 'n"
  y_get :: "'n \<Rightarrow> string \<Rightarrow> 'n option"
  y_string :: "'n \<Rightarrow> string option"
  y_int :: "'n \<Rightarrow> int option"
  y_of_string :: "string \<Rightarrow> 'n"
  y_of_int :: "int \<Rightarrow> 'n"

section \<open>Conversion of containers\<close>

text \<open>
  \<open>LexicalCast\<close> between YAML text and containers, over the conversion of the elements; \<open>None\<close> is an exception. A vector and a list are lists.
  Sets and maps come in the order of the container; \<open>insert\<close> keeps what is there.
\<close>

primrec map_option_list :: "('a \<Rightarrow> 'b option) \<Rightarrow> 'a list \<Rightarrow> 'b list option" where
  "map_option_list f [] = Some []"
| "map_option_list f (x # xs) = (case f x of None \<Rightarrow> None | Some y \<Rightarrow> map_option ((#) y) (map_option_list f xs))"

definition vector_from :: "'n yaml \<Rightarrow> (string \<Rightarrow> 'a option) \<Rightarrow> string \<Rightarrow> 'a list option" where
  "vector_from Y from v = (case y_Load Y v of None \<Rightarrow> None | Some node \<Rightarrow> map_option_list (\<lambda>n. from (y_emit Y n)) (y_elems Y node))"

definition vector_to :: "'n yaml \<Rightarrow> ('a \<Rightarrow> string option) \<Rightarrow> 'a list \<Rightarrow> string option" where
  "vector_to Y to v = map_option (\<lambda>ns. y_emit Y (y_Sequence Y ns)) (map_option_list (\<lambda>i. Option.bind (to i) (y_Load Y)) v)"

definition list_from :: "'n yaml \<Rightarrow> (string \<Rightarrow> 'a option) \<Rightarrow> string \<Rightarrow> 'a list option" where
  "list_from Y from v = (case y_Load Y v of None \<Rightarrow> None | Some node \<Rightarrow> map_option_list (\<lambda>n. from (y_emit Y n)) (y_elems Y node))"

definition list_to :: "'n yaml \<Rightarrow> ('a \<Rightarrow> string option) \<Rightarrow> 'a list \<Rightarrow> string option" where
  "list_to Y to v = map_option (\<lambda>ns. y_emit Y (y_Sequence Y ns)) (map_option_list (\<lambda>i. Option.bind (to i) (y_Load Y)) v)"

text \<open>For a set, \<open>xs\<close> are its elements in the order of the iteration.\<close>

definition set_from :: "'n yaml \<Rightarrow> (string \<Rightarrow> 'a option) \<Rightarrow> string \<Rightarrow> 'a set option" where
  "set_from Y from v = (case y_Load Y v of None \<Rightarrow> None | Some node \<Rightarrow> map_option set (map_option_list (\<lambda>n. from (y_emit Y n)) (y_elems Y node)))"

definition set_to :: "'n yaml \<Rightarrow> ('a \<Rightarrow> string option) \<Rightarrow> 'a list \<Rightarrow> string option" where
  "set_to Y to xs = map_option (\<lambda>ns. y_emit Y (y_Sequence Y ns)) (map_option_list (\<lambda>i. Option.bind (to i) (y_Load Y)) xs)"

primrec insert_all :: "('k \<times> 'a) list \<Rightarrow> ('k \<rightharpoonup> 'a) \<Rightarrow> ('k \<rightharpoonup> 'a)" where
  "insert_all [] m = m"
| "insert_all (p # ps) m = insert_all ps (if m (fst p) = None then m(fst p \<mapsto> snd p) else m)"

definition map_from :: "'n yaml \<Rightarrow> (string \<Rightarrow> 'a option) \<Rightarrow> string \<Rightarrow> (string \<rightharpoonup> 'a) option" where
  "map_from Y from v =
     (case y_Load Y v of
        None \<Rightarrow> None
      | Some node \<Rightarrow> map_option (\<lambda>ps. insert_all ps Map.empty)
          (map_option_list (\<lambda>(k, n). map_option (Pair (y_Scalar Y k)) (from (y_emit Y n))) (y_items Y node)))"

definition map_to :: "'n yaml \<Rightarrow> ('a \<Rightarrow> string option) \<Rightarrow> (string \<times> 'a) list \<Rightarrow> string option" where
  "map_to Y to kvs =
     map_option (\<lambda>ns. y_emit Y (y_Map Y ns)) (map_option_list (\<lambda>(k, i). map_option (Pair k) (Option.bind (to i) (y_Load Y))) kvs)"

section \<open>Variables\<close>

text \<open>What a type of variables provides; conversions that throw give \<open>None\<close>.\<close>

record ('t, 'v) var_types =
  from_str :: "'t \<Rightarrow> string \<Rightarrow> 'v option"
  to_str :: "'t \<Rightarrow> 'v \<Rightarrow> string option"
  same :: "'t \<Rightarrow> 'v \<Rightarrow> 'v \<Rightarrow> bool"

text \<open>A listener gets the old and the new value, changes the world and may throw a \<open>std::exception\<close>.\<close>

type_synonym ('v, 'w) on_change_cb = "'v \<Rightarrow> 'v \<Rightarrow> ('w, unit, unit) outcome"

record ('t, 'v, 'w) config_var =
  cv_name :: string
  cv_description :: string
  cv_type :: 't
  cv_val :: 'v
  cv_cbs :: "(u64 \<times> ('v, 'w) on_change_cb) list"

definition lower_string :: "string \<Rightarrow> string" where
  "lower_string s = map (\<lambda>c. char_of (tolower c)) s"

definition new_ConfigVar :: "'t \<Rightarrow> string \<Rightarrow> 'v \<Rightarrow> string \<Rightarrow> ('t, 'v, 'w) config_var" where
  "new_ConfigVar t name default_value description =
     \<lparr>cv_name = lower_string name, cv_description = description, cv_type = t, cv_val = default_value, cv_cbs = []\<rparr>"

definition var_toString :: "('t, 'v) var_types \<Rightarrow> ('t, 'v, 'w) config_var \<Rightarrow> string" where
  "var_toString T var = (case to_str T (cv_type var) (cv_val var) of None \<Rightarrow> [] | Some s \<Rightarrow> s)"

primrec call_listeners :: "('v, 'w) on_change_cb list \<Rightarrow> 'v \<Rightarrow> 'v \<Rightarrow> ('w, unit, unit) outcome" where
  "call_listeners [] old new = ret ()"
| "call_listeners (cb # cbs) old new = andThen (cb old new) (\<lambda>_. call_listeners cbs old new)"

text \<open>\<open>setValue\<close>: the listeners run first, under the read lock; when one throws, the value stays.\<close>

definition setValue :: "('t, 'v) var_types \<Rightarrow> 'v \<Rightarrow> (('t, 'v, 'w) config_var \<times> 'w, unit, unit) outcome" where
  "setValue T v = (\<lambda>(var, w).
     if same T (cv_type var) v (cv_val var) then (Inr (), (var, w))
     else case call_listeners (map snd (cv_cbs var)) (cv_val var) v w of
            (Inl e, w1) \<Rightarrow> (Inl e, (var, w1))
          | (Inr _, w1) \<Rightarrow> (Inr (), (var\<lparr>cv_val := v\<rparr>, w1)))"

text \<open>\<open>fromString\<close> catches what the conversion or a listener throws, and returns false in every case.\<close>

definition fromString :: "('t, 'v) var_types \<Rightarrow> string \<Rightarrow> ('t, 'v, 'w) config_var \<Rightarrow> 'w \<Rightarrow> bool \<times> ('t, 'v, 'w) config_var \<times> 'w" where
  "fromString T val var w =
     (case from_str T (cv_type var) val of
        None \<Rightarrow> (False, var, w)
      | Some v \<Rightarrow> (case setValue T v (var, w) of (_, var1, w1) \<Rightarrow> (False, var1, w1)))"

section \<open>The registry\<close>

text \<open>\<open>c_fun_id\<close> is the static counter of \<open>addListener\<close>, one for each type of variables.\<close>

record ('t, 'v, 'w) config =
  c_datas :: "string \<rightharpoonup> ('t, 'v, 'w) config_var"
  c_fun_id :: "'t \<Rightarrow> u64"

datatype config_error = Invalid_argument string

text \<open>The literal in the code lacks the digit 9.\<close>

definition config_char :: "char \<Rightarrow> bool" where
  "config_char c \<longleftrightarrow> c \<in> set ''abcdefghikjlmnopqrstuvwxyz._012345678''"

definition LookupBase :: "string \<Rightarrow> ('t, 'v, 'w) config \<Rightarrow> ('t, 'v, 'w) config_var option" where
  "LookupBase name cfg = c_datas cfg name"

text \<open>The two versions of \<open>Lookup\<close>: a pointer is the name of the variable, \<open>None\<close> is null.\<close>

definition Config_Lookup :: "'t \<Rightarrow> string \<Rightarrow> ('t, 'v, 'w) config \<Rightarrow> string option" where
  "Config_Lookup t name cfg =
     (case c_datas cfg name of None \<Rightarrow> None | Some var \<Rightarrow> if cv_type var = t then Some name else None)"

definition Lookup_default :: "'t \<Rightarrow> string \<Rightarrow> 'v \<Rightarrow> string \<Rightarrow> (('t, 'v, 'w) config, config_error, string option) outcome" where
  "Lookup_default t name default_value description cfg =
     (case c_datas cfg name of
        Some var \<Rightarrow> (Inr (if cv_type var = t then Some name else None), cfg)
      | None \<Rightarrow>
          if \<not> list_all config_char name then (Inl (Invalid_argument name), cfg)
          else (Inr (Some name), cfg\<lparr>c_datas := (c_datas cfg)(name \<mapsto> new_ConfigVar t name default_value description)\<rparr>))"

text \<open>The member functions of a registered variable.\<close>

definition var_setValue :: "('t, 'v) var_types \<Rightarrow> string \<Rightarrow> 'v \<Rightarrow> (('t, 'v, 'w) config \<times> 'w, unit, unit) outcome" where
  "var_setValue T name v = (\<lambda>(cfg, w).
     case c_datas cfg name of
       None \<Rightarrow> (Inr (), (cfg, w))
     | Some var \<Rightarrow> (case setValue T v (var, w) of (r, var1, w1) \<Rightarrow> (r, (cfg\<lparr>c_datas := (c_datas cfg)(name \<mapsto> var1)\<rparr>, w1))))"

definition var_fromString :: "('t, 'v) var_types \<Rightarrow> string \<Rightarrow> string \<Rightarrow> ('t, 'v, 'w) config \<times> 'w \<Rightarrow> ('t, 'v, 'w) config \<times> 'w" where
  "var_fromString T name val = (\<lambda>(cfg, w).
     case c_datas cfg name of
       None \<Rightarrow> (cfg, w)
     | Some var \<Rightarrow> (case fromString T val var w of (_, var1, w1) \<Rightarrow> (cfg\<lparr>c_datas := (c_datas cfg)(name \<mapsto> var1)\<rparr>, w1)))"

definition addListener :: "string \<Rightarrow> ('v, 'w) on_change_cb \<Rightarrow> ('t, 'v, 'w) config \<Rightarrow> u64 option \<times> ('t, 'v, 'w) config" where
  "addListener name cb cfg =
     (case c_datas cfg name of
        None \<Rightarrow> (None, cfg)
      | Some var \<Rightarrow> let k = c_fun_id cfg (cv_type var) + 1 in
          (Some k, cfg\<lparr>c_fun_id := (c_fun_id cfg)(cv_type var := k), c_datas := (c_datas cfg)(name \<mapsto> var\<lparr>cv_cbs := omap_assign (<) k cb (cv_cbs var)\<rparr>)\<rparr>))"

definition delListener :: "string \<Rightarrow> u64 \<Rightarrow> ('t, 'v, 'w) config \<Rightarrow> ('t, 'v, 'w) config" where
  "delListener name key cfg =
     (case c_datas cfg name of
        None \<Rightarrow> cfg
      | Some var \<Rightarrow> cfg\<lparr>c_datas := (c_datas cfg)(name \<mapsto> var\<lparr>cv_cbs := omap_erase (<) key (cv_cbs var)\<rparr>)\<rparr>)"

definition getListener :: "string \<Rightarrow> u64 \<Rightarrow> ('t, 'v, 'w) config \<Rightarrow> ('v, 'w) on_change_cb option" where
  "getListener name key cfg = (case c_datas cfg name of None \<Rightarrow> None | Some var \<Rightarrow> omap_find (<) key (cv_cbs var))"

definition clearListener :: "string \<Rightarrow> ('t, 'v, 'w) config \<Rightarrow> ('t, 'v, 'w) config" where
  "clearListener name cfg =
     (case c_datas cfg name of None \<Rightarrow> cfg | Some var \<Rightarrow> cfg\<lparr>c_datas := (c_datas cfg)(name \<mapsto> var\<lparr>cv_cbs := []\<rparr>)\<rparr>)"

section \<open>Loading a tree\<close>

definition child_name :: "'n yaml \<Rightarrow> string \<Rightarrow> 'n \<Rightarrow> string" where
  "child_name Y prefix key = (if prefix = [] then y_Scalar Y key else prefix @ ''.'' @ y_Scalar Y key)"

text \<open>The recursion of \<open>ListAllMember\<close>, with the depth of the stack as fuel.\<close>

primrec ListAllMember :: "'n yaml \<Rightarrow> nat \<Rightarrow> string \<Rightarrow> 'n \<Rightarrow> (string \<times> 'n) list \<Rightarrow> (string \<times> 'n) list option" where
  "ListAllMember Y 0 prefix node output = None"
| "ListAllMember Y (Suc d) prefix node output =
     (if \<not> list_all config_char prefix then Some output
      else if y_IsMap Y node then
        fold (\<lambda>(key, child) out. Option.bind out (ListAllMember Y d (child_name Y prefix key) child))
          (y_items Y node) (Some (output @ [(prefix, node)]))
      else Some (output @ [(prefix, node)]))"

definition load_node :: "('t, 'v) var_types \<Rightarrow> 'n yaml \<Rightarrow> string \<times> 'n \<Rightarrow> ('t, 'v, 'w) config \<times> 'w \<Rightarrow> ('t, 'v, 'w) config \<times> 'w" where
  "load_node T Y i s =
     (if fst i = [] then s
      else let key = lower_string (fst i) in
        case LookupBase key (fst s) of
          None \<Rightarrow> s
        | Some var \<Rightarrow> var_fromString T key (if y_IsScalar Y (snd i) then y_Scalar Y (snd i) else y_emit Y (snd i)) s)"

definition LoadFromYaml :: "('t, 'v) var_types \<Rightarrow> 'n yaml \<Rightarrow> nat \<Rightarrow> 'n \<Rightarrow> ('t, 'v, 'w) config \<times> 'w \<Rightarrow> (('t, 'v, 'w) config \<times> 'w) option" where
  "LoadFromYaml T Y d root s = map_option (\<lambda>all_nodes. fold (load_node T Y) all_nodes s) (ListAllMember Y d [] root [])"

text \<open>
  \<open>LoadFromConfDir\<close>: the loop over the files, with the modification times of the files loaded so far (0 for a new one), what \<open>lstat\<close> says and the parsed
  files. The call that would list the files is commented out in the code, so the list is empty.
\<close>

primrec load_files ::
  "('t, 'v) var_types \<Rightarrow> 'n yaml \<Rightarrow> nat \<Rightarrow> bool \<Rightarrow> (string \<Rightarrow> u64) \<Rightarrow> (string \<Rightarrow> 'n option) \<Rightarrow> string list \<Rightarrow> (string \<Rightarrow> u64) \<Rightarrow> ('t, 'v, 'w) config \<times> 'w
    \<Rightarrow> ((string \<Rightarrow> u64) \<times> ('t, 'v, 'w) config \<times> 'w) option" where
  "load_files T Y d force mtime LoadFile [] seen s = Some (seen, s)"
| "load_files T Y d force mtime LoadFile (i # files) seen s =
     (if \<not> force \<and> seen i = mtime i then load_files T Y d force mtime LoadFile files seen s
      else let seen1 = seen(i := mtime i) in
        case LoadFile i of
          None \<Rightarrow> load_files T Y d force mtime LoadFile files seen1 s
        | Some root \<Rightarrow> Option.bind (LoadFromYaml T Y d root s) (load_files T Y d force mtime LoadFile files seen1))"

definition LoadFromConfDir ::
  "('t, 'v) var_types \<Rightarrow> 'n yaml \<Rightarrow> nat \<Rightarrow> bool \<Rightarrow> (string \<Rightarrow> u64) \<Rightarrow> (string \<Rightarrow> 'n option) \<Rightarrow> (string \<Rightarrow> u64) \<Rightarrow> ('t, 'v, 'w) config \<times> 'w
    \<Rightarrow> ((string \<Rightarrow> u64) \<times> ('t, 'v, 'w) config \<times> 'w) option" where
  "LoadFromConfDir T Y d force mtime LoadFile = load_files T Y d force mtime LoadFile []"

section \<open>Types of the registry\<close>

definition new_Config :: "('t, 'v, 'w) config" where
  "new_Config = \<lparr>c_datas = Map.empty, c_fun_id = (\<lambda>_. 0)\<rparr>"

text \<open>
  What a program can do to the registry. The compiler checks that the default value and the argument of \<open>setValue\<close> have the type
  of the variable; \<open>ty t v\<close> says that \<open>v\<close> is a value of the type \<open>t\<close>.
\<close>

inductive config_step :: "('t, 'v) var_types \<Rightarrow> ('t \<Rightarrow> 'v \<Rightarrow> bool) \<Rightarrow> ('t, 'v, 'w) config \<times> 'w \<Rightarrow> ('t, 'v, 'w) config \<times> 'w \<Rightarrow> bool" for T ty where
  lookup: "ty t v \<Longrightarrow> config_step T ty (cfg, w) (snd (Lookup_default t name v desc cfg), w)"
| set_value: "c_datas cfg name = Some var \<Longrightarrow> ty (cv_type var) v \<Longrightarrow> config_step T ty (cfg, w) (snd (var_setValue T name v (cfg, w)))"
| from_string: "config_step T ty s (var_fromString T name val s)"
| add_listener: "config_step T ty (cfg, w) (snd (addListener name cb cfg), w)"
| del_listener: "config_step T ty (cfg, w) (delListener name key cfg, w)"
| clear_listener: "config_step T ty (cfg, w) (clearListener name cfg, w)"

inductive_cases config_stepE: "config_step T ty s s'"

text \<open>What is assumed of the conversions: they give values of their type.\<close>

definition typed_conversions :: "('t, 'v) var_types \<Rightarrow> ('t \<Rightarrow> 'v \<Rightarrow> bool) \<Rightarrow> bool" where
  "typed_conversions T ty \<longleftrightarrow> (\<forall>t str v. from_str T t str = Some v \<longrightarrow> ty t v)"

definition config_ok :: "('t \<Rightarrow> 'v \<Rightarrow> bool) \<Rightarrow> ('t, 'v, 'w) config \<Rightarrow> bool" where
  "config_ok ty cfg \<longleftrightarrow> (\<forall>name var. c_datas cfg name = Some var \<longrightarrow> list_all config_char name \<and> cv_name var = name \<and> ty (cv_type var) (cv_val var))"

text \<open>The later registry has the variables of the earlier one, with their types.\<close>

definition config_extends :: "('t, 'v, 'w) config \<Rightarrow> ('t, 'v, 'w) config \<Rightarrow> bool" where
  "config_extends cfg cfg' \<longleftrightarrow> (\<forall>name var. c_datas cfg name = Some var \<longrightarrow> (\<exists>var'. c_datas cfg' name = Some var' \<and> cv_type var' = cv_type var))"

lemma config_extends_refl: "config_extends cfg cfg"
  by (simp add: config_extends_def)

lemma config_extends_trans: "config_extends a b \<Longrightarrow> config_extends b c \<Longrightarrow> config_extends a c"
  unfolding config_extends_def by metis

lemma config_char_tolower:
  assumes "config_char c"
  shows "char_of (tolower c) = c"
proof -
  have "list_all (\<lambda>c. char_of (tolower c) = c) ''abcdefghikjlmnopqrstuvwxyz._012345678''" by code_simp
  then show ?thesis using assms by (auto simp: config_char_def list_all_iff)
qed

lemma lower_config_name: "list_all config_char name \<Longrightarrow> lower_string name = name"
  by (auto simp: lower_string_def list_all_iff config_char_tolower intro!: map_idI)

lemma setValue_keeps:
  assumes "setValue T v (var, w) = (r, var', w')"
  shows "cv_name var' = cv_name var \<and> cv_type var' = cv_type var \<and> cv_cbs var' = cv_cbs var \<and> (cv_val var' = cv_val var \<or> cv_val var' = v)"
  using assms by (auto simp: setValue_def split: if_splits prod.splits sum.splits)

text \<open>Replacing a variable by one with its name, its type and a value of that type.\<close>

lemma config_update:
  assumes "config_ok ty cfg" and "c_datas cfg name = Some var" and "cv_name var' = cv_name var" and "cv_type var' = cv_type var"
    and "ty (cv_type var) (cv_val var')" and "c_datas cfg' = (c_datas cfg)(name \<mapsto> var')"
  shows "config_ok ty cfg' \<and> config_extends cfg cfg'"
  using assms by (auto simp: config_ok_def config_extends_def)

lemma var_fromString_keeps:
  assumes conv: "typed_conversions T ty" and ok: "config_ok ty cfg" and run: "var_fromString T name val (cfg, w) = (cfg', w')"
  shows "config_ok ty cfg' \<and> config_extends cfg cfg'"
proof (cases "c_datas cfg name")
  case None
  then show ?thesis using run ok by (simp add: var_fromString_def config_extends_refl)
next
  case (Some var)
  obtain b var1 w1 where f: "fromString T val var w = (b, var1, w1)" by (metis surj_pair)
  have "cv_name var1 = cv_name var \<and> cv_type var1 = cv_type var \<and> ty (cv_type var) (cv_val var1)"
  proof (cases "from_str T (cv_type var) val")
    case None
    then show ?thesis using f ok Some by (auto simp: fromString_def config_ok_def)
  next
    case (Some v)
    obtain r var2 w2 where "setValue T v (var, w) = (r, var2, w2)" by (metis surj_pair)
    then show ?thesis using f Some conv setValue_keeps [of T v var w r var2 w2] ok \<open>c_datas cfg name = Some var\<close>
      by (auto simp: fromString_def config_ok_def typed_conversions_def)
  qed
  moreover have "c_datas cfg' = (c_datas cfg)(name \<mapsto> var1)" using run Some f by (auto simp: var_fromString_def)
  ultimately show ?thesis using config_update [OF ok Some] by blast
qed

lemma var_setValue_keeps:
  assumes "config_ok ty cfg" and "c_datas cfg name = Some var" and "ty (cv_type var) v" and "var_setValue T name v (cfg, w) = (r, cfg', w')"
  shows "config_ok ty cfg' \<and> config_extends cfg cfg'"
proof -
  obtain r1 var1 w1 where s: "setValue T v (var, w) = (r1, var1, w1)" by (metis surj_pair)
  then have "c_datas cfg' = (c_datas cfg)(name \<mapsto> var1)" using assms(2,4) by (auto simp: var_setValue_def)
  moreover have "ty (cv_type var) (cv_val var1)" "cv_name var1 = cv_name var" "cv_type var1 = cv_type var"
    using setValue_keeps [OF s] assms(1-3) unfolding config_ok_def by metis+
  ultimately show ?thesis using config_update [OF assms(1,2)] by blast
qed

lemma config_step_keeps:
  assumes conv: "typed_conversions T ty" and ok: "config_ok ty (fst s)" and step: "config_step T ty s s'"
  shows "config_ok ty (fst s') \<and> config_extends (fst s) (fst s')"
  using step
proof cases
  case (lookup t v cfg w name desc)
  then show ?thesis using ok
    by (auto simp: Lookup_default_def config_ok_def config_extends_def new_ConfigVar_def lower_config_name split: option.splits)
next
  case (set_value cfg name var v w)
  then show ?thesis using var_setValue_keeps [of ty cfg name var v T w] ok by (cases "var_setValue T name v (cfg, w)") (auto simp: prod_eq_iff)
next
  case (from_string name val)
  then show ?thesis using var_fromString_keeps [of T ty "fst s" name val "snd s" "fst s'" "snd s'", OF conv] ok by simp
next
  case (add_listener cfg w name cb)
  then show ?thesis using ok
    by (auto simp: addListener_def Let_def config_ok_def config_extends_def split: option.splits)
next
  case (del_listener cfg w name key)
  then show ?thesis using ok by (auto simp: delListener_def config_ok_def config_extends_def split: option.splits)
next
  case (clear_listener cfg w name)
  then show ?thesis using ok by (auto simp: clearListener_def config_ok_def config_extends_def split: option.splits)
qed

lemma config_run_keeps:
  assumes "typed_conversions T ty" and "(config_step T ty)\<^sup>*\<^sup>* s s'" and "config_ok ty (fst s)"
  shows "config_ok ty (fst s') \<and> config_extends (fst s) (fst s')"
  using assms(2,3)
proof (induction rule: rtranclp_induct)
  case base
  then show ?case by (simp add: config_extends_refl)
next
  case (step y z)
  then show ?case using config_step_keeps [of T ty y z, OF assms(1)] config_extends_trans by blast
qed

section \<open>What loading does\<close>

text \<open>The named members of a tree: the keys on the way joined by dots, as long as they use the allowed characters only.\<close>

inductive tree_member :: "'n yaml \<Rightarrow> string \<Rightarrow> 'n \<Rightarrow> string \<Rightarrow> 'n \<Rightarrow> bool" for Y where
  here: "list_all config_char prefix \<Longrightarrow> tree_member Y prefix node prefix node"
| below: "list_all config_char prefix \<Longrightarrow> y_IsMap Y node \<Longrightarrow> (key, child) \<in> set (y_items Y node) \<Longrightarrow>
    tree_member Y (child_name Y prefix key) child q m \<Longrightarrow> tree_member Y prefix node q m"

inductive_simps tree_member_unfold: "tree_member Y prefix node q m"

lemma tree_member_name: "tree_member Y prefix node q m \<Longrightarrow> list_all config_char q"
  by (induction rule: tree_member.induct)

text \<open>The loop over the children, for any way to list a child that adds the elements \<open>S i\<close>.\<close>

lemma fold_bind_None: "fold (\<lambda>i out. Option.bind out (f i)) xs None = None"
  by (induction xs) auto

lemma fold_bind_collects:
  assumes "\<And>i out out'. i \<in> set xs \<Longrightarrow> f i out = Some out' \<Longrightarrow> set out' = set out \<union> S i"
    and "fold (\<lambda>i out. Option.bind out (f i)) xs (Some out) = Some out'"
  shows "set out' = set out \<union> (\<Union>i \<in> set xs. S i)"
  using assms
proof (induction xs arbitrary: out)
  case (Cons x xs)
  obtain out1 where o: "f x out = Some out1" using Cons.prems(2) by (cases "f x out") (auto simp: fold_bind_None)
  then have "set out' = set out1 \<union> (\<Union>i \<in> set xs. S i)" using Cons.prems by (intro Cons.IH) auto
  then show ?case using Cons.prems(1) [of x] o by auto
qed auto

lemma fold_bind_total:
  assumes "\<And>i out. i \<in> set xs \<Longrightarrow> f i out \<noteq> None"
  shows "fold (\<lambda>i out. Option.bind out (f i)) xs (Some out) \<noteq> None"
  using assms
proof (induction xs arbitrary: out)
  case (Cons x xs)
  obtain out1 where "f x out = Some out1" using Cons.prems [of x out] by auto
  then show ?case using Cons by auto
qed auto

lemma ListAllMember_Suc:
  "ListAllMember Y (Suc d) prefix node out0 =
     (if \<not> list_all config_char prefix then Some out0
      else if y_IsMap Y node then
        fold (\<lambda>i out. Option.bind out (ListAllMember Y d (child_name Y prefix (fst i)) (snd i))) (y_items Y node) (Some (out0 @ [(prefix, node)]))
      else Some (out0 @ [(prefix, node)]))"
  by (simp add: case_prod_beta')

lemma ListAllMember_set:
  "ListAllMember Y d prefix node out0 = Some out \<Longrightarrow> set out = set out0 \<union> {(q, m). tree_member Y prefix node q m}"
proof (induction d arbitrary: prefix node out0 out)
  case (Suc d)
  show ?case
  proof (cases "list_all config_char prefix \<and> y_IsMap Y node")
    case False
    then show ?thesis using Suc.prems by (auto simp: tree_member_unfold [of Y prefix] split: if_splits)
  next
    case True
    then have "set out = set (out0 @ [(prefix, node)]) \<union> (\<Union>i \<in> set (y_items Y node). {(q, m). tree_member Y (child_name Y prefix (fst i)) (snd i) q m})"
      using Suc.prems unfolding ListAllMember_Suc by (intro fold_bind_collects) (auto dest: Suc.IH)
    then show ?thesis using True by (force simp: tree_member_unfold [of Y prefix])
  qed
qed simp

text \<open>A tree of finite depth; then the recursion ends.\<close>

definition tree_depth :: "'n yaml \<Rightarrow> ('n \<Rightarrow> nat) \<Rightarrow> bool" where
  "tree_depth Y depth \<longleftrightarrow> (\<forall>node key child. y_IsMap Y node \<longrightarrow> (key, child) \<in> set (y_items Y node) \<longrightarrow> depth child < depth node)"

lemma ListAllMember_total:
  assumes "tree_depth Y depth"
  shows "depth node < d \<Longrightarrow> ListAllMember Y d prefix node out0 \<noteq> None"
proof (induction d arbitrary: prefix node out0)
  case (Suc d)
  have "fold (\<lambda>i out. Option.bind out (ListAllMember Y d (child_name Y prefix (fst i)) (snd i))) (y_items Y node) (Some out0) \<noteq> None"
    if "y_IsMap Y node" for out0
  proof (rule fold_bind_total)
    fix i out assume "i \<in> set (y_items Y node)"
    then have "depth (snd i) < d" using assms that Suc.prems unfolding tree_depth_def by (metis less_SucE less_trans prod.collapse)
    then show "ListAllMember Y d (child_name Y prefix (fst i)) (snd i) out \<noteq> None" by (rule Suc.IH)
  qed
  then show ?case unfolding ListAllMember_Suc by simp
qed simp

text \<open>The text that a node gives to a variable, and the value after a sequence of texts.\<close>

definition node_text :: "'n yaml \<Rightarrow> 'n \<Rightarrow> string" where
  "node_text Y node = (if y_IsScalar Y node then y_Scalar Y node else y_emit Y node)"

definition converted :: "('t, 'v) var_types \<Rightarrow> 't \<Rightarrow> string \<Rightarrow> 'v \<Rightarrow> 'v" where
  "converted T t txt v = (case from_str T t txt of None \<Rightarrow> v | Some v1 \<Rightarrow> v1)"

definition quiet :: "('t, 'v, 'w) config_var \<Rightarrow> bool" where
  "quiet var \<longleftrightarrow> (\<forall>cb \<in> set (map snd (cv_cbs var)). \<forall>old new w. \<exists>w1. cb old new w = (Inr (), w1))"

lemma call_listeners_quiet:
  "\<forall>cb \<in> set cbs. \<forall>old new w. \<exists>w1. cb old new w = (Inr (), w1) \<Longrightarrow> \<exists>w1. call_listeners cbs old new w = (Inr (), w1)"
proof (induction cbs arbitrary: w)
  case (Cons cb cbs)
  obtain w1 where "cb old new w = (Inr (), w1)" using Cons.prems by fastforce
  then show ?case using Cons by (simp add: andThen_def)
qed (simp add: ret_def)

lemma setValue_quiet:
  assumes "quiet var" and "same T (cv_type var) = (=)"
  shows "\<exists>w1. setValue T v (var, w) = (Inr (), var\<lparr>cv_val := v\<rparr>, w1)"
  using call_listeners_quiet [of "map snd (cv_cbs var)" "cv_val var" v w] assms by (auto simp: setValue_def quiet_def)

lemma fromString_quiet:
  assumes "quiet var" and "same T (cv_type var) = (=)"
  shows "\<exists>w1. fromString T txt var w = (False, var\<lparr>cv_val := converted T (cv_type var) txt (cv_val var)\<rparr>, w1)"
  using setValue_quiet [OF assms] by (auto simp: fromString_def converted_def split: option.splits) (metis (no_types, lifting) case_prod_conv)

lemma load_node_other: "lower_string (fst i) \<noteq> name \<Longrightarrow> c_datas (fst (load_node T Y i s)) name = c_datas (fst s) name"
  by (cases s) (auto simp: load_node_def Let_def LookupBase_def var_fromString_def split: option.splits prod.splits)

lemma load_node_dom: "dom (c_datas (fst (load_node T Y i s))) = dom (c_datas (fst s))"
  by (cases s) (auto simp: load_node_def Let_def LookupBase_def var_fromString_def split: option.splits prod.splits)

lemma load_node_this:
  assumes "list_all config_char (fst i)" and "fst i \<noteq> []" and "c_datas (fst s) (fst i) = Some var" and "quiet var" and "same T (cv_type var) = (=)"
  shows "c_datas (fst (load_node T Y i s)) (fst i) = Some (var\<lparr>cv_val := converted T (cv_type var) (node_text Y (snd i)) (cv_val var)\<rparr>)"
proof -
  obtain w1 where "fromString T (node_text Y (snd i)) var (snd s) = (False, var\<lparr>cv_val := converted T (cv_type var) (node_text Y (snd i)) (cv_val var)\<rparr>, w1)"
    using fromString_quiet [OF assms(4,5)] by blast
  then show ?thesis using assms(1-3)
    by (simp add: load_node_def Let_def lower_config_name LookupBase_def var_fromString_def node_text_def [symmetric] split_beta)
qed

text \<open>The value of a variable after all nodes: the texts of its nodes converted in order.\<close>

lemma load_nodes_value:
  assumes "\<forall>i \<in> set nodes. list_all config_char (fst i)" and "name \<noteq> []" and "c_datas (fst s) name = Some var" and "quiet var" and "same T (cv_type var) = (=)"
  shows "dom (c_datas (fst (fold (load_node T Y) nodes s))) = dom (c_datas (fst s))
    \<and> c_datas (fst (fold (load_node T Y) nodes s)) name
      = Some (var\<lparr>cv_val := fold (converted T (cv_type var)) (map (node_text Y) (map snd (filter (\<lambda>i. fst i = name) nodes))) (cv_val var)\<rparr>)"
  using assms
proof (induction nodes arbitrary: s var)
  case (Cons i nodes)
  let ?s = "load_node T Y i s"
  let ?var = "if fst i = name then var\<lparr>cv_val := converted T (cv_type var) (node_text Y (snd i)) (cv_val var)\<rparr> else var"
  have "c_datas (fst ?s) name = Some ?var"
    using load_node_this [of i s var T Y] load_node_other [of i name T Y s] Cons.prems by (auto simp: lower_config_name)
  moreover have "quiet ?var" "same T (cv_type ?var) = (=)" using Cons.prems by (auto simp: quiet_def)
  ultimately show ?case using Cons.IH [of ?s ?var] Cons.prems load_node_dom [of T Y i s] by auto
qed simp

lemma fold_converted_same:
  assumes "\<forall>txt \<in> set txts. txt = t0"
  shows "fold (converted T t) txts v = (if txts = [] then v else converted T t t0 v)"
  using assms by (induction txts arbitrary: v) (auto simp: converted_def split: option.splits)

text \<open>Loading is a sequence of the steps above.\<close>

lemma load_is_run: "(config_step T ty)\<^sup>*\<^sup>* s (fold (load_node T Y) nodes s)"
proof (induction nodes arbitrary: s)
  case (Cons i nodes)
  have "config_step T ty s (load_node T Y i s) \<or> load_node T Y i s = s"
    by (auto simp: load_node_def Let_def intro: from_string split: option.splits)
  then show ?case using Cons [of "load_node T Y i s"] by (auto intro: converse_rtranclp_into_rtranclp)
qed simp

section \<open>Containers\<close>

text \<open>
  What is assumed of the YAML library for the round trips: the text of a sequence or map node is parsed to a node whose parts print as the
  given ones.
\<close>

definition yaml_sequences :: "'n yaml \<Rightarrow> bool" where
  "yaml_sequences Y \<longleftrightarrow> (\<forall>ns. \<exists>r. y_Load Y (y_emit Y (y_Sequence Y ns)) = Some r \<and> map (y_emit Y) (y_elems Y r) = map (y_emit Y) ns)"

definition yaml_maps :: "'n yaml \<Rightarrow> bool" where
  "yaml_maps Y \<longleftrightarrow> (\<forall>kns. distinct (map fst kns) \<longrightarrow>
     (\<exists>r. y_Load Y (y_emit Y (y_Map Y kns)) = Some r \<and> map (\<lambda>(k, n). (y_Scalar Y k, y_emit Y n)) (y_items Y r) = map (\<lambda>(k, n). (k, y_emit Y n)) kns))"

definition elem_roundtrip :: "'n yaml \<Rightarrow> ('a \<Rightarrow> string option) \<Rightarrow> (string \<Rightarrow> 'a option) \<Rightarrow> 'a \<Rightarrow> bool" where
  "elem_roundtrip Y to from x \<longleftrightarrow> (\<exists>n. Option.bind (to x) (y_Load Y) = Some n \<and> from (y_emit Y n) = Some x)"

lemma map_option_list_map: "map_option_list f (map g xs) = map_option_list (\<lambda>x. f (g x)) xs"
  by (induction xs) (auto split: option.splits)

lemma map_option_list_cong_map:
  "map g xs = map h ys \<Longrightarrow> map_option_list (\<lambda>x. f (g x)) xs = map_option_list (\<lambda>y. f (h y)) ys"
  by (metis map_option_list_map)

lemma elems_roundtrip:
  assumes "\<forall>x \<in> set v. elem_roundtrip Y to from x"
  shows "\<exists>ns. map_option_list (\<lambda>i. Option.bind (to i) (y_Load Y)) v = Some ns \<and> map_option_list (\<lambda>n. from (y_emit Y n)) ns = Some v"
  using assms by (induction v) (auto simp: elem_roundtrip_def)

lemma vector_roundtrip:
  assumes "yaml_sequences Y" and "\<forall>x \<in> set v. elem_roundtrip Y to from x"
  shows "\<exists>txt. vector_to Y to v = Some txt \<and> vector_from Y from txt = Some v"
proof -
  obtain ns where ns: "map_option_list (\<lambda>i. Option.bind (to i) (y_Load Y)) v = Some ns" "map_option_list (\<lambda>n. from (y_emit Y n)) ns = Some v"
    using elems_roundtrip [OF assms(2)] by blast
  obtain r where r: "y_Load Y (y_emit Y (y_Sequence Y ns)) = Some r" "map (y_emit Y) (y_elems Y r) = map (y_emit Y) ns"
    using assms(1) unfolding yaml_sequences_def by blast
  have "map_option_list (\<lambda>n. from (y_emit Y n)) (y_elems Y r) = Some v"
    using map_option_list_cong_map [OF r(2), where f = "from"] ns(2) by simp
  then show ?thesis using ns(1) r(1) by (simp add: vector_to_def vector_from_def)
qed

lemma list_roundtrip:
  assumes "yaml_sequences Y" and "\<forall>x \<in> set v. elem_roundtrip Y to from x"
  shows "\<exists>txt. list_to Y to v = Some txt \<and> list_from Y from txt = Some v"
  using vector_roundtrip [OF assms] by (simp add: list_to_def list_from_def vector_to_def vector_from_def)

lemma set_roundtrip:
  assumes "yaml_sequences Y" and "\<forall>x \<in> set xs. elem_roundtrip Y to from x"
  shows "\<exists>txt. set_to Y to xs = Some txt \<and> set_from Y from txt = Some (set xs)"
proof -
  obtain str where "vector_to Y to xs = Some str" "vector_from Y from str = Some xs" using vector_roundtrip [OF assms] by blast
  then show ?thesis by (auto simp: set_to_def set_from_def vector_to_def vector_from_def split: option.splits)
qed

lemma insert_all_distinct: "distinct (map fst ps) \<Longrightarrow> (\<forall>p \<in> set ps. m (fst p) = None) \<Longrightarrow> insert_all ps m = m ++ map_of ps"
proof (induction ps arbitrary: m)
  case (Cons p ps)
  have "insert_all ps (m(fst p \<mapsto> snd p)) = m(fst p \<mapsto> snd p) ++ map_of ps" using Cons by (intro Cons.IH) (auto simp: image_iff)
  moreover have "map_of ps (fst p) = None" using Cons.prems(1) by (simp add: map_of_eq_None_iff)
  ultimately show ?case using Cons.prems by (auto simp: fun_eq_iff map_add_def split: option.splits)
qed simp

lemma map_items_roundtrip:
  assumes "\<forall>x \<in> snd ` set kvs. elem_roundtrip Y to from x"
  shows "\<exists>kns. map_option_list (\<lambda>(k, i). map_option (Pair k) (Option.bind (to i) (y_Load Y))) kvs = Some kns \<and> map fst kns = map fst kvs
    \<and> map_option_list (\<lambda>(k, txt). map_option (Pair k) (from txt)) (map (\<lambda>(k, n). (k, y_emit Y n)) kns) = Some kvs"
  using assms by (induction kvs) (auto simp: elem_roundtrip_def)

lemma map_roundtrip:
  assumes "yaml_maps Y" and "\<forall>x \<in> snd ` set kvs. elem_roundtrip Y to from x" and dist: "distinct (map fst kvs)"
  shows "\<exists>txt. map_to Y to kvs = Some txt \<and> map_from Y from txt = Some (map_of kvs)"
proof -
  obtain kns where kns: "map_option_list (\<lambda>(k, i). map_option (Pair k) (Option.bind (to i) (y_Load Y))) kvs = Some kns" "map fst kns = map fst kvs"
      "map_option_list (\<lambda>(k, txt). map_option (Pair k) (from txt)) (map (\<lambda>(k, n). (k, y_emit Y n)) kns) = Some kvs"
    using map_items_roundtrip [OF assms(2)] by blast
  obtain r where r: "y_Load Y (y_emit Y (y_Map Y kns)) = Some r"
      "map (\<lambda>(k, n). (y_Scalar Y k, y_emit Y n)) (y_items Y r) = map (\<lambda>(k, n). (k, y_emit Y n)) kns"
    using assms(1) dist kns(2) unfolding yaml_maps_def by (metis (no_types, lifting))
  have "map_option_list (\<lambda>(k, txt). map_option (Pair k) (from txt)) (map (\<lambda>(k, n). (y_Scalar Y k, y_emit Y n)) (y_items Y r)) = Some kvs"
    using kns(3) r(2) by simp
  then have "map_option_list (\<lambda>(k, n). map_option (Pair (y_Scalar Y k)) (from (y_emit Y n))) (y_items Y r) = Some kvs"
    by (simp add: map_option_list_map case_prod_beta')
  then show ?thesis using kns(1) r(1) insert_all_distinct [OF dist, of Map.empty] by (simp add: map_to_def map_from_def)
qed

section \<open>Properties\<close>

text \<open>
  C22. The registry is well typed: in every history of it a variable keeps its name and its type and is never removed, its value is always one
  of its type, a lookup of its name with its type gives it and a lookup with any other type gives null. Names consist of the allowed
  characters, and the name a variable reports is the one it is registered with.
\<close>

theorem config_type_safety:
  assumes "typed_conversions T ty" and "(config_step T ty)\<^sup>*\<^sup>* (new_Config, w0) (cfg, w)" and "c_datas cfg name = Some var"
    and "(config_step T ty)\<^sup>*\<^sup>* (cfg, w) (cfg', w')"
  shows "\<exists>var'. c_datas cfg' name = Some var' \<and> cv_type var' = cv_type var \<and> ty (cv_type var') (cv_val var') \<and> cv_name var' = name
    \<and> list_all config_char name \<and> (\<forall>t. Config_Lookup t name cfg' = (if t = cv_type var then Some name else None))"
proof -
  have "config_ok ty cfg" using config_run_keeps [OF assms(1,2)] by (simp add: config_ok_def new_Config_def)
  then have "config_ok ty cfg'" "config_extends cfg cfg'" using config_run_keeps [OF assms(1,4)] by auto
  then show ?thesis using assms(3) unfolding config_ok_def config_extends_def Config_Lookup_def by fastforce
qed

text \<open>Two types of variables, texts and numerals, and the tree \<open>a: 42\<close> as three nodes.\<close>

definition demo_types :: "(bool, string) var_types" where
  "demo_types = \<lparr>from_str = (\<lambda>t s. if t \<and> \<not> list_all (\<lambda>c. c \<in> set ''0123456789'') s then None else Some s), to_str = (\<lambda>_. Some), same = (\<lambda>_. (=))\<rparr>"

definition demo_type :: "bool \<Rightarrow> string \<Rightarrow> bool" where
  "demo_type t s \<longleftrightarrow> (t \<longrightarrow> list_all (\<lambda>c. c \<in> set ''0123456789'') s)"

definition demo_config :: "(bool, string, unit) config" where
  "demo_config = snd (Lookup_default True ''a'' ''7'' [] new_Config)"

definition demo_tree :: "nat yaml" where
  "demo_tree = \<lparr>y_IsMap = (\<lambda>n. n = 0), y_IsScalar = (\<lambda>n. n \<noteq> 0), y_Scalar = (\<lambda>n. if n = 1 then ''a'' else ''42''), y_items = (\<lambda>n. [(1, 2)]), y_elems = (\<lambda>_. []),
     y_emit = (\<lambda>_. []), y_Load = (\<lambda>_. None), y_Sequence = (\<lambda>_. 0), y_Map = (\<lambda>_. 0), y_get = (\<lambda>_ _. None), y_string = (\<lambda>_. None), y_int = (\<lambda>_. None),
     y_of_string = (\<lambda>_. 0), y_of_int = (\<lambda>_. 0)\<rparr>"

lemma demo_config_a: "c_datas demo_config ''a'' = Some (new_ConfigVar True ''a'' ''7'' [])"
  by (simp add: demo_config_def Lookup_default_def new_Config_def config_char_def)

theorem config_type_safety_witness:
  "\<exists>cfg' w' var'. var_fromString demo_types ''a'' ''12'' (demo_config, ()) = (cfg', w') \<and> c_datas cfg' ''a'' = Some var'
    \<and> cv_type var' \<and> demo_type True (cv_val var') \<and> Config_Lookup True ''a'' cfg' = Some ''a'' \<and> Config_Lookup False ''a'' cfg' = None"
proof -
  have ty: "typed_conversions demo_types demo_type" by (simp add: typed_conversions_def demo_types_def demo_type_def)
  have "config_step demo_types demo_type (new_Config, ()) (demo_config, ())"
    unfolding demo_config_def by (rule lookup) (simp add: demo_type_def)
  then have first: "(config_step demo_types demo_type)\<^sup>*\<^sup>* (new_Config, ()) (demo_config, ())" by blast
  obtain cfg' w' where run: "var_fromString demo_types ''a'' ''12'' (demo_config, ()) = (cfg', w')" by (metis surj_pair)
  then have "(config_step demo_types demo_type)\<^sup>*\<^sup>* (demo_config, ()) (cfg', w')" using from_string [of demo_types demo_type "(demo_config, ())" "''a''" "''12''"] by simp
  from config_type_safety [OF ty first demo_config_a this] show ?thesis using run by (auto simp: new_ConfigVar_def)
qed

text \<open>
  C23. Loading a YAML tree of finite depth ends and registers no variable. A variable whose name is a member of the tree gets the
  value that the text of this member converts to, when it converts; a variable without such a member, or whose text does not convert,
  keeps its value. Members are named by the dotted path of their keys; a key with a character outside the allowed ones hides
  everything below it. (The name belongs to one member, the listeners do not throw, and values are compared by equality.)
\<close>

theorem load_sets_members:
  assumes "tree_depth Y depth" and "depth root < d" and "c_datas cfg name = Some var" and "name \<noteq> []" and "quiet var" and "same T (cv_type var) = (=)"
    and one: "\<forall>m m'. tree_member Y [] root name m \<longrightarrow> tree_member Y [] root name m' \<longrightarrow> m = m'"
  shows "\<exists>cfg' w' var'. LoadFromYaml T Y d root (cfg, w) = Some (cfg', w') \<and> dom (c_datas cfg') = dom (c_datas cfg) \<and> c_datas cfg' name = Some var'
    \<and> (\<forall>m v. tree_member Y [] root name m \<longrightarrow> from_str T (cv_type var) (node_text Y m) = Some v \<longrightarrow> cv_val var' = v)
    \<and> ((\<forall>m. tree_member Y [] root name m \<longrightarrow> from_str T (cv_type var) (node_text Y m) = None) \<longrightarrow> var' = var)"
proof -
  obtain nodes where nodes: "ListAllMember Y d [] root [] = Some nodes" using ListAllMember_total [OF assms(1,2)] by fastforce
  have members: "set nodes = {(q, m). tree_member Y [] root q m}" using ListAllMember_set [OF nodes] by simp
  let ?s = "fold (load_node T Y) nodes (cfg, w)"
  let ?txts = "map (node_text Y) (map snd (filter (\<lambda>i. fst i = name) nodes))"
  have txts: "set ?txts = {node_text Y m | m. tree_member Y [] root name m}" using members by force
  have "\<forall>i \<in> set nodes. list_all config_char (fst i)" using members tree_member_name by fastforce
  from load_nodes_value [OF this assms(4) _ assms(5,6), of "(cfg, w)" Y] assms(3)
  have res: "dom (c_datas (fst ?s)) = dom (c_datas cfg)" "c_datas (fst ?s) name = Some (var\<lparr>cv_val := fold (converted T (cv_type var)) ?txts (cv_val var)\<rparr>)"
    by auto
  have val: "fold (converted T (cv_type var)) ?txts (cv_val var) = converted T (cv_type var) (node_text Y m) (cv_val var)" if "tree_member Y [] root name m" for m
  proof -
    have "\<forall>txt \<in> set ?txts. txt = node_text Y m" using txts one that by fastforce
    moreover have "?txts \<noteq> []" using txts that by fastforce
    ultimately show ?thesis using fold_converted_same [of ?txts "node_text Y m" T "cv_type var" "cv_val var"] by simp
  qed
  have "fold (converted T (cv_type var)) ?txts (cv_val var) = cv_val var" if "\<nexists>m. tree_member Y [] root name m"
  proof -
    have "set ?txts = {}" unfolding txts using that by blast
    then show ?thesis by (simp only: set_empty fold_simps(1))
  qed
  with val have "(\<forall>m v. tree_member Y [] root name m \<longrightarrow> from_str T (cv_type var) (node_text Y m) = Some v \<longrightarrow> fold (converted T (cv_type var)) ?txts (cv_val var) = v)
      \<and> ((\<forall>m. tree_member Y [] root name m \<longrightarrow> from_str T (cv_type var) (node_text Y m) = None) \<longrightarrow> fold (converted T (cv_type var)) ?txts (cv_val var) = cv_val var)"
    by (metis converted_def option.simps(4,5))
  then show ?thesis using res nodes by (intro exI [of _ "fst ?s"] exI [of _ "snd ?s"]) (auto simp: LoadFromYaml_def)
qed

theorem load_sets_members_witness:
  "\<exists>cfg' w' var'. LoadFromYaml demo_types demo_tree 2 0 (demo_config, ()) = Some (cfg', w') \<and> c_datas cfg' ''a'' = Some var' \<and> cv_val var' = ''42''"
proof -
  have depth: "tree_depth demo_tree (\<lambda>n. if n = 0 then 1 else 0)" by (simp add: tree_depth_def demo_tree_def)
  have leaf: "tree_member demo_tree ''a'' 2 q m \<longleftrightarrow> q = ''a'' \<and> m = 2" for q m
    by (subst tree_member_unfold) (auto simp: demo_tree_def config_char_def)
  have one: "tree_member demo_tree [] 0 ''a'' m \<longleftrightarrow> m = 2" for m
  proof -
    have "y_IsMap demo_tree 0" "y_items demo_tree 0 = [(1, 2)]" "child_name demo_tree [] 1 = ''a''" by (simp_all add: demo_tree_def child_name_def)
    then show ?thesis by (subst tree_member_unfold) (simp add: leaf)
  qed
  have conv: "from_str demo_types True (node_text demo_tree 2) = Some ''42''" by (simp add: demo_types_def demo_tree_def node_text_def)
  have q: "quiet (new_ConfigVar True ''a'' ''7'' [] :: (bool, string, unit) config_var)" by (simp add: quiet_def new_ConfigVar_def)
  have t: "cv_type (new_ConfigVar True ''a'' ''7'' [] :: (bool, string, unit) config_var) = True" by (simp add: new_ConfigVar_def)
  from load_sets_members [OF depth _ demo_config_a _ q, of 0 2 demo_types "()"] show ?thesis
    using one conv t by (fastforce simp: demo_types_def)
qed

end
