(* ===== verification/TcpServer.thy ===== *)
theory TcpServer
  imports SslSocket Config
begin

text \<open>
  The TCP server (\<open>sylar/tcp_server.h\<close>, \<open>sylar/tcp_server.cpp\<close>): binding a list of addresses, starting and stopping the accept loops. What
  it hands to its workers is a list of tasks. A socket that goes out of scope is closed by its destructor, as in the code.
\<close>

datatype ('c, 'l) any_socket = Plain socket | Tls "('c, 'l) ssl_socket"

primrec base_socket :: "('c, 'l) any_socket \<Rightarrow> socket" where
  "base_socket (Plain s) = s"
| "base_socket (Tls s) = ssl_base s"

definition create_socket :: "bool \<Rightarrow> address \<Rightarrow> ('c, 'l) any_socket" where
  "create_socket ssl addr = (if ssl then Tls (SSL_CreateTCP addr) else Plain (CreateTCP addr))"

definition any_bind :: "'k network \<Rightarrow> address \<Rightarrow> ('c, 'l) any_socket \<Rightarrow> ('k hook, hook_error, bool \<times> ('c, 'l) any_socket) outcome" where
  "any_bind net addr sock =
     (case sock of
        Plain s \<Rightarrow> andThen (Socket_bind net addr s) (\<lambda>(ok, s1). ret (ok, Plain s1))
      | Tls s \<Rightarrow> andThen (ssl_bind net addr s) (\<lambda>(ok, s1). ret (ok, Tls s1)))"

definition any_close :: "'k network \<Rightarrow> ('c, 'l) any_socket \<Rightarrow> ('k hook, hook_error, ('c, 'l) any_socket) outcome" where
  "any_close net sock =
     (case sock of
        Plain s \<Rightarrow> andThen (Socket_close net s) (\<lambda>r. ret (Plain (snd r)))
      | Tls s \<Rightarrow> andThen (ssl_close net s) (\<lambda>r. ret (Tls (snd r))))"

definition any_accept :: "('c, 'l, 'k) openssl \<Rightarrow> 'k network \<Rightarrow> ('c, 'l) any_socket \<Rightarrow> ('k hook, hook_error, ('c, 'l) any_socket option) outcome" where
  "any_accept L net sock =
     (case sock of
        Plain s \<Rightarrow> (\<lambda>h. case Socket_accept net s h of (r, h1) \<Rightarrow> (Inr (map_option Plain r), h1))
      | Tls s \<Rightarrow> andThen (ssl_accept L net s) (\<lambda>r. ret (map_option Tls r)))"

text \<open>The configuration of a server.\<close>

record TcpServerConf =
  conf_address :: "string list"
  conf_keepalive :: int
  conf_timeout :: int
  conf_ssl :: int
  conf_id :: string
  conf_type :: string
  conf_name :: string
  conf_cert_file :: string
  conf_key_file :: string
  conf_accept_worker :: string
  conf_io_worker :: string
  conf_process_worker :: string
  conf_args :: "string \<rightharpoonup> string"

definition new_TcpServerConf :: TcpServerConf where
  "new_TcpServerConf = \<lparr>conf_address = [], conf_keepalive = 0, conf_timeout = 1000 * 2 * 60, conf_ssl = 0, conf_id = [], conf_type = ''http'', conf_name = [],
     conf_cert_file = [], conf_key_file = [], conf_accept_worker = [], conf_io_worker = [], conf_process_worker = [], conf_args = Map.empty\<rparr>"

definition conf_isValid :: "TcpServerConf \<Rightarrow> bool" where
  "conf_isValid conf \<longleftrightarrow> conf_address conf \<noteq> []"

definition conf_eq :: "TcpServerConf \<Rightarrow> TcpServerConf \<Rightarrow> bool" where
  "conf_eq a oth \<longleftrightarrow> conf_address a = conf_address oth \<and> conf_keepalive a = conf_keepalive oth \<and> conf_timeout a = conf_timeout oth
     \<and> conf_name a = conf_name oth \<and> conf_ssl a = conf_ssl oth \<and> conf_cert_file a = conf_cert_file oth \<and> conf_key_file a = conf_key_file oth
     \<and> conf_accept_worker a = conf_accept_worker oth \<and> conf_io_worker a = conf_io_worker oth \<and> conf_process_worker a = conf_process_worker oth
     \<and> conf_args a = conf_args oth \<and> conf_id a = conf_id oth \<and> conf_type a = conf_type oth"

text \<open>
  A configuration from YAML text and to YAML text; \<open>None\<close> is an exception. \<open>as\<close> with a default gives it when the node is not defined or does
  not convert, \<open>as\<close> without one throws then. The conversion of a string to a string is the identity. \<open>kvs\<close> lists the entries of \<open>args\<close> in key order.
\<close>

definition as_string :: "'n yaml \<Rightarrow> 'n \<Rightarrow> string \<Rightarrow> string option" where
  "as_string Y node key = Option.bind (y_get Y node key) (y_string Y)"

definition as_string_or :: "'n yaml \<Rightarrow> 'n \<Rightarrow> string \<Rightarrow> string \<Rightarrow> string" where
  "as_string_or Y node key def = (case as_string Y node key of None \<Rightarrow> def | Some s \<Rightarrow> s)"

definition as_int_or :: "'n yaml \<Rightarrow> 'n \<Rightarrow> string \<Rightarrow> int \<Rightarrow> int" where
  "as_int_or Y node key def = (case Option.bind (y_get Y node key) (y_int Y) of None \<Rightarrow> def | Some i \<Rightarrow> i)"

definition conf_from :: "'n yaml \<Rightarrow> string \<Rightarrow> TcpServerConf option" where
  "conf_from Y v =
     Option.bind (y_Load Y v) (\<lambda>node.
     let conf = new_TcpServerConf;
         conf1 = conf\<lparr>conf_id := as_string_or Y node ''id'' (conf_id conf), conf_type := as_string_or Y node ''type'' (conf_type conf),
           conf_keepalive := as_int_or Y node ''keepalive'' (conf_keepalive conf), conf_timeout := as_int_or Y node ''timeout'' (conf_timeout conf),
           conf_name := as_string_or Y node ''name'' (conf_name conf), conf_ssl := as_int_or Y node ''ssl'' (conf_ssl conf),
           conf_cert_file := as_string_or Y node ''cert_file'' (conf_cert_file conf), conf_key_file := as_string_or Y node ''key_file'' (conf_key_file conf)\<rparr> in
     Option.bind (as_string Y node ''accept_worker'') (\<lambda>aw.
     Option.bind (as_string Y node ''io_worker'') (\<lambda>iw.
     Option.bind (as_string Y node ''process_worker'') (\<lambda>pw.
     Option.bind (map_from Y Some (as_string_or Y node ''args'' [])) (\<lambda>args.
     Option.bind (case y_get Y node ''address'' of None \<Rightarrow> Some [] | Some n \<Rightarrow> map_option_list (y_string Y) (y_elems Y n)) (\<lambda>address.
       Some (conf1\<lparr>conf_accept_worker := aw, conf_io_worker := iw, conf_process_worker := pw, conf_args := args, conf_address := address\<rparr>)))))))"

definition conf_to :: "'n yaml \<Rightarrow> (string \<times> string) list \<Rightarrow> TcpServerConf \<Rightarrow> string option" where
  "conf_to Y kvs conf =
     Option.bind (map_to Y Some kvs) (\<lambda>args_text.
     Option.bind (y_Load Y args_text) (\<lambda>args.
       Some (y_emit Y (y_Map Y
         ([(''id'', y_of_string Y (conf_id conf)), (''type'', y_of_string Y (conf_type conf)), (''name'', y_of_string Y (conf_name conf)),
           (''keepalive'', y_of_int Y (conf_keepalive conf)), (''timeout'', y_of_int Y (conf_timeout conf)), (''ssl'', y_of_int Y (conf_ssl conf)),
           (''cert_file'', y_of_string Y (conf_cert_file conf)), (''key_file'', y_of_string Y (conf_key_file conf)),
           (''accept_worker'', y_of_string Y (conf_accept_worker conf)), (''io_worker'', y_of_string Y (conf_io_worker conf)),
           (''process_worker'', y_of_string Y (conf_process_worker conf)), (''args'', args)]
          @ (if conf_address conf = [] then [] else [(''address'', y_Sequence Y (map (y_of_string Y) (conf_address conf)))]))))))"

record ('c, 'l) tcp_server =
  ts_socks :: "('c, 'l) any_socket list"
  ts_recvTimeout :: u64
  ts_name :: string
  ts_type :: string
  ts_isStop :: bool
  ts_ssl :: bool
  ts_conf :: "TcpServerConf option"

text \<open>What is scheduled: an accept loop on the accept worker, the end of all sockets there, a client on the I/O worker.\<close>

datatype ('c, 'l) server_task = Start_accept "('c, 'l) any_socket" | Stop_sockets | Handle_client "('c, 'l) any_socket"

text \<open>\<open>read_timeout\<close> is the value of the configuration variable \<open>tcp_server.read_timeout\<close>.\<close>

definition new_TcpServer :: "u64 \<Rightarrow> ('c, 'l) tcp_server" where
  "new_TcpServer read_timeout = \<lparr>ts_socks = [], ts_recvTimeout = read_timeout, ts_name = ''sylar/1.0.0'', ts_type = ''tcp'', ts_isStop = True, ts_ssl = False, ts_conf = None\<rparr>"

primrec close_all :: "'k network \<Rightarrow> ('c, 'l) any_socket list \<Rightarrow> ('k hook, hook_error, unit) outcome" where
  "close_all net [] = ret ()"
| "close_all net (s # ss) = andThen (any_close net s) (\<lambda>_. close_all net ss)"

definition del_TcpServer :: "'k network \<Rightarrow> ('c, 'l) tcp_server \<Rightarrow> ('k hook, hook_error, ('c, 'l) tcp_server) outcome" where
  "del_TcpServer net ts = andThen (close_all net (ts_socks ts)) (\<lambda>_. ret (ts\<lparr>ts_socks := []\<rparr>))"

text \<open>The loop of \<open>bind\<close>, with \<open>SOMAXCONN\<close> (4096) as backlog: the sockets and the failed addresses.\<close>

primrec bind_loop ::
  "'k network \<Rightarrow> bool \<Rightarrow> address list \<Rightarrow> ('c, 'l) any_socket list \<Rightarrow> address list \<Rightarrow> ('k hook, hook_error, ('c, 'l) any_socket list \<times> address list) outcome" where
  "bind_loop net ssl [] socks fails = ret (socks, fails)"
| "bind_loop net ssl (addr # addrs) socks fails =
     andThen (any_bind net addr (create_socket ssl addr)) (\<lambda>(ok, sock).
       if \<not> ok then andThen (any_close net sock) (\<lambda>_. bind_loop net ssl addrs socks (fails @ [addr]))
       else (\<lambda>h. case Socket_listen net 4096 (base_socket sock) h of (listening, h1) \<Rightarrow>
         if \<not> listening then andThen (any_close net sock) (\<lambda>_. bind_loop net ssl addrs socks (fails @ [addr])) h1
         else bind_loop net ssl addrs (socks @ [sock]) fails h1))"

definition tcp_bind ::
  "'k network \<Rightarrow> address list \<Rightarrow> address list \<Rightarrow> bool \<Rightarrow> ('c, 'l) tcp_server \<Rightarrow> ('k hook, hook_error, bool \<times> address list \<times> ('c, 'l) tcp_server) outcome" where
  "tcp_bind net addrs fails ssl ts =
     andThen (bind_loop net ssl addrs (ts_socks ts) fails) (\<lambda>(socks, fails1).
       if fails1 \<noteq> [] then andThen (close_all net socks) (\<lambda>_. ret (False, fails1, ts\<lparr>ts_ssl := ssl, ts_socks := []\<rparr>))
       else ret (True, fails1, ts\<lparr>ts_ssl := ssl, ts_socks := socks\<rparr>))"

definition tcp_bind_one :: "'k network \<Rightarrow> address \<Rightarrow> bool \<Rightarrow> ('c, 'l) tcp_server \<Rightarrow> ('k hook, hook_error, bool \<times> ('c, 'l) tcp_server) outcome" where
  "tcp_bind_one net addr ssl ts = andThen (tcp_bind net [addr] [] ssl ts) (\<lambda>(ok, fails, ts1). ret (ok, ts1))"

text \<open>
  The accept loop of one socket. Other threads may stop the server, so the values that \<open>m_isStop\<close> has at the tests of the loop are a list;
  the loop ends at the first \<open>True\<close>. The result is what it scheduled.
\<close>

definition accept_once :: "('c, 'l, 'k) openssl \<Rightarrow> 'k network \<Rightarrow> ('c, 'l) tcp_server \<Rightarrow> ('c, 'l) any_socket \<Rightarrow> ('k hook, hook_error, ('c, 'l) server_task list) outcome" where
  "accept_once L net ts sock =
     andThen (any_accept L net sock) (\<lambda>r h.
       case r of
         None \<Rightarrow> (Inr [], h)
       | Some client \<Rightarrow> (Inr [Handle_client client], setRecvTimeout net (sint (ts_recvTimeout ts)) (base_socket client) h))"

primrec startAccept ::
  "('c, 'l, 'k) openssl \<Rightarrow> 'k network \<Rightarrow> ('c, 'l) tcp_server \<Rightarrow> ('c, 'l) any_socket \<Rightarrow> bool list \<Rightarrow> ('k hook, hook_error, ('c, 'l) server_task list) outcome" where
  "startAccept L net ts sock [] = ret []"
| "startAccept L net ts sock (stop # stops) =
     (if stop then ret []
      else andThen (accept_once L net ts sock) (\<lambda>tasks. andThen (startAccept L net ts sock stops) (\<lambda>tasks2. ret (tasks @ tasks2))))"

definition tcp_start :: "('c, 'l) tcp_server \<Rightarrow> (bool \<times> ('c, 'l) server_task list) \<times> ('c, 'l) tcp_server" where
  "tcp_start ts = (if \<not> ts_isStop ts then ((True, []), ts) else ((True, map Start_accept (ts_socks ts)), ts\<lparr>ts_isStop := False\<rparr>))"

definition tcp_stop :: "('c, 'l) tcp_server \<Rightarrow> ('c, 'l) server_task list \<times> ('c, 'l) tcp_server" where
  "tcp_stop ts = ([Stop_sockets], ts\<lparr>ts_isStop := True\<rparr>)"

text \<open>The scheduled function of \<open>stop\<close>.\<close>

primrec stop_sockets :: "'k network \<Rightarrow> ('c, 'l) any_socket list \<Rightarrow> ('k hook, hook_error, unit) outcome" where
  "stop_sockets net [] = ret ()"
| "stop_sockets net (s # ss) =
     andThen (Socket_cancelAll net (base_socket s)) (\<lambda>_. andThen (any_close net s) (\<lambda>_. stop_sockets net ss))"

definition run_stop :: "'k network \<Rightarrow> ('c, 'l) tcp_server \<Rightarrow> ('k hook, hook_error, ('c, 'l) tcp_server) outcome" where
  "run_stop net ts = andThen (stop_sockets net (ts_socks ts)) (\<lambda>_. ret (ts\<lparr>ts_socks := []\<rparr>))"

primrec load_all ::
  "('c, 'l, 'k) openssl \<Rightarrow> string \<Rightarrow> string \<Rightarrow> ('c, 'l) any_socket list \<Rightarrow> 'k hook \<Rightarrow> bool \<times> ('c, 'l) any_socket list \<times> 'k hook" where
  "load_all L cert_file key_file [] h = (True, [], h)"
| "load_all L cert_file key_file (s # ss) h =
     (case s of
        Plain b \<Rightarrow> (case load_all L cert_file key_file ss h of (ok, ss1, h1) \<Rightarrow> (ok, s # ss1, h1))
      | Tls t \<Rightarrow>
          (case loadCertificates L cert_file key_file t h of (ok, t1, h1) \<Rightarrow>
             if \<not> ok then (False, Tls t1 # ss, h1)
             else case load_all L cert_file key_file ss h1 of (ok2, ss1, h2) \<Rightarrow> (ok2, Tls t1 # ss1, h2)))"

definition tcp_loadCertificates ::
  "('c, 'l, 'k) openssl \<Rightarrow> string \<Rightarrow> string \<Rightarrow> ('c, 'l) tcp_server \<Rightarrow> 'k hook \<Rightarrow> bool \<times> ('c, 'l) tcp_server \<times> 'k hook" where
  "tcp_loadCertificates L cert_file key_file ts h =
     (case load_all L cert_file key_file (ts_socks ts) h of (ok, ss, h1) \<Rightarrow> (ok, ts\<lparr>ts_socks := ss\<rparr>, h1))"

definition setConf :: "TcpServerConf \<Rightarrow> ('c, 'l) tcp_server \<Rightarrow> ('c, 'l) tcp_server" where
  "setConf v ts = ts\<lparr>ts_conf := Some v\<rparr>"

definition ts_setRecvTimeout :: "u64 \<Rightarrow> ('c, 'l) tcp_server \<Rightarrow> ('c, 'l) tcp_server" where
  "ts_setRecvTimeout v ts = ts\<lparr>ts_recvTimeout := v\<rparr>"

definition ts_setName :: "string \<Rightarrow> ('c, 'l) tcp_server \<Rightarrow> ('c, 'l) tcp_server" where
  "ts_setName v ts = ts\<lparr>ts_name := v\<rparr>"

primrec any_dump :: "('c, 'l) any_socket \<Rightarrow> string" where
  "any_dump (Plain s) = Socket_dump s"
| "any_dump (Tls s) = ssl_dump s"

text \<open>\<open>worker\<close> and \<open>accept\<close> are the names of the two schedulers, empty when there is none.\<close>

definition ts_toString :: "string \<Rightarrow> string \<Rightarrow> string \<Rightarrow> ('c, 'l) tcp_server \<Rightarrow> string" where
  "ts_toString worker accept prefix ts =
     (let pfx = (if prefix = [] then ''    '' else prefix) in
      prefix @ ''[type='' @ ts_type ts @ '' name='' @ ts_name ts @ '' ssl='' @ (if ts_ssl ts then ''1'' else ''0'')
      @ '' worker='' @ worker @ '' accept='' @ accept @ '' recv_timeout='' @ dec_of_nat (unat (ts_recvTimeout ts)) @ '']'' @ [CHR 0x0A]
      @ concat (map (\<lambda>i. pfx @ pfx @ any_dump i @ [CHR 0x0A]) (ts_socks ts)))"

text \<open>The comparison of configurations looks at every field.\<close>

lemma conf_eq_iff: "conf_eq a b \<longleftrightarrow> a = b"
  by (auto simp: conf_eq_def)

text \<open>The three workers must be named.\<close>

lemma conf_needs_workers:
  assumes "y_Load Y v = Some node" and "key \<in> {''accept_worker'', ''io_worker'', ''process_worker''}" and "y_get Y node key = None"
  shows "conf_from Y v = None"
  using assms by (auto simp: conf_from_def as_string_def Let_def Option.bind_eq_None_conv)

text \<open>
  What is assumed of the YAML library: an emitted map is parsed to a node where the same keys are defined, with values that convert alike;
  scalars convert back; a map does not convert to a string; the empty text has no entries.
\<close>

definition yaml_documents :: "'n yaml \<Rightarrow> bool" where
  "yaml_documents Y \<longleftrightarrow>
     (\<forall>kns. distinct (map fst kns) \<longrightarrow> (\<exists>r. y_Load Y (y_emit Y (y_Map Y kns)) = Some r \<and> y_string Y r = None \<and>
        (\<forall>k. case map_of kns k of
           None \<Rightarrow> y_get Y r k = None
         | Some n \<Rightarrow> (\<exists>n'. y_get Y r k = Some n' \<and> y_string Y n' = y_string Y n \<and> y_int Y n' = y_int Y n
              \<and> map (y_string Y) (y_elems Y n') = map (y_string Y) (y_elems Y n)))))
     \<and> (\<forall>s. y_string Y (y_of_string Y s) = Some s) \<and> (\<forall>i. y_int Y (y_of_int Y i) = Some i)
     \<and> (\<forall>ns. y_elems Y (y_Sequence Y ns) = ns)
     \<and> (\<exists>r. y_Load Y [] = Some r \<and> y_items Y r = [])"

lemma map_option_list_loads:
  "\<forall>v \<in> snd ` set kvs. y_Load Y v \<noteq> None \<Longrightarrow>
    \<exists>kns. map_option_list (\<lambda>(k, i). map_option (Pair k) (Option.bind (Some i) (y_Load Y))) kvs = Some kns \<and> map fst kns = map fst kvs"
  by (induction kvs) auto

lemma map_option_list_strings: "map (y_string Y) ns = map Some ss \<Longrightarrow> map_option_list (y_string Y) ns = Some ss"
proof (induction ss arbitrary: ns)
  case (Cons s ss)
  then show ?case by (cases ns) auto
qed simp

text \<open>
  Writing a configuration and reading it back gives all of it but \<open>args\<close>: they are written as a map, but read with \<open>as\<close> as a string,
  where the default applies.
\<close>

lemma conf_roundtrip_loses_args:
  assumes Y: "yaml_documents Y" and kvs: "distinct (map fst kvs)" "\<forall>v \<in> snd ` set kvs. y_Load Y v \<noteq> None"
  shows "\<exists>str. conf_to Y kvs conf = Some str \<and> conf_from Y str = Some (conf\<lparr>conf_args := Map.empty\<rparr>)"
proof -
  have str: "y_string Y (y_of_string Y s) = Some s" and int: "y_int Y (y_of_int Y i) = Some i" and seq: "y_elems Y (y_Sequence Y ns) = ns" for s i ns
    using Y by (auto simp: yaml_documents_def)
  obtain kns where kns: "map_option_list (\<lambda>(k, i). map_option (Pair k) (Option.bind (Some i) (y_Load Y))) kvs = Some kns" "map fst kns = map fst kvs"
    using map_option_list_loads [OF kvs(2)] by blast
  then obtain args where args: "y_Load Y (y_emit Y (y_Map Y kns)) = Some args" "y_string Y args = None"
    using Y kvs(1) unfolding yaml_documents_def by metis
  define doc where "doc = [(''id'', y_of_string Y (conf_id conf)), (''type'', y_of_string Y (conf_type conf)), (''name'', y_of_string Y (conf_name conf)),
           (''keepalive'', y_of_int Y (conf_keepalive conf)), (''timeout'', y_of_int Y (conf_timeout conf)), (''ssl'', y_of_int Y (conf_ssl conf)),
           (''cert_file'', y_of_string Y (conf_cert_file conf)), (''key_file'', y_of_string Y (conf_key_file conf)),
           (''accept_worker'', y_of_string Y (conf_accept_worker conf)), (''io_worker'', y_of_string Y (conf_io_worker conf)),
           (''process_worker'', y_of_string Y (conf_process_worker conf)), (''args'', args)]
          @ (if conf_address conf = [] then [] else [(''address'', y_Sequence Y (map (y_of_string Y) (conf_address conf)))])"
  have m: "map_of doc ''id'' = Some (y_of_string Y (conf_id conf))"
    "map_of doc ''type'' = Some (y_of_string Y (conf_type conf))"
    "map_of doc ''name'' = Some (y_of_string Y (conf_name conf))"
    "map_of doc ''keepalive'' = Some (y_of_int Y (conf_keepalive conf))"
    "map_of doc ''timeout'' = Some (y_of_int Y (conf_timeout conf))"
    "map_of doc ''ssl'' = Some (y_of_int Y (conf_ssl conf))"
    "map_of doc ''cert_file'' = Some (y_of_string Y (conf_cert_file conf))"
    "map_of doc ''key_file'' = Some (y_of_string Y (conf_key_file conf))"
    "map_of doc ''accept_worker'' = Some (y_of_string Y (conf_accept_worker conf))"
    "map_of doc ''io_worker'' = Some (y_of_string Y (conf_io_worker conf))"
    "map_of doc ''process_worker'' = Some (y_of_string Y (conf_process_worker conf))"
    "map_of doc ''args'' = Some args"
    by (simp_all add: doc_def)
  have "distinct (map fst doc)" by (simp add: doc_def)
  then obtain r where r: "y_Load Y (y_emit Y (y_Map Y doc)) = Some r"
    and get: "\<And>k. case map_of doc k of None \<Rightarrow> y_get Y r k = None
         | Some n \<Rightarrow> (\<exists>n'. y_get Y r k = Some n' \<and> y_string Y n' = y_string Y n \<and> y_int Y n' = y_int Y n
              \<and> map (y_string Y) (y_elems Y n') = map (y_string Y) (y_elems Y n))"
    using Y unfolding yaml_documents_def by blast
  have as: "as_string Y r k = Option.bind (map_of doc k) (y_string Y)" "Option.bind (y_get Y r k) (y_int Y) = Option.bind (map_of doc k) (y_int Y)" for k
    using get [of k] by (auto simp: as_string_def split: option.splits)
  have ad: "(case y_get Y r ''address'' of None \<Rightarrow> Some [] | Some n \<Rightarrow> map_option_list (y_string Y) (y_elems Y n)) = Some (conf_address conf)"
  proof (cases "conf_address conf = []")
    case False
    then obtain n where "y_get Y r ''address'' = Some n" "map (y_string Y) (y_elems Y n) = map Some (conf_address conf)"
      using get [of "''address''"] by (auto simp: doc_def seq str)
    then show ?thesis using map_option_list_strings by auto
  qed (use get [of "''address''"] in \<open>simp add: doc_def\<close>)
  obtain null where null: "y_Load Y [] = Some null" "y_items Y null = []" using Y by (auto simp: yaml_documents_def)
  have "conf_to Y kvs conf = Some (y_emit Y (y_Map Y doc))" using kns(1) args(1) by (simp add: conf_to_def map_to_def doc_def)
  moreover have "conf_from Y (y_emit Y (y_Map Y doc)) = Some (conf\<lparr>conf_args := Map.empty\<rparr>)"
    by (simp add: conf_from_def r Let_def as_string_or_def as_int_or_def as m ad str int args(2) map_from_def null)
  ultimately show ?thesis by blast
qed

subsection \<open>All or nothing\<close>

lemma any_bind_valid:
  assumes "any_bind net addr sock h = (Inr (True, sock'), h')"
  shows "isVaild (base_socket sock')"
proof -
  have "isVaild s'" if "Socket_bind net addr s h1 = (Inr (True, s'), h2)" for s s' h1 h2
    using that by (auto simp: Socket_bind_def isVaild_def split: if_splits prod.splits elim!: andThen_eq_InrE dest!: address_keeps)
  then show ?thesis using assms by (auto simp: any_bind_def ssl_bind_def ret_def split: any_socket.splits prod.splits elim!: andThen_eq_InrE)
qed

lemma bind_loop_spec:
  fixes socks socks' :: "('c, 'l) any_socket list"
  shows "bind_loop net ssl addrs socks fails h = (Inr (socks', fails'), h') \<Longrightarrow>
    (\<exists>new failed. socks' = socks @ new \<and> fails' = fails @ failed \<and> length new + length failed = length addrs
      \<and> set failed \<subseteq> set addrs \<and> (\<forall>s \<in> set new. isVaild (base_socket s)))"
proof (induction addrs arbitrary: socks fails h)
  case Nil
  then show ?case by (simp add: ret_def)
next
  case (Cons a addrs)
  let ?sock = "create_socket ssl a :: ('c, 'l) any_socket"
  obtain x h1 where x: "any_bind net a ?sock h = (x, h1)" by (metis surj_pair)
  then obtain ok sock where b: "any_bind net a ?sock h = (Inr (ok, sock), h1)"
    using Cons.prems by (cases x) (auto simp: andThen_def)
  consider (failed) h2 where "bind_loop net ssl addrs socks (fails @ [a]) h2 = (Inr (socks', fails'), h')"
    | (bound) h2 where "ok" "bind_loop net ssl addrs (socks @ [sock]) fails h2 = (Inr (socks', fails'), h')"
    using Cons.prems by (simp add: andThen_Inr [where m = "any_bind net a ?sock", OF b]) (auto split: if_splits prod.splits elim!: andThen_eq_InrE)
  then show ?case
  proof cases
    case failed
    from Cons.IH [OF this] obtain new fs where "socks' = socks @ new" "fails' = (fails @ [a]) @ fs" "length new + length fs = length addrs"
        "set fs \<subseteq> set addrs" "\<forall>s \<in> set new. isVaild (base_socket s)" by blast
    then show ?thesis by (intro exI [of _ new] exI [of _ "a # fs"]) auto
  next
    case bound
    from Cons.IH [OF this(2)] obtain new fs where "socks' = (socks @ [sock]) @ new" "fails' = fails @ fs" "length new + length fs = length addrs"
        "set fs \<subseteq> set addrs" "\<forall>s \<in> set new. isVaild (base_socket s)" by blast
    then show ?thesis using any_bind_valid b bound(1) by (intro exI [of _ "sock # new"] exI [of _ fs]) auto
  qed
qed

text \<open>Binding is all or nothing: either every address got a socket, or some are reported and the server has none, not even those of earlier calls.\<close>

lemma bind_all_or_nothing:
  assumes "tcp_bind net addrs [] ssl ts h = (Inr (ok, fails, ts'), h')"
  shows "if ok then fails = [] \<and> (\<exists>new. ts_socks ts' = ts_socks ts @ new \<and> length new = length addrs \<and> (\<forall>s \<in> set new. isVaild (base_socket s)))
    else fails \<noteq> [] \<and> set fails \<subseteq> set addrs \<and> ts_socks ts' = []"
proof -
  obtain x h1 where x: "bind_loop net ssl addrs (ts_socks ts) [] h = (x, h1)" by (metis surj_pair)
  then obtain socks fs where l: "bind_loop net ssl addrs (ts_socks ts) [] h = (Inr (socks, fs), h1)"
    using assms by (cases x) (auto simp: tcp_bind_def andThen_def)
  have run: "(if fs \<noteq> [] then andThen (close_all net socks) (\<lambda>_. ret (False, fs, ts\<lparr>ts_ssl := ssl, ts_socks := []\<rparr>))
      else ret (True, fs, ts\<lparr>ts_ssl := ssl, ts_socks := socks\<rparr>)) h1 = (Inr (ok, fails, ts'), h')"
    using assms by (simp add: tcp_bind_def andThen_Inr [where m = "bind_loop net ssl addrs (ts_socks ts) []", OF l])
  then have "if fs \<noteq> [] then \<not> ok \<and> fails = fs \<and> ts_socks ts' = [] else ok \<and> fails = fs \<and> ts_socks ts' = socks"
    by (auto simp: ret_def elim!: andThen_eq_InrE)
  then show ?thesis using bind_loop_spec [OF l] by (auto split: if_splits)
qed

text \<open>Each accept loop schedules at most one client for each round, all of them connected, and nothing after a stop.\<close>

definition client_task :: "('c, 'l) server_task \<Rightarrow> bool" where
  "client_task t \<longleftrightarrow> (\<exists>client. t = Handle_client client \<and> s_isConnected (base_socket client) \<and> isVaild (base_socket client))"

lemma accept_once_tasks:
  assumes "accept_once L net ts sock h = (Inr tasks, h')"
  shows "length tasks \<le> 1 \<and> list_all client_task tasks"
proof -
  have "s_isConnected (base_socket c) \<and> isVaild (base_socket c)" if "any_accept L net sock h = (Inr (Some c), h1)" for c h1
    using that by (auto simp: any_accept_def ret_def split: any_socket.splits prod.splits elim!: andThen_eq_InrE dest: Socket_accept_inv ssl_accept_inv)
  then show ?thesis
    using assms by (auto simp: accept_once_def client_task_def split: option.splits elim!: andThen_eq_InrE)
qed

lemma startAccept_clients:
  "startAccept L net ts sock stops h = (Inr tasks, h') \<Longrightarrow> length tasks \<le> length (takeWhile Not stops) \<and> list_all client_task tasks"
proof (induction stops arbitrary: h tasks)
  case (Cons s stops)
  show ?case
  proof (cases s)
    case False
    then obtain t1 t2 h1 where "accept_once L net ts sock h = (Inr t1, h1)" "startAccept L net ts sock stops h1 = (Inr t2, h')" "tasks = t1 @ t2"
      using Cons.prems by (auto simp: ret_def elim!: andThen_eq_InrE)
    then show ?thesis using accept_once_tasks [of L net ts sock h t1 h1] Cons.IH [of h1 t2] False by auto
  qed (use Cons.prems in \<open>simp add: ret_def\<close>)
qed (simp add: ret_def)

end
