(* ===== verification/HttpParser.thy ===== *)
theory HttpParser
  imports HttpParserTables Http CText
begin

text \<open>
  The HTTP request parser: the table machine that Ragel generated (\<open>sylar/http/http11_parser.c\<close>, tables in
  \<open>HttpParserTables\<close>) and the callbacks that fill in the request (\<open>sylar/http/http_parser.cpp\<close>). Positions are offsets
  into the buffer of one call. The machine emits the callbacks it makes as a list of events, which the request
  parser handles in order.
\<close>

subsection \<open>The machine\<close>

record http_parser =
  hp_cs :: nat
  hp_body_start :: nat
  hp_content_len :: int
  hp_nread :: nat
  hp_mark :: nat
  hp_field_start :: nat
  hp_field_len :: nat
  hp_query_start :: nat
  hp_xml_sent :: bool
  hp_json_sent :: bool
  hp_uri_relaxed :: bool

text \<open>Each event has the offset and length of the text the callback is given.\<close>

datatype hp_event =
    Http_field nat nat nat nat
  | Request_method nat nat
  | Request_uri nat nat
  | Fragment nat nat
  | Request_path nat nat
  | Query_string nat nat
  | Http_version nat nat
  | Header_done nat nat

definition http_parser_start :: nat where "http_parser_start = 1"
definition http_parser_first_final :: nat where "http_parser_first_final = 348"
definition http_parser_error :: nat where "http_parser_error = 0"

text \<open>\<open>http_parser_init\<close> keeps \<open>query_start\<close> and \<open>uri_relaxed\<close> as they are in the structure.\<close>

definition http_parser_init :: "http_parser \<Rightarrow> http_parser" where
  "http_parser_init hp = hp\<lparr>hp_cs := http_parser_start, hp_body_start := 0, hp_content_len := 0, hp_mark := 0, hp_nread := 0,
     hp_field_len := 0, hp_field_start := 0, hp_xml_sent := False, hp_json_sent := False\<rparr>"

text \<open>The binary searches over single keys and over ranges (pairs of keys), as offsets from \<open>_keys\<close>.\<close>

function search_single :: "nat list \<Rightarrow> int \<Rightarrow> int \<Rightarrow> int \<Rightarrow> int option" where
  "search_single keys w lower upper =
     (if upper < lower then None
      else let mid = lower + (upper - lower) div 2 in
        if w < int (keys ! nat mid) then search_single keys w lower (mid - 1)
        else if int (keys ! nat mid) < w then search_single keys w (mid + 1) upper
        else Some mid)"
  by pat_completeness auto
termination
  by (relation "measure (\<lambda>(keys, w, lower, upper). nat (upper - lower + 1))") auto

function search_range :: "nat list \<Rightarrow> int \<Rightarrow> int \<Rightarrow> int \<Rightarrow> int option" where
  "search_range keys w lower upper =
     (if upper < lower then None
      else let mid = lower + 2 * ((upper - lower) div 4) in
        if w < int (keys ! nat mid) then search_range keys w lower (mid - 2)
        else if int (keys ! nat (mid + 1)) < w then search_range keys w (mid + 2) upper
        else Some mid)"
  by pat_completeness auto
termination
  by (relation "measure (\<lambda>(keys, w, lower, upper). nat (upper - lower + 1))") auto

declare search_single.simps [simp del] search_range.simps [simp del]

text \<open>In some states the relaxed delimiters are moved to codes of their own.\<close>

definition widec :: "bool \<Rightarrow> nat \<Rightarrow> char \<Rightarrow> int" where
  "widec uri_relaxed cs c =
     (let klen = http_parser_cond_lengths ! cs;
          keys = drop (http_parser_cond_offsets ! cs * 2) http_parser_cond_keys
      in if klen > 0 then
           (case search_range keys (char_code c) 0 (2 * int klen - 2) of
              None \<Rightarrow> char_code c
            | Some mid \<Rightarrow>
                if http_parser_cond_spaces ! (http_parser_cond_offsets ! cs + nat (mid div 2)) = 0
                then 128 + (char_code c + 128) + (if uri_relaxed then 256 else 0)
                else char_code c)
         else char_code c)"

definition trans_index :: "nat \<Rightarrow> int \<Rightarrow> nat" where
  "trans_index cs w =
     (let keys = drop (http_parser_key_offsets ! cs) http_parser_trans_keys;
          trans = http_parser_index_offsets ! cs;
          slen = http_parser_single_lengths ! cs;
          rlen = http_parser_range_lengths ! cs
      in case (if slen > 0 then search_single keys w 0 (int slen - 1) else None) of
           Some mid \<Rightarrow> trans + nat mid
         | None \<Rightarrow>
             (case (if rlen > 0 then search_range (drop slen keys) w 0 (2 * int rlen - 2) else None) of
                Some mid \<Rightarrow> trans + slen + nat (mid div 2)
              | None \<Rightarrow> trans + slen + rlen))"

definition transition :: "nat \<Rightarrow> int \<Rightarrow> nat" where
  "transition cs w = http_parser_indicies ! trans_index cs w"

text \<open>The actions, at position \<open>p\<close> of a buffer of length \<open>pe\<close>; the last part of the result is \<open>goto _out\<close>. \<open>LEN\<close> is a \<open>size_t\<close> difference.\<close>

definition hp_action :: "nat \<Rightarrow> nat \<Rightarrow> nat \<Rightarrow> http_parser \<Rightarrow> http_parser \<times> hp_event list \<times> bool" where
  "hp_action a p pe hp =
     (if a = 0 then (hp\<lparr>hp_mark := p\<rparr>, [], False)
      else if a = 1 then (hp\<lparr>hp_field_start := p\<rparr>, [], False)
      else if a = 2 then (hp\<lparr>hp_field_len := sub64 p (hp_field_start hp)\<rparr>, [], False)
      else if a = 3 then (hp\<lparr>hp_mark := p\<rparr>, [], False)
      else if a = 4 then (hp, [Http_field (hp_field_start hp) (hp_field_len hp) (hp_mark hp) (sub64 p (hp_mark hp))], False)
      else if a = 5 then (hp, [Request_method (hp_mark hp) (sub64 p (hp_mark hp))], False)
      else if a = 6 then (hp, [Request_uri (hp_mark hp) (sub64 p (hp_mark hp))], False)
      else if a = 7 then (hp, [Fragment (hp_mark hp) (sub64 p (hp_mark hp))], False)
      else if a = 8 then (hp\<lparr>hp_query_start := p\<rparr>, [], False)
      else if a = 9 then (hp, [Query_string (hp_query_start hp) (sub64 p (hp_query_start hp))], False)
      else if a = 10 then (hp, [Http_version (hp_mark hp) (sub64 p (hp_mark hp))], False)
      else if a = 11 then (hp, [Request_path (hp_mark hp) (sub64 p (hp_mark hp))], False)
      else if a = 12 then
        (if hp_xml_sent hp \<or> hp_json_sent hp
         then (hp\<lparr>hp_body_start := hp_mark hp, hp_content_len := sint (of_nat (sub64 p (hp_mark hp) + 1) :: u32)\<rparr>, [], True)
         else (hp\<lparr>hp_body_start := p + 1\<rparr>, [Header_done (p + 1) (pe - p - 1)], True))
      else if a = 13 then (hp\<lparr>hp_xml_sent := True\<rparr>, [], False)
      else if a = 14 then (hp\<lparr>hp_json_sent := True\<rparr>, [], False)
      else (hp, [], False))"

primrec run_actions :: "nat list \<Rightarrow> nat \<Rightarrow> nat \<Rightarrow> http_parser \<Rightarrow> http_parser \<times> hp_event list \<times> bool" where
  "run_actions [] p pe hp = (hp, [], False)"
| "run_actions (a # as) p pe hp =
     (case hp_action a p pe hp of (hp1, evs, out) \<Rightarrow>
        if out then (hp1, evs, True)
        else case run_actions as p pe hp1 of (hp2, evs2, out2) \<Rightarrow> (hp2, evs @ evs2, out2))"

definition trans_actions :: "nat \<Rightarrow> nat list" where
  "trans_actions t =
     (let a = http_parser_trans_actions ! t in
      if a = 0 then [] else take (http_parser_actions ! a) (drop (a + 1) http_parser_actions))"

function exec_loop :: "string \<Rightarrow> nat \<Rightarrow> nat \<Rightarrow> http_parser \<Rightarrow> nat \<times> nat \<times> http_parser \<times> hp_event list" where
  "exec_loop buffer p cs hp =
     (if length buffer \<le> p \<or> cs = 0 then (p, cs, hp, [])
      else let t = transition cs (widec (hp_uri_relaxed hp) cs (buffer ! p));
               cs1 = http_parser_trans_targs ! t
           in case run_actions (trans_actions t) p (length buffer) hp of (hp1, evs, out) \<Rightarrow>
                if out then (p + 1, cs1, hp1, evs)
                else if cs1 = 0 then (p, cs1, hp1, evs)
                else case exec_loop buffer (p + 1) cs1 hp1 of (p2, cs2, hp2, evs2) \<Rightarrow> (p2, cs2, hp2, evs @ evs2))"
  by pat_completeness auto
termination
  by (relation "measure (\<lambda>(buffer, p, cs, hp). length buffer - p)") auto

declare exec_loop.simps [simp del]

datatype parser_error = Assertion_failed | Text_out_of_range

definition http_parser_has_error :: "http_parser \<Rightarrow> bool" where
  "http_parser_has_error hp \<longleftrightarrow> hp_cs hp = http_parser_error"

definition http_parser_is_finished :: "http_parser \<Rightarrow> bool" where
  "http_parser_is_finished hp \<longleftrightarrow> hp_cs hp \<ge> http_parser_first_final"

definition http_parser_finish :: "http_parser \<Rightarrow> int" where
  "http_parser_finish hp = (if http_parser_has_error hp then - 1 else if http_parser_is_finished hp then 1 else 0)"

text \<open>\<open>http_parser_execute\<close> with \<open>off = 0\<close>, as it is called. \<open>nread\<close> adds up over the calls, and the assertions compare it with this buffer.\<close>

definition http_parser_execute :: "http_parser \<Rightarrow> string \<Rightarrow> parser_error + (http_parser \<times> nat \<times> hp_event list)" where
  "http_parser_execute hp buffer =
     (if buffer = [] then Inr (hp, 0, [])
      else case exec_loop buffer 0 (hp_cs hp) hp of (p, cs, hp1, evs) \<Rightarrow>
        let hp2 = (if \<not> http_parser_has_error hp1 then hp1\<lparr>hp_cs := cs\<rparr> else hp1);
            hp3 = hp2\<lparr>hp_nread := hp_nread hp2 + p\<rparr>
        in if hp_nread hp3 \<le> length buffer \<and> hp_body_start hp3 \<le> length buffer \<and> hp_mark hp3 < length buffer
              \<and> hp_field_len hp3 \<le> length buffer \<and> hp_field_start hp3 < length buffer
           then Inr (hp3, hp_nread hp3, evs) else Inl Assertion_failed)"

subsection \<open>The tables are consistent\<close>

text \<open>Every index that the machine can compute lies in its table; the machine stops early only in a final state.\<close>

lemma table_lengths:
  "length http_parser_index_offsets = 350" "length http_parser_single_lengths = 350" "length http_parser_range_lengths = 350"
  "length http_parser_indicies = 1955" "length http_parser_trans_targs = 379" "length http_parser_trans_actions = 379"
  by (simp_all add: http_parser_index_offsets_def http_parser_single_lengths_def http_parser_range_lengths_def
      http_parser_indicies_def http_parser_trans_targs_def http_parser_trans_actions_def)

lemma table_indicies: "list_all (\<lambda>t. t < 379) http_parser_indicies"
  by (simp add: http_parser_indicies_def)

lemma table_targs: "list_all (\<lambda>cs. cs < 350) http_parser_trans_targs"
  by (simp add: http_parser_trans_targs_def)

lemma table_index_offsets:
  "list_all (\<lambda>(i, s, r). i + s + r < 1955) (zip http_parser_index_offsets (zip http_parser_single_lengths http_parser_range_lengths))"
  by (simp add: http_parser_index_offsets_def http_parser_single_lengths_def http_parser_range_lengths_def)

lemma table_done:
  "list_all (\<lambda>(a, cs). 12 \<in> set (if a = 0 then [] else take (http_parser_actions ! a) (drop (a + 1) http_parser_actions)) \<longrightarrow> 348 \<le> cs)
    (zip http_parser_trans_actions http_parser_trans_targs)"
  by (simp add: http_parser_trans_actions_def http_parser_trans_targs_def http_parser_actions_def)

lemma table_keys:
  "length http_parser_trans_keys = 2414"
  "list_all (\<lambda>(k, s, r). k + s + 2 * r \<le> 2414) (zip http_parser_key_offsets (zip http_parser_single_lengths http_parser_range_lengths))"
  by (simp_all add: http_parser_key_offsets_def http_parser_single_lengths_def http_parser_range_lengths_def http_parser_trans_keys_def)

lemma search_single_bound: "search_single keys w lower upper = Some m \<Longrightarrow> lower \<le> m \<and> m \<le> upper"
proof (induction keys w lower upper rule: search_single.induct)
  case (1 keys w lower upper)
  then show ?case by (subst (asm) (3) search_single.simps) (fastforce simp: Let_def split: if_splits)
qed

lemma search_range_bound: "search_range keys w lower upper = Some m \<Longrightarrow> lower \<le> m \<and> m \<le> upper"
proof (induction keys w lower upper rule: search_range.induct)
  case (1 keys w lower upper)
  then show ?case by (subst (asm) (3) search_range.simps) (fastforce simp: Let_def split: if_splits)
qed

lemma transition_in_range:
  assumes "cs < 350"
  shows "transition cs w < 379"
proof -
  let ?s = "http_parser_single_lengths ! cs" and ?r = "http_parser_range_lengths ! cs" and ?i = "http_parser_index_offsets ! cs"
  have "(?i, ?s, ?r) \<in> set (zip http_parser_index_offsets (zip http_parser_single_lengths http_parser_range_lengths))"
    using assms by (auto simp: set_zip table_lengths intro!: exI [of _ cs])
  then have sum: "?i + ?s + ?r < 1955" using table_index_offsets by (auto simp: list_all_iff)
  have "nat m \<le> ?s" if "search_single keys w 0 (int ?s - 1) = Some m" for keys m
    using search_single_bound [OF that] by (simp add: nat_le_iff)
  moreover have "nat (m div 2) \<le> ?r" if "search_range keys w 0 (2 * int ?r - 2) = Some m" for keys m
    using search_range_bound [OF that] zdiv_mono1 [of m "2 * int ?r" 2] by (simp add: nat_le_iff)
  ultimately have "trans_index cs w \<le> ?i + ?s + ?r"
    by (force simp: trans_index_def Let_def split: option.split if_splits)
  then have "trans_index cs w < length http_parser_indicies" using sum table_lengths(4) by simp
  then show ?thesis using table_indicies unfolding transition_def by (metis list_all_length)
qed

lemma targs_in_range: "t < 379 \<Longrightarrow> http_parser_trans_targs ! t < 350"
  using table_targs by (simp add: list_all_length table_lengths)

lemma done_is_final: "t < 379 \<Longrightarrow> 12 \<in> set (trans_actions t) \<Longrightarrow> 348 \<le> http_parser_trans_targs ! t"
proof -
  assume t: "t < 379" "12 \<in> set (trans_actions t)"
  have "(http_parser_trans_actions ! t, http_parser_trans_targs ! t) \<in> set (zip http_parser_trans_actions http_parser_trans_targs)"
    using t(1) by (auto simp: set_zip table_lengths intro!: exI [of _ t])
  then show "348 \<le> http_parser_trans_targs ! t"
    using table_done t(2) unfolding list_all_iff trans_actions_def Let_def by blast
qed

subsection \<open>One run of the machine\<close>

lemma hp_action_keeps:
  "hp_action a p pe hp = (hp', evs, out) \<Longrightarrow> hp_nread hp' = hp_nread hp \<and> hp_cs hp' = hp_cs hp \<and> (out \<longrightarrow> a = 12)"
  by (auto simp: hp_action_def split: if_splits)

lemma run_actions_keeps:
  "run_actions as p pe hp = (hp', evs, out) \<Longrightarrow> hp_nread hp' = hp_nread hp \<and> hp_cs hp' = hp_cs hp \<and> (out \<longrightarrow> 12 \<in> set as)"
proof (induction as arbitrary: hp hp' evs out)
  case (Cons a as)
  show ?case using Cons.prems by (auto split: prod.splits if_splits dest!: hp_action_keeps Cons.IH)
qed simp

text \<open>The positions that the parser keeps lie at or before \<open>p\<close>.\<close>

definition hp_within :: "nat \<Rightarrow> http_parser \<Rightarrow> bool" where
  "hp_within p hp \<longleftrightarrow> hp_mark hp \<le> p \<and> hp_field_start hp \<le> p \<and> hp_field_len hp \<le> p \<and> hp_body_start hp \<le> p + 1"

lemma hp_within_mono: "hp_within p hp \<Longrightarrow> p \<le> q \<Longrightarrow> hp_within q hp"
  by (simp add: hp_within_def)

lemma hp_action_within: "hp_action a p pe hp = (hp', evs, out) \<Longrightarrow> hp_within p hp \<Longrightarrow> hp_within p hp'"
  by (auto simp: hp_action_def hp_within_def split: if_splits)

lemma run_actions_within: "run_actions as p pe hp = (hp', evs, out) \<Longrightarrow> hp_within p hp \<Longrightarrow> hp_within p hp'"
proof (induction as arbitrary: hp hp' evs out)
  case (Cons a as)
  show ?case using Cons.prems by (auto split: prod.splits if_splits dest: hp_action_within Cons.IH)
qed simp

text \<open>A run reads on until the buffer ends, unless it fails or the request is complete.\<close>

lemma exec_loop_spec:
  assumes "exec_loop buffer p cs hp = (p', cs', hp', evs)" and "p \<le> length buffer" and "cs < 350"
  shows "p \<le> p' \<and> p' \<le> length buffer \<and> cs' < 350 \<and> hp_nread hp' = hp_nread hp \<and> hp_cs hp' = hp_cs hp
    \<and> (p' = length buffer \<or> cs' = 0 \<or> 348 \<le> cs') \<and> (hp_within (p - 1) hp \<longrightarrow> hp_within (p' - 1) hp' \<or> cs' = 0 \<and> hp_within p' hp' \<and> p' < length buffer)"
  using assms
proof (induction buffer p cs hp arbitrary: p' cs' hp' evs rule: exec_loop.induct)
  case (1 buffer p cs hp)
  show ?case
  proof (cases "length buffer \<le> p \<or> cs = 0")
    case True
    then show ?thesis using "1.prems" by (subst (asm) exec_loop.simps) auto
  next
    case False
    define t where "t = transition cs (widec (hp_uri_relaxed hp) cs (buffer ! p))"
    obtain hp1 evs1 out where run: "run_actions (trans_actions t) p (length buffer) hp = (hp1, evs1, out)" by (metis surj_pair)
    have t: "t < 379" using transition_in_range [OF "1.prems"(3)] by (simp add: t_def)
    have targ: "http_parser_trans_targs ! t < 350" by (rule targs_in_range [OF t])
    note keeps = run_actions_keeps [OF run]
    have within: "hp_within (p - 1) hp \<longrightarrow> hp_within p hp1" using run_actions_within [OF run] hp_within_mono [of "p - 1" hp p] by simp
    note step = "1.prems"(1) [unfolded exec_loop.simps [of buffer p cs hp] Let_def t_def [symmetric] run]
    consider "out" | "\<not> out" "http_parser_trans_targs ! t = 0" | "\<not> out" "http_parser_trans_targs ! t \<noteq> 0" by blast
    then show ?thesis
    proof cases
      case 1
      then have "p' = p + 1" "cs' = http_parser_trans_targs ! t" "hp' = hp1" using step False by simp_all
      then show ?thesis using 1 False keeps within targ done_is_final [OF t] by simp
    next
      case 2
      then have "p' = p" "cs' = 0" "hp' = hp1" using step False by simp_all
      then show ?thesis using False keeps within by simp
    next
      case 3
      then obtain evs2 where rec: "exec_loop buffer (p + 1) (http_parser_trans_targs ! t) hp1 = (p', cs', hp', evs2)"
        using step False by (auto split: prod.splits)
      from "1.IH" [OF False refl refl run [unfolded t_def, symmetric], folded t_def, OF refl 3 rec _ targ] show ?thesis
        using keeps within False by auto
    qed
  qed
qed

text \<open>What one call of \<open>http_parser_execute\<close> does in a state of the machine, whatever the positions it kept from earlier calls.\<close>

lemma http_parser_execute_spec:
  assumes "http_parser_execute hp buffer = r" and "buffer \<noteq> []" and "hp_cs hp < 350"
  shows "case r of
      Inl e \<Rightarrow> e = Assertion_failed
    | Inr (hp', n, evs) \<Rightarrow> hp_cs hp' < 350 \<and> hp_nread hp' = n \<and> hp_nread hp \<le> n \<and> n \<le> length buffer
        \<and> (http_parser_has_error hp' \<or> http_parser_is_finished hp' \<or> n = hp_nread hp + length buffer)"
proof -
  obtain p cs hp1 evs where ex: "exec_loop buffer 0 (hp_cs hp) hp = (p, cs, hp1, evs)" by (metis surj_pair)
  note f = exec_loop_spec [OF ex, simplified, OF assms(3)]
  show ?thesis
    using assms(1,2) f
    by (auto simp: http_parser_execute_def ex Let_def http_parser_has_error_def http_parser_error_def http_parser_is_finished_def
        http_parser_first_final_def split: if_splits)
qed

lemma fresh_execute:
  assumes "buffer \<noteq> []"
  shows "\<exists>hp n evs. http_parser_execute (http_parser_init hp0) buffer = Inr (hp, n, evs)"
proof -
  let ?hp = "http_parser_init hp0"
  obtain p cs hp1 evs where ex: "exec_loop buffer 0 (hp_cs ?hp) ?hp = (p, cs, hp1, evs)" by (metis surj_pair)
  have cs: "hp_cs ?hp < 350" by (simp add: http_parser_init_def http_parser_start_def)
  have w: "hp_within (0 - 1) ?hp" by (simp add: http_parser_init_def hp_within_def)
  note f = exec_loop_spec [OF ex _ cs, simplified]
  have "hp_within (length buffer - 1) hp1"
    using f w hp_within_mono [of "p - 1" hp1 "length buffer - 1"] hp_within_mono [of p hp1 "length buffer - 1"] by auto
  moreover have "hp_nread hp1 = 0" using f by (simp add: http_parser_init_def)
  ultimately have "hp_nread hp1 + p \<le> length buffer \<and> hp_body_start hp1 \<le> length buffer \<and> hp_mark hp1 < length buffer
      \<and> hp_field_len hp1 \<le> length buffer \<and> hp_field_start hp1 < length buffer"
    using f assms by (cases buffer) (auto simp: hp_within_def)
  then show ?thesis using assms ex by (auto simp: http_parser_execute_def Let_def)
qed

lemma single_buffer:
  assumes "first \<noteq> []" and "rest \<noteq> []"
  shows "\<exists>hp n evs. http_parser_execute (http_parser_init hp0) first = Inr (hp, n, evs) \<and> n \<le> length first
    \<and> (http_parser_finish hp = 0 \<longrightarrow> n = length first
        \<and> (case http_parser_execute hp rest of
             Inl e \<Rightarrow> e = Assertion_failed
           | Inr (hp2, n2, evs2) \<Rightarrow> http_parser_finish hp2 \<noteq> 0 \<and> length first \<le> n2 \<and> n2 \<le> length rest))"
proof -
  obtain hp n evs where ex: "http_parser_execute (http_parser_init hp0) first = Inr (hp, n, evs)" using fresh_execute [OF assms(1)] by blast
  have one: "hp_cs hp < 350" "hp_nread hp = n" "n \<le> length first"
      "http_parser_has_error hp \<or> http_parser_is_finished hp \<or> n = length first"
    using http_parser_execute_spec [OF ex assms(1)] by (simp_all add: http_parser_init_def http_parser_start_def)
  have fin: "http_parser_finish h = 0 \<longleftrightarrow> \<not> http_parser_has_error h \<and> \<not> http_parser_is_finished h" for h
    by (simp add: http_parser_finish_def)
  have "case http_parser_execute hp rest of Inl e \<Rightarrow> e = Assertion_failed
      | Inr (hp2, n2, evs2) \<Rightarrow> http_parser_finish hp2 \<noteq> 0 \<and> length first \<le> n2 \<and> n2 \<le> length rest" if "n = length first"
    using http_parser_execute_spec [OF refl assms(2) one(1)] one(2) that assms(1)
    by (auto simp: fin split: sum.splits)
  then show ?thesis using ex one fin by blast
qed


text \<open>A request line that arrives letter by letter.\<close>

definition demo_parser :: http_parser where
  "demo_parser = \<lparr>hp_cs = 0, hp_body_start = 0, hp_content_len = 0, hp_nread = 0, hp_mark = 0, hp_field_start = 0, hp_field_len = 0,
     hp_query_start = 0, hp_xml_sent = False, hp_json_sent = False, hp_uri_relaxed = False\<rparr>"

lemma state_1:
  "http_parser_cond_lengths ! 1 = 0" "http_parser_key_offsets ! 1 = 0" "http_parser_index_offsets ! 1 = 0"
  "http_parser_single_lengths ! 1 = 2" "http_parser_range_lengths ! 1 = 2"
  by (simp_all add: http_parser_cond_lengths_def http_parser_key_offsets_def http_parser_index_offsets_def
      http_parser_single_lengths_def http_parser_range_lengths_def)

lemma keys_1:
  "http_parser_trans_keys ! 0 = 60" "http_parser_trans_keys ! 1 = 64" "http_parser_trans_keys ! 2 = 48" "http_parser_trans_keys ! 3 = 57"
  "http_parser_trans_keys ! 4 = 65" "http_parser_trans_keys ! 5 = 90"
  by (simp_all add: http_parser_trans_keys_def)

lemma trans_0: "http_parser_indicies ! 3 = 0" "http_parser_trans_targs ! 0 = 2" "http_parser_trans_actions ! 0 = 1"
  by (simp_all add: http_parser_indicies_def http_parser_trans_targs_def http_parser_trans_actions_def)

lemma letter_G: "transition 1 (widec False 1 CHR ''G'') = 0" "trans_actions 0 = [0]"
proof -
  have "widec False 1 CHR ''G'' = 71" unfolding widec_def Let_def state_1 by (simp add: char_code_def)
  moreover have "trans_index 1 71 = 3"
    unfolding trans_index_def Let_def state_1
    by (simp add: search_single.simps search_range.simps keys_1 keys_1(2) [unfolded One_nat_def] keys_1(3) [unfolded numeral_2_eq_2] table_keys(1))
  ultimately show "transition 1 (widec False 1 CHR ''G'') = 0" by (simp add: transition_def trans_0)
  show "trans_actions 0 = [0]" unfolding trans_actions_def Let_def trans_0 by (simp add: http_parser_actions_def)
qed

lemma demo_first: "http_parser_execute (http_parser_init demo_parser) ''G'' = Inr ((http_parser_init demo_parser)\<lparr>hp_cs := 2, hp_nread := 1\<rparr>, 1, [])"
  using letter_G trans_0
  by (simp add: http_parser_execute_def http_parser_init_def http_parser_start_def demo_parser_def exec_loop.simps hp_action_def
      http_parser_has_error_def http_parser_error_def)


end
