(* ===== verification/HttpMessageParser.thy ===== *)
theory HttpMessageParser
  imports HttpParser
begin

text \<open>
  The request and response parsers (\<open>sylar/http/http_parser.h\<close>, \<open>sylar/http/http_parser.cpp\<close>): the callbacks that turn the
  events of the machines into a message, and the \<open>execute\<close> functions, which parse the beginning of a buffer and move
  the rest to its front. The buffer is its whole memory, of which the first \<open>len\<close> characters are data. The
  functions of the response machine are a record that the response parser takes; \<open>HttpClientParser\<close> gives the machine of \<open>httpclient_parser.rl\<close>.
\<close>

subsection \<open>Requests\<close>

record req_parser =
  rp_parser :: http_parser
  rp_data :: HttpRequest
  rp_error :: int

text \<open>\<open>std::string(at, length)\<close>, and what a callback may read from \<open>at\<close> on.\<close>

definition text_at :: "string \<Rightarrow> nat \<Rightarrow> nat \<Rightarrow> parser_error + string" where
  "text_at mem pos n = (if pos + n \<le> length mem then Inr (take n (drop pos mem)) else Inl Text_out_of_range)"

definition strncmp_equal :: "string \<Rightarrow> string \<Rightarrow> nat \<Rightarrow> bool" where
  "strncmp_equal a b n \<longleftrightarrow> take n (c_str a) = take n b"

definition on_request_method :: "string \<Rightarrow> nat \<Rightarrow> req_parser \<Rightarrow> req_parser" where
  "on_request_method mem pos rp =
     (let m = CharsToHttpMethod (drop pos mem) in
      if m = INVALID_METHOD then rp\<lparr>rp_error := 1000\<rparr> else rp\<lparr>rp_data := (rp_data rp)\<lparr>m_method := m\<rparr>\<rparr>)"

definition on_request_fragment :: "string \<Rightarrow> req_parser \<Rightarrow> req_parser" where
  "on_request_fragment s rp = rp\<lparr>rp_data := (rp_data rp)\<lparr>m_fragment := s\<rparr>\<rparr>"

definition on_request_path :: "string \<Rightarrow> req_parser \<Rightarrow> req_parser" where
  "on_request_path s rp = rp\<lparr>rp_data := (rp_data rp)\<lparr>m_path := s\<rparr>\<rparr>"

definition on_request_query :: "string \<Rightarrow> req_parser \<Rightarrow> req_parser" where
  "on_request_query s rp = rp\<lparr>rp_data := (rp_data rp)\<lparr>m_query := s\<rparr>\<rparr>"

definition on_request_version :: "string \<Rightarrow> nat \<Rightarrow> nat \<Rightarrow> req_parser \<Rightarrow> req_parser" where
  "on_request_version mem pos n rp =
     (if strncmp_equal (drop pos mem) ''HTTP/1.1'' n then rp\<lparr>rp_data := (rp_data rp)\<lparr>m_version := 0x11\<rparr>\<rparr>
      else if strncmp_equal (drop pos mem) ''HTTP/1.0'' n then rp\<lparr>rp_data := (rp_data rp)\<lparr>m_version := 0x10\<rparr>\<rparr>
      else rp)"

definition on_request_http_field :: "string \<Rightarrow> string \<Rightarrow> req_parser \<Rightarrow> req_parser" where
  "on_request_http_field field v rp = (if field = [] then rp else rp\<lparr>rp_data := setHeader field v (rp_data rp)\<rparr>)"

text \<open>The callbacks that the constructor registers; \<open>request_uri\<close> and \<open>header_done\<close> do nothing.\<close>

definition on_request_event :: "string \<Rightarrow> hp_event \<Rightarrow> req_parser \<Rightarrow> parser_error + req_parser" where
  "on_request_event mem ev rp =
     (case ev of
        Request_method pos n \<Rightarrow> if length mem \<le> pos then Inl Text_out_of_range else Inr (on_request_method mem pos rp)
      | Request_uri pos n \<Rightarrow> Inr rp
      | Fragment pos n \<Rightarrow> map_sum id (\<lambda>s. on_request_fragment s rp) (text_at mem pos n)
      | Request_path pos n \<Rightarrow> map_sum id (\<lambda>s. on_request_path s rp) (text_at mem pos n)
      | Query_string pos n \<Rightarrow> map_sum id (\<lambda>s. on_request_query s rp) (text_at mem pos n)
      | Http_version pos n \<Rightarrow> if length mem \<le> pos then Inl Text_out_of_range else Inr (on_request_version mem pos n rp)
      | Header_done pos n \<Rightarrow> Inr rp
      | Http_field fpos flen vpos vlen \<Rightarrow>
          if flen = 0 then Inr rp
          else (case text_at mem fpos flen of
                  Inl e \<Rightarrow> Inl e
                | Inr field \<Rightarrow> map_sum id (\<lambda>v. on_request_http_field field v rp) (text_at mem vpos vlen)))"

primrec on_request_events :: "string \<Rightarrow> hp_event list \<Rightarrow> req_parser \<Rightarrow> parser_error + req_parser" where
  "on_request_events mem [] rp = Inr rp"
| "on_request_events mem (ev # evs) rp =
     (case on_request_event mem ev rp of Inl e \<Rightarrow> Inl e | Inr rp1 \<Rightarrow> on_request_events mem evs rp1)"

text \<open>The structure is not initialised apart from \<open>http_parser_init\<close>: \<open>garbage\<close> is what the memory held.\<close>

definition new_HttpRequestParser :: "http_parser \<Rightarrow> req_parser" where
  "new_HttpRequestParser garbage = \<lparr>rp_parser = http_parser_init garbage, rp_data = new_HttpRequest 0x11 True, rp_error = 0\<rparr>"

definition memmove_front :: "nat \<Rightarrow> nat \<Rightarrow> string \<Rightarrow> string" where
  "memmove_front len offset mem = take (len - offset) (drop offset mem) @ drop (len - offset) mem"

definition HttpRequestParser_execute :: "req_parser \<Rightarrow> string \<Rightarrow> nat \<Rightarrow> parser_error + (req_parser \<times> string \<times> nat)" where
  "HttpRequestParser_execute rp mem len =
     (case http_parser_execute (rp_parser rp) (take len mem) of
        Inl e \<Rightarrow> Inl e
      | Inr (hp, offset, evs) \<Rightarrow>
          (case on_request_events mem evs rp of
             Inl e \<Rightarrow> Inl e
           | Inr rp1 \<Rightarrow> Inr (rp1\<lparr>rp_parser := hp\<rparr>, memmove_front len offset mem, offset)))"

definition req_isFinished :: "req_parser \<Rightarrow> int" where
  "req_isFinished rp = http_parser_finish (rp_parser rp)"

definition req_hasError :: "req_parser \<Rightarrow> bool" where
  "req_hasError rp \<longleftrightarrow> rp_error rp \<noteq> 0 \<or> http_parser_has_error (rp_parser rp)"

definition req_getContentLength :: "(string \<Rightarrow> u64 option) \<Rightarrow> req_parser \<Rightarrow> u64" where
  "req_getContentLength lexical_cast rp = getAs lexical_cast (m_headers (rp_data rp)) ''content-length'' 0"

subsection \<open>Responses\<close>

datatype cl_event =
    Cl_http_field nat nat nat nat
  | Cl_reason_phrase nat nat
  | Cl_status_code nat nat
  | Cl_chunk_size nat nat
  | Cl_http_version nat nat
  | Cl_header_done nat nat
  | Cl_last_chunk nat nat

text \<open>The generated response machine: its functions, and the fields that its users read.\<close>

record 'q client =
  httpclient_parser_init :: "'q \<Rightarrow> 'q"
  httpclient_parser_execute :: "'q \<Rightarrow> string \<Rightarrow> parser_error + ('q \<times> int \<times> cl_event list)"
  httpclient_parser_finish :: "'q \<Rightarrow> int"
  httpclient_parser_has_error :: "'q \<Rightarrow> bool"
  cl_chunked :: "'q \<Rightarrow> bool"
  cl_content_len :: "'q \<Rightarrow> int"
  cl_chunks_done :: "'q \<Rightarrow> bool"

record 'q rsp_parser =
  qp_parser :: 'q
  qp_data :: HttpResponse
  qp_error :: int

definition on_response_reason :: "string \<Rightarrow> 'q rsp_parser \<Rightarrow> 'q rsp_parser" where
  "on_response_reason s qp = qp\<lparr>qp_data := (qp_data qp)\<lparr>r_reason := s\<rparr>\<rparr>"

text \<open>\<open>atoi\<close> on the digits of a status code.\<close>

definition atoi :: "string \<Rightarrow> nat" where
  "atoi s = fold (\<lambda>c n. 10 * n + (of_char c - 48)) (takeWhile (\<lambda>c. 48 \<le> (of_char c :: nat) \<and> (of_char c :: nat) \<le> 57) s) 0"

definition on_response_status :: "string \<Rightarrow> nat \<Rightarrow> 'q rsp_parser \<Rightarrow> 'q rsp_parser" where
  "on_response_status mem pos qp = qp\<lparr>qp_data := (qp_data qp)\<lparr>r_status := atoi (drop pos mem)\<rparr>\<rparr>"

definition on_response_version :: "string \<Rightarrow> nat \<Rightarrow> nat \<Rightarrow> 'q rsp_parser \<Rightarrow> 'q rsp_parser" where
  "on_response_version mem pos n qp =
     (if strncmp_equal (drop pos mem) ''HTTP/1.1'' n then qp\<lparr>qp_data := (qp_data qp)\<lparr>r_version := 0x11\<rparr>\<rparr>
      else if strncmp_equal (drop pos mem) ''HTTP/1.0'' n then qp\<lparr>qp_data := (qp_data qp)\<lparr>r_version := 0x10\<rparr>\<rparr>
      else qp\<lparr>qp_error := 1001\<rparr>)"

definition on_response_http_field :: "string \<Rightarrow> string \<Rightarrow> 'q rsp_parser \<Rightarrow> 'q rsp_parser" where
  "on_response_http_field field v qp = (if field = [] then qp else qp\<lparr>qp_data := response_setHeader field v (qp_data qp)\<rparr>)"

definition on_response_event :: "string \<Rightarrow> cl_event \<Rightarrow> 'q rsp_parser \<Rightarrow> parser_error + 'q rsp_parser" where
  "on_response_event mem ev qp =
     (case ev of
        Cl_reason_phrase pos n \<Rightarrow> map_sum id (\<lambda>s. on_response_reason s qp) (text_at mem pos n)
      | Cl_status_code pos n \<Rightarrow> if length mem \<le> pos then Inl Text_out_of_range else Inr (on_response_status mem pos qp)
      | Cl_chunk_size pos n \<Rightarrow> Inr qp
      | Cl_http_version pos n \<Rightarrow> if length mem \<le> pos then Inl Text_out_of_range else Inr (on_response_version mem pos n qp)
      | Cl_header_done pos n \<Rightarrow> Inr qp
      | Cl_last_chunk pos n \<Rightarrow> Inr qp
      | Cl_http_field fpos flen vpos vlen \<Rightarrow>
          if flen = 0 then Inr qp
          else (case text_at mem fpos flen of
                  Inl e \<Rightarrow> Inl e
                | Inr field \<Rightarrow> map_sum id (\<lambda>v. on_response_http_field field v qp) (text_at mem vpos vlen)))"

primrec on_response_events :: "string \<Rightarrow> cl_event list \<Rightarrow> 'q rsp_parser \<Rightarrow> parser_error + 'q rsp_parser" where
  "on_response_events mem [] qp = Inr qp"
| "on_response_events mem (ev # evs) qp =
     (case on_response_event mem ev qp of Inl e \<Rightarrow> Inl e | Inr qp1 \<Rightarrow> on_response_events mem evs qp1)"

definition new_HttpResponseParser :: "'q client \<Rightarrow> 'q \<Rightarrow> 'q rsp_parser" where
  "new_HttpResponseParser cl garbage =
     \<lparr>qp_parser = httpclient_parser_init cl garbage, qp_data = new_HttpResponse 0x11 True, qp_error = 0\<rparr>"

text \<open>For a chunk the machine is started again. A negative result (\<open>-1\<close>), taken as \<open>size_t\<close>, makes \<open>memmove\<close> read outside of the buffer.\<close>

definition HttpResponseParser_execute :: "'q client \<Rightarrow> 'q rsp_parser \<Rightarrow> string \<Rightarrow> nat \<Rightarrow> bool \<Rightarrow> parser_error + ('q rsp_parser \<times> string \<times> nat)" where
  "HttpResponseParser_execute cl qp mem len chunck =
     (case httpclient_parser_execute cl (if chunck then httpclient_parser_init cl (qp_parser qp) else qp_parser qp) (take len mem) of
        Inl e \<Rightarrow> Inl e
      | Inr (q, offset, evs) \<Rightarrow>
          (case on_response_events mem evs qp of
             Inl e \<Rightarrow> Inl e
           | Inr qp1 \<Rightarrow>
               if offset < 0 \<or> int len < offset then Inl Text_out_of_range
               else Inr (qp1\<lparr>qp_parser := q\<rparr>, memmove_front len (nat offset) mem, nat offset)))"

definition rsp_isFinished :: "'q client \<Rightarrow> 'q rsp_parser \<Rightarrow> int" where
  "rsp_isFinished cl qp = httpclient_parser_finish cl (qp_parser qp)"

definition rsp_hasError :: "'q client \<Rightarrow> 'q rsp_parser \<Rightarrow> bool" where
  "rsp_hasError cl qp \<longleftrightarrow> qp_error qp \<noteq> 0 \<or> httpclient_parser_has_error cl (qp_parser qp)"

definition rsp_getContentLength :: "(string \<Rightarrow> u64 option) \<Rightarrow> 'q rsp_parser \<Rightarrow> u64" where
  "rsp_getContentLength lexical_cast qp = getAs lexical_cast (r_headers (qp_data qp)) ''content-length'' 0"

end
