(* ===== verification/Stream.thy ===== *)
theory Stream
  imports Socket ByteArrayBuffers
begin

text \<open>
  Streams (\<open>sylar/stream.h\<close>, \<open>sylar/stream.cpp\<close>) and the stream over a socket (\<open>sylar/socket_stream.h\<close>,
  \<open>sylar/socket_stream.cpp\<close>). The loops of \<open>Stream\<close> call the virtual \<open>read\<close> and \<open>write\<close>; what they rely on is the
  locale \<open>stream_io\<close>, and \<open>SocketStream\<close> interprets it.
\<close>

subsection \<open>The loops of the base class\<close>

text \<open>
  \<open>read\<close> and \<open>write\<close> are functions on the state of the world. A read gives its result and the bytes it stored at
  \<open>buffer + offset\<close>; the loop collects them. \<open>Some\<close> is the early return.
\<close>

function readFix_loop :: "(nat \<Rightarrow> 's \<Rightarrow> (int \<times> string) \<times> 's) \<Rightarrow> int \<Rightarrow> string \<Rightarrow> 's \<Rightarrow> (int option \<times> string) \<times> 's" where
  "readFix_loop rd left buf s =
     (if left \<le> 0 then ((None, buf), s)
      else case rd (nat left) s of ((len, bs), s1) \<Rightarrow>
        if len \<le> 0 then ((Some len, buf), s1) else readFix_loop rd (left - len) (buf @ bs) s1)"
  by pat_completeness auto
termination
  by (relation "measure (\<lambda>(rd, left, buf, s). nat left)") auto

declare readFix_loop.simps [simp del]

text \<open>The \<open>size_t\<close> length is taken as \<open>int64_t\<close> for the loop and returned as \<open>int\<close>.\<close>

definition readFixSize :: "(nat \<Rightarrow> 's \<Rightarrow> (int \<times> string) \<times> 's) \<Rightarrow> nat \<Rightarrow> 's \<Rightarrow> (int \<times> string) \<times> 's" where
  "readFixSize rd n s =
     (case readFix_loop rd (sint (of_nat n :: u64)) [] s of
        ((Some len, buf), s1) \<Rightarrow> ((len, buf), s1)
      | ((None, buf), s1) \<Rightarrow> ((int32_of (int n), buf), s1))"

function writeFix_loop :: "(string \<Rightarrow> 's \<Rightarrow> int \<times> 's) \<Rightarrow> string \<Rightarrow> nat \<Rightarrow> int \<Rightarrow> 's \<Rightarrow> int option \<times> 's" where
  "writeFix_loop wr buffer offset left s =
     (if left \<le> 0 then (None, s)
      else case wr (take (nat left) (drop offset buffer)) s of (len, s1) \<Rightarrow>
        if len \<le> 0 then (Some len, s1) else writeFix_loop wr buffer (offset + nat len) (left - len) s1)"
  by pat_completeness auto
termination
  by (relation "measure (\<lambda>(wr, buffer, offset, left, s). nat left)") auto

declare writeFix_loop.simps [simp del]

definition writeFixSize :: "(string \<Rightarrow> 's \<Rightarrow> int \<times> 's) \<Rightarrow> string \<Rightarrow> 's \<Rightarrow> int \<times> 's" where
  "writeFixSize wr buffer s =
     (case writeFix_loop wr buffer 0 (sint (of_nat (length buffer) :: u64)) s of
        (Some len, s1) \<Rightarrow> (len, s1)
      | (None, s1) \<Rightarrow> (int32_of (int (length buffer)), s1))"

text \<open>The versions for a \<open>ByteArray\<close> have the same loop around a \<open>read\<close> or \<open>write\<close> that moves bytes to or from the array.\<close>

function fix_ba_loop :: "(nat \<Rightarrow> ('s, ba_error, int) outcome) \<Rightarrow> int \<Rightarrow> ('s, ba_error, int option) outcome" where
  "fix_ba_loop rw left s =
     (if left \<le> 0 then (Inr None, s)
      else case rw (nat left) s of
        (Inl e, s1) \<Rightarrow> (Inl e, s1)
      | (Inr len, s1) \<Rightarrow> if len \<le> 0 then (Inr (Some len), s1) else fix_ba_loop rw (left - len) s1)"
  by pat_completeness auto
termination
  by (relation "measure (\<lambda>(rw, left, s). nat left)") auto

declare fix_ba_loop.simps [simp del]

definition fixSize_ba :: "(nat \<Rightarrow> ('s, ba_error, int) outcome) \<Rightarrow> nat \<Rightarrow> ('s, ba_error, int) outcome" where
  "fixSize_ba rw n =
     andThen (fix_ba_loop rw (sint (of_nat n :: u64)))
       (\<lambda>r. ret (case r of Some len \<Rightarrow> len | None \<Rightarrow> int32_of (int n)))"

subsection \<open>What the loops rely on\<close>

text \<open>The bytes that a sequence of successful reads delivers, and those that a sequence of successful writes accepts, in order.\<close>

inductive reads :: "(nat \<Rightarrow> 's \<Rightarrow> (int \<times> string) \<times> 's) \<Rightarrow> 's \<Rightarrow> string \<Rightarrow> 's \<Rightarrow> bool" for rd where
  reads_none: "reads rd s [] s"
| reads_more: "reads rd s bs s1 \<Longrightarrow> rd n s1 = ((len, cs), s2) \<Longrightarrow> 0 < len \<Longrightarrow> reads rd s (bs @ cs) s2"

inductive writes :: "(string \<Rightarrow> 's \<Rightarrow> int \<times> 's) \<Rightarrow> 's \<Rightarrow> string \<Rightarrow> 's \<Rightarrow> bool" for wr where
  writes_none: "writes wr s [] s"
| writes_more: "writes wr s bs s1 \<Longrightarrow> wr cs s1 = (len, s2) \<Longrightarrow> 0 < len \<Longrightarrow> writes wr s (bs @ take (nat len) cs) s2"

locale stream_io =
  fixes rd :: "nat \<Rightarrow> 's \<Rightarrow> (int \<times> string) \<times> 's" and wr :: "string \<Rightarrow> 's \<Rightarrow> int \<times> 's"
  assumes rd_bound: "rd n s = ((len, bs), s1) \<Longrightarrow> 0 < len \<Longrightarrow> len \<le> int n \<and> int (length bs) = len"
    and wr_bound: "wr bs s = (len, s1) \<Longrightarrow> len \<le> int (length bs)"
begin

lemma reads_Nil: "reads rd s [] s1 \<Longrightarrow> s1 = s"
  by (erule reads.cases) (auto dest: rd_bound)

lemma readFix_loop_spec:
  assumes "reads rd s0 buf s" and "readFix_loop rd left buf s = ((r, buf'), s')" and "0 \<le> left"
  shows "case r of
      None \<Rightarrow> reads rd s0 buf' s' \<and> int (length buf') = int (length buf) + left
    | Some len \<Rightarrow> len \<le> 0 \<and> int (length buf') < int (length buf) + left
        \<and> (\<exists>s1 n bs. reads rd s0 buf' s1 \<and> rd n s1 = ((len, bs), s'))"
  using assms
proof (induction "nat left" arbitrary: left buf s rule: less_induct)
  case less
  show ?case
  proof (cases "left \<le> 0")
    case True
    then show ?thesis using less.prems by (auto simp: readFix_loop.simps)
  next
    case False
    obtain len bs s1 where step: "rd (nat left) s = ((len, bs), s1)" by (metis surj_pair)
    show ?thesis
    proof (cases "len \<le> 0")
      case True
      then have "r = Some len" "buf' = buf" "s' = s1" using less.prems(2) False step by (simp_all add: readFix_loop.simps [of rd left])
      then show ?thesis using True False less.prems(1) step by auto
    next
      case pos: False
      have b: "len \<le> left" "int (length bs) = len" using rd_bound [OF step] pos False by auto
      have "readFix_loop rd (left - len) (buf @ bs) s1 = ((r, buf'), s')"
        using less.prems(2) False pos step by (simp add: readFix_loop.simps [of rd left])
      moreover have "reads rd s0 (buf @ bs) s1" using reads_more [OF less.prems(1) step] pos by simp
      moreover have "nat (left - len) < nat left" using pos False by simp
      moreover have sum: "int (length (buf @ bs)) + (left - len) = int (length buf) + left" using b by simp
      ultimately show ?thesis using less.hyps [of "left - len" "buf @ bs" s1] b(1) unfolding sum by simp
    qed
  qed
qed

lemma writeFix_loop_spec:
  assumes "writes wr s0 (take off buffer) s" and "writeFix_loop wr buffer off left s = (r, s')"
    and "0 \<le> left" and "int off + left = int (length buffer)"
  shows "case r of
      None \<Rightarrow> writes wr s0 buffer s'
    | Some len \<Rightarrow> len \<le> 0 \<and> (\<exists>k s1 cs. k < length buffer \<and> writes wr s0 (take k buffer) s1 \<and> wr cs s1 = (len, s'))"
  using assms
proof (induction "nat left" arbitrary: left off s rule: less_induct)
  case less
  show ?case
  proof (cases "left \<le> 0")
    case True
    then show ?thesis using less.prems by (auto simp: writeFix_loop.simps)
  next
    case False
    let ?cs = "take (nat left) (drop off buffer)"
    obtain len s1 where step: "wr ?cs s = (len, s1)" by (metis surj_pair)
    show ?thesis
    proof (cases "len \<le> 0")
      case True
      then have "r = Some len" "s' = s1" using less.prems(2) False step by (simp_all add: writeFix_loop.simps [of wr buffer off left])
      moreover have "off < length buffer" using less.prems(4) False by linarith
      ultimately show ?thesis using True less.prems(1) step by auto
    next
      case pos: False
      have b: "len \<le> left" using wr_bound [OF step] False by simp
      have "writeFix_loop wr buffer (off + nat len) (left - len) s1 = (r, s')"
        using less.prems(2) False pos step by (simp add: writeFix_loop.simps [of wr buffer off left])
      moreover have "take off buffer @ take (nat len) ?cs = take (off + nat len) buffer"
        using b by (simp add: take_add min_def nat_le_eq_zle)
      then have "writes wr s0 (take (off + nat len) buffer) s1" using writes_more [OF less.prems(1) step] pos by simp
      moreover have "nat (left - len) < nat left" using pos False by simp
      ultimately show ?thesis using less.hyps [of "left - len" "off + nat len" s1] b less.prems(4) pos by simp
    qed
  qed
qed

text \<open>Lengths an \<open>int\<close> can hold are not truncated.\<close>

lemma readFixSize_spec:
  assumes "readFixSize rd n s = ((rt, buf), s')" and "0 < n" and "n < 2 ^ 31"
  shows "rt = int n \<and> length buf = n \<and> reads rd s buf s'
    \<or> rt \<le> 0 \<and> length buf < n \<and> (\<exists>s1 k bs. reads rd s buf s1 \<and> rd k s1 = ((rt, bs), s'))"
proof -
  have n: "sint (of_nat n :: u64) = int n" "int32_of (int n) = int n"
    using assms(3) by (simp_all add: signed_of_nat signed_take_bit_int_eq_self int32_of_small)
  obtain r where r: "readFix_loop rd (int n) [] s = ((r, buf), s')"
    using assms(1) by (auto simp: readFixSize_def n split: prod.splits option.splits)
  have "rt = (case r of Some len \<Rightarrow> len | None \<Rightarrow> int n)" using assms(1) r n by (simp add: readFixSize_def split: option.splits)
  then show ?thesis using readFix_loop_spec [OF reads_none r] by (cases r) auto
qed

lemma writeFixSize_spec:
  assumes "writeFixSize wr bs s = (rt, s')" and "bs \<noteq> []" and "length bs < 2 ^ 31"
  shows "rt = int (length bs) \<and> writes wr s bs s'
    \<or> rt \<le> 0 \<and> (\<exists>k s1 cs. k < length bs \<and> writes wr s (take k bs) s1 \<and> wr cs s1 = (rt, s'))"
proof -
  have n: "sint (of_nat (length bs) :: u64) = int (length bs)" "int32_of (int (length bs)) = int (length bs)"
    using assms(3) by (simp_all add: signed_of_nat signed_take_bit_int_eq_self int32_of_small)
  obtain r where r: "writeFix_loop wr bs 0 (int (length bs)) s = (r, s')"
    using assms(1) by (auto simp: writeFixSize_def n split: prod.splits option.splits)
  have "rt = (case r of Some len \<Rightarrow> len | None \<Rightarrow> int (length bs))" using assms(1) r n by (simp add: writeFixSize_def split: option.splits)
  then show ?thesis using writeFix_loop_spec [of s 0 bs s "int (length bs)" r s'] writes_none [of wr s] r by (cases r) auto
qed

end

subsection \<open>The stream over a socket\<close>

record sstream =
  ss_socket :: "socket option"
  ss_owner :: bool

definition new_SocketStream :: "socket option \<Rightarrow> bool \<Rightarrow> sstream" where
  "new_SocketStream sock owner = \<lparr>ss_socket = sock, ss_owner = owner\<rparr>"

definition ss_isConnected :: "sstream \<Rightarrow> bool" where
  "ss_isConnected ss = (case ss_socket ss of None \<Rightarrow> False | Some sock \<Rightarrow> s_isConnected sock)"

definition ss_read :: "'k network \<Rightarrow> sstream \<Rightarrow> nat \<Rightarrow> 'k hook \<Rightarrow> (int \<times> string) \<times> 'k hook" where
  "ss_read net ss n h = (if \<not> ss_isConnected ss then ((- 1, []), h) else Socket_recv net n (the (ss_socket ss)) h)"

definition ss_write :: "'k network \<Rightarrow> sstream \<Rightarrow> string \<Rightarrow> 'k hook \<Rightarrow> int \<times> 'k hook" where
  "ss_write net ss bs h = (if \<not> ss_isConnected ss then (- 1, h) else Socket_send net bs (the (ss_socket ss)) h)"

definition ss_close :: "'k network \<Rightarrow> sstream \<Rightarrow> ('k hook, hook_error, sstream) outcome" where
  "ss_close net ss =
     (case ss_socket ss of
        None \<Rightarrow> ret ss
      | Some sock \<Rightarrow> andThen (Socket_close net sock) (\<lambda>r. ret (ss\<lparr>ss_socket := Some (snd r)\<rparr>)))"

text \<open>The destructor closes the socket that it owns.\<close>

definition del_SocketStream :: "'k network \<Rightarrow> sstream \<Rightarrow> ('k hook, hook_error, sstream) outcome" where
  "del_SocketStream net ss = (if ss_owner ss \<and> ss_socket ss \<noteq> None then ss_close net ss else ret ss)"

definition ss_getRemoteAddress :: "'k network \<Rightarrow> sstream \<Rightarrow> 'k hook \<Rightarrow> address option \<times> sstream \<times> 'k hook" where
  "ss_getRemoteAddress net ss h =
     (case ss_socket ss of
        None \<Rightarrow> (None, ss, h)
      | Some sock \<Rightarrow> (case getRemoteAddress net sock h of (a, sock1, h1) \<Rightarrow> (Some a, ss\<lparr>ss_socket := Some sock1\<rparr>, h1)))"

definition ss_getLocalAddress :: "'k network \<Rightarrow> sstream \<Rightarrow> 'k hook \<Rightarrow> address option \<times> sstream \<times> 'k hook" where
  "ss_getLocalAddress net ss h =
     (case ss_socket ss of
        None \<Rightarrow> (None, ss, h)
      | Some sock \<Rightarrow> (case getLocalAddress net sock h of (a, sock1, h1) \<Rightarrow> (Some a, ss\<lparr>ss_socket := Some sock1\<rparr>, h1)))"

definition getRemoteAddressString :: "'k network \<Rightarrow> sstream \<Rightarrow> 'k hook \<Rightarrow> string \<times> sstream \<times> 'k hook" where
  "getRemoteAddressString net ss h =
     (case ss_getRemoteAddress net ss h of (a, ss1, h1) \<Rightarrow> (case a of Some x \<Rightarrow> Address_toString x | None \<Rightarrow> [], ss1, h1))"

definition getLocalAddressString :: "'k network \<Rightarrow> sstream \<Rightarrow> 'k hook \<Rightarrow> string \<times> sstream \<times> 'k hook" where
  "getLocalAddressString net ss h =
     (case ss_getLocalAddress net ss h of (a, ss1, h1) \<Rightarrow> (case a of Some x \<Rightarrow> Address_toString x | None \<Rightarrow> [], ss1, h1))"

text \<open>What the kernel stores through an \<open>iovec\<close> array: the buffers are filled in order.\<close>

primrec scatter :: "iovec list \<Rightarrow> u8 list \<Rightarrow> bytearray \<Rightarrow> bytearray" where
  "scatter [] bs ba = ba"
| "scatter (v # vs) bs ba =
     (case memcpy_in ba (iov_node v) (iov_off v) (take (iov_len v) bs) of
        None \<Rightarrow> ba
      | Some ba1 \<Rightarrow> scatter vs (drop (iov_len v) bs) ba1)"

definition byte_chars :: "u8 list \<Rightarrow> string" where
  "byte_chars = map (\<lambda>b. char_of (unat b))"

text \<open>\<open>read\<close> into and \<open>write\<close> from a \<open>ByteArray\<close>; both ask it for \<open>getWriteBuffers\<close>.\<close>

definition ss_read_ba :: "'k network \<Rightarrow> sstream \<Rightarrow> nat \<Rightarrow> (bytearray \<times> 'k hook, ba_error, int) outcome" where
  "ss_read_ba net ss n = (\<lambda>(ba, h).
     if \<not> ss_isConnected ss then (Inr (- 1), (ba, h))
     else case getWriteBuffers [] n ba of
       (Inl e, ba1) \<Rightarrow> (Inl e, (ba1, h))
     | (Inr (_, iovs), ba1) \<Rightarrow>
         (case Socket_recv_iov net (map iov_len iovs) (the (ss_socket ss)) h of ((rt, bs), h1) \<Rightarrow>
            let ba2 = scatter iovs (map of_char (take (nat rt) bs)) ba1 in
            if rt > 0 then
              (case setPosition (getPosition ba2 + nat rt) ba2 of (Inl e, ba3) \<Rightarrow> (Inl e, (ba3, h1)) | (Inr _, ba3) \<Rightarrow> (Inr rt, (ba3, h1)))
            else (Inr rt, (ba2, h1))))"

definition ss_write_ba :: "'k network \<Rightarrow> sstream \<Rightarrow> nat \<Rightarrow> (bytearray \<times> 'k hook, ba_error, int) outcome" where
  "ss_write_ba net ss n = (\<lambda>(ba, h).
     if \<not> ss_isConnected ss then (Inr (- 1), (ba, h))
     else case getWriteBuffers [] n ba of
       (Inl e, ba1) \<Rightarrow> (Inl e, (ba1, h))
     | (Inr (_, iovs), ba1) \<Rightarrow>
         (case Socket_send_iov net (map (byte_chars \<circ> iov_bytes ba1) iovs) (the (ss_socket ss)) h of (rt, h1) \<Rightarrow>
            if rt > 0 then
              (case setPosition (getPosition ba1 + nat rt) ba1 of (Inl e, ba3) \<Rightarrow> (Inl e, (ba3, h1)) | (Inr _, ba3) \<Rightarrow> (Inr rt, (ba3, h1)))
            else (Inr rt, (ba1, h1))))"

interpretation ss: stream_io "ss_read net ss" "ss_write net ss" for net :: "'k network" and ss
proof
  show "len \<le> int n \<and> int (length bs) = len" if "ss_read net ss n s = ((len, bs), s1)" "0 < len" for n s len bs s1
    using that recv_law [of "net_recv net"] by (auto simp: ss_read_def Socket_recv_def split: if_splits)
  show "len \<le> int (length bs)" if "ss_write net ss bs s = (len, s1)" for bs s len s1
    using that send_law [of "net_send net"] by (auto simp: ss_write_def Socket_send_def split: if_splits)
qed

subsection \<open>Buffers of a byte array\<close>

lemma upt_split:
  assumes "[a ..< a + l] @ rest = [p ..< p + n]" and "0 < l"
  shows "a = p" and "l \<le> n" and "rest = [p + l ..< p + n]"
proof -
  have len: "l + length rest = n" using arg_cong [OF assms(1), of length] by simp
  then show "l \<le> n" by simp
  have "hd [a ..< a + l] = hd [p ..< p + n]" using assms by (metis add_gr_0 hd_append length_0_conv length_upt diff_add_inverse less_numeral_extra(3))
  then show "a = p" using assms(2) len by simp
  have "rest = drop l ([a ..< a + l] @ rest)" by simp
  then show "rest = [p + l ..< p + n]" unfolding assms(1) by simp
qed

lemma scatter_flat:
  assumes "ba_sized ba" and "\<forall>v \<in> set iovs. iov_ok ba v" and "concat (map (iov_addrs ba) iovs) = [p ..< p + n]"
    and "length bs \<le> n" and "p + n \<le> m_capacity ba"
  shows "ba_sized (scatter iovs bs ba) \<and> same_shape ba (scatter iovs bs ba) \<and> m_cur (scatter iovs bs ba) = m_cur ba
    \<and> m_position (scatter iovs bs ba) = m_position ba \<and> flat (scatter iovs bs ba) = put_at p bs (flat ba)"
  using assms
proof (induction iovs arbitrary: bs ba p n)
  case Nil
  have "n = 0" using arg_cong [OF Nil.prems(3), of length] by simp
  then show ?case using Nil.prems by (simp add: slice_simps)
next
  case (Cons v vs)
  let ?l = "iov_len v" and ?a = "iov_node v * m_baseSize ba + iov_off v"
  have ok: "iov_node v < length (m_nodes ba)" "iov_off v + ?l \<le> m_baseSize ba" using Cons.prems(2) by (simp_all add: iov_ok_def)
  then have "iov_off v + length (take ?l bs) \<le> m_baseSize ba" by simp
  with Cons.prems(1) ok(1) obtain ba1 where c: "memcpy_in ba (iov_node v) (iov_off v) (take ?l bs) = Some ba1" "ba_sized ba1" "same_shape ba ba1"
      "m_cur ba1 = m_cur ba" "m_position ba1 = m_position ba" "flat ba1 = put_at ?a (take ?l bs) (flat ba)"
    by (rule memcpy_in_flat)
  have shape: "m_baseSize ba1 = m_baseSize ba" "m_capacity ba1 = m_capacity ba" "length (m_nodes ba1) = length (m_nodes ba)"
    using c(3) by (simp_all add: same_shape_def)
  have addrs: "iov_addrs ba1 = iov_addrs ba" by (simp add: iov_addrs_def shape fun_eq_iff)
  have oks: "\<forall>v \<in> set vs. iov_ok ba1 v" using Cons.prems(2) shape by (simp add: iov_ok_def)
  have cat: "[?a ..< ?a + ?l] @ concat (map (iov_addrs ba1) vs) = [p ..< p + n]" using Cons.prems(3) addrs iov_addrs_def [of ba v] by (simp add: Let_def)
  have run: "scatter (v # vs) bs ba = scatter vs (drop ?l bs) ba1" using c(1) by simp
  show ?case
  proof (cases "?l = 0")
    case True
    then have "concat (map (iov_addrs ba1) vs) = [p ..< p + n]" "flat ba1 = flat ba" using cat c(6) by (simp_all add: slice_simps)
    then show ?thesis
      using Cons.IH [OF c(2) oks, of p n bs] Cons.prems(4,5) True shape c same_shape_trans [OF c(3)] unfolding run by simp
  next
    case False
    note sp = upt_split [OF cat] False
    have s: "?a = p" "?l \<le> n" "concat (map (iov_addrs ba1) vs) = [p + ?l ..< p + ?l + (n - ?l)]" using sp by simp_all
    have len: "length (flat ba) = m_capacity ba" by (rule length_flat [OF Cons.prems(1)])
    have IH: "ba_sized (scatter vs (drop ?l bs) ba1) \<and> same_shape ba1 (scatter vs (drop ?l bs) ba1) \<and> m_cur (scatter vs (drop ?l bs) ba1) = m_cur ba1
        \<and> m_position (scatter vs (drop ?l bs) ba1) = m_position ba1 \<and> flat (scatter vs (drop ?l bs) ba1) = put_at (p + ?l) (drop ?l bs) (flat ba1)"
      using s(2) Cons.prems(4,5) shape by (intro Cons.IH [OF c(2) oks s(3)]) simp_all
    have "put_at (p + ?l) (drop ?l bs) (put_at p (take ?l bs) (flat ba)) = put_at p bs (flat ba)"
    proof (cases "?l \<le> length bs")
      case True
      then have "length (take ?l bs) = ?l" by simp
      then show ?thesis using put_at_append_end [of p "flat ba" "take ?l bs" "drop ?l bs"] Cons.prems(5) len by simp
    qed (simp add: slice_simps)
    then show ?thesis using IH c s(1) same_shape_trans [OF c(3)] unfolding run by simp
  qed
qed

lemma sum_iov_len: "sum_list (map iov_len iovs) = length (concat (map (iov_addrs ba) iovs))"
  by (induction iovs) (simp_all add: iov_addrs_def Let_def)

text \<open>Moving the position behind bytes that were put there makes them data.\<close>

lemma setPosition_data:
  assumes "ba_inv ba" and "ba_sized ba2" and "same_shape ba ba2" and "m_cur ba2 = m_cur ba" and "m_position ba2 = m_position ba"
    and "flat ba2 = put_at (m_position ba) bs (flat ba)" and "m_position ba + length bs \<le> m_capacity ba"
  shows "\<exists>ba3. setPosition (m_position ba + length bs) ba2 = (Inr (), ba3) \<and> ba_inv ba3
    \<and> ba_data ba3 = put_at (m_position ba) bs (ba_data ba) \<and> m_position ba3 = m_position ba + length bs"
proof -
  have sh: "m_baseSize ba2 = m_baseSize ba" "m_capacity ba2 = m_capacity ba" "m_size ba2 = m_size ba" "length (m_nodes ba2) = length (m_nodes ba)"
    using assms(3) by (simp_all add: same_shape_def)
  have ps: "m_position ba \<le> m_size ba" "m_size ba \<le> m_capacity ba" and s: "ba_sized ba" using assms(1) by (simp_all add: ba_inv_def ba_chain_def)
  have "ba_inv ba2" using assms sh by (simp add: ba_inv_def ba_chain_def cur_at_def)
  then obtain ba3 where b: "setPosition (m_position ba + length bs) ba2 = (Inr (), ba3)" "ba_inv ba3" "m_position ba3 = m_position ba + length bs"
      "m_size ba3 = max (m_size ba) (m_position ba + length bs)" "flat ba3 = flat ba2"
    using setPosition_correct [of ba2 "m_position ba + length bs"] assms(7) sh by metis
  have "ba_data ba3 = put_at (m_position ba) bs (ba_data ba)"
    using take_put_at_grow [of "m_position ba" "m_size ba" "flat ba" bs "[]"] ps length_flat [OF s] by (simp add: ba_data_def b assms(6))
  then show ?thesis using b by blast
qed

lemma ss_read_ba_spec:
  assumes "ba_inv ba" and "ss_socket ss = Some sock" and "s_isConnected sock" and "Socket_recv net n sock h = ((rt, bs), h1)"
  shows "\<exists>ba'. ss_read_ba net ss n (ba, h) = (Inr rt, (ba', h1)) \<and> ba_inv ba' \<and> m_position ba' = m_position ba + nat rt
    \<and> ba_data ba' = put_at (m_position ba) (map of_char (take (nat rt) bs)) (ba_data ba)"
proof -
  obtain iovs ba1 where w: "getWriteBuffers [] n ba = (Inr (n, iovs), ba1)" "ba_inv ba1" "ba_data ba1 = ba_data ba" "m_position ba1 = m_position ba"
      "\<forall>v \<in> set iovs. iov_ok ba1 v" "m_position ba + n \<le> m_capacity ba1" "concat (map (iov_addrs ba1) iovs) = [m_position ba ..< m_position ba + n]"
    using getWriteBuffers_correct [OF assms(1), of "[]" n] by auto
  have n: "sum_list (map iov_len iovs) = n" unfolding sum_iov_len [of iovs ba1] w(7) by simp
  have rcv: "Socket_recv_iov net (map iov_len iovs) sock h = ((rt, bs), h1)" using assms(3,4) by (simp add: Socket_recv_iov_def Socket_recv_def n)
  let ?bs = "map of_char (take (nat rt) bs) :: u8 list"
  have len: "length ?bs = nat rt" "nat rt \<le> n"
    using assms(3,4) recv_law [of "net_recv net" "s_sock sock" n h rt bs h1] by (cases "0 < rt"; force simp: Socket_recv_def)+
  have "ba_sized ba1" using w(2) by (simp add: ba_inv_def ba_chain_def)
  note sc = scatter_flat [OF this w(5,7), of ?bs, unfolded len(1), OF len(2) w(6)]
  have sp: "\<exists>ba3. setPosition (m_position ba1 + length ?bs) (scatter iovs ?bs ba1) = (Inr (), ba3) \<and> ba_inv ba3
      \<and> ba_data ba3 = put_at (m_position ba1) ?bs (ba_data ba1) \<and> m_position ba3 = m_position ba1 + length ?bs"
    using sc len w(4,6) by (intro setPosition_data [OF w(2)]) simp_all
  show ?thesis
  proof (cases "0 < rt")
    case True
    then show ?thesis
      using sp assms(2,3) w(1,3,4) rcv sc len w(6) by (auto simp: ss_read_ba_def ss_isConnected_def getPosition_def Let_def)
  next
    case False
    define ba2 where "ba2 = scatter iovs ?bs ba1"
    have "?bs = []" using False by simp
    then have same: "flat ba2 = flat ba1" "same_shape ba1 ba2" "ba_sized ba2" "m_cur ba2 = m_cur ba1" "m_position ba2 = m_position ba1"
      using sc unfolding ba2_def [symmetric] by (simp_all only: put_at_Nil)
    then have "ba_inv ba2" "ba_data ba2 = ba_data ba1"
      using w(2) by (simp_all add: ba_inv_def ba_chain_def same_shape_def cur_at_def ba_data_def)
    then show ?thesis
      using False assms(2,3) w(1,3,4) rcv same(5) by (simp add: ss_read_ba_def ss_isConnected_def Let_def ba2_def slice_simps)
  qed
qed

text \<open>
  \<open>write\<close> sends \<open>n\<close> bytes from the position on, whether or not they are data: behind the end of the data come
  the bytes of the blocks, and the size grows over what was sent.
\<close>

lemma ss_write_ba_spec:
  assumes "ba_inv ba" and "ss_socket ss = Some sock" and "s_isConnected sock"
  shows "\<exists>bytes rt h1 ba'. Socket_send net (byte_chars bytes) sock h = (rt, h1) \<and> ss_write_ba net ss n (ba, h) = (Inr rt, (ba', h1))
    \<and> length bytes = n \<and> take (getReadSize ba) bytes = take n (drop (m_position ba) (ba_data ba))
    \<and> ba_inv ba' \<and> m_position ba' = m_position ba + nat rt \<and> getSize ba' = max (getSize ba) (m_position ba + nat rt)"
proof -
  obtain iovs ba1 where w: "getWriteBuffers [] n ba = (Inr (n, iovs), ba1)" "ba_inv ba1" "ba_data ba1 = ba_data ba" "m_position ba1 = m_position ba"
      "\<forall>v \<in> set iovs. iov_ok ba1 v" "m_position ba + n \<le> m_capacity ba1" "concat (map (iov_addrs ba1) iovs) = [m_position ba ..< m_position ba + n]"
    using getWriteBuffers_correct [OF assms(1), of "[]" n] by auto
  have s: "ba_sized ba1" "m_position ba \<le> m_size ba1" "m_size ba1 \<le> m_capacity ba1" using w(2,4) by (simp_all add: ba_inv_def ba_chain_def)
  have size: "m_size ba1 = m_size ba" using length_ba_data [OF w(2)] length_ba_data [OF assms(1)] w(3) by simp
  define bytes where "bytes = concat (map (iov_bytes ba1) iovs)"
  have slice: "bytes = take n (drop (m_position ba) (flat ba1))"
    unfolding bytes_def iovs_bytes_addrs [OF s(1) w(5)] w(7) using w(6) length_flat [OF s(1)] by (simp add: map_nth_upt)
  then have len: "length bytes = n" using w(6) length_flat [OF s(1)] by simp
  have data: "take (getReadSize ba) bytes = take n (drop (m_position ba) (ba_data ba))"
    unfolding slice w(3) [symmetric] using s(2) by (simp add: ba_data_def getReadSize_def size drop_take min.commute)
  obtain rt h1 where snd: "Socket_send net (byte_chars bytes) sock h = (rt, h1)" by (metis surj_pair)
  have cat: "concat (map (byte_chars \<circ> iov_bytes ba1) iovs) = byte_chars bytes"
    unfolding bytes_def by (induction iovs) (simp_all add: byte_chars_def)
  have iov: "Socket_send_iov net (map (byte_chars \<circ> iov_bytes ba1) iovs) sock h = (rt, h1)"
    using snd assms(3) by (simp add: Socket_send_iov_def Socket_send_def cat)
  have le: "nat rt \<le> n" using snd assms(3) send_law [of "net_send net" "s_sock sock" "byte_chars bytes" h rt h1] len by (simp add: Socket_send_def byte_chars_def)
  show ?thesis
  proof (cases "0 < rt")
    case True
    obtain ba3 where b: "setPosition (m_position ba1 + nat rt) ba1 = (Inr (), ba3)" "ba_inv ba3" "m_position ba3 = m_position ba1 + nat rt"
        "m_size ba3 = max (m_size ba1) (m_position ba1 + nat rt)"
      using setPosition_correct [OF w(2), of "m_position ba1 + nat rt"] w(4,6) le by (metis add_le_mono dual_order.trans le_refl)
    have "ss_write_ba net ss n (ba, h) = (Inr rt, (ba3, h1))"
      using True assms(2,3) w(1) iov b(1) by (simp add: ss_write_ba_def ss_isConnected_def getPosition_def)
    then show ?thesis using snd len data b w(4) size by (intro exI [of _ bytes] exI [of _ rt] exI [of _ h1] exI [of _ ba3]) (simp add: getSize_def)
  next
    case False
    then have "ss_write_ba net ss n (ba, h) = (Inr rt, (ba1, h1))" using assms(2,3) w(1) iov by (simp add: ss_write_ba_def ss_isConnected_def)
    moreover have "getSize ba1 = max (getSize ba) (m_position ba + nat rt)" using False s size by (simp add: getSize_def)
    ultimately show ?thesis using snd len data w(2,4) False by (intro exI [of _ bytes] exI [of _ rt] exI [of _ h1] exI [of _ ba1]) simp
  qed
qed

subsection \<open>Properties\<close>

text \<open>
  C28. Transfers of a fixed size over a socket, for every behaviour of the network: reading either returns the length and has stored exactly
  that many bytes, those of consecutive reads in order, or returns the result of the read that failed, having stored fewer. Writing
  either returns the length and the network accepted exactly the given bytes in order, or returns the failing result after a proper prefix.
\<close>

theorem fixed_size_transfers:
  assumes "0 < n" and "n < 2 ^ 31" and "data \<noteq> []" and "length data < 2 ^ 31"
  shows "(case readFixSize (ss_read net ss) n h of ((rt, buf), h') \<Rightarrow>
      rt = int n \<and> length buf = n \<and> reads (ss_read net ss) h buf h'
      \<or> rt \<le> 0 \<and> length buf < n \<and> (\<exists>h1 k bs. reads (ss_read net ss) h buf h1 \<and> ss_read net ss k h1 = ((rt, bs), h')))
    \<and> (case writeFixSize (ss_write net ss) data h of (rt, h') \<Rightarrow>
      rt = int (length data) \<and> writes (ss_write net ss) h data h'
      \<or> rt \<le> 0 \<and> (\<exists>k h1 cs. k < length data \<and> writes (ss_write net ss) h (take k data) h1 \<and> ss_write net ss cs h1 = (rt, h')))"
  using ss.readFixSize_spec [OF _ assms(1,2), of net ss h] ss.writeFixSize_spec [OF _ assms(3,4), of net ss h]
  by (auto split: prod.splits)

definition drip_recv :: "int \<Rightarrow> nat \<Rightarrow> 'k hook \<Rightarrow> (int \<times> string) \<times> 'k hook" where
  "drip_recv fd n h = (if n = 0 then (0, []) else (1, ''a''), h)"

lemma drip_recv_f: "recv_f (Recv_call drip_recv) = drip_recv"
  by (rule Recv_call_inverse) (simp add: drip_recv_def)

definition drip_network :: "(int \<times> u32) network" where
  "drip_network = demo_network\<lparr>net_recv := Recv_call drip_recv\<rparr>"

definition drip_stream :: sstream where
  "drip_stream = new_SocketStream (Some (CreateTCPSocket\<lparr>s_sock := 5, s_isConnected := True\<rparr>)) True"

lemma drip_read: "ss_read drip_network drip_stream n h = (if n = 0 then (0, []) else (1, ''a''), h)"
  by (simp add: ss_read_def ss_isConnected_def drip_stream_def new_SocketStream_def Socket_recv_def drip_network_def drip_recv_f) (simp add: drip_recv_def)

theorem fixed_size_transfers_witness:
  "readFixSize (ss_read drip_network drip_stream) 3 demo_hook = ((3, ''aaa''), demo_hook) \<and> reads (ss_read drip_network drip_stream) demo_hook ''aaa'' demo_hook"
proof -
  have r: "readFixSize (ss_read drip_network drip_stream) 3 demo_hook = ((3, ''aaa''), demo_hook)"
    by (simp add: readFixSize_def readFix_loop.simps drip_read int32_of_def)
  show ?thesis using fixed_size_transfers [of 3 "''x''" drip_network drip_stream demo_hook] r by auto
qed

end
