(* ===== verification/HttpSession.thy ===== *)
theory HttpSession
  imports HttpMessageParser Stream
begin

text \<open>
  The server's side of a connection (\<open>sylar/http/http_session.h\<close>, \<open>sylar/http/http_session.cpp\<close>): receiving a request and
  sending a response over a \<open>SocketStream\<close>. The loop that reads the header is a partial function, \<open>None\<close> when it does
  not return; that it does is a theorem. \<open>boost::lexical_cast<uint64_t>\<close> is a parameter.
\<close>

text \<open>A failed parse, a failed close, a write behind the end of the body.\<close>

datatype session_error = Parser_failed parser_error | Close_failed hook_error | Body_overrun

text \<open>
  The loop: \<open>data\<close> is the memory of the buffer, \<open>offset\<close> how much of it is left from the last round. The result \<open>None\<close>
  stands for the places that close the connection and return null.
\<close>

partial_function (option) recv_loop ::
  "'k network \<Rightarrow> nat \<Rightarrow> sstream \<Rightarrow> req_parser \<Rightarrow> string \<Rightarrow> nat \<Rightarrow> 'k hook \<Rightarrow> ((session_error + (req_parser \<times> string \<times> nat) option) \<times> 'k hook) option" where
  "recv_loop net buff_size ss rp data offset h =
     (case ss_read net ss (buff_size - offset) h of ((rt, bs), h1) \<Rightarrow>
        if rt \<le> 0 then Some (Inr None, h1)
        else let data1 = put_at offset bs data; len = nat rt + offset in
          case HttpRequestParser_execute rp data1 len of
            Inl e \<Rightarrow> Some (Inl (Parser_failed e), h1)
          | Inr (rp1, data2, nparse) \<Rightarrow>
              if req_hasError rp1 then Some (Inr None, h1)
              else let offset1 = len - nparse in
                if offset1 = buff_size then Some (Inr None, h1)
                else if req_isFinished rp1 \<noteq> 0 then Some (Inr (Some (rp1, data2, offset1)), h1)
                else recv_loop net buff_size ss rp1 data2 offset1 h1)"

text \<open>
  After the header: \<open>data\<close> begins with the \<open>offset\<close> characters that were read behind it. The result \<open>None\<close> again closes the connection.
  \<open>body.resize\<close> fills with zeros; the characters already read are copied when they fit; the rest is read
  to \<open>&body[len]\<close>, where \<open>len\<close> is the whole length then.
\<close>

definition recv_body ::
  "(string \<Rightarrow> u64 option) \<Rightarrow> 'k network \<Rightarrow> sstream \<Rightarrow> req_parser \<Rightarrow> string \<Rightarrow> nat \<Rightarrow> ('k hook, session_error, HttpRequest option) outcome" where
  "recv_body lexical_cast net ss rp data offset h =
     (let L = sint (req_getContentLength lexical_cast rp) in
      if L > 0 then
        let body = replicate (nat L) CHR 0x00;
            (body1, len) = (if L \<ge> int offset then (put_at 0 (take offset data) body, int32_of L) else (body, 0));
            left = L - int offset
        in if left > 0 then
             (case readFixSize (ss_read net ss) (nat left) h of ((rt, bs), h1) \<Rightarrow>
                if bs \<noteq> [] \<and> (len < 0 \<or> L < len + int (length bs)) then (Inl Body_overrun, h1)
                else if rt > 0 then (Inr None, h1)
                else (Inr (Some (HttpRequest_init ((rp_data rp)\<lparr>m_body := put_at (nat len) bs body1\<rparr>))), h1))
           else (Inr (Some (HttpRequest_init ((rp_data rp)\<lparr>m_body := body1\<rparr>))), h)
      else (Inr (Some (HttpRequest_init (rp_data rp))), h))"

text \<open>\<open>close(); return nullptr;\<close>\<close>

definition close_null :: "'k network \<Rightarrow> sstream \<Rightarrow> 'k hook \<Rightarrow> (session_error + ('a option \<times> sstream)) \<times> 'k hook" where
  "close_null net ss h =
     (case ss_close net ss h of (Inl e, h1) \<Rightarrow> (Inl (Close_failed e), h1) | (Inr ss1, h1) \<Rightarrow> (Inr (None, ss1), h1))"

text \<open>\<open>mem\<close> is what the new buffer of \<open>buff_size\<close> characters holds, \<open>garbage\<close> the uninitialised parser.\<close>

definition recvRequest ::
  "(string \<Rightarrow> u64 option) \<Rightarrow> 'k network \<Rightarrow> http_parser \<Rightarrow> string \<Rightarrow> sstream \<Rightarrow> 'k hook \<Rightarrow> ((session_error + (HttpRequest option \<times> sstream)) \<times> 'k hook) option" where
  "recvRequest lexical_cast net garbage mem ss h =
     (case recv_loop net (length mem) ss (new_HttpRequestParser garbage) mem 0 h of
        None \<Rightarrow> None
      | Some (Inl e, h1) \<Rightarrow> Some (Inl e, h1)
      | Some (Inr None, h1) \<Rightarrow> Some (close_null net ss h1)
      | Some (Inr (Some (rp, data, offset)), h1) \<Rightarrow>
          Some (case recv_body lexical_cast net ss rp data offset h1 of
                  (Inl e, h2) \<Rightarrow> (Inl e, h2)
                | (Inr None, h2) \<Rightarrow> close_null net ss h2
                | (Inr (Some req), h2) \<Rightarrow> (Inr (Some req, ss), h2)))"

definition sendResponse :: "'k network \<Rightarrow> sstream \<Rightarrow> HttpResponse \<Rightarrow> 'k hook \<Rightarrow> int \<times> 'k hook" where
  "sendResponse net ss rsp h = writeFixSize (ss_write net ss) (HttpResponse_dump rsp) h"

subsection \<open>The loop returns\<close>

text \<open>What a call of the parser leaves of its arguments.\<close>

lemma rp_parser_event: "on_request_event mem ev rp = Inr rp1 \<Longrightarrow> rp_parser rp1 = rp_parser rp"
  by (auto simp: on_request_event_def on_request_method_def on_request_version_def on_request_fragment_def on_request_path_def
      on_request_query_def on_request_http_field_def text_at_def Let_def split: hp_event.splits if_splits sum.splits)

lemma execute_machine:
  assumes "HttpRequestParser_execute rp mem len = Inr (rp1, mem1, n)"
  shows "\<exists>evs. http_parser_execute (rp_parser rp) (take len mem) = Inr (rp_parser rp1, n, evs)"
  using assms by (auto simp: HttpRequestParser_execute_def split: sum.splits prod.splits)

text \<open>After a first piece that did not complete the header, the second round is the last.\<close>

lemma recv_loop_second:
  assumes "http_parser_execute (http_parser_init garbage) first = Inr (rp_parser rp, n, evs)" and "first \<noteq> []" and "req_isFinished rp = 0"
  shows "recv_loop net buff_size ss rp data 0 h \<noteq> None"
proof -
  obtain rt bs h1 where rd: "ss_read net ss buff_size h = ((rt, bs), h1)" by (metis surj_pair)
  show ?thesis
  proof (cases "rt \<le> 0")
    case True
    then show ?thesis using rd by (subst recv_loop.simps) simp
  next
    case False
    let ?data = "put_at 0 bs data"
    have len: "int (length bs) = rt" using ss.rd_bound [OF rd] False by simp
    then have piece: "take (nat rt) ?data = bs" by (simp add: put_at_def)
    have "bs \<noteq> []" using len False by auto
    note second = single_buffer [OF assms(2) this, of garbage]
    have "req_isFinished rp1 \<noteq> 0" if "HttpRequestParser_execute rp ?data (nat rt) = Inr (rp1, d, k)" for rp1 d k
      using execute_machine [OF that] second assms(1,3) by (auto simp: piece req_isFinished_def)
    then show ?thesis
      using rd False by (subst recv_loop.simps) (auto simp: Let_def split: sum.split)
  qed
qed

lemma recv_loop_returns:
  assumes "length mem = buff_size"
  shows "recv_loop net buff_size ss (new_HttpRequestParser garbage) mem 0 h \<noteq> None"
proof -
  let ?rp = "new_HttpRequestParser garbage"
  obtain rt bs h1 where rd: "ss_read net ss buff_size h = ((rt, bs), h1)" by (metis surj_pair)
  show ?thesis
  proof (cases "rt \<le> 0")
    case True
    then show ?thesis using rd by (subst recv_loop.simps) simp
  next
    case False
    let ?data = "put_at 0 bs mem"
    have len: "int (length bs) = rt" using ss.rd_bound [OF rd] False by simp
    then have piece: "take (nat rt) ?data = bs" and ne: "bs \<noteq> []" using False by (auto simp: put_at_def)
    have "recv_loop net buff_size ss rp1 d (nat rt - k) h1 \<noteq> None"
      if ex: "HttpRequestParser_execute ?rp ?data (nat rt) = Inr (rp1, d, k)" and fin: "req_isFinished rp1 = 0" for rp1 d k
    proof -
      obtain evs where m: "http_parser_execute (http_parser_init garbage) bs = Inr (rp_parser rp1, k, evs)"
        using execute_machine [OF ex] by (auto simp: piece new_HttpRequestParser_def)
      then have "k = length bs" using single_buffer [OF ne ne, of garbage] fin by (auto simp: req_isFinished_def)
      then show ?thesis using recv_loop_second [OF m ne fin] len by simp
    qed
    then show ?thesis using rd False by (subst recv_loop.simps) (auto simp: Let_def split: sum.split)
  qed
qed

lemma recvRequest_total: "recvRequest lexical_cast net garbage mem ss h \<noteq> None"
  using recv_loop_returns [OF refl, of net mem ss garbage h] by (auto simp: recvRequest_def split: option.splits sum.splits)

subsection \<open>Properties\<close>


text \<open>
  C31. The body of a request of length \<open>L\<close>, when \<open>offset\<close> characters of it came with the header: it is right when they are the whole body. When more
  characters came than the body has, the body is \<open>L\<close> zeros. When fewer came, either a further character arrives and is stored behind
  the end of the body, or none does and the request is delivered with a body that is filled up with zeros.
\<close>

theorem request_body_outcomes:
  assumes "sint (req_getContentLength lexical_cast rp) = L" and "0 < L" and "L < 2 ^ 31" and "offset \<le> length data"
  shows "(L = int offset \<longrightarrow>
      recv_body lexical_cast net ss rp data offset h = (Inr (Some (HttpRequest_init ((rp_data rp)\<lparr>m_body := take offset data\<rparr>))), h))
    \<and> (L < int offset \<longrightarrow>
      recv_body lexical_cast net ss rp data offset h = (Inr (Some (HttpRequest_init ((rp_data rp)\<lparr>m_body := replicate (nat L) CHR 0x00\<rparr>))), h))
    \<and> (int offset < L \<longrightarrow>
      (\<exists>h1. recv_body lexical_cast net ss rp data offset h = (Inl Body_overrun, h1))
      \<or> (\<exists>k rt bs h1. ss_read net ss k h = ((rt, bs), h1) \<and> rt \<le> 0 \<and> recv_body lexical_cast net ss rp data offset h
          = (Inr (Some (HttpRequest_init ((rp_data rp)\<lparr>m_body := take offset data @ replicate (nat L - offset) CHR 0x00\<rparr>))), h1)))"
proof (intro conjI impI)
  have len: "int32_of L = L" using assms(2,3) by (simp add: int32_of_small)
  have put: "put_at 0 (take offset data) (replicate (nat L) CHR 0x00) = take offset data @ replicate (nat L - offset) CHR 0x00"
    using assms(4) by (simp add: put_at_def min_def)
  show "recv_body lexical_cast net ss rp data offset h = (Inr (Some (HttpRequest_init ((rp_data rp)\<lparr>m_body := take offset data\<rparr>))), h)"
    if "L = int offset" using that assms put by (simp add: recv_body_def Let_def)
  show "recv_body lexical_cast net ss rp data offset h = (Inr (Some (HttpRequest_init ((rp_data rp)\<lparr>m_body := replicate (nat L) CHR 0x00\<rparr>))), h)"
    if "L < int offset" using that assms by (simp add: recv_body_def Let_def)
  assume more: "int offset < L"
  obtain rt bs h1 where rd: "readFixSize (ss_read net ss) (nat (L - int offset)) h = ((rt, bs), h1)" by (metis surj_pair)
  have "0 < nat (L - int offset)" "nat (L - int offset) < 2 ^ 31" using more assms(3) by auto
  note spec = ss.readFixSize_spec [OF rd this]
  show "(\<exists>h1. recv_body lexical_cast net ss rp data offset h = (Inl Body_overrun, h1))
      \<or> (\<exists>k rt bs h1. ss_read net ss k h = ((rt, bs), h1) \<and> rt \<le> 0 \<and> recv_body lexical_cast net ss rp data offset h
          = (Inr (Some (HttpRequest_init ((rp_data rp)\<lparr>m_body := take offset data @ replicate (nat L - offset) CHR 0x00\<rparr>))), h1))"
  proof (cases "bs = []")
    case False
    then have "recv_body lexical_cast net ss rp data offset h = (Inl Body_overrun, h1)"
      using more assms(1,2) rd len by (simp add: recv_body_def Let_def)
    then show ?thesis by blast
  next
    case True
    then obtain k cs where r: "rt \<le> 0" "ss_read net ss k h = ((rt, cs), h1)" using spec more ss.reads_Nil [of net ss h] by auto
    have "recv_body lexical_cast net ss rp data offset h
        = (Inr (Some (HttpRequest_init ((rp_data rp)\<lparr>m_body := take offset data @ replicate (nat L - offset) CHR 0x00\<rparr>))), h1)"
      using more assms(1,2) rd len True r(1) put by (simp add: recv_body_def Let_def slice_simps)
    then show ?thesis using r by blast
  qed
qed

definition demo_request :: req_parser where
  "demo_request = (new_HttpRequestParser demo_parser)\<lparr>rp_data := setHeader ''Content-Length'' ''3'' (new_HttpRequest 0x11 True)\<rparr>"

theorem request_body_outcomes_witness:
  "recv_body (\<lambda>s. if s = ''3'' then Some 3 else None) demo_network drip_stream demo_request ''abc'' 3 demo_hook
    = (Inr (Some (HttpRequest_init ((rp_data demo_request)\<lparr>m_body := ''abc''\<rparr>))), demo_hook)"
proof -
  have "req_getContentLength (\<lambda>s. if s = ''3'' then Some 3 else None) demo_request = 3" by code_simp
  then show ?thesis
    using request_body_outcomes [of "\<lambda>s. if s = ''3'' then Some 3 else None" demo_request 3 3 "''abc''" demo_network drip_stream demo_hook] by simp
qed

end
