(* ===== verification/Servlet.thy ===== *)
theory Servlet
  imports Http
begin

text \<open>
  Servlets and their dispatch (\<open>sylar/http/servlet.h\<close>, \<open>sylar/http/servlet.cpp\<close>). A callback gets the request, the response
  and the session and may change them; the session is of any type. \<open>fnmatch\<close> of the C library is a
  parameter that tells whether a pattern matches. Each member function holds the lock and is one step.
\<close>

type_synonym 's call = "HttpRequest \<times> HttpResponse \<times> 's"

type_synonym 's servlet_cb = "'s call \<Rightarrow> int \<times> 's call"

datatype 's servlet = FunctionServlet "'s servlet_cb" | NotFoundServlet string

text \<open>A creator that holds an instance, or one that makes a new instance of a class each time.\<close>

datatype 's creator = HoldServletCreator "'s servlet" | ServletCreator "'s servlet"

record 's dispatch =
  d_datas :: "string \<rightharpoonup> 's creator"
  d_globs :: "(string \<times> 's creator) list"
  d_default :: "'s servlet"

primrec creator_get :: "'s creator \<Rightarrow> 's servlet" where
  "creator_get (HoldServletCreator s) = s"
| "creator_get (ServletCreator s) = s"

definition new_NotFoundServlet :: "string \<Rightarrow> 's servlet" where
  "new_NotFoundServlet name =
     NotFoundServlet (''<html><head><title>404 Not Found'' @ ''</title></head><body><center><h1>404 Not Found</h1></center>'' @ ''<hr><center>'' @ name @ ''</center></body></html>'')"

definition new_ServletDispatch :: "'s dispatch" where
  "new_ServletDispatch = \<lparr>d_datas = Map.empty, d_globs = [], d_default = new_NotFoundServlet ''sylar/1.0''\<rparr>"

primrec servlet_handle :: "'s servlet \<Rightarrow> 's servlet_cb" where
  "servlet_handle (FunctionServlet cb) c = cb c"
| "servlet_handle (NotFoundServlet content) c =
     (case c of (request, response, session) \<Rightarrow>
        let response1 = response\<lparr>r_status := 404\<rparr>;
            response2 = response_setHeader ''Server'' ''sylar/1.0.0'' response1;
            response3 = response_setHeader ''Content-Type'' ''text/html'' response2
        in (0, (request, response3\<lparr>r_body := content\<rparr>, session)))"

text \<open>The loop that erases the first pattern equal to \<open>uri\<close>.\<close>

primrec erase_glob :: "string \<Rightarrow> (string \<times> 's creator) list \<Rightarrow> (string \<times> 's creator) list" where
  "erase_glob uri [] = []"
| "erase_glob uri (g # gs) = (if fst g = uri then gs else g # erase_glob uri gs)"

definition addServletCreator :: "string \<Rightarrow> 's creator \<Rightarrow> 's dispatch \<Rightarrow> 's dispatch" where
  "addServletCreator uri creator d = d\<lparr>d_datas := (d_datas d)(uri \<mapsto> creator)\<rparr>"

definition addServlet :: "string \<Rightarrow> 's servlet \<Rightarrow> 's dispatch \<Rightarrow> 's dispatch" where
  "addServlet uri slt d = d\<lparr>d_datas := (d_datas d)(uri \<mapsto> HoldServletCreator slt)\<rparr>"

definition addServlet_cb :: "string \<Rightarrow> 's servlet_cb \<Rightarrow> 's dispatch \<Rightarrow> 's dispatch" where
  "addServlet_cb uri cb d = d\<lparr>d_datas := (d_datas d)(uri \<mapsto> HoldServletCreator (FunctionServlet cb))\<rparr>"

definition addGlobServletCreator :: "string \<Rightarrow> 's creator \<Rightarrow> 's dispatch \<Rightarrow> 's dispatch" where
  "addGlobServletCreator uri creator d = d\<lparr>d_globs := erase_glob uri (d_globs d) @ [(uri, creator)]\<rparr>"

definition addGlobServlet :: "string \<Rightarrow> 's servlet \<Rightarrow> 's dispatch \<Rightarrow> 's dispatch" where
  "addGlobServlet uri slt d = d\<lparr>d_globs := erase_glob uri (d_globs d) @ [(uri, HoldServletCreator slt)]\<rparr>"

definition addGlobServlet_cb :: "string \<Rightarrow> 's servlet_cb \<Rightarrow> 's dispatch \<Rightarrow> 's dispatch" where
  "addGlobServlet_cb uri cb d = addGlobServlet uri (FunctionServlet cb) d"

definition delServlet :: "string \<Rightarrow> 's dispatch \<Rightarrow> 's dispatch" where
  "delServlet uri d = d\<lparr>d_datas := (d_datas d)(uri := None)\<rparr>"

definition delGlobServlet :: "string \<Rightarrow> 's dispatch \<Rightarrow> 's dispatch" where
  "delGlobServlet uri d = d\<lparr>d_globs := erase_glob uri (d_globs d)\<rparr>"

definition getServlet :: "string \<Rightarrow> 's dispatch \<Rightarrow> 's servlet option" where
  "getServlet uri d = map_option creator_get (d_datas d uri)"

primrec first_glob :: "(string \<Rightarrow> bool) \<Rightarrow> (string \<times> 's creator) list \<Rightarrow> 's servlet option" where
  "first_glob P [] = None"
| "first_glob P (g # gs) = (if P (fst g) then Some (creator_get (snd g)) else first_glob P gs)"

definition getGlobServlet :: "string \<Rightarrow> 's dispatch \<Rightarrow> 's servlet option" where
  "getGlobServlet uri d = first_glob (\<lambda>p. p = uri) (d_globs d)"

definition getMatchedServlet :: "(string \<Rightarrow> string \<Rightarrow> bool) \<Rightarrow> string \<Rightarrow> 's dispatch \<Rightarrow> 's servlet" where
  "getMatchedServlet fnmatch uri d =
     (case d_datas d uri of
        Some c \<Rightarrow> creator_get c
      | None \<Rightarrow> (case first_glob (\<lambda>p. fnmatch (c_str p) (c_str uri)) (d_globs d) of
            Some s \<Rightarrow> s
          | None \<Rightarrow> d_default d))"

text \<open>\<open>ServletDispatch::handle\<close>; the default servlet may be changed but is never null here.\<close>

definition dispatch_handle :: "(string \<Rightarrow> string \<Rightarrow> bool) \<Rightarrow> 's dispatch \<Rightarrow> 's servlet_cb" where
  "dispatch_handle fnmatch d c = (0, snd (servlet_handle (getMatchedServlet fnmatch (m_path (fst c)) d) c))"

definition listAllServletCreator :: "'s dispatch \<Rightarrow> (string \<rightharpoonup> 's creator) \<Rightarrow> (string \<rightharpoonup> 's creator)" where
  "listAllServletCreator d infos = infos ++ d_datas d"

definition listAllGlobServletCreator :: "'s dispatch \<Rightarrow> (string \<rightharpoonup> 's creator) \<Rightarrow> (string \<rightharpoonup> 's creator)" where
  "listAllGlobServletCreator d infos = fold (\<lambda>g m. m(fst g \<mapsto> snd g)) (d_globs d) infos"

subsection \<open>Registration\<close>

inductive dispatch_reachable :: "'s dispatch \<Rightarrow> bool" where
  init: "dispatch_reachable new_ServletDispatch"
| creator: "dispatch_reachable d \<Longrightarrow> dispatch_reachable (addServletCreator uri c d)"
| add: "dispatch_reachable d \<Longrightarrow> dispatch_reachable (addServlet uri s d)"
| add_cb: "dispatch_reachable d \<Longrightarrow> dispatch_reachable (addServlet_cb uri cb d)"
| glob_creator: "dispatch_reachable d \<Longrightarrow> dispatch_reachable (addGlobServletCreator uri c d)"
| glob: "dispatch_reachable d \<Longrightarrow> dispatch_reachable (addGlobServlet uri s d)"
| glob_cb: "dispatch_reachable d \<Longrightarrow> dispatch_reachable (addGlobServlet_cb uri cb d)"
| del: "dispatch_reachable d \<Longrightarrow> dispatch_reachable (delServlet uri d)"
| del_glob: "dispatch_reachable d \<Longrightarrow> dispatch_reachable (delGlobServlet uri d)"

lemma erase_glob_eq: "distinct (map fst gs) \<Longrightarrow> erase_glob uri gs = filter (\<lambda>g. fst g \<noteq> uri) gs"
proof (induction gs)
  case (Cons g gs)
  have "filter (\<lambda>g. fst g \<noteq> uri) gs = gs" if "fst g = uri"
    using Cons.prems that by (metis (mono_tags, lifting) distinct.simps(2) filter_True image_eqI list.set_map list.simps(9))
  then show ?case using Cons by simp
qed simp

lemma first_glob_append: "first_glob P (gs @ hs) = (case first_glob P gs of Some s \<Rightarrow> Some s | None \<Rightarrow> first_glob P hs)"
  by (induction gs) auto

lemma first_glob_None: "first_glob P gs = None \<longleftrightarrow> (\<forall>g \<in> set gs. \<not> P (fst g))"
  by (induction gs) auto

lemma first_glob_filter: "(\<And>p. P p \<Longrightarrow> p \<noteq> uri) \<Longrightarrow> first_glob P (filter (\<lambda>g. fst g \<noteq> uri) gs) = first_glob P gs"
  by (induction gs) auto

lemma reachable_distinct: "dispatch_reachable d \<Longrightarrow> distinct (map fst (d_globs d))"
  by (induction rule: dispatch_reachable.induct)
    (auto simp: new_ServletDispatch_def addServletCreator_def addServlet_def addServlet_cb_def addGlobServletCreator_def
      addGlobServlet_cb_def addGlobServlet_def delServlet_def delGlobServlet_def erase_glob_eq distinct_map_filter)

text \<open>
  C27. Dispatch follows the registrations: after any history of additions and deletions, an exact path is served by the
  servlet registered last for it; a pattern registered again moves to the end and is there once, so that deleting it
  leaves none; registering a pattern does not change who serves a path that an earlier pattern or an exact entry matches; and a path that nothing matches is answered with 404.
\<close>

theorem servlet_registration:
  assumes "dispatch_reachable d"
  shows "getMatchedServlet fn uri (addServlet uri s d) = s
    \<and> getGlobServlet uri (addGlobServlet uri s d) = Some s \<and> getGlobServlet uri (delGlobServlet uri d) = None
    \<and> getMatchedServlet fn path (addGlobServlet uri s d) =
        (if d_datas d path = None \<and> (\<forall>g \<in> set (d_globs d). fst g \<noteq> uri \<longrightarrow> \<not> fn (c_str (fst g)) (c_str path))
         then (if fn (c_str uri) (c_str path) then s else d_default d)
         else getMatchedServlet fn path (delGlobServlet uri d))
    \<and> (d_datas d path = None \<and> (\<forall>g \<in> set (d_globs d). \<not> fn (c_str (fst g)) (c_str path)) \<longrightarrow> getMatchedServlet fn path d = d_default d)"
proof -
  let ?P = "\<lambda>p. fn (c_str p) (c_str path)"
  have e: "erase_glob uri (d_globs d) = filter (\<lambda>g. fst g \<noteq> uri) (d_globs d)" by (rule erase_glob_eq) (rule reachable_distinct [OF assms])
  have gone: "first_glob (\<lambda>p. p = uri) (erase_glob uri (d_globs d)) = None" by (simp add: first_glob_None e)
  have none: "first_glob ?P (erase_glob uri (d_globs d)) = None \<longleftrightarrow> (\<forall>g \<in> set (d_globs d). fst g \<noteq> uri \<longrightarrow> \<not> ?P (fst g))"
    by (auto simp: first_glob_None e)
  have "getMatchedServlet fn path (addGlobServlet uri s d) =
        (if d_datas d path = None \<and> first_glob ?P (erase_glob uri (d_globs d)) = None
         then (if fn (c_str uri) (c_str path) then s else d_default d) else getMatchedServlet fn path (delGlobServlet uri d))"
    by (auto simp: getMatchedServlet_def addGlobServlet_def delGlobServlet_def first_glob_append split: option.splits)
  moreover have "first_glob ?P (d_globs d) = None \<longleftrightarrow> (\<forall>g \<in> set (d_globs d). \<not> ?P (fst g))" by (simp add: first_glob_None)
  ultimately show ?thesis using gone none
    by (auto simp: getMatchedServlet_def addServlet_def getGlobServlet_def addGlobServlet_def delGlobServlet_def first_glob_append)
qed

theorem servlet_registration_witness:
  "getMatchedServlet (\<lambda>p u. p = ''/*'') ''/x'' (addGlobServlet ''/*'' (NotFoundServlet ''g'') (new_ServletDispatch :: unit dispatch)) = NotFoundServlet ''g''"
  using servlet_registration [of "new_ServletDispatch :: unit dispatch" "\<lambda>p u. p = ''/*''" "''/*''" "NotFoundServlet ''g''" "''/x''", OF dispatch_reachable.init]
  by (simp add: new_ServletDispatch_def c_str_def)

text \<open>The response of the default servlet.\<close>

lemma not_found_response:
  assumes "getMatchedServlet fn (m_path request) d = new_NotFoundServlet name" and "map_ok (r_headers response)"
  shows "\<exists>response'. dispatch_handle fn d (request, response, session) = (0, (request, response', session))
    \<and> r_status response' = 404 \<and> response_getHeader ''content-type'' [] response' = ''text/html'' \<and> response_getHeader ''server'' [] response' = ''sylar/1.0.0''"
proof -
  have "same_key ''Content-Type'' ''content-type''" "same_key ''Server'' ''server''" "\<not> same_key ''Content-Type'' ''server''" by code_simp+
  then show ?thesis using assms
    by (simp add: dispatch_handle_def new_NotFoundServlet_def response_setHeader_def response_getHeader_def find_or_def map_laws)
qed

end
