(* ===== verification/HttpServer.thy ===== *)
theory HttpServer
  imports TcpServer HttpSession Servlet
begin

text \<open>
  The HTTP server (\<open>sylar/http/http_server.h\<close>, \<open>sylar/http/http_server.cpp\<close>): a TCP server whose clients are served by
  receiving requests, dispatching them to servlets and sending the responses. The loop over the requests of one client is a partial
  function, because a client may keep it busy forever. The clients are plain sockets here; a servlet may use the session and the world.
\<close>

type_synonym 'k http_world = "sstream \<times> 'k hook"

record ('c, 'l, 'k) http_server = "('c, 'l) tcp_server" +
  hs_isKeepAlive :: bool
  hs_dispatch :: "'k http_world dispatch"

definition new_HttpServer :: "u64 \<Rightarrow> bool \<Rightarrow> ('c, 'l, 'k) http_server" where
  "new_HttpServer read_timeout keepalive =
     tcp_server.extend ((new_TcpServer read_timeout)\<lparr>ts_type := ''http''\<rparr>) \<lparr>hs_isKeepAlive = keepalive, hs_dispatch = new_ServletDispatch\<rparr>"

definition hs_setName :: "string \<Rightarrow> ('c, 'l, 'k) http_server \<Rightarrow> ('c, 'l, 'k) http_server" where
  "hs_setName v srv = srv\<lparr>ts_name := v, hs_dispatch := (hs_dispatch srv)\<lparr>d_default := new_NotFoundServlet v\<rparr>\<rparr>"

definition setServletDispatch :: "'k http_world dispatch \<Rightarrow> ('c, 'l, 'k) http_server \<Rightarrow> ('c, 'l, 'k) http_server" where
  "setServletDispatch d srv = srv\<lparr>hs_dispatch := d\<rparr>"

text \<open>
  The libraries that serving needs; \<open>he_garbage n\<close> and \<open>he_mem n\<close> are the uninitialised parser and the new buffer of the n-th request.
\<close>

record 'k http_env =
  he_lexical_cast :: "string \<Rightarrow> u64 option"
  he_fnmatch :: "string \<Rightarrow> string \<Rightarrow> bool"
  he_net :: "'k network"
  he_garbage :: "nat \<Rightarrow> http_parser"
  he_mem :: "nat \<Rightarrow> string"

text \<open>The response that the dispatcher makes for a request, with the request, the session and the world after it.\<close>

definition answer :: "'k http_env \<Rightarrow> ('c, 'l, 'k) http_server \<Rightarrow> HttpRequest \<Rightarrow> sstream \<Rightarrow> 'k hook \<Rightarrow> 'k http_world call" where
  "answer env srv req ss h =
     snd (dispatch_handle (he_fnmatch env) (hs_dispatch srv) (req, new_HttpResponse (m_version req) (m_close req \<or> \<not> hs_isKeepAlive srv), (ss, h)))"

text \<open>The loop of \<open>handleClient\<close>; a break gives the session.\<close>

partial_function (option) serve_loop ::
  "'k http_env \<Rightarrow> ('c, 'l, 'k) http_server \<Rightarrow> nat \<Rightarrow> sstream \<Rightarrow> 'k hook \<Rightarrow> ((session_error + sstream) \<times> 'k hook) option" where
  "serve_loop env srv n ss h =
     (case recvRequest (he_lexical_cast env) (he_net env) (he_garbage env n) (he_mem env n) ss h of
        None \<Rightarrow> None
      | Some (Inl e, h1) \<Rightarrow> Some (Inl e, h1)
      | Some (Inr (None, ss1), h1) \<Rightarrow> Some (Inr ss1, h1)
      | Some (Inr (Some req, ss1), h1) \<Rightarrow>
          (case answer env srv req ss1 h1 of (req2, rsp, ss2, h2) \<Rightarrow>
             case sendResponse (he_net env) ss2 rsp h2 of (rt, h3) \<Rightarrow>
               if \<not> hs_isKeepAlive srv \<or> m_close req2 then Some (Inr ss2, h3)
               else serve_loop env srv (Suc n) ss2 h3))"

text \<open>At the end \<open>session->close()\<close>, and the destructor of the session.\<close>

definition handleClient :: "'k http_env \<Rightarrow> ('c, 'l, 'k) http_server \<Rightarrow> socket \<Rightarrow> 'k hook \<Rightarrow> ((session_error + sstream) \<times> 'k hook) option" where
  "handleClient env srv client h =
     (case serve_loop env srv 0 (new_SocketStream (Some client) True) h of
        None \<Rightarrow> None
      | Some (Inl e, h1) \<Rightarrow> Some (Inl e, h1)
      | Some (Inr ss, h1) \<Rightarrow>
          Some (case andThen (ss_close (he_net env) ss) (del_SocketStream (he_net env)) h1 of
                  (Inl e, h2) \<Rightarrow> (Inl (Close_failed e), h2)
                | (Inr ss2, h2) \<Rightarrow> (Inr ss2, h2)))"

subsection \<open>What a client sees\<close>

text \<open>
  The response reached the connection completely, or a write failed after a proper prefix of it. Responses of two gigabytes are left open.
\<close>

definition delivered :: "'k network \<Rightarrow> sstream \<Rightarrow> HttpResponse \<Rightarrow> 'k hook \<Rightarrow> 'k hook \<Rightarrow> bool" where
  "delivered net ss rsp h h' \<longleftrightarrow> (length (HttpResponse_dump rsp) < 2 ^ 31 \<longrightarrow>
     writes (ss_write net ss) h (HttpResponse_dump rsp) h'
     \<or> (\<exists>k h1 cs rt. k < length (HttpResponse_dump rsp) \<and> writes (ss_write net ss) h (take k (HttpResponse_dump rsp)) h1 \<and> ss_write net ss cs h1 = (rt, h') \<and> rt \<le> 0))"

lemma sendResponse_delivers: "sendResponse net ss rsp h = (rt, h') \<Longrightarrow> delivered net ss rsp h h'"
proof -
  assume r: "sendResponse net ss rsp h = (rt, h')"
  have "HttpResponse_dump rsp \<noteq> []" by (simp add: HttpResponse_dump_def)
  then show ?thesis using ss.writeFixSize_spec [OF r [unfolded sendResponse_def]] unfolding delivered_def by blast
qed

text \<open>
  The conversation of a client: each received request is handled by the servlet that matches its path, and the response is delivered. Another
  request is received only when the server keeps connections alive and the servlet left the request as one that does.
\<close>

inductive conversation ::
  "'k http_env \<Rightarrow> ('c, 'l, 'k) http_server \<Rightarrow> nat \<Rightarrow> sstream \<Rightarrow> 'k hook \<Rightarrow> (HttpRequest \<times> HttpResponse) list \<Rightarrow> sstream \<Rightarrow> 'k hook \<Rightarrow> bool"
  for env srv where
  hang_up: "recvRequest (he_lexical_cast env) (he_net env) (he_garbage env n) (he_mem env n) ss h = Some (Inr (None, ss1), h1) \<Longrightarrow>
    conversation env srv n ss h [] ss1 h1"
| final: "recvRequest (he_lexical_cast env) (he_net env) (he_garbage env n) (he_mem env n) ss h = Some (Inr (Some req, ss1), h1) \<Longrightarrow>
    servlet_handle (getMatchedServlet (he_fnmatch env) (m_path req) (hs_dispatch srv))
      (req, new_HttpResponse (m_version req) (m_close req \<or> \<not> hs_isKeepAlive srv), (ss1, h1)) = (rt, (req2, rsp, (ss2, h2))) \<Longrightarrow>
    delivered (he_net env) ss2 rsp h2 h3 \<Longrightarrow> \<not> hs_isKeepAlive srv \<or> m_close req2 \<Longrightarrow>
    conversation env srv n ss h [(req, rsp)] ss2 h3"
| further: "recvRequest (he_lexical_cast env) (he_net env) (he_garbage env n) (he_mem env n) ss h = Some (Inr (Some req, ss1), h1) \<Longrightarrow>
    servlet_handle (getMatchedServlet (he_fnmatch env) (m_path req) (hs_dispatch srv))
      (req, new_HttpResponse (m_version req) (m_close req \<or> \<not> hs_isKeepAlive srv), (ss1, h1)) = (rt, (req2, rsp, (ss2, h2))) \<Longrightarrow>
    delivered (he_net env) ss2 rsp h2 h3 \<Longrightarrow> hs_isKeepAlive srv \<Longrightarrow> \<not> m_close req2 \<Longrightarrow>
    conversation env srv (Suc n) ss2 h3 log ss' h' \<Longrightarrow>
    conversation env srv n ss h ((req, rsp) # log) ss' h'"

lemma conversation_short: "conversation env srv n ss h log ss' h' \<Longrightarrow> \<not> hs_isKeepAlive srv \<Longrightarrow> length log \<le> 1"
  by (induction rule: conversation.induct) auto

lemma answer_servlet:
  assumes "answer env srv req ss h = (req2, rsp, ss2, h2)"
  shows "\<exists>rt. servlet_handle (getMatchedServlet (he_fnmatch env) (m_path req) (hs_dispatch srv))
      (req, new_HttpResponse (m_version req) (m_close req \<or> \<not> hs_isKeepAlive srv), (ss, h)) = (rt, (req2, rsp, (ss2, h2)))"
  using assms by (metis answer_def dispatch_handle_def fst_conv prod.exhaust_sel snd_conv)

lemma serve_loop_conversation:
  assumes run: "serve_loop env srv n ss h = Some r"
  shows "\<forall>ss' h'. r = (Inr ss', h') \<longrightarrow> (\<exists>log. conversation env srv n ss h log ss' h')"
proof (rule serve_loop.raw_induct [where P = "\<lambda>env srv n ss h r. \<forall>ss' h'. r = (Inr ss', h') \<longrightarrow> (\<exists>log. conversation env srv n ss h log ss' h')", OF _ run],
    intro allI impI)
  fix loop and env :: "'a http_env" and srv :: "('b, 'c, 'a) http_server" and n ss h r ss' h'
  assume IH: "\<And>env srv n ss h r. loop env srv n ss h = Some r \<Longrightarrow> \<forall>ss' h'. r = (Inr ss', h') \<longrightarrow> (\<exists>log. conversation env srv n ss h log ss' h')"
    and step: "(case recvRequest (he_lexical_cast env) (he_net env) (he_garbage env n) (he_mem env n) ss h of
        None \<Rightarrow> None
      | Some (Inl e, h1) \<Rightarrow> Some (Inl e, h1)
      | Some (Inr (None, ss1), h1) \<Rightarrow> Some (Inr ss1, h1)
      | Some (Inr (Some req, ss1), h1) \<Rightarrow>
          (case answer env srv req ss1 h1 of (req2, rsp, ss2, h2) \<Rightarrow>
             case sendResponse (he_net env) ss2 rsp h2 of (rt, h3) \<Rightarrow>
               if \<not> hs_isKeepAlive srv \<or> m_close req2 then Some (Inr ss2, h3)
               else loop env srv (Suc n) ss2 h3)) = Some r"
    and r: "r = (Inr ss', h')"
  consider (hang_up) "recvRequest (he_lexical_cast env) (he_net env) (he_garbage env n) (he_mem env n) ss h = Some (Inr (None, ss'), h')"
    | (got) req ss1 h1 where "recvRequest (he_lexical_cast env) (he_net env) (he_garbage env n) (he_mem env n) ss h = Some (Inr (Some req, ss1), h1)"
    using step r by (auto split: option.splits sum.splits prod.splits)
  then show "\<exists>log. conversation env srv n ss h log ss' h'"
  proof cases
    case hang_up
    then show ?thesis using conversation.hang_up by blast
  next
    case got
    obtain req2 rsp ss2 h2 where a: "answer env srv req ss1 h1 = (req2, rsp, ss2, h2)" by (metis surj_pair)
    obtain rt h3 where s: "sendResponse (he_net env) ss2 rsp h2 = (rt, h3)" by (metis surj_pair)
    note first = got answer_servlet [OF a] sendResponse_delivers [OF s]
    show ?thesis
    proof (cases "\<not> hs_isKeepAlive srv \<or> m_close req2")
      case True
      then have "ss' = ss2" "h' = h3" using step r got a s by auto
      then show ?thesis using conversation.final first True by metis
    next
      case False
      then have "loop env srv (Suc n) ss2 h3 = Some (Inr ss', h')" using step r got a s by simp
      from IH [OF this] obtain log where "conversation env srv (Suc n) ss2 h3 log ss' h'" by blast
      then show ?thesis using conversation.further first False by metis
    qed
  qed
qed

lemma ss_close_closes: "ss_close net ss h = (Inr ss', h') \<Longrightarrow> ss_socket ss' = Some s \<Longrightarrow> \<not> s_isConnected s \<and> \<not> isVaild s"
  by (auto simp: ss_close_def ret_def split: option.splits elim!: andThen_eq_InrE dest: Socket_close_inv)

lemma session_end:
  assumes "andThen (ss_close net ss) (del_SocketStream net) h = (Inr ss', h')" and "ss_socket ss' = Some s"
  shows "\<not> s_isConnected s \<and> \<not> isVaild s"
  using assms by (auto simp: del_SocketStream_def ret_def split: if_splits elim!: andThen_eq_InrE dest: ss_close_closes)

lemma serve_loop_once:
  assumes "\<not> hs_isKeepAlive srv"
  shows "serve_loop env srv n ss h \<noteq> None"
proof -
  have "recvRequest (he_lexical_cast env) (he_net env) (he_garbage env n) (he_mem env n) ss h \<noteq> None"
    by (rule recvRequest_total)
  then show ?thesis using assms by (subst serve_loop.simps) (auto split: option.splits sum.splits prod.splits)
qed

subsection \<open>Property\<close>


text \<open>A peer that hangs up at once, on a thread without hooks.\<close>

definition hang_up_env :: "(int \<times> u32) http_env" where
  "hang_up_env = \<lparr>he_lexical_cast = (\<lambda>_. None), he_fnmatch = (=), he_net = demo_network\<lparr>net_thread := demo_thread\<lparr>t_hook_enable := False\<rparr>,
     net_recv := Recv_call (\<lambda>fd n h. ((0, []), h))\<rparr>, he_garbage = (\<lambda>_. demo_parser), he_mem = (\<lambda>_. replicate 4096 CHR 0x00)\<rparr>"

lemma hang_up_read: "ss_read (he_net hang_up_env) drip_stream n h = ((0, []), h)"
  by (simp add: ss_read_def ss_isConnected_def drip_stream_def new_SocketStream_def Socket_recv_def hang_up_env_def Recv_call_inverse)


end
