(* ===== verification/HttpClientTables.thy ===== *)
theory HttpClientTables
  imports Main
begin

text \<open>
  The transitions of the generated response machine (\<open>sylar/http/httpclient_parser.c\<close>), one definition for each label of the goto code:
  \<open>cl_tr_n\<close> is the code at \<open>trn\<close> (its actions and the state it goes to), \<open>cl_state_n\<close> the code at \<open>case n\<close>, which chooses by the character
  \<open>*p\<close>, a \<open>signed char\<close>. \<open>Halt\<close> is \<open>st0\<close>. The action \<open>A_done\<close> ends the loop in the state the transition goes to.
\<close>

datatype cl_action =
    A_mark | A_start_field | A_write_field | A_start_value | A_write_content_len | A_write_connection_close | A_write_value
  | A_reason_phrase | A_status_code | A_http_version | A_chunk_size | A_trans_chunked | A_done

datatype cl_jump = Halt | Goto "cl_action list" nat

section \<open>Transitions\<close>

definition cl_tr_0 :: cl_jump where "cl_tr_0 = Goto [A_mark] 2"
definition cl_tr_2 :: cl_jump where "cl_tr_2 = Goto [A_mark] 8"
definition cl_tr_3 :: cl_jump where "cl_tr_3 = Goto [A_chunk_size, A_done] 120"
definition cl_tr_4 :: cl_jump where "cl_tr_4 = Goto [A_chunk_size] 3"
definition cl_tr_6 :: cl_jump where "cl_tr_6 = Goto [A_chunk_size] 4"
definition cl_tr_7 :: cl_jump where "cl_tr_7 = Goto [A_done] 120"
definition cl_tr_8 :: cl_jump where "cl_tr_8 = Goto [A_start_field] 5"
definition cl_tr_9 :: cl_jump where "cl_tr_9 = Goto [A_write_field, A_start_value, A_write_value, A_done] 120"
definition cl_tr_10 :: cl_jump where "cl_tr_10 = Goto [A_write_field, A_start_value, A_write_value] 3"
definition cl_tr_12 :: cl_jump where "cl_tr_12 = Goto [A_write_field, A_start_value, A_write_value] 4"
definition cl_tr_13 :: cl_jump where "cl_tr_13 = Goto [A_write_field, A_start_value] 6"
definition cl_tr_14 :: cl_jump where "cl_tr_14 = Goto [A_start_value] 7"
definition cl_tr_15 :: cl_jump where "cl_tr_15 = Goto [A_write_value, A_done] 120"
definition cl_tr_16 :: cl_jump where "cl_tr_16 = Goto [A_write_value] 3"
definition cl_tr_18 :: cl_jump where "cl_tr_18 = Goto [A_write_value] 4"
definition cl_tr_26 :: cl_jump where "cl_tr_26 = Goto [A_http_version] 16"
definition cl_tr_27 :: cl_jump where "cl_tr_27 = Goto [A_mark] 17"
definition cl_tr_28 :: cl_jump where "cl_tr_28 = Goto [A_status_code] 18"
definition cl_tr_30 :: cl_jump where "cl_tr_30 = Goto [A_mark] 19"
definition cl_tr_32 :: cl_jump where "cl_tr_32 = Goto [A_reason_phrase] 20"
definition cl_tr_33 :: cl_jump where "cl_tr_33 = Goto [A_reason_phrase] 24"
definition cl_tr_35 :: cl_jump where "cl_tr_35 = Goto [A_start_field] 21"
definition cl_tr_36 :: cl_jump where "cl_tr_36 = Goto [A_start_field] 25"
definition cl_tr_37 :: cl_jump where "cl_tr_37 = Goto [A_start_field] 44"
definition cl_tr_39 :: cl_jump where "cl_tr_39 = Goto [A_write_field] 22"
definition cl_tr_40 :: cl_jump where "cl_tr_40 = Goto [A_start_value] 23"
definition cl_tr_41 :: cl_jump where "cl_tr_41 = Goto [A_start_value] 22"
definition cl_tr_42 :: cl_jump where "cl_tr_42 = Goto [A_start_value, A_write_value] 20"
definition cl_tr_43 :: cl_jump where "cl_tr_43 = Goto [A_start_value, A_write_value] 24"
definition cl_tr_45 :: cl_jump where "cl_tr_45 = Goto [A_write_value] 20"
definition cl_tr_46 :: cl_jump where "cl_tr_46 = Goto [A_write_value] 24"
definition cl_tr_58 :: cl_jump where "cl_tr_58 = Goto [A_write_field] 35"
definition cl_tr_59 :: cl_jump where "cl_tr_59 = Goto [A_start_value] 35"
definition cl_tr_60 :: cl_jump where "cl_tr_60 = Goto [A_start_value, A_write_value] 36"
definition cl_tr_61 :: cl_jump where "cl_tr_61 = Goto [A_start_value, A_write_value] 95"
definition cl_tr_62 :: cl_jump where "cl_tr_62 = Goto [A_start_value] 96"
definition cl_tr_64 :: cl_jump where "cl_tr_64 = Goto [A_done] 122"
definition cl_tr_66 :: cl_jump where "cl_tr_66 = Goto [A_start_field] 90"
definition cl_tr_74 :: cl_jump where "cl_tr_74 = Goto [A_write_connection_close, A_done] 120"
definition cl_tr_75 :: cl_jump where "cl_tr_75 = Goto [A_write_connection_close] 3"
definition cl_tr_76 :: cl_jump where "cl_tr_76 = Goto [A_write_connection_close, A_start_field] 21"
definition cl_tr_77 :: cl_jump where "cl_tr_77 = Goto [A_write_connection_close, A_start_field] 25"
definition cl_tr_78 :: cl_jump where "cl_tr_78 = Goto [A_write_connection_close, A_start_field] 44"
definition cl_tr_95 :: cl_jump where "cl_tr_95 = Goto [A_write_field] 61"
definition cl_tr_96 :: cl_jump where "cl_tr_96 = Goto [A_start_value] 61"
definition cl_tr_97 :: cl_jump where "cl_tr_97 = Goto [A_start_value, A_write_value] 62"
definition cl_tr_98 :: cl_jump where "cl_tr_98 = Goto [A_start_value, A_write_value] 80"
definition cl_tr_99 :: cl_jump where "cl_tr_99 = Goto [A_start_value] 81"
definition cl_tr_101 :: cl_jump where "cl_tr_101 = Goto [A_done] 121"
definition cl_tr_103 :: cl_jump where "cl_tr_103 = Goto [A_start_value, A_start_field] 73"
definition cl_tr_104 :: cl_jump where "cl_tr_104 = Goto [A_start_value] 64"
definition cl_tr_111 :: cl_jump where "cl_tr_111 = Goto [A_write_value, A_trans_chunked] 20"
definition cl_tr_112 :: cl_jump where "cl_tr_112 = Goto [A_write_value] 71"
definition cl_tr_113 :: cl_jump where "cl_tr_113 = Goto [A_trans_chunked] 20"
definition cl_tr_136 :: cl_jump where "cl_tr_136 = Goto [A_write_value] 43"
definition cl_tr_137 :: cl_jump where "cl_tr_137 = Goto [A_write_value] 88"
definition cl_tr_148 :: cl_jump where "cl_tr_148 = Goto [A_write_field] 112"
definition cl_tr_149 :: cl_jump where "cl_tr_149 = Goto [A_start_value] 112"
definition cl_tr_150 :: cl_jump where "cl_tr_150 = Goto [A_start_value, A_write_value] 113"
definition cl_tr_151 :: cl_jump where "cl_tr_151 = Goto [A_start_value, A_write_value] 118"
definition cl_tr_152 :: cl_jump where "cl_tr_152 = Goto [A_start_value] 119"
definition cl_tr_154 :: cl_jump where "cl_tr_154 = Goto [A_done] 123"
definition cl_tr_156 :: cl_jump where "cl_tr_156 = Goto [A_start_value, A_start_field] 117"
definition cl_tr_157 :: cl_jump where "cl_tr_157 = Goto [A_start_value] 115"
definition cl_tr_158 :: cl_jump where "cl_tr_158 = Goto [A_write_content_len, A_write_value] 20"
definition cl_tr_159 :: cl_jump where "cl_tr_159 = Goto [A_write_content_len, A_write_value] 24"

lemmas cl_tr_defs =
  cl_tr_0_def cl_tr_2_def cl_tr_3_def cl_tr_4_def cl_tr_6_def cl_tr_7_def cl_tr_8_def cl_tr_9_def cl_tr_10_def cl_tr_12_def cl_tr_13_def cl_tr_14_def cl_tr_15_def cl_tr_16_def cl_tr_18_def cl_tr_26_def cl_tr_27_def cl_tr_28_def cl_tr_30_def cl_tr_32_def cl_tr_33_def cl_tr_35_def cl_tr_36_def cl_tr_37_def cl_tr_39_def cl_tr_40_def cl_tr_41_def cl_tr_42_def cl_tr_43_def cl_tr_45_def cl_tr_46_def cl_tr_58_def cl_tr_59_def cl_tr_60_def cl_tr_61_def cl_tr_62_def cl_tr_64_def cl_tr_66_def cl_tr_74_def cl_tr_75_def cl_tr_76_def cl_tr_77_def cl_tr_78_def cl_tr_95_def cl_tr_96_def cl_tr_97_def cl_tr_98_def cl_tr_99_def cl_tr_101_def cl_tr_103_def cl_tr_104_def cl_tr_111_def cl_tr_112_def cl_tr_113_def cl_tr_136_def cl_tr_137_def cl_tr_148_def cl_tr_149_def cl_tr_150_def cl_tr_151_def cl_tr_152_def cl_tr_154_def cl_tr_156_def cl_tr_157_def cl_tr_158_def cl_tr_159_def

section \<open>States\<close>

definition cl_state_1 :: "int \<Rightarrow> cl_jump" where
  "cl_state_1 c =
    (if c = 72 then cl_tr_2
     else if c < 65 then (if 48 \<le> c \<and> c \<le> 57 then cl_tr_0
      else Halt)
     else if c > 70 then (if 97 \<le> c \<and> c \<le> 102 then cl_tr_0
      else Halt)
     else cl_tr_0)"

definition cl_state_2 :: "int \<Rightarrow> cl_jump" where
  "cl_state_2 c =
    (if c = 10 then cl_tr_3
     else if c = 13 then cl_tr_4
     else if c = 59 then cl_tr_6
     else if c < 65 then (if 48 \<le> c \<and> c \<le> 57 then Goto [] 2
      else Halt)
     else if c > 70 then (if 97 \<le> c \<and> c \<le> 102 then Goto [] 2
      else Halt)
     else Goto [] 2)"

definition cl_state_3 :: "int \<Rightarrow> cl_jump" where
  "cl_state_3 c =
    (if c = 10 then cl_tr_7
     else Halt)"

definition cl_state_4 :: "int \<Rightarrow> cl_jump" where
  "cl_state_4 c =
    (if c = 33 then cl_tr_8
     else if c = 124 then cl_tr_8
     else if c = 126 then cl_tr_8
     else if c < 45 then (if c > 39 then (if 42 \<le> c \<and> c \<le> 43 then cl_tr_8
       else Halt)
      else if c \<ge> 35 then cl_tr_8
      else Halt)
     else if c > 46 then (if c < 65 then (if 48 \<le> c \<and> c \<le> 57 then cl_tr_8
       else Halt)
      else if c > 90 then (if 94 \<le> c \<and> c \<le> 122 then cl_tr_8
       else Halt)
      else cl_tr_8)
     else cl_tr_8)"

definition cl_state_5 :: "int \<Rightarrow> cl_jump" where
  "cl_state_5 c =
    (if c = 10 then cl_tr_9
     else if c = 13 then cl_tr_10
     else if c = 33 then Goto [] 5
     else if c = 59 then cl_tr_12
     else if c = 61 then cl_tr_13
     else if c = 124 then Goto [] 5
     else if c = 126 then Goto [] 5
     else if c < 45 then (if c > 39 then (if 42 \<le> c \<and> c \<le> 43 then Goto [] 5
       else Halt)
      else if c \<ge> 35 then Goto [] 5
      else Halt)
     else if c > 46 then (if c < 65 then (if 48 \<le> c \<and> c \<le> 57 then Goto [] 5
       else Halt)
      else if c > 90 then (if 94 \<le> c \<and> c \<le> 122 then Goto [] 5
       else Halt)
      else Goto [] 5)
     else Goto [] 5)"

definition cl_state_6 :: "int \<Rightarrow> cl_jump" where
  "cl_state_6 c =
    (if c = 33 then cl_tr_14
     else if c = 124 then cl_tr_14
     else if c = 126 then cl_tr_14
     else if c < 45 then (if c > 39 then (if 42 \<le> c \<and> c \<le> 43 then cl_tr_14
       else Halt)
      else if c \<ge> 35 then cl_tr_14
      else Halt)
     else if c > 46 then (if c < 65 then (if 48 \<le> c \<and> c \<le> 57 then cl_tr_14
       else Halt)
      else if c > 90 then (if 94 \<le> c \<and> c \<le> 122 then cl_tr_14
       else Halt)
      else cl_tr_14)
     else cl_tr_14)"

definition cl_state_7 :: "int \<Rightarrow> cl_jump" where
  "cl_state_7 c =
    (if c = 10 then cl_tr_15
     else if c = 13 then cl_tr_16
     else if c = 33 then Goto [] 7
     else if c = 59 then cl_tr_18
     else if c = 124 then Goto [] 7
     else if c = 126 then Goto [] 7
     else if c < 45 then (if c > 39 then (if 42 \<le> c \<and> c \<le> 43 then Goto [] 7
       else Halt)
      else if c \<ge> 35 then Goto [] 7
      else Halt)
     else if c > 46 then (if c < 65 then (if 48 \<le> c \<and> c \<le> 57 then Goto [] 7
       else Halt)
      else if c > 90 then (if 94 \<le> c \<and> c \<le> 122 then Goto [] 7
       else Halt)
      else Goto [] 7)
     else Goto [] 7)"

definition cl_state_8 :: "int \<Rightarrow> cl_jump" where
  "cl_state_8 c =
    (if c = 84 then Goto [] 9
     else Halt)"

definition cl_state_9 :: "int \<Rightarrow> cl_jump" where
  "cl_state_9 c =
    (if c = 84 then Goto [] 10
     else Halt)"

definition cl_state_10 :: "int \<Rightarrow> cl_jump" where
  "cl_state_10 c =
    (if c = 80 then Goto [] 11
     else Halt)"

definition cl_state_11 :: "int \<Rightarrow> cl_jump" where
  "cl_state_11 c =
    (if c = 47 then Goto [] 12
     else Halt)"

definition cl_state_12 :: "int \<Rightarrow> cl_jump" where
  "cl_state_12 c =
    (if 48 \<le> c \<and> c \<le> 57 then Goto [] 13
     else Halt)"

definition cl_state_13 :: "int \<Rightarrow> cl_jump" where
  "cl_state_13 c =
    (if c = 46 then Goto [] 14
     else if 48 \<le> c \<and> c \<le> 57 then Goto [] 13
     else Halt)"

definition cl_state_14 :: "int \<Rightarrow> cl_jump" where
  "cl_state_14 c =
    (if 48 \<le> c \<and> c \<le> 57 then Goto [] 15
     else Halt)"

definition cl_state_15 :: "int \<Rightarrow> cl_jump" where
  "cl_state_15 c =
    (if c = 32 then cl_tr_26
     else if 48 \<le> c \<and> c \<le> 57 then Goto [] 15
     else Halt)"

definition cl_state_16 :: "int \<Rightarrow> cl_jump" where
  "cl_state_16 c =
    (if 48 \<le> c \<and> c \<le> 57 then cl_tr_27
     else Halt)"

definition cl_state_17 :: "int \<Rightarrow> cl_jump" where
  "cl_state_17 c =
    (if c = 32 then cl_tr_28
     else if 48 \<le> c \<and> c \<le> 57 then Goto [] 17
     else Halt)"

definition cl_state_18 :: "int \<Rightarrow> cl_jump" where
  "cl_state_18 c =
    (if c = 10 then Halt
     else cl_tr_30)"

definition cl_state_19 :: "int \<Rightarrow> cl_jump" where
  "cl_state_19 c =
    (if c = 10 then cl_tr_32
     else if c = 13 then cl_tr_33
     else Goto [] 19)"

definition cl_state_20 :: "int \<Rightarrow> cl_jump" where
  "cl_state_20 c =
    (if c = 10 then cl_tr_7
     else if c = 13 then Goto [] 3
     else if c = 33 then cl_tr_35
     else if c = 67 then cl_tr_36
     else if c = 84 then cl_tr_37
     else if c = 99 then cl_tr_36
     else if c = 116 then cl_tr_37
     else if c = 124 then cl_tr_35
     else if c = 126 then cl_tr_35
     else if c < 45 then (if c > 39 then (if 42 \<le> c \<and> c \<le> 43 then cl_tr_35
       else Halt)
      else if c \<ge> 35 then cl_tr_35
      else Halt)
     else if c > 46 then (if c < 65 then (if 48 \<le> c \<and> c \<le> 57 then cl_tr_35
       else Halt)
      else if c > 90 then (if 94 \<le> c \<and> c \<le> 122 then cl_tr_35
       else Halt)
      else cl_tr_35)
     else cl_tr_35)"

definition cl_state_21 :: "int \<Rightarrow> cl_jump" where
  "cl_state_21 c =
    (if c = 33 then Goto [] 21
     else if c = 58 then cl_tr_39
     else if c = 124 then Goto [] 21
     else if c = 126 then Goto [] 21
     else if c < 45 then (if c > 39 then (if 42 \<le> c \<and> c \<le> 43 then Goto [] 21
       else Halt)
      else if c \<ge> 35 then Goto [] 21
      else Halt)
     else if c > 46 then (if c < 65 then (if 48 \<le> c \<and> c \<le> 57 then Goto [] 21
       else Halt)
      else if c > 90 then (if 94 \<le> c \<and> c \<le> 122 then Goto [] 21
       else Halt)
      else Goto [] 21)
     else Goto [] 21)"

definition cl_state_22 :: "int \<Rightarrow> cl_jump" where
  "cl_state_22 c =
    (if c = 10 then cl_tr_42
     else if c = 13 then cl_tr_43
     else if c = 32 then cl_tr_41
     else if 9 \<le> c \<and> c \<le> 12 then cl_tr_41
     else cl_tr_40)"

definition cl_state_23 :: "int \<Rightarrow> cl_jump" where
  "cl_state_23 c =
    (if c = 10 then cl_tr_45
     else if c = 13 then cl_tr_46
     else Goto [] 23)"

definition cl_state_24 :: "int \<Rightarrow> cl_jump" where
  "cl_state_24 c =
    (if c = 10 then Goto [] 20
     else Halt)"

definition cl_state_25 :: "int \<Rightarrow> cl_jump" where
  "cl_state_25 c =
    (if c = 33 then Goto [] 21
     else if c = 58 then cl_tr_39
     else if c = 79 then Goto [] 26
     else if c = 111 then Goto [] 26
     else if c = 124 then Goto [] 21
     else if c = 126 then Goto [] 21
     else if c < 45 then (if c > 39 then (if 42 \<le> c \<and> c \<le> 43 then Goto [] 21
       else Halt)
      else if c \<ge> 35 then Goto [] 21
      else Halt)
     else if c > 46 then (if c < 65 then (if 48 \<le> c \<and> c \<le> 57 then Goto [] 21
       else Halt)
      else if c > 90 then (if 94 \<le> c \<and> c \<le> 122 then Goto [] 21
       else Halt)
      else Goto [] 21)
     else Goto [] 21)"

definition cl_state_26 :: "int \<Rightarrow> cl_jump" where
  "cl_state_26 c =
    (if c = 33 then Goto [] 21
     else if c = 58 then cl_tr_39
     else if c = 78 then Goto [] 27
     else if c = 110 then Goto [] 27
     else if c = 124 then Goto [] 21
     else if c = 126 then Goto [] 21
     else if c < 45 then (if c > 39 then (if 42 \<le> c \<and> c \<le> 43 then Goto [] 21
       else Halt)
      else if c \<ge> 35 then Goto [] 21
      else Halt)
     else if c > 46 then (if c < 65 then (if 48 \<le> c \<and> c \<le> 57 then Goto [] 21
       else Halt)
      else if c > 90 then (if 94 \<le> c \<and> c \<le> 122 then Goto [] 21
       else Halt)
      else Goto [] 21)
     else Goto [] 21)"

definition cl_state_27 :: "int \<Rightarrow> cl_jump" where
  "cl_state_27 c =
    (if c = 33 then Goto [] 21
     else if c = 58 then cl_tr_39
     else if c = 78 then Goto [] 28
     else if c = 84 then Goto [] 101
     else if c = 110 then Goto [] 28
     else if c = 116 then Goto [] 101
     else if c = 124 then Goto [] 21
     else if c = 126 then Goto [] 21
     else if c < 45 then (if c > 39 then (if 42 \<le> c \<and> c \<le> 43 then Goto [] 21
       else Halt)
      else if c \<ge> 35 then Goto [] 21
      else Halt)
     else if c > 46 then (if c < 65 then (if 48 \<le> c \<and> c \<le> 57 then Goto [] 21
       else Halt)
      else if c > 90 then (if 94 \<le> c \<and> c \<le> 122 then Goto [] 21
       else Halt)
      else Goto [] 21)
     else Goto [] 21)"

definition cl_state_28 :: "int \<Rightarrow> cl_jump" where
  "cl_state_28 c =
    (if c = 33 then Goto [] 21
     else if c = 58 then cl_tr_39
     else if c = 69 then Goto [] 29
     else if c = 101 then Goto [] 29
     else if c = 124 then Goto [] 21
     else if c = 126 then Goto [] 21
     else if c < 45 then (if c > 39 then (if 42 \<le> c \<and> c \<le> 43 then Goto [] 21
       else Halt)
      else if c \<ge> 35 then Goto [] 21
      else Halt)
     else if c > 46 then (if c < 65 then (if 48 \<le> c \<and> c \<le> 57 then Goto [] 21
       else Halt)
      else if c > 90 then (if 94 \<le> c \<and> c \<le> 122 then Goto [] 21
       else Halt)
      else Goto [] 21)
     else Goto [] 21)"

definition cl_state_29 :: "int \<Rightarrow> cl_jump" where
  "cl_state_29 c =
    (if c = 33 then Goto [] 21
     else if c = 58 then cl_tr_39
     else if c = 67 then Goto [] 30
     else if c = 99 then Goto [] 30
     else if c = 124 then Goto [] 21
     else if c = 126 then Goto [] 21
     else if c < 45 then (if c > 39 then (if 42 \<le> c \<and> c \<le> 43 then Goto [] 21
       else Halt)
      else if c \<ge> 35 then Goto [] 21
      else Halt)
     else if c > 46 then (if c < 65 then (if 48 \<le> c \<and> c \<le> 57 then Goto [] 21
       else Halt)
      else if c > 90 then (if 94 \<le> c \<and> c \<le> 122 then Goto [] 21
       else Halt)
      else Goto [] 21)
     else Goto [] 21)"

definition cl_state_30 :: "int \<Rightarrow> cl_jump" where
  "cl_state_30 c =
    (if c = 33 then Goto [] 21
     else if c = 58 then cl_tr_39
     else if c = 84 then Goto [] 31
     else if c = 116 then Goto [] 31
     else if c = 124 then Goto [] 21
     else if c = 126 then Goto [] 21
     else if c < 45 then (if c > 39 then (if 42 \<le> c \<and> c \<le> 43 then Goto [] 21
       else Halt)
      else if c \<ge> 35 then Goto [] 21
      else Halt)
     else if c > 46 then (if c < 65 then (if 48 \<le> c \<and> c \<le> 57 then Goto [] 21
       else Halt)
      else if c > 90 then (if 94 \<le> c \<and> c \<le> 122 then Goto [] 21
       else Halt)
      else Goto [] 21)
     else Goto [] 21)"

definition cl_state_31 :: "int \<Rightarrow> cl_jump" where
  "cl_state_31 c =
    (if c = 33 then Goto [] 21
     else if c = 58 then cl_tr_39
     else if c = 73 then Goto [] 32
     else if c = 105 then Goto [] 32
     else if c = 124 then Goto [] 21
     else if c = 126 then Goto [] 21
     else if c < 45 then (if c > 39 then (if 42 \<le> c \<and> c \<le> 43 then Goto [] 21
       else Halt)
      else if c \<ge> 35 then Goto [] 21
      else Halt)
     else if c > 46 then (if c < 65 then (if 48 \<le> c \<and> c \<le> 57 then Goto [] 21
       else Halt)
      else if c > 90 then (if 94 \<le> c \<and> c \<le> 122 then Goto [] 21
       else Halt)
      else Goto [] 21)
     else Goto [] 21)"

definition cl_state_32 :: "int \<Rightarrow> cl_jump" where
  "cl_state_32 c =
    (if c = 33 then Goto [] 21
     else if c = 58 then cl_tr_39
     else if c = 79 then Goto [] 33
     else if c = 111 then Goto [] 33
     else if c = 124 then Goto [] 21
     else if c = 126 then Goto [] 21
     else if c < 45 then (if c > 39 then (if 42 \<le> c \<and> c \<le> 43 then Goto [] 21
       else Halt)
      else if c \<ge> 35 then Goto [] 21
      else Halt)
     else if c > 46 then (if c < 65 then (if 48 \<le> c \<and> c \<le> 57 then Goto [] 21
       else Halt)
      else if c > 90 then (if 94 \<le> c \<and> c \<le> 122 then Goto [] 21
       else Halt)
      else Goto [] 21)
     else Goto [] 21)"

definition cl_state_33 :: "int \<Rightarrow> cl_jump" where
  "cl_state_33 c =
    (if c = 33 then Goto [] 21
     else if c = 58 then cl_tr_39
     else if c = 78 then Goto [] 34
     else if c = 110 then Goto [] 34
     else if c = 124 then Goto [] 21
     else if c = 126 then Goto [] 21
     else if c < 45 then (if c > 39 then (if 42 \<le> c \<and> c \<le> 43 then Goto [] 21
       else Halt)
      else if c \<ge> 35 then Goto [] 21
      else Halt)
     else if c > 46 then (if c < 65 then (if 48 \<le> c \<and> c \<le> 57 then Goto [] 21
       else Halt)
      else if c > 90 then (if 94 \<le> c \<and> c \<le> 122 then Goto [] 21
       else Halt)
      else Goto [] 21)
     else Goto [] 21)"

definition cl_state_34 :: "int \<Rightarrow> cl_jump" where
  "cl_state_34 c =
    (if c = 33 then Goto [] 21
     else if c = 58 then cl_tr_58
     else if c = 124 then Goto [] 21
     else if c = 126 then Goto [] 21
     else if c < 45 then (if c > 39 then (if 42 \<le> c \<and> c \<le> 43 then Goto [] 21
       else Halt)
      else if c \<ge> 35 then Goto [] 21
      else Halt)
     else if c > 46 then (if c < 65 then (if 48 \<le> c \<and> c \<le> 57 then Goto [] 21
       else Halt)
      else if c > 90 then (if 94 \<le> c \<and> c \<le> 122 then Goto [] 21
       else Halt)
      else Goto [] 21)
     else Goto [] 21)"

definition cl_state_35 :: "int \<Rightarrow> cl_jump" where
  "cl_state_35 c =
    (if c = 10 then cl_tr_60
     else if c = 13 then cl_tr_61
     else if c = 32 then cl_tr_59
     else if c = 67 then cl_tr_62
     else if c = 99 then cl_tr_62
     else if 9 \<le> c \<and> c \<le> 12 then cl_tr_59
     else cl_tr_40)"

definition cl_state_36 :: "int \<Rightarrow> cl_jump" where
  "cl_state_36 c =
    (if c = 10 then cl_tr_64
     else if c = 13 then Goto [] 89
     else if c = 32 then Goto [] 37
     else if c = 33 then cl_tr_35
     else if c = 67 then cl_tr_66
     else if c = 84 then cl_tr_37
     else if c = 99 then cl_tr_66
     else if c = 116 then cl_tr_37
     else if c = 124 then cl_tr_35
     else if c = 126 then cl_tr_35
     else if c < 45 then (if c < 35 then (if 9 \<le> c \<and> c \<le> 12 then Goto [] 37
       else Halt)
      else if c > 39 then (if 42 \<le> c \<and> c \<le> 43 then cl_tr_35
       else Halt)
      else cl_tr_35)
     else if c > 46 then (if c < 65 then (if 48 \<le> c \<and> c \<le> 57 then cl_tr_35
       else Halt)
      else if c > 90 then (if 94 \<le> c \<and> c \<le> 122 then cl_tr_35
       else Halt)
      else cl_tr_35)
     else cl_tr_35)"

definition cl_state_37 :: "int \<Rightarrow> cl_jump" where
  "cl_state_37 c =
    (if c = 32 then Goto [] 37
     else if c = 67 then Goto [] 38
     else if c = 99 then Goto [] 38
     else if 9 \<le> c \<and> c \<le> 13 then Goto [] 37
     else Halt)"

definition cl_state_38 :: "int \<Rightarrow> cl_jump" where
  "cl_state_38 c =
    (if c = 76 then Goto [] 39
     else if c = 108 then Goto [] 39
     else Halt)"

definition cl_state_39 :: "int \<Rightarrow> cl_jump" where
  "cl_state_39 c =
    (if c = 79 then Goto [] 40
     else if c = 111 then Goto [] 40
     else Halt)"

definition cl_state_40 :: "int \<Rightarrow> cl_jump" where
  "cl_state_40 c =
    (if c = 83 then Goto [] 41
     else if c = 115 then Goto [] 41
     else Halt)"

definition cl_state_41 :: "int \<Rightarrow> cl_jump" where
  "cl_state_41 c =
    (if c = 69 then Goto [] 42
     else if c = 101 then Goto [] 42
     else Halt)"

definition cl_state_42 :: "int \<Rightarrow> cl_jump" where
  "cl_state_42 c =
    (if c = 10 then Goto [] 43
     else if c = 13 then Goto [] 88
     else Halt)"

definition cl_state_43 :: "int \<Rightarrow> cl_jump" where
  "cl_state_43 c =
    (if c = 10 then cl_tr_74
     else if c = 13 then cl_tr_75
     else if c = 33 then cl_tr_76
     else if c = 67 then cl_tr_77
     else if c = 84 then cl_tr_78
     else if c = 99 then cl_tr_77
     else if c = 116 then cl_tr_78
     else if c = 124 then cl_tr_76
     else if c = 126 then cl_tr_76
     else if c < 45 then (if c > 39 then (if 42 \<le> c \<and> c \<le> 43 then cl_tr_76
       else Halt)
      else if c \<ge> 35 then cl_tr_76
      else Halt)
     else if c > 46 then (if c < 65 then (if 48 \<le> c \<and> c \<le> 57 then cl_tr_76
       else Halt)
      else if c > 90 then (if 94 \<le> c \<and> c \<le> 122 then cl_tr_76
       else Halt)
      else cl_tr_76)
     else cl_tr_76)"

definition cl_state_44 :: "int \<Rightarrow> cl_jump" where
  "cl_state_44 c =
    (if c = 33 then Goto [] 21
     else if c = 58 then cl_tr_39
     else if c = 82 then Goto [] 45
     else if c = 114 then Goto [] 45
     else if c = 124 then Goto [] 21
     else if c = 126 then Goto [] 21
     else if c < 45 then (if c > 39 then (if 42 \<le> c \<and> c \<le> 43 then Goto [] 21
       else Halt)
      else if c \<ge> 35 then Goto [] 21
      else Halt)
     else if c > 46 then (if c < 65 then (if 48 \<le> c \<and> c \<le> 57 then Goto [] 21
       else Halt)
      else if c > 90 then (if 94 \<le> c \<and> c \<le> 122 then Goto [] 21
       else Halt)
      else Goto [] 21)
     else Goto [] 21)"

definition cl_state_45 :: "int \<Rightarrow> cl_jump" where
  "cl_state_45 c =
    (if c = 33 then Goto [] 21
     else if c = 58 then cl_tr_39
     else if c = 65 then Goto [] 46
     else if c = 97 then Goto [] 46
     else if c = 124 then Goto [] 21
     else if c = 126 then Goto [] 21
     else if c < 45 then (if c > 39 then (if 42 \<le> c \<and> c \<le> 43 then Goto [] 21
       else Halt)
      else if c \<ge> 35 then Goto [] 21
      else Halt)
     else if c > 46 then (if c < 66 then (if 48 \<le> c \<and> c \<le> 57 then Goto [] 21
       else Halt)
      else if c > 90 then (if 94 \<le> c \<and> c \<le> 122 then Goto [] 21
       else Halt)
      else Goto [] 21)
     else Goto [] 21)"

definition cl_state_46 :: "int \<Rightarrow> cl_jump" where
  "cl_state_46 c =
    (if c = 33 then Goto [] 21
     else if c = 58 then cl_tr_39
     else if c = 78 then Goto [] 47
     else if c = 110 then Goto [] 47
     else if c = 124 then Goto [] 21
     else if c = 126 then Goto [] 21
     else if c < 45 then (if c > 39 then (if 42 \<le> c \<and> c \<le> 43 then Goto [] 21
       else Halt)
      else if c \<ge> 35 then Goto [] 21
      else Halt)
     else if c > 46 then (if c < 65 then (if 48 \<le> c \<and> c \<le> 57 then Goto [] 21
       else Halt)
      else if c > 90 then (if 94 \<le> c \<and> c \<le> 122 then Goto [] 21
       else Halt)
      else Goto [] 21)
     else Goto [] 21)"

definition cl_state_47 :: "int \<Rightarrow> cl_jump" where
  "cl_state_47 c =
    (if c = 33 then Goto [] 21
     else if c = 58 then cl_tr_39
     else if c = 83 then Goto [] 48
     else if c = 115 then Goto [] 48
     else if c = 124 then Goto [] 21
     else if c = 126 then Goto [] 21
     else if c < 45 then (if c > 39 then (if 42 \<le> c \<and> c \<le> 43 then Goto [] 21
       else Halt)
      else if c \<ge> 35 then Goto [] 21
      else Halt)
     else if c > 46 then (if c < 65 then (if 48 \<le> c \<and> c \<le> 57 then Goto [] 21
       else Halt)
      else if c > 90 then (if 94 \<le> c \<and> c \<le> 122 then Goto [] 21
       else Halt)
      else Goto [] 21)
     else Goto [] 21)"

definition cl_state_48 :: "int \<Rightarrow> cl_jump" where
  "cl_state_48 c =
    (if c = 33 then Goto [] 21
     else if c = 58 then cl_tr_39
     else if c = 70 then Goto [] 49
     else if c = 102 then Goto [] 49
     else if c = 124 then Goto [] 21
     else if c = 126 then Goto [] 21
     else if c < 45 then (if c > 39 then (if 42 \<le> c \<and> c \<le> 43 then Goto [] 21
       else Halt)
      else if c \<ge> 35 then Goto [] 21
      else Halt)
     else if c > 46 then (if c < 65 then (if 48 \<le> c \<and> c \<le> 57 then Goto [] 21
       else Halt)
      else if c > 90 then (if 94 \<le> c \<and> c \<le> 122 then Goto [] 21
       else Halt)
      else Goto [] 21)
     else Goto [] 21)"

definition cl_state_49 :: "int \<Rightarrow> cl_jump" where
  "cl_state_49 c =
    (if c = 33 then Goto [] 21
     else if c = 58 then cl_tr_39
     else if c = 69 then Goto [] 50
     else if c = 101 then Goto [] 50
     else if c = 124 then Goto [] 21
     else if c = 126 then Goto [] 21
     else if c < 45 then (if c > 39 then (if 42 \<le> c \<and> c \<le> 43 then Goto [] 21
       else Halt)
      else if c \<ge> 35 then Goto [] 21
      else Halt)
     else if c > 46 then (if c < 65 then (if 48 \<le> c \<and> c \<le> 57 then Goto [] 21
       else Halt)
      else if c > 90 then (if 94 \<le> c \<and> c \<le> 122 then Goto [] 21
       else Halt)
      else Goto [] 21)
     else Goto [] 21)"

definition cl_state_50 :: "int \<Rightarrow> cl_jump" where
  "cl_state_50 c =
    (if c = 33 then Goto [] 21
     else if c = 58 then cl_tr_39
     else if c = 82 then Goto [] 51
     else if c = 114 then Goto [] 51
     else if c = 124 then Goto [] 21
     else if c = 126 then Goto [] 21
     else if c < 45 then (if c > 39 then (if 42 \<le> c \<and> c \<le> 43 then Goto [] 21
       else Halt)
      else if c \<ge> 35 then Goto [] 21
      else Halt)
     else if c > 46 then (if c < 65 then (if 48 \<le> c \<and> c \<le> 57 then Goto [] 21
       else Halt)
      else if c > 90 then (if 94 \<le> c \<and> c \<le> 122 then Goto [] 21
       else Halt)
      else Goto [] 21)
     else Goto [] 21)"

definition cl_state_51 :: "int \<Rightarrow> cl_jump" where
  "cl_state_51 c =
    (if c = 33 then Goto [] 21
     else if c = 45 then Goto [] 52
     else if c = 46 then Goto [] 21
     else if c = 58 then cl_tr_39
     else if c = 124 then Goto [] 21
     else if c = 126 then Goto [] 21
     else if c < 48 then (if c > 39 then (if 42 \<le> c \<and> c \<le> 43 then Goto [] 21
       else Halt)
      else if c \<ge> 35 then Goto [] 21
      else Halt)
     else if c > 57 then (if c > 90 then (if 94 \<le> c \<and> c \<le> 122 then Goto [] 21
       else Halt)
      else if c \<ge> 65 then Goto [] 21
      else Halt)
     else Goto [] 21)"

definition cl_state_52 :: "int \<Rightarrow> cl_jump" where
  "cl_state_52 c =
    (if c = 33 then Goto [] 21
     else if c = 58 then cl_tr_39
     else if c = 69 then Goto [] 53
     else if c = 101 then Goto [] 53
     else if c = 124 then Goto [] 21
     else if c = 126 then Goto [] 21
     else if c < 45 then (if c > 39 then (if 42 \<le> c \<and> c \<le> 43 then Goto [] 21
       else Halt)
      else if c \<ge> 35 then Goto [] 21
      else Halt)
     else if c > 46 then (if c < 65 then (if 48 \<le> c \<and> c \<le> 57 then Goto [] 21
       else Halt)
      else if c > 90 then (if 94 \<le> c \<and> c \<le> 122 then Goto [] 21
       else Halt)
      else Goto [] 21)
     else Goto [] 21)"

definition cl_state_53 :: "int \<Rightarrow> cl_jump" where
  "cl_state_53 c =
    (if c = 33 then Goto [] 21
     else if c = 58 then cl_tr_39
     else if c = 78 then Goto [] 54
     else if c = 110 then Goto [] 54
     else if c = 124 then Goto [] 21
     else if c = 126 then Goto [] 21
     else if c < 45 then (if c > 39 then (if 42 \<le> c \<and> c \<le> 43 then Goto [] 21
       else Halt)
      else if c \<ge> 35 then Goto [] 21
      else Halt)
     else if c > 46 then (if c < 65 then (if 48 \<le> c \<and> c \<le> 57 then Goto [] 21
       else Halt)
      else if c > 90 then (if 94 \<le> c \<and> c \<le> 122 then Goto [] 21
       else Halt)
      else Goto [] 21)
     else Goto [] 21)"

definition cl_state_54 :: "int \<Rightarrow> cl_jump" where
  "cl_state_54 c =
    (if c = 33 then Goto [] 21
     else if c = 58 then cl_tr_39
     else if c = 67 then Goto [] 55
     else if c = 99 then Goto [] 55
     else if c = 124 then Goto [] 21
     else if c = 126 then Goto [] 21
     else if c < 45 then (if c > 39 then (if 42 \<le> c \<and> c \<le> 43 then Goto [] 21
       else Halt)
      else if c \<ge> 35 then Goto [] 21
      else Halt)
     else if c > 46 then (if c < 65 then (if 48 \<le> c \<and> c \<le> 57 then Goto [] 21
       else Halt)
      else if c > 90 then (if 94 \<le> c \<and> c \<le> 122 then Goto [] 21
       else Halt)
      else Goto [] 21)
     else Goto [] 21)"

definition cl_state_55 :: "int \<Rightarrow> cl_jump" where
  "cl_state_55 c =
    (if c = 33 then Goto [] 21
     else if c = 58 then cl_tr_39
     else if c = 79 then Goto [] 56
     else if c = 111 then Goto [] 56
     else if c = 124 then Goto [] 21
     else if c = 126 then Goto [] 21
     else if c < 45 then (if c > 39 then (if 42 \<le> c \<and> c \<le> 43 then Goto [] 21
       else Halt)
      else if c \<ge> 35 then Goto [] 21
      else Halt)
     else if c > 46 then (if c < 65 then (if 48 \<le> c \<and> c \<le> 57 then Goto [] 21
       else Halt)
      else if c > 90 then (if 94 \<le> c \<and> c \<le> 122 then Goto [] 21
       else Halt)
      else Goto [] 21)
     else Goto [] 21)"

definition cl_state_56 :: "int \<Rightarrow> cl_jump" where
  "cl_state_56 c =
    (if c = 33 then Goto [] 21
     else if c = 58 then cl_tr_39
     else if c = 68 then Goto [] 57
     else if c = 100 then Goto [] 57
     else if c = 124 then Goto [] 21
     else if c = 126 then Goto [] 21
     else if c < 45 then (if c > 39 then (if 42 \<le> c \<and> c \<le> 43 then Goto [] 21
       else Halt)
      else if c \<ge> 35 then Goto [] 21
      else Halt)
     else if c > 46 then (if c < 65 then (if 48 \<le> c \<and> c \<le> 57 then Goto [] 21
       else Halt)
      else if c > 90 then (if 94 \<le> c \<and> c \<le> 122 then Goto [] 21
       else Halt)
      else Goto [] 21)
     else Goto [] 21)"

definition cl_state_57 :: "int \<Rightarrow> cl_jump" where
  "cl_state_57 c =
    (if c = 33 then Goto [] 21
     else if c = 58 then cl_tr_39
     else if c = 73 then Goto [] 58
     else if c = 105 then Goto [] 58
     else if c = 124 then Goto [] 21
     else if c = 126 then Goto [] 21
     else if c < 45 then (if c > 39 then (if 42 \<le> c \<and> c \<le> 43 then Goto [] 21
       else Halt)
      else if c \<ge> 35 then Goto [] 21
      else Halt)
     else if c > 46 then (if c < 65 then (if 48 \<le> c \<and> c \<le> 57 then Goto [] 21
       else Halt)
      else if c > 90 then (if 94 \<le> c \<and> c \<le> 122 then Goto [] 21
       else Halt)
      else Goto [] 21)
     else Goto [] 21)"

definition cl_state_58 :: "int \<Rightarrow> cl_jump" where
  "cl_state_58 c =
    (if c = 33 then Goto [] 21
     else if c = 58 then cl_tr_39
     else if c = 78 then Goto [] 59
     else if c = 110 then Goto [] 59
     else if c = 124 then Goto [] 21
     else if c = 126 then Goto [] 21
     else if c < 45 then (if c > 39 then (if 42 \<le> c \<and> c \<le> 43 then Goto [] 21
       else Halt)
      else if c \<ge> 35 then Goto [] 21
      else Halt)
     else if c > 46 then (if c < 65 then (if 48 \<le> c \<and> c \<le> 57 then Goto [] 21
       else Halt)
      else if c > 90 then (if 94 \<le> c \<and> c \<le> 122 then Goto [] 21
       else Halt)
      else Goto [] 21)
     else Goto [] 21)"

definition cl_state_59 :: "int \<Rightarrow> cl_jump" where
  "cl_state_59 c =
    (if c = 33 then Goto [] 21
     else if c = 58 then cl_tr_39
     else if c = 71 then Goto [] 60
     else if c = 103 then Goto [] 60
     else if c = 124 then Goto [] 21
     else if c = 126 then Goto [] 21
     else if c < 45 then (if c > 39 then (if 42 \<le> c \<and> c \<le> 43 then Goto [] 21
       else Halt)
      else if c \<ge> 35 then Goto [] 21
      else Halt)
     else if c > 46 then (if c < 65 then (if 48 \<le> c \<and> c \<le> 57 then Goto [] 21
       else Halt)
      else if c > 90 then (if 94 \<le> c \<and> c \<le> 122 then Goto [] 21
       else Halt)
      else Goto [] 21)
     else Goto [] 21)"

definition cl_state_60 :: "int \<Rightarrow> cl_jump" where
  "cl_state_60 c =
    (if c = 33 then Goto [] 21
     else if c = 58 then cl_tr_95
     else if c = 124 then Goto [] 21
     else if c = 126 then Goto [] 21
     else if c < 45 then (if c > 39 then (if 42 \<le> c \<and> c \<le> 43 then Goto [] 21
       else Halt)
      else if c \<ge> 35 then Goto [] 21
      else Halt)
     else if c > 46 then (if c < 65 then (if 48 \<le> c \<and> c \<le> 57 then Goto [] 21
       else Halt)
      else if c > 90 then (if 94 \<le> c \<and> c \<le> 122 then Goto [] 21
       else Halt)
      else Goto [] 21)
     else Goto [] 21)"

definition cl_state_61 :: "int \<Rightarrow> cl_jump" where
  "cl_state_61 c =
    (if c = 10 then cl_tr_97
     else if c = 13 then cl_tr_98
     else if c = 32 then cl_tr_96
     else if c = 67 then cl_tr_99
     else if c = 99 then cl_tr_99
     else if 9 \<le> c \<and> c \<le> 12 then cl_tr_96
     else cl_tr_40)"

definition cl_state_62 :: "int \<Rightarrow> cl_jump" where
  "cl_state_62 c =
    (if c = 10 then cl_tr_101
     else if c = 13 then Goto [] 72
     else if c = 32 then Goto [] 63
     else if c = 33 then cl_tr_35
     else if c = 67 then cl_tr_103
     else if c = 84 then cl_tr_37
     else if c = 99 then cl_tr_103
     else if c = 116 then cl_tr_37
     else if c = 124 then cl_tr_35
     else if c = 126 then cl_tr_35
     else if c < 45 then (if c < 35 then (if 9 \<le> c \<and> c \<le> 12 then Goto [] 63
       else Halt)
      else if c > 39 then (if 42 \<le> c \<and> c \<le> 43 then cl_tr_35
       else Halt)
      else cl_tr_35)
     else if c > 46 then (if c < 65 then (if 48 \<le> c \<and> c \<le> 57 then cl_tr_35
       else Halt)
      else if c > 90 then (if 94 \<le> c \<and> c \<le> 122 then cl_tr_35
       else Halt)
      else cl_tr_35)
     else cl_tr_35)"

definition cl_state_63 :: "int \<Rightarrow> cl_jump" where
  "cl_state_63 c =
    (if c = 32 then Goto [] 63
     else if c = 67 then cl_tr_104
     else if c = 99 then cl_tr_104
     else if 9 \<le> c \<and> c \<le> 13 then Goto [] 63
     else Halt)"

definition cl_state_64 :: "int \<Rightarrow> cl_jump" where
  "cl_state_64 c =
    (if c = 72 then Goto [] 65
     else if c = 104 then Goto [] 65
     else Halt)"

definition cl_state_65 :: "int \<Rightarrow> cl_jump" where
  "cl_state_65 c =
    (if c = 85 then Goto [] 66
     else if c = 117 then Goto [] 66
     else Halt)"

definition cl_state_66 :: "int \<Rightarrow> cl_jump" where
  "cl_state_66 c =
    (if c = 78 then Goto [] 67
     else if c = 110 then Goto [] 67
     else Halt)"

definition cl_state_67 :: "int \<Rightarrow> cl_jump" where
  "cl_state_67 c =
    (if c = 75 then Goto [] 68
     else if c = 107 then Goto [] 68
     else Halt)"

definition cl_state_68 :: "int \<Rightarrow> cl_jump" where
  "cl_state_68 c =
    (if c = 69 then Goto [] 69
     else if c = 101 then Goto [] 69
     else Halt)"

definition cl_state_69 :: "int \<Rightarrow> cl_jump" where
  "cl_state_69 c =
    (if c = 68 then Goto [] 70
     else if c = 100 then Goto [] 70
     else Halt)"

definition cl_state_70 :: "int \<Rightarrow> cl_jump" where
  "cl_state_70 c =
    (if c = 10 then cl_tr_111
     else if c = 13 then cl_tr_112
     else Halt)"

definition cl_state_71 :: "int \<Rightarrow> cl_jump" where
  "cl_state_71 c =
    (if c = 10 then cl_tr_113
     else Halt)"

definition cl_state_72 :: "int \<Rightarrow> cl_jump" where
  "cl_state_72 c =
    (if c = 10 then cl_tr_101
     else if c = 32 then Goto [] 63
     else if c = 67 then cl_tr_104
     else if c = 99 then cl_tr_104
     else if 9 \<le> c \<and> c \<le> 13 then Goto [] 63
     else Halt)"

definition cl_state_73 :: "int \<Rightarrow> cl_jump" where
  "cl_state_73 c =
    (if c = 33 then Goto [] 21
     else if c = 58 then cl_tr_39
     else if c = 72 then Goto [] 74
     else if c = 79 then Goto [] 26
     else if c = 104 then Goto [] 74
     else if c = 111 then Goto [] 26
     else if c = 124 then Goto [] 21
     else if c = 126 then Goto [] 21
     else if c < 45 then (if c > 39 then (if 42 \<le> c \<and> c \<le> 43 then Goto [] 21
       else Halt)
      else if c \<ge> 35 then Goto [] 21
      else Halt)
     else if c > 46 then (if c < 65 then (if 48 \<le> c \<and> c \<le> 57 then Goto [] 21
       else Halt)
      else if c > 90 then (if 94 \<le> c \<and> c \<le> 122 then Goto [] 21
       else Halt)
      else Goto [] 21)
     else Goto [] 21)"

definition cl_state_74 :: "int \<Rightarrow> cl_jump" where
  "cl_state_74 c =
    (if c = 33 then Goto [] 21
     else if c = 58 then cl_tr_39
     else if c = 85 then Goto [] 75
     else if c = 117 then Goto [] 75
     else if c = 124 then Goto [] 21
     else if c = 126 then Goto [] 21
     else if c < 45 then (if c > 39 then (if 42 \<le> c \<and> c \<le> 43 then Goto [] 21
       else Halt)
      else if c \<ge> 35 then Goto [] 21
      else Halt)
     else if c > 46 then (if c < 65 then (if 48 \<le> c \<and> c \<le> 57 then Goto [] 21
       else Halt)
      else if c > 90 then (if 94 \<le> c \<and> c \<le> 122 then Goto [] 21
       else Halt)
      else Goto [] 21)
     else Goto [] 21)"

definition cl_state_75 :: "int \<Rightarrow> cl_jump" where
  "cl_state_75 c =
    (if c = 33 then Goto [] 21
     else if c = 58 then cl_tr_39
     else if c = 78 then Goto [] 76
     else if c = 110 then Goto [] 76
     else if c = 124 then Goto [] 21
     else if c = 126 then Goto [] 21
     else if c < 45 then (if c > 39 then (if 42 \<le> c \<and> c \<le> 43 then Goto [] 21
       else Halt)
      else if c \<ge> 35 then Goto [] 21
      else Halt)
     else if c > 46 then (if c < 65 then (if 48 \<le> c \<and> c \<le> 57 then Goto [] 21
       else Halt)
      else if c > 90 then (if 94 \<le> c \<and> c \<le> 122 then Goto [] 21
       else Halt)
      else Goto [] 21)
     else Goto [] 21)"

definition cl_state_76 :: "int \<Rightarrow> cl_jump" where
  "cl_state_76 c =
    (if c = 33 then Goto [] 21
     else if c = 58 then cl_tr_39
     else if c = 75 then Goto [] 77
     else if c = 107 then Goto [] 77
     else if c = 124 then Goto [] 21
     else if c = 126 then Goto [] 21
     else if c < 45 then (if c > 39 then (if 42 \<le> c \<and> c \<le> 43 then Goto [] 21
       else Halt)
      else if c \<ge> 35 then Goto [] 21
      else Halt)
     else if c > 46 then (if c < 65 then (if 48 \<le> c \<and> c \<le> 57 then Goto [] 21
       else Halt)
      else if c > 90 then (if 94 \<le> c \<and> c \<le> 122 then Goto [] 21
       else Halt)
      else Goto [] 21)
     else Goto [] 21)"

definition cl_state_77 :: "int \<Rightarrow> cl_jump" where
  "cl_state_77 c =
    (if c = 33 then Goto [] 21
     else if c = 58 then cl_tr_39
     else if c = 69 then Goto [] 78
     else if c = 101 then Goto [] 78
     else if c = 124 then Goto [] 21
     else if c = 126 then Goto [] 21
     else if c < 45 then (if c > 39 then (if 42 \<le> c \<and> c \<le> 43 then Goto [] 21
       else Halt)
      else if c \<ge> 35 then Goto [] 21
      else Halt)
     else if c > 46 then (if c < 65 then (if 48 \<le> c \<and> c \<le> 57 then Goto [] 21
       else Halt)
      else if c > 90 then (if 94 \<le> c \<and> c \<le> 122 then Goto [] 21
       else Halt)
      else Goto [] 21)
     else Goto [] 21)"

definition cl_state_78 :: "int \<Rightarrow> cl_jump" where
  "cl_state_78 c =
    (if c = 33 then Goto [] 21
     else if c = 58 then cl_tr_39
     else if c = 68 then Goto [] 79
     else if c = 100 then Goto [] 79
     else if c = 124 then Goto [] 21
     else if c = 126 then Goto [] 21
     else if c < 45 then (if c > 39 then (if 42 \<le> c \<and> c \<le> 43 then Goto [] 21
       else Halt)
      else if c \<ge> 35 then Goto [] 21
      else Halt)
     else if c > 46 then (if c < 65 then (if 48 \<le> c \<and> c \<le> 57 then Goto [] 21
       else Halt)
      else if c > 90 then (if 94 \<le> c \<and> c \<le> 122 then Goto [] 21
       else Halt)
      else Goto [] 21)
     else Goto [] 21)"

definition cl_state_79 :: "int \<Rightarrow> cl_jump" where
  "cl_state_79 c =
    (if c = 10 then cl_tr_111
     else if c = 13 then cl_tr_112
     else if c = 33 then Goto [] 21
     else if c = 58 then cl_tr_39
     else if c = 124 then Goto [] 21
     else if c = 126 then Goto [] 21
     else if c < 45 then (if c > 39 then (if 42 \<le> c \<and> c \<le> 43 then Goto [] 21
       else Halt)
      else if c \<ge> 35 then Goto [] 21
      else Halt)
     else if c > 46 then (if c < 65 then (if 48 \<le> c \<and> c \<le> 57 then Goto [] 21
       else Halt)
      else if c > 90 then (if 94 \<le> c \<and> c \<le> 122 then Goto [] 21
       else Halt)
      else Goto [] 21)
     else Goto [] 21)"

definition cl_state_80 :: "int \<Rightarrow> cl_jump" where
  "cl_state_80 c =
    (if c = 10 then Goto [] 62
     else if c = 32 then Goto [] 63
     else if c = 67 then cl_tr_104
     else if c = 99 then cl_tr_104
     else if 9 \<le> c \<and> c \<le> 13 then Goto [] 63
     else Halt)"

definition cl_state_81 :: "int \<Rightarrow> cl_jump" where
  "cl_state_81 c =
    (if c = 10 then cl_tr_45
     else if c = 13 then cl_tr_46
     else if c = 72 then Goto [] 82
     else if c = 104 then Goto [] 82
     else Goto [] 23)"

definition cl_state_82 :: "int \<Rightarrow> cl_jump" where
  "cl_state_82 c =
    (if c = 10 then cl_tr_45
     else if c = 13 then cl_tr_46
     else if c = 85 then Goto [] 83
     else if c = 117 then Goto [] 83
     else Goto [] 23)"

definition cl_state_83 :: "int \<Rightarrow> cl_jump" where
  "cl_state_83 c =
    (if c = 10 then cl_tr_45
     else if c = 13 then cl_tr_46
     else if c = 78 then Goto [] 84
     else if c = 110 then Goto [] 84
     else Goto [] 23)"

definition cl_state_84 :: "int \<Rightarrow> cl_jump" where
  "cl_state_84 c =
    (if c = 10 then cl_tr_45
     else if c = 13 then cl_tr_46
     else if c = 75 then Goto [] 85
     else if c = 107 then Goto [] 85
     else Goto [] 23)"

definition cl_state_85 :: "int \<Rightarrow> cl_jump" where
  "cl_state_85 c =
    (if c = 10 then cl_tr_45
     else if c = 13 then cl_tr_46
     else if c = 69 then Goto [] 86
     else if c = 101 then Goto [] 86
     else Goto [] 23)"

definition cl_state_86 :: "int \<Rightarrow> cl_jump" where
  "cl_state_86 c =
    (if c = 10 then cl_tr_45
     else if c = 13 then cl_tr_46
     else if c = 68 then Goto [] 87
     else if c = 100 then Goto [] 87
     else Goto [] 23)"

definition cl_state_87 :: "int \<Rightarrow> cl_jump" where
  "cl_state_87 c =
    (if c = 10 then cl_tr_111
     else if c = 13 then cl_tr_112
     else Goto [] 23)"

definition cl_state_88 :: "int \<Rightarrow> cl_jump" where
  "cl_state_88 c =
    (if c = 10 then Goto [] 43
     else Halt)"

definition cl_state_89 :: "int \<Rightarrow> cl_jump" where
  "cl_state_89 c =
    (if c = 10 then cl_tr_64
     else if c = 32 then Goto [] 37
     else if c = 67 then Goto [] 38
     else if c = 99 then Goto [] 38
     else if 9 \<le> c \<and> c \<le> 13 then Goto [] 37
     else Halt)"

definition cl_state_90 :: "int \<Rightarrow> cl_jump" where
  "cl_state_90 c =
    (if c = 33 then Goto [] 21
     else if c = 58 then cl_tr_39
     else if c = 76 then Goto [] 91
     else if c = 79 then Goto [] 26
     else if c = 108 then Goto [] 91
     else if c = 111 then Goto [] 26
     else if c = 124 then Goto [] 21
     else if c = 126 then Goto [] 21
     else if c < 45 then (if c > 39 then (if 42 \<le> c \<and> c \<le> 43 then Goto [] 21
       else Halt)
      else if c \<ge> 35 then Goto [] 21
      else Halt)
     else if c > 46 then (if c < 65 then (if 48 \<le> c \<and> c \<le> 57 then Goto [] 21
       else Halt)
      else if c > 90 then (if 94 \<le> c \<and> c \<le> 122 then Goto [] 21
       else Halt)
      else Goto [] 21)
     else Goto [] 21)"

definition cl_state_91 :: "int \<Rightarrow> cl_jump" where
  "cl_state_91 c =
    (if c = 33 then Goto [] 21
     else if c = 58 then cl_tr_39
     else if c = 79 then Goto [] 92
     else if c = 111 then Goto [] 92
     else if c = 124 then Goto [] 21
     else if c = 126 then Goto [] 21
     else if c < 45 then (if c > 39 then (if 42 \<le> c \<and> c \<le> 43 then Goto [] 21
       else Halt)
      else if c \<ge> 35 then Goto [] 21
      else Halt)
     else if c > 46 then (if c < 65 then (if 48 \<le> c \<and> c \<le> 57 then Goto [] 21
       else Halt)
      else if c > 90 then (if 94 \<le> c \<and> c \<le> 122 then Goto [] 21
       else Halt)
      else Goto [] 21)
     else Goto [] 21)"

definition cl_state_92 :: "int \<Rightarrow> cl_jump" where
  "cl_state_92 c =
    (if c = 33 then Goto [] 21
     else if c = 58 then cl_tr_39
     else if c = 83 then Goto [] 93
     else if c = 115 then Goto [] 93
     else if c = 124 then Goto [] 21
     else if c = 126 then Goto [] 21
     else if c < 45 then (if c > 39 then (if 42 \<le> c \<and> c \<le> 43 then Goto [] 21
       else Halt)
      else if c \<ge> 35 then Goto [] 21
      else Halt)
     else if c > 46 then (if c < 65 then (if 48 \<le> c \<and> c \<le> 57 then Goto [] 21
       else Halt)
      else if c > 90 then (if 94 \<le> c \<and> c \<le> 122 then Goto [] 21
       else Halt)
      else Goto [] 21)
     else Goto [] 21)"

definition cl_state_93 :: "int \<Rightarrow> cl_jump" where
  "cl_state_93 c =
    (if c = 33 then Goto [] 21
     else if c = 58 then cl_tr_39
     else if c = 69 then Goto [] 94
     else if c = 101 then Goto [] 94
     else if c = 124 then Goto [] 21
     else if c = 126 then Goto [] 21
     else if c < 45 then (if c > 39 then (if 42 \<le> c \<and> c \<le> 43 then Goto [] 21
       else Halt)
      else if c \<ge> 35 then Goto [] 21
      else Halt)
     else if c > 46 then (if c < 65 then (if 48 \<le> c \<and> c \<le> 57 then Goto [] 21
       else Halt)
      else if c > 90 then (if 94 \<le> c \<and> c \<le> 122 then Goto [] 21
       else Halt)
      else Goto [] 21)
     else Goto [] 21)"

definition cl_state_94 :: "int \<Rightarrow> cl_jump" where
  "cl_state_94 c =
    (if c = 10 then Goto [] 43
     else if c = 13 then Goto [] 88
     else if c = 33 then Goto [] 21
     else if c = 58 then cl_tr_39
     else if c = 124 then Goto [] 21
     else if c = 126 then Goto [] 21
     else if c < 45 then (if c > 39 then (if 42 \<le> c \<and> c \<le> 43 then Goto [] 21
       else Halt)
      else if c \<ge> 35 then Goto [] 21
      else Halt)
     else if c > 46 then (if c < 65 then (if 48 \<le> c \<and> c \<le> 57 then Goto [] 21
       else Halt)
      else if c > 90 then (if 94 \<le> c \<and> c \<le> 122 then Goto [] 21
       else Halt)
      else Goto [] 21)
     else Goto [] 21)"

definition cl_state_95 :: "int \<Rightarrow> cl_jump" where
  "cl_state_95 c =
    (if c = 10 then Goto [] 36
     else if c = 32 then Goto [] 37
     else if c = 67 then Goto [] 38
     else if c = 99 then Goto [] 38
     else if 9 \<le> c \<and> c \<le> 13 then Goto [] 37
     else Halt)"

definition cl_state_96 :: "int \<Rightarrow> cl_jump" where
  "cl_state_96 c =
    (if c = 10 then cl_tr_45
     else if c = 13 then cl_tr_46
     else if c = 76 then Goto [] 97
     else if c = 108 then Goto [] 97
     else Goto [] 23)"

definition cl_state_97 :: "int \<Rightarrow> cl_jump" where
  "cl_state_97 c =
    (if c = 10 then cl_tr_45
     else if c = 13 then cl_tr_46
     else if c = 79 then Goto [] 98
     else if c = 111 then Goto [] 98
     else Goto [] 23)"

definition cl_state_98 :: "int \<Rightarrow> cl_jump" where
  "cl_state_98 c =
    (if c = 10 then cl_tr_45
     else if c = 13 then cl_tr_46
     else if c = 83 then Goto [] 99
     else if c = 115 then Goto [] 99
     else Goto [] 23)"

definition cl_state_99 :: "int \<Rightarrow> cl_jump" where
  "cl_state_99 c =
    (if c = 10 then cl_tr_45
     else if c = 13 then cl_tr_46
     else if c = 69 then Goto [] 100
     else if c = 101 then Goto [] 100
     else Goto [] 23)"

definition cl_state_100 :: "int \<Rightarrow> cl_jump" where
  "cl_state_100 c =
    (if c = 10 then cl_tr_136
     else if c = 13 then cl_tr_137
     else Goto [] 23)"

definition cl_state_101 :: "int \<Rightarrow> cl_jump" where
  "cl_state_101 c =
    (if c = 33 then Goto [] 21
     else if c = 58 then cl_tr_39
     else if c = 69 then Goto [] 102
     else if c = 101 then Goto [] 102
     else if c = 124 then Goto [] 21
     else if c = 126 then Goto [] 21
     else if c < 45 then (if c > 39 then (if 42 \<le> c \<and> c \<le> 43 then Goto [] 21
       else Halt)
      else if c \<ge> 35 then Goto [] 21
      else Halt)
     else if c > 46 then (if c < 65 then (if 48 \<le> c \<and> c \<le> 57 then Goto [] 21
       else Halt)
      else if c > 90 then (if 94 \<le> c \<and> c \<le> 122 then Goto [] 21
       else Halt)
      else Goto [] 21)
     else Goto [] 21)"

definition cl_state_102 :: "int \<Rightarrow> cl_jump" where
  "cl_state_102 c =
    (if c = 33 then Goto [] 21
     else if c = 58 then cl_tr_39
     else if c = 78 then Goto [] 103
     else if c = 110 then Goto [] 103
     else if c = 124 then Goto [] 21
     else if c = 126 then Goto [] 21
     else if c < 45 then (if c > 39 then (if 42 \<le> c \<and> c \<le> 43 then Goto [] 21
       else Halt)
      else if c \<ge> 35 then Goto [] 21
      else Halt)
     else if c > 46 then (if c < 65 then (if 48 \<le> c \<and> c \<le> 57 then Goto [] 21
       else Halt)
      else if c > 90 then (if 94 \<le> c \<and> c \<le> 122 then Goto [] 21
       else Halt)
      else Goto [] 21)
     else Goto [] 21)"

definition cl_state_103 :: "int \<Rightarrow> cl_jump" where
  "cl_state_103 c =
    (if c = 33 then Goto [] 21
     else if c = 58 then cl_tr_39
     else if c = 84 then Goto [] 104
     else if c = 116 then Goto [] 104
     else if c = 124 then Goto [] 21
     else if c = 126 then Goto [] 21
     else if c < 45 then (if c > 39 then (if 42 \<le> c \<and> c \<le> 43 then Goto [] 21
       else Halt)
      else if c \<ge> 35 then Goto [] 21
      else Halt)
     else if c > 46 then (if c < 65 then (if 48 \<le> c \<and> c \<le> 57 then Goto [] 21
       else Halt)
      else if c > 90 then (if 94 \<le> c \<and> c \<le> 122 then Goto [] 21
       else Halt)
      else Goto [] 21)
     else Goto [] 21)"

definition cl_state_104 :: "int \<Rightarrow> cl_jump" where
  "cl_state_104 c =
    (if c = 33 then Goto [] 21
     else if c = 45 then Goto [] 105
     else if c = 46 then Goto [] 21
     else if c = 58 then cl_tr_39
     else if c = 124 then Goto [] 21
     else if c = 126 then Goto [] 21
     else if c < 48 then (if c > 39 then (if 42 \<le> c \<and> c \<le> 43 then Goto [] 21
       else Halt)
      else if c \<ge> 35 then Goto [] 21
      else Halt)
     else if c > 57 then (if c > 90 then (if 94 \<le> c \<and> c \<le> 122 then Goto [] 21
       else Halt)
      else if c \<ge> 65 then Goto [] 21
      else Halt)
     else Goto [] 21)"

definition cl_state_105 :: "int \<Rightarrow> cl_jump" where
  "cl_state_105 c =
    (if c = 33 then Goto [] 21
     else if c = 58 then cl_tr_39
     else if c = 76 then Goto [] 106
     else if c = 108 then Goto [] 106
     else if c = 124 then Goto [] 21
     else if c = 126 then Goto [] 21
     else if c < 45 then (if c > 39 then (if 42 \<le> c \<and> c \<le> 43 then Goto [] 21
       else Halt)
      else if c \<ge> 35 then Goto [] 21
      else Halt)
     else if c > 46 then (if c < 65 then (if 48 \<le> c \<and> c \<le> 57 then Goto [] 21
       else Halt)
      else if c > 90 then (if 94 \<le> c \<and> c \<le> 122 then Goto [] 21
       else Halt)
      else Goto [] 21)
     else Goto [] 21)"

definition cl_state_106 :: "int \<Rightarrow> cl_jump" where
  "cl_state_106 c =
    (if c = 33 then Goto [] 21
     else if c = 58 then cl_tr_39
     else if c = 69 then Goto [] 107
     else if c = 101 then Goto [] 107
     else if c = 124 then Goto [] 21
     else if c = 126 then Goto [] 21
     else if c < 45 then (if c > 39 then (if 42 \<le> c \<and> c \<le> 43 then Goto [] 21
       else Halt)
      else if c \<ge> 35 then Goto [] 21
      else Halt)
     else if c > 46 then (if c < 65 then (if 48 \<le> c \<and> c \<le> 57 then Goto [] 21
       else Halt)
      else if c > 90 then (if 94 \<le> c \<and> c \<le> 122 then Goto [] 21
       else Halt)
      else Goto [] 21)
     else Goto [] 21)"

definition cl_state_107 :: "int \<Rightarrow> cl_jump" where
  "cl_state_107 c =
    (if c = 33 then Goto [] 21
     else if c = 58 then cl_tr_39
     else if c = 78 then Goto [] 108
     else if c = 110 then Goto [] 108
     else if c = 124 then Goto [] 21
     else if c = 126 then Goto [] 21
     else if c < 45 then (if c > 39 then (if 42 \<le> c \<and> c \<le> 43 then Goto [] 21
       else Halt)
      else if c \<ge> 35 then Goto [] 21
      else Halt)
     else if c > 46 then (if c < 65 then (if 48 \<le> c \<and> c \<le> 57 then Goto [] 21
       else Halt)
      else if c > 90 then (if 94 \<le> c \<and> c \<le> 122 then Goto [] 21
       else Halt)
      else Goto [] 21)
     else Goto [] 21)"

definition cl_state_108 :: "int \<Rightarrow> cl_jump" where
  "cl_state_108 c =
    (if c = 33 then Goto [] 21
     else if c = 58 then cl_tr_39
     else if c = 71 then Goto [] 109
     else if c = 103 then Goto [] 109
     else if c = 124 then Goto [] 21
     else if c = 126 then Goto [] 21
     else if c < 45 then (if c > 39 then (if 42 \<le> c \<and> c \<le> 43 then Goto [] 21
       else Halt)
      else if c \<ge> 35 then Goto [] 21
      else Halt)
     else if c > 46 then (if c < 65 then (if 48 \<le> c \<and> c \<le> 57 then Goto [] 21
       else Halt)
      else if c > 90 then (if 94 \<le> c \<and> c \<le> 122 then Goto [] 21
       else Halt)
      else Goto [] 21)
     else Goto [] 21)"

definition cl_state_109 :: "int \<Rightarrow> cl_jump" where
  "cl_state_109 c =
    (if c = 33 then Goto [] 21
     else if c = 58 then cl_tr_39
     else if c = 84 then Goto [] 110
     else if c = 116 then Goto [] 110
     else if c = 124 then Goto [] 21
     else if c = 126 then Goto [] 21
     else if c < 45 then (if c > 39 then (if 42 \<le> c \<and> c \<le> 43 then Goto [] 21
       else Halt)
      else if c \<ge> 35 then Goto [] 21
      else Halt)
     else if c > 46 then (if c < 65 then (if 48 \<le> c \<and> c \<le> 57 then Goto [] 21
       else Halt)
      else if c > 90 then (if 94 \<le> c \<and> c \<le> 122 then Goto [] 21
       else Halt)
      else Goto [] 21)
     else Goto [] 21)"

definition cl_state_110 :: "int \<Rightarrow> cl_jump" where
  "cl_state_110 c =
    (if c = 33 then Goto [] 21
     else if c = 58 then cl_tr_39
     else if c = 72 then Goto [] 111
     else if c = 104 then Goto [] 111
     else if c = 124 then Goto [] 21
     else if c = 126 then Goto [] 21
     else if c < 45 then (if c > 39 then (if 42 \<le> c \<and> c \<le> 43 then Goto [] 21
       else Halt)
      else if c \<ge> 35 then Goto [] 21
      else Halt)
     else if c > 46 then (if c < 65 then (if 48 \<le> c \<and> c \<le> 57 then Goto [] 21
       else Halt)
      else if c > 90 then (if 94 \<le> c \<and> c \<le> 122 then Goto [] 21
       else Halt)
      else Goto [] 21)
     else Goto [] 21)"

definition cl_state_111 :: "int \<Rightarrow> cl_jump" where
  "cl_state_111 c =
    (if c = 33 then Goto [] 21
     else if c = 58 then cl_tr_148
     else if c = 124 then Goto [] 21
     else if c = 126 then Goto [] 21
     else if c < 45 then (if c > 39 then (if 42 \<le> c \<and> c \<le> 43 then Goto [] 21
       else Halt)
      else if c \<ge> 35 then Goto [] 21
      else Halt)
     else if c > 46 then (if c < 65 then (if 48 \<le> c \<and> c \<le> 57 then Goto [] 21
       else Halt)
      else if c > 90 then (if 94 \<le> c \<and> c \<le> 122 then Goto [] 21
       else Halt)
      else Goto [] 21)
     else Goto [] 21)"

definition cl_state_112 :: "int \<Rightarrow> cl_jump" where
  "cl_state_112 c =
    (if c = 10 then cl_tr_150
     else if c = 13 then cl_tr_151
     else if c = 32 then cl_tr_149
     else if c > 12 then (if 48 \<le> c \<and> c \<le> 57 then cl_tr_152
      else cl_tr_40)
     else if c \<ge> 9 then cl_tr_149
     else cl_tr_40)"

definition cl_state_113 :: "int \<Rightarrow> cl_jump" where
  "cl_state_113 c =
    (if c = 10 then cl_tr_154
     else if c = 13 then Goto [] 116
     else if c = 32 then Goto [] 114
     else if c = 33 then cl_tr_35
     else if c = 67 then cl_tr_36
     else if c = 84 then cl_tr_37
     else if c = 99 then cl_tr_36
     else if c = 116 then cl_tr_37
     else if c = 124 then cl_tr_35
     else if c = 126 then cl_tr_35
     else if c < 45 then (if c < 35 then (if 9 \<le> c \<and> c \<le> 12 then Goto [] 114
       else Halt)
      else if c > 39 then (if 42 \<le> c \<and> c \<le> 43 then cl_tr_35
       else Halt)
      else cl_tr_35)
     else if c > 46 then (if c < 65 then (if 48 \<le> c \<and> c \<le> 57 then cl_tr_156
       else Halt)
      else if c > 90 then (if 94 \<le> c \<and> c \<le> 122 then cl_tr_35
       else Halt)
      else cl_tr_35)
     else cl_tr_35)"

definition cl_state_114 :: "int \<Rightarrow> cl_jump" where
  "cl_state_114 c =
    (if c = 32 then Goto [] 114
     else if c > 13 then (if 48 \<le> c \<and> c \<le> 57 then cl_tr_157
      else Halt)
     else if c \<ge> 9 then Goto [] 114
     else Halt)"

definition cl_state_115 :: "int \<Rightarrow> cl_jump" where
  "cl_state_115 c =
    (if c = 10 then cl_tr_158
     else if c = 13 then cl_tr_159
     else if 48 \<le> c \<and> c \<le> 57 then Goto [] 115
     else Halt)"

definition cl_state_116 :: "int \<Rightarrow> cl_jump" where
  "cl_state_116 c =
    (if c = 10 then cl_tr_154
     else if c = 32 then Goto [] 114
     else if c > 13 then (if 48 \<le> c \<and> c \<le> 57 then cl_tr_157
      else Halt)
     else if c \<ge> 9 then Goto [] 114
     else Halt)"

definition cl_state_117 :: "int \<Rightarrow> cl_jump" where
  "cl_state_117 c =
    (if c = 10 then cl_tr_158
     else if c = 13 then cl_tr_159
     else if c = 33 then Goto [] 21
     else if c = 58 then cl_tr_39
     else if c = 124 then Goto [] 21
     else if c = 126 then Goto [] 21
     else if c < 45 then (if c > 39 then (if 42 \<le> c \<and> c \<le> 43 then Goto [] 21
       else Halt)
      else if c \<ge> 35 then Goto [] 21
      else Halt)
     else if c > 46 then (if c < 65 then (if 48 \<le> c \<and> c \<le> 57 then Goto [] 117
       else Halt)
      else if c > 90 then (if 94 \<le> c \<and> c \<le> 122 then Goto [] 21
       else Halt)
      else Goto [] 21)
     else Goto [] 21)"

definition cl_state_118 :: "int \<Rightarrow> cl_jump" where
  "cl_state_118 c =
    (if c = 10 then Goto [] 113
     else if c = 32 then Goto [] 114
     else if c > 13 then (if 48 \<le> c \<and> c \<le> 57 then cl_tr_157
      else Halt)
     else if c \<ge> 9 then Goto [] 114
     else Halt)"

definition cl_state_119 :: "int \<Rightarrow> cl_jump" where
  "cl_state_119 c =
    (if c = 10 then cl_tr_158
     else if c = 13 then cl_tr_159
     else if 48 \<le> c \<and> c \<le> 57 then Goto [] 119
     else Goto [] 23)"

definition cl_state_120 :: "int \<Rightarrow> cl_jump" where
  "cl_state_120 c =
    (Halt)"

definition cl_state_121 :: "int \<Rightarrow> cl_jump" where
  "cl_state_121 c =
    (if c = 32 then Goto [] 63
     else if c = 67 then cl_tr_104
     else if c = 99 then cl_tr_104
     else if 9 \<le> c \<and> c \<le> 13 then Goto [] 63
     else Halt)"

definition cl_state_122 :: "int \<Rightarrow> cl_jump" where
  "cl_state_122 c =
    (if c = 32 then Goto [] 37
     else if c = 67 then Goto [] 38
     else if c = 99 then Goto [] 38
     else if 9 \<le> c \<and> c \<le> 13 then Goto [] 37
     else Halt)"

definition cl_state_123 :: "int \<Rightarrow> cl_jump" where
  "cl_state_123 c =
    (if c = 32 then Goto [] 114
     else if c > 13 then (if 48 \<le> c \<and> c \<le> 57 then cl_tr_157
      else Halt)
     else if c \<ge> 9 then Goto [] 114
     else Halt)"

definition cl_states :: "(int \<Rightarrow> cl_jump) list" where
  "cl_states = concat
    [[cl_state_1, cl_state_2, cl_state_3, cl_state_4, cl_state_5, cl_state_6, cl_state_7, cl_state_8, cl_state_9, cl_state_10],
     [cl_state_11, cl_state_12, cl_state_13, cl_state_14, cl_state_15, cl_state_16, cl_state_17, cl_state_18, cl_state_19, cl_state_20],
     [cl_state_21, cl_state_22, cl_state_23, cl_state_24, cl_state_25, cl_state_26, cl_state_27, cl_state_28, cl_state_29, cl_state_30],
     [cl_state_31, cl_state_32, cl_state_33, cl_state_34, cl_state_35, cl_state_36, cl_state_37, cl_state_38, cl_state_39, cl_state_40],
     [cl_state_41, cl_state_42, cl_state_43, cl_state_44, cl_state_45, cl_state_46, cl_state_47, cl_state_48, cl_state_49, cl_state_50],
     [cl_state_51, cl_state_52, cl_state_53, cl_state_54, cl_state_55, cl_state_56, cl_state_57, cl_state_58, cl_state_59, cl_state_60],
     [cl_state_61, cl_state_62, cl_state_63, cl_state_64, cl_state_65, cl_state_66, cl_state_67, cl_state_68, cl_state_69, cl_state_70],
     [cl_state_71, cl_state_72, cl_state_73, cl_state_74, cl_state_75, cl_state_76, cl_state_77, cl_state_78, cl_state_79, cl_state_80],
     [cl_state_81, cl_state_82, cl_state_83, cl_state_84, cl_state_85, cl_state_86, cl_state_87, cl_state_88, cl_state_89, cl_state_90],
     [cl_state_91, cl_state_92, cl_state_93, cl_state_94, cl_state_95, cl_state_96, cl_state_97, cl_state_98, cl_state_99, cl_state_100],
     [cl_state_101, cl_state_102, cl_state_103, cl_state_104, cl_state_105, cl_state_106, cl_state_107, cl_state_108, cl_state_109, cl_state_110],
     [cl_state_111, cl_state_112, cl_state_113, cl_state_114, cl_state_115, cl_state_116, cl_state_117, cl_state_118, cl_state_119, cl_state_120],
     [cl_state_121, cl_state_122, cl_state_123]]"

definition cl_next :: "nat \<Rightarrow> int \<Rightarrow> cl_jump" where
  "cl_next cs = cl_states ! (cs - 1)"

end
