(* ===== verification/HttpClientClasses.thy ===== *)
theory HttpClientClasses
  imports HttpClientTables
begin

text \<open>
  Classes of states of the response machine. The machine recognises a few header names and values as it reads them, so most of its
  states are copies of the same state for another prefix of such a name. All states of a class behave alike on the characters that matter
  for a well-formed response.
\<close>

section \<open>Classes\<close>

text \<open>The characters of a header name, and the states inside a header name, before a value, inside a value, behind a value, and at the begin of a line.\<close>

definition token_code :: "int \<Rightarrow> bool" where
  "token_code c \<longleftrightarrow> c = 33 \<or> 35 \<le> c \<and> c \<le> 39 \<or> 42 \<le> c \<and> c \<le> 43 \<or> 45 \<le> c \<and> c \<le> 46 \<or> 48 \<le> c \<and> c \<le> 57 \<or> 65 \<le> c \<and> c \<le> 90 \<or> 94 \<le> c \<and> c \<le> 122
     \<or> c = 124 \<or> c = 126"

definition name_states :: "nat list" where
  "name_states = [21, 25, 26, 27, 28, 29, 30, 31, 32, 33, 34, 44, 45, 46, 47, 48, 49, 50, 51, 52, 53, 54, 55, 56, 57, 58, 59, 60, 101, 102, 103, 104, 105, 106, 107, 108, 109, 110, 111]"

definition before_value_states :: "nat list" where
  "before_value_states = [22, 35, 61, 112]"

definition value_states :: "nat list" where
  "value_states = [23, 81, 82, 83, 84, 85, 86, 87, 96, 97, 98, 99, 100, 119]"

definition after_value_states :: "nat list" where
  "after_value_states = [24, 71, 88]"

definition line_states :: "nat list" where
  "line_states = [20, 43]"

primrec goes :: "cl_action list list \<Rightarrow> nat list \<Rightarrow> cl_jump \<Rightarrow> bool" where
  "goes ass ss Halt = False"
| "goes ass ss (Goto bs t) = (bs \<in> set ass \<and> t \<in> set ss)"

lemma name_states_mem: "s \<in> set name_states \<longleftrightarrow> s = 21 \<or> s = 25 \<or> s = 26 \<or> s = 27 \<or> s = 28 \<or> s = 29 \<or> s = 30 \<or> s = 31 \<or> s = 32 \<or> s = 33 \<or> s = 34 \<or>
    s = 44 \<or> s = 45 \<or> s = 46 \<or> s = 47 \<or> s = 48 \<or> s = 49 \<or> s = 50 \<or> s = 51 \<or> s = 52 \<or> s = 53 \<or> s = 54 \<or>
    s = 55 \<or> s = 56 \<or> s = 57 \<or> s = 58 \<or> s = 59 \<or> s = 60 \<or> s = 101 \<or> s = 102 \<or> s = 103 \<or> s = 104 \<or> s = 105 \<or>
    s = 106 \<or> s = 107 \<or> s = 108 \<or> s = 109 \<or> s = 110 \<or> s = 111"
  by (simp add: name_states_def)

lemma before_value_states_mem: "s \<in> set before_value_states \<longleftrightarrow> s = 22 \<or> s = 35 \<or> s = 61 \<or> s = 112"
  by (simp add: before_value_states_def)

lemma value_states_mem: "s \<in> set value_states \<longleftrightarrow> s = 23 \<or> s = 81 \<or> s = 82 \<or> s = 83 \<or> s = 84 \<or> s = 85 \<or> s = 86 \<or> s = 87 \<or> s = 96 \<or> s = 97 \<or> s = 98 \<or>
    s = 99 \<or> s = 100 \<or> s = 119"
  by (simp add: value_states_def)

lemma after_value_states_mem: "s \<in> set after_value_states \<longleftrightarrow> s = 24 \<or> s = 71 \<or> s = 88"
  by (simp add: after_value_states_def)

lemma line_states_mem: "s \<in> set line_states \<longleftrightarrow> s = 20 \<or> s = 43"
  by (simp add: line_states_def)

lemmas class_defs = name_states_def before_value_states_def value_states_def after_value_states_def line_states_def

lemma cl_next_states:
  "cl_next 1 = cl_state_1" "cl_next 3 = cl_state_3" "cl_next 8 = cl_state_8" "cl_next 9 = cl_state_9" "cl_next 10 = cl_state_10"
  "cl_next 11 = cl_state_11" "cl_next 12 = cl_state_12" "cl_next 13 = cl_state_13" "cl_next 14 = cl_state_14" "cl_next 15 = cl_state_15"
  "cl_next 16 = cl_state_16" "cl_next 17 = cl_state_17" "cl_next 18 = cl_state_18" "cl_next 19 = cl_state_19" "cl_next 20 = cl_state_20"
  "cl_next 21 = cl_state_21" "cl_next 22 = cl_state_22" "cl_next 23 = cl_state_23" "cl_next 24 = cl_state_24" "cl_next 25 = cl_state_25"
  "cl_next 26 = cl_state_26" "cl_next 27 = cl_state_27" "cl_next 28 = cl_state_28" "cl_next 29 = cl_state_29" "cl_next 30 = cl_state_30"
  "cl_next 31 = cl_state_31" "cl_next 32 = cl_state_32" "cl_next 33 = cl_state_33" "cl_next 34 = cl_state_34" "cl_next 35 = cl_state_35"
  "cl_next 43 = cl_state_43" "cl_next 44 = cl_state_44" "cl_next 45 = cl_state_45" "cl_next 46 = cl_state_46" "cl_next 47 = cl_state_47"
  "cl_next 48 = cl_state_48" "cl_next 49 = cl_state_49" "cl_next 50 = cl_state_50" "cl_next 51 = cl_state_51" "cl_next 52 = cl_state_52"
  "cl_next 53 = cl_state_53" "cl_next 54 = cl_state_54" "cl_next 55 = cl_state_55" "cl_next 56 = cl_state_56" "cl_next 57 = cl_state_57"
  "cl_next 58 = cl_state_58" "cl_next 59 = cl_state_59" "cl_next 60 = cl_state_60" "cl_next 61 = cl_state_61" "cl_next 71 = cl_state_71"
  "cl_next 81 = cl_state_81" "cl_next 82 = cl_state_82" "cl_next 83 = cl_state_83" "cl_next 84 = cl_state_84" "cl_next 85 = cl_state_85"
  "cl_next 86 = cl_state_86" "cl_next 87 = cl_state_87" "cl_next 88 = cl_state_88" "cl_next 96 = cl_state_96" "cl_next 97 = cl_state_97"
  "cl_next 98 = cl_state_98" "cl_next 99 = cl_state_99" "cl_next 100 = cl_state_100" "cl_next 101 = cl_state_101" "cl_next 102 = cl_state_102"
  "cl_next 103 = cl_state_103" "cl_next 104 = cl_state_104" "cl_next 105 = cl_state_105" "cl_next 106 = cl_state_106" "cl_next 107 = cl_state_107"
  "cl_next 108 = cl_state_108" "cl_next 109 = cl_state_109" "cl_next 110 = cl_state_110" "cl_next 111 = cl_state_111" "cl_next 112 = cl_state_112"
  "cl_next 119 = cl_state_119"
  by (simp_all add: cl_next_def cl_states_def)

lemma name_token:
  assumes "token_code c"
  shows "goes [[]] name_states (cl_state_21 c)" "goes [[]] name_states (cl_state_25 c)" "goes [[]] name_states (cl_state_26 c)"
    "goes [[]] name_states (cl_state_27 c)" "goes [[]] name_states (cl_state_28 c)" "goes [[]] name_states (cl_state_29 c)"
    "goes [[]] name_states (cl_state_30 c)" "goes [[]] name_states (cl_state_31 c)" "goes [[]] name_states (cl_state_32 c)"
    "goes [[]] name_states (cl_state_33 c)" "goes [[]] name_states (cl_state_34 c)" "goes [[]] name_states (cl_state_44 c)"
    "goes [[]] name_states (cl_state_45 c)" "goes [[]] name_states (cl_state_46 c)" "goes [[]] name_states (cl_state_47 c)"
    "goes [[]] name_states (cl_state_48 c)" "goes [[]] name_states (cl_state_49 c)" "goes [[]] name_states (cl_state_50 c)"
    "goes [[]] name_states (cl_state_51 c)" "goes [[]] name_states (cl_state_52 c)" "goes [[]] name_states (cl_state_53 c)"
    "goes [[]] name_states (cl_state_54 c)" "goes [[]] name_states (cl_state_55 c)" "goes [[]] name_states (cl_state_56 c)"
    "goes [[]] name_states (cl_state_57 c)" "goes [[]] name_states (cl_state_58 c)" "goes [[]] name_states (cl_state_59 c)"
    "goes [[]] name_states (cl_state_60 c)" "goes [[]] name_states (cl_state_101 c)" "goes [[]] name_states (cl_state_102 c)"
    "goes [[]] name_states (cl_state_103 c)" "goes [[]] name_states (cl_state_104 c)" "goes [[]] name_states (cl_state_105 c)"
    "goes [[]] name_states (cl_state_106 c)" "goes [[]] name_states (cl_state_107 c)" "goes [[]] name_states (cl_state_108 c)"
    "goes [[]] name_states (cl_state_109 c)" "goes [[]] name_states (cl_state_110 c)" "goes [[]] name_states (cl_state_111 c)"
  using assms unfolding token_code_def
  by (elim disjE; simp add: cl_tr_defs class_defs cl_state_21_def cl_state_25_def cl_state_26_def cl_state_27_def cl_state_28_def cl_state_29_def cl_state_30_def cl_state_31_def cl_state_32_def
      cl_state_33_def cl_state_34_def cl_state_44_def cl_state_45_def cl_state_46_def cl_state_47_def cl_state_48_def cl_state_49_def cl_state_50_def
      cl_state_51_def cl_state_52_def cl_state_53_def cl_state_54_def cl_state_55_def cl_state_56_def cl_state_57_def cl_state_58_def cl_state_59_def
      cl_state_60_def cl_state_101_def cl_state_102_def cl_state_103_def cl_state_104_def cl_state_105_def cl_state_106_def cl_state_107_def
      cl_state_108_def cl_state_109_def cl_state_110_def cl_state_111_def)+

lemma name_colon:
  shows "goes [[A_write_field]] before_value_states (cl_state_21 58)" "goes [[A_write_field]] before_value_states (cl_state_25 58)"
    "goes [[A_write_field]] before_value_states (cl_state_26 58)" "goes [[A_write_field]] before_value_states (cl_state_27 58)"
    "goes [[A_write_field]] before_value_states (cl_state_28 58)" "goes [[A_write_field]] before_value_states (cl_state_29 58)"
    "goes [[A_write_field]] before_value_states (cl_state_30 58)" "goes [[A_write_field]] before_value_states (cl_state_31 58)"
    "goes [[A_write_field]] before_value_states (cl_state_32 58)" "goes [[A_write_field]] before_value_states (cl_state_33 58)"
    "goes [[A_write_field]] before_value_states (cl_state_34 58)" "goes [[A_write_field]] before_value_states (cl_state_44 58)"
    "goes [[A_write_field]] before_value_states (cl_state_45 58)" "goes [[A_write_field]] before_value_states (cl_state_46 58)"
    "goes [[A_write_field]] before_value_states (cl_state_47 58)" "goes [[A_write_field]] before_value_states (cl_state_48 58)"
    "goes [[A_write_field]] before_value_states (cl_state_49 58)" "goes [[A_write_field]] before_value_states (cl_state_50 58)"
    "goes [[A_write_field]] before_value_states (cl_state_51 58)" "goes [[A_write_field]] before_value_states (cl_state_52 58)"
    "goes [[A_write_field]] before_value_states (cl_state_53 58)" "goes [[A_write_field]] before_value_states (cl_state_54 58)"
    "goes [[A_write_field]] before_value_states (cl_state_55 58)" "goes [[A_write_field]] before_value_states (cl_state_56 58)"
    "goes [[A_write_field]] before_value_states (cl_state_57 58)" "goes [[A_write_field]] before_value_states (cl_state_58 58)"
    "goes [[A_write_field]] before_value_states (cl_state_59 58)" "goes [[A_write_field]] before_value_states (cl_state_60 58)"
    "goes [[A_write_field]] before_value_states (cl_state_101 58)" "goes [[A_write_field]] before_value_states (cl_state_102 58)"
    "goes [[A_write_field]] before_value_states (cl_state_103 58)" "goes [[A_write_field]] before_value_states (cl_state_104 58)"
    "goes [[A_write_field]] before_value_states (cl_state_105 58)" "goes [[A_write_field]] before_value_states (cl_state_106 58)"
    "goes [[A_write_field]] before_value_states (cl_state_107 58)" "goes [[A_write_field]] before_value_states (cl_state_108 58)"
    "goes [[A_write_field]] before_value_states (cl_state_109 58)" "goes [[A_write_field]] before_value_states (cl_state_110 58)"
    "goes [[A_write_field]] before_value_states (cl_state_111 58)"
  by (simp_all add: cl_tr_defs class_defs cl_state_21_def cl_state_25_def cl_state_26_def cl_state_27_def cl_state_28_def cl_state_29_def cl_state_30_def cl_state_31_def cl_state_32_def
      cl_state_33_def cl_state_34_def cl_state_44_def cl_state_45_def cl_state_46_def cl_state_47_def cl_state_48_def cl_state_49_def cl_state_50_def
      cl_state_51_def cl_state_52_def cl_state_53_def cl_state_54_def cl_state_55_def cl_state_56_def cl_state_57_def cl_state_58_def cl_state_59_def
      cl_state_60_def cl_state_101_def cl_state_102_def cl_state_103_def cl_state_104_def cl_state_105_def cl_state_106_def cl_state_107_def
      cl_state_108_def cl_state_109_def cl_state_110_def cl_state_111_def)

lemma name_semicolon:
  shows "cl_state_21 59 = Halt" "cl_state_25 59 = Halt" "cl_state_26 59 = Halt" "cl_state_27 59 = Halt" "cl_state_28 59 = Halt" "cl_state_29 59 = Halt"
    "cl_state_30 59 = Halt" "cl_state_31 59 = Halt" "cl_state_32 59 = Halt" "cl_state_33 59 = Halt" "cl_state_34 59 = Halt" "cl_state_44 59 = Halt"
    "cl_state_45 59 = Halt" "cl_state_46 59 = Halt" "cl_state_47 59 = Halt" "cl_state_48 59 = Halt" "cl_state_49 59 = Halt" "cl_state_50 59 = Halt"
    "cl_state_51 59 = Halt" "cl_state_52 59 = Halt" "cl_state_53 59 = Halt" "cl_state_54 59 = Halt" "cl_state_55 59 = Halt" "cl_state_56 59 = Halt"
    "cl_state_57 59 = Halt" "cl_state_58 59 = Halt" "cl_state_59 59 = Halt" "cl_state_60 59 = Halt" "cl_state_101 59 = Halt" "cl_state_102 59 = Halt"
    "cl_state_103 59 = Halt" "cl_state_104 59 = Halt" "cl_state_105 59 = Halt" "cl_state_106 59 = Halt" "cl_state_107 59 = Halt" "cl_state_108 59 = Halt"
    "cl_state_109 59 = Halt" "cl_state_110 59 = Halt" "cl_state_111 59 = Halt"
  by (simp_all add: cl_tr_defs class_defs cl_state_21_def cl_state_25_def cl_state_26_def cl_state_27_def cl_state_28_def cl_state_29_def cl_state_30_def cl_state_31_def cl_state_32_def
      cl_state_33_def cl_state_34_def cl_state_44_def cl_state_45_def cl_state_46_def cl_state_47_def cl_state_48_def cl_state_49_def cl_state_50_def
      cl_state_51_def cl_state_52_def cl_state_53_def cl_state_54_def cl_state_55_def cl_state_56_def cl_state_57_def cl_state_58_def cl_state_59_def
      cl_state_60_def cl_state_101_def cl_state_102_def cl_state_103_def cl_state_104_def cl_state_105_def cl_state_106_def cl_state_107_def
      cl_state_108_def cl_state_109_def cl_state_110_def cl_state_111_def)

lemma before_value_space:
  shows "goes [[A_start_value]] before_value_states (cl_state_22 32)" "goes [[A_start_value]] before_value_states (cl_state_35 32)"
    "goes [[A_start_value]] before_value_states (cl_state_61 32)" "goes [[A_start_value]] before_value_states (cl_state_112 32)"
  by (simp_all add: cl_tr_defs class_defs cl_state_22_def cl_state_35_def cl_state_61_def cl_state_112_def)

lemma before_value_char:
  assumes "\<not> (9 \<le> c \<and> c \<le> 13) \<and> c \<noteq> 32"
  shows "goes [[A_start_value]] value_states (cl_state_22 c)" "goes [[A_start_value]] value_states (cl_state_35 c)"
    "goes [[A_start_value]] value_states (cl_state_61 c)" "goes [[A_start_value]] value_states (cl_state_112 c)"
  using assms by (auto simp: cl_tr_defs class_defs cl_state_22_def cl_state_35_def cl_state_61_def cl_state_112_def)

lemma value_char:
  assumes "c \<noteq> 10 \<and> c \<noteq> 13"
  shows "goes [[]] value_states (cl_state_23 c)" "goes [[]] value_states (cl_state_81 c)" "goes [[]] value_states (cl_state_82 c)"
    "goes [[]] value_states (cl_state_83 c)" "goes [[]] value_states (cl_state_84 c)" "goes [[]] value_states (cl_state_85 c)"
    "goes [[]] value_states (cl_state_86 c)" "goes [[]] value_states (cl_state_87 c)" "goes [[]] value_states (cl_state_96 c)"
    "goes [[]] value_states (cl_state_97 c)" "goes [[]] value_states (cl_state_98 c)" "goes [[]] value_states (cl_state_99 c)"
    "goes [[]] value_states (cl_state_100 c)" "goes [[]] value_states (cl_state_119 c)"
  using assms by (simp_all add: cl_tr_defs class_defs cl_state_23_def cl_state_81_def cl_state_82_def cl_state_83_def cl_state_84_def cl_state_85_def cl_state_86_def cl_state_87_def cl_state_96_def
      cl_state_97_def cl_state_98_def cl_state_99_def cl_state_100_def cl_state_119_def)

lemma value_cr:
  shows "goes [[A_write_value], [A_write_content_len, A_write_value]] after_value_states (cl_state_23 13)"
    "goes [[A_write_value], [A_write_content_len, A_write_value]] after_value_states (cl_state_81 13)"
    "goes [[A_write_value], [A_write_content_len, A_write_value]] after_value_states (cl_state_82 13)"
    "goes [[A_write_value], [A_write_content_len, A_write_value]] after_value_states (cl_state_83 13)"
    "goes [[A_write_value], [A_write_content_len, A_write_value]] after_value_states (cl_state_84 13)"
    "goes [[A_write_value], [A_write_content_len, A_write_value]] after_value_states (cl_state_85 13)"
    "goes [[A_write_value], [A_write_content_len, A_write_value]] after_value_states (cl_state_86 13)"
    "goes [[A_write_value], [A_write_content_len, A_write_value]] after_value_states (cl_state_87 13)"
    "goes [[A_write_value], [A_write_content_len, A_write_value]] after_value_states (cl_state_96 13)"
    "goes [[A_write_value], [A_write_content_len, A_write_value]] after_value_states (cl_state_97 13)"
    "goes [[A_write_value], [A_write_content_len, A_write_value]] after_value_states (cl_state_98 13)"
    "goes [[A_write_value], [A_write_content_len, A_write_value]] after_value_states (cl_state_99 13)"
    "goes [[A_write_value], [A_write_content_len, A_write_value]] after_value_states (cl_state_100 13)"
    "goes [[A_write_value], [A_write_content_len, A_write_value]] after_value_states (cl_state_119 13)"
  by (simp_all add: cl_tr_defs class_defs cl_state_23_def cl_state_81_def cl_state_82_def cl_state_83_def cl_state_84_def cl_state_85_def cl_state_86_def cl_state_87_def cl_state_96_def
      cl_state_97_def cl_state_98_def cl_state_99_def cl_state_100_def cl_state_119_def)

lemma after_value_lf:
  shows "goes [[], [A_trans_chunked]] line_states (cl_state_24 10)" "goes [[], [A_trans_chunked]] line_states (cl_state_71 10)"
    "goes [[], [A_trans_chunked]] line_states (cl_state_88 10)"
  by (simp_all add: cl_tr_defs class_defs cl_state_24_def cl_state_71_def cl_state_88_def)

lemma line_token:
  assumes "token_code c"
  shows "goes [[A_start_field], [A_write_connection_close, A_start_field]] name_states (cl_state_20 c)"
    "goes [[A_start_field], [A_write_connection_close, A_start_field]] name_states (cl_state_43 c)"
  using assms unfolding token_code_def
  by (elim disjE; simp add: cl_tr_defs class_defs cl_state_20_def cl_state_43_def)+

lemma line_cr:
  shows "goes [[], [A_write_connection_close]] [3] (cl_state_20 13)" "goes [[], [A_write_connection_close]] [3] (cl_state_43 13)"
  by (simp_all add: cl_tr_defs class_defs cl_state_20_def cl_state_43_def)

text \<open>The same for the classes as a whole.\<close>

lemma next_name_token: "s \<in> set name_states \<Longrightarrow> token_code c \<Longrightarrow> goes [[]] name_states (cl_next s c)"
  by (auto simp: name_states_mem cl_next_states name_token)

lemma next_name_colon: "s \<in> set name_states \<Longrightarrow> goes [[A_write_field]] before_value_states (cl_next s 58)"
  by (auto simp: name_states_mem cl_next_states name_colon)

lemma next_name_semicolon: "s \<in> set name_states \<Longrightarrow> cl_next s 59 = Halt"
  by (auto simp: name_states_mem cl_next_states name_semicolon)

lemma next_before_value_space: "s \<in> set before_value_states \<Longrightarrow> goes [[A_start_value]] before_value_states (cl_next s 32)"
  by (auto simp: before_value_states_mem cl_next_states before_value_space)

lemma next_before_value_char: "s \<in> set before_value_states \<Longrightarrow> \<not> (9 \<le> c \<and> c \<le> 13) \<and> c \<noteq> 32 \<Longrightarrow> goes [[A_start_value]] value_states (cl_next s c)"
  by (auto simp: before_value_states_mem cl_next_states before_value_char)

lemma next_value_char: "s \<in> set value_states \<Longrightarrow> c \<noteq> 10 \<and> c \<noteq> 13 \<Longrightarrow> goes [[]] value_states (cl_next s c)"
  by (auto simp: value_states_mem cl_next_states value_char)

lemma next_value_cr: "s \<in> set value_states \<Longrightarrow> goes [[A_write_value], [A_write_content_len, A_write_value]] after_value_states (cl_next s 13)"
  by (auto simp: value_states_mem cl_next_states value_cr)

lemma next_after_value_lf: "s \<in> set after_value_states \<Longrightarrow> goes [[], [A_trans_chunked]] line_states (cl_next s 10)"
  by (auto simp: after_value_states_mem cl_next_states after_value_lf)

lemma next_line_token: "s \<in> set line_states \<Longrightarrow> token_code c \<Longrightarrow> goes [[A_start_field], [A_write_connection_close, A_start_field]] name_states (cl_next s c)"
  by (auto simp: line_states_mem cl_next_states line_token)

lemma next_line_cr: "s \<in> set line_states \<Longrightarrow> goes [[], [A_write_connection_close]] [3] (cl_next s 13)"
  by (auto simp: line_states_mem cl_next_states line_cr)

end
