(* ===== verification/HttpClientParser.thy ===== *)
theory HttpClientParser
  imports HttpMessageParser HttpClientClasses
begin

text \<open>
  The response machine (\<open>sylar/http/httpclient_parser.c\<close>, \<open>sylar/http/httpclient_parser.rl\<close>): its structure, actions and loop over the transitions of
  \<open>HttpClientTables\<close>, and the functions around them. The build generates the C file again from the \<open>.rl\<close> file; the functions here are those of
  the \<open>.rl\<close> file, which resets the marks at each call. Callbacks are emitted as events, as positions in the buffer; all of them are set by the response parser.
\<close>

record httpclient_parser =
  hcp_cs :: nat
  hcp_body_start :: nat
  hcp_content_len :: int
  hcp_status :: int
  hcp_chunked :: bool
  hcp_chunks_done :: bool
  hcp_close :: bool
  hcp_nread :: nat
  hcp_mark :: nat
  hcp_field_start :: nat
  hcp_field_len :: nat

definition httpclient_parser_start :: nat where "httpclient_parser_start = 1"
definition httpclient_parser_first_final :: nat where "httpclient_parser_first_final = 120"
definition httpclient_parser_error :: nat where "httpclient_parser_error = 0"

definition cl_init :: "httpclient_parser \<Rightarrow> httpclient_parser" where
  "cl_init q = q\<lparr>hcp_cs := httpclient_parser_start, hcp_body_start := 0, hcp_content_len := - 1, hcp_chunked := False, hcp_chunks_done := False,
     hcp_mark := 0, hcp_nread := 0, hcp_field_len := 0, hcp_field_start := 0, hcp_close := False\<rparr>"

text \<open>The actions at position \<open>p\<close> of the buffer.\<close>

definition cl_action :: "string \<Rightarrow> nat \<Rightarrow> cl_action \<Rightarrow> httpclient_parser \<Rightarrow> httpclient_parser \<times> cl_event list" where
  "cl_action buffer p a q =
     (case a of
        A_mark \<Rightarrow> (q\<lparr>hcp_mark := p\<rparr>, [])
      | A_start_field \<Rightarrow> (q\<lparr>hcp_field_start := p\<rparr>, [])
      | A_write_field \<Rightarrow> (q\<lparr>hcp_field_len := sub64 p (hcp_field_start q)\<rparr>, [])
      | A_start_value \<Rightarrow> (q\<lparr>hcp_mark := p\<rparr>, [])
      | A_write_content_len \<Rightarrow> (q\<lparr>hcp_content_len := int32_of (strtol 10 (drop (hcp_mark q) buffer))\<rparr>, [])
      | A_write_connection_close \<Rightarrow> (q\<lparr>hcp_close := True\<rparr>, [])
      | A_write_value \<Rightarrow> (q, [Cl_http_field (hcp_field_start q) (hcp_field_len q) (hcp_mark q) (sub64 p (hcp_mark q))])
      | A_reason_phrase \<Rightarrow> (q, [Cl_reason_phrase (hcp_mark q) (sub64 p (hcp_mark q))])
      | A_status_code \<Rightarrow> (q\<lparr>hcp_status := int32_of (strtol 10 (drop (hcp_mark q) buffer))\<rparr>, [Cl_status_code (hcp_mark q) (sub64 p (hcp_mark q))])
      | A_http_version \<Rightarrow> (q, [Cl_http_version (hcp_mark q) (sub64 p (hcp_mark q))])
      | A_chunk_size \<Rightarrow>
          (let len = int32_of (strtol 16 (drop (hcp_mark q) buffer)); q1 = q\<lparr>hcp_chunked := True, hcp_content_len := len, hcp_chunks_done := (len \<le> 0)\<rparr> in
           (q1, [if len \<le> 0 then Cl_last_chunk (hcp_mark q) (sub64 p (hcp_mark q)) else Cl_chunk_size (hcp_mark q) (sub64 p (hcp_mark q))]))
      | A_trans_chunked \<Rightarrow> (q\<lparr>hcp_chunked := True\<rparr>, [])
      | A_done \<Rightarrow> (q\<lparr>hcp_body_start := p + 1\<rparr>, [Cl_header_done (p + 1) (length buffer - p - 1)]))"

text \<open>The code at a transition: \<open>A_done\<close> leaves the loop.\<close>

primrec cl_actions :: "string \<Rightarrow> nat \<Rightarrow> cl_action list \<Rightarrow> httpclient_parser \<Rightarrow> httpclient_parser \<times> cl_event list \<times> bool" where
  "cl_actions buffer p [] q = (q, [], False)"
| "cl_actions buffer p (a # as) q =
     (case cl_action buffer p a q of (q1, evs) \<Rightarrow>
        if a = A_done then (q1, evs, True)
        else case cl_actions buffer p as q1 of (q2, evs2, out) \<Rightarrow> (q2, evs @ evs2, out))"

function cl_loop :: "string \<Rightarrow> nat \<Rightarrow> nat \<Rightarrow> httpclient_parser \<Rightarrow> nat \<times> nat \<times> httpclient_parser \<times> cl_event list" where
  "cl_loop buffer p cs q =
     (if length buffer \<le> p then (p, cs, q, [])
      else case cl_next cs (char_code (buffer ! p)) of
        Halt \<Rightarrow> (p, 0, q, [])
      | Goto as t \<Rightarrow>
          (case cl_actions buffer p as q of (q1, evs, out) \<Rightarrow>
             if out then (p + 1, t, q1, evs)
             else case cl_loop buffer (p + 1) t q1 of (p2, cs2, q2, evs2) \<Rightarrow> (p2, cs2, q2, evs @ evs2)))"
  by pat_completeness auto
termination
  by (relation "measure (\<lambda>(buffer, p, cs, q). length buffer - p)") auto

declare cl_loop.simps [simp del]

text \<open>
  The whole function. A state outside of the machine (that of an error) matches no \<open>case\<close>: control falls to the first label behind the
  \<open>switch\<close>, which sets the state to 2. The assertions that compare pointers hold by construction, the buffer ends with a zero.
\<close>

definition cl_execute :: "httpclient_parser \<Rightarrow> string \<Rightarrow> parser_error + (httpclient_parser \<times> int \<times> cl_event list)" where
  "cl_execute q buffer =
     (let q0 = q\<lparr>hcp_nread := 0, hcp_mark := 0, hcp_field_len := 0, hcp_field_start := 0\<rparr>;
          (p, cs, q1, evs) =
            (if buffer = [] then (0, hcp_cs q, q0, [])
             else if hcp_cs q = 0 \<or> 123 < hcp_cs q then (0, 2, q0, [])
             else cl_loop buffer 0 (hcp_cs q) q0);
          q2 = q1\<lparr>hcp_cs := cs, hcp_nread := hcp_nread q1 + p\<rparr>
      in if \<not> (hcp_nread q2 \<le> length buffer \<and> hcp_body_start q2 \<le> length buffer) then Inl Assertion_failed
         else if \<not> (hcp_mark q2 < length buffer \<and> hcp_field_len q2 \<le> length buffer \<and> hcp_field_start q2 < length buffer) then Inr (q2, - 1, evs)
         else Inr (q2, int32_of (int (hcp_nread q2)), evs))"

definition cl_has_error :: "httpclient_parser \<Rightarrow> bool" where
  "cl_has_error q \<longleftrightarrow> hcp_cs q = httpclient_parser_error"

definition cl_is_finished :: "httpclient_parser \<Rightarrow> bool" where
  "cl_is_finished q \<longleftrightarrow> hcp_cs q = httpclient_parser_first_final"

definition cl_finish :: "httpclient_parser \<Rightarrow> int" where
  "cl_finish q = (if cl_has_error q then - 1 else if cl_is_finished q then 1 else 0)"

text \<open>The machine behind the interface of the response parser.\<close>

definition client_machine :: "httpclient_parser client" where
  "client_machine = \<lparr>httpclient_parser_init = cl_init, httpclient_parser_execute = cl_execute, httpclient_parser_finish = cl_finish,
     httpclient_parser_has_error = cl_has_error, cl_chunked = hcp_chunked, cl_content_len = hcp_content_len, cl_chunks_done = hcp_chunks_done\<rparr>"

section \<open>Safety of a call\<close>

text \<open>Where the marks are while the machine is at position \<open>p\<close>.\<close>

definition cl_within :: "string \<Rightarrow> nat \<Rightarrow> httpclient_parser \<Rightarrow> bool" where
  "cl_within buffer p q \<longleftrightarrow> hcp_mark q \<le> p \<and> hcp_field_start q \<le> p \<and> hcp_mark q < length buffer \<and> hcp_field_start q < length buffer
     \<and> hcp_field_len q \<le> length buffer \<and> hcp_body_start q \<le> length buffer"

lemma cl_within_mono: "cl_within buffer p q \<Longrightarrow> p \<le> r \<Longrightarrow> cl_within buffer r q"
  by (simp add: cl_within_def)

lemma cl_action_within: "cl_within buffer p q \<Longrightarrow> p < length buffer \<Longrightarrow> cl_within buffer p (fst (cl_action buffer p a q))"
  by (cases a) (simp_all add: cl_action_def cl_within_def Let_def)

lemma cl_action_nread: "hcp_nread (fst (cl_action buffer p a q)) = hcp_nread q"
  by (cases a) (simp_all add: cl_action_def Let_def)

lemma cl_actions_within:
  "cl_actions buffer p as q = (q1, evs, out) \<Longrightarrow> cl_within buffer p q \<Longrightarrow> p < length buffer \<Longrightarrow> cl_within buffer p q1 \<and> hcp_nread q1 = hcp_nread q"
proof (induction as arbitrary: q evs)
  case (Cons a as)
  obtain q2 evs2 where a: "cl_action buffer p a q = (q2, evs2)" by (metis surj_pair)
  then have "cl_within buffer p q2" "hcp_nread q2 = hcp_nread q" using cl_action_within [of buffer p q a] cl_action_nread [of buffer p a q] Cons.prems by simp_all
  then show ?case using Cons.IH [of q2] Cons.prems a by (auto split: if_splits prod.splits)
qed simp

lemma cl_loop_within:
  "cl_loop buffer p cs q = (p', cs', q', evs) \<Longrightarrow> cl_within buffer p q \<Longrightarrow> p \<le> length buffer \<Longrightarrow>
    p \<le> p' \<and> p' \<le> length buffer \<and> cl_within buffer p' q' \<and> hcp_nread q' = hcp_nread q"
proof (induction buffer p cs q arbitrary: p' cs' q' evs rule: cl_loop.induct)
  case (1 buffer p cs q)
  show ?case
  proof (cases "length buffer \<le> p")
    case True
    then show ?thesis using "1.prems" by (simp add: cl_loop.simps)
  next
    case less: False
    show ?thesis
    proof (cases "cl_next cs (char_code (buffer ! p))")
      case Halt
      then show ?thesis using "1.prems" less by (simp add: cl_loop.simps)
    next
      case (Goto as t)
      obtain q1 evs1 out where a: "cl_actions buffer p as q = (q1, evs1, out)" by (metis prod_cases3)
      then have w: "cl_within buffer (p + 1) q1" "hcp_nread q1 = hcp_nread q" using cl_actions_within [OF a "1.prems"(2)] less by (auto intro: cl_within_mono)
      show ?thesis
      proof (cases out)
        case True
        then show ?thesis using "1.prems" less Goto a w by (simp add: cl_loop.simps [of buffer p])
      next
        case False
        obtain p2 cs2 q2 evs2 where rest: "cl_loop buffer (p + 1) t q1 = (p2, cs2, q2, evs2)" by (metis prod_cases4)
        then have "p' = p2" "q' = q2" using "1.prems"(1) less Goto a False by (simp_all add: cl_loop.simps [of buffer p])
        then show ?thesis using "1.IH" [OF less Goto a [symmetric] refl _ rest w(1)] False less w(2) by simp
      qed
    qed
  qed
qed

text \<open>
  A call on a buffer never fails an assertion and never returns -1, whatever the state and the characters are, as long as no body begins behind the
  end of this buffer; it says how many characters it read.
\<close>

lemma cl_execute_total:
  assumes "buffer \<noteq> []" and "length buffer < 2 ^ 31" and "hcp_body_start q \<le> length buffer"
  shows "\<exists>q' n evs. cl_execute q buffer = Inr (q', int n, evs) \<and> n \<le> length buffer \<and> hcp_body_start q' \<le> length buffer"
proof -
  let ?q0 = "q\<lparr>hcp_nread := 0, hcp_mark := 0, hcp_field_len := 0, hcp_field_start := 0\<rparr>"
  have w0: "cl_within buffer 0 ?q0" using assms(1,3) by (simp add: cl_within_def)
  obtain p cs q1 evs where l: "(if hcp_cs q = 0 \<or> 123 < hcp_cs q then (0, 2, ?q0, []) else cl_loop buffer 0 (hcp_cs q) ?q0) = (p, cs, q1, evs)"
    by (metis prod_cases4)
  have w: "p \<le> length buffer \<and> cl_within buffer p q1 \<and> hcp_nread q1 = 0"
  proof (cases "hcp_cs q = 0 \<or> 123 < hcp_cs q")
    case True
    then show ?thesis using l w0 by auto
  next
    case False
    then show ?thesis using cl_loop_within [of buffer 0 "hcp_cs q" ?q0 p cs q1 evs] l w0 by simp
  qed
  moreover have "int32_of (int p) = int p" using w assms(2) by (simp add: int32_of_small)
  ultimately have "cl_execute q buffer = Inr (q1\<lparr>hcp_cs := cs, hcp_nread := p\<rparr>, int p, evs)"
    using assms(1) l by (simp add: cl_execute_def Let_def cl_within_def)
  then show ?thesis using w by (auto simp: cl_within_def)
qed

end
