(* ===== verification/HttpResponseText.thy ===== *)
theory HttpResponseText
  imports HttpClientParser
begin

text \<open>
  The response machine on well-formed text: a status line, header lines and an empty line are read completely, the parts are reported at their
  positions, and the machine finishes. With the printer of \<open>Http\<close> this gives a round trip: the client's parser reads what the server prints.
\<close>

section \<open>Steps of the loop\<close>

definition prepend :: "cl_event list \<Rightarrow> nat \<times> nat \<times> httpclient_parser \<times> cl_event list \<Rightarrow> nat \<times> nat \<times> httpclient_parser \<times> cl_event list" where
  "prepend evs r = (case r of (p, cs, q, evs2) \<Rightarrow> (p, cs, q, evs @ evs2))"

lemma prepend_Nil [simp]: "prepend [] r = r"
  by (cases r) (simp add: prepend_def)

lemma prepend_prepend [simp]: "prepend as (prepend bs r) = prepend (as @ bs) r"
  by (cases r) (simp add: prepend_def)

lemma cl_loop_step:
  assumes "p < length buffer" and "cl_next cs (char_code (buffer ! p)) = Goto as t" and "cl_actions buffer p as q = (q1, evs, False)"
  shows "cl_loop buffer p cs q = prepend evs (cl_loop buffer (p + 1) t q1)"
  using assms by (subst cl_loop.simps) (simp add: prepend_def)

lemma cl_loop_silent:
  assumes "has_at buffer p [c]" and "cl_next cs (char_code c) = Goto [] t"
  shows "cl_loop buffer p cs q = cl_loop buffer (p + 1) t q"
  using cl_loop_step [of p buffer cs "[]" t q q "[]"] assms by (simp add: has_at_Cons)

lemma goesE:
  assumes "goes ass ss j"
  obtains as t where "j = Goto as t" and "as \<in> set ass" and "t \<in> set ss"
  using assms by (cases j) auto

lemma char_codes: "char_code CHR '':'' = 58" "char_code CHR '' '' = 32" "char_code CHR 0x0D = 13" "char_code CHR 0x0A = 10"
  by (simp_all add: char_code_def)

section \<open>A header line\<close>

definition token_char :: "char \<Rightarrow> bool" where
  "token_char c \<longleftrightarrow> token_code (char_code c)"

definition value_char :: "char \<Rightarrow> bool" where
  "value_char c \<longleftrightarrow> c \<noteq> CHR 0x0A \<and> c \<noteq> CHR 0x0D"

definition first_char :: "char \<Rightarrow> bool" where
  "first_char c \<longleftrightarrow> \<not> (9 \<le> char_code c \<and> char_code c \<le> 13) \<and> char_code c \<noteq> 32"

lemma value_code: "value_char c \<Longrightarrow> char_code c \<noteq> 10 \<and> char_code c \<noteq> 13"
  using char_code_inj [of c "CHR 0x0A"] char_code_inj [of c "CHR 0x0D"] by (auto simp: value_char_def char_codes)

lemma name_run:
  assumes "list_all token_char name" and "s \<in> set name_states" and "has_at buffer p name"
  shows "\<exists>s' \<in> set name_states. cl_loop buffer p s q = cl_loop buffer (p + length name) s' q"
  using assms
proof (induction name arbitrary: p s)
  case (Cons c name)
  obtain t where t: "cl_next s (char_code c) = Goto [] t" "t \<in> set name_states"
    using next_name_token [of s "char_code c"] Cons.prems by (auto simp: token_char_def elim: goesE)
  have "cl_loop buffer p s q = cl_loop buffer (p + 1) t q" using Cons.prems(3) by (intro cl_loop_silent [OF _ t(1)]) (auto simp: has_at_Cons has_at_Nil)
  then show ?case using Cons.IH [of t "p + 1"] Cons.prems t(2) by (simp add: has_at_Cons)
qed auto

lemma value_run:
  assumes "list_all value_char v" and "s \<in> set value_states" and "has_at buffer p v"
  shows "\<exists>s' \<in> set value_states. cl_loop buffer p s q = cl_loop buffer (p + length v) s' q"
  using assms
proof (induction v arbitrary: p s)
  case (Cons c v)
  obtain t where t: "cl_next s (char_code c) = Goto [] t" "t \<in> set value_states"
    using next_value_char [of s "char_code c"] Cons.prems value_code [of c] by (auto elim: goesE)
  have "cl_loop buffer p s q = cl_loop buffer (p + 1) t q" using Cons.prems(3) by (intro cl_loop_silent [OF _ t(1)]) (auto simp: has_at_Cons has_at_Nil)
  then show ?case using Cons.IH [of t "p + 1"] Cons.prems t(2) by (simp add: has_at_Cons)
qed auto

text \<open>A step with actions, for each class.\<close>

lemma class_step:
  assumes "has_at buffer p [c]" and "goes ass ss (cl_next s (char_code c))"
  obtains as t where "as \<in> set ass" and "t \<in> set ss"
    and "\<And>q1 evs. cl_actions buffer p as q = (q1, evs, False) \<Longrightarrow> cl_loop buffer p s q = prepend evs (cl_loop buffer (p + 1) t q1)"
  using assms cl_loop_step [of p buffer s _ _ q] by (auto simp: has_at_Cons elim!: goesE)

text \<open>A name, a colon, a space, a value that begins with no space, and the end of the line.\<close>

definition header_ok :: "string \<times> string \<Rightarrow> bool" where
  "header_ok h \<longleftrightarrow> fst h \<noteq> [] \<and> list_all token_char (fst h) \<and> snd h \<noteq> [] \<and> first_char (hd (snd h)) \<and> list_all value_char (snd h)"

definition header_text :: "string \<times> string \<Rightarrow> string" where
  "header_text h = fst h @ '': '' @ snd h @ crlf"

definition header_event :: "nat \<Rightarrow> string \<times> string \<Rightarrow> cl_event" where
  "header_event p h = Cl_http_field p (length (fst h)) (p + length (fst h) + 2) (length (snd h))"

lemma header_open_run:
  assumes ok: "header_ok h" and s: "s \<in> set line_states" and here: "has_at buffer p (fst h @ '': '' @ snd h)"
  shows "\<exists>s' \<in> set value_states. \<exists>q'. cl_loop buffer p s q = cl_loop buffer (p + length (fst h) + 2 + length (snd h)) s' q'
    \<and> hcp_field_start q' = p \<and> hcp_field_len q' = length (fst h) \<and> hcp_mark q' = p + length (fst h) + 2 \<and> hcp_body_start q' = hcp_body_start q"
proof -
  obtain n name v val where h: "h = (n # name, v # val)" using ok by (cases h) (metis header_ok_def list.exhaust fst_conv snd_conv)
  let ?p1 = "p + 1 + length name"
  have at: "has_at buffer p [n]" "has_at buffer (p + 1) name" "has_at buffer ?p1 [CHR '':'']" "has_at buffer (?p1 + 1) [CHR '' '']" "has_at buffer (?p1 + 1 + 1) [v]"
      "has_at buffer (?p1 + 1 + 1 + 1) val"
    using here by (simp_all add: h has_at_append has_at_Cons has_at_Nil add_ac)
  have codes: "token_code (char_code n)" "list_all token_char name" "list_all value_char val" "\<not> (9 \<le> char_code v \<and> char_code v \<le> 13) \<and> char_code v \<noteq> 32"
    using ok by (auto simp: h header_ok_def token_char_def first_char_def)
  obtain s1 q1 where 1: "cl_loop buffer p s q = cl_loop buffer (p + 1) s1 q1" "s1 \<in> set name_states" "hcp_field_start q1 = p" "hcp_body_start q1 = hcp_body_start q"
    by (rule class_step [OF at(1) next_line_token [OF s codes(1)], of q]) (auto simp: cl_action_def)
  obtain s2 where 2: "cl_loop buffer (p + 1) s1 q1 = cl_loop buffer ?p1 s2 q1" "s2 \<in> set name_states"
    using name_run [OF codes(2) 1(2) at(2)] by blast
  obtain s3 q3 where 3: "cl_loop buffer ?p1 s2 q1 = cl_loop buffer (?p1 + 1) s3 q3" "s3 \<in> set before_value_states"
      "hcp_field_start q3 = p" "hcp_field_len q3 = length (fst h)" "hcp_body_start q3 = hcp_body_start q"
    by (rule class_step [OF at(3), of _ _ s2 q1]) (use next_name_colon [OF 2(2)] 1(3,4) in \<open>auto simp: char_codes cl_action_def h\<close>)
  obtain s4 q4 where 4: "cl_loop buffer (?p1 + 1) s3 q3 = cl_loop buffer (?p1 + 1 + 1) s4 q4" "s4 \<in> set before_value_states"
      "hcp_field_start q4 = p" "hcp_field_len q4 = length (fst h)" "hcp_body_start q4 = hcp_body_start q"
    by (rule class_step [OF at(4), of _ _ s3 q3]) (use next_before_value_space [OF 3(2)] 3(3-5) in \<open>auto simp: char_codes cl_action_def\<close>)
  obtain s5 q5 where 5: "cl_loop buffer (?p1 + 1 + 1) s4 q4 = cl_loop buffer (?p1 + 1 + 1 + 1) s5 q5" "s5 \<in> set value_states"
      "hcp_field_start q5 = p" "hcp_field_len q5 = length (fst h)" "hcp_mark q5 = ?p1 + 2" "hcp_body_start q5 = hcp_body_start q"
    by (rule class_step [OF at(5), of _ _ s4 q4]) (use next_before_value_char [OF 4(2) codes(4)] 4(3-5) in \<open>auto simp: cl_action_def\<close>)
  obtain s6 where 6: "cl_loop buffer (?p1 + 1 + 1 + 1) s5 q5 = cl_loop buffer (?p1 + 1 + 1 + 1 + length val) s6 q5" "s6 \<in> set value_states"
    using value_run [OF codes(3) 5(2) at(6)] by auto
  have "?p1 + 1 + 1 + 1 + length val = p + length (fst h) + 2 + length (snd h)" "?p1 + 2 = p + length (fst h) + 2" by (simp_all add: h)
  then show ?thesis using 1(1) 2(1) 3(1) 4(1) 5 6 by metis
qed

text \<open>The end of a header line reports what the marks say, whatever was read before.\<close>

lemma header_close_run:
  assumes s: "s \<in> set value_states" and here: "has_at buffer p crlf"
  shows "\<exists>s' \<in> set line_states. \<exists>q'. cl_loop buffer p s q
      = prepend [Cl_http_field (hcp_field_start q) (hcp_field_len q) (hcp_mark q) (sub64 p (hcp_mark q))] (cl_loop buffer (p + 2) s' q')
    \<and> hcp_body_start q' = hcp_body_start q"
proof -
  have at: "has_at buffer p [CHR 0x0D]" "has_at buffer (p + 1) [CHR 0x0A]" using here by (auto simp: has_at_Cons has_at_Nil)
  obtain s7 q7 where 7: "cl_loop buffer p s q = prepend [Cl_http_field (hcp_field_start q) (hcp_field_len q) (hcp_mark q) (sub64 p (hcp_mark q))] (cl_loop buffer (p + 1) s7 q7)"
      "s7 \<in> set after_value_states" "hcp_body_start q7 = hcp_body_start q"
    by (rule class_step [OF at(1), of _ _ s q]) (use next_value_cr [OF s] in \<open>auto simp: char_codes cl_action_def\<close>)
  obtain s8 q8 where 8: "cl_loop buffer (p + 1) s7 q7 = cl_loop buffer (p + 1 + 1) s8 q8" "s8 \<in> set line_states" "hcp_body_start q8 = hcp_body_start q"
    by (rule class_step [OF at(2), of _ _ s7 q7]) (use next_after_value_lf [OF 7(2)] 7(3) in \<open>auto simp: char_codes cl_action_def\<close>)
  then show ?thesis using 7(1) by auto
qed

lemma header_run:
  assumes ok: "header_ok h" and s: "s \<in> set line_states" and here: "has_at buffer p (header_text h)"
  shows "\<exists>s' \<in> set line_states. \<exists>q'. cl_loop buffer p s q = prepend [header_event p h] (cl_loop buffer (p + length (header_text h)) s' q')
    \<and> hcp_body_start q' = hcp_body_start q"
proof -
  let ?p = "p + length (fst h) + 2 + length (snd h)"
  have at: "has_at buffer p (fst h @ '': '' @ snd h)" "has_at buffer ?p crlf" using here by (simp_all add: header_text_def has_at_append has_at_Cons add_ac)
  obtain s1 q1 where 1: "s1 \<in> set value_states" "cl_loop buffer p s q = cl_loop buffer ?p s1 q1" "hcp_field_start q1 = p" "hcp_field_len q1 = length (fst h)"
      "hcp_mark q1 = p + length (fst h) + 2" "hcp_body_start q1 = hcp_body_start q"
    using header_open_run [OF ok s at(1)] by blast
  obtain s2 q2 where 2: "s2 \<in> set line_states" "cl_loop buffer ?p s1 q1 = prepend [header_event p h] (cl_loop buffer (?p + 2) s2 q2)" "hcp_body_start q2 = hcp_body_start q1"
    using header_close_run [OF 1(1) at(2), of q1] 1(3-5) by (auto simp: header_event_def sub64_def)
  have "?p + 2 = p + length (header_text h)" by (simp add: header_text_def)
  then show ?thesis using 1(2,6) 2 by metis
qed

primrec header_events :: "nat \<Rightarrow> (string \<times> string) list \<Rightarrow> cl_event list" where
  "header_events p [] = []"
| "header_events p (h # hs) = header_event p h # header_events (p + length (header_text h)) hs"

lemma headers_run:
  assumes "list_all header_ok hs" and "s \<in> set line_states" and "has_at buffer p (concat (map header_text hs))"
  shows "\<exists>s' \<in> set line_states. \<exists>q'. cl_loop buffer p s q = prepend (header_events p hs) (cl_loop buffer (p + length (concat (map header_text hs))) s' q')
    \<and> hcp_body_start q' = hcp_body_start q"
  using assms
proof (induction hs arbitrary: p s q)
  case (Cons h hs)
  obtain s1 q1 where 1: "s1 \<in> set line_states" "cl_loop buffer p s q = prepend [header_event p h] (cl_loop buffer (p + length (header_text h)) s1 q1)"
      "hcp_body_start q1 = hcp_body_start q"
    using header_run [of h s buffer p q] Cons.prems by (auto simp: has_at_append)
  obtain s2 q2 where "s2 \<in> set line_states" "hcp_body_start q2 = hcp_body_start q1"
      "cl_loop buffer (p + length (header_text h)) s1 q1 = prepend (header_events (p + length (header_text h)) hs)
        (cl_loop buffer (p + length (header_text h) + length (concat (map header_text hs))) s2 q2)"
    using Cons.IH [of s1 "p + length (header_text h)" q1] Cons.prems 1(1) by (auto simp: has_at_append)
  then show ?case using 1 by (auto simp: add.assoc)
qed auto

lemma end_run:
  assumes s: "s \<in> set line_states" and here: "has_at buffer p crlf"
  shows "\<exists>q'. cl_loop buffer p s q = (p + 2, 120, q', [Cl_header_done (p + 2) (length buffer - p - 2)])"
proof -
  have at: "has_at buffer p [CHR 0x0D]" "Suc p < length buffer" "buffer ! Suc p = CHR 0x0A" using here by (auto simp: has_at_Cons has_at_Nil)
  obtain q1 where 1: "cl_loop buffer p s q = cl_loop buffer (p + 1) 3 q1"
    by (rule class_step [OF at(1), of _ _ s q]) (use next_line_cr [OF s] in \<open>auto simp: char_codes cl_action_def\<close>)
  have "cl_next 3 (char_code (buffer ! Suc p)) = Goto [A_done] 120" by (simp add: at(3) char_codes cl_next_states cl_state_3_def cl_tr_defs)
  then show ?thesis using at(2) by (subst 1, subst cl_loop.simps) (simp add: cl_action_def)
qed

section \<open>The status line\<close>

lemma stay_run:
  assumes "\<forall>c \<in> set cs. cl_next s (char_code c) = Goto [] s" and "has_at buffer p cs"
  shows "cl_loop buffer p s q = cl_loop buffer (p + length cs) s q"
  using assms
proof (induction cs arbitrary: p)
  case (Cons c cs)
  have "cl_loop buffer p s q = cl_loop buffer (p + 1) s q" using Cons.prems by (intro cl_loop_silent) (auto simp: has_at_Cons has_at_Nil)
  then show ?case using Cons by (simp add: has_at_Cons)
qed simp

lemma digit_steps:
  assumes "digit_char c"
  shows "cl_next 12 (char_code c) = Goto [] 13" "cl_next 13 (char_code c) = Goto [] 13" "cl_next 14 (char_code c) = Goto [] 15" "cl_next 15 (char_code c) = Goto [] 15"
    "cl_next 16 (char_code c) = Goto [A_mark] 17" "cl_next 17 (char_code c) = Goto [] 17"
  using assms by (simp_all add: digit_char_def cl_next_states cl_tr_defs cl_state_12_def cl_state_13_def cl_state_14_def cl_state_15_def cl_state_16_def cl_state_17_def)

lemma reason_steps:
  assumes "value_char c"
  shows "cl_next 18 (char_code c) = Goto [A_mark] 19" "cl_next 19 (char_code c) = Goto [] 19"
  using value_code [OF assms] by (simp_all add: cl_next_states cl_tr_defs cl_state_18_def cl_state_19_def)

lemma fixed_steps:
  "cl_next 1 72 = Goto [A_mark] 8" "cl_next 8 84 = Goto [] 9" "cl_next 9 84 = Goto [] 10" "cl_next 10 80 = Goto [] 11" "cl_next 11 47 = Goto [] 12"
  "cl_next 13 46 = Goto [] 14" "cl_next 15 32 = Goto [A_http_version] 16" "cl_next 17 32 = Goto [A_status_code] 18" "cl_next 19 13 = Goto [A_reason_phrase] 24"
  "cl_next 24 10 = Goto [] 20"
  by (simp_all add: cl_next_states cl_next_states(1) [unfolded One_nat_def] cl_tr_defs cl_state_1_def cl_state_8_def cl_state_9_def cl_state_10_def cl_state_11_def cl_state_13_def cl_state_15_def cl_state_17_def
      cl_state_19_def cl_state_24_def)

lemma more_codes: "char_code CHR ''H'' = 72" "char_code CHR ''T'' = 84" "char_code CHR ''P'' = 80" "char_code CHR ''/'' = 47" "char_code CHR ''.'' = 46"
  by (simp_all add: char_code_def)

text \<open>A number of at least one digit: from the state before it to the state in it.\<close>

lemma number_run:
  assumes "list_all digit_char ds" and "ds \<noteq> []" and "has_at buffer p ds"
    and first: "\<And>c. digit_char c \<Longrightarrow> cl_next s (char_code c) = Goto [] t" and stay: "\<And>c. digit_char c \<Longrightarrow> cl_next t (char_code c) = Goto [] t"
  shows "cl_loop buffer p s q = cl_loop buffer (p + length ds) t q"
proof -
  obtain d ds' where ds: "ds = d # ds'" using assms(2) by (cases ds) auto
  have "cl_loop buffer p s q = cl_loop buffer (p + 1) t q" using assms(1,3) ds by (intro cl_loop_silent first) (auto simp: has_at_Cons has_at_Nil)
  also have "\<dots> = cl_loop buffer (p + 1 + length ds') t q" using assms(1,3) ds by (intro stay_run) (auto simp: has_at_Cons list_all_iff stay)
  finally show ?thesis using ds by simp
qed

definition status_line :: "string \<Rightarrow> string \<Rightarrow> string \<Rightarrow> string \<Rightarrow> string" where
  "status_line major minor status reason = ''HTTP/'' @ major @ ''.'' @ minor @ '' '' @ status @ '' '' @ reason @ crlf"

definition status_ok :: "string \<Rightarrow> string \<Rightarrow> string \<Rightarrow> string \<Rightarrow> bool" where
  "status_ok major minor status reason \<longleftrightarrow> major \<noteq> [] \<and> list_all digit_char major \<and> minor \<noteq> [] \<and> list_all digit_char minor \<and> status \<noteq> [] \<and> list_all digit_char status
     \<and> reason \<noteq> [] \<and> list_all value_char reason"

definition status_events :: "string \<Rightarrow> string \<Rightarrow> string \<Rightarrow> string \<Rightarrow> cl_event list" where
  "status_events major minor status reason =
     (let v = 6 + length major + length minor; r = v + 2 + length status in
      [Cl_http_version 0 v, Cl_status_code (v + 1) (length status), Cl_reason_phrase r (length reason)])"

lemma act_step:
  assumes "has_at buffer p [c]" and "cl_next s (char_code c) = Goto [a] t" and "a \<noteq> A_done"
  shows "cl_loop buffer p s q = prepend (snd (cl_action buffer p a q)) (cl_loop buffer (p + 1) t (fst (cl_action buffer p a q)))"
  using assms by (intro cl_loop_step) (auto simp: has_at_char split: prod.splits)

lemma status_run:
  assumes ok: "status_ok major minor status reason" and here: "has_at buffer 0 (status_line major minor status reason)"
  shows "\<exists>q'. cl_loop buffer 0 1 q = prepend (status_events major minor status reason) (cl_loop buffer (length (status_line major minor status reason)) 20 q')
    \<and> hcp_body_start q' = hcp_body_start q"
proof -
  let ?a = "5 + length major" let ?b = "?a + 1 + length minor" let ?c = "?b + 1 + length status" let ?d = "?c + 1 + length reason"
  obtain x status' where st: "status = x # status'" using ok by (cases status) (auto simp: status_ok_def)
  obtain y reason' where re: "reason = y # reason'" using ok by (cases reason) (auto simp: status_ok_def)
  have d: "list_all digit_char major" "list_all digit_char minor" "digit_char x" "list_all digit_char status'" "value_char y" "list_all value_char reason'" "major \<noteq> []" "minor \<noteq> []"
    using ok by (auto simp: status_ok_def st re)
  have at: "has_at buffer 0 ''H''" "has_at buffer 1 ''T''" "has_at buffer 2 ''T''" "has_at buffer 3 ''P''" "has_at buffer 4 ''/''" "has_at buffer 5 major"
      "has_at buffer ?a ''.''" "has_at buffer (?a + 1) minor" "has_at buffer ?b '' ''" "has_at buffer (?b + 1) [x]" "has_at buffer (?b + 2) status'" "has_at buffer ?c '' ''"
      "has_at buffer (?c + 1) [y]" "has_at buffer (?c + 2) reason'" "has_at buffer ?d [CHR 0x0D]" "has_at buffer (?d + 1) [CHR 0x0A]"
    using here by (simp_all add: status_line_def st re has_at_append has_at_Cons has_at_Nil add_ac eval_nat_numeral)
  define q1 where "q1 = q\<lparr>hcp_mark := 0\<rparr>"
  define q2 where "q2 = q1\<lparr>hcp_mark := ?b + 1\<rparr>"
  define q3 where "q3 = fst (cl_action buffer ?c A_status_code q2)"
  define q4 where "q4 = q3\<lparr>hcp_mark := ?c + 1\<rparr>"
  have "cl_loop buffer 0 1 q = cl_loop buffer 1 8 q1"
    using act_step [OF at(1), of 1 A_mark 8 q] by (simp add: more_codes fixed_steps fixed_steps(1) [unfolded One_nat_def] cl_action_def q1_def)
  also have "\<dots> = cl_loop buffer 2 9 q1" using cl_loop_silent [OF at(2), of 8 9 q1] by (simp add: more_codes fixed_steps numeral_2_eq_2)
  also have "\<dots> = cl_loop buffer 3 10 q1" using cl_loop_silent [OF at(3), of 9 10 q1] by (simp add: more_codes fixed_steps)
  also have "\<dots> = cl_loop buffer 4 11 q1" using cl_loop_silent [OF at(4), of 10 11 q1] by (simp add: more_codes fixed_steps)
  also have "\<dots> = cl_loop buffer 5 12 q1" using cl_loop_silent [OF at(5), of 11 12 q1] by (simp add: more_codes fixed_steps)
  also have "\<dots> = cl_loop buffer ?a 13 q1" by (rule number_run [OF d(1,7) at(6)]) (simp_all add: digit_steps)
  also have "\<dots> = cl_loop buffer (?a + 1) 14 q1" by (rule cl_loop_silent [OF at(7)]) (simp add: more_codes fixed_steps)
  also have "\<dots> = cl_loop buffer ?b 15 q1" by (rule number_run [OF d(2,8) at(8)]) (simp_all add: digit_steps)
  also have "\<dots> = prepend [Cl_http_version 0 ?b] (cl_loop buffer (?b + 1) 16 q1)"
    using act_step [OF at(9), of 15 A_http_version 16 q1] by (simp add: char_codes fixed_steps cl_action_def q1_def)
  also have "cl_loop buffer (?b + 1) 16 q1 = cl_loop buffer (?b + 1 + 1) 17 q2"
    using act_step [OF at(10), of 16 A_mark 17 q1] by (simp add: digit_steps [OF d(3)] cl_action_def q2_def)
  also have "\<dots> = cl_loop buffer ?c 17 q2"
    using stay_run [of status' 17 buffer "?b + 2" q2] at(11) d(4) by (simp add: list_all_iff digit_steps st add.assoc)
  also have "\<dots> = prepend [Cl_status_code (?b + 1) (length status)] (cl_loop buffer (?c + 1) 18 q3)"
    using act_step [OF at(12), of 17 A_status_code 18 q2] by (simp add: char_codes fixed_steps cl_action_def q2_def q3_def st)
  also have "cl_loop buffer (?c + 1) 18 q3 = cl_loop buffer (?c + 1 + 1) 19 q4"
    using act_step [OF at(13), of 18 A_mark 19 q3] by (simp add: reason_steps [OF d(5)] cl_action_def q4_def)
  also have "\<dots> = cl_loop buffer ?d 19 q4"
    using stay_run [of reason' 19 buffer "?c + 2" q4] at(14) d(6) by (simp add: list_all_iff reason_steps re add.assoc)
  also have "\<dots> = prepend [Cl_reason_phrase (?c + 1) (length reason)] (cl_loop buffer (?d + 1) 24 q4)"
    using act_step [OF at(15), of 19 A_reason_phrase 24 q4] by (simp add: char_codes fixed_steps cl_action_def q4_def re)
  also have "cl_loop buffer (?d + 1) 24 q4 = cl_loop buffer (?d + 1 + 1) 20 q4" by (rule cl_loop_silent [OF at(16)]) (simp add: char_codes fixed_steps)
  finally have "cl_loop buffer 0 1 q = prepend (status_events major minor status reason) (cl_loop buffer (?d + 1 + 1) 20 q4)"
    by (simp add: status_events_def Let_def add_ac)
  moreover have "?d + 1 + 1 = length (status_line major minor status reason)" by (simp add: status_line_def)
  moreover have "hcp_body_start q4 = hcp_body_start q" by (simp add: q4_def q3_def q2_def q1_def cl_action_def)
  ultimately show ?thesis by auto
qed

section \<open>A whole response\<close>

definition response_text :: "string \<Rightarrow> string \<Rightarrow> string \<Rightarrow> string \<Rightarrow> (string \<times> string) list \<Rightarrow> string" where
  "response_text major minor status reason hs = status_line major minor status reason @ concat (map header_text hs) @ crlf"

text \<open>A call on a new parser is a run of the loop.\<close>

abbreviation start_parser :: "httpclient_parser \<Rightarrow> httpclient_parser" where
  "start_parser g \<equiv> (cl_init g)\<lparr>hcp_nread := 0, hcp_mark := 0, hcp_field_len := 0, hcp_field_start := 0\<rparr>"

lemma execute_of_loop:
  assumes loop: "cl_loop buffer 0 1 (start_parser g) = (p, cs, q, evs)" and buffer: "buffer \<noteq> []" and len: "length buffer < 2 ^ 31"
  shows "\<exists>q'. cl_execute (cl_init g) buffer = Inr (q', int p, evs) \<and> hcp_cs q' = cs"
proof -
  have w: "cl_within buffer p q" "hcp_nread q = 0" "p \<le> length buffer"
    using cl_loop_within [OF loop] buffer by (simp_all add: cl_within_def cl_init_def)
  then have "int32_of (int p) = int p" using len by (intro int32_of_small) simp_all
  then show ?thesis using loop w buffer by (simp add: cl_execute_def Let_def cl_init_def httpclient_parser_start_def cl_within_def)
qed

lemma response_run:
  assumes ok: "status_ok major minor status reason" "list_all header_ok hs" and buffer: "buffer = response_text major minor status reason hs @ rest"
    and len: "length buffer < 2 ^ 31"
  shows "\<exists>q'. cl_execute (cl_init g) buffer = Inr (q', int (length (response_text major minor status reason hs)),
      status_events major minor status reason @ header_events (length (status_line major minor status reason)) hs
      @ [Cl_header_done (length (response_text major minor status reason hs)) (length rest)])
    \<and> cl_finish q' = 1 \<and> \<not> cl_has_error q'"
proof -
  let ?line = "status_line major minor status reason" let ?hs = "concat (map header_text hs)" let ?text = "response_text major minor status reason hs"
  let ?q0 = "start_parser g"
  have "has_at buffer 0 ?text" by (simp add: buffer has_at_whole)
  then have at: "has_at buffer 0 ?line" "has_at buffer (length ?line) ?hs" "has_at buffer (length ?line + length ?hs) crlf"
    by (simp_all add: response_text_def has_at_append add_ac)
  obtain q1 where 1: "cl_loop buffer 0 1 ?q0 = prepend (status_events major minor status reason) (cl_loop buffer (length ?line) 20 q1)"
    using status_run [OF ok(1) at(1)] by blast
  obtain s q2 where 2: "s \<in> set line_states" "cl_loop buffer (length ?line) 20 q1 = prepend (header_events (length ?line) hs) (cl_loop buffer (length ?line + length ?hs) s q2)"
    using headers_run [OF ok(2) _ at(2), of 20 q1] by (auto simp: line_states_def)
  obtain q3 where 3: "cl_loop buffer (length ?line + length ?hs) s q2 = (length ?text, 120, q3, [Cl_header_done (length ?text) (length rest)])"
    using end_run [OF 2(1) at(3), of q2] by (auto simp: response_text_def buffer)
  have loop: "cl_loop buffer 0 1 ?q0 = (length ?text, 120, q3, status_events major minor status reason @ header_events (length ?line) hs @ [Cl_header_done (length ?text) (length rest)])"
    unfolding 1 2(2) 3 by (simp add: prepend_def)
  have "buffer \<noteq> []" by (simp add: buffer response_text_def)
  from execute_of_loop [OF loop this len]
  show ?thesis by (auto simp: cl_finish_def cl_has_error_def cl_is_finished_def httpclient_parser_error_def httpclient_parser_first_final_def)
qed

section \<open>What the callbacks make of it\<close>

lemma text_at_has: "has_at mem p s \<Longrightarrow> text_at mem p (length s) = Inr s"
  by (simp add: text_at_def has_at_def)

lemma text_at_end: "has_at mem p s \<Longrightarrow> length s = n \<Longrightarrow> text_at mem p n = Inr s"
  using text_at_has by blast

definition with_header :: "string \<times> string \<Rightarrow> HttpResponse \<Rightarrow> HttpResponse" where
  "with_header h rsp = response_setHeader (fst h) (snd h) rsp"

lemma header_event_processed:
  assumes "header_ok h" and "has_at mem p (header_text h)"
  shows "on_response_event mem (header_event p h) qp = Inr (qp\<lparr>qp_data := with_header h (qp_data qp)\<rparr>)"
proof -
  have "has_at mem p (fst h)" "has_at mem (p + length (fst h) + 2) (snd h)" using assms(2) by (auto simp: header_text_def has_at_append has_at_Cons)
  then show ?thesis using assms(1) by (simp add: on_response_event_def header_event_def text_at_has header_ok_def on_response_http_field_def with_header_def)
qed

lemma header_events_processed:
  "list_all header_ok hs \<Longrightarrow> has_at mem p (concat (map header_text hs)) \<Longrightarrow>
    on_response_events mem (header_events p hs @ evs) qp = on_response_events mem evs (qp\<lparr>qp_data := fold with_header hs (qp_data qp)\<rparr>)"
proof (induction hs arbitrary: p qp)
  case (Cons h hs)
  then show ?case using header_event_processed [of h mem p qp] by (simp add: has_at_append)
qed simp

lemma atoi_dec: "atoi (dec_of_nat n @ CHR '' '' # s) = n"
proof -
  have "takeWhile (\<lambda>c. 48 \<le> (of_char c :: nat) \<and> (of_char c :: nat) \<le> 57) (dec_of_nat n @ CHR '' '' # s) = dec_of_nat n"
    using dec_of_nat_value [of n] by (subst takeWhile_append2) (auto simp: list_all_iff)
  then show ?thesis using dec_of_nat_value [of n] by (simp add: atoi_def)
qed

subsection \<open>The status line\<close>

lemma status_events_processed:
  assumes v: "(minor = ''1'' \<and> version = 0x11) \<or> (minor = ''0'' \<and> version = 0x10)" and reason: "reason \<noteq> []"
    and here: "has_at mem 0 (status_line ''1'' minor (dec_of_nat status) reason)"
  shows "on_response_events mem (status_events ''1'' minor (dec_of_nat status) reason @ evs) qp
    = on_response_events mem evs (qp\<lparr>qp_data := (qp_data qp)\<lparr>r_version := version, r_status := status, r_reason := reason\<rparr>\<rparr>)"
proof -
  let ?n = "length (dec_of_nat status)"
  obtain behind where mem: "mem = status_line ''1'' minor (dec_of_nat status) reason @ behind"
    using here unfolding has_at_def by (metis append_take_drop_id drop0)
  have len: "length minor = 1" using v by auto
  have "strncmp_equal mem ''HTTP/1.1'' 8 \<longleftrightarrow> minor = ''1''" "strncmp_equal mem ''HTTP/1.0'' 8 \<longleftrightarrow> minor = ''0''"
    using v by (auto simp: mem status_line_def strncmp_equal_def c_str_def)
  then have ver: "on_response_event mem (Cl_http_version 0 8) qp = Inr (qp\<lparr>qp_data := (qp_data qp)\<lparr>r_version := version\<rparr>\<rparr>)" for qp :: "'a rsp_parser"
    using v by (auto simp: on_response_event_def on_response_version_def mem status_line_def)
  have "drop 9 mem = dec_of_nat status @ CHR '' '' # reason @ crlf @ behind" using v by (auto simp: mem status_line_def)
  then have st: "on_response_event mem (Cl_status_code 9 ?n) qp = Inr (qp\<lparr>qp_data := (qp_data qp)\<lparr>r_status := status\<rparr>\<rparr>)" for qp :: "'a rsp_parser"
    using len by (simp add: on_response_event_def on_response_status_def atoi_dec) (simp add: mem status_line_def)
  have "has_at mem (10 + ?n) reason" using here len by (simp add: status_line_def has_at_append has_at_Cons add_ac eval_nat_numeral)
  then have "text_at mem (10 + ?n) (length reason) = Inr reason" by (rule text_at_has)
  then have re: "on_response_event mem (Cl_reason_phrase (10 + ?n) (length reason)) qp = Inr (qp\<lparr>qp_data := (qp_data qp)\<lparr>r_reason := reason\<rparr>\<rparr>)" for qp :: "'a rsp_parser"
    by (simp add: on_response_event_def on_response_reason_def)
  show ?thesis by (simp add: status_events_def len Let_def ver st re)
qed

section \<open>Printing and parsing\<close>

text \<open>The parts of the text that \<open>HttpResponse::dump\<close> prints.\<close>

definition reason_text :: "HttpResponse \<Rightarrow> string" where
  "reason_text rsp = (if r_reason rsp = [] then HttpStatusToString (r_status rsp) else r_reason rsp)"

definition minor_text :: "HttpResponse \<Rightarrow> string" where
  "minor_text rsp = (if r_version rsp = 0x11 then ''1'' else ''0'')"

definition dump_headers :: "HttpResponse \<Rightarrow> (string \<times> string) list" where
  "dump_headers rsp =
     filter (\<lambda>h. r_websocket rsp \<or> strcasecmp (c_str (fst h)) ''connection'' \<noteq> 0) (r_headers rsp)
     @ map (Pair ''Set-Cookie'') (r_cookies rsp)
     @ (if r_websocket rsp then [] else [(''connection'', if r_close rsp then ''close'' else ''keep-alive'')])"

text \<open>The responses that can be printed: their texts do not break lines or the syntax of a header.\<close>

definition printable :: "HttpResponse \<Rightarrow> bool" where
  "printable rsp \<longleftrightarrow> (r_version rsp = 0x10 \<or> r_version rsp = 0x11) \<and> list_all value_char (r_reason rsp) \<and> list_all header_ok (r_headers rsp)
     \<and> list_all (\<lambda>c. header_ok (''Set-Cookie'', c)) (r_cookies rsp)"

abbreviation dump_line :: "HttpResponse \<Rightarrow> string" where
  "dump_line rsp \<equiv> status_line ''1'' (minor_text rsp) (dec_of_nat (r_status rsp)) (reason_text rsp)"

lemma dump_parts:
  assumes "printable rsp"
  shows "HttpResponse_dump rsp = dump_line rsp @ concat (map header_text (dump_headers rsp))
    @ (if r_body rsp \<noteq> [] then ''content-length; '' @ dec_of_nat (length (r_body rsp)) @ crlf @ crlf @ r_body rsp else crlf)"
proof -
  have "version_text 0x10 = ''1.0''" "version_text 0x11 = ''1.1''"
    by (simp_all add: version_text_def dec_of_nat.simps) (simp_all add: char_of_def bit_0)
  then have v: "version_text (r_version rsp) = ''1'' @ ''.'' @ minor_text rsp" using assms by (auto simp: printable_def minor_text_def)
  have "header_lines ws hs = concat (map header_text (filter (\<lambda>h. ws \<or> strcasecmp (c_str (fst h)) ''connection'' \<noteq> 0) hs))" for ws hs
    by (induction hs) (auto simp: header_lines_def header_text_def)
  moreover have "concat (map (\<lambda>i. ''Set-Cookie: '' @ i @ crlf) cs) = concat (map header_text (map (Pair ''Set-Cookie'') cs))" for cs
    by (induction cs) (auto simp: header_text_def)
  ultimately show ?thesis by (simp add: HttpResponse_dump_def v status_line_def reason_text_def dump_headers_def header_text_def)
qed

lemma status_names: "list_all value_char (HttpStatusToString s) \<and> HttpStatusToString s \<noteq> []"
proof -
  have "list_all (\<lambda>e. list_all value_char (snd e) \<and> snd e \<noteq> []) HTTP_STATUS_MAP"
    by (simp add: HTTP_STATUS_MAP_def value_char_def)
  then have known: "list_all value_char d \<and> d \<noteq> []" if "map_of HTTP_STATUS_MAP s = Some d" for d
    using map_of_SomeD [OF that] unfolding list_all_iff [of _ HTTP_STATUS_MAP] by fastforce
  show ?thesis
  proof (cases "map_of HTTP_STATUS_MAP s")
    case None
    then show ?thesis by (simp add: HttpStatusToString_def value_char_def)
  next
    case (Some d)
    then show ?thesis using known by (simp add: HttpStatusToString_def)
  qed
qed

lemma printable_ok:
  assumes "printable rsp"
  shows "status_ok ''1'' (minor_text rsp) (dec_of_nat (r_status rsp)) (reason_text rsp)" and "list_all header_ok (dump_headers rsp)" and "reason_text rsp \<noteq> []"
    and "(minor_text rsp = ''1'' \<and> r_version rsp = 0x11) \<or> (minor_text rsp = ''0'' \<and> r_version rsp = 0x10)"
proof -
  have one: "list_all digit_char ''1''" "list_all digit_char ''0''" by (simp_all add: digit_char_def char_code_def)
  show "reason_text rsp \<noteq> []" using status_names [of "r_status rsp"] by (simp add: reason_text_def)
  then show "status_ok ''1'' (minor_text rsp) (dec_of_nat (r_status rsp)) (reason_text rsp)"
    using assms one status_names [of "r_status rsp"] dec_of_nat_digits [of "r_status rsp"] by (auto simp: status_ok_def minor_text_def reason_text_def printable_def)
  have "header_ok (''connection'', ''close'')" "header_ok (''connection'', ''keep-alive'')"
    by (simp_all add: header_ok_def token_char_def token_code_def first_char_def value_char_def char_code_def)
  then show "list_all header_ok (dump_headers rsp)" using assms by (auto simp: dump_headers_def printable_def list_all_iff)
  show "(minor_text rsp = ''1'' \<and> r_version rsp = 0x11) \<or> (minor_text rsp = ''0'' \<and> r_version rsp = 0x10)" using assms by (auto simp: minor_text_def printable_def)
qed

section \<open>The client's parser on the server's text\<close>

text \<open>A name that no colon follows stops the machine.\<close>

lemma semicolon_run:
  assumes ok: "name \<noteq> []" "list_all token_char name" and s: "s \<in> set line_states" and here: "has_at buffer p (name @ '';'')"
  shows "\<exists>q'. cl_loop buffer p s q = (p + length name, 0, q', [])"
proof -
  obtain c cs where name: "name = c # cs" using ok(1) by (cases name) auto
  have at: "has_at buffer p [c]" "has_at buffer (p + 1) cs" "p + 1 + length cs < length buffer" "buffer ! (p + 1 + length cs) = CHR '';''"
    using here by (simp_all add: name has_at_append has_at_Cons has_at_Nil add_ac)
  have codes: "token_code (char_code c)" "list_all token_char cs" using ok(2) by (simp_all add: name token_char_def)
  obtain s1 q1 where 1: "cl_loop buffer p s q = cl_loop buffer (p + 1) s1 q1" "s1 \<in> set name_states"
    by (rule class_step [OF at(1) next_line_token [OF s codes(1)], of q]) (auto simp: cl_action_def)
  obtain s2 where 2: "cl_loop buffer (p + 1) s1 q1 = cl_loop buffer (p + 1 + length cs) s2 q1" "s2 \<in> set name_states"
    using name_run [OF codes(2) 1(2) at(2)] by blast
  have "cl_next s2 (char_code (buffer ! (p + 1 + length cs))) = Halt" using next_name_semicolon [OF 2(2)] by (simp only: at(4)) (simp add: char_code_def)
  then have "cl_loop buffer (p + 1 + length cs) s2 q1 = (p + 1 + length cs, 0, q1, [])" using at(3) by (subst cl_loop.simps) simp
  then show ?thesis using 1 2 by (simp add: name)
qed

lemma broken_run:
  assumes ok: "status_ok major minor status reason" "list_all header_ok hs" "name \<noteq> []" "list_all token_char name"
    and buffer: "buffer = status_line major minor status reason @ concat (map header_text hs) @ name @ '';'' @ rest" and len: "length buffer < 2 ^ 31"
  shows "\<exists>q'. cl_execute (cl_init g) buffer = Inr (q', int (length (status_line major minor status reason) + length (concat (map header_text hs)) + length name),
      status_events major minor status reason @ header_events (length (status_line major minor status reason)) hs) \<and> cl_has_error q'"
proof -
  let ?line = "status_line major minor status reason" let ?hs = "concat (map header_text hs)"
  have "has_at buffer 0 (?line @ ?hs @ name @ '';'')" using has_at_whole [of "?line @ ?hs @ name @ '';''" rest] by (simp add: buffer)
  then have at: "has_at buffer 0 ?line" "has_at buffer (length ?line) ?hs" "has_at buffer (length ?line + length ?hs) (name @ '';'')"
    by (simp_all add: has_at_append add_ac)
  obtain q1 where 1: "cl_loop buffer 0 1 (start_parser g) = prepend (status_events major minor status reason) (cl_loop buffer (length ?line) 20 q1)"
    using status_run [OF ok(1) at(1)] by blast
  obtain s q2 where 2: "s \<in> set line_states" "cl_loop buffer (length ?line) 20 q1 = prepend (header_events (length ?line) hs) (cl_loop buffer (length ?line + length ?hs) s q2)"
    using headers_run [OF ok(2) _ at(2), of 20 q1] by (auto simp: line_states_def)
  obtain q3 where 3: "cl_loop buffer (length ?line + length ?hs) s q2 = (length ?line + length ?hs + length name, 0, q3, [])"
    using semicolon_run [OF ok(3,4) 2(1) at(3)] by blast
  have "cl_loop buffer 0 1 (start_parser g) = (length ?line + length ?hs + length name, 0, q3,
      status_events major minor status reason @ header_events (length ?line) hs)"
    unfolding 1 2(2) 3 by (simp add: prepend_def)
  from execute_of_loop [OF this _ len] show ?thesis by (auto simp: buffer cl_has_error_def httpclient_parser_error_def)
qed

lemma line_headers_processed:
  assumes "printable rsp" and "has_at mem 0 (dump_line rsp @ concat (map header_text (dump_headers rsp)))"
  shows "on_response_events mem (status_events ''1'' (minor_text rsp) (dec_of_nat (r_status rsp)) (reason_text rsp)
      @ header_events (length (dump_line rsp)) (dump_headers rsp) @ evs) qp
    = on_response_events mem evs (qp\<lparr>qp_data := fold with_header (dump_headers rsp)
        ((qp_data qp)\<lparr>r_version := r_version rsp, r_status := r_status rsp, r_reason := reason_text rsp\<rparr>)\<rparr>)"
proof -
  have "has_at mem 0 (dump_line rsp)" "has_at mem (length (dump_line rsp)) (concat (map header_text (dump_headers rsp)))" using assms(2) by (simp_all add: has_at_append)
  then show ?thesis
    by (simp add: status_events_processed [OF printable_ok(4,3) [OF assms(1)]] header_events_processed [OF printable_ok(2) [OF assms(1)]])
qed

text \<open>What a parser holds when it has read the printed response.\<close>

definition received :: "HttpResponse \<Rightarrow> HttpResponse" where
  "received rsp = fold with_header (dump_headers rsp)
     ((new_HttpResponse 0x11 True)\<lparr>r_version := r_version rsp, r_status := r_status rsp, r_reason := reason_text rsp\<rparr>)"

lemma server_response_run:
  assumes "printable rsp" and "length (HttpResponse_dump rsp) < 2 ^ 31"
  shows "\<exists>qp mem n. HttpResponseParser_execute client_machine (new_HttpResponseParser client_machine g) (HttpResponse_dump rsp @ behind) (length (HttpResponse_dump rsp)) False
      = Inr (qp, mem, n) \<and> qp_data qp = received rsp
    \<and> (if r_body rsp = [] then n = length (HttpResponse_dump rsp) \<and> rsp_isFinished client_machine qp = 1 \<and> \<not> rsp_hasError client_machine qp
        else n < length (HttpResponse_dump rsp) - length (r_body rsp) \<and> rsp_isFinished client_machine qp = - 1 \<and> rsp_hasError client_machine qp)"
proof -
  note ok = printable_ok [OF assms(1)]
  let ?dump = "HttpResponse_dump rsp" let ?mem = "?dump @ behind" let ?line = "dump_line rsp" let ?hs = "concat (map header_text (dump_headers rsp))"
  have name: "list_all token_char ''content-length''" by (simp add: token_char_def token_code_def char_code_def)
  have here: "has_at ?mem 0 (?line @ ?hs)" unfolding dump_parts [OF assms(1)] has_at_def by simp
  show ?thesis
  proof (cases "r_body rsp = []")
    case True
    then have d: "?dump = response_text ''1'' (minor_text rsp) (dec_of_nat (r_status rsp)) (reason_text rsp) (dump_headers rsp) @ []"
      by (simp add: dump_parts [OF assms(1)] response_text_def)
    obtain q where q: "cl_execute (cl_init g) ?dump = Inr (q, int (length ?dump), status_events ''1'' (minor_text rsp) (dec_of_nat (r_status rsp)) (reason_text rsp)
        @ header_events (length ?line) (dump_headers rsp) @ [Cl_header_done (length ?dump) 0])" "cl_finish q = 1" "\<not> cl_has_error q"
      using response_run [OF ok(1,2) d assms(2)] d by auto
    show ?thesis using q True line_headers_processed [OF assms(1) here, of "[Cl_header_done (length ?dump) 0]" "new_HttpResponseParser client_machine g"]
      by (simp add: HttpResponseParser_execute_def new_HttpResponseParser_def client_machine_def on_response_event_def received_def rsp_isFinished_def rsp_hasError_def)
  next
    case False
    then have d: "?dump = ?line @ ?hs @ ''content-length'' @ '';'' @ '' '' @ dec_of_nat (length (r_body rsp)) @ crlf @ crlf @ r_body rsp"
      by (simp add: dump_parts [OF assms(1)])
    let ?n = "length ?line + length ?hs + length ''content-length''"
    obtain q where q: "cl_execute (cl_init g) ?dump = Inr (q, int ?n, status_events ''1'' (minor_text rsp) (dec_of_nat (r_status rsp)) (reason_text rsp)
        @ header_events (length ?line) (dump_headers rsp))" "cl_has_error q"
      using broken_run [OF ok(1,2) _ name d assms(2)] by auto
    have "?n < length ?dump - length (r_body rsp)" "int ?n \<le> int (length ?dump)" unfolding d by simp_all
    then show ?thesis using q False line_headers_processed [OF assms(1) here, of "[]" "new_HttpResponseParser client_machine g"]
      by (simp add: HttpResponseParser_execute_def new_HttpResponseParser_def client_machine_def received_def rsp_isFinished_def rsp_hasError_def cl_finish_def)
  qed
qed


text \<open>A response with a header, without and with a body.\<close>

definition zeroed_parser :: httpclient_parser where
  "zeroed_parser = \<lparr>hcp_cs = 0, hcp_body_start = 0, hcp_content_len = 0, hcp_status = 0, hcp_chunked = False, hcp_chunks_done = False, hcp_close = False,
     hcp_nread = 0, hcp_mark = 0, hcp_field_start = 0, hcp_field_len = 0\<rparr>"

definition sample_response :: "string \<Rightarrow> HttpResponse" where
  "sample_response body = (response_setHeader ''Server'' ''sylar'' (new_HttpResponse 0x11 True))\<lparr>r_body := body\<rparr>"

lemma sample_printable: "printable (sample_response body)"
  by (simp add: sample_response_def response_setHeader_def map_assign_def new_HttpResponse_def printable_def header_ok_def token_char_def token_code_def first_char_def
      value_char_def char_code_def)

lemma sample_length: "length body < 10 \<Longrightarrow> length (HttpResponse_dump (sample_response body)) < 2 ^ 31"
  using sample_printable [of body]
  by (simp add: dump_parts sample_response_def response_setHeader_def map_assign_def new_HttpResponse_def status_line_def dec_of_nat.simps dump_headers_def
      header_text_def reason_text_def minor_text_def HttpStatusToString_def HTTP_STATUS_MAP_def)

lemma sample_received:
  "r_headers (received (sample_response [])) = [(''connection'', ''close''), (''Server'', ''sylar'')] \<and> r_reason (received (sample_response [])) = ''OK''"
  by (simp add: received_def with_header_def dump_headers_def sample_response_def response_setHeader_def map_assign_def new_HttpResponse_def reason_text_def
      HttpStatusToString_def HTTP_STATUS_MAP_def CaseInsensitiveLess_def c_str_def tolower_def)


end
