(* ===== verification/HttpConnection.thy ===== *)
theory HttpConnection
  imports HttpMessageParser Stream UriParser
begin

text \<open>
  The client's side (\<open>sylar/http/http_connection.h\<close>, \<open>sylar/http/http_connection.cpp\<close>): receiving a response, one-shot
  requests, and the pool of connections. Loops whose end depends on the peer and on the response machine are
  partial functions. The interface of the machine, the resolver, \<open>strerror\<close> and \<open>boost::lexical_cast\<close> are parameters.
\<close>

text \<open>\<open>Length_error\<close> is \<open>std::length_error\<close> of the body string, \<open>Lookup_failed\<close> an error of the address code, \<open>Uri_threw\<close> one of \<open>Uri::Create\<close>.\<close>

datatype conn_error = Conn_parser parser_error | Conn_close hook_error | Length_error | Lookup_failed addr_error | Connect_error hook_error
  | Uri_threw uri_error

text \<open>How a part of \<open>recvResponse\<close> ends: with a value, by closing the connection and returning null, or by returning null.\<close>

datatype 'a part = Got 'a | Close_and_null | Just_null

subsection \<open>Receiving a response\<close>

text \<open>\<open>data\<close> has \<open>buff_size + 1\<close> characters; a zero is stored behind what was read.\<close>

partial_function (option) response_loop ::
  "'q client \<Rightarrow> 'k network \<Rightarrow> nat \<Rightarrow> sstream \<Rightarrow> 'q rsp_parser \<Rightarrow> string \<Rightarrow> nat \<Rightarrow> 'k hook
     \<Rightarrow> ((conn_error + ('q rsp_parser \<times> string \<times> nat) part) \<times> 'k hook) option" where
  "response_loop cl net buff_size ss qp data offset h =
     (case ss_read net ss (buff_size - offset) h of ((rt, bs), h1) \<Rightarrow>
        if rt \<le> 0 then Some (Inr Close_and_null, h1)
        else let len = nat rt + offset;
                 data1 = put_at len [CHR 0x00] (put_at offset bs data)
             in case HttpResponseParser_execute cl qp data1 len False of
               Inl e \<Rightarrow> Some (Inl (Conn_parser e), h1)
             | Inr (qp1, data2, nparse) \<Rightarrow>
                 if rsp_hasError cl qp1 then Some (Inr Close_and_null, h1)
                 else let offset1 = len - nparse in
                   if offset1 = buff_size then Some (Inr Close_and_null, h1)
                   else if rsp_isFinished cl qp1 \<noteq> 0 then Some (Inr (Got (qp1, data2, offset1)), h1)
                   else response_loop cl net buff_size ss qp1 data2 offset1 h1)"

text \<open>The inner loop over the header of one chunk, which always reads first.\<close>

partial_function (option) chunk_header_loop ::
  "'q client \<Rightarrow> 'k network \<Rightarrow> nat \<Rightarrow> sstream \<Rightarrow> 'q rsp_parser \<Rightarrow> string \<Rightarrow> nat \<Rightarrow> 'k hook
     \<Rightarrow> ((conn_error + ('q rsp_parser \<times> string \<times> nat) part) \<times> 'k hook) option" where
  "chunk_header_loop cl net buff_size ss qp data len h =
     (case ss_read net ss (buff_size - len) h of ((rt, bs), h1) \<Rightarrow>
        if rt \<le> 0 then Some (Inr Close_and_null, h1)
        else let len1 = len + nat rt;
                 data1 = put_at len1 [CHR 0x00] (put_at len bs data)
             in case HttpResponseParser_execute cl qp data1 len1 True of
               Inl e \<Rightarrow> Some (Inl (Conn_parser e), h1)
             | Inr (qp1, data2, nparse) \<Rightarrow>
                 if rsp_hasError cl qp1 then Some (Inr Close_and_null, h1)
                 else let len2 = len1 - nparse in
                   if len2 = buff_size then Some (Inr Just_null, h1)
                   else if rsp_isFinished cl qp1 \<noteq> 0 then Some (Inr (Got (qp1, data2, len2)), h1)
                   else chunk_header_loop cl net buff_size ss qp1 data2 len2 h1)"

text \<open>Reading what is left of a chunk, with the two characters behind it.\<close>

function chunk_rest :: "'k network \<Rightarrow> nat \<Rightarrow> sstream \<Rightarrow> int \<Rightarrow> string \<Rightarrow> string \<Rightarrow> 'k hook \<Rightarrow> (string \<times> string) option \<times> 'k hook" where
  "chunk_rest net buff_size ss left body data h =
     (if left \<le> 0 then (Some (body, data), h)
      else case ss_read net ss (if left > int buff_size then buff_size else nat left) h of ((rt, bs), h1) \<Rightarrow>
        if rt \<le> 0 then (None, h1) else chunk_rest net buff_size ss (left - rt) (body @ bs) (put_at 0 bs data) h1)"
  by pat_completeness auto
termination
  by (relation "measure (\<lambda>(net, buff_size, ss, left, body, data, h). nat left)") auto

declare chunk_rest.simps [simp del]

text \<open>
  One chunk and then, until \<open>chunks_done\<close>, the next. \<open>client_parser\<close> is a copy of the machine's structure taken before
  the loop: \<open>q0\<close> does not change here. A negative count given to \<open>append\<close> or \<open>resize\<close> throws.
\<close>

partial_function (option) chunk_loop ::
  "'q client \<Rightarrow> 'k network \<Rightarrow> nat \<Rightarrow> sstream \<Rightarrow> 'q \<Rightarrow> 'q rsp_parser \<Rightarrow> string \<Rightarrow> nat \<Rightarrow> string \<Rightarrow> 'k hook
     \<Rightarrow> ((conn_error + ('q rsp_parser \<times> string) part) \<times> 'k hook) option" where
  "chunk_loop cl net buff_size ss q0 qp data len body h =
     (case chunk_header_loop cl net buff_size ss qp data len h of
        None \<Rightarrow> None
      | Some (Inl e, h1) \<Rightarrow> Some (Inl e, h1)
      | Some (Inr Close_and_null, h1) \<Rightarrow> Some (Inr Close_and_null, h1)
      | Some (Inr Just_null, h1) \<Rightarrow> Some (Inr Just_null, h1)
      | Some (Inr (Got (qp1, data1, len1)), h1) \<Rightarrow>
          let c = cl_content_len cl q0 in
          if c + 2 \<le> int len1 then
            (if c < 0 then Some (Inl Length_error, h1)
             else let body1 = body @ take (nat c) data1;
                      data2 = memmove_front len1 (nat c + 2) data1;
                      len2 = len1 - (nat c + 2)
                  in if cl_chunks_done cl q0 then Some (Inr (Got (qp1, body1)), h1)
                     else chunk_loop cl net buff_size ss q0 qp1 data2 len2 body1 h1)
          else
            (case chunk_rest net buff_size ss (c - int len1 + 2) (body @ take len1 data1) data1 h1 of
               (None, h2) \<Rightarrow> Some (Inr Just_null, h2)
             | (Some (body1, data2), h2) \<Rightarrow>
                 if length body1 < 2 then Some (Inl Length_error, h2)
                 else let body2 = take (length body1 - 2) body1 in
                   if cl_chunks_done cl q0 then Some (Inr (Got (qp1, body2)), h2)
                   else chunk_loop cl net buff_size ss q0 qp1 data2 0 body2 h2))"

text \<open>The body of a response that is not chunked.\<close>

definition response_body :: "(string \<Rightarrow> u64 option) \<Rightarrow> 'k network \<Rightarrow> sstream \<Rightarrow> 'q rsp_parser \<Rightarrow> string \<Rightarrow> nat \<Rightarrow> 'k hook \<Rightarrow> string part \<times> 'k hook" where
  "response_body lexical_cast net ss qp data offset h =
     (let L = sint (rsp_getContentLength lexical_cast qp) in
      if L > 0 then
        let body = replicate (nat L) CHR 0x00;
            (body1, len) = (if L \<ge> int offset then (put_at 0 (take offset data) body, offset) else (put_at 0 (take (nat L) data) body, nat L));
            left = L - int offset
        in if left > 0 then
             (case readFixSize (ss_read net ss) (nat left) h of ((rt, bs), h1) \<Rightarrow>
                if rt \<le> 0 then (Close_and_null, h1) else (Got (put_at len bs body1), h1))
           else (Got body1, h)
      else (Got [], h))"

definition set_body :: "string \<Rightarrow> HttpResponse \<Rightarrow> HttpResponse" where
  "set_body body rsp = (if body \<noteq> [] then rsp\<lparr>r_body := body\<rparr> else rsp)"

text \<open>The response with its body, before the connection is closed for a null result.\<close>

definition response_part ::
  "'q client \<Rightarrow> (string \<Rightarrow> u64 option) \<Rightarrow> 'k network \<Rightarrow> 'q \<Rightarrow> nat \<Rightarrow> string \<Rightarrow> sstream \<Rightarrow> 'k hook \<Rightarrow> ((conn_error + HttpResponse part) \<times> 'k hook) option" where
  "response_part cl lexical_cast net garbage buff_size mem ss h =
     (case response_loop cl net buff_size ss (new_HttpResponseParser cl garbage) mem 0 h of
        None \<Rightarrow> None
      | Some (Inl e, h1) \<Rightarrow> Some (Inl e, h1)
      | Some (Inr Close_and_null, h1) \<Rightarrow> Some (Inr Close_and_null, h1)
      | Some (Inr Just_null, h1) \<Rightarrow> Some (Inr Just_null, h1)
      | Some (Inr (Got (qp, data, offset)), h1) \<Rightarrow>
          if cl_chunked cl (qp_parser qp) then
            (case chunk_loop cl net buff_size ss (qp_parser qp) qp data offset [] h1 of
               None \<Rightarrow> None
             | Some (Inl e, h2) \<Rightarrow> Some (Inl e, h2)
             | Some (Inr Close_and_null, h2) \<Rightarrow> Some (Inr Close_and_null, h2)
             | Some (Inr Just_null, h2) \<Rightarrow> Some (Inr Just_null, h2)
             | Some (Inr (Got (qp1, body)), h2) \<Rightarrow> Some (Inr (Got (set_body body (qp_data qp1))), h2))
          else
            Some (case response_body lexical_cast net ss qp data offset h1 of
                    (Got body, h2) \<Rightarrow> (Inr (Got (set_body body (qp_data qp))), h2)
                  | (Close_and_null, h2) \<Rightarrow> (Inr Close_and_null, h2)
                  | (Just_null, h2) \<Rightarrow> (Inr Just_null, h2)))"

definition recvResponse ::
  "'q client \<Rightarrow> (string \<Rightarrow> u64 option) \<Rightarrow> 'k network \<Rightarrow> 'q \<Rightarrow> nat \<Rightarrow> string \<Rightarrow> sstream \<Rightarrow> 'k hook
     \<Rightarrow> ((conn_error + (HttpResponse option \<times> sstream)) \<times> 'k hook) option" where
  "recvResponse cl lexical_cast net garbage buff_size mem ss h =
     (case response_part cl lexical_cast net garbage buff_size mem ss h of
        None \<Rightarrow> None
      | Some (Inl e, h1) \<Rightarrow> Some (Inl e, h1)
      | Some (Inr (Got rsp), h1) \<Rightarrow> Some (Inr (Some rsp, ss), h1)
      | Some (Inr Just_null, h1) \<Rightarrow> Some (Inr (None, ss), h1)
      | Some (Inr Close_and_null, h1) \<Rightarrow>
          Some (case ss_close net ss h1 of (Inl e, h2) \<Rightarrow> (Inl (Conn_close e), h2) | (Inr ss1, h2) \<Rightarrow> (Inr (None, ss1), h2)))"

definition sendRequest :: "'k network \<Rightarrow> sstream \<Rightarrow> HttpRequest \<Rightarrow> 'k hook \<Rightarrow> int \<times> 'k hook" where
  "sendRequest net ss req h = writeFixSize (ss_write net ss) (HttpRequest_dump req) h"

subsection \<open>One-shot requests\<close>

datatype http_error =
    OK | INVALID_URL | INVALID_HOST | CONNECT_FAILED | SEND_CLOSE_BY_PEER | SEND_SOCKET_ERROR | TIMEOUT | CREATE_SOCKET_ERROR
  | POOL_GET_CONNECTION | POOL_INVALID_CONNECTION

record HttpResult =
  hr_result :: http_error
  hr_response :: "HttpResponse option"
  hr_error :: string

primrec http_error_code :: "http_error \<Rightarrow> nat" where
  "http_error_code OK = 0" | "http_error_code INVALID_URL = 1" | "http_error_code INVALID_HOST = 2"
| "http_error_code CONNECT_FAILED = 3" | "http_error_code SEND_CLOSE_BY_PEER = 4" | "http_error_code SEND_SOCKET_ERROR = 5"
| "http_error_code TIMEOUT = 6" | "http_error_code CREATE_SOCKET_ERROR = 7" | "http_error_code POOL_GET_CONNECTION = 8"
| "http_error_code POOL_INVALID_CONNECTION = 9"

definition HttpResult_toString :: "HttpResult \<Rightarrow> string" where
  "HttpResult_toString r =
     ''[HttpResult result'' @ dec_of_nat (http_error_code (hr_result r)) @ '' error='' @ hr_error r
     @ '' response='' @ (case hr_response r of Some rsp \<Rightarrow> HttpResponse_dump rsp | None \<Rightarrow> ''nullptr'') @ '']''"

text \<open>What the requests run in: the machine, \<open>lexical_cast\<close>, the network, uninitialised memory, and the library functions.\<close>

record ('q, 'k) client_env =
  ce_client :: "'q client"
  ce_lexical_cast :: "string \<Rightarrow> u64 option"
  ce_net :: "'k network"
  ce_garbage :: 'q
  ce_mem :: string
  ce_getaddrinfo :: resolver
  ce_strerror :: "int \<Rightarrow> string"

text \<open>The body of the loop over the given headers: the request and \<open>has_host\<close>.\<close>

definition add_header :: "string \<times> string \<Rightarrow> HttpRequest \<times> bool \<Rightarrow> HttpRequest \<times> bool" where
  "add_header i = (\<lambda>(req, has_host).
     if strcasecmp (c_str (fst i)) ''connection'' = 0 then
       (if strcasecmp (c_str (snd i)) ''keep-alive'' = 0 then req\<lparr>m_close := False\<rparr> else req, has_host)
     else
       (setHeader (fst i) (snd i) req, if \<not> has_host \<and> strcasecmp (c_str (fst i)) ''host'' = 0 then snd i \<noteq> [] else has_host))"

definition build_request :: "HttpMethod \<Rightarrow> uri \<Rightarrow> (string \<times> string) list \<Rightarrow> string \<Rightarrow> HttpRequest" where
  "build_request method u headers body =
     (let req = (new_HttpRequest 0x11 True)\<lparr>m_path := Uri_getPath u, m_query := u_query u, m_fragment := u_fragment u, m_method := method\<rparr>;
          (req1, has_host) = fold add_header headers (req, False);
          req2 = (if \<not> has_host then setHeader ''Host'' (u_host u) req1 else req1)
      in req2\<lparr>m_body := body\<rparr>)"

text \<open>The end of \<open>DoRequest\<close>, where the connection is destroyed.\<close>

definition drop_conn :: "'k network \<Rightarrow> sstream \<Rightarrow> 'a \<Rightarrow> 'k hook \<Rightarrow> (conn_error + 'a) \<times> 'k hook" where
  "drop_conn net ss r h =
     (case del_SocketStream net ss h of (Inl e, h1) \<Rightarrow> (Inl (Conn_close e), h1) | (Inr _, h1) \<Rightarrow> (Inr r, h1))"

definition send_error_text :: "('q, 'k) client_env \<Rightarrow> 'k hook \<Rightarrow> string" where
  "send_error_text E h =
     (let e = errno (net_calls (ce_net E)) h in ''send request socket error errno= '' @ dec_of_int e @ ''errstr='' @ ce_strerror E e)"

definition DoRequest_req ::
  "('q, 'k) client_env \<Rightarrow> HttpRequest \<Rightarrow> uri \<Rightarrow> u64 \<Rightarrow> 'k hook \<Rightarrow> ((conn_error + HttpResult) \<times> 'k hook) option" where
  "DoRequest_req E req u timeout_ms h =
     (case createAddress (ce_getaddrinfo E) u of
        Inl e \<Rightarrow> Some (Inl (Lookup_failed e), h)
      | Inr None \<Rightarrow> Some (Inr \<lparr>hr_result = INVALID_HOST, hr_response = None, hr_error = ''invalid host: '' @ u_host u\<rparr>, h)
      | Inr (Some addr) \<Rightarrow>
          let net = ce_net E;
              sock = CreateTCP addr;
              h1 = setRecvTimeout net (sint timeout_ms) sock h;
              ss = new_SocketStream (Some sock) True;
              (rt, h2) = sendRequest net ss req h1
          in if rt = 0 then
               Some (drop_conn net ss \<lparr>hr_result = SEND_CLOSE_BY_PEER, hr_response = None,
                 hr_error = ''send request closed by peer: '' @ Address_toString addr\<rparr> h2)
             else if rt < 0 then
               Some (drop_conn net ss \<lparr>hr_result = SEND_SOCKET_ERROR, hr_response = None, hr_error = send_error_text E h2\<rparr> h2)
             else
               (case recvResponse (ce_client E) (ce_lexical_cast E) net (ce_garbage E) (length (ce_mem E) - 1) (ce_mem E) ss h2 of
                  None \<Rightarrow> None
                | Some (Inl e, h3) \<Rightarrow> Some (Inl e, h3)
                | Some (Inr (None, ss1), h3) \<Rightarrow>
                    Some (drop_conn net ss1 \<lparr>hr_result = TIMEOUT, hr_response = None, hr_error =
                      ''recv response timeout: '' @ Address_toString addr @ ''timeout_ms='' @ dec_of_nat (unat timeout_ms)\<rparr> h3)
                | Some (Inr (Some rsp, ss1), h3) \<Rightarrow>
                    Some (drop_conn net ss1 \<lparr>hr_result = OK, hr_response = Some rsp, hr_error = ''ok''\<rparr> h3)))"

definition DoRequest_uri ::
  "('q, 'k) client_env \<Rightarrow> HttpMethod \<Rightarrow> uri \<Rightarrow> u64 \<Rightarrow> (string \<times> string) list \<Rightarrow> string \<Rightarrow> 'k hook \<Rightarrow> ((conn_error + HttpResult) \<times> 'k hook) option" where
  "DoRequest_uri E method u timeout_ms headers body h = DoRequest_req E (build_request method u headers body) u timeout_ms h"

definition DoRequest ::
  "('q, 'k) client_env \<Rightarrow> HttpMethod \<Rightarrow> string \<Rightarrow> u64 \<Rightarrow> (string \<times> string) list \<Rightarrow> string \<Rightarrow> 'k hook \<Rightarrow> ((conn_error + HttpResult) \<times> 'k hook) option" where
  "DoRequest E method url timeout_ms headers body h =
     (case Uri_Create url of
        Inl e \<Rightarrow> Some (Inl (Uri_threw e), h)
      | Inr None \<Rightarrow> Some (Inr \<lparr>hr_result = INVALID_URL, hr_response = None, hr_error = ''invalid url:'' @ url\<rparr>, h)
      | Inr (Some u) \<Rightarrow> DoRequest_uri E method u timeout_ms headers body h)"

definition DoGet_uri :: "('q, 'k) client_env \<Rightarrow> uri \<Rightarrow> u64 \<Rightarrow> (string \<times> string) list \<Rightarrow> string \<Rightarrow> 'k hook \<Rightarrow> ((conn_error + HttpResult) \<times> 'k hook) option" where
  "DoGet_uri E u timeout_ms headers body h = DoRequest_uri E M_GET u timeout_ms headers body h"

definition DoGet :: "('q, 'k) client_env \<Rightarrow> string \<Rightarrow> u64 \<Rightarrow> (string \<times> string) list \<Rightarrow> string \<Rightarrow> 'k hook \<Rightarrow> ((conn_error + HttpResult) \<times> 'k hook) option" where
  "DoGet E url timeout_ms headers body h =
     (case Uri_Create url of
        Inl e \<Rightarrow> Some (Inl (Uri_threw e), h)
      | Inr None \<Rightarrow> Some (Inr \<lparr>hr_result = INVALID_URL, hr_response = None, hr_error = ''invalid url:'' @ url\<rparr>, h)
      | Inr (Some u) \<Rightarrow> DoGet_uri E u timeout_ms headers body h)"

definition DoPost_uri :: "('q, 'k) client_env \<Rightarrow> uri \<Rightarrow> u64 \<Rightarrow> (string \<times> string) list \<Rightarrow> string \<Rightarrow> 'k hook \<Rightarrow> ((conn_error + HttpResult) \<times> 'k hook) option" where
  "DoPost_uri E u timeout_ms headers body h = DoRequest_uri E M_POST u timeout_ms headers body h"

definition DoPost :: "('q, 'k) client_env \<Rightarrow> string \<Rightarrow> u64 \<Rightarrow> (string \<times> string) list \<Rightarrow> string \<Rightarrow> 'k hook \<Rightarrow> ((conn_error + HttpResult) \<times> 'k hook) option" where
  "DoPost E url timeout_ms headers body h =
     (case Uri_Create url of
        Inl e \<Rightarrow> Some (Inl (Uri_threw e), h)
      | Inr None \<Rightarrow> Some (Inr \<lparr>hr_result = INVALID_URL, hr_response = None, hr_error = ''invalid url:'' @ url\<rparr>, h)
      | Inr (Some u) \<Rightarrow> DoPost_uri E u timeout_ms headers body h)"

subsection \<open>The pool\<close>

record conn =
  hc_stream :: sstream
  hc_createTime :: u64
  hc_request :: u64

definition new_HttpConnection :: "socket \<Rightarrow> conn" where
  "new_HttpConnection sock = \<lparr>hc_stream = new_SocketStream (Some sock) True, hc_createTime = 0, hc_request = 0\<rparr>"

text \<open>\<open>m_total\<close> is an \<open>int32_t\<close>.\<close>

record pool =
  p_host :: string
  p_vhost :: string
  p_port :: u32
  p_maxSize :: u32
  p_maxAliveTime :: u32
  p_maxRequest :: u32
  p_conns :: "conn list"
  p_total :: int

definition new_HttpConnectionPool :: "string \<Rightarrow> string \<Rightarrow> u32 \<Rightarrow> u32 \<Rightarrow> u32 \<Rightarrow> u32 \<Rightarrow> pool" where
  "new_HttpConnectionPool host vhost port max_size max_alive_time max_request =
     \<lparr>p_host = host, p_vhost = vhost, p_port = port, p_maxSize = max_size, p_maxAliveTime = max_alive_time, p_maxRequest = max_request,
      p_conns = [], p_total = 0\<rparr>"

text \<open>The loop of \<open>getConnection\<close>: the invalid connections, the one that is taken, the rest.\<close>

primrec take_conn :: "u64 \<Rightarrow> u32 \<Rightarrow> conn list \<Rightarrow> conn list \<times> conn option \<times> conn list" where
  "take_conn now_ms maxAliveTime [] = ([], None, [])"
| "take_conn now_ms maxAliveTime (c # cs) =
     (if \<not> ss_isConnected (hc_stream c) \<or> hc_createTime c + ucast maxAliveTime > now_ms
      then (case take_conn now_ms maxAliveTime cs of (bad, got, rest) \<Rightarrow> (c # bad, got, rest))
      else ([], Some c, cs))"

text \<open>\<open>delete\<close>, which closes the socket.\<close>

primrec delete_conns :: "'k network \<Rightarrow> conn list \<Rightarrow> 'k hook \<Rightarrow> (conn_error + unit) \<times> 'k hook" where
  "delete_conns net [] h = (Inr (), h)"
| "delete_conns net (c # cs) h =
     (case drop_conn net (hc_stream c) () h of (Inl e, h1) \<Rightarrow> (Inl e, h1) | (Inr _, h1) \<Rightarrow> delete_conns net cs h1)"

definition open_connection :: "('q, 'k) client_env \<Rightarrow> pool \<Rightarrow> 'k hook \<Rightarrow> (conn_error + (conn option \<times> pool)) \<times> 'k hook" where
  "open_connection E p h =
     (case LookupAnyIPAddress (ce_getaddrinfo E) (p_host p) AF_UNSPEC 0 0 of
        Inl e \<Rightarrow> (Inl (Lookup_failed e), h)
      | Inr None \<Rightarrow> (Inr (None, p), h)
      | Inr (Some a) \<Rightarrow>
          let addr = setPort (ucast (p_port p)) a in
          (case Socket_connect (ce_net E) addr (- 1) (CreateTCP addr) h of
             (Inl e, h1) \<Rightarrow> (Inl (Connect_error e), h1)
           | (Inr (ok, sock), h1) \<Rightarrow>
               if \<not> ok then (case Socket_close (ce_net E) sock h1 of (Inl e, h2) \<Rightarrow> (Inl (Conn_close e), h2) | (Inr _, h2) \<Rightarrow> (Inr (None, p), h2))
               else (Inr (Some (new_HttpConnection sock), p\<lparr>p_total := int32_of (p_total p + 1)\<rparr>), h1)))"

definition getConnection :: "('q, 'k) client_env \<Rightarrow> u64 \<Rightarrow> pool \<Rightarrow> 'k hook \<Rightarrow> (conn_error + (conn option \<times> pool)) \<times> 'k hook" where
  "getConnection E now_ms p h =
     (case take_conn now_ms (p_maxAliveTime p) (p_conns p) of (bad, got, rest) \<Rightarrow>
        (case delete_conns (ce_net E) bad h of
           (Inl e, h1) \<Rightarrow> (Inl e, h1)
         | (Inr _, h1) \<Rightarrow>
             let p1 = p\<lparr>p_conns := rest, p_total := int32_of (p_total p - int (length bad))\<rparr> in
             (case got of Some c \<Rightarrow> (Inr (Some c, p1), h1) | None \<Rightarrow> open_connection E p1 h1)))"

text \<open>The deleter of the shared pointer, at the time \<open>now_ms\<close>.\<close>

definition ReleasePtr :: "'k network \<Rightarrow> u64 \<Rightarrow> conn \<Rightarrow> pool \<Rightarrow> 'k hook \<Rightarrow> (conn_error + pool) \<times> 'k hook" where
  "ReleasePtr net now_ms c p h =
     (let c1 = c\<lparr>hc_request := hc_request c + 1\<rparr> in
      if \<not> ss_isConnected (hc_stream c1) \<or> hc_createTime c1 + ucast (p_maxAliveTime p) \<ge> now_ms \<or> hc_request c1 \<ge> ucast (p_maxRequest p)
      then drop_conn net (hc_stream c1) (p\<lparr>p_total := int32_of (p_total p - 1)\<rparr>) h
      else (Inr (p\<lparr>p_conns := p_conns p @ [c1]\<rparr>), h))"

definition pool_text :: "pool \<Rightarrow> string" where
  "pool_text p = ''pool host:'' @ p_host p @ '' port:'' @ dec_of_nat (unat (p_port p))"

text \<open>One request over a pooled connection, which is released when the function returns: \<open>t1\<close> is the time at the start, \<open>t2\<close> the time of the release.\<close>

definition pool_doRequest_req ::
  "('q, 'k) client_env \<Rightarrow> u64 \<Rightarrow> u64 \<Rightarrow> HttpRequest \<Rightarrow> u64 \<Rightarrow> pool \<Rightarrow> 'k hook \<Rightarrow> ((conn_error + (HttpResult \<times> pool)) \<times> 'k hook) option" where
  "pool_doRequest_req E t1 t2 req timeout_ms p h =
     (case getConnection E t1 p h of
        (Inl e, h1) \<Rightarrow> Some (Inl e, h1)
      | (Inr (None, p1), h1) \<Rightarrow> Some (Inr (\<lparr>hr_result = POOL_GET_CONNECTION, hr_response = None, hr_error = pool_text p\<rparr>, p1), h1)
      | (Inr (Some c, p1), h1) \<Rightarrow>
          let net = ce_net E;
              release = (\<lambda>ss r h'. case ReleasePtr net t2 (c\<lparr>hc_stream := ss\<rparr>) p1 h' of (Inl e, h'') \<Rightarrow> (Inl e, h'') | (Inr p2, h'') \<Rightarrow> (Inr (r, p2), h''))
          in case ss_socket (hc_stream c) of
               None \<Rightarrow> Some (release (hc_stream c) \<lparr>hr_result = POOL_INVALID_CONNECTION, hr_response = None, hr_error = pool_text p\<rparr> h1)
             | Some sock \<Rightarrow>
                 let h2 = setRecvTimeout net (sint timeout_ms) sock h1;
                     ss = hc_stream c;
                     (rt, h3) = sendRequest net ss req h2
                 in if rt = 0 then
                      (case getRemoteAddressString net ss h3 of (a, ss1, h4) \<Rightarrow>
                         Some (release ss1 \<lparr>hr_result = SEND_CLOSE_BY_PEER, hr_response = None, hr_error = ''send request closed by peer: '' @ a\<rparr> h4))
                    else if rt < 0 then
                      Some (release ss \<lparr>hr_result = SEND_SOCKET_ERROR, hr_response = None, hr_error = send_error_text E h3\<rparr> h3)
                    else
                      (case recvResponse (ce_client E) (ce_lexical_cast E) net (ce_garbage E) (length (ce_mem E) - 1) (ce_mem E) ss h3 of
                         None \<Rightarrow> None
                       | Some (Inl e, h4) \<Rightarrow> Some (Inl e, h4)
                       | Some (Inr (None, ss1), h4) \<Rightarrow>
                           (case getRemoteAddressString net ss1 h4 of (a, ss2, h5) \<Rightarrow>
                              Some (release ss2 \<lparr>hr_result = TIMEOUT, hr_response = None,
                                hr_error = ''recv response timeout: '' @ a @ ''timeout_ms='' @ dec_of_nat (unat timeout_ms)\<rparr> h5))
                       | Some (Inr (Some rsp, ss1), h4) \<Rightarrow>
                           Some (release ss1 \<lparr>hr_result = OK, hr_response = Some rsp, hr_error = ''ok''\<rparr> h4)))"

definition pool_build_request :: "pool \<Rightarrow> HttpMethod \<Rightarrow> string \<Rightarrow> (string \<times> string) list \<Rightarrow> string \<Rightarrow> HttpRequest" where
  "pool_build_request p method url headers body =
     (let req = (new_HttpRequest 0x11 True)\<lparr>m_path := url, m_method := method, m_close := False\<rparr>;
          (req1, has_host) = fold add_header headers (req, False);
          req2 = (if \<not> has_host then setHeader ''Host'' (if p_vhost p = [] then p_host p else p_vhost p) req1 else req1)
      in req2\<lparr>m_body := body\<rparr>)"

definition pool_doRequest ::
  "('q, 'k) client_env \<Rightarrow> u64 \<Rightarrow> u64 \<Rightarrow> HttpMethod \<Rightarrow> string \<Rightarrow> u64 \<Rightarrow> (string \<times> string) list \<Rightarrow> string \<Rightarrow> pool \<Rightarrow> 'k hook \<Rightarrow> ((conn_error + (HttpResult \<times> pool)) \<times> 'k hook) option" where
  "pool_doRequest E t1 t2 method url timeout_ms headers body p h = pool_doRequest_req E t1 t2 (pool_build_request p method url headers body) timeout_ms p h"

text \<open>The versions that take a URI request its path, query and fragment.\<close>

definition uri_target :: "uri \<Rightarrow> string" where
  "uri_target u = Uri_getPath u @ (if u_query u = [] then [] else ''?'') @ u_query u @ (if u_fragment u = [] then [] else ''#'') @ u_fragment u"

definition pool_doRequest_uri ::
  "('q, 'k) client_env \<Rightarrow> u64 \<Rightarrow> u64 \<Rightarrow> HttpMethod \<Rightarrow> uri \<Rightarrow> u64 \<Rightarrow> (string \<times> string) list \<Rightarrow> string \<Rightarrow> pool \<Rightarrow> 'k hook \<Rightarrow> ((conn_error + (HttpResult \<times> pool)) \<times> 'k hook) option" where
  "pool_doRequest_uri E t1 t2 method u timeout_ms headers body p h = pool_doRequest E t1 t2 method (uri_target u) timeout_ms headers body p h"

definition pool_doGet ::
  "('q, 'k) client_env \<Rightarrow> u64 \<Rightarrow> u64 \<Rightarrow> string \<Rightarrow> u64 \<Rightarrow> (string \<times> string) list \<Rightarrow> string \<Rightarrow> pool \<Rightarrow> 'k hook \<Rightarrow> ((conn_error + (HttpResult \<times> pool)) \<times> 'k hook) option" where
  "pool_doGet E t1 t2 url timeout_ms headers body p h = pool_doRequest E t1 t2 M_GET url timeout_ms headers body p h"

definition pool_doGet_uri ::
  "('q, 'k) client_env \<Rightarrow> u64 \<Rightarrow> u64 \<Rightarrow> uri \<Rightarrow> u64 \<Rightarrow> (string \<times> string) list \<Rightarrow> string \<Rightarrow> pool \<Rightarrow> 'k hook \<Rightarrow> ((conn_error + (HttpResult \<times> pool)) \<times> 'k hook) option" where
  "pool_doGet_uri E t1 t2 u timeout_ms headers body p h = pool_doGet E t1 t2 (uri_target u) timeout_ms headers body p h"

definition pool_doPost ::
  "('q, 'k) client_env \<Rightarrow> u64 \<Rightarrow> u64 \<Rightarrow> string \<Rightarrow> u64 \<Rightarrow> (string \<times> string) list \<Rightarrow> string \<Rightarrow> pool \<Rightarrow> 'k hook \<Rightarrow> ((conn_error + (HttpResult \<times> pool)) \<times> 'k hook) option" where
  "pool_doPost E t1 t2 url timeout_ms headers body p h = pool_doRequest E t1 t2 M_POST url timeout_ms headers body p h"

definition pool_doPost_uri ::
  "('q, 'k) client_env \<Rightarrow> u64 \<Rightarrow> u64 \<Rightarrow> uri \<Rightarrow> u64 \<Rightarrow> (string \<times> string) list \<Rightarrow> string \<Rightarrow> pool \<Rightarrow> 'k hook \<Rightarrow> ((conn_error + (HttpResult \<times> pool)) \<times> 'k hook) option" where
  "pool_doPost_uri E t1 t2 u timeout_ms headers body p h = pool_doPost E t1 t2 (uri_target u) timeout_ms headers body p h"

subsection \<open>Chunked responses\<close>

text \<open>Since \<open>q0\<close> is never updated, a loop that does not end with the first chunk does not end with a body.\<close>

lemma chunk_loop_never_done:
  assumes "chunk_loop cl net buff_size ss q0 qp data len body h = Some res"
  shows "\<not> cl_chunks_done cl q0 \<longrightarrow> (\<forall>r. fst res \<noteq> Inr (Got r))"
  by (rule chunk_loop.raw_induct [where P = "\<lambda>cl net b ss q0 qp data len body h res. \<not> cl_chunks_done cl q0 \<longrightarrow> (\<forall>r. fst res \<noteq> Inr (Got r))", OF _ assms])
    (auto simp: Let_def split: option.splits sum.splits prod.splits part.splits if_splits)

lemma response_part_chunked:
  assumes "response_loop cl net buff_size ss (new_HttpResponseParser cl garbage) mem 0 h = Some (Inr (Got (qp, data, offset)), h1)"
    and "cl_chunked cl (qp_parser qp)" and "\<not> cl_chunks_done cl (qp_parser qp)"
  shows "response_part cl lexical_cast net garbage buff_size mem ss h \<noteq> Some (Inr (Got rsp), h2)"
proof
  assume "response_part cl lexical_cast net garbage buff_size mem ss h = Some (Inr (Got rsp), h2)"
  then obtain r where "chunk_loop cl net buff_size ss (qp_parser qp) qp data offset [] h1 = Some (Inr (Got r), h2)"
    using assms(1,2) by (auto simp: response_part_def split: option.splits sum.splits prod.splits part.splits)
  from chunk_loop_never_done [OF this] assms(3) show False by simp
qed


subsection \<open>The body of a response\<close>

text \<open>
  C32. The body of a response with a content length is received exactly: it consists of the characters that came with the header, cut to the length, and
  for what is missing of the following characters of the connection, in order; otherwise the connection ended and is closed.
\<close>

theorem response_body_complete:
  assumes "sint (rsp_getContentLength lexical_cast qp) = L" and "0 < L" and "L < 2 ^ 31" and "offset \<le> length data"
  shows "case response_body lexical_cast net ss qp data offset h of
      (Got body, h') \<Rightarrow> int (length body) = L \<and> (\<exists>bs. body = take (nat (min L (int offset))) data @ bs \<and> reads (ss_read net ss) h bs h')
    | (Close_and_null, h') \<Rightarrow> int offset < L \<and> (\<exists>h1 k rt bs. ss_read net ss k h1 = ((rt, bs), h') \<and> rt \<le> 0)
    | (Just_null, h') \<Rightarrow> False"
proof (cases "L \<le> int offset")
  case True
  then have "put_at 0 (take (nat L) data) (replicate (nat L) CHR 0x00) = take (nat L) data" "length (take (nat L) data) = nat L" "int offset \<le> L \<longrightarrow> offset = nat L"
    using assms(4) by (auto simp: put_at_def)
  then show ?thesis using True assms(1,2) reads_none [of "ss_read net ss" h] by (auto simp: response_body_def Let_def min_def)
next
  case False
  obtain rt bs h1 where rd: "readFixSize (ss_read net ss) (nat (L - int offset)) h = ((rt, bs), h1)" by (metis surj_pair)
  have n: "0 < nat (L - int offset)" "nat (L - int offset) < 2 ^ 31" using False assms(3) by auto
  note spec = ss.readFixSize_spec [OF rd n]
  show ?thesis
  proof (cases "rt \<le> 0")
    case True
    then show ?thesis using rd False assms(1,2) spec by (auto simp: response_body_def Let_def)
  next
    case pos: False
    then have bs: "length bs = nat (L - int offset)" "reads (ss_read net ss) h bs h1" using spec by auto
    have "put_at offset bs (put_at 0 (take offset data) (replicate (nat L) CHR 0x00)) = take offset data @ bs"
      using assms(4) bs(1) False by (simp add: put_at_def min_def)
    then have "response_body lexical_cast net ss qp data offset h = (Got (take offset data @ bs), h1)"
      using rd False pos assms(1,2) by (simp add: response_body_def Let_def)
    then show ?thesis using bs False assms(2,4) by (auto simp: min_def)
  qed
qed

subsection \<open>One-shot requests are never sent\<close>

lemma unconnected_send:
  assumes "\<not> s_isConnected sock" and "bs \<noteq> []" and "length bs < 2 ^ 63"
  shows "writeFixSize (ss_write net (new_SocketStream (Some sock) True)) bs h = (- 1, h)"
proof -
  have "sint (of_nat (length bs) :: u64) = int (length bs)"
    using assms(3) by (simp add: signed_of_nat signed_take_bit_int_eq_self)
  then show ?thesis
    using assms(1,2) by (simp add: writeFixSize_def writeFix_loop.simps ss_write_def ss_isConnected_def new_SocketStream_def)
qed

text \<open>
  C34. The one-shot requests do not work: \<open>DoRequest\<close> creates a socket but never connects it, so whenever the host resolves, nothing is sent and the
  result is a socket error without a response.
\<close>

theorem one_shot_request_not_sent:
  assumes "createAddress (ce_getaddrinfo E) u = Inr (Some addr)" and "length (HttpRequest_dump req) < 2 ^ 63"
  shows "\<exists>r. DoRequest_req E req u timeout_ms h = Some (Inr r, setRecvTimeout (ce_net E) (sint timeout_ms) (CreateTCP addr) h)
    \<and> hr_result r = SEND_SOCKET_ERROR \<and> hr_response r = None"
proof -
  let ?sock = "CreateTCP addr" and ?h = "setRecvTimeout (ce_net E) (sint timeout_ms) (CreateTCP addr) h"
  have new: "\<not> s_isConnected ?sock" "s_sock ?sock = - 1" by (simp_all add: CreateTCP_def new_Socket_def)
  have "HttpRequest_dump req \<noteq> []" by (simp add: HttpRequest_dump_def)
  from unconnected_send [OF new(1) this assms(2)]
  have "sendRequest (ce_net E) (new_SocketStream (Some ?sock) True) req ?h = (- 1, ?h)" by (simp add: sendRequest_def)
  moreover have "drop_conn (ce_net E) (new_SocketStream (Some ?sock) True) r ?h = (Inr r, ?h)" for r :: HttpResult
    using new by (simp add: drop_conn_def del_SocketStream_def ss_close_def new_SocketStream_def Socket_close_def outcome_simps)
  ultimately show ?thesis using assms(1) by (simp add: DoRequest_req_def Let_def)
qed

subsection \<open>What the pool counts\<close>

text \<open>
  The histories of a pool: connections are taken, used by their holders, which may change or close their streams while anything else happens,
  and released. The state has the connections that are in use.
\<close>

inductive pool_run :: "('q, 'k) client_env \<Rightarrow> pool \<Rightarrow> pool \<Rightarrow> conn list \<Rightarrow> 'k hook \<Rightarrow> bool" for E p0 where
  start: "pool_run E p0 p0 [] h"
| taken: "pool_run E p0 p us h \<Longrightarrow> getConnection E now_ms p h = (Inr (Some c, p'), h') \<Longrightarrow> pool_run E p0 p' (c # us) h'"
| refused: "pool_run E p0 p us h \<Longrightarrow> getConnection E now_ms p h = (Inr (None, p'), h') \<Longrightarrow> pool_run E p0 p' us h'"
| used: "pool_run E p0 p (us @ c # vs) h \<Longrightarrow> pool_run E p0 p (us @ c\<lparr>hc_stream := ss\<rparr> # vs) h'"
| released: "pool_run E p0 p (us @ c # vs) h \<Longrightarrow> ReleasePtr (ce_net E) now_ms c p h = (Inr p', h') \<Longrightarrow> pool_run E p0 p' (us @ vs) h'"

lemma int32_of_add: "int32_of (int32_of a + b) = int32_of (a + b)"
proof -
  have "int32_of a + b + 2 ^ 31 = (a + 2 ^ 31) mod 2 ^ 32 + b" by (simp add: int32_of_def)
  moreover have "((a + 2 ^ 31) mod 2 ^ 32 + b) mod 2 ^ 32 = (a + b + 2 ^ 31) mod 2 ^ 32" unfolding mod_add_left_eq by (simp add: algebra_simps)
  ultimately show ?thesis unfolding int32_of_def [of "int32_of a + b"] int32_of_def [of "a + b"] by argo
qed

definition conn_ok :: "pool \<Rightarrow> conn \<Rightarrow> bool" where
  "conn_ok p c \<longleftrightarrow> ss_isConnected (hc_stream c) \<and> hc_createTime c = 0 \<and> hc_request c < ucast (p_maxRequest p)"

definition pool_inv :: "pool \<Rightarrow> conn list \<Rightarrow> bool" where
  "pool_inv p us \<longleftrightarrow> p_total p = int32_of (int (length (p_conns p)) + int (length us))
     \<and> (\<forall>c \<in> set (p_conns p). conn_ok p c) \<and> (\<forall>c \<in> set us. hc_createTime c = 0)"

lemma take_conn_spec:
  "take_conn now_ms alive cs = (bad, got, rest) \<Longrightarrow>
    length cs = length bad + length rest + (case got of None \<Rightarrow> 0 | Some c \<Rightarrow> 1) \<and> set rest \<subseteq> set cs
    \<and> (\<forall>c. got = Some c \<longrightarrow> c \<in> set cs \<and> ss_isConnected (hc_stream c) \<and> hc_createTime c + ucast alive \<le> now_ms)"
proof (induction cs arbitrary: bad)
  case (Cons c cs)
  obtain bad1 got1 rest1 where "take_conn now_ms alive cs = (bad1, got1, rest1)" by (metis surj_pair)
  then show ?case using Cons by (auto simp: not_less split: if_splits)
qed simp

lemma open_connection_inv:
  assumes "pool_inv p us" and "open_connection E p h = (Inr (got, p'), h')"
  shows "p_maxRequest p' = p_maxRequest p" and "case got of None \<Rightarrow> pool_inv p' us | Some c \<Rightarrow> pool_inv p' (c # us)"
  using assms int32_of_add [of "int (length (p_conns p)) + int (length us)" 1]
  by (auto simp: open_connection_def Let_def pool_inv_def conn_ok_def new_HttpConnection_def algebra_simps
      split: sum.splits option.splits prod.splits if_splits)

lemma getConnection_inv:
  assumes "pool_inv p us" and "getConnection E now_ms p h = (Inr (got, p'), h')"
  shows "case got of None \<Rightarrow> pool_inv p' us | Some c \<Rightarrow> pool_inv p' (c # us)"
proof -
  obtain bad t rest where t: "take_conn now_ms (p_maxAliveTime p) (p_conns p) = (bad, t, rest)" by (metis surj_pair)
  note sp = take_conn_spec [OF t]
  let ?p = "p\<lparr>p_conns := rest, p_total := int32_of (p_total p - int (length bad))\<rparr>"
  have total: "p_total ?p = int32_of (int (length (p_conns p)) - int (length bad) + int (length us))"
    using assms(1) int32_of_add [of "int (length (p_conns p)) + int (length us)" "- int (length bad)"] by (simp add: pool_inv_def algebra_simps)
  obtain h1 where h1: "t = None \<and> open_connection E ?p h1 = (Inr (got, p'), h') \<or> t = got \<and> got \<noteq> None \<and> p' = ?p"
    using assms(2) t by (auto simp: getConnection_def Let_def split: sum.splits prod.splits option.splits)
  show ?thesis
  proof (cases t)
    case None
    then have "pool_inv ?p us" using assms(1) sp total by (auto simp: pool_inv_def conn_ok_def)
    then show ?thesis using open_connection_inv(2) h1 None by blast
  next
    case (Some c)
    then have "pool_inv ?p (c # us)" using assms(1) sp total by (auto simp: pool_inv_def conn_ok_def algebra_simps)
    then show ?thesis using h1 Some by auto
  qed
qed

lemma getConnection_maxRequest: "getConnection E now_ms p h = (Inr (got, p'), h') \<Longrightarrow> p_maxRequest p' = p_maxRequest p"
  by (auto simp: getConnection_def open_connection_def Let_def split: sum.splits prod.splits option.splits if_splits)

lemma ReleasePtr_inv:
  assumes "pool_inv p (us @ c # vs)" and "ReleasePtr net now_ms c p h = (Inr p', h')"
  shows "pool_inv p' (us @ vs) \<and> p_maxRequest p' = p_maxRequest p"
proof -
  have total: "int32_of (p_total p - 1) = int32_of (int (length (p_conns p)) + int (length (us @ vs)))"
    using assms(1) int32_of_add [of "int (length (p_conns p)) + int (length (us @ c # vs))" "- 1"] by (simp add: pool_inv_def algebra_simps)
  show ?thesis
    using assms total by (auto simp: ReleasePtr_def drop_conn_def pool_inv_def conn_ok_def Let_def not_le algebra_simps split: if_splits prod.splits sum.splits)
qed

lemma pool_run_inv:
  assumes "pool_run E p0 p us h" and "pool_inv p0 []"
  shows "pool_inv p us \<and> p_maxRequest p = p_maxRequest p0"
  using assms(1)
proof induction
  case (taken p us h now_ms c p' h')
  then show ?case using getConnection_inv [of p us E now_ms h "Some c" p' h'] getConnection_maxRequest [of E now_ms p h] by auto
next
  case (refused p us h now_ms p' h')
  then show ?case using getConnection_inv [of p us E now_ms h None p' h'] getConnection_maxRequest [of E now_ms p h] by auto
next
  case (released p us c vs h now_ms p' h')
  then show ?case using ReleasePtr_inv [of p us c vs "ce_net E" now_ms h p' h'] by simp
qed (use assms(2) in \<open>auto simp: pool_inv_def\<close>)


subsection \<open>Examples\<close>

text \<open>A machine that takes the first piece for a chunked header, and a network that delivers \<open>a\<close> for ever.\<close>

definition demo_client :: "unit client" where
  "demo_client = \<lparr>httpclient_parser_init = (\<lambda>q. q), httpclient_parser_execute = (\<lambda>q s. Inr (q, int (length s), [])),
     httpclient_parser_finish = (\<lambda>q. 1), httpclient_parser_has_error = (\<lambda>q. False), cl_chunked = (\<lambda>q. True),
     cl_content_len = (\<lambda>q. - 1), cl_chunks_done = (\<lambda>q. False)\<rparr>"

definition demo_env :: "(unit, int \<times> u32) client_env" where
  "demo_env = \<lparr>ce_client = demo_client, ce_lexical_cast = (\<lambda>s. if s = ''3'' then Some 3 else None), ce_net = drip_network, ce_garbage = (), ce_mem = replicate 5 CHR 0x00,
     ce_getaddrinfo = (\<lambda>node service family type protocol. Some [[2, 0, 0, 80, 127, 0, 0, 1, 0, 0, 0, 0, 0, 0, 0, 0]]),
     ce_strerror = (\<lambda>e. ''error'')\<rparr>"

lemma demo_header:
  "response_loop demo_client drip_network 4 drip_stream (new_HttpResponseParser demo_client ()) (replicate 5 CHR 0x00) 0 demo_hook
    = Some (Inr (Got (new_HttpResponseParser demo_client (), memmove_front 1 1 (put_at 1 [CHR 0x00] (put_at 0 ''a'' (replicate 5 CHR 0x00))), 0)), demo_hook)"
  by (subst response_loop.simps)
    (simp add: drip_read HttpResponseParser_execute_def demo_client_def rsp_hasError_def rsp_isFinished_def new_HttpResponseParser_def put_at_def)


definition demo_response :: "unit rsp_parser" where
  "demo_response = \<lparr>qp_parser = (), qp_data = response_setHeader ''Content-Length'' ''3'' (new_HttpResponse 0x11 True), qp_error = 0\<rparr>"

theorem response_body_complete_witness:
  "case response_body (\<lambda>s. if s = ''3'' then Some 3 else None) drip_network drip_stream demo_response ''x'' 1 demo_hook of
     (Got body, h') \<Rightarrow> length body = 3 | (Close_and_null, h') \<Rightarrow> True | (Just_null, h') \<Rightarrow> False"
proof -
  have "rsp_getContentLength (\<lambda>s. if s = ''3'' then Some 3 else None) demo_response = 3" by code_simp
  then show ?thesis
    using response_body_complete [of "\<lambda>s. if s = ''3'' then Some 3 else None" demo_response 3 1 "''x''" drip_network drip_stream demo_hook]
    by (auto split: prod.splits part.splits)
qed

lemma demo_lookup: "\<exists>addr. createAddress (ce_getaddrinfo demo_env) u = Inr (Some addr)"
proof -
  have "uint (of_mem [2, 0] :: u16) = 2" by code_simp
  then show ?thesis
    by (simp add: createAddress_def LookupAnyIPAddress_def Lookup_def demo_env_def Address_Create_def Let_def split: prod.splits)
qed

theorem one_shot_request_not_sent_witness:
  "\<exists>r h'. DoRequest_req demo_env (new_HttpRequest 0x11 True) (new_Uri\<lparr>u_scheme := ''http'', u_host := ''localhost''\<rparr>) 1000 demo_hook = Some (Inr r, h')
    \<and> hr_result r = SEND_SOCKET_ERROR"
proof -
  obtain addr where "createAddress (ce_getaddrinfo demo_env) (new_Uri\<lparr>u_scheme := ''http'', u_host := ''localhost''\<rparr>) = Inr (Some addr)"
    using demo_lookup by blast
  moreover have "length (HttpRequest_dump (new_HttpRequest 0x11 True)) < 2 ^ 63"
    by (simp add: HttpRequest_dump_def new_HttpRequest_def version_text_def dec_of_nat.simps header_lines_def HttpMethodToString_def HTTP_METHOD_MAP_def)
  ultimately show ?thesis using one_shot_request_not_sent [of demo_env "new_Uri\<lparr>u_scheme := ''http'', u_host := ''localhost''\<rparr>"] by blast
qed


end
