(* ===== verification/HttpResponseExchange.thy ===== *)
theory HttpResponseExchange
  imports HttpResponseText HttpConnection
begin

text \<open>
  The response machine inside of the client: \<open>recvResponse\<close> on the text that the server's printer makes, and a response whose header arrives in two reads.
\<close>

section \<open>A header in two reads\<close>

text \<open>A call on a machine that stopped inside of a header value: the marks are zero again, so the rest of the value is reported with an empty name.\<close>

lemma execute_of_loop_at:
  assumes loop: "cl_loop buffer 0 (hcp_cs q0) (q0\<lparr>hcp_nread := 0, hcp_mark := 0, hcp_field_len := 0, hcp_field_start := 0\<rparr>) = (p, cs, q, evs)"
    and states: "0 < hcp_cs q0" "hcp_cs q0 \<le> 123" and buffer: "buffer \<noteq> []" "length buffer < 2 ^ 31" "hcp_body_start q0 = 0"
  shows "\<exists>q'. cl_execute q0 buffer = Inr (q', int p, evs) \<and> hcp_cs q' = cs"
proof -
  have w: "cl_within buffer p q" "hcp_nread q = 0" "p \<le> length buffer"
    using cl_loop_within [OF loop] buffer by (simp_all add: cl_within_def)
  then have "int32_of (int p) = int p" using buffer(2) by (intro int32_of_small) simp_all
  then show ?thesis using loop w buffer(1) states by (simp add: cl_execute_def Let_def cl_within_def)
qed

lemma rest_of_value_run:
  assumes q: "hcp_cs q \<in> set value_states" "hcp_body_start q = 0" and v: "list_all value_char v" and hs: "list_all header_ok hs"
    and buffer: "buffer = v @ crlf @ concat (map header_text hs) @ crlf" and len: "length buffer < 2 ^ 31"
  shows "\<exists>q'. cl_execute q buffer = Inr (q', int (length buffer),
      Cl_http_field 0 0 0 (length v) # header_events (length v + 2) hs @ [Cl_header_done (length buffer) 0]) \<and> hcp_cs q' = 120"
proof -
  let ?hs = "concat (map header_text hs)" let ?q = "q\<lparr>hcp_nread := 0, hcp_mark := 0, hcp_field_len := 0, hcp_field_start := 0\<rparr>"
  have "has_at buffer 0 (v @ crlf @ ?hs @ crlf)" by (simp add: has_at_def buffer)
  then have at: "has_at buffer 0 v" "has_at buffer (length v) crlf" "has_at buffer (length v + 2) ?hs" "has_at buffer (length v + 2 + length ?hs) crlf"
    by (simp_all add: has_at_append has_at_Cons has_at_Nil add_ac)
  obtain s1 where 1: "s1 \<in> set value_states" "cl_loop buffer 0 (hcp_cs q) ?q = cl_loop buffer (length v) s1 ?q" using value_run [OF v q(1) at(1)] by auto
  obtain s2 q2 where 2: "s2 \<in> set line_states" "cl_loop buffer (length v) s1 ?q = prepend [Cl_http_field 0 0 0 (length v)] (cl_loop buffer (length v + 2) s2 q2)"
    using header_close_run [OF 1(1) at(2), of ?q] by auto
  obtain s3 q3 where 3: "s3 \<in> set line_states"
      "cl_loop buffer (length v + 2) s2 q2 = prepend (header_events (length v + 2) hs) (cl_loop buffer (length v + 2 + length ?hs) s3 q3)"
    using headers_run [OF hs 2(1) at(3), of q2] by auto
  obtain q4 where 4: "cl_loop buffer (length v + 2 + length ?hs) s3 q3 = (length buffer, 120, q4, [Cl_header_done (length buffer) 0])"
    using end_run [OF 3(1) at(4), of q3] by (auto simp: buffer)
  have "cl_loop buffer 0 (hcp_cs q) ?q = (length buffer, 120, q4, Cl_http_field 0 0 0 (length v) # header_events (length v + 2) hs @ [Cl_header_done (length buffer) 0])"
    unfolding 1(2) 2(2) 3(2) 4 by (simp add: prepend_def)
  moreover have "0 < hcp_cs q" "hcp_cs q \<le> 123" using q(1) by (auto simp: value_states_mem)
  moreover have "buffer \<noteq> []" by (simp add: buffer)
  ultimately show ?thesis using execute_of_loop_at [OF _ _ _ _ len q(2)] by blast
qed

text \<open>The first call: a status line, headers, and the begin of another header.\<close>

lemma open_header_run:
  assumes ok: "status_ok major minor status reason" "list_all header_ok hs" "header_ok h"
    and buffer: "buffer = status_line major minor status reason @ concat (map header_text hs) @ fst h @ '': '' @ snd h" and len: "length buffer < 2 ^ 31"
  shows "\<exists>q'. cl_execute (cl_init g) buffer = Inr (q', int (length buffer), status_events major minor status reason @ header_events (length (status_line major minor status reason)) hs)
    \<and> hcp_cs q' \<in> set value_states \<and> hcp_body_start q' = 0"
proof -
  let ?line = "status_line major minor status reason" let ?hs = "concat (map header_text hs)"
  have "has_at buffer 0 (?line @ ?hs @ fst h @ '': '' @ snd h)" by (simp add: has_at_def buffer)
  then have at: "has_at buffer 0 ?line" "has_at buffer (length ?line) ?hs" "has_at buffer (length ?line + length ?hs) (fst h @ '': '' @ snd h)"
    by (simp_all add: has_at_append add_ac)
  obtain q1 where 1: "cl_loop buffer 0 1 (start_parser g) = prepend (status_events major minor status reason) (cl_loop buffer (length ?line) 20 q1)"
      "hcp_body_start q1 = hcp_body_start (start_parser g)"
    using status_run [OF ok(1) at(1)] by blast
  obtain s q2 where 2: "s \<in> set line_states" "cl_loop buffer (length ?line) 20 q1 = prepend (header_events (length ?line) hs) (cl_loop buffer (length ?line + length ?hs) s q2)"
      "hcp_body_start q2 = hcp_body_start q1"
    using headers_run [OF ok(2) _ at(2), of 20 q1] by (auto simp: line_states_def)
  obtain s3 q3 where 3: "s3 \<in> set value_states" "cl_loop buffer (length ?line + length ?hs) s q2 = cl_loop buffer (length buffer) s3 q3" "hcp_body_start q3 = hcp_body_start q2"
    using header_open_run [OF ok(3) 2(1) at(3), of q2] by (auto simp: buffer add_ac)
  have stop: "cl_loop buffer (length buffer) s3 q3 = (length buffer, s3, q3, [])" by (subst cl_loop.simps) simp
  have loop: "cl_loop buffer 0 1 (start_parser g) = (length buffer, s3, q3, status_events major minor status reason @ header_events (length ?line) hs)"
    unfolding 1(1) 2(2) 3(2) stop by (simp add: prepend_def)
  have nonempty: "buffer \<noteq> []" using ok(3) by (simp add: buffer status_line_def)
  have w: "cl_within buffer (length buffer) q3" "hcp_nread q3 = 0" using cl_loop_within [OF loop] nonempty by (simp_all add: cl_within_def cl_init_def)
  have "hcp_body_start q3 = 0" using 1(2) 2(3) 3(3) by (simp add: cl_init_def)
  moreover have "int32_of (int (length buffer)) = int (length buffer)" using len by (simp add: int32_of_small)
  ultimately show ?thesis using loop w nonempty 3(1) by (simp add: cl_execute_def Let_def cl_init_def httpclient_parser_start_def cl_within_def)
qed



section \<open>A response with a body\<close>

lemma put_at_text: "length s < length mem \<Longrightarrow> put_at (length s) [c] (put_at 0 s mem) = (s @ [c]) @ drop (length s + 1) mem"
  by (simp add: put_at_def)

text \<open>
  What a server prints for a response with a body is refused by the client of the same library: when the text arrives, \<open>recvResponse\<close> closes the
  connection and returns null.
\<close>

lemma server_body_refused:
  assumes ok: "printable rsp" "r_body rsp \<noteq> []" and len: "length (HttpResponse_dump rsp) < 2 ^ 31" "length (HttpResponse_dump rsp) \<le> buff_size" "length mem = buff_size + 1"
    and arrives: "ss_read net ss buff_size h = ((int (length (HttpResponse_dump rsp)), HttpResponse_dump rsp), h1)"
  shows "recvResponse client_machine lexical_cast net garbage buff_size mem ss h
    = Some (case ss_close net ss h1 of (Inl e, h2) \<Rightarrow> (Inl (Conn_close e), h2) | (Inr ss1, h2) \<Rightarrow> (Inr (None, ss1), h2))"
proof -
  let ?dump = "HttpResponse_dump rsp" let ?qp = "new_HttpResponseParser client_machine garbage"
  have data: "put_at (length ?dump) [CHR 0x00] (put_at 0 ?dump mem) = ?dump @ [CHR 0x00] @ drop (length ?dump + 1) mem" using len by (simp add: put_at_text)
  obtain qp m n where run: "HttpResponseParser_execute client_machine ?qp (?dump @ [CHR 0x00] @ drop (length ?dump + 1) mem) (length ?dump) False = Inr (qp, m, n)"
      "rsp_hasError client_machine qp"
    using server_response_run [OF ok(1) len(1), of garbage "[CHR 0x00] @ drop (length ?dump + 1) mem"] ok(2) by auto
  have "?dump \<noteq> []" by (simp add: HttpResponse_dump_def)
  then have "response_loop client_machine net buff_size ss ?qp mem 0 h = Some (Inr Close_and_null, h1)"
    using run by (subst response_loop.simps) (simp add: arrives data Let_def)
  then show ?thesis by (simp add: recvResponse_def response_part_def)
qed

end
