(* ===== verification/Env.thy ===== *)
theory Env
  imports Config
begin

text \<open>
  The environment of the program (\<open>sylar/env.h\<close>, \<open>sylar/env.cpp\<close>): command line options, help texts, paths. The arguments are C strings. The
  target of \<open>/proc/PID/exe\<close> and the environment variables are parameters.
\<close>

record env =
  e_args :: "string \<rightharpoonup> string"
  e_helps :: "(string \<times> string) list"
  e_program :: string
  e_exe :: string
  e_cwd :: string

definition new_Env :: env where
  "new_Env = \<lparr>e_args = Map.empty, e_helps = [], e_program = [], e_exe = [], e_cwd = []\<rparr>"

definition Env_add :: "string \<Rightarrow> string \<Rightarrow> env \<Rightarrow> env" where
  "Env_add key val e = e\<lparr>e_args := (e_args e)(key \<mapsto> val)\<rparr>"

definition Env_has :: "string \<Rightarrow> env \<Rightarrow> bool" where
  "Env_has key e \<longleftrightarrow> e_args e key \<noteq> None"

definition Env_del :: "string \<Rightarrow> env \<Rightarrow> env" where
  "Env_del key e = e\<lparr>e_args := (e_args e)(key := None)\<rparr>"

definition Env_get :: "string \<Rightarrow> string \<Rightarrow> env \<Rightarrow> string" where
  "Env_get key default_value e = (case e_args e key of Some v \<Rightarrow> v | None \<Rightarrow> default_value)"

text \<open>\<open>m_exe.substr(0, m_exe.find_last_of("/"))\<close>; without a slash it is the whole string.\<close>

definition directory :: "string \<Rightarrow> string" where
  "directory exe = (if CHR ''/'' \<in> set exe then rev (tl (dropWhile (\<lambda>c. c \<noteq> CHR ''/'') (rev exe))) else exe)"

text \<open>The loop over the arguments, with the option that still waits for its value.\<close>

definition flush :: "string option \<Rightarrow> env \<Rightarrow> env" where
  "flush now_key e = (case now_key of None \<Rightarrow> e | Some k \<Rightarrow> Env_add k [] e)"

primrec parse_args :: "string option \<Rightarrow> string list \<Rightarrow> env \<Rightarrow> bool \<times> env" where
  "parse_args now_key [] e = (True, flush now_key e)"
| "parse_args now_key (a # args) e =
     (if a \<noteq> [] \<and> hd a = CHR ''-'' then
        (if length a > 1 then parse_args (Some (tl a)) args (flush now_key e) else (False, e))
      else case now_key of
        Some k \<Rightarrow> parse_args None args (Env_add k a e)
      | None \<Rightarrow> (False, e))"

text \<open>\<open>init\<close> with the program name, the other arguments and the target of the link (of less than 1024 characters).\<close>

definition Env_init :: "string \<Rightarrow> string \<Rightarrow> string list \<Rightarrow> env \<Rightarrow> bool \<times> env" where
  "Env_init exe program args e = parse_args None args (e\<lparr>e_exe := exe, e_cwd := directory exe @ ''/'', e_program := program\<rparr>)"

definition removeHelp :: "string \<Rightarrow> env \<Rightarrow> env" where
  "removeHelp key e = e\<lparr>e_helps := filter (\<lambda>h. fst h \<noteq> key) (e_helps e)\<rparr>"

definition addHelp :: "string \<Rightarrow> string \<Rightarrow> env \<Rightarrow> env" where
  "addHelp key desc e = (let e1 = removeHelp key e in e1\<lparr>e_helps := e_helps e1 @ [(key, desc)]\<rparr>)"

definition printHelp :: "env \<Rightarrow> string" where
  "printHelp e = ''Usage: '' @ e_program e @ '' [options]'' @ [CHR 0x0A] @ concat (map (\<lambda>h. ''    -'' @ fst h @ '' : '' @ snd h @ [CHR 0x0A]) (e_helps e))"

definition setEnv :: "(string \<Rightarrow> string \<Rightarrow> 'k \<Rightarrow> int \<times> 'k) \<Rightarrow> string \<Rightarrow> string \<Rightarrow> 'k \<Rightarrow> bool \<times> 'k" where
  "setEnv setenv key val k = (case setenv (takeWhile (\<lambda>c. c \<noteq> CHR 0x00) key) (takeWhile (\<lambda>c. c \<noteq> CHR 0x00) val) k of (rt, k1) \<Rightarrow> (rt = 0, k1))"

definition getEnv :: "(string \<Rightarrow> 'k \<Rightarrow> string option) \<Rightarrow> string \<Rightarrow> string \<Rightarrow> 'k \<Rightarrow> string" where
  "getEnv getenv key default_value k = (case getenv (takeWhile (\<lambda>c. c \<noteq> CHR 0x00) key) k of None \<Rightarrow> default_value | Some v \<Rightarrow> v)"

definition getAbsolutePath :: "string \<Rightarrow> env \<Rightarrow> string" where
  "getAbsolutePath path e = (if path = [] then ''/'' else if hd path = CHR ''/'' then path else e_cwd e @ path)"

definition getConfigPath :: "env \<Rightarrow> string" where
  "getConfigPath e = getAbsolutePath (Env_get ''c'' ''conf'' e) e"

text \<open>
  \<open>getAbsoluteWorkPath\<close>: the static pointer is initialised by the first call that needs it (\<open>None\<close> before); \<open>t\<close> is the type of string variables.
\<close>

datatype env_error = Null_work_path

definition getAbsoluteWorkPath ::
  "'t \<Rightarrow> ('v \<Rightarrow> string) \<Rightarrow> ('t, 'v, 'w) config \<Rightarrow> string \<Rightarrow> (string option option, env_error, string) outcome" where
  "getAbsoluteWorkPath t as_text cfg path static =
     (if path = [] then (Inr ''/'', static)
      else if hd path = CHR ''/'' then (Inr path, static)
      else let ptr = (case static of None \<Rightarrow> Config_Lookup t ''server.work_path'' cfg | Some p \<Rightarrow> p) in
        case Option.bind ptr (c_datas cfg) of
          None \<Rightarrow> (Inl Null_work_path, Some ptr)
        | Some var \<Rightarrow> (Inr (as_text (cv_val var) @ ''/'' @ path), Some ptr))"

section \<open>Command line\<close>

text \<open>A command line of options with and without values; a value does not begin with a dash.\<close>

definition render :: "string \<times> string option \<Rightarrow> string list" where
  "render opt = (CHR ''-'' # fst opt) # (case snd opt of None \<Rightarrow> [] | Some v \<Rightarrow> [v])"

definition option_ok :: "string \<times> string option \<Rightarrow> bool" where
  "option_ok opt \<longleftrightarrow> fst opt \<noteq> [] \<and> (case snd opt of None \<Rightarrow> True | Some v \<Rightarrow> v = [] \<or> hd v \<noteq> CHR ''-'')"

definition with_option :: "string \<times> string option \<Rightarrow> env \<Rightarrow> env" where
  "with_option opt e = Env_add (fst opt) (case snd opt of None \<Rightarrow> [] | Some v \<Rightarrow> v) e"

lemma parse_option:
  assumes "option_ok opt"
  shows "parse_args now_key (render opt @ args) e
    = (case snd opt of None \<Rightarrow> parse_args (Some (fst opt)) args (flush now_key e) | Some v \<Rightarrow> parse_args None args (with_option opt (flush now_key e)))"
  using assms by (auto simp: render_def option_ok_def with_option_def split: option.splits)

lemma parse_options:
  "list_all option_ok opts \<Longrightarrow> parse_args now_key (concat (map render opts)) e = (True, fold with_option opts (flush now_key e))"
proof (induction opts arbitrary: now_key e)
  case (Cons opt opts)
  have "flush (Some (fst opt)) (flush now_key e) = with_option opt (flush now_key e)" if "snd opt = None"
    using that by (simp add: flush_def with_option_def)
  then show ?case using Cons parse_option [of opt now_key "concat (map render opts)" e] by (auto simp: flush_def split: option.splits)
qed simp

text \<open>Every written option is read: the last value given for a key is the one that \<open>get\<close> returns.\<close>

lemma get_with_options:
  "Env_get key default_value (fold with_option opts e)
    = (case find (\<lambda>opt. fst opt = key) (rev opts) of
         None \<Rightarrow> Env_get key default_value e
       | Some opt \<Rightarrow> (case snd opt of None \<Rightarrow> [] | Some v \<Rightarrow> v))"
proof (induction opts rule: rev_induct)
  case (snoc opt opts)
  then show ?case by (auto simp: with_option_def Env_add_def Env_get_def split: option.splits)
qed simp

text \<open>Help texts: each key once, the one added last at the end.\<close>

lemma addHelp_distinct: "distinct (map fst (e_helps e)) \<Longrightarrow> distinct (map fst (e_helps (addHelp key desc e)))"
  by (auto simp: addHelp_def removeHelp_def Let_def distinct_map_filter)

text \<open>Nothing in the library registers \<open>server.work_path\<close>: without it a relative path dereferences a null pointer, for ever after the first call.\<close>

lemma work_path_null:
  assumes "c_datas cfg ''server.work_path'' = None" and "path \<noteq> []" and "hd path \<noteq> CHR ''/''"
  shows "getAbsoluteWorkPath t as_text cfg path None = (Inl Null_work_path, Some None)"
    and "getAbsoluteWorkPath t as_text cfg' path (Some None) = (Inl Null_work_path, Some None)"
  using assms by (auto simp: getAbsoluteWorkPath_def Config_Lookup_def Let_def)

end
