(* ===== verification/Spec2Isabelle.thy ===== *)
theory Spec2Isabelle
  imports ByteArrayCodec SchedulerLiveness Thread EventLoop UriText HttpServer HttpResponseExchange Env
begin

text \<open>
  A verification development of a server framework in C++ (the directory \<open>src/sylar\<close>): coroutines on worker threads, an event loop with timers,
  system calls that block a coroutine instead of its thread, sockets and streams, and an HTTP server and client on top of them. Each theory
  models some source files and holds the lemmas about them; this one imports all and describes the whole.

  \<^bold>\<open>The program and the theories.\<close>

  \<^item> Shared: \<^verbatim>\<open>Prelude\<close> (machine integers, state with exceptions, slices of memory), \<^verbatim>\<open>CText\<close> (characters, \<open>strtol\<close>, positions in a buffer), \<^verbatim>\<open>OrderedSet\<close> and \<^verbatim>\<open>OrderedMap\<close> (\<open>std::set\<close> and \<open>std::map\<close>
    with a comparator; locales that the timers and the headers interpret), \<^verbatim>\<open>Endian\<close> (\<open>endian.h\<close>).
  \<^item> Serialisation: \<^verbatim>\<open>ByteArray\<close>, \<^verbatim>\<open>ByteArrayBuffers\<close>, \<^verbatim>\<open>ByteArrayCodec\<close> (\<open>bytearray.h/.cpp\<close>). The state is the chain of blocks with position, size and
    current block, over an explicit heap of nodes. \<open>write\<close> and \<open>read\<close> refine operations on one flat byte sequence; the fixed-width, zigzag and
    varint codecs give back what was written, and the places where the code does not are characterised.
  \<^item> Utilities: \<^verbatim>\<open>Util\<close> (\<open>util.h/.cpp\<close>: URL coding, trimming and the other string functions).
  \<^item> Timers: \<^verbatim>\<open>Timer\<close> (\<open>timer.h/.cpp\<close>). Each locked section is one step. Due timers are returned in order, no wake-up is lost, the set holds
    exactly the timers with a callback; two locked sections of one function can be interleaved with other threads.
  \<^item> Threads: \<^verbatim>\<open>Mutex\<close> (\<open>mutex.h/.cpp\<close>), \<^verbatim>\<open>Thread\<close> (\<open>thread.h/.cpp\<close>). What a lock promises to its guards is a locale, interpreted for four lock classes: under every
    interleaving the guards exclude each other and leave the lock. A constructed thread has taken its function and its name, and calls the function once.
  \<^item> Coroutines: \<^verbatim>\<open>Fiber\<close> (\<open>fiber.h/.cpp\<close>), \<^verbatim>\<open>Scheduler\<close>, \<^verbatim>\<open>SchedulerSystem\<close>, \<^verbatim>\<open>SchedulerLiveness\<close> (\<open>scheduler.h/.cpp\<close>). A fiber's function is a
    script of observable actions; a worker is a program counter in \<open>run\<close>. The system is a step relation of many workers over one queue; work is
    conserved, no assertion fails, a lone worker runs everything it has and stops.
  \<^item> Events: \<^verbatim>\<open>IOManager\<close> (\<open>iomanager.h/.cpp\<close>), \<^verbatim>\<open>FdManager\<close> (\<open>fd_manager.h/.cpp\<close>), \<^verbatim>\<open>Hook\<close> (\<open>hook.h/.cpp\<close>). Registered events, their
    contexts and the pending count are kept in step with \<open>epoll\<close>; each waiting task is scheduled exactly once. A hooked call is seen from its fiber: it returns,
    or it holds and says what it waits for; the continuation is a second definition. Time-outs, readiness and \<open>close\<close> wake exactly the waiting fiber.
    \<^verbatim>\<open>EventLoop\<close> joins events and timers: the construction of the manager, its pipe, and the loop of \<open>IOManager::idle\<close>, whose every iteration schedules the due timers and
    the reported events.
  \<^item> Configuration: \<^verbatim>\<open>Config\<close> (\<open>config.h/.cpp\<close>), \<^verbatim>\<open>Env\<close> (\<open>env.h/.cpp\<close>). The registry of typed variables with listeners, loading of a YAML tree, the command line.
  \<^item> Network: \<^verbatim>\<open>Address\<close> (\<open>address.h/.cpp\<close>), \<^verbatim>\<open>Socket\<close>, \<^verbatim>\<open>SslSocket\<close> (\<open>socket.h/.cpp\<close>), \<^verbatim>\<open>Stream\<close> (\<open>stream.h/.cpp\<close>, \<open>socket_stream.h/.cpp\<close>; a locale for what
    any stream promises, interpreted on socket streams), \<^verbatim>\<open>TcpServer\<close> (\<open>tcp_server.h/.cpp\<close>).
  \<^item> HTTP: \<^verbatim>\<open>Http\<close> (\<open>http.h/.cpp\<close>), \<^verbatim>\<open>Servlet\<close> (\<open>servlet.h/.cpp\<close>), \<^verbatim>\<open>HttpParserTables\<close> and \<^verbatim>\<open>HttpParser\<close> (the table-driven machine of \<open>http11_parser.c\<close>),
    \<^verbatim>\<open>HttpMessageParser\<close> (\<open>http_parser.h/.cpp\<close>), \<^verbatim>\<open>HttpSession\<close>, \<^verbatim>\<open>HttpServer\<close>, \<^verbatim>\<open>Uri\<close> (\<open>uri.h\<close> and the functions of \<open>uri.rl.cc\<close>) and \<^verbatim>\<open>HttpConnection\<close>
    (\<open>http_connection.h/.cpp\<close>: requests and the connection pool). \<^verbatim>\<open>HttpServer\<close> composes the parts: serving a client implements a conversation of requests,
    servlets and delivered responses. \<^verbatim>\<open>HttpClientTables\<close>, \<^verbatim>\<open>HttpClientClasses\<close> and \<^verbatim>\<open>HttpClientParser\<close> (\<open>httpclient_parser.h/.c/.rl\<close>) hold the goto code of the
    response machine, a definition for each label, the classes of its states and its loop; \<^verbatim>\<open>HttpResponseText\<close> shows what it makes of the text that the server prints,
    \<^verbatim>\<open>HttpResponseExchange\<close> what the client makes of it, and what becomes of a header that arrives in two reads.
  \<^item> \<open>Uri::Create\<close> (\<open>uri.rl.cc\<close>): \<^verbatim>\<open>UriTables\<close> and \<^verbatim>\<open>UriStates\<close> hold its goto code, a definition for each label, \<^verbatim>\<open>UriParser\<close> its actions and loop, \<^verbatim>\<open>UriClasses\<close> the
    classes of its states. \<^verbatim>\<open>UriText\<close> shows that a printed URI is read back, and where the parser throws or loses a part; the texts of octets are a locale that is
    interpreted for user information, host, path, query and fragment.

  \<^bold>\<open>How the code is modelled.\<close> A class is a record, a member function is a definition that takes and returns it, an exception or a failed assertion is a value
  (\<open>Inl\<close>), an enumeration is a datatype. Integers keep their width where the code depends on it; sizes of memory are natural numbers, and allocation
  does not fail. Locked sections and context switches are atomic steps. The kernel, the clock, OpenSSL, \<open>getaddrinfo\<close>, \<open>fnmatch\<close>, \<open>boost::lexical_cast\<close>, \<open>strerror\<close>
  and the YAML library are parameters of the definitions; the laws that proofs need of \<open>recv\<close> and \<open>send\<close> (a positive result counts the bytes) are the
  definitions of their types in \<^verbatim>\<open>Socket\<close>, other laws are named hypotheses.

  \<^bold>\<open>Loops.\<close> Loops over data are structural recursions. Loops that wait for a peer (\<open>recv_loop\<close>, \<open>serve_loop\<close>, \<open>epoll_wait_loop\<close>, \<open>response_loop\<close> and the loops of the streams) are
  \<^theory_text>\<open>partial_function\<close>s or have a measure; that they return is proved in \<^verbatim>\<open>Stream\<close>, \<^verbatim>\<open>HttpSession\<close> and \<^verbatim>\<open>HttpServer\<close>;
  \<open>epoll_wait_loop\<close>, which signals may keep going, is assumed to return where it is used. Fuel is used for the stack depth of
  \<open>ListAllMember\<close>, where any number above the depth of the tree is enough, and as bounded scripts of fibers.

  \<^bold>\<open>What is not modelled.\<close> Singletons are static objects of the language, macros only assert. Elsewhere than in \<^verbatim>\<open>Mutex\<close> a locked section is one atomic step. The logging header is output only. Wide-character conversion, back traces and file functions of \<open>util.cpp\<close> are calls
  of libraries. The examples and tests are not part of the library.
\<close>

end
